(* ===== verification/Prelude.thy ===== *)
theory Prelude
  imports Main "HOL-Library.Word" "HOL-Library.Sublist"
begin

text \<open>
  The prelude of the development: the result type that stands for Go's
  \<open>(value, error)\<close> returns, saturating and wrapping 64-bit arithmetic, clock
  readings, buffered channels, and the collections of facts the component proofs share.
\<close>

named_theorems go_string_simps \<open>facts on the Go string library\<close>
named_theorems inv_intros \<open>introduction rules for component invariants\<close>
named_theorems frame_simps \<open>fields that an operation leaves alone\<close>

section \<open>Results\<close>

type_synonym bytes = string

type_synonym ('e, 'a) result = "'e + 'a"

text \<open>
  \<open>rbind\<close> is the shape \<open>if err != nil { return err }\<close>: the first error ends the
  computation.
\<close>

definition rbind :: "('e, 'a) result \<Rightarrow> ('a \<Rightarrow> ('e, 'b) result) \<Rightarrow> ('e, 'b) result" where
  "rbind r f = (case r of Inl e \<Rightarrow> Inl e | Inr a \<Rightarrow> f a)"

lemma rbind_simps [simp]:
  "rbind (Inl e) f = Inl e"
  "rbind (Inr a) f = f a"
  by (simp_all add: rbind_def)

lemma rbind_eq_Inr [simp]: "(rbind r f = Inr b) \<longleftrightarrow> (\<exists>a. r = Inr a \<and> f a = Inr b)"
  by (cases r) simp_all

lemma rbind_eq_Inl: "(rbind r f = Inl e) \<longleftrightarrow> (r = Inl e \<or> (\<exists>a. r = Inr a \<and> f a = Inl e))"
  by (cases r) simp_all

lemma rbind_assoc: "rbind (rbind r f) g = rbind r (\<lambda>a. rbind (f a) g)"
  by (cases r) simp_all

text \<open>An error of one kind reported as an error of another.\<close>

definition map_err :: "('e \<Rightarrow> 'f) \<Rightarrow> ('e, 'a) result \<Rightarrow> ('f, 'a) result" where
  "map_err h r = (case r of Inl e \<Rightarrow> Inl (h e) | Inr a \<Rightarrow> Inr a)"

lemma map_err_simps [simp]:
  "map_err h (Inl e) = Inl (h e)"
  "map_err h (Inr a) = Inr a"
  by (simp_all add: map_err_def)

lemma map_err_eq_Inr [simp]: "(map_err h r = Inr a) \<longleftrightarrow> (r = Inr a)"
  by (cases r) simp_all

section \<open>64-bit arithmetic\<close>

definition int64_min :: int where "int64_min = - (2 ^ 63)"
definition int64_max :: int where "int64_max = 2 ^ 63 - 1"

text \<open>\<open>time.Time.Sub\<close> saturates at the ends of \<open>time.Duration\<close>.\<close>

definition clamp64 :: "int \<Rightarrow> int" where
  "clamp64 x = max int64_min (min int64_max x)"

lemma clamp64_in_range: "int64_min \<le> clamp64 x \<and> clamp64 x \<le> int64_max"
  by (simp add: clamp64_def int64_min_def int64_max_def)

lemma clamp64_id: "int64_min \<le> x \<Longrightarrow> x \<le> int64_max \<Longrightarrow> clamp64 x = x"
  by (simp add: clamp64_def)

text \<open>A bound well inside the range is decided by the exact difference.\<close>

lemma clamp64_within:
  assumes "0 \<le> d" and "d < int64_max"
  shows "(- d \<le> clamp64 x \<and> clamp64 x \<le> d) \<longleftrightarrow> (- d \<le> x \<and> x \<le> d)"
  using assms by (auto simp: clamp64_def int64_min_def int64_max_def)

section \<open>Clock readings\<close>

text \<open>
  A reading of \<open>time.Now\<close> carries a wall clock and a monotonic clock, both in
  nanoseconds.  \<open>After\<close>, \<open>Equal\<close> and \<open>Add\<close> between such readings work on the
  monotonic part; a difference with a time that has no monotonic part, such as
  \<open>time.UnixMilli\<close>, works on the wall clock.
\<close>

record go_time =
  wall :: int
  monotonic :: int

definition nanos_per_milli :: int where "nanos_per_milli = 1000000"
definition nanos_per_second :: int where "nanos_per_second = 1000000000"

definition time_add :: "go_time \<Rightarrow> int \<Rightarrow> go_time" where
  "time_add t d = \<lparr>wall = wall t + d, monotonic = monotonic t + d\<rparr>"

definition time_after :: "go_time \<Rightarrow> go_time \<Rightarrow> bool" where
  "time_after t u \<longleftrightarrow> monotonic u < monotonic t"

definition time_equal :: "go_time \<Rightarrow> go_time \<Rightarrow> bool" where
  "time_equal t u \<longleftrightarrow> monotonic t = monotonic u"

text \<open>\<open>now.Sub(time.UnixMilli(ms))\<close>.\<close>

definition since_unix_milli :: "go_time \<Rightarrow> int \<Rightarrow> int" where
  "since_unix_milli now ms = clamp64 (wall now - ms * nanos_per_milli)"

lemma mono_time_add [simp]: "monotonic (time_add t d) = monotonic t + d"
  and wall_time_add [simp]: "wall (time_add t d) = wall t + d"
  by (simp_all add: time_add_def)

section \<open>Buffered channels\<close>

text \<open>
  A channel holds what was sent and not yet received, oldest first, up to its capacity.
  \<open>try_send\<close> is a send in a \<open>select\<close> with a \<open>default\<close> branch: a full channel drops
  the value.  A plain send on a full channel blocks; \<open>send_blocks\<close> says when.
\<close>

record 'a chan =
  chan_cap :: nat
  chan_buf :: "'a list"

definition make_chan :: "nat \<Rightarrow> 'a chan" where
  "make_chan n = \<lparr>chan_cap = n, chan_buf = []\<rparr>"

definition send_blocks :: "'a chan \<Rightarrow> bool" where
  "send_blocks c \<longleftrightarrow> chan_cap c \<le> length (chan_buf c)"

definition try_send :: "'a chan \<Rightarrow> 'a \<Rightarrow> 'a chan" where
  "try_send c x = (if send_blocks c then c else c\<lparr>chan_buf := chan_buf c @ [x]\<rparr>)"

definition chan_recv :: "'a chan \<Rightarrow> ('a \<times> 'a chan) option" where
  "chan_recv c = (case chan_buf c of [] \<Rightarrow> None | x # xs \<Rightarrow> Some (x, c\<lparr>chan_buf := xs\<rparr>))"

definition chan_ok :: "'a chan \<Rightarrow> bool" where
  "chan_ok c \<longleftrightarrow> length (chan_buf c) \<le> chan_cap c"

lemma chan_ok_make [simp, inv_intros]: "chan_ok (make_chan n)"
  by (simp add: chan_ok_def make_chan_def)

lemma chan_ok_try_send [inv_intros]: "chan_ok c \<Longrightarrow> chan_ok (try_send c x)"
  by (auto simp: chan_ok_def try_send_def send_blocks_def)

lemma chan_cap_try_send [simp]: "chan_cap (try_send c x) = chan_cap c"
  by (simp add: try_send_def)

lemma chan_buf_try_send:
  "chan_buf (try_send c x) = (if send_blocks c then chan_buf c else chan_buf c @ [x])"
  by (simp add: try_send_def)

section \<open>Lists\<close>

lemma sorted_wrt_snoc:
  "sorted_wrt P (xs @ [x]) \<longleftrightarrow> sorted_wrt P xs \<and> (\<forall>y\<in>set xs. P y x)"
  by (auto simp: sorted_wrt_append)

lemma map_of_filter_fst:
  "map_of (filter (\<lambda>(k, v). k \<noteq> a) xs) = (map_of xs)(a := None)"
  by (induction xs) (auto simp: fun_eq_iff)

lemma length_drop_less: "p \<noteq> [] \<Longrightarrow> prefix p s \<Longrightarrow> length (drop (length p) s) < length s"
  by (cases p; cases s) (auto simp: prefix_def)

end
