(* ===== verification/GoStrings.thy ===== *)
theory GoStrings
  imports Prelude
begin

text \<open>
  The part of Go's \<open>strings\<close>, \<open>strconv\<close> and \<open>encoding/hex\<close> that the sources
  call.  A Go string is a sequence of bytes and so is an Isabelle \<open>string\<close>: a
  \<open>char\<close> is one byte.  Functions of the library that work on runes are written on
  the UTF-8 bytes of the runes concerned.
\<close>

section \<open>Prefixes and substrings\<close>

abbreviation has_prefix :: "string \<Rightarrow> string \<Rightarrow> bool" where
  "has_prefix s p \<equiv> prefix p s"

definition has_suffix :: "string \<Rightarrow> string \<Rightarrow> bool" where
  "has_suffix s p \<longleftrightarrow> prefix (rev p) (rev s)"

lemma has_suffix_iff: "has_suffix s p \<longleftrightarrow> suffix p s"
  by (simp add: has_suffix_def suffix_to_prefix)

fun index_sub :: "string \<Rightarrow> string \<Rightarrow> nat option" where
  "index_sub [] sub = (if sub = [] then Some 0 else None)"
| "index_sub (c # cs) sub =
     (if prefix sub (c # cs) then Some 0 else map_option Suc (index_sub cs sub))"

definition contains :: "string \<Rightarrow> string \<Rightarrow> bool" where
  "contains s sub \<longleftrightarrow> index_sub s sub \<noteq> None"

text \<open>\<open>strings.Cut\<close>: the text before and after the first separator, if there is one.\<close>

definition cut :: "string \<Rightarrow> string \<Rightarrow> (string \<times> string) option" where
  "cut s sep = (case index_sub s sep of None \<Rightarrow> None
     | Some i \<Rightarrow> Some (take i s, drop (i + length sep) s))"

definition cut_prefix :: "string \<Rightarrow> string \<Rightarrow> string option" where
  "cut_prefix s p = (if prefix p s then Some (drop (length p) s) else None)"

lemma index_sub_Some:
  "index_sub s sub = Some i \<Longrightarrow> s = take i s @ sub @ drop (i + length sub) s"
proof (induction s arbitrary: i)
  case (Cons c cs)
  then show ?case by (fastforce simp: prefix_def split: if_splits)
qed (auto split: if_splits)

lemma index_sub_bound: "index_sub s sub = Some i \<Longrightarrow> i + length sub \<le> length s"
proof (induction s arbitrary: i)
  case (Cons c cs)
  then show ?case by (auto dest: prefix_length_le split: if_splits)
qed (auto split: if_splits)

lemma index_sub_None: "index_sub s sub = None \<longleftrightarrow> \<not> sublist sub s"
  by (induction s) (auto simp: sublist_Cons_right)

lemma index_sub_None_iff: "index_sub s sub = None \<longleftrightarrow> (\<forall>a b. s \<noteq> a @ sub @ b)"
  by (simp add: index_sub_None sublist_def)

lemma contains_iff: "contains s sub \<longleftrightarrow> sublist sub s"
  by (simp add: contains_def index_sub_None)

lemma index_sub_first:
  assumes "index_sub s sub = Some i" and "j < i"
  shows "\<not> prefix sub (drop j s)"
  using assms
proof (induction s arbitrary: i j)
  case (Cons c cs)
  then show ?case by (cases j) (auto split: if_splits)
qed (auto split: if_splits)

lemma cut_Some:
  assumes "cut s sep = Some (a, b)"
  shows "s = a @ sep @ b"
  using assms index_sub_Some by (fastforce simp: cut_def split: option.splits)

lemma cut_single:
  assumes "c \<notin> set a"
  shows "cut (a @ c # b) [c] = Some (a, b)"
proof -
  have "index_sub (a @ c # b) [c] = Some (length a)"
    using assms by (induction a) auto
  then show ?thesis by (simp add: cut_def)
qed

lemma cut_prefix_Some: "cut_prefix s p = Some t \<longleftrightarrow> s = p @ t"
  by (auto simp: cut_prefix_def prefix_def)

section \<open>Splitting and joining\<close>

fun split_on :: "char \<Rightarrow> string \<Rightarrow> string list" where
  "split_on d [] = [[]]"
| "split_on d (c # cs) =
     (if c = d then [] # split_on d cs
      else case split_on d cs of [] \<Rightarrow> [[c]] | x # xs \<Rightarrow> (c # x) # xs)"

fun join :: "string \<Rightarrow> string list \<Rightarrow> string" where
  "join sep [] = []"
| "join sep [x] = x"
| "join sep (x # y # ys) = x @ sep @ join sep (y # ys)"

lemma split_on_not_Nil [simp]: "split_on d s \<noteq> []"
  by (induction s) (auto split: list.splits)

lemma join_Cons: "join sep (x # xs) = (if xs = [] then x else x @ sep @ join sep xs)"
  by (cases xs) auto

lemma join_snoc: "es \<noteq> [] \<Longrightarrow> join d (es @ [e]) = join d es @ d @ e"
  by (induction es) (auto simp: join_Cons)

lemma join_split_on: "join [d] (split_on d s) = s"
proof (induction s)
  case (Cons c cs)
  then show ?case by (cases "split_on d cs") (auto simp: join_Cons split: if_splits)
qed simp

lemma split_on_no_sep: "x \<in> set (split_on d s) \<Longrightarrow> d \<notin> set x"
proof (induction s arbitrary: x)
  case (Cons c cs)
  then show ?case by (cases "split_on d cs") (auto split: if_splits)
qed simp

lemma split_on_plain: "d \<notin> set x \<Longrightarrow> split_on d x = [x]"
  by (induction x) auto

lemma split_on_append:
  "d \<notin> set x \<Longrightarrow> split_on d (x @ d # s) = x # split_on d s"
  by (induction x) auto

lemma split_on_join:
  assumes "xs \<noteq> []" and "\<forall>x\<in>set xs. d \<notin> set x"
  shows "split_on d (join [d] xs) = xs"
  using assms
proof (induction xs)
  case (Cons x xs)
  then show ?case by (cases xs) (auto simp: split_on_plain split_on_append)
qed simp

lemma join_inj:
  assumes "xs \<noteq> []" "ys \<noteq> []" "\<forall>x\<in>set xs. d \<notin> set x" "\<forall>y\<in>set ys. d \<notin> set y"
    and "join [d] xs = join [d] ys"
  shows "xs = ys"
  by (metis split_on_join assms)

text \<open>\<open>strings.ReplaceAll(s, "\r\n", "\n")\<close>.\<close>

abbreviation LF :: char where "LF \<equiv> CHR 0x0A"
abbreviation CR :: char where "CR \<equiv> CHR 0x0D"

fun replace_crlf :: "string \<Rightarrow> string" where
  "replace_crlf [] = []"
| "replace_crlf [c] = [c]"
| "replace_crlf (c # d # cs) =
     (if c = CR \<and> d = LF then LF # replace_crlf cs else c # replace_crlf (d # cs))"

lemma replace_crlf_length: "length (replace_crlf s) \<le> length s"
  by (induction s rule: replace_crlf.induct) auto

lemma replace_crlf_id: "CR \<notin> set s \<Longrightarrow> replace_crlf s = s"
  by (induction s rule: replace_crlf.induct) auto

section \<open>White space\<close>

text \<open>
  The UTF-8 encodings of the runes for which \<open>unicode.IsSpace\<close> holds: the ASCII white
  space, U+0085, U+00A0, U+1680, U+2000 to U+200A, U+2028, U+2029, U+202F, U+205F, U+3000.
\<close>

definition space_runes :: "string list" where
  "space_runes =
     [[CHR 0x20], [CHR 0x09], [CHR 0x0A], [CHR 0x0B], [CHR 0x0C], [CHR 0x0D],
      [CHR 0xC2, CHR 0x85], [CHR 0xC2, CHR 0xA0], [CHR 0xE1, CHR 0x9A, CHR 0x80],
      [CHR 0xE2, CHR 0x80, CHR 0x80], [CHR 0xE2, CHR 0x80, CHR 0x81],
      [CHR 0xE2, CHR 0x80, CHR 0x82], [CHR 0xE2, CHR 0x80, CHR 0x83],
      [CHR 0xE2, CHR 0x80, CHR 0x84], [CHR 0xE2, CHR 0x80, CHR 0x85],
      [CHR 0xE2, CHR 0x80, CHR 0x86], [CHR 0xE2, CHR 0x80, CHR 0x87],
      [CHR 0xE2, CHR 0x80, CHR 0x88], [CHR 0xE2, CHR 0x80, CHR 0x89],
      [CHR 0xE2, CHR 0x80, CHR 0x8A], [CHR 0xE2, CHR 0x80, CHR 0xA8],
      [CHR 0xE2, CHR 0x80, CHR 0xA9], [CHR 0xE2, CHR 0x80, CHR 0xAF],
      [CHR 0xE2, CHR 0x81, CHR 0x9F], [CHR 0xE3, CHR 0x80, CHR 0x80]]"

definition leading :: "string list \<Rightarrow> string \<Rightarrow> string option" where
  "leading ps s = find (\<lambda>p. p \<noteq> [] \<and> prefix p s) ps"

lemma leading_Some: "leading ps s = Some p \<Longrightarrow> p \<in> set ps \<and> p \<noteq> [] \<and> prefix p s"
  by (auto simp: leading_def find_Some_iff)

lemma leading_None: "leading ps s = None \<longleftrightarrow> (\<forall>p\<in>set ps. p \<noteq> [] \<longrightarrow> \<not> prefix p s)"
  by (auto simp: leading_def find_None_iff)

function strip_leading :: "string list \<Rightarrow> string \<Rightarrow> string" where
  "strip_leading ps s = (case leading ps s of None \<Rightarrow> s
     | Some p \<Rightarrow> strip_leading ps (drop (length p) s))"
  by pat_completeness auto
termination
  by (relation "measure (length \<circ> snd)")
    (auto dest!: leading_Some dest: length_drop_less simp del: length_drop)

declare strip_leading.simps [simp del]

definition strip_trailing :: "string list \<Rightarrow> string \<Rightarrow> string" where
  "strip_trailing ps s = rev (strip_leading (map rev ps) (rev s))"

definition TrimSpace :: "string \<Rightarrow> string" where
  "TrimSpace s = strip_trailing space_runes (strip_leading space_runes s)"

lemma leading_strip_leading [simp]: "leading ps (strip_leading ps s) = None"
proof (induction ps s rule: strip_leading.induct)
  case (1 ps s)
  then show ?case by (cases "leading ps s") (simp_all add: strip_leading.simps [of ps s])
qed

lemma strip_leading_id: "leading ps s = None \<Longrightarrow> strip_leading ps s = s"
  by (simp add: strip_leading.simps)

lemma strip_leading_suffix: "suffix (strip_leading ps s) s"
proof (induction ps s rule: strip_leading.induct)
  case (1 ps s)
  show ?case
  proof (cases "leading ps s")
    case (Some p)
    then have "suffix (strip_leading ps (drop (length p) s)) (drop (length p) s)"
      using 1 by blast
    then have "suffix (strip_leading ps (drop (length p) s)) s"
      using suffix_drop suffix_order.trans by blast
    with Some show ?thesis by (simp add: strip_leading.simps [of ps s])
  qed (simp add: strip_leading.simps [of ps s])
qed

lemma strip_trailing_prefix: "prefix (strip_trailing ps s) s"
  unfolding strip_trailing_def
  using strip_leading_suffix [of "map rev ps" "rev s"]
  by (simp add: suffix_to_prefix)

lemma leading_prefix_None: "leading ps s = None \<Longrightarrow> prefix t s \<Longrightarrow> leading ps t = None"
  unfolding leading_None by (meson prefix_order.trans)

lemma leading_TrimSpace [simp]: "leading space_runes (TrimSpace s) = None"
  unfolding TrimSpace_def
  by (rule leading_prefix_None [OF leading_strip_leading strip_trailing_prefix])

lemma TrimSpace_idem [simp]: "TrimSpace (TrimSpace s) = TrimSpace s"
proof -
  have "strip_leading space_runes (TrimSpace s) = TrimSpace s"
    by (simp add: strip_leading_id)
  then have "TrimSpace (TrimSpace s) = strip_trailing space_runes (TrimSpace s)"
    by (simp add: TrimSpace_def [of "TrimSpace s"])
  also have "\<dots> = TrimSpace s"
    by (simp add: TrimSpace_def strip_trailing_def strip_leading_id)
  finally show ?thesis .
qed

lemma set_TrimSpace: "set (TrimSpace s) \<subseteq> set s"
  using strip_trailing_prefix [of space_runes "strip_leading space_runes s"]
    strip_leading_suffix [of space_runes s]
  unfolding TrimSpace_def by (meson set_mono_prefix set_mono_suffix subset_trans)

lemma length_TrimSpace: "length (TrimSpace s) \<le> length s"
  using strip_trailing_prefix [of space_runes "strip_leading space_runes s"]
    strip_leading_suffix [of space_runes s]
  unfolding TrimSpace_def by (meson le_trans prefix_length_le suffix_length_le)

text \<open>A string of printable ASCII bytes is its own trim.\<close>

definition graphic :: "char \<Rightarrow> bool" where
  "graphic c \<longleftrightarrow> 0x21 \<le> (of_char c :: nat) \<and> (of_char c :: nat) \<le> 0x7E"

lemma space_rune_ends:
  "p \<in> set space_runes \<Longrightarrow> p \<noteq> [] \<and> \<not> graphic (hd p) \<and> \<not> graphic (last p)"
  by (auto simp: space_runes_def graphic_def)

lemma leading_graphic:
  assumes "s = [] \<or> graphic (hd s)"
  shows "leading space_runes s = None"
  unfolding leading_None using assms space_rune_ends
  by (metis hd_append2 prefix_def prefix_bot.extremum_unique)

lemma leading_rev_graphic:
  assumes "s = [] \<or> graphic (hd s)"
  shows "leading (map rev space_runes) s = None"
  unfolding leading_None using assms space_rune_ends
  by (clarsimp simp: prefix_def) (metis hd_append2 hd_rev rev_is_Nil_conv)

lemma strip_leading_keeps:
  assumes "\<forall>p\<in>set ps. c \<notin> set p" "c \<in> set s"
  shows "c \<in> set (strip_leading ps s)"
  using assms
proof (induction ps s rule: strip_leading.induct)
  case (1 ps s)
  show ?case
  proof (cases "leading ps s")
    case (Some p)
    then obtain r where p: "p \<in> set ps" "s = p @ r" using leading_Some by (metis prefix_def)
    then have "c \<in> set (drop (length p) s)" using 1(2,3) by auto
    then show ?thesis using 1(1) [OF Some] 1(2) Some by (simp add: strip_leading.simps [of ps s])
  qed (use 1 in \<open>simp add: strip_leading.simps [of ps s]\<close>)
qed

lemma TrimSpace_keeps_graphic:
  assumes "c \<in> set s" "graphic c"
  shows "c \<in> set (TrimSpace s)"
proof -
  have "\<forall>p\<in>set space_runes. c \<notin> set p" using assms(2) by (auto simp: space_runes_def graphic_def)
  then show ?thesis using assms(1)
    by (auto simp: TrimSpace_def strip_trailing_def intro!: strip_leading_keeps)
qed

lemma TrimSpace_graphic: "\<forall>c\<in>set s. graphic c \<Longrightarrow> TrimSpace s = s"
proof -
  assume g: "\<forall>c\<in>set s. graphic c"
  then have "leading space_runes s = None"
    by (intro leading_graphic) (cases s; auto)
  moreover from g have "leading (map rev space_runes) (rev s) = None"
    by (intro leading_rev_graphic) (metis hd_in_set set_rev)
  ultimately show ?thesis
    by (simp add: TrimSpace_def strip_trailing_def strip_leading_id)
qed

section \<open>Case mapping\<close>

text \<open>
  \<open>strings.ToLower\<close> and \<open>strings.ToUpper\<close> on ASCII letters, and on the only runes
  outside ASCII that map into it: U+0130 and U+212A have the lower-case forms \<open>i\<close> and
  \<open>k\<close>, U+0131 and U+017F the upper-case forms \<open>I\<close> and \<open>S\<close>.  Every other rune maps
  to a rune outside ASCII and is kept as its bytes: the sources compare the results with
  ASCII constants and hexadecimal digests only, or apply the mapping to an HTTP method,
  which is an ASCII token.
\<close>

definition lower_char :: "char \<Rightarrow> char" where
  "lower_char c = (let n = (of_char c :: nat) in if 65 \<le> n \<and> n \<le> 90 then char_of (n + 32) else c)"

definition upper_char :: "char \<Rightarrow> char" where
  "upper_char c = (let n = (of_char c :: nat) in if 97 \<le> n \<and> n \<le> 122 then char_of (n - 32) else c)"

fun ToLower :: "string \<Rightarrow> string" where
  "ToLower [] = []"
| "ToLower (c # cs) =
     (if prefix [CHR 0xC4, CHR 0xB0] (c # cs) then CHR ''i'' # ToLower (drop 1 cs)
      else if prefix [CHR 0xE2, CHR 0x84, CHR 0xAA] (c # cs) then CHR ''k'' # ToLower (drop 2 cs)
      else lower_char c # ToLower cs)"

fun ToUpper :: "string \<Rightarrow> string" where
  "ToUpper [] = []"
| "ToUpper (c # cs) =
     (if prefix [CHR 0xC4, CHR 0xB1] (c # cs) then CHR ''I'' # ToUpper (drop 1 cs)
      else if prefix [CHR 0xC5, CHR 0xBF] (c # cs) then CHR ''S'' # ToUpper (drop 1 cs)
      else upper_char c # ToUpper cs)"

text \<open>
  \<open>strings.EqualFold\<close>: ASCII letters are folded, and so are the two runes outside ASCII
  that fold into it, U+017F to \<open>s\<close> and U+212A to \<open>k\<close>; any other rune outside ASCII is
  compared as its bytes.
\<close>

fun fold_case :: "string \<Rightarrow> string" where
  "fold_case [] = []"
| "fold_case (c # cs) =
     (if prefix [CHR 0xC5, CHR 0xBF] (c # cs) then CHR ''s'' # fold_case (drop 1 cs)
      else if prefix [CHR 0xE2, CHR 0x84, CHR 0xAA] (c # cs) then CHR ''k'' # fold_case (drop 2 cs)
      else lower_char c # fold_case cs)"

definition EqualFold :: "string \<Rightarrow> string \<Rightarrow> bool" where
  "EqualFold s t \<longleftrightarrow> fold_case s = fold_case t"

definition ascii :: "char \<Rightarrow> bool" where
  "ascii c \<longleftrightarrow> (of_char c :: nat) < 128"

lemma ToLower_ascii: "\<forall>c\<in>set s. ascii c \<Longrightarrow> ToLower s = map lower_char s"
  by (induction s rule: ToLower.induct) (auto simp: ascii_def)

lemma ToUpper_ascii: "\<forall>c\<in>set s. ascii c \<Longrightarrow> ToUpper s = map upper_char s"
  by (induction s rule: ToUpper.induct) (auto simp: ascii_def)

lemma char_of_nat_inverse: "n < 256 \<Longrightarrow> (of_char (char_of n) :: nat) = n"
  by simp

lemma lower_char_idem [simp]: "lower_char (lower_char c) = lower_char c"
  by (auto simp: lower_char_def Let_def)

lemma lower_char_ne: "lower_char c \<noteq> d" if "65 \<le> (of_char d :: nat)" "(of_char d :: nat) \<le> 90"
proof
  assume "lower_char c = d"
  with that show False by (auto simp: lower_char_def Let_def split: if_splits)
qed

section \<open>Single bytes\<close>

text \<open>\<open>strings.TrimLeft\<close> with a one-byte cut set, and the cut that ends at any byte of a set.\<close>

definition trim_left_char :: "char \<Rightarrow> string \<Rightarrow> string" where
  "trim_left_char d s = dropWhile (\<lambda>c. c = d) s"

definition until_any :: "string \<Rightarrow> string \<Rightarrow> string" where
  "until_any cs s = takeWhile (\<lambda>c. c \<notin> set cs) s"

section \<open>Decimal numbers\<close>

definition digit_val :: "char \<Rightarrow> nat option" where
  "digit_val c = (let n = (of_char c :: nat) in if 48 \<le> n \<and> n \<le> 57 then Some (n - 48) else None)"

definition digit_char :: "nat \<Rightarrow> char" where
  "digit_char d = char_of (48 + d)"

lemma digit_val_char [simp]: "d < 10 \<Longrightarrow> digit_val (digit_char d) = Some d"
  by (simp add: digit_val_def digit_char_def)

fun parse_digits :: "nat \<Rightarrow> string \<Rightarrow> nat option" where
  "parse_digits acc [] = Some acc"
| "parse_digits acc (c # cs) = (case digit_val c of None \<Rightarrow> None
     | Some d \<Rightarrow> parse_digits (acc * 10 + d) cs)"

lemma parse_digits_append:
  "parse_digits acc (s @ t) = Option.bind (parse_digits acc s) (\<lambda>a. parse_digits a t)"
  by (induction s arbitrary: acc) (auto split: option.splits)

text \<open>\<open>strconv.ParseUint(s, 10, bits)\<close> and \<open>strconv.ParseInt(s, 10, bits)\<close>; \<open>None\<close> is the error.\<close>

definition ParseUint :: "string \<Rightarrow> nat \<Rightarrow> nat option" where
  "ParseUint s bits = (if s = [] then None else case parse_digits 0 s of None \<Rightarrow> None
     | Some n \<Rightarrow> if n < 2 ^ bits then Some n else None)"

definition ParseInt :: "string \<Rightarrow> nat \<Rightarrow> int option" where
  "ParseInt s bits =
     (case s of [] \<Rightarrow> None
      | c # cs \<Rightarrow>
          let neg = (c = CHR ''-''); body = (if c = CHR ''+'' \<or> neg then cs else s)
          in (case ParseUint body bits of None \<Rightarrow> None
              | Some n \<Rightarrow>
                  if \<not> neg \<and> 2 ^ (bits - 1) \<le> n then None
                  else if neg \<and> 2 ^ (bits - 1) < n then None
                  else Some (if neg then - int n else int n)))"

fun FormatUint :: "nat \<Rightarrow> string" where
  "FormatUint n = (if n < 10 then [digit_char n] else FormatUint (n div 10) @ [digit_char (n mod 10)])"

declare FormatUint.simps [simp del]

text \<open>\<open>strconv.FormatInt\<close> in base ten, and \<open>%d\<close>.\<close>

definition FormatInt :: "int \<Rightarrow> string" where
  "FormatInt i = (if i < 0 then ''-'' @ FormatUint (nat (- i)) else FormatUint (nat i))"

lemma FormatUint_not_Nil [simp]: "FormatUint n \<noteq> []"
  by (subst FormatUint.simps) simp

lemma parse_digits_FormatUint: "parse_digits 0 (FormatUint n) = Some n"
proof (induction n rule: FormatUint.induct)
  case (1 n)
  show ?case
  proof (cases "n < 10")
    case True
    then show ?thesis by (subst FormatUint.simps) simp
  next
    case False
    then have "parse_digits 0 (FormatUint (n div 10)) = Some (n div 10)" using 1 by simp
    with False show ?thesis
      by (subst FormatUint.simps) (simp add: parse_digits_append)
  qed
qed

lemma ParseUint_FormatUint: "n < 2 ^ bits \<Longrightarrow> ParseUint (FormatUint n) bits = Some n"
  by (simp add: ParseUint_def parse_digits_FormatUint)

lemma FormatUint_inj: "FormatUint m = FormatUint n \<longleftrightarrow> m = n"
  by (metis option.inject parse_digits_FormatUint)

lemma graphic_digit_char: "d < 10 \<Longrightarrow> graphic (digit_char d)"
  by (simp add: graphic_def digit_char_def)

lemma FormatUint_graphic: "c \<in> set (FormatUint n) \<Longrightarrow> graphic c"
proof (induction n rule: FormatUint.induct)
  case (1 n)
  then show ?case
    by (cases "n < 10") (auto simp: FormatUint.simps [of n] intro: graphic_digit_char)
qed

lemma parse_digits_chars:
  "parse_digits acc s = Some n \<Longrightarrow> c \<in> set s \<Longrightarrow> digit_val c \<noteq> None"
  by (induction s arbitrary: acc) (auto split: option.splits)

lemma FormatUint_digits: "c \<in> set (FormatUint n) \<Longrightarrow> digit_val c \<noteq> None"
  using parse_digits_chars [OF parse_digits_FormatUint] .

lemma FormatUint_no_sign: "CHR ''-'' \<notin> set (FormatUint n)" "CHR ''+'' \<notin> set (FormatUint n)"
  using FormatUint_digits [of "CHR ''-''" n] FormatUint_digits [of "CHR ''+''" n] by (auto simp: digit_val_def)

lemma ParseInt_FormatUint:
  assumes "n < 2 ^ 63"
  shows "ParseInt (FormatUint n) 64 = Some (int n)"
proof -
  obtain c cs where s: "FormatUint n = c # cs" by (cases "FormatUint n") auto
  have "ParseUint (c # cs) 64 = Some n" using ParseUint_FormatUint [of n 64] assms s by simp
  moreover have "c \<noteq> CHR ''-''" "c \<noteq> CHR ''+''" using FormatUint_no_sign [of n] s by auto
  ultimately show ?thesis using assms by (simp add: ParseInt_def s)
qed

lemma ParseUint_chars: "ParseUint s bits = Some n \<Longrightarrow> c \<in> set s \<Longrightarrow> digit_val c \<noteq> None"
  by (auto simp: ParseUint_def dest: parse_digits_chars split: if_splits option.splits)

lemma ParseInt_chars:
  assumes "ParseInt s bits = Some n" and "c \<in> set s"
  shows "digit_val c \<noteq> None \<or> c = CHR ''+'' \<or> c = CHR ''-''"
proof -
  obtain x xs where s: "s = x # xs" using assms(1) by (cases s) (simp_all add: ParseInt_def)
  with assms(1) obtain m where "ParseUint (if x = CHR ''+'' \<or> x = CHR ''-'' then xs else s) bits = Some m"
    by (auto simp: ParseInt_def Let_def split: option.splits)
  from ParseUint_chars [OF this, of c] assms(2) s show ?thesis
    by (cases "x = CHR ''+'' \<or> x = CHR ''-''") auto
qed

lemma ParseInt_range:
  assumes "ParseInt s bits = Some n" and "0 < bits"
  shows "- (2 ^ (bits - 1)) \<le> n \<and> n < 2 ^ (bits - 1)"
  using assms
  by (auto simp: ParseInt_def Let_def not_le not_less split: list.splits option.splits if_splits
      intro: order_trans [of _ 0] le_less_trans [of _ 0])

section \<open>Hexadecimal\<close>

definition hex_digit :: "nat \<Rightarrow> char" where
  "hex_digit d = (if d < 10 then char_of (48 + d) else char_of (87 + d))"

definition hex_encode :: "bytes \<Rightarrow> string" where
  "hex_encode bs = concat (map (\<lambda>b. [hex_digit (of_char b div 16), hex_digit (of_char b mod 16)]) bs)"

lemma length_hex_encode [simp]: "length (hex_encode bs) = 2 * length bs"
  by (induction bs) (simp_all add: hex_encode_def)

lemma hex_digit_inj: "a < 16 \<Longrightarrow> b < 16 \<Longrightarrow> hex_digit a = hex_digit b \<Longrightarrow> a = b"
proof -
  assume "a < 16" "b < 16" "hex_digit a = hex_digit b"
  then have "(of_char (hex_digit a) :: nat) = of_char (hex_digit b)" by simp
  with \<open>a < 16\<close> \<open>b < 16\<close> show "a = b" by (simp add: hex_digit_def split: if_splits)
qed

lemma hex_encode_inj: "hex_encode a = hex_encode b \<Longrightarrow> a = b"
proof (induction a arbitrary: b)
  case Nil
  then show ?case by (cases b) (simp_all add: hex_encode_def)
next
  case (Cons x xs)
  then obtain y ys where b: "b = y # ys" by (cases b) (simp_all add: hex_encode_def)
  from Cons.prems have "hex_digit (of_char x div 16) = hex_digit (of_char y div 16)"
    "hex_digit (of_char x mod 16) = hex_digit (of_char y mod 16)" "hex_encode xs = hex_encode ys"
    by (simp_all add: b hex_encode_def)
  note eqs = this
  have "(of_char x :: nat) div 16 = of_char y div 16"
    by (rule hex_digit_inj [OF _ _ eqs(1)]) (simp_all add: less_mult_imp_div_less)
  moreover have "(of_char x :: nat) mod 16 = of_char y mod 16"
    by (rule hex_digit_inj [OF _ _ eqs(2)]) simp_all
  ultimately have "(of_char x :: nat) = of_char y" by (metis div_mult_mod_eq)
  with Cons.IH [OF eqs(3)] b show ?case by simp
qed

definition hex_char :: "char \<Rightarrow> bool" where
  "hex_char c \<longleftrightarrow> (let n = (of_char c :: nat) in 48 \<le> n \<and> n \<le> 57 \<or> 97 \<le> n \<and> n \<le> 102)"

lemma hex_digit_char: "d < 16 \<Longrightarrow> hex_char (hex_digit d)"
  by (simp add: hex_char_def hex_digit_def Let_def)

lemma hex_encode_chars: "c \<in> set (hex_encode bs) \<Longrightarrow> hex_char c"
proof (induction bs)
  case (Cons b bs)
  then show ?case
    by (auto simp: hex_encode_def less_mult_imp_div_less intro!: hex_digit_char)
qed (simp add: hex_encode_def)

end
