(* ===== verification/GoCodec.thy ===== *)
theory GoCodec
  imports GoStrings
begin

text \<open>
  \<open>base64.StdEncoding\<close>: encoding, and decoding as Go does it.  The decoder skips carriage
  returns and line feeds anywhere, takes padding only at the end of the last group of
  four, and ignores the unused low bits of the last digit.
\<close>

definition b64_char :: "nat \<Rightarrow> char" where
  "b64_char d = (if d < 26 then char_of (65 + d) else if d < 52 then char_of (71 + d)
     else if d < 62 then char_of (d - 4) else if d = 62 then CHR ''+'' else CHR ''/'')"

definition b64_val :: "char \<Rightarrow> nat option" where
  "b64_val c = (let n = (of_char c :: nat) in
     if 65 \<le> n \<and> n \<le> 90 then Some (n - 65)
     else if 97 \<le> n \<and> n \<le> 122 then Some (n - 71)
     else if 48 \<le> n \<and> n \<le> 57 then Some (n + 4)
     else if n = 43 then Some 62 else if n = 47 then Some 63 else None)"

definition b64_pad :: char where "b64_pad = CHR ''=''"

text \<open>Three bytes make four digits; one or two bytes make a padded group.\<close>

fun b64_encode :: "bytes \<Rightarrow> string" where
  "b64_encode [] = []"
| "b64_encode [x] =
     [b64_char (of_char x div 4), b64_char ((of_char x mod 4) * 16), b64_pad, b64_pad]"
| "b64_encode [x, y] =
     [b64_char (of_char x div 4), b64_char ((of_char x mod 4) * 16 + of_char y div 16),
      b64_char ((of_char y mod 16) * 4), b64_pad]"
| "b64_encode (x # y # z # rest) =
     b64_char (of_char x div 4) # b64_char ((of_char x mod 4) * 16 + of_char y div 16) #
     b64_char ((of_char y mod 16) * 4 + of_char z div 64) # b64_char (of_char z mod 64) #
     b64_encode rest"

definition b64_byte1 :: "nat \<Rightarrow> nat \<Rightarrow> char" where
  "b64_byte1 a b = char_of (a * 4 + b div 16)"
definition b64_byte2 :: "nat \<Rightarrow> nat \<Rightarrow> char" where
  "b64_byte2 b c = char_of ((b mod 16) * 16 + c div 4)"
definition b64_byte3 :: "nat \<Rightarrow> nat \<Rightarrow> char" where
  "b64_byte3 c d = char_of ((c mod 4) * 64 + d)"

fun b64_quads :: "string \<Rightarrow> bytes option" where
  "b64_quads [] = Some []"
| "b64_quads (a # b # c # d # rest) =
     (case (b64_val a, b64_val b) of
        (Some va, Some vb) \<Rightarrow>
          if c = b64_pad then
            (if d = b64_pad \<and> rest = [] then Some [b64_byte1 va vb] else None)
          else (case b64_val c of None \<Rightarrow> None | Some vc \<Rightarrow>
            if d = b64_pad then
              (if rest = [] then Some [b64_byte1 va vb, b64_byte2 vb vc] else None)
            else (case b64_val d of None \<Rightarrow> None | Some vd \<Rightarrow>
              map_option (\<lambda>bs. b64_byte1 va vb # b64_byte2 vb vc # b64_byte3 vc vd # bs)
                (b64_quads rest)))
      | _ \<Rightarrow> None)"
| "b64_quads _ = None"

definition b64_decode :: "string \<Rightarrow> bytes option" where
  "b64_decode s = b64_quads (filter (\<lambda>c. c \<noteq> CR \<and> c \<noteq> LF) s)"

lemma b64_val_char [simp]: "d < 64 \<Longrightarrow> b64_val (b64_char d) = Some d"
  by (simp add: b64_val_def b64_char_def Let_def) arith

lemma b64_char_graphic: "d < 64 \<Longrightarrow> graphic (b64_char d)"
  by (simp add: graphic_def b64_char_def) arith

lemma b64_val_pad [simp]: "b64_val b64_pad = None"
  by (simp add: b64_val_def b64_pad_def)

lemma b64_char_not_pad [simp]: "d < 64 \<Longrightarrow> b64_char d \<noteq> b64_pad"
  by (metis b64_val_char b64_val_pad option.distinct(1))

lemma byte_split [simp]:
  "(of_char x :: nat) div 4 < 64" "(of_char x :: nat) mod 4 * 16 + of_char y div 16 < 64"
  "(of_char x :: nat) mod 16 * 4 + of_char y div 64 < 64"
  "(of_char x :: nat) mod 4 * 16 < 64" "(of_char x :: nat) mod 16 * 4 < 64"
proof -
  have x: "(of_char x :: nat) < 256" and y: "(of_char y :: nat) < 256" by simp_all
  from x show "(of_char x :: nat) div 4 < 64" by arith
  from y have "(of_char y :: nat) div 16 < 16" and "(of_char y :: nat) div 64 < 4" by arith+
  moreover have "(of_char x :: nat) mod 4 < 4" "(of_char x :: nat) mod 16 < 16" by simp_all
  ultimately show "(of_char x :: nat) mod 4 * 16 + of_char y div 16 < 64"
    "(of_char x :: nat) mod 16 * 4 + of_char y div 64 < 64"
    "(of_char x :: nat) mod 4 * 16 < 64" "(of_char x :: nat) mod 16 * 4 < 64"
    by linarith+
qed

lemma b64_join:
  "b64_byte1 (of_char x div 4) ((of_char x mod 4) * 16 + of_char y div 16) = x"
  "b64_byte1 (of_char x div 4) ((of_char x mod 4) * 16) = x"
  "b64_byte2 (k * 16 + of_char y div 16) ((of_char y mod 16) * 4 + of_char z div 64) = y"
  "b64_byte2 (k * 16 + of_char y div 16) ((of_char y mod 16) * 4) = y"
  "b64_byte3 (k * 4 + of_char z div 64) (of_char z mod 64) = z"
proof -
  have x: "(of_char x :: nat) < 256" and y: "(of_char y :: nat) < 256" and z: "(of_char z :: nat) < 256"
    by simp_all
  then have d: "(of_char y :: nat) div 16 < 16" "(of_char z :: nat) div 64 < 4" by arith+
  have [simp]: "((of_char y :: nat) mod 16 * 4 + of_char z div 64) div 4 = of_char y mod 16"
    using d(2) by simp
  show "b64_byte1 (of_char x div 4) ((of_char x mod 4) * 16 + of_char y div 16) = x"
    "b64_byte1 (of_char x div 4) ((of_char x mod 4) * 16) = x"
    using d(1) by (simp_all add: b64_byte1_def)
  show "b64_byte2 (k * 16 + of_char y div 16) ((of_char y mod 16) * 4 + of_char z div 64) = y"
    "b64_byte2 (k * 16 + of_char y div 16) ((of_char y mod 16) * 4) = y"
    using d(1) by (simp_all add: b64_byte2_def)
  show "b64_byte3 (k * 4 + of_char z div 64) (of_char z mod 64) = z"
    using d(2) by (simp add: b64_byte3_def)
qed

lemma b64_quads_encode: "b64_quads (b64_encode bs) = Some bs"
  by (induction bs rule: b64_encode.induct) (simp_all add: b64_join)

lemma b64_encode_graphic: "c \<in> set (b64_encode bs) \<Longrightarrow> graphic c"
  by (induction bs rule: b64_encode.induct)
    (auto simp: b64_char_graphic, simp_all add: graphic_def b64_pad_def)

lemma b64_decode_encode: "b64_decode (b64_encode bs) = Some bs"
proof -
  have "\<forall>c\<in>set (b64_encode bs). c \<noteq> CR \<and> c \<noteq> LF"
    using b64_encode_graphic by (fastforce simp: graphic_def)
  then have "filter (\<lambda>c. c \<noteq> CR \<and> c \<noteq> LF) (b64_encode bs) = b64_encode bs"
    by (simp add: filter_id_conv)
  then show ?thesis by (simp add: b64_decode_def b64_quads_encode)
qed

lemma b64_encode_trim [simp]: "TrimSpace (b64_encode bs) = b64_encode bs"
  by (rule TrimSpace_graphic) (blast intro: b64_encode_graphic)

lemma b64_encode_Nil_iff [simp]: "b64_encode bs = [] \<longleftrightarrow> bs = []"
  by (cases bs rule: b64_encode.cases) simp_all

end
