(* ===== verification/GoFiles.thy ===== *)
theory GoFiles
  imports GoStrings
begin

text \<open>
  Files as the sources see them, and \<open>path/filepath\<close> with the separator of Linux and
  macOS.  What the operating system answers is an argument of the operations: a path holds
  a file that can be read, holds one that cannot, or holds none; a write succeeds, or fails
  and leaves whatever it leaves.
\<close>

section \<open>Files\<close>

datatype file_state = Absent | Unreadable | Content bytes

type_synonym disk = "string \<Rightarrow> file_state"

datatype write_outcome = WriteOK | WriteFailed file_state

definition WriteFile :: "write_outcome \<Rightarrow> string \<Rightarrow> bytes \<Rightarrow> disk \<Rightarrow> bool \<times> disk" where
  "WriteFile w path data d = (case w of
     WriteOK \<Rightarrow> (True, d(path := Content data))
   | WriteFailed st \<Rightarrow> (False, d(path := st)))"

lemma WriteFile_other: "q \<noteq> path \<Longrightarrow> snd (WriteFile w path data d) q = d q"
  by (cases w) (simp_all add: WriteFile_def)

section \<open>Paths\<close>

abbreviation sep :: char where "sep \<equiv> CHR ''/''"

text \<open>
  \<open>filepath.Clean\<close> works on the elements between separators.  The accumulator holds the
  cleaned elements, last first.
\<close>

fun clean_elems :: "bool \<Rightarrow> string list \<Rightarrow> string list \<Rightarrow> string list" where
  "clean_elems rooted acc [] = rev acc"
| "clean_elems rooted acc (e # es) =
     (if e = [] \<or> e = ''.'' then clean_elems rooted acc es
      else if e = ''..'' then
        (case acc of
           a # as \<Rightarrow> if a = ''..'' then clean_elems rooted (e # acc) es else clean_elems rooted as es
         | [] \<Rightarrow> if rooted then clean_elems rooted [] es else clean_elems rooted [e] es)
      else clean_elems rooted (e # acc) es)"

definition IsAbs :: "string \<Rightarrow> bool" where
  "IsAbs p \<longleftrightarrow> has_prefix p [sep]"

definition Clean :: "string \<Rightarrow> string" where
  "Clean p =
     (let body = join [sep] (clean_elems (IsAbs p) [] (split_on sep p))
      in if IsAbs p then sep # body else if body = [] then ''.'' else body)"

fun Join :: "string list \<Rightarrow> string" where
  "Join [] = []"
| "Join (e # es) = (if e = [] then Join es else Clean (join [sep] (e # es)))"

definition last_elem :: "string \<Rightarrow> string" where
  "last_elem p = rev (takeWhile (\<lambda>c. c \<noteq> sep) (rev p))"

definition Base :: "string \<Rightarrow> string" where
  "Base p = (if p = [] then ''.''
     else let q = rev (dropWhile (\<lambda>c. c = sep) (rev p))
          in if q = [] then [sep] else last_elem q)"

definition Dir :: "string \<Rightarrow> string" where
  "Dir p = Clean (rev (dropWhile (\<lambda>c. c \<noteq> sep) (rev p)))"

text \<open>\<open>filepath.Abs\<close>; the working directory is what \<open>os.Getwd\<close> returns, if it succeeds.\<close>

definition Abs :: "string option \<Rightarrow> string \<Rightarrow> string option" where
  "Abs cwd p = (if IsAbs p then Some (Clean p)
     else case cwd of None \<Rightarrow> None | Some d \<Rightarrow> Some (Join [d, p]))"

text \<open>The elements of a clean rooted path: no empty, dot or dot-dot element.\<close>

definition plain_elem :: "string \<Rightarrow> bool" where
  "plain_elem e \<longleftrightarrow> e \<noteq> [] \<and> e \<noteq> ''.'' \<and> e \<noteq> ''..'' \<and> sep \<notin> set e"

lemma clean_elems_plain:
  assumes "\<forall>a\<in>set acc. plain_elem a" and "\<forall>e\<in>set es. sep \<notin> set e"
  shows "\<forall>e\<in>set (clean_elems True acc es). plain_elem e"
  using assms
proof (induction es arbitrary: acc)
  case (Cons e es)
  consider "e = [] \<or> e = ''.''" | "e = ''..''" | "plain_elem e"
    using Cons.prems(2) by (auto simp: plain_elem_def)
  then obtain acc' where "clean_elems True acc (e # es) = clean_elems True acc' es"
    and "\<forall>a\<in>set acc'. plain_elem a"
  proof cases
    case 1
    then show thesis using that [of acc] Cons.prems(1) by auto
  next
    case 2
    have "clean_elems True acc (e # es) = clean_elems True (drop 1 acc) es"
      using 2 Cons.prems(1) by (cases acc) (simp_all add: plain_elem_def)
    moreover have "\<forall>a\<in>set (drop 1 acc). plain_elem a"
      using Cons.prems(1) by (meson in_set_dropD)
    ultimately show thesis by (rule that)
  next
    case 3
    then have "e \<noteq> []" "e \<noteq> ''.''" "e \<noteq> ''..''" by (simp_all add: plain_elem_def)
    then have "clean_elems True acc (e # es) = clean_elems True (e # acc) es" by simp
    moreover have "\<forall>a\<in>set (e # acc). plain_elem a" using 3 Cons.prems(1) by simp
    ultimately show thesis by (rule that)
  qed
  moreover have "\<forall>e\<in>set es. sep \<notin> set e" using Cons.prems(2) by simp
  ultimately show ?case using Cons.IH by metis
qed simp

lemma clean_elems_id:
  assumes "\<forall>e\<in>set es. plain_elem e"
  shows "clean_elems rooted acc es = rev acc @ es"
  using assms by (induction es arbitrary: acc) (auto simp: plain_elem_def)

lemma clean_elems_skip: "clean_elems r acc ([] # es) = clean_elems r acc es"
  by simp

text \<open>A cleaned rooted path is rooted, and cleaning it again changes nothing.\<close>

lemma IsAbs_Clean [simp]: "IsAbs p \<Longrightarrow> IsAbs (Clean p)"
  by (simp add: Clean_def IsAbs_def Let_def)

lemma split_on_rooted: "split_on sep (sep # s) = [] # split_on sep s"
  by simp

lemma Clean_idem_rooted:
  assumes "IsAbs p"
  shows "Clean (Clean p) = Clean p"
proof -
  let ?es = "clean_elems True [] (split_on sep p)"
  have plain: "\<forall>e\<in>set ?es. plain_elem e"
    by (rule clean_elems_plain) (auto dest: split_on_no_sep)
  have c: "Clean p = sep # join [sep] ?es" using assms by (simp add: Clean_def)
  have "clean_elems True [] (split_on sep (sep # join [sep] ?es)) = ?es"
  proof (cases "?es = []")
    case False
    then have "split_on sep (join [sep] ?es) = ?es"
      by (rule split_on_join) (use plain in \<open>auto simp: plain_elem_def\<close>)
    then show ?thesis using clean_elems_id [OF plain, of True "[]"] by simp
  qed simp
  then show ?thesis unfolding c by (simp add: Clean_def IsAbs_def)
qed

lemma Clean_plain_elems:
  assumes "\<forall>e\<in>set es. plain_elem e" "es \<noteq> []"
  shows "Clean (sep # join [sep] es) = sep # join [sep] es"
proof -
  have "split_on sep (join [sep] es) = es"
    using assms by (intro split_on_join) (auto simp: plain_elem_def)
  then show ?thesis using clean_elems_id [OF assms(1), of True "[]"] by (simp add: Clean_def IsAbs_def)
qed

text \<open>The last element of a path, if it is plain, survives cleaning.\<close>

lemma split_on_last: "split_on d (x @ d # y) = split_on d x @ split_on d y"
proof (induction x)
  case (Cons c cs)
  then show ?case by (cases "split_on d cs") auto
qed simp

lemma clean_elems_last: "plain_elem e \<Longrightarrow> clean_elems r acc (es @ [e]) = clean_elems r acc es @ [e]"
  by (induction r acc es rule: clean_elems.induct) (auto simp: plain_elem_def split: list.splits)

lemma Clean_last_inj:
  assumes "plain_elem a" "plain_elem b" "Clean (p @ sep # a) = Clean (p @ sep # b)"
  shows "a = b"
proof -
  have split: "split_on sep (p @ sep # x) = split_on sep p @ [x]" if "plain_elem x" for x
    using that by (simp add: split_on_last split_on_plain plain_elem_def)
  have r: "IsAbs (p @ sep # a) = IsAbs (p @ sep # b)" by (cases p) (simp_all add: IsAbs_def)
  let ?es = "clean_elems (IsAbs (p @ sep # a)) [] (split_on sep p)"
  have j: "join [sep] (?es @ [x]) = (if ?es = [] then [] else join [sep] ?es @ [sep]) @ x" for x
    by (simp add: join_snoc)
  have "join [sep] (?es @ [x]) \<noteq> []" if "plain_elem x" for x
    using that unfolding j by (simp add: plain_elem_def)
  then have "join [sep] (?es @ [a]) = join [sep] (?es @ [b])"
    using assms r by (auto simp: Clean_def Let_def split clean_elems_last split: if_splits)
  then show ?thesis unfolding j by simp
qed

text \<open>A further element below a clean rooted path.\<close>

lemma Clean_elems: "IsAbs p \<Longrightarrow> \<exists>es. (\<forall>e\<in>set es. plain_elem e) \<and> Clean p = sep # join [sep] es"
  using clean_elems_plain [of "[]" "split_on sep p"] by (auto simp: Clean_def Let_def dest: split_on_no_sep)

lemma Join_below:
  assumes "IsAbs p" "Clean p = p" "p \<noteq> [sep]" "plain_elem e"
  shows "Join [p, e] = p @ sep # e"
proof -
  obtain es where es: "\<forall>e\<in>set es. plain_elem e" "p = sep # join [sep] es"
    using Clean_elems [OF assms(1)] assms(2) by auto
  then have "es \<noteq> []" using assms(3) by auto
  then have "p @ sep # e = sep # join [sep] (es @ [e])" using es(2) by (simp add: join_snoc)
  moreover have "Clean (sep # join [sep] (es @ [e])) = sep # join [sep] (es @ [e])"
    using es(1) assms(4) by (intro Clean_plain_elems) auto
  ultimately show ?thesis using es(2) by simp
qed

lemma Abs_rooted:
  assumes "Abs cwd p = Some q" and "\<forall>d. cwd = Some d \<longrightarrow> IsAbs d"
  shows "IsAbs q"
proof (cases "IsAbs p")
  case False
  with assms obtain d where d: "cwd = Some d" "q = Join [d, p]" "IsAbs d"
    by (auto simp: Abs_def split: option.splits)
  then have "IsAbs (d @ [sep] @ p)" and "d \<noteq> []" by (cases d; auto simp: IsAbs_def)+
  with d show ?thesis by (simp add: IsAbs_Clean)
qed (use assms in \<open>auto simp: Abs_def\<close>)

lemma Abs_idem: "IsAbs p \<Longrightarrow> Abs cwd p = Some q \<Longrightarrow> Abs cwd' q = Some q"
  by (auto simp: Abs_def Clean_idem_rooted)

end
