(* ===== verification/KeyManager.thy ===== *)
theory KeyManager
  imports GoCodec GoFiles
begin

text \<open>
  The key manager of \<open>route/auth/auth.go\<close>: the ring of at most two Ed25519 public keys
  (current and previous) and the local principal the service is bound to, with the files
  they are kept in.  The cryptographic and the JSON and PEM packages are parameters, the
  record \<open>auth_lib\<close>.
\<close>

section \<open>Data\<close>

record AuthorizedPrincipal =
  PType :: string
  PValue :: string

record storedPublicKey =
  KeyID :: string
  PublicKey :: string

record keyRing =
  Current :: "storedPublicKey option"
  Previous :: "storedPublicKey option"

record KeyManager =
  publicKeys :: "string \<rightharpoonup> bytes"
  currentKey :: "storedPublicKey option"
  previousKey :: "storedPublicKey option"
  authorizedPrincipal :: "AuthorizedPrincipal option"
  keyRingPath :: string
  legacyKeyPath :: string
  principalPath :: string

datatype auth_error =
    MkdirFailed
  | InitErrors "auth_error list"
  | KeyIDEmpty | KeyIDTooLong | KeyIDFormat | KeyIDMismatch | KeyNotRegistered
  | PublicKeyEmpty | PublicKeyBase64 | PublicKeyParse | NotEd25519
  | LegacyMissing | LegacyUnreadable | PEMInvalid
  | RingUnreadable | RingMalformed | CurrentKeyMissing | RingSaveFailed
  | PrincipalNil | UIDEmpty | UIDFormat | SIDEmpty | SIDFormat | PrincipalTypeUnsupported string
  | PrincipalMissing | PrincipalUnreadable | PrincipalMalformed | PrincipalSaveFailed
  | SignatureBase64 | SignatureInvalid
  | PeerError string | PeerUnknown | PrincipalTypeMismatch | PrincipalValueMismatch

text \<open>
  What \<open>x509.ParsePKIXPublicKey\<close> returns: an Ed25519 key (its bytes) or a key of another
  kind.
\<close>

datatype pkix_key = Ed25519 bytes | OtherKey

record auth_lib =
  sha256_sum :: "bytes \<Rightarrow> bytes"
  ParsePKIXPublicKey :: "bytes \<Rightarrow> pkix_key option"
  ed25519_verify :: "bytes \<Rightarrow> bytes \<Rightarrow> bytes \<Rightarrow> bool"
  pem_decode :: "bytes \<Rightarrow> bytes option"
  marshal_ring :: "keyRing \<Rightarrow> bytes"
  unmarshal_ring :: "bytes \<Rightarrow> keyRing option"
  marshal_principal :: "AuthorizedPrincipal \<Rightarrow> bytes"
  unmarshal_principal :: "bytes \<Rightarrow> AuthorizedPrincipal option"

definition emptyKeyManager :: KeyManager where
  "emptyKeyManager = \<lparr>publicKeys = Map.empty, currentKey = None, previousKey = None,
     authorizedPrincipal = None, keyRingPath = [], legacyKeyPath = [], principalPath = []\<rparr>"

section \<open>Keys\<close>

definition key_id_char :: "char \<Rightarrow> bool" where
  "key_id_char c \<longleftrightarrow> (let n = (of_char c :: nat) in
     97 \<le> n \<and> n \<le> 122 \<or> 65 \<le> n \<and> n \<le> 90 \<or> 48 \<le> n \<and> n \<le> 57) \<or>
     c = CHR ''-'' \<or> c = CHR ''_'' \<or> c = CHR ''.''"

definition validateKeyID :: "string \<Rightarrow> (auth_error, string) result" where
  "validateKeyID keyID =
     (let normalized = TrimSpace keyID in
      if normalized = [] then Inl KeyIDEmpty
      else if length normalized > 128 then Inl KeyIDTooLong
      else if list_all key_id_char normalized then Inr normalized
      else Inl KeyIDFormat)"

definition computeKeyID :: "auth_lib \<Rightarrow> string \<Rightarrow> (auth_error, string) result" where
  "computeKeyID lib pubKeyBase64 =
     (case b64_decode (TrimSpace pubKeyBase64) of
        None \<Rightarrow> Inl PublicKeyBase64
      | Some keyBytes \<Rightarrow> Inr (hex_encode (sha256_sum lib keyBytes)))"

definition parsePublicKey :: "auth_lib \<Rightarrow> string \<Rightarrow> (auth_error, string \<times> bytes) result" where
  "parsePublicKey lib pubKeyBase64 =
     (let normalized = TrimSpace pubKeyBase64 in
      if normalized = [] then Inl PublicKeyEmpty
      else case b64_decode normalized of
        None \<Rightarrow> Inl PublicKeyBase64
      | Some pubKeyBytes \<Rightarrow>
          (case ParsePKIXPublicKey lib pubKeyBytes of
             None \<Rightarrow> Inl PublicKeyParse
           | Some OtherKey \<Rightarrow> Inl NotEd25519
           | Some (Ed25519 edPub) \<Rightarrow> Inr (normalized, edPub)))"

definition sameStoredPublicKey ::
  "storedPublicKey option \<Rightarrow> storedPublicKey option \<Rightarrow> bool" where
  "sameStoredPublicKey left right =
     (case (left, right) of
        (Some l, Some r) \<Rightarrow> KeyID l = KeyID r \<and> PublicKey l = PublicKey r
      | (None, None) \<Rightarrow> True
      | _ \<Rightarrow> False)"

definition normalizeStoredPublicKey ::
  "auth_lib \<Rightarrow> storedPublicKey option \<Rightarrow> (auth_error, storedPublicKey option) result" where
  "normalizeStoredPublicKey lib stored =
     (case stored of
        None \<Rightarrow> Inr None
      | Some k \<Rightarrow>
          rbind (parsePublicKey lib (PublicKey k)) (\<lambda>(normalizedPublicKey, _).
          rbind (computeKeyID lib normalizedPublicKey) (\<lambda>computedKeyID.
            let keyID = TrimSpace (KeyID k) in
            if keyID = [] then
              Inr (Some \<lparr>KeyID = computedKeyID, PublicKey = normalizedPublicKey\<rparr>)
            else
              rbind (validateKeyID keyID) (\<lambda>validID.
                if validID \<noteq> computedKeyID then Inl KeyIDMismatch
                else Inr (Some \<lparr>KeyID = validID, PublicKey = normalizedPublicKey\<rparr>)))))"

text \<open>The map of \<open>refreshPublicKeysLocked\<close>, built anew from the two stored keys.\<close>

definition add_key ::
  "auth_lib \<Rightarrow> storedPublicKey option \<Rightarrow> (string \<rightharpoonup> bytes) \<Rightarrow> (auth_error, string \<rightharpoonup> bytes) result" where
  "add_key lib stored keys =
     (case stored of
        None \<Rightarrow> Inr keys
      | Some k \<Rightarrow> rbind (parsePublicKey lib (PublicKey k)) (\<lambda>(_, pub). Inr (keys(KeyID k \<mapsto> pub))))"

definition ring_map ::
  "auth_lib \<Rightarrow> storedPublicKey option \<Rightarrow> storedPublicKey option \<Rightarrow> (auth_error, string \<rightharpoonup> bytes) result" where
  "ring_map lib cur prev = rbind (add_key lib cur Map.empty) (add_key lib prev)"

definition refreshPublicKeysLocked ::
  "auth_lib \<Rightarrow> KeyManager \<Rightarrow> auth_error option \<times> KeyManager" where
  "refreshPublicKeysLocked lib km =
     (case ring_map lib (currentKey km) (previousKey km) of
        Inl e \<Rightarrow> (Some e, km)
      | Inr keys \<Rightarrow> (None, km\<lparr>publicKeys := keys\<rparr>))"

definition savePublicKeysLocked ::
  "auth_lib \<Rightarrow> write_outcome \<Rightarrow> KeyManager \<Rightarrow> disk \<Rightarrow> auth_error option \<times> disk" where
  "savePublicKeysLocked lib w km d =
     (let data = marshal_ring lib \<lparr>Current = currentKey km, Previous = previousKey km\<rparr>;
          (ok, d') = WriteFile w (keyRingPath km) data d
      in (if ok then None else Some RingSaveFailed, d'))"

definition loadLegacyPublicKeyLocked ::
  "auth_lib \<Rightarrow> disk \<Rightarrow> KeyManager \<Rightarrow> (auth_error, storedPublicKey) result" where
  "loadLegacyPublicKeyLocked lib d km =
     (case d (legacyKeyPath km) of
        Absent \<Rightarrow> Inl LegacyMissing
      | Unreadable \<Rightarrow> Inl LegacyUnreadable
      | Content pubKeyPEM \<Rightarrow>
          (case pem_decode lib pubKeyPEM of
             None \<Rightarrow> Inl PEMInvalid
           | Some block \<Rightarrow>
               (case ParsePKIXPublicKey lib block of
                  None \<Rightarrow> Inl PublicKeyParse
                | Some _ \<Rightarrow>
                    let publicKey = b64_encode block in
                    rbind (computeKeyID lib publicKey) (\<lambda>keyID.
                      Inr \<lparr>KeyID = keyID, PublicKey = publicKey\<rparr>))))"

definition loadPublicKeys ::
  "auth_lib \<Rightarrow> disk \<Rightarrow> KeyManager \<Rightarrow> auth_error option \<times> KeyManager" where
  "loadPublicKeys lib d km =
     (case d (keyRingPath km) of
        Content data \<Rightarrow>
          (case unmarshal_ring lib data of
             None \<Rightarrow> (Some RingMalformed, km)
           | Some ring \<Rightarrow>
               (case normalizeStoredPublicKey lib (Current ring) of
                  Inl e \<Rightarrow> (Some e, km)
                | Inr None \<Rightarrow> (Some CurrentKeyMissing, km)
                | Inr (Some cur) \<Rightarrow>
                    (case normalizeStoredPublicKey lib (Previous ring) of
                       Inl e \<Rightarrow> (Some e, km)
                     | Inr prev \<Rightarrow>
                         refreshPublicKeysLocked lib
                           (km\<lparr>currentKey := Some cur,
                               previousKey :=
                                 (if sameStoredPublicKey (Some cur) prev then None else prev)\<rparr>))))
      | Unreadable \<Rightarrow> (Some RingUnreadable, km)
      | Absent \<Rightarrow>
          (case loadLegacyPublicKeyLocked lib d km of
             Inl e \<Rightarrow> (Some e, km)
           | Inr legacyKey \<Rightarrow>
               refreshPublicKeysLocked lib (km\<lparr>currentKey := Some legacyKey, previousKey := None\<rparr>)))"

definition SetPublicKey ::
  "auth_lib \<Rightarrow> write_outcome \<Rightarrow> string \<Rightarrow> KeyManager \<Rightarrow> disk \<Rightarrow>
   (auth_error, bool) result \<times> KeyManager \<times> disk" where
  "SetPublicKey lib w pubKeyBase64 km d =
     (case rbind (parsePublicKey lib pubKeyBase64) (\<lambda>(normalizedPublicKey, _).
             rbind (computeKeyID lib normalizedPublicKey) (\<lambda>keyID.
               Inr \<lparr>KeyID = keyID, PublicKey = normalizedPublicKey\<rparr>)) of
        Inl e \<Rightarrow> (Inl e, km, d)
      | Inr nextCurrentKey \<Rightarrow>
          if sameStoredPublicKey (currentKey km) (Some nextCurrentKey) then (Inr False, km, d)
          else
            let previousCurrentKey = currentKey km;
                previousPreviousKey = previousKey km;
                km1 = km\<lparr>currentKey := Some nextCurrentKey,
                         previousKey :=
                           (if previousCurrentKey \<noteq> None \<and>
                               \<not> sameStoredPublicKey previousCurrentKey (Some nextCurrentKey)
                            then previousCurrentKey else None)\<rparr>
            in (case refreshPublicKeysLocked lib km1 of
                  (Some e, km2) \<Rightarrow>
                    (Inl e,
                     snd (refreshPublicKeysLocked lib
                       (km2\<lparr>currentKey := previousCurrentKey, previousKey := previousPreviousKey\<rparr>)), d)
                | (None, km2) \<Rightarrow>
                    (case savePublicKeysLocked lib w km2 d of
                       (Some e, d') \<Rightarrow>
                         (Inl e,
                          snd (refreshPublicKeysLocked lib
                            (km2\<lparr>currentKey := previousCurrentKey,
                                 previousKey := previousPreviousKey\<rparr>)), d')
                     | (None, d') \<Rightarrow> (Inr True, km2, d'))))"

section \<open>The bound principal\<close>

definition validateAuthorizedPrincipal ::
  "AuthorizedPrincipal option \<Rightarrow> (auth_error, AuthorizedPrincipal) result" where
  "validateAuthorizedPrincipal pr =
     (case pr of
        None \<Rightarrow> Inl PrincipalNil
      | Some p0 \<Rightarrow>
          let p = \<lparr>PType = TrimSpace (PType p0), PValue = TrimSpace (PValue p0)\<rparr> in
          if PType p = ''uid'' then
            (if PValue p = [] then Inl UIDEmpty
             else case ParseUint (PValue p) 32 of None \<Rightarrow> Inl UIDFormat | Some _ \<Rightarrow> Inr p)
          else if PType p = ''sid'' then
            (if PValue p = [] then Inl SIDEmpty
             else if \<not> has_prefix (PValue p) ''S-'' then Inl SIDFormat
             else Inr p)
          else Inl (PrincipalTypeUnsupported (PType p)))"

definition sameAuthorizedPrincipal ::
  "AuthorizedPrincipal option \<Rightarrow> AuthorizedPrincipal option \<Rightarrow> bool" where
  "sameAuthorizedPrincipal left right =
     (case (left, right) of
        (Some l, Some r) \<Rightarrow> PType l = PType r \<and> PValue l = PValue r
      | (None, None) \<Rightarrow> True
      | _ \<Rightarrow> False)"

definition setAuthorizedPrincipal ::
  "auth_lib \<Rightarrow> write_outcome \<Rightarrow> AuthorizedPrincipal \<Rightarrow> KeyManager \<Rightarrow> disk \<Rightarrow>
   (auth_error, bool) result \<times> KeyManager \<times> disk" where
  "setAuthorizedPrincipal lib w pr km d =
     (case validateAuthorizedPrincipal (Some pr) of
        Inl e \<Rightarrow> (Inl e, km, d)
      | Inr p \<Rightarrow>
          if sameAuthorizedPrincipal (authorizedPrincipal km) (Some p) then (Inr False, km, d)
          else
            let (ok, d') = WriteFile w (principalPath km) (marshal_principal lib p) d
            in if ok then (Inr True, km\<lparr>authorizedPrincipal := Some p\<rparr>, d')
               else (Inl PrincipalSaveFailed, km, d'))"

definition SetAuthorizedUID ::
  "auth_lib \<Rightarrow> write_outcome \<Rightarrow> 32 word \<Rightarrow> KeyManager \<Rightarrow> disk \<Rightarrow>
   (auth_error, bool) result \<times> KeyManager \<times> disk" where
  "SetAuthorizedUID lib w uid =
     setAuthorizedPrincipal lib w \<lparr>PType = ''uid'', PValue = FormatUint (unat uid)\<rparr>"

definition SetAuthorizedSID ::
  "auth_lib \<Rightarrow> write_outcome \<Rightarrow> string \<Rightarrow> KeyManager \<Rightarrow> disk \<Rightarrow>
   (auth_error, bool) result \<times> KeyManager \<times> disk" where
  "SetAuthorizedSID lib w sid =
     setAuthorizedPrincipal lib w \<lparr>PType = ''sid'', PValue = TrimSpace sid\<rparr>"

definition loadAuthorizedPrincipal ::
  "auth_lib \<Rightarrow> disk \<Rightarrow> KeyManager \<Rightarrow> auth_error option \<times> KeyManager" where
  "loadAuthorizedPrincipal lib d km =
     (case d (principalPath km) of
        Absent \<Rightarrow> (Some PrincipalMissing, km)
      | Unreadable \<Rightarrow> (Some PrincipalUnreadable, km)
      | Content data \<Rightarrow>
          (case unmarshal_principal lib data of
             None \<Rightarrow> (Some PrincipalMalformed, km)
           | Some p \<Rightarrow>
               (case validateAuthorizedPrincipal (Some p) of
                  Inl e \<Rightarrow> (Some e, km)
                | Inr p' \<Rightarrow> (None, km\<lparr>authorizedPrincipal := Some p'\<rparr>))))"

definition InitKeyManager ::
  "auth_lib \<Rightarrow> bool \<Rightarrow> string \<Rightarrow> disk \<Rightarrow> KeyManager \<Rightarrow> auth_error option \<times> KeyManager" where
  "InitKeyManager lib mkdir_ok keyDir d km0 =
     (let km = km0\<lparr>keyRingPath := Join [keyDir, ''public_keys.json''],
                   legacyKeyPath := Join [keyDir, ''public_key.pem''],
                   principalPath := Join [keyDir, ''authorized_principal.json'']\<rparr>
      in if \<not> mkdir_ok then (Some MkdirFailed, km)
         else
           let (e1, km1) = loadPublicKeys lib d km;
               (e2, km2) = loadAuthorizedPrincipal lib d km1;
               errs = (case e1 of None \<Rightarrow> [] | Some e \<Rightarrow> [e]) @ (case e2 of None \<Rightarrow> [] | Some e \<Rightarrow> [e])
           in (if errs \<noteq> [] then Some (InitErrors errs) else None, km2))"

section \<open>Checks\<close>

definition VerifySignature ::
  "auth_lib \<Rightarrow> KeyManager \<Rightarrow> string \<Rightarrow> bytes \<Rightarrow> string \<Rightarrow> auth_error option" where
  "VerifySignature lib km keyID message signature =
     (case validateKeyID keyID of
        Inl e \<Rightarrow> Some e
      | Inr normalizedKeyID \<Rightarrow>
          (case publicKeys km normalizedKeyID of
             None \<Rightarrow> Some KeyNotRegistered
           | Some publicKey \<Rightarrow>
               (case b64_decode signature of
                  None \<Rightarrow> Some SignatureBase64
                | Some sig \<Rightarrow>
                    if ed25519_verify lib publicKey message sig then None
                    else Some SignatureInvalid)))"

definition IsInitialized :: "KeyManager \<Rightarrow> bool" where
  "IsInitialized km = (case currentKey km of None \<Rightarrow> False | Some k \<Rightarrow> KeyID k \<noteq> [])"

definition HasAuthorizedPrincipal :: "KeyManager \<Rightarrow> bool" where
  "HasAuthorizedPrincipal km \<longleftrightarrow> authorizedPrincipal km \<noteq> None"

definition GetAuthorizedSID :: "KeyManager \<Rightarrow> string option" where
  "GetAuthorizedSID km = (case authorizedPrincipal km of
     None \<Rightarrow> None | Some p \<Rightarrow> if PType p \<noteq> ''sid'' then None else Some (PValue p))"

definition GetAuthorizedUID :: "KeyManager \<Rightarrow> 32 word option" where
  "GetAuthorizedUID km = (case authorizedPrincipal km of
     None \<Rightarrow> None
   | Some p \<Rightarrow> if PType p \<noteq> ''uid'' then None
       else map_option of_nat (ParseUint (PValue p) 32))"

text \<open>
  Who is at the other end of the connection: the identity the operating system reports for
  the peer.  \<open>UnixPeer\<close> stands for the credentials of a Unix socket on Linux and macOS,
  \<open>PipePeer\<close> for a named pipe on Windows, whose security identifier is read by
  impersonation and may fail.
\<close>

datatype peer = NoPeer | UnixPeer "32 word" | PipePeer "(string, string) result"

definition getRequestPrincipal :: "peer \<Rightarrow> (auth_error, (string \<times> string) option) result" where
  "getRequestPrincipal p = (case p of
     NoPeer \<Rightarrow> Inr None
   | UnixPeer uid \<Rightarrow> Inr (Some (''uid'', FormatUint (unat uid)))
   | PipePeer (Inl e) \<Rightarrow> Inl (PeerError e)
   | PipePeer (Inr sid) \<Rightarrow> Inr (Some (''sid'', sid)))"

definition VerifyRequestPrincipal :: "KeyManager \<Rightarrow> peer \<Rightarrow> auth_error option" where
  "VerifyRequestPrincipal km p =
     (case authorizedPrincipal km of
        None \<Rightarrow> None
      | Some pr \<Rightarrow>
          (case getRequestPrincipal p of
             Inl e \<Rightarrow> Some e
           | Inr None \<Rightarrow> Some PeerUnknown
           | Inr (Some (requestType, requestValue)) \<Rightarrow>
               if requestType \<noteq> PType pr then Some PrincipalTypeMismatch
               else if requestValue \<noteq> PValue pr then Some PrincipalValueMismatch
               else None))"

section \<open>The invariant\<close>

text \<open>
  A stored key is in order when its text is trimmed and parses as an Ed25519 key and its
  identifier is the one computed from it.  A manager is in order when both stored keys are
  and the lookup map is the one \<open>refreshPublicKeysLocked\<close> builds from them.
\<close>

definition stored_ok :: "auth_lib \<Rightarrow> storedPublicKey \<Rightarrow> bool" where
  "stored_ok lib k \<longleftrightarrow>
     (\<exists>pub. parsePublicKey lib (PublicKey k) = Inr (PublicKey k, pub)) \<and>
     computeKeyID lib (PublicKey k) = Inr (KeyID k)"

definition km_inv :: "auth_lib \<Rightarrow> KeyManager \<Rightarrow> bool" where
  "km_inv lib km \<longleftrightarrow> pred_option (stored_ok lib) (currentKey km) \<and>
     pred_option (stored_ok lib) (previousKey km) \<and>
     ring_map lib (currentKey km) (previousKey km) = Inr (publicKeys km)"

lemma km_inv_empty [inv_intros]: "km_inv lib emptyKeyManager"
  by (simp add: km_inv_def emptyKeyManager_def ring_map_def add_key_def)

lemma parsePublicKey_normal:
  assumes "parsePublicKey lib s = Inr (n, pub)"
  shows "n = TrimSpace s" and "parsePublicKey lib n = Inr (n, pub)"
  using assms
  by (auto simp: parsePublicKey_def Let_def split: if_splits option.splits pkix_key.splits)

text \<open>The key that \<open>SetPublicKey\<close> and the loaders put into the ring.\<close>

lemma parsed_stored_ok:
  assumes "parsePublicKey lib s = Inr (n, pub)" and "computeKeyID lib n = Inr i"
  shows "stored_ok lib \<lparr>KeyID = i, PublicKey = n\<rparr>"
  using parsePublicKey_normal [OF assms(1)] assms(2) by (auto simp: stored_ok_def)

lemma parsePublicKey_computeKeyID:
  assumes "parsePublicKey lib s = Inr (n, pub)"
  shows "\<exists>i. computeKeyID lib n = Inr i"
  using assms
  by (auto simp: parsePublicKey_def computeKeyID_def Let_def split: if_splits option.splits pkix_key.splits)

lemma add_key_ok:
  assumes "pred_option (stored_ok lib) k"
  shows "\<exists>m'. add_key lib k m = Inr m'"
  using assms by (cases k) (auto simp: add_key_def stored_ok_def)

lemma ring_map_ok:
  assumes "pred_option (stored_ok lib) cur" and "pred_option (stored_ok lib) prev"
  shows "\<exists>m. ring_map lib cur prev = Inr m"
  using add_key_ok [OF assms(1), of Map.empty] add_key_ok [OF assms(2)]
  by (auto simp: ring_map_def)

lemma refresh_ok:
  assumes "pred_option (stored_ok lib) (currentKey km)"
    and "pred_option (stored_ok lib) (previousKey km)"
  obtains m where "refreshPublicKeysLocked lib km = (None, km\<lparr>publicKeys := m\<rparr>)"
    and "km_inv lib (km\<lparr>publicKeys := m\<rparr>)"
proof -
  from ring_map_ok [OF assms] obtain m where m: "ring_map lib (currentKey km) (previousKey km) = Inr m" ..
  then have "refreshPublicKeysLocked lib km = (None, km\<lparr>publicKeys := m\<rparr>)"
    by (simp add: refreshPublicKeysLocked_def)
  moreover have "km_inv lib (km\<lparr>publicKeys := m\<rparr>)"
    using assms m by (simp add: km_inv_def)
  ultimately show thesis by (rule that)
qed

lemma normalizeStored_ok:
  assumes "normalizeStoredPublicKey lib k = Inr k'"
  shows "pred_option (stored_ok lib) k'"
  using assms
  by (auto simp: normalizeStoredPublicKey_def Let_def split: option.splits if_splits
      intro: parsed_stored_ok)

text \<open>A stored key in order is a fixed point of the normalisation that loading applies.\<close>

lemma hex_char_key_id: "hex_char c \<Longrightarrow> key_id_char c"
  by (auto simp: hex_char_def key_id_char_def Let_def)

lemma hex_char_graphic: "hex_char c \<Longrightarrow> graphic c"
  by (auto simp: hex_char_def graphic_def Let_def)

lemma key_id_char_graphic: "key_id_char c \<Longrightarrow> graphic c"
  by (auto simp: key_id_char_def graphic_def Let_def)

lemma validateKeyID_hex:
  assumes "bs \<noteq> []" and "length bs \<le> 64"
  shows "validateKeyID (hex_encode bs) = Inr (hex_encode bs)"
proof -
  have "TrimSpace (hex_encode bs) = hex_encode bs"
    by (rule TrimSpace_graphic) (blast dest: hex_encode_chars hex_char_graphic)
  moreover have "hex_encode bs \<noteq> []"
    using assms(1) length_hex_encode [of bs] by fastforce
  moreover have "list_all key_id_char (hex_encode bs)"
    by (auto simp: list_all_iff dest: hex_encode_chars hex_char_key_id)
  ultimately show ?thesis using assms by (simp add: validateKeyID_def Let_def)
qed

lemma validateKeyID_Inr:
  assumes "validateKeyID k = Inr n"
  shows "n = TrimSpace k" "n \<noteq> []" "length n \<le> 128" "\<forall>c\<in>set n. key_id_char c"
  using assms by (auto simp: validateKeyID_def Let_def list_all_iff split: if_splits)

lemma validateKeyID_idem: "validateKeyID k = Inr n \<Longrightarrow> validateKeyID n = Inr n"
  by (auto simp: validateKeyID_def Let_def split: if_splits)

text \<open>The digest of \<open>crypto/sha256\<close> has 32 bytes: the one fact about it that loading needs.\<close>

definition sha256_size :: "auth_lib \<Rightarrow> bool" where
  "sha256_size lib \<longleftrightarrow> (\<forall>bs. length (sha256_sum lib bs) = 32)"

lemma stored_ok_KeyID:
  assumes "stored_ok lib k" and "sha256_size lib"
  shows "validateKeyID (KeyID k) = Inr (KeyID k)" and "KeyID k \<noteq> []"
proof -
  from assms(1) obtain bs where k: "hex_encode (sha256_sum lib bs) = KeyID k"
    by (auto simp: stored_ok_def computeKeyID_def split: option.splits)
  have l: "length (sha256_sum lib bs) = 32" using assms(2) by (simp add: sha256_size_def)
  then have "sha256_sum lib bs \<noteq> []" by (metis list.size(3) zero_neq_numeral)
  with l show "validateKeyID (KeyID k) = Inr (KeyID k)"
    unfolding k [symmetric] by (intro validateKeyID_hex) simp_all
  then show "KeyID k \<noteq> []" using validateKeyID_Inr(2) by blast
qed

lemma normalizeStored_fixed:
  assumes "pred_option (stored_ok lib) k" and "sha256_size lib"
  shows "normalizeStoredPublicKey lib k = Inr k"
proof (cases k)
  case (Some x)
  with assms have x: "stored_ok lib x" by simp
  note v = stored_ok_KeyID [OF x assms(2)]
  then have "TrimSpace (KeyID x) = KeyID x" using validateKeyID_Inr(1) by metis
  with x v Some show ?thesis
    by (cases x) (auto simp: normalizeStoredPublicKey_def stored_ok_def Let_def)
qed (simp add: normalizeStoredPublicKey_def)

section \<open>Loading\<close>

text \<open>
  Loading a key ring keeps the invariant whatever the file holds: every error leaves the
  manager as it was.  A legacy PEM key is only checked to be some PKIX key before it is
  installed, so the invariant survives a legacy load only when that key is an Ed25519 key.
\<close>

lemma loadPublicKeys_inv:
  assumes "km_inv lib km" and "d (keyRingPath km) \<noteq> Absent"
  shows "km_inv lib (snd (loadPublicKeys lib d km))"
proof (cases "d (keyRingPath km)")
  case (Content data)
  show ?thesis
  proof (cases "\<exists>ring cur prev. unmarshal_ring lib data = Some ring \<and>
      normalizeStoredPublicKey lib (Current ring) = Inr (Some cur) \<and>
      normalizeStoredPublicKey lib (Previous ring) = Inr prev")
    case True
    then obtain ring cur prev where r: "unmarshal_ring lib data = Some ring"
      "normalizeStoredPublicKey lib (Current ring) = Inr (Some cur)"
      "normalizeStoredPublicKey lib (Previous ring) = Inr prev" by blast
    let ?km = "km\<lparr>currentKey := Some cur,
      previousKey := (if sameStoredPublicKey (Some cur) prev then None else prev)\<rparr>"
    have "pred_option (stored_ok lib) (currentKey ?km)" "pred_option (stored_ok lib) (previousKey ?km)"
      using normalizeStored_ok [OF r(2)] normalizeStored_ok [OF r(3)] by simp_all
    then obtain m where "refreshPublicKeysLocked lib ?km = (None, ?km\<lparr>publicKeys := m\<rparr>)"
      "km_inv lib (?km\<lparr>publicKeys := m\<rparr>)" by (rule refresh_ok)
    then show ?thesis using Content r by (simp add: loadPublicKeys_def)
  next
    case False
    then have "snd (loadPublicKeys lib d km) = km"
      using Content by (auto simp: loadPublicKeys_def split: option.splits sum.splits)
    then show ?thesis using assms(1) by simp
  qed
qed (use assms in \<open>auto simp: loadPublicKeys_def\<close>)

lemma loadLegacy_stored:
  assumes "loadLegacyPublicKeyLocked lib d km = Inr k"
  obtains block where "PublicKey k = b64_encode block"
    "ParsePKIXPublicKey lib block \<noteq> None" "computeKeyID lib (PublicKey k) = Inr (KeyID k)"
  using assms
  by (auto simp: loadLegacyPublicKeyLocked_def Let_def split: file_state.splits option.splits)

lemma frame_refresh [frame_simps]:
  "currentKey (snd (refreshPublicKeysLocked lib km)) = currentKey km"
  "previousKey (snd (refreshPublicKeysLocked lib km)) = previousKey km"
  "authorizedPrincipal (snd (refreshPublicKeysLocked lib km)) = authorizedPrincipal km"
  "keyRingPath (snd (refreshPublicKeysLocked lib km)) = keyRingPath km"
  "principalPath (snd (refreshPublicKeysLocked lib km)) = principalPath km"
  "legacyKeyPath (snd (refreshPublicKeysLocked lib km)) = legacyKeyPath km"
  by (simp_all add: refreshPublicKeysLocked_def split: sum.splits)

section \<open>Rotation\<close>

text \<open>The three outcomes of \<open>SetPublicKey\<close> on a manager in order.\<close>

lemma SetPublicKey_cases:
  assumes "km_inv lib km"
  obtains (refused) e where "SetPublicKey lib w pk km d = (Inl e, km, d)"
  | (same) "SetPublicKey lib w pk km d = (Inr False, km, d)"
  | (unsaved) d' where "SetPublicKey lib w pk km d = (Inl RingSaveFailed, km, d')"
      "w \<noteq> WriteOK" "\<forall>q. q \<noteq> keyRingPath km \<longrightarrow> d' q = d q"
  | (rotated) new km' where "SetPublicKey lib w pk km d =
        (Inr True, km', d(keyRingPath km :=
           Content (marshal_ring lib \<lparr>Current = Some new, Previous = currentKey km\<rparr>)))"
      "stored_ok lib new" "PublicKey new = TrimSpace pk" "currentKey km \<noteq> Some new"
      "currentKey km' = Some new" "previousKey km' = currentKey km" "km_inv lib km'"
      "keyRingPath km' = keyRingPath km" "principalPath km' = principalPath km"
      "authorizedPrincipal km' = authorizedPrincipal km"
      "w = WriteOK"
proof (cases "parsePublicKey lib pk")
  case (Inl e)
  then show thesis using refused [of e] by (simp add: SetPublicKey_def)
next
  case (Inr np)
  then obtain n pub where p: "parsePublicKey lib pk = Inr (n, pub)" by (cases np) auto
  then obtain i where i: "computeKeyID lib n = Inr i" using parsePublicKey_computeKeyID by blast
  let ?new = "\<lparr>KeyID = i, PublicKey = n\<rparr>"
  have new: "stored_ok lib ?new" by (rule parsed_stored_ok [OF p i])
  have n: "n = TrimSpace pk" using parsePublicKey_normal(1) [OF p] .
  show thesis
  proof (cases "sameStoredPublicKey (currentKey km) (Some ?new)")
    case True
    then show thesis using same p i by (simp add: SetPublicKey_def)
  next
    case False
    then have ne: "currentKey km \<noteq> Some ?new" by (auto simp: sameStoredPublicKey_def)
    let ?km1 = "km\<lparr>currentKey := Some ?new, previousKey := currentKey km\<rparr>"
    have prev: "(if currentKey km \<noteq> None \<and> \<not> sameStoredPublicKey (currentKey km) (Some ?new)
        then currentKey km else None) = currentKey km"
      using False by (cases "currentKey km") simp_all
    have "pred_option (stored_ok lib) (currentKey ?km1)" "pred_option (stored_ok lib) (previousKey ?km1)"
      using new assms by (simp_all add: km_inv_def)
    then obtain m where m: "refreshPublicKeysLocked lib ?km1 = (None, ?km1\<lparr>publicKeys := m\<rparr>)"
      "km_inv lib (?km1\<lparr>publicKeys := m\<rparr>)" by (rule refresh_ok)
    have restored: "snd (refreshPublicKeysLocked lib
        (?km1\<lparr>publicKeys := m, currentKey := currentKey km, previousKey := previousKey km\<rparr>)) = km"
      using assms by (simp add: km_inv_def refreshPublicKeysLocked_def)
    show thesis
    proof (cases w)
      case WriteOK
      then show thesis
        using rotated [of "?km1\<lparr>publicKeys := m\<rparr>" ?new] p i False prev m new n ne
        by (simp add: SetPublicKey_def savePublicKeysLocked_def WriteFile_def Let_def)
    next
      case (WriteFailed st)
      then show thesis
        using unsaved [of "d(keyRingPath km := st)"] p i False prev m restored
        by (simp add: SetPublicKey_def savePublicKeysLocked_def WriteFile_def Let_def)
    qed
  qed
qed

end
