(* ===== verification/NonceStore.thy ===== *)
theory NonceStore
  imports Prelude
begin

text \<open>
  The replay memory of \<open>route/auth/middleware.go\<close>: the map of nonces with their expiry
  and the queue that evicts them, and the contract it keeps, a locale that the
  authentication proofs rest on.
\<close>

section \<open>The store\<close>

record nonceEntry =
  entry_key :: string
  expiresAt :: go_time

record nonceStore =
  ttl :: int
  seen :: "string \<rightharpoonup> go_time"
  order :: "nonceEntry list"

definition newNonceStore :: "int \<Rightarrow> nonceStore" where
  "newNonceStore t = \<lparr>ttl = t, seen = Map.empty, order = []\<rparr>"

text \<open>The loop of \<open>evictExpiredLocked\<close>: from the front, until an entry is still alive.\<close>

fun evict_loop ::
  "go_time \<Rightarrow> (string \<rightharpoonup> go_time) \<Rightarrow> nonceEntry list \<Rightarrow> (string \<rightharpoonup> go_time) \<times> nonceEntry list" where
  "evict_loop now s [] = (s, [])"
| "evict_loop now s (e # es) =
     (if time_after (expiresAt e) now then (s, e # es)
      else evict_loop now
        (case s (entry_key e) of
           Some current \<Rightarrow> if time_equal current (expiresAt e) then s(entry_key e := None) else s
         | None \<Rightarrow> s) es)"

definition evictExpiredLocked :: "go_time \<Rightarrow> nonceStore \<Rightarrow> nonceStore" where
  "evictExpiredLocked now st =
     (let (s, es) = evict_loop now (seen st) (order st) in st\<lparr>seen := s, order := es\<rparr>)"

definition Remember :: "string \<Rightarrow> go_time \<Rightarrow> nonceStore \<Rightarrow> bool \<times> nonceStore" where
  "Remember key now st0 =
     (let st = evictExpiredLocked now st0 in
      if (case seen st key of None \<Rightarrow> False | Some e \<Rightarrow> time_after e now) then (False, st)
      else let e = time_add now (ttl st) in
        (True, st\<lparr>seen := (seen st)(key \<mapsto> e),
                  order := order st @ [\<lparr>entry_key = key, expiresAt = e\<rparr>]\<rparr>))"

section \<open>The contract\<close>

text \<open>
  What a client of a replay memory relies on, in terms of the expiry \<open>live s k\<close> the memory
  still knows for a key: a key is accepted exactly when it is not known or has expired; an
  accepted key is known until \<open>ttl\<close> later; other keys are forgotten only once expired.
\<close>

locale replay_memory =
  fixes remember :: "'k \<Rightarrow> go_time \<Rightarrow> 's \<Rightarrow> bool \<times> 's"
    and live :: "'s \<Rightarrow> 'k \<Rightarrow> int option"
    and span :: "'s \<Rightarrow> int"
  assumes span_kept: "span (snd (remember k t s)) = span s"
    and accepts_iff: "fst (remember k t s) \<longleftrightarrow> (\<forall>e. live s k = Some e \<longrightarrow> e \<le> monotonic t)"
    and accepted_live: "fst (remember k t s) \<Longrightarrow> live (snd (remember k t s)) k = Some (monotonic t + span s)"
    and forgets_expired: "k' \<noteq> k \<or> \<not> fst (remember k t s) \<Longrightarrow> live s k' = Some e \<Longrightarrow> monotonic t < e \<Longrightarrow>
      live (snd (remember k t s)) k' = Some e"
begin

lemma live_kept:
  assumes "live s k = Some e" and "monotonic t < e"
  shows "live (snd (remember k' t s)) k = Some e"
proof (cases "k = k'")
  case True
  then have "\<not> fst (remember k' t s)" using accepts_iff [of k' t s] assms by force
  then show ?thesis using forgets_expired assms by blast
next
  case False
  then show ?thesis using forgets_expired assms by blast
qed

lemma live_refused: "live s k = Some e \<Longrightarrow> monotonic t < e \<Longrightarrow> \<not> fst (remember k t s)"
  using accepts_iff [of k t s] by force

text \<open>A run of other requests, each with its own key and time, before the expiry.\<close>

lemma live_run_kept:
  assumes "live s k = Some e" and "\<forall>(k', t)\<in>set xs. monotonic t < e"
  shows "live (fold (\<lambda>(k', t) s. snd (remember k' t s)) xs s) k = Some e"
  using assms
proof (induction xs arbitrary: s)
  case (Cons x xs)
  then show ?case by (cases x) (auto intro: live_kept)
qed simp

lemma accepted_then_refused:
  assumes "fst (remember k t s)" and "\<forall>(k', t')\<in>set xs. monotonic t' < monotonic t + span s"
    and "monotonic u < monotonic t + span s"
  shows "\<not> fst (remember k u (fold (\<lambda>(k', t) s. snd (remember k' t s)) xs (snd (remember k t s))))"
  using live_run_kept [OF accepted_live [OF assms(1)] assms(2)] assms(3) by (rule live_refused)

end

section \<open>The store keeps the contract\<close>

definition nonce_live :: "nonceStore \<Rightarrow> string \<Rightarrow> int option" where
  "nonce_live st k = map_option monotonic (seen st k)"

lemma evict_loop_seen:
  "fst (evict_loop now s es) k = s k \<or>
   (fst (evict_loop now s es) k = None \<and> (\<exists>e. s k = Some e \<and> monotonic e \<le> monotonic now))"
proof (induction now s es rule: evict_loop.induct)
  case (2 now s e es)
  show ?case
  proof (cases "time_after (expiresAt e) now")
    case False
    let ?s = "case s (entry_key e) of
        Some current \<Rightarrow> if time_equal current (expiresAt e) then s(entry_key e := None) else s
      | None \<Rightarrow> s"
    have "?s k = s k \<or> (?s k = None \<and> (\<exists>e. s k = Some e \<and> monotonic e \<le> monotonic now))"
      using False by (auto simp: time_after_def time_equal_def split: option.splits)
    with 2 False show ?thesis by auto
  qed simp
qed simp

lemma evict_fields [simp, frame_simps]:
  "seen (evictExpiredLocked now st) = fst (evict_loop now (seen st) (order st))"
  "order (evictExpiredLocked now st) = snd (evict_loop now (seen st) (order st))"
  "ttl (evictExpiredLocked now st) = ttl st"
  by (simp_all add: evictExpiredLocked_def case_prod_unfold Let_def)

lemma evict_seen:
  "seen (evictExpiredLocked now st) k = seen st k \<or>
   (seen (evictExpiredLocked now st) k = None \<and> (\<exists>e. seen st k = Some e \<and> monotonic e \<le> monotonic now))"
  using evict_loop_seen [of now "seen st" "order st" k] by simp

lemma Remember_accepts:
  "fst (Remember k now st) \<longleftrightarrow> (\<forall>e. seen st k = Some e \<longrightarrow> monotonic e \<le> monotonic now)"
proof -
  have "fst (Remember k now st) \<longleftrightarrow>
      (\<forall>e. seen (evictExpiredLocked now st) k = Some e \<longrightarrow> monotonic e \<le> monotonic now)"
    by (auto simp: Remember_def Let_def time_after_def not_less split: option.splits if_splits
        simp del: evict_fields)
  with evict_seen [of now st k] show ?thesis by (auto simp del: evict_fields)
qed

interpretation nonces: replay_memory Remember nonce_live ttl
proof
  fix k t st
  show "ttl (snd (Remember k t st)) = ttl st"
    by (simp add: Remember_def Let_def)
  show "fst (Remember k t st) \<longleftrightarrow> (\<forall>e. nonce_live st k = Some e \<longrightarrow> e \<le> monotonic t)"
    by (auto simp: Remember_accepts nonce_live_def)
  show "fst (Remember k t st) \<Longrightarrow> nonce_live (snd (Remember k t st)) k = Some (monotonic t + ttl st)"
    by (auto simp: Remember_def Let_def nonce_live_def split: if_splits)
next
  fix k k' t st e
  assume "k' \<noteq> k \<or> \<not> fst (Remember k t st)" "nonce_live st k' = Some e" "monotonic t < e"
  then show "nonce_live (snd (Remember k t st)) k' = Some e"
    using evict_seen [of t st k']
    by (auto simp: Remember_def Let_def nonce_live_def split: if_splits)
qed

section \<open>Memory\<close>

text \<open>
  With a clock that does not run backwards the queue is sorted, every known nonce is in it,
  and after an eviction at time \<open>t\<close> nothing that expired by \<open>t\<close> is left.
\<close>

definition nonce_inv :: "go_time \<Rightarrow> nonceStore \<Rightarrow> bool" where
  "nonce_inv now st \<longleftrightarrow> 0 \<le> ttl st \<and>
     sorted_wrt (\<lambda>a b. monotonic (expiresAt a) \<le> monotonic (expiresAt b)) (order st) \<and>
     (\<forall>e\<in>set (order st). monotonic (expiresAt e) \<le> monotonic now + ttl st) \<and>
     (\<forall>k t. seen st k = Some t \<longrightarrow> (\<exists>e\<in>set (order st). entry_key e = k \<and> monotonic (expiresAt e) = monotonic t))"

lemma nonce_inv_new [inv_intros]: "0 \<le> t \<Longrightarrow> nonce_inv now (newNonceStore t)"
  by (simp add: nonce_inv_def newNonceStore_def)

lemma evict_loop_order:
  "snd (evict_loop now s es) = dropWhile (\<lambda>e. \<not> time_after (expiresAt e) now) es"
  by (induction es arbitrary: s) auto

lemma evict_loop_inv:
  assumes "\<forall>k t. s k = Some t \<longrightarrow> (\<exists>e\<in>set es. entry_key e = k \<and> monotonic (expiresAt e) = monotonic t)"
  shows "\<forall>k t. fst (evict_loop now s es) k = Some t \<longrightarrow>
    (\<exists>e\<in>set (snd (evict_loop now s es)). entry_key e = k \<and> monotonic (expiresAt e) = monotonic t)"
  using assms
proof (induction now s es rule: evict_loop.induct)
  case (2 now s e es)
  show ?case
  proof (cases "time_after (expiresAt e) now")
    case False
    let ?s = "case s (entry_key e) of
        Some current \<Rightarrow> if time_equal current (expiresAt e) then s(entry_key e := None) else s
      | None \<Rightarrow> s"
    have "\<forall>k t. ?s k = Some t \<longrightarrow> (\<exists>e\<in>set es. entry_key e = k \<and> monotonic (expiresAt e) = monotonic t)"
    proof (intro allI impI)
      fix k t
      assume k: "?s k = Some t"
      then have "s k = Some t" by (auto split: option.splits if_splits)
      with 2(2) obtain x where x: "x \<in> set (e # es)" "entry_key x = k" "monotonic (expiresAt x) = monotonic t"
        by blast
      moreover have "\<not> (entry_key e = k \<and> monotonic (expiresAt e) = monotonic t)"
        using k by (auto simp: time_equal_def split: option.splits if_splits)
      ultimately show "\<exists>e\<in>set es. entry_key e = k \<and> monotonic (expiresAt e) = monotonic t" by auto
    qed
    with 2(1) False show ?thesis by simp
  qed (use 2 in simp)
qed simp

lemma evict_inv:
  assumes "nonce_inv now0 st" and "monotonic now0 \<le> monotonic now"
  shows "nonce_inv now (evictExpiredLocked now st)"
    and "\<forall>e\<in>set (order (evictExpiredLocked now st)). monotonic now < monotonic (expiresAt e)"
proof -
  let ?es = "dropWhile (\<lambda>e. \<not> time_after (expiresAt e) now) (order st)"
  have o: "order (evictExpiredLocked now st) = ?es"
    by (simp add: evict_loop_order)
  have srt: "sorted_wrt (\<lambda>a b. monotonic (expiresAt a) \<le> monotonic (expiresAt b)) ?es"
    using assms(1) by (simp add: nonce_inv_def sorted_wrt_dropWhile)
  have sub: "set ?es \<subseteq> set (order st)" by (meson set_dropWhileD subsetI)
  have "\<forall>k t. seen (evictExpiredLocked now st) k = Some t \<longrightarrow>
      (\<exists>e\<in>set ?es. entry_key e = k \<and> monotonic (expiresAt e) = monotonic t)"
    using evict_loop_inv [of "seen st" "order st" now] assms(1)
    by (simp add: evict_loop_order nonce_inv_def)
  moreover have "\<forall>e\<in>set ?es. monotonic (expiresAt e) \<le> monotonic now + ttl st"
    using assms sub by (fastforce simp: nonce_inv_def)
  ultimately show "nonce_inv now (evictExpiredLocked now st)"
    using assms(1) srt by (simp add: nonce_inv_def o evict_loop_order)
  show "\<forall>e\<in>set (order (evictExpiredLocked now st)). monotonic now < monotonic (expiresAt e)"
  proof (cases ?es)
    case (Cons x xs)
    then have "time_after (expiresAt x) now"
      using hd_dropWhile [of "\<lambda>e. \<not> time_after (expiresAt e) now" "order st"] by simp
    with srt Cons show ?thesis by (auto simp: time_after_def o simp del: evict_fields)
  next
    case Nil
    then show ?thesis unfolding o by (simp only: list.set ball_empty)
  qed
qed

lemma Remember_inv:
  assumes "nonce_inv now0 st" and "monotonic now0 \<le> monotonic now"
  shows "nonce_inv now (snd (Remember k now st))"
proof -
  let ?st = "evictExpiredLocked now st"
  note inv = evict_inv [OF assms]
  have "nonce_inv now (?st\<lparr>seen := (seen ?st)(k \<mapsto> time_add now (ttl ?st)),
      order := order ?st @ [\<lparr>entry_key = k, expiresAt = time_add now (ttl ?st)\<rparr>]\<rparr>)"
    using inv(1) by (auto simp: nonce_inv_def sorted_wrt_snoc)
  with inv(1) show ?thesis by (simp add: Remember_def Let_def)
qed

text \<open>
  The replay memory forgets: with a clock that does not run backwards, right after a
  request at time \<open>now\<close> every nonce the store still holds was accepted less than one
  lifetime ago, so the memory is bounded by the requests of the last lifetime.
\<close>

theorem Remember_bounded:
  assumes "nonce_inv now0 st" and "monotonic now0 \<le> monotonic now" and "0 < ttl st"
    and "seen (snd (Remember k now st)) n = Some e"
  shows "monotonic now < monotonic e \<and> monotonic e \<le> monotonic now + ttl st"
proof -
  have inv: "nonce_inv now (snd (Remember k now st))" by (rule Remember_inv [OF assms(1,2)])
  have live: "\<forall>x\<in>set (order (snd (Remember k now st))). monotonic now < monotonic (expiresAt x)"
    using evict_inv(2) [OF assms(1,2)] assms(3)
    by (auto simp: Remember_def Let_def simp del: evict_fields(1,2))
  from inv assms(4) obtain x where "x \<in> set (order (snd (Remember k now st)))"
    "monotonic (expiresAt x) = monotonic e" unfolding nonce_inv_def by blast
  with live inv show ?thesis by (auto simp: nonce_inv_def nonces.span_kept)
qed

theorem Remember_bounded_witness:
  "seen (snd (Remember ''b'' \<lparr>wall = 70, monotonic = 70\<rparr>
      (snd (Remember ''a'' \<lparr>wall = 5, monotonic = 5\<rparr> (newNonceStore 60))))) ''b'' =
    Some \<lparr>wall = 130, monotonic = 130\<rparr> \<and> (70::int) < 130 \<and> (130::int) \<le> 70 + 60"
proof -
  let ?t = "\<lparr>wall = 5, monotonic = 5\<rparr>" and ?u = "\<lparr>wall = 70, monotonic = 70\<rparr>"
  let ?st = "snd (Remember ''a'' ?t (newNonceStore 60))"
  have inv: "nonce_inv ?t ?st" by (rule Remember_inv [OF nonce_inv_new [of 60 ?t]]) simp_all
  have s: "seen (snd (Remember ''b'' ?u ?st)) ''b'' = Some \<lparr>wall = 130, monotonic = 130\<rparr>" by code_simp
  have "ttl ?st = 60" by code_simp
  with Remember_bounded [OF inv _ _ s] s show ?thesis by simp
qed

end
