(* ===== verification/CanonicalQuery.thy ===== *)
theory CanonicalQuery
  imports GoStrings "HOL-Library.Multiset" "HOL-Library.List_Lexorder" "HOL-Library.Char_ord"
begin

text \<open>
  The canonical query string of \<open>route/auth/middleware.go\<close>, with the functions of
  \<open>net/url\<close> it uses: \<open>ParseQuery\<close>, \<open>QueryUnescape\<close> and \<open>QueryEscape\<close>.
\<close>

section \<open>Escaping\<close>

definition unreserved :: "char \<Rightarrow> bool" where
  "unreserved c \<longleftrightarrow> (let n = (of_char c :: nat) in
     97 \<le> n \<and> n \<le> 122 \<or> 65 \<le> n \<and> n \<le> 90 \<or> 48 \<le> n \<and> n \<le> 57) \<or>
     c = CHR ''-'' \<or> c = CHR ''_'' \<or> c = CHR ''.'' \<or> c = CHR ''~''"

definition upper_hex :: "nat \<Rightarrow> char" where
  "upper_hex d = (if d < 10 then char_of (48 + d) else char_of (55 + d))"

definition escape_char :: "char \<Rightarrow> string" where
  "escape_char c = (if unreserved c then [c] else if c = CHR '' '' then ''+''
     else [CHR ''%'', upper_hex (of_char c div 16), upper_hex (of_char c mod 16)])"

definition QueryEscape :: "string \<Rightarrow> string" where
  "QueryEscape s = concat (map escape_char s)"

definition hex_val :: "char \<Rightarrow> nat option" where
  "hex_val c = (let n = (of_char c :: nat) in
     if 48 \<le> n \<and> n \<le> 57 then Some (n - 48)
     else if 97 \<le> n \<and> n \<le> 102 then Some (n - 87)
     else if 65 \<le> n \<and> n \<le> 70 then Some (n - 55) else None)"

fun QueryUnescape :: "string \<Rightarrow> string option" where
  "QueryUnescape [] = Some []"
| "QueryUnescape (c # cs) =
     (if c = CHR ''%'' then
        (case cs of
           h # l # rest \<Rightarrow>
             (case (hex_val h, hex_val l) of
                (Some a, Some b) \<Rightarrow> map_option (Cons (char_of (a * 16 + b))) (QueryUnescape rest)
              | _ \<Rightarrow> None)
         | _ \<Rightarrow> None)
      else map_option (Cons (if c = CHR ''+'' then CHR '' '' else c)) (QueryUnescape cs))"

lemma hex_val_upper [simp]: "d < 16 \<Longrightarrow> hex_val (upper_hex d) = Some d"
  by (simp add: hex_val_def upper_hex_def Let_def)

lemma unreserved_plain: "unreserved c \<Longrightarrow> c \<noteq> CHR ''%'' \<and> c \<noteq> CHR ''+''"
  by (auto simp: unreserved_def Let_def)

lemma QueryUnescape_escape: "QueryUnescape (QueryEscape s @ t) = map_option (append s) (QueryUnescape t)"
proof (induction s)
  case (Cons c cs)
  have r: "char_of ((of_char c :: nat) div 16 * 16 + of_char c mod 16) = c" by simp
  have b: "(of_char c :: nat) div 16 < 16" by (simp add: less_mult_imp_div_less)
  from Cons r b show ?case
    by (auto simp: QueryEscape_def escape_char_def unreserved_plain option.map_comp comp_def)
qed (simp add: QueryEscape_def option.map_ident)

lemma QueryUnescape_QueryEscape: "QueryUnescape (QueryEscape s) = Some s"
  using QueryUnescape_escape [of s "[]"] by simp

lemma QueryEscape_inj: "QueryEscape s = QueryEscape t \<longleftrightarrow> s = t"
  by (metis QueryUnescape_QueryEscape option.inject)

lemma escape_char_plain:
  assumes "x \<in> set (escape_char c)"
  shows "x \<noteq> CHR ''='' \<and> x \<noteq> CHR ''&'' \<and> x \<noteq> CHR 0x0A"
proof -
  have h: "upper_hex d \<noteq> CHR ''=''" "upper_hex d \<noteq> CHR ''&''" "upper_hex d \<noteq> CHR 0x0A" if "d < 16" for d
    using hex_val_upper [OF that] by (auto simp: hex_val_def Let_def)
  have "(of_char c :: nat) div 16 < 16" by (simp add: less_mult_imp_div_less)
  with assms h show ?thesis
    by (auto simp: escape_char_def unreserved_def Let_def split: if_splits)
qed

lemma QueryEscape_plain:
  "x \<in> set (QueryEscape s) \<Longrightarrow> x \<noteq> CHR ''='' \<and> x \<noteq> CHR ''&'' \<and> x \<noteq> CHR 0x0A"
  by (auto simp: QueryEscape_def dest: escape_char_plain)

section \<open>Parsing\<close>

text \<open>
  \<open>url.ParseQuery\<close>: the settings between ampersands, empty ones skipped; a semicolon or a
  malformed escape is an error.  The values of a key are in the order of the query, so the
  parsed map is the list of its pairs.
\<close>

definition parse_setting :: "string \<Rightarrow> (string \<times> string) option" where
  "parse_setting setting =
     (if contains setting '';'' then None
      else let (key, value) = (case cut setting ''='' of None \<Rightarrow> (setting, []) | Some kv \<Rightarrow> kv)
           in (case (QueryUnescape key, QueryUnescape value) of
                 (Some k, Some v) \<Rightarrow> Some (k, v) | _ \<Rightarrow> None))"

fun parse_settings :: "string list \<Rightarrow> (string \<times> string) list option" where
  "parse_settings [] = Some []"
| "parse_settings (x # xs) =
     (if x = [] then parse_settings xs
      else case (parse_setting x, parse_settings xs) of
        (Some kv, Some kvs) \<Rightarrow> Some (kv # kvs) | _ \<Rightarrow> None)"

definition ParseQuery :: "string \<Rightarrow> (string \<times> string) list option" where
  "ParseQuery q = parse_settings (split_on (CHR ''&'') q)"

section \<open>The canonical form\<close>

definition query_part :: "string \<times> string \<Rightarrow> string" where
  "query_part kv = QueryEscape (fst kv) @ ''='' @ QueryEscape (snd kv)"

definition canonical_parts :: "(string \<times> string) list \<Rightarrow> string list" where
  "canonical_parts values =
     concat (map (\<lambda>key. map (\<lambda>value. query_part (key, value))
                          (sort (map snd (filter (\<lambda>kv. fst kv = key) values))))
                 (sort (remdups (map fst values))))"

definition canonicalizeQuery :: "string \<Rightarrow> string option" where
  "canonicalizeQuery rawQuery =
     (if rawQuery = [] then Some []
      else case ParseQuery rawQuery of
        None \<Rightarrow> None
      | Some values \<Rightarrow> Some (join ''&'' (canonical_parts values)))"

text \<open>The order of the parameters does not matter, and nothing but it is lost.\<close>

lemma sort_remdups_cong:
  assumes "set xs = set (ys :: 'a::linorder list)"
  shows "sort (remdups xs) = sort (remdups ys)"
  by (rule properties_for_sort) (use assms in \<open>auto simp: set_eq_iff_mset_remdups_eq intro: sym\<close>)

lemma canonical_parts_cong:
  assumes "mset a = mset b"
  shows "canonical_parts a = canonical_parts b"
proof -
  have "set (map fst a) = set (map fst b)" using assms by (metis mset_eq_setD mset_map)
  then have k: "sort (remdups (map fst a)) = sort (remdups (map fst b))" by (rule sort_remdups_cong)
  have "sort (map snd (filter (\<lambda>kv. fst kv = key) a)) = sort (map snd (filter (\<lambda>kv. fst kv = key) b))" for key
  proof (rule properties_for_sort)
    have "mset (map snd (filter (\<lambda>kv. fst kv = key) a)) = mset (map snd (filter (\<lambda>kv. fst kv = key) b))"
      using assms by (simp add: mset_filter)
    then show "mset (sort (map snd (filter (\<lambda>kv. fst kv = key) b))) = mset (map snd (filter (\<lambda>kv. fst kv = key) a))"
      by simp
  qed simp
  with k show ?thesis by (simp add: canonical_parts_def)
qed

definition group :: "string list \<Rightarrow> (string \<times> string) list \<Rightarrow> (string \<times> string) list" where
  "group ks xs = concat (map (\<lambda>k. filter (\<lambda>kv. fst kv = k) xs) ks)"

lemma mset_group:
  assumes "distinct ks" and "fst ` set xs \<subseteq> set ks"
  shows "mset (group ks xs) = mset xs"
  using assms
proof (induction ks arbitrary: xs)
  case (Cons k ks)
  let ?rest = "filter (\<lambda>kv. fst kv \<noteq> k) xs"
  have "mset (group ks ?rest) = mset ?rest"
    using Cons.prems by (intro Cons.IH) auto
  moreover have "group ks ?rest = group ks xs"
    unfolding group_def using Cons.prems(1)
    by (intro arg_cong [where f = concat] map_cong refl) (auto intro!: filter_cong)
  ultimately have "mset (group (k # ks) xs) = mset (filter (\<lambda>kv. fst kv = k) xs) + mset ?rest"
    by (simp add: group_def)
  then show ?case by simp
qed (simp add: group_def)

lemma map_Pair_filter: "map (Pair k) (map snd (filter (\<lambda>kv. fst kv = k) xs)) = filter (\<lambda>kv. fst kv = k) xs"
  by (auto intro!: map_idI)

lemma mset_canonical_parts: "mset (canonical_parts a) = image_mset query_part (mset a)"
proof -
  let ?ks = "sort (remdups (map fst a))"
  have "mset (map (\<lambda>v. query_part (k, v)) (sort (map snd (filter (\<lambda>kv. fst kv = k) a)))) =
      mset (map query_part (filter (\<lambda>kv. fst kv = k) a))" for k
    by (subst map_Pair_filter [symmetric]) (simp add: image_mset.compositionality comp_def del: map_map)
  then have "mset (canonical_parts a) = mset (map query_part (group ?ks a))"
    unfolding canonical_parts_def group_def mset_concat map_concat map_map comp_def by simp
  also have "\<dots> = image_mset query_part (mset a)"
    using mset_group [of ?ks a] by simp
  finally show ?thesis .
qed

lemma query_part_inj: "query_part x = query_part y \<longleftrightarrow> x = y"
proof
  assume eq: "query_part x = query_part y"
  have c: "cut (query_part z) ''='' = Some (QueryEscape (fst z), QueryEscape (snd z))" for z
    unfolding query_part_def using QueryEscape_plain [of "CHR ''=''" "fst z"]
      cut_single [of "CHR ''=''" "QueryEscape (fst z)" "QueryEscape (snd z)"] by auto
  from c [of x] c [of y] eq show "x = y" by (simp add: QueryEscape_inj prod_eq_iff)
qed simp

lemma query_part_plain: "x \<in> set (query_part kv) \<Longrightarrow> x \<noteq> CHR ''&'' \<and> x \<noteq> LF"
  using QueryEscape_plain by (fastforce simp: query_part_def)

lemma set_canonical_parts: "set (canonical_parts a) = query_part ` set a"
  by (metis mset_canonical_parts set_image_mset set_mset_mset)

lemma join_parts_inj:
  assumes "join ''&'' (canonical_parts a) = join ''&'' (canonical_parts b)"
  shows "canonical_parts a = canonical_parts b"
proof -
  have ne: "join ''&'' (canonical_parts z) \<noteq> []" if "canonical_parts z \<noteq> []" for z
  proof -
    from that obtain x xs where p: "canonical_parts z = x # xs" by (cases "canonical_parts z") auto
    then have "x \<in> query_part ` set z" using set_canonical_parts [of z] by auto
    then have "x \<noteq> []" by (auto simp: query_part_def)
    with p show ?thesis by (auto simp: join_Cons)
  qed
  have plain: "\<forall>x\<in>set (canonical_parts z). CHR ''&'' \<notin> set x" for z
    by (auto simp: set_canonical_parts dest: query_part_plain)
  show ?thesis
  proof (cases "canonical_parts a = [] \<or> canonical_parts b = []")
    case True
    with assms ne [of a] ne [of b] show ?thesis by (metis join.simps(1))
  next
    case False
    with join_inj [OF _ _ plain plain assms] show ?thesis by blast
  qed
qed

text \<open>The canonical query of a request carries no line feed.\<close>

lemma set_join: "set (join s xs) \<subseteq> set s \<union> \<Union> (set ` set xs)"
  by (induction s xs rule: join.induct) auto

lemma canonicalizeQuery_no_LF: "canonicalizeQuery q = Some c \<Longrightarrow> LF \<notin> set c"
  using set_join [of "''&''"] query_part_plain
  by (fastforce simp: canonicalizeQuery_def set_canonical_parts split: if_splits option.splits)

text \<open>The parameters of a raw query, the empty query included.\<close>

definition query_pairs :: "string \<Rightarrow> (string \<times> string) list option" where
  "query_pairs q = (if q = [] then Some [] else ParseQuery q)"

lemma canonicalizeQuery_pairs:
  "canonicalizeQuery q = map_option (\<lambda>vs. join ''&'' (canonical_parts vs)) (query_pairs q)"
  by (simp add: canonicalizeQuery_def query_pairs_def canonical_parts_def split: option.splits)

lemma canonical_eq_iff:
  "join ''&'' (canonical_parts a) = join ''&'' (canonical_parts b) \<longleftrightarrow> mset a = mset b"
proof
  assume "join ''&'' (canonical_parts a) = join ''&'' (canonical_parts b)"
  then have "image_mset query_part (mset a) = image_mset query_part (mset b)"
    using join_parts_inj mset_canonical_parts by metis
  moreover have "inv query_part \<circ> query_part = id"
    by (rule inv_o_cancel) (simp add: inj_def query_part_inj)
  then have "image_mset (inv query_part) (image_mset query_part M) = M" for M
    by (simp add: image_mset.compositionality)
  ultimately show "mset a = mset b" by metis
qed (metis canonical_parts_cong)

text \<open>
  C30. Two raw queries have the same canonical form exactly when they carry the same
  parameters with the same multiplicities: a signature over the canonical form covers every
  parameter, and only their order is free.
\<close>

theorem canonicalizeQuery_exact:
  assumes "query_pairs q = Some a" and "query_pairs q' = Some b"
  shows "canonicalizeQuery q = canonicalizeQuery q' \<longleftrightarrow> mset a = mset b"
  using assms by (simp add: canonicalizeQuery_pairs canonical_eq_iff)

theorem canonicalizeQuery_exact_witness:
  "canonicalizeQuery ''b=2&a=%31&a=0'' = canonicalizeQuery ''a=0&a=1&&b=2''"
proof -
  have "query_pairs ''b=2&a=%31&a=0'' = Some [(''b'', ''2''), (''a'', ''1''), (''a'', ''0'')]"
    "query_pairs ''a=0&a=1&&b=2'' = Some [(''a'', ''0''), (''a'', ''1''), (''b'', ''2'')]"
    by code_simp+
  from canonicalizeQuery_exact [OF this] show ?thesis by simp
qed

end
