(* ===== verification/HttpHelper.thy ===== *)
theory HttpHelper
  imports GoStrings
begin

text \<open>
  The helpers of \<open>route/httphelper/utils.go\<close>: HTTP errors and their answers, optional
  request bodies, and which requests are logged and how.  A message is of any type: the
  sources write it in Chinese, and each component has its own.
\<close>

section \<open>Errors and answers\<close>

text \<open>An error with a status, or any other error.\<close>

datatype 'm HTTPError = HTTPError nat 'm | PlainError 'm

definition BadRequest :: "'m \<Rightarrow> 'm HTTPError" where "BadRequest = HTTPError 400"
definition Unauthorized :: "'m \<Rightarrow> 'm HTTPError" where "Unauthorized = HTTPError 401"
definition Forbidden :: "'m \<Rightarrow> 'm HTTPError" where "Forbidden = HTTPError 403"
definition Conflict :: "'m \<Rightarrow> 'm HTTPError" where "Conflict = HTTPError 409"
definition ServiceUnavailable :: "'m \<Rightarrow> 'm HTTPError" where "ServiceUnavailable = HTTPError 503"

text \<open>\<open>SendError\<close>: an \<open>HTTPError\<close> carries its status, any other error is an internal one.\<close>

definition SendError :: "'m HTTPError \<Rightarrow> nat \<times> 'm" where
  "SendError e = (case e of HTTPError code m \<Rightarrow> (code, m) | PlainError m \<Rightarrow> (500, m))"

lemmas http_error_defs = BadRequest_def Unauthorized_def Forbidden_def Conflict_def ServiceUnavailable_def SendError_def

section \<open>Headers and bodies\<close>

text \<open>The values of a header under its canonical name, in the order of the request.\<close>

type_synonym header = "string \<Rightarrow> string list"

definition header_Get :: "header \<Rightarrow> string \<Rightarrow> string" where
  "header_Get h name = (case h name of [] \<Rightarrow> [] | v # _ \<Rightarrow> v)"

definition headerContainsToken :: "header \<Rightarrow> string \<Rightarrow> string \<Rightarrow> bool" where
  "headerContainsToken h name token \<longleftrightarrow>
    list_ex (\<lambda>v. list_ex (\<lambda>part. EqualFold (TrimSpace part) token) (split_on CHR '','' v)) (h name)"

text \<open>
  A body as \<open>DecodeOptionalRequest\<close> sees it: none (\<open>nil\<close>, \<open>http.NoBody\<close> or a length of
  zero), or one with the result of decoding it; a body that ends before its first value
  counts as none.
\<close>

datatype decode_error = DecodeEOF | DecodeFailed string

type_synonym 'a request_body = "(decode_error, 'a) result option"

definition DecodeOptionalRequest :: "'a request_body \<Rightarrow> (string, 'a option) result" where
  "DecodeOptionalRequest body =
    (case body of None \<Rightarrow> Inr None
     | Some (Inl DecodeEOF) \<Rightarrow> Inr None
     | Some (Inl (DecodeFailed er)) \<Rightarrow> Inl er
     | Some (Inr v) \<Rightarrow> Inr (Some v))"

text \<open>\<open>DecodeRequest\<close> leaves the zero value when there is no body.\<close>

definition DecodeRequest :: "'a \<Rightarrow> 'a request_body \<Rightarrow> (string, 'a) result" where
  "DecodeRequest zero body =
    (case DecodeOptionalRequest body of Inl er \<Rightarrow> Inl er | Inr None \<Rightarrow> Inr zero | Inr (Some v) \<Rightarrow> Inr v)"

section \<open>The request log\<close>

definition isCoreControllerRequest :: "string \<Rightarrow> bool" where
  "isCoreControllerRequest path \<longleftrightarrow> path = ''/core/controller'' \<or> has_prefix path ''/core/controller/''"

definition shouldLogRequest :: "string \<Rightarrow> string \<Rightarrow> header \<Rightarrow> bool" where
  "shouldLogRequest meth path h =
    (if meth \<noteq> ''GET'' \<and> meth \<noteq> ''POST'' then False
     else if isCoreControllerRequest path then False
     else if header_Get h ''Upgrade'' \<noteq> [] \<or> headerContainsToken h ''Connection'' ''upgrade'' then False
     else \<not> headerContainsToken h ''Accept'' ''text/event-stream'')"

datatype log_level = InfoLevel | WarnLevel | ErrorLevel

text \<open>
  What \<open>RequestLogger\<close> logs after the handler: nothing for a request it passes through or
  an answer that is an event stream, otherwise one entry with the status (zero stands for
  a handler that never wrote one) and its level.
\<close>

definition RequestLogger :: "string \<Rightarrow> string \<Rightarrow> header \<Rightarrow> string \<Rightarrow> nat \<Rightarrow> (log_level \<times> nat) option" where
  "RequestLogger meth path h contentType written =
    (if \<not> shouldLogRequest meth path h then None
     else if has_prefix contentType ''text/event-stream'' then None
     else
       let status = (if written = 0 then 200 else written)
       in Some (if status \<ge> 500 then ErrorLevel else if status \<ge> 400 then WarnLevel else InfoLevel, status))"

end
