(* ===== verification/AuthMiddleware.thy ===== *)
theory AuthMiddleware
  imports KeyManager NonceStore CanonicalQuery HttpHelper
begin

text \<open>
  The request authentication of \<open>route/auth/middleware.go\<close>: the local principal, the
  protocol version, the signed canonical request and the replay memory, in the order the
  code checks them.
\<close>

section \<open>Requests and errors\<close>

text \<open>
  A request as the middleware reads it: \<open>Header.Get\<close> (the empty string for a header that is
  not there), the body (none, or one that reads or fails), the method, the raw query, the
  escaped path and the peer of the connection.
\<close>

record http_request =
  Header :: "string \<Rightarrow> string"
  Body :: "(unit, bytes) result option"
  Method :: string
  RawQuery :: string
  EscapedPath :: string
  Peer :: peer

datatype reject_reason =
    ServiceNotInitialized
  | RequesterNotAuthorized auth_error
  | OnlyV2Supported
  | MissingV2Headers
  | InvalidTimestamp
  | ExpiredRequest
  | BodyUnreadable
  | BodyHashMismatch
  | QueryMalformed
  | SignatureRejected auth_error
  | ReplayedRequest

section \<open>The signed request\<close>

definition maxTimestampDriftV2 :: int where
  "maxTimestampDriftV2 = 30 * nanos_per_second"

definition requestNonceStore :: nonceStore where
  "requestNonceStore = newNonceStore (2 * maxTimestampDriftV2)"

definition hashRequestBody ::
  "auth_lib \<Rightarrow> http_request \<Rightarrow> (reject_reason HTTPError, string) result \<times> http_request" where
  "hashRequestBody lib r =
     (case Body r of
        None \<Rightarrow> (Inr (hex_encode (sha256_sum lib [])), r)
      | Some (Inl _) \<Rightarrow> (Inl (PlainError BodyUnreadable), r)
      | Some (Inr rawBody) \<Rightarrow> (Inr (hex_encode (sha256_sum lib rawBody)), r\<lparr>Body := Some (Inr rawBody)\<rparr>))"

definition buildCanonicalRequestV2 ::
  "http_request \<Rightarrow> string \<Rightarrow> string \<Rightarrow> string \<Rightarrow> string \<Rightarrow> string option" where
  "buildCanonicalRequestV2 r timestamp nonce keyID bodyHash =
     (case canonicalizeQuery (RawQuery r) of
        None \<Rightarrow> None
      | Some query \<Rightarrow>
          let path = (if EscapedPath r = [] then ''/'' else EscapedPath r)
          in Some (join [LF] [''SPARKLE-AUTH-V2'', timestamp, nonce, keyID, ToUpper (Method r),
               path, query, bodyHash]))"

definition nonceKeyV2 :: "string \<Rightarrow> string \<Rightarrow> string \<Rightarrow> string" where
  "nonceKeyV2 keyID timestamp nonce = keyID @ '':'' @ timestamp @ '':'' @ nonce"

definition authenticateV2 ::
  "auth_lib \<Rightarrow> go_time \<Rightarrow> KeyManager \<Rightarrow> http_request \<Rightarrow> nonceStore \<Rightarrow>
   reject_reason HTTPError option \<times> http_request \<times> nonceStore" where
  "authenticateV2 lib now km r st =
     (let timestamp = Header r ''X-Timestamp'';
          keyID = Header r ''X-Key-Id'';
          nonce = Header r ''X-Nonce'';
          contentHash = ToLower (Header r ''X-Content-SHA256'');
          signature = Header r ''X-Signature''
      in if timestamp = [] \<or> keyID = [] \<or> nonce = [] \<or> contentHash = [] \<or> signature = []
         then (Some (Unauthorized MissingV2Headers), r, st)
         else case ParseInt timestamp 64 of
           None \<Rightarrow> (Some (BadRequest InvalidTimestamp), r, st)
         | Some ts \<Rightarrow>
             let timeDiff = since_unix_milli now ts in
             if timeDiff < - maxTimestampDriftV2 \<or> timeDiff > maxTimestampDriftV2
             then (Some (Unauthorized ExpiredRequest), r, st)
             else case hashRequestBody lib r of
               (Inl e, r') \<Rightarrow> (Some e, r', st)
             | (Inr bodyHash, r') \<Rightarrow>
                 if bodyHash \<noteq> contentHash then (Some (Unauthorized BodyHashMismatch), r', st)
                 else case buildCanonicalRequestV2 r' timestamp nonce keyID bodyHash of
                   None \<Rightarrow> (Some (BadRequest QueryMalformed), r', st)
                 | Some canonical \<Rightarrow>
                     (case VerifySignature lib km keyID canonical signature of
                        Some e \<Rightarrow> (Some (Unauthorized (SignatureRejected e)), r', st)
                      | None \<Rightarrow>
                          let (fresh, st') = Remember (nonceKeyV2 keyID timestamp nonce) now st
                          in (if fresh then None else Some (Conflict ReplayedRequest), r', st')))"

text \<open>
  The middleware answers with a status and a reason, or passes the request (with its body
  readable again) to the next handler.
\<close>

datatype outcome = Answered nat reject_reason | Served http_request

definition answer :: "reject_reason HTTPError \<Rightarrow> outcome" where
  "answer e = (case SendError e of (code, m) \<Rightarrow> Answered code m)"

definition AuthMiddleware ::
  "auth_lib \<Rightarrow> go_time \<Rightarrow> KeyManager \<Rightarrow> http_request \<Rightarrow> nonceStore \<Rightarrow> outcome \<times> nonceStore" where
  "AuthMiddleware lib now km r st =
     (if \<not> IsInitialized km \<or> \<not> HasAuthorizedPrincipal km
      then (answer (ServiceUnavailable ServiceNotInitialized), st)
      else case VerifyRequestPrincipal km (Peer r) of
        Some e \<Rightarrow> (answer (Forbidden (RequesterNotAuthorized e)), st)
      | None \<Rightarrow>
          if Header r ''X-Auth-Version'' \<noteq> ''2'' then (answer (Unauthorized OnlyV2Supported), st)
          else case authenticateV2 lib now km r st of
            (Some e, _, st') \<Rightarrow> (answer e, st')
          | (None, r', st') \<Rightarrow> (Served r', st'))"

section \<open>What a served request went through\<close>

lemma answer_not_Served [simp]: "answer e \<noteq> Served r"
  by (simp add: answer_def split: prod.splits)

definition nonce_key_of :: "http_request \<Rightarrow> string" where
  "nonce_key_of r = nonceKeyV2 (Header r ''X-Key-Id'') (Header r ''X-Timestamp'') (Header r ''X-Nonce'')"

lemma hashRequestBody_same: "snd (hashRequestBody lib r) = r"
  by (cases "Body r") (auto simp: hashRequestBody_def split: sum.splits)

lemma authenticateV2_request: "fst (snd (authenticateV2 lib now km r st)) = r"
proof -
  obtain h where h: "hashRequestBody lib r = (h, r)"
    using hashRequestBody_same [of lib r] by (metis prod.collapse)
  show ?thesis
    unfolding authenticateV2_def Let_def h
    by (simp split: option.split sum.split prod.split)
qed

lemma within_drift:
  "\<not> (since_unix_milli now ts < - maxTimestampDriftV2 \<or> since_unix_milli now ts > maxTimestampDriftV2) \<longleftrightarrow>
   \<bar>wall now - ts * nanos_per_milli\<bar> \<le> maxTimestampDriftV2"
  using clamp64_within [of maxTimestampDriftV2 "wall now - ts * nanos_per_milli"]
  by (auto simp: since_unix_milli_def maxTimestampDriftV2_def nanos_per_second_def int64_max_def)

text \<open>Every check of \<open>authenticateV2\<close>, when it lets a request pass.\<close>

lemma authenticateV2_accepts:
  assumes "authenticateV2 lib now km r st = (None, r', st')"
  obtains ts bodyHash canonical where
    "ParseInt (Header r ''X-Timestamp'') 64 = Some ts"
    "\<bar>wall now - ts * nanos_per_milli\<bar> \<le> maxTimestampDriftV2"
    "fst (hashRequestBody lib r) = Inr bodyHash"
    "bodyHash = ToLower (Header r ''X-Content-SHA256'')"
    "buildCanonicalRequestV2 r (Header r ''X-Timestamp'') (Header r ''X-Nonce'') (Header r ''X-Key-Id'') bodyHash =
       Some canonical"
    "VerifySignature lib km (Header r ''X-Key-Id'') canonical (Header r ''X-Signature'') = None"
    "Remember (nonce_key_of r) now st = (True, st')" "r' = r"
proof -
  obtain h where h: "hashRequestBody lib r = (h, r)"
    using hashRequestBody_same [of lib r] by (metis prod.collapse)
  obtain ts where ts: "ParseInt (Header r ''X-Timestamp'') 64 = Some ts"
    using assms by (auto simp: authenticateV2_def Let_def split: if_splits option.splits)
  have d: "\<not> (since_unix_milli now ts < - maxTimestampDriftV2 \<or> since_unix_milli now ts > maxTimestampDriftV2)"
    using assms ts by (auto simp: authenticateV2_def Let_def split: if_splits)
  obtain bh where bh: "h = Inr bh" "bh = ToLower (Header r ''X-Content-SHA256'')"
    using assms ts d by (auto simp: authenticateV2_def Let_def h split: if_splits sum.splits)
  obtain c where c: "buildCanonicalRequestV2 r (Header r ''X-Timestamp'') (Header r ''X-Nonce'')
      (Header r ''X-Key-Id'') bh = Some c"
    using assms ts d bh by (auto simp: authenticateV2_def Let_def h split: if_splits option.splits)
  have v: "VerifySignature lib km (Header r ''X-Key-Id'') c (Header r ''X-Signature'') = None"
    using assms ts d bh c by (auto simp: authenticateV2_def Let_def h split: if_splits option.splits)
  have "Remember (nonce_key_of r) now st = (True, st')" "r' = r"
    using assms ts d bh c v
    by (auto simp: authenticateV2_def Let_def h nonce_key_of_def split: if_splits prod.splits)
  with ts d bh c v h show thesis by (intro that) (simp_all add: within_drift [symmetric])
qed

lemma AuthMiddleware_serves:
  assumes "AuthMiddleware lib now km r st = (Served r', st')"
  shows "IsInitialized km" "HasAuthorizedPrincipal km" "VerifyRequestPrincipal km (Peer r) = None"
    "authenticateV2 lib now km r st = (None, r', st')"
  using assms by (auto simp: AuthMiddleware_def split: if_splits option.splits prod.splits)

section \<open>The effect on the replay memory\<close>

lemma authenticateV2_store:
  "snd (snd (authenticateV2 lib now km r st)) = st \<or>
   snd (snd (authenticateV2 lib now km r st)) = snd (Remember (nonce_key_of r) now st)"
proof -
  obtain h where h: "hashRequestBody lib r = (h, r)"
    using hashRequestBody_same [of lib r] by (metis prod.collapse)
  show ?thesis
    unfolding authenticateV2_def Let_def h nonce_key_of_def
    by (simp split: option.split sum.split prod.split)
qed

lemma AuthMiddleware_store:
  "snd (AuthMiddleware lib now km r st) = st \<or>
   snd (AuthMiddleware lib now km r st) = snd (Remember (nonce_key_of r) now st)"
  using authenticateV2_store [of lib now km r st]
  by (auto simp: AuthMiddleware_def split: if_splits option.splits prod.splits)

lemma AuthMiddleware_live:
  assumes "nonce_live st k = Some e" and "monotonic now < e"
  shows "nonce_live (snd (AuthMiddleware lib now km r st)) k = Some e"
  using AuthMiddleware_store [of lib now km r st] nonces.live_kept [OF assms] assms by auto

text \<open>Requests one after the other, each with the keys of its moment and its clock reading.\<close>

fun serve_all ::
  "auth_lib \<Rightarrow> (KeyManager \<times> http_request \<times> go_time) list \<Rightarrow> nonceStore \<Rightarrow> outcome list \<times> nonceStore" where
  "serve_all lib [] st = ([], st)"
| "serve_all lib ((km, r, now) # reqs) st =
     (let (a, st1) = AuthMiddleware lib now km r st; (as, st2) = serve_all lib reqs st1
      in (a # as, st2))"

lemma serve_all_live:
  assumes "nonce_live st k = Some e" and "\<forall>(km, r, now)\<in>set reqs. monotonic now < e"
  shows "nonce_live (snd (serve_all lib reqs st)) k = Some e"
  using assms
proof (induction lib reqs st rule: serve_all.induct)
  case (2 lib km r now reqs st)
  then have "nonce_live (snd (AuthMiddleware lib now km r st)) k = Some e"
    by (intro AuthMiddleware_live) auto
  with 2 show ?case by (cases "AuthMiddleware lib now km r st") (auto split: prod.splits)
qed simp

section \<open>The canonical request determines what was signed\<close>

definition LF_free :: "http_request \<Rightarrow> bool" where
  "LF_free r \<longleftrightarrow> LF \<notin> set (Method r) \<and> LF \<notin> set (EscapedPath r) \<and> (\<forall>h. LF \<notin> set (Header r h))"

lemma upper_char_LF: "upper_char c = LF \<longleftrightarrow> c = LF"
proof
  assume "upper_char c = LF"
  then have "(of_char (upper_char c) :: nat) = 10" by simp
  then have "(of_char c :: nat) = of_char LF" by (simp add: upper_char_def Let_def split: if_splits)
  then show "c = LF" by (simp only: of_char_eq_iff)
qed (simp add: upper_char_def)

lemma ToUpper_LF: "LF \<notin> set s \<Longrightarrow> LF \<notin> set (ToUpper s)"
proof (induction s rule: ToUpper.induct)
  case (2 c cs)
  have "LF \<notin> set (drop 1 cs)" using 2(4) by (meson in_set_dropD list.set_intros(2))
  with 2 upper_char_LF [of c] show ?case by (auto split: if_splits)
qed simp

lemma canonical_fields:
  assumes "buildCanonicalRequestV2 r ts n k h = Some c" and "LF \<notin> set ts" "LF \<notin> set n" "LF \<notin> set k"
    "LF \<notin> set h" "LF \<notin> set (Method r)" "LF \<notin> set (EscapedPath r)"
  shows "\<exists>q. canonicalizeQuery (RawQuery r) = Some q \<and>
    split_on LF c = [''SPARKLE-AUTH-V2'', ts, n, k, ToUpper (Method r),
      (if EscapedPath r = [] then ''/'' else EscapedPath r), q, h]"
proof -
  from assms(1) obtain q where q: "canonicalizeQuery (RawQuery r) = Some q"
    and c: "c = join [LF] [''SPARKLE-AUTH-V2'', ts, n, k, ToUpper (Method r),
      (if EscapedPath r = [] then ''/'' else EscapedPath r), q, h]"
    by (auto simp: buildCanonicalRequestV2_def Let_def split: option.splits)
  have "split_on LF c = [''SPARKLE-AUTH-V2'', ts, n, k, ToUpper (Method r),
      (if EscapedPath r = [] then ''/'' else EscapedPath r), q, h]"
    unfolding c by (rule split_on_join) (use assms ToUpper_LF canonicalizeQuery_no_LF [OF q] in auto)
  with q show ?thesis by blast
qed

end
