(* ===== verification/KeyManagerProps.thy ===== *)
theory KeyManagerProps
  imports KeyManager
begin

text \<open>
  What the key manager promises: rotation is all or nothing, at most the two latest keys
  are accepted, a restart recovers the ring from its file, and the bound principal decides
  which peers are let through.
\<close>

section \<open>Library facts\<close>

lemma triple_eq: "fst r = a \<Longrightarrow> r = (a, fst (snd r), snd (snd r))"
  by (cases r) auto

lemma add_key_dom:
  assumes "add_key lib k m = Inr m'"
  shows "dom m' = dom m \<union> KeyID ` set_option k"
  using assms by (cases k) (auto simp: add_key_def)

lemma add_key_lookup:
  assumes "add_key lib k m = Inr m'" and "m' i = Some pub"
  shows "m i = Some pub \<or> (\<exists>x t. k = Some x \<and> KeyID x = i \<and> parsePublicKey lib (PublicKey x) = Inr (t, pub))"
  using assms by (cases k) (auto simp: add_key_def split: if_splits)

lemma km_inv_dom:
  assumes "km_inv lib km"
  shows "dom (publicKeys km) = KeyID ` (set_option (currentKey km) \<union> set_option (previousKey km))"
proof -
  from assms obtain m where "add_key lib (currentKey km) Map.empty = Inr m"
    "add_key lib (previousKey km) m = Inr (publicKeys km)"
    by (auto simp: km_inv_def ring_map_def)
  from add_key_dom [OF this(1)] add_key_dom [OF this(2)] show ?thesis by auto
qed

lemma km_inv_lookup:
  assumes "km_inv lib km" and "publicKeys km i = Some pub"
  shows "\<exists>k. (currentKey km = Some k \<or> previousKey km = Some k) \<and> stored_ok lib k \<and> KeyID k = i \<and>
    parsePublicKey lib (PublicKey k) = Inr (PublicKey k, pub)"
proof -
  from assms(1) obtain m where m: "add_key lib (currentKey km) Map.empty = Inr m"
    "add_key lib (previousKey km) m = Inr (publicKeys km)"
    by (auto simp: km_inv_def ring_map_def)
  from add_key_lookup [OF m(2) assms(2)] add_key_lookup [OF m(1), of i pub]
  obtain k t where k: "currentKey km = Some k \<or> previousKey km = Some k" "KeyID k = i"
    "parsePublicKey lib (PublicKey k) = Inr (t, pub)" by auto
  then have ok: "stored_ok lib k" using assms(1) by (auto simp: km_inv_def)
  with k show ?thesis by (auto simp: stored_ok_def)
qed

lemma verified_key:
  assumes "km_inv lib km" and "VerifySignature lib km keyID msg sig = None"
  shows "\<exists>k pub sigBytes. (currentKey km = Some k \<or> previousKey km = Some k) \<and> stored_ok lib k \<and>
    KeyID k = TrimSpace keyID \<and> parsePublicKey lib (PublicKey k) = Inr (PublicKey k, pub) \<and>
    b64_decode sig = Some sigBytes \<and> ed25519_verify lib pub msg sigBytes"
proof -
  from assms(2) obtain n pub sb where v: "validateKeyID keyID = Inr n" "publicKeys km n = Some pub"
    "b64_decode sig = Some sb" "ed25519_verify lib pub msg sb"
    by (auto simp: VerifySignature_def split: sum.splits option.splits if_splits)
  with km_inv_lookup [OF assms(1) v(2)] validateKeyID_Inr(1) [OF v(1)] show ?thesis by blast
qed

lemma sameStored_iff: "sameStoredPublicKey a b \<longleftrightarrow> a = b"
  by (cases a; cases b) (auto simp: sameStoredPublicKey_def)

lemma TrimSpace_kinds [simp]: "TrimSpace ''uid'' = ''uid''" "TrimSpace ''sid'' = ''sid''"
  by (rule TrimSpace_graphic, simp add: graphic_def)+

lemma validate_uid:
  "validateAuthorizedPrincipal (Some \<lparr>PType = ''uid'', PValue = FormatUint (unat (u :: 32 word))\<rparr>) =
     Inr \<lparr>PType = ''uid'', PValue = FormatUint (unat u)\<rparr>"
proof -
  have "TrimSpace (FormatUint (unat u)) = FormatUint (unat u)"
    by (rule TrimSpace_graphic) (blast intro: FormatUint_graphic)
  moreover have "ParseUint (FormatUint (unat u)) 32 = Some (unat u)"
    using unsigned_less [of u] by (intro ParseUint_FormatUint) simp
  ultimately show ?thesis by (simp add: validateAuthorizedPrincipal_def Let_def)
qed

lemma validate_idem:
  "validateAuthorizedPrincipal (Some p) = Inr q \<Longrightarrow> validateAuthorizedPrincipal (Some q) = Inr q"
  by (auto simp: validateAuthorizedPrincipal_def Let_def split: if_splits option.splits)

lemma sameAuthorized_iff: "sameAuthorizedPrincipal a b \<longleftrightarrow> a = b"
  by (cases a; cases b) (auto simp: sameAuthorizedPrincipal_def)

text \<open>A manager bound to a user lets exactly that user pass.\<close>

lemma bound_uid:
  assumes "authorizedPrincipal km = Some \<lparr>PType = ''uid'', PValue = FormatUint (unat uid)\<rparr>"
  shows "VerifyRequestPrincipal km p = None \<longleftrightarrow> p = UnixPeer uid"
  using assms
  by (auto simp: VerifyRequestPrincipal_def getRequestPrincipal_def FormatUint_inj word_unat_eq_iff split: peer.splits sum.splits)

text \<open>A library to evaluate the model on: a digest that pads, a one-line-per-field ring file.\<close>

definition sample_lib :: auth_lib where
  "sample_lib = \<lparr>
     sha256_sum = (\<lambda>bs. take 32 (bs @ replicate 32 (CHR ''0''))),
     ParsePKIXPublicKey = (\<lambda>bs. case bs of [] \<Rightarrow> None
        | c # cs \<Rightarrow> if c = CHR ''R'' then Some OtherKey else Some (Ed25519 cs)),
     ed25519_verify = (\<lambda>pub msg sig. sig = pub),
     pem_decode = (\<lambda>bs. if bs = [] then None else Some bs),
     marshal_ring = (\<lambda>r. case Current r of None \<Rightarrow> []
        | Some c \<Rightarrow> KeyID c @ LF # PublicKey c @ (case Previous r of None \<Rightarrow> []
             | Some p \<Rightarrow> LF # KeyID p @ LF # PublicKey p)),
     unmarshal_ring = (\<lambda>bs. case split_on LF bs of
          [a, b] \<Rightarrow> Some \<lparr>Current = Some \<lparr>KeyID = a, PublicKey = b\<rparr>, Previous = None\<rparr>
        | [a, b, c, e] \<Rightarrow> Some \<lparr>Current = Some \<lparr>KeyID = a, PublicKey = b\<rparr>,
             Previous = Some \<lparr>KeyID = c, PublicKey = e\<rparr>\<rparr>
        | _ \<Rightarrow> None),
     marshal_principal = (\<lambda>p. PType p @ LF # PValue p),
     unmarshal_principal = (\<lambda>bs. case split_on LF bs of
          [a, b] \<Rightarrow> Some \<lparr>PType = a, PValue = b\<rparr> | _ \<Rightarrow> None)\<rparr>"

lemma sample_sha256_size: "sha256_size sample_lib"
  by (simp add: sha256_size_def sample_lib_def min_def)

text \<open>
  Sample keys: three bytes in base64, the first of them not \<open>R\<close>.  \<open>sample_mgr\<close> is the
  manager that holds two of them.
\<close>

definition sample_bytes :: "bytes \<Rightarrow> bool" where
  "sample_bytes b \<longleftrightarrow> length b = 3 \<and> hd b \<noteq> CHR ''R''"

definition sample_stored :: "bytes \<Rightarrow> storedPublicKey" where
  "sample_stored b = \<lparr>KeyID = hex_encode (b @ replicate 29 (CHR ''0'')), PublicKey = b64_encode b\<rparr>"

definition sample_map :: "bytes option \<Rightarrow> (string \<rightharpoonup> bytes) \<Rightarrow> (string \<rightharpoonup> bytes)" where
  "sample_map k m = (case k of None \<Rightarrow> m | Some b \<Rightarrow> m(KeyID (sample_stored b) \<mapsto> tl b))"

definition sample_mgr :: "bytes option \<Rightarrow> bytes option \<Rightarrow> KeyManager" where
  "sample_mgr cur prev = emptyKeyManager\<lparr>currentKey := map_option sample_stored cur,
     previousKey := map_option sample_stored prev,
     publicKeys := sample_map prev (sample_map cur Map.empty)\<rparr>"

lemma sample_parse:
  assumes "sample_bytes b"
  shows "parsePublicKey sample_lib (b64_encode b) = Inr (b64_encode b, tl b)"
  using assms
  by (cases b) (auto simp: sample_bytes_def parsePublicKey_def b64_decode_encode sample_lib_def Let_def)

lemma sample_id:
  assumes "sample_bytes b"
  shows "computeKeyID sample_lib (b64_encode b) = Inr (KeyID (sample_stored b))"
  using assms
  by (simp add: sample_bytes_def computeKeyID_def b64_decode_encode sample_lib_def sample_stored_def)

lemma sample_PublicKey [simp]: "PublicKey (sample_stored b) = b64_encode b"
  by (simp add: sample_stored_def)

lemma sample_stored_ok: "sample_bytes b \<Longrightarrow> stored_ok sample_lib (sample_stored b)"
  by (simp add: stored_ok_def sample_parse sample_id)

lemma sample_KeyID_inj [simp]: "KeyID (sample_stored a) = KeyID (sample_stored b) \<longleftrightarrow> a = b"
  by (auto simp: sample_stored_def dest: hex_encode_inj)

lemma sample_stored_inj [simp]: "sample_stored a = sample_stored b \<longleftrightarrow> a = b"
  by (metis sample_KeyID_inj)

lemma sample_add_key:
  "pred_option sample_bytes k \<Longrightarrow> add_key sample_lib (map_option sample_stored k) m = Inr (sample_map k m)"
  by (cases k) (simp_all add: add_key_def sample_parse sample_map_def)

lemma sample_ring_map:
  assumes "pred_option sample_bytes cur" and "pred_option sample_bytes prev"
  shows "ring_map sample_lib (map_option sample_stored cur) (map_option sample_stored prev) =
    Inr (sample_map prev (sample_map cur Map.empty))"
  using assms unfolding ring_map_def by (simp only: sample_add_key rbind_simps)

lemma sample_mgr_inv:
  assumes "pred_option sample_bytes cur" and "pred_option sample_bytes prev"
  shows "km_inv sample_lib (sample_mgr cur prev)"
  using assms sample_ring_map [OF assms]
  by (cases cur; cases prev) (simp_all add: km_inv_def sample_mgr_def sample_stored_ok)

lemma sample_set:
  assumes "sample_bytes b" and "pred_option sample_bytes cur" and "pred_option sample_bytes prev"
    and "cur \<noteq> Some b"
  shows "SetPublicKey sample_lib WriteOK (b64_encode b) (sample_mgr cur prev) d =
    (Inr True, sample_mgr (Some b) cur, d([] :=
       Content (marshal_ring sample_lib \<lparr>Current = Some (sample_stored b), Previous = map_option sample_stored cur\<rparr>)))"
    and "SetPublicKey sample_lib (WriteFailed st) (b64_encode b) (sample_mgr cur prev) d =
    (Inl RingSaveFailed, sample_mgr cur prev, d([] := st))"
proof -
  have ne: "\<not> sameStoredPublicKey (map_option sample_stored cur) (Some (sample_stored b))"
    using assms(4) by (cases cur) (simp_all add: sameStored_iff)
  have new: "\<lparr>KeyID = KeyID (sample_stored b), PublicKey = b64_encode b\<rparr> = sample_stored b"
    by (simp add: sample_stored_def)
  have r: "ring_map sample_lib (Some (sample_stored b)) (map_option sample_stored cur) =
      Inr (sample_map cur (sample_map (Some b) Map.empty))"
    using sample_ring_map [of "Some b" cur] assms by simp
  note facts = assms ne r sample_ring_map [OF assms(2,3)]
  note defs = SetPublicKey_def sample_mgr_def sample_parse sample_id refreshPublicKeysLocked_def
    savePublicKeysLocked_def WriteFile_def emptyKeyManager_def Let_def
  show "SetPublicKey sample_lib WriteOK (b64_encode b) (sample_mgr cur prev) d =
    (Inr True, sample_mgr (Some b) cur, d([] :=
       Content (marshal_ring sample_lib \<lparr>Current = Some (sample_stored b), Previous = map_option sample_stored cur\<rparr>)))"
    using facts by (cases cur) (simp_all add: defs new)
  show "SetPublicKey sample_lib (WriteFailed st) (b64_encode b) (sample_mgr cur prev) d =
    (Inl RingSaveFailed, sample_mgr cur prev, d([] := st))"
    using facts by (cases cur) (simp_all add: defs new)
qed

lemma sample_bytes_ABC: "sample_bytes ''ABC''" "sample_bytes ''ABD''" "sample_bytes ''ABE''"
  by (simp_all add: sample_bytes_def)

lemma rotation_result:
  assumes "km_inv lib km" and "SetPublicKey lib w pk km d = (Inr True, km', d')"
  shows "km_inv lib km' \<and> previousKey km' = currentKey km \<and>
    (\<exists>new. currentKey km' = Some new \<and> PublicKey new = TrimSpace pk \<and> stored_ok lib new \<and> currentKey km \<noteq> Some new) \<and>
    d' = d(keyRingPath km :=
       Content (marshal_ring lib \<lparr>Current = currentKey km', Previous = previousKey km'\<rparr>)) \<and>
    keyRingPath km' = keyRingPath km \<and> authorizedPrincipal km' = authorizedPrincipal km"
  using assms(1)
proof (cases rule: SetPublicKey_cases [of lib km w pk d])
  case (rotated new km2)
  then have "km' = km2" using assms(2) by simp
  with rotated assms(2) show ?thesis by auto
qed (use assms(2) in auto)

lemma rotation_facts:
  assumes "km_inv lib km" and "SetPublicKey lib w pk km d = (Inr True, km', d')"
  shows "km_inv lib km'" "previousKey km' = currentKey km"
    "\<exists>new. currentKey km' = Some new \<and> PublicKey new = TrimSpace pk \<and> stored_ok lib new \<and> currentKey km \<noteq> Some new"
    "d' = d(keyRingPath km :=
       Content (marshal_ring lib \<lparr>Current = currentKey km', Previous = previousKey km'\<rparr>))"
    "keyRingPath km' = keyRingPath km" "authorizedPrincipal km' = authorizedPrincipal km"
    "dom (publicKeys km') = KeyID ` (set_option (currentKey km') \<union> set_option (currentKey km))"
  using rotation_result [OF assms] km_inv_dom [of lib km'] by simp_all

section \<open>Properties\<close>

text \<open>
  C32. \<open>SetPublicKey\<close> is all or nothing: when it reports an error (a key that does not
  parse, or a key ring file that cannot be written) the manager is exactly what it was,
  both stored keys and the lookup map included.
\<close>

theorem SetPublicKey_rollback:
  assumes "km_inv lib km" and "SetPublicKey lib w pk km d = (Inl e, km', d')"
  shows "km' = km"
  using assms(1) by (cases rule: SetPublicKey_cases [of lib km w pk d]) (use assms(2) in simp_all)

theorem SetPublicKey_rollback_witness:
  "\<exists>km' d'. SetPublicKey sample_lib (WriteFailed (Content [])) (b64_encode ''ABD'')
     (sample_mgr (Some ''ABC'') None) (\<lambda>_. Absent) = (Inl RingSaveFailed, km', d') \<and>
   km' = sample_mgr (Some ''ABC'') None"
proof -
  have inv: "km_inv sample_lib (sample_mgr (Some ''ABC'') None)"
    by (rule sample_mgr_inv) (simp_all add: sample_bytes_ABC)
  have r: "\<exists>km' d'. SetPublicKey sample_lib (WriteFailed (Content [])) (b64_encode ''ABD'')
      (sample_mgr (Some ''ABC'') None) (\<lambda>_. Absent) = (Inl RingSaveFailed, km', d')"
    by (subst sample_set(2)) (simp_all add: sample_bytes_ABC)
  with SetPublicKey_rollback [OF inv] show ?thesis by blast
qed

text \<open>
  A successful rotation installs the new key as current and the old current key as
  previous, keeps the invariant, and leaves exactly the identifiers of those two keys in
  the lookup map.
\<close>

theorem SetPublicKey_rotates:
  assumes "km_inv lib km" and "SetPublicKey lib w pk km d = (Inr True, km', d')"
  shows "km_inv lib km' \<and> previousKey km' = currentKey km \<and>
    (\<exists>new. currentKey km' = Some new \<and> PublicKey new = TrimSpace pk \<and> stored_ok lib new \<and>
       dom (publicKeys km') = insert (KeyID new) (KeyID ` set_option (currentKey km)))"
  using rotation_facts [OF assms] by auto

theorem SetPublicKey_rotates_witness:
  "\<exists>km' d'. SetPublicKey sample_lib WriteOK (b64_encode ''ABD'') (sample_mgr (Some ''ABC'') None)
     (\<lambda>_. Absent) = (Inr True, km', d') \<and> previousKey km' = Some (sample_stored ''ABC'')"
proof -
  have inv: "km_inv sample_lib (sample_mgr (Some ''ABC'') None)"
    by (rule sample_mgr_inv) (simp_all add: sample_bytes_ABC)
  obtain km' d' where r: "SetPublicKey sample_lib WriteOK (b64_encode ''ABD'')
      (sample_mgr (Some ''ABC'') None) (\<lambda>_. Absent) = (Inr True, km', d')"
    by (subst (asm) sample_set(1)) (simp_all add: sample_bytes_ABC)
  have "currentKey (sample_mgr (Some ''ABC'') None) = Some (sample_stored ''ABC'')"
    by (simp add: sample_mgr_def)
  with r SetPublicKey_rotates [OF inv r] show ?thesis by auto
qed

text \<open>
  A key that was current two successful rotations ago is no longer accepted: with an
  identifier different from those of the two newer keys, every signature under it is
  refused as unregistered.
\<close>

theorem retired_key_refused:
  assumes "km_inv lib km" and "sha256_size lib" and "currentKey km = Some old"
    and "SetPublicKey lib w1 pk1 km d = (Inr True, km1, d1)"
    and "SetPublicKey lib w2 pk2 km1 d1 = (Inr True, km2, d2)"
    and "\<forall>k. currentKey km1 = Some k \<or> currentKey km2 = Some k \<longrightarrow> KeyID k \<noteq> KeyID old"
  shows "VerifySignature lib km2 (KeyID old) msg sig = Some KeyNotRegistered"
proof -
  have inv1: "km_inv lib km1" by (rule rotation_facts [OF assms(1,4)])
  have "dom (publicKeys km2) = KeyID ` (set_option (currentKey km2) \<union> set_option (currentKey km1))"
    by (rule rotation_facts [OF inv1 assms(5)])
  moreover have "KeyID old \<notin> KeyID ` (set_option (currentKey km2) \<union> set_option (currentKey km1))"
    using assms(6) by force
  ultimately have "publicKeys km2 (KeyID old) = None" by blast
  moreover have "stored_ok lib old" using assms(1,3) by (simp add: km_inv_def)
  then have "validateKeyID (KeyID old) = Inr (KeyID old)"
    using stored_ok_KeyID(1) assms(2) by blast
  ultimately show ?thesis by (simp add: VerifySignature_def)
qed

theorem retired_key_refused_witness:
  "\<exists>km2 d2. VerifySignature sample_lib (sample_mgr (Some ''ABE'') (Some ''ABD''))
     (KeyID (sample_stored ''ABC'')) ''m'' ''QkM='' = Some KeyNotRegistered \<and>
   SetPublicKey sample_lib WriteOK (b64_encode ''ABE'') (sample_mgr (Some ''ABD'') (Some ''ABC'')) (\<lambda>_. Absent) =
     (Inr True, km2, d2) \<and> km2 = sample_mgr (Some ''ABE'') (Some ''ABD'')"
proof -
  let ?m0 = "sample_mgr (Some ''ABC'') None" and ?m1 = "sample_mgr (Some ''ABD'') (Some ''ABC'')"
  have inv: "km_inv sample_lib ?m0"
    by (rule sample_mgr_inv) (simp_all add: sample_bytes_ABC)
  have cur: "currentKey ?m0 = Some (sample_stored ''ABC'')" by (simp add: sample_mgr_def)
  note set1 = sample_set(1) [of "''ABD''" "Some ''ABC''" None "\<lambda>_. Absent"]
  note set2 = sample_set(1) [of "''ABE''" "Some ''ABD''" "Some ''ABC''"]
  have "\<forall>k. currentKey ?m1 = Some k \<or> currentKey (sample_mgr (Some ''ABE'') (Some ''ABD'')) = Some k
      \<longrightarrow> KeyID k \<noteq> KeyID (sample_stored ''ABC'')"
    by (auto simp: sample_mgr_def)
  then have "VerifySignature sample_lib (sample_mgr (Some ''ABE'') (Some ''ABD''))
      (KeyID (sample_stored ''ABC'')) ''m'' ''QkM='' = Some KeyNotRegistered"
    by (intro retired_key_refused [OF inv sample_sha256_size cur set1 set2])
      (simp_all add: sample_bytes_ABC)
  then show ?thesis using set2 [of "\<lambda>_. Absent"] by (simp add: sample_bytes_ABC)
qed

text \<open>
  A restart recovers the ring: after a successful rotation, a manager that starts from
  nothing and reads the file the rotation wrote holds the same current key, previous key
  and lookup map.  The hypothesis on the JSON package is that it reads back the ring it
  wrote.
\<close>

theorem restart_recovers_ring:
  assumes "km_inv lib km" and "sha256_size lib"
    and "SetPublicKey lib w pk km d = (Inr True, km', d')"
    and "\<forall>r. Current r = currentKey km' \<and> Previous r = previousKey km' \<longrightarrow>
      unmarshal_ring lib (marshal_ring lib r) = Some r"
    and "keyRingPath km0 = keyRingPath km"
  shows "\<exists>km1. loadPublicKeys lib d' km0 = (None, km1) \<and> currentKey km1 = currentKey km' \<and>
    previousKey km1 = previousKey km' \<and> publicKeys km1 = publicKeys km'"
proof -
  note facts = rotation_facts [OF assms(1,3)]
  from facts(1) have ok: "pred_option (stored_ok lib) (currentKey km')" "pred_option (stored_ok lib) (previousKey km')"
    and map: "ring_map lib (currentKey km') (previousKey km') = Inr (publicKeys km')"
    by (simp_all add: km_inv_def)
  from facts(3) obtain new where new: "currentKey km' = Some new" "previousKey km' \<noteq> Some new"
    using facts(2) by auto
  have "\<not> sameStoredPublicKey (Some new) (previousKey km')"
    using new by (auto simp: sameStored_iff)
  moreover have "unmarshal_ring lib (marshal_ring lib \<lparr>Current = currentKey km', Previous = previousKey km'\<rparr>) =
      Some \<lparr>Current = currentKey km', Previous = previousKey km'\<rparr>" using assms(4) by simp
  moreover have "d' (keyRingPath km0) =
      Content (marshal_ring lib \<lparr>Current = currentKey km', Previous = previousKey km'\<rparr>)"
    using facts(4) assms(5) by simp
  ultimately show ?thesis
    using normalizeStored_fixed [OF ok(1) assms(2)] normalizeStored_fixed [OF ok(2) assms(2)] new(1) map
    by (simp add: loadPublicKeys_def refreshPublicKeysLocked_def)
qed

lemma sample_codec:
  assumes "Current r = Some (sample_stored a)" and "Previous r = Some (sample_stored b)"
  shows "unmarshal_ring sample_lib (marshal_ring sample_lib r) = Some r"
proof -
  have g: "LF \<notin> set (b64_encode x)" "LF \<notin> set (hex_encode x)" for x
    using b64_encode_graphic [of LF x] hex_encode_chars [of LF x]
    by (auto simp: graphic_def hex_char_def)
  have "r = \<lparr>Current = Some (sample_stored a), Previous = Some (sample_stored b)\<rparr>"
    using assms by simp
  then show ?thesis
    using g by (simp add: sample_lib_def sample_stored_def split_on_append split_on_plain)
qed

theorem restart_recovers_ring_witness:
  "\<exists>km1 d'. loadPublicKeys sample_lib d' emptyKeyManager = (None, km1) \<and>
     SetPublicKey sample_lib WriteOK (b64_encode ''ABD'') (sample_mgr (Some ''ABC'') None) (\<lambda>_. Absent) =
       (Inr True, sample_mgr (Some ''ABD'') (Some ''ABC''), d') \<and>
     currentKey km1 = Some (sample_stored ''ABD'')"
proof -
  have inv: "km_inv sample_lib (sample_mgr (Some ''ABC'') None)"
    by (rule sample_mgr_inv) (simp_all add: sample_bytes_ABC)
  have "\<exists>d'. SetPublicKey sample_lib WriteOK (b64_encode ''ABD'') (sample_mgr (Some ''ABC'') None) (\<lambda>_. Absent) =
       (Inr True, sample_mgr (Some ''ABD'') (Some ''ABC''), d')"
    by (subst sample_set(1)) (simp_all add: sample_bytes_ABC)
  then obtain d' where set: "SetPublicKey sample_lib WriteOK (b64_encode ''ABD'')
      (sample_mgr (Some ''ABC'') None) (\<lambda>_. Absent) = (Inr True, sample_mgr (Some ''ABD'') (Some ''ABC''), d')" ..
  have codec: "\<forall>r. Current r = currentKey (sample_mgr (Some ''ABD'') (Some ''ABC'')) \<and>
      Previous r = previousKey (sample_mgr (Some ''ABD'') (Some ''ABC'')) \<longrightarrow>
      unmarshal_ring sample_lib (marshal_ring sample_lib r) = Some r"
    by (auto simp: sample_mgr_def intro: sample_codec)
  have "keyRingPath emptyKeyManager = keyRingPath (sample_mgr (Some ''ABC'') None)"
    by (simp add: sample_mgr_def)
  from restart_recovers_ring [OF inv sample_sha256_size set codec this] set
  show ?thesis by (auto simp: sample_mgr_def)
qed

text \<open>
  A signature is accepted only under a key of the ring: some stored key in order, the
  current or the previous one, has the trimmed identifier of the request, and its Ed25519
  key verifies the decoded signature over the message.
\<close>

theorem VerifySignature_sound:
  assumes "km_inv lib km" and "VerifySignature lib km keyID msg sig = None"
  shows "\<exists>k pub sigBytes. (currentKey km = Some k \<or> previousKey km = Some k) \<and> stored_ok lib k \<and>
    KeyID k = TrimSpace keyID \<and> parsePublicKey lib (PublicKey k) = Inr (PublicKey k, pub) \<and>
    b64_decode sig = Some sigBytes \<and> ed25519_verify lib pub msg sigBytes"
  by (rule verified_key [OF assms])

theorem VerifySignature_sound_witness:
  "VerifySignature sample_lib (sample_mgr (Some ''ABC'') None) (KeyID (sample_stored ''ABC'')) ''m'' ''QkM='' = None \<and>
   (\<exists>k. currentKey (sample_mgr (Some ''ABC'') None) = Some k \<and> KeyID k = TrimSpace (KeyID (sample_stored ''ABC'')))"
proof -
  have inv: "km_inv sample_lib (sample_mgr (Some ''ABC'') None)"
    by (rule sample_mgr_inv) (simp_all add: sample_bytes_ABC)
  have v: "validateKeyID (KeyID (sample_stored ''ABC'')) = Inr (KeyID (sample_stored ''ABC''))"
    using stored_ok_KeyID(1) [OF sample_stored_ok [OF sample_bytes_ABC(1)] sample_sha256_size] .
  have b: "b64_decode ''QkM='' = Some ''BC''" by code_simp
  have "VerifySignature sample_lib (sample_mgr (Some ''ABC'') None) (KeyID (sample_stored ''ABC'')) ''m'' ''QkM='' = None"
    by (simp add: VerifySignature_def v b sample_mgr_def sample_map_def sample_lib_def)
  from this VerifySignature_sound [OF inv this] show ?thesis by (auto simp: sample_mgr_def)
qed

text \<open>
  Binding to a user identifier works: after \<open>SetAuthorizedUID\<close> succeeds, a request
  passes the principal check exactly when its peer is a Unix socket peer with that
  identifier, and \<open>GetAuthorizedUID\<close> returns it.
\<close>

theorem SetAuthorizedUID_binds:
  assumes "SetAuthorizedUID lib w uid km d = (Inr changed, km', d')"
  shows "(VerifyRequestPrincipal km' p = None \<longleftrightarrow> p = UnixPeer uid) \<and> GetAuthorizedUID km' = Some uid"
proof -
  have a: "authorizedPrincipal km' = Some \<lparr>PType = ''uid'', PValue = FormatUint (unat uid)\<rparr>"
    using assms
    by (auto simp: SetAuthorizedUID_def setAuthorizedPrincipal_def validate_uid sameAuthorized_iff
        split: if_splits prod.splits)
  have "ParseUint (FormatUint (unat uid)) 32 = Some (unat uid)"
    using unsigned_less [of uid] by (intro ParseUint_FormatUint) simp
  then show ?thesis
    by (auto simp: a VerifyRequestPrincipal_def getRequestPrincipal_def GetAuthorizedUID_def
        FormatUint_inj word_unat_eq_iff split: peer.splits sum.splits)
qed

theorem SetAuthorizedUID_binds_witness:
  "\<exists>km' d'. SetAuthorizedUID sample_lib WriteOK 1000 emptyKeyManager (\<lambda>_. Absent) = (Inr True, km', d') \<and>
     VerifyRequestPrincipal km' (UnixPeer 1000) = None \<and> VerifyRequestPrincipal km' (UnixPeer 0) \<noteq> None"
proof -
  have "\<exists>km' d'. SetAuthorizedUID sample_lib WriteOK 1000 emptyKeyManager (\<lambda>_. Absent) = (Inr True, km', d')"
    unfolding SetAuthorizedUID_def setAuthorizedPrincipal_def validate_uid
    by (simp add: emptyKeyManager_def sameAuthorizedPrincipal_def WriteFile_def)
  then obtain km' d' where set: "SetAuthorizedUID sample_lib WriteOK 1000 emptyKeyManager (\<lambda>_. Absent) = (Inr True, km', d')"
    by blast
  have "UnixPeer 0 \<noteq> UnixPeer 1000" by simp
  with set SetAuthorizedUID_binds [OF set] show ?thesis by metis
qed

text \<open>
  A legacy PEM key that is a valid PKIX key of another kind is installed before it is
  refused: loading reports the error, no key is registered, and yet the manager counts as
  initialised.
\<close>

theorem legacy_key_half_installed:
  assumes "sha256_size lib" and "d (keyRingPath km) = Absent"
    and "d (legacyKeyPath km) = Content pem" and "pem_decode lib pem = Some block"
    and "ParsePKIXPublicKey lib block = Some OtherKey" and "block \<noteq> []"
  shows "\<exists>km'. loadPublicKeys lib d km = (Some NotEd25519, km') \<and> IsInitialized km' \<and>
    publicKeys km' = publicKeys km"
proof -
  let ?k = "\<lparr>KeyID = hex_encode (sha256_sum lib block), PublicKey = b64_encode block\<rparr>"
  have "loadLegacyPublicKeyLocked lib d km = Inr ?k"
    using assms by (simp add: loadLegacyPublicKeyLocked_def computeKeyID_def b64_decode_encode)
  moreover have "parsePublicKey lib (b64_encode block) = Inl NotEd25519"
    using assms by (simp add: parsePublicKey_def b64_decode_encode)
  moreover have "length (hex_encode (sha256_sum lib block)) = 64"
    using assms(1) by (simp add: sha256_size_def)
  then have "hex_encode (sha256_sum lib block) \<noteq> []" by (metis list.size(3) zero_neq_numeral)
  ultimately show ?thesis
    using assms(2)
    by (simp add: loadPublicKeys_def refreshPublicKeysLocked_def ring_map_def add_key_def IsInitialized_def)
qed

theorem legacy_key_half_installed_witness:
  "\<exists>km'. loadPublicKeys sample_lib (\<lambda>q. if q = ''l'' then Content ''RSA'' else Absent)
     (emptyKeyManager\<lparr>legacyKeyPath := ''l''\<rparr>) = (Some NotEd25519, km') \<and> IsInitialized km' \<and>
     publicKeys km' = Map.empty"
  using legacy_key_half_installed [OF sample_sha256_size,
    of "\<lambda>q. if q = ''l'' then Content ''RSA'' else Absent" "emptyKeyManager\<lparr>legacyKeyPath := ''l''\<rparr>"
       "''RSA''" "''RSA''"]
  by (simp add: emptyKeyManager_def sample_lib_def)

end
