(* ===== verification/AuthMiddlewareProps.thy ===== *)
theory AuthMiddlewareProps
  imports AuthMiddleware KeyManagerProps
begin

text \<open>
  What authentication guarantees: who a served request comes from, what its signature
  covers, and that it is served once.
\<close>

section \<open>A request to evaluate the model on\<close>

lemma authenticateV2_passes:
  assumes "ParseInt (Header r ''X-Timestamp'') 64 = Some ts"
    and "\<bar>wall now - ts * nanos_per_milli\<bar> \<le> maxTimestampDriftV2"
    and "hashRequestBody lib r = (Inr h, r)" and "h = ToLower (Header r ''X-Content-SHA256'')" and "h \<noteq> []"
    and "buildCanonicalRequestV2 r (Header r ''X-Timestamp'') (Header r ''X-Nonce'') (Header r ''X-Key-Id'') h = Some c"
    and "VerifySignature lib km (Header r ''X-Key-Id'') c (Header r ''X-Signature'') = None"
    and "Header r ''X-Nonce'' \<noteq> []" "Header r ''X-Key-Id'' \<noteq> []" "Header r ''X-Signature'' \<noteq> []"
    and "Remember (nonce_key_of r) now st = (True, st')"
  shows "authenticateV2 lib now km r st = (None, r, st')"
proof -
  have "Header r ''X-Timestamp'' \<noteq> []" using assms(1) by (auto simp: ParseInt_def)
  moreover have "\<not> (since_unix_milli now ts < - maxTimestampDriftV2 \<or> since_unix_milli now ts > maxTimestampDriftV2)"
    using assms(2) by (simp only: within_drift)
  ultimately show ?thesis
    using assms by (simp add: authenticateV2_def nonce_key_of_def)
qed

definition sample_bound :: KeyManager where
  "sample_bound = (sample_mgr (Some ''ABC'') None)\<lparr>authorizedPrincipal :=
     Some \<lparr>PType = ''uid'', PValue = FormatUint (unat (1000 :: 32 word))\<rparr>\<rparr>"

definition sample_request :: http_request where
  "sample_request = \<lparr>Header = (\<lambda>h.
       if h = ''X-Auth-Version'' then ''2'' else if h = ''X-Timestamp'' then ''0''
       else if h = ''X-Key-Id'' then KeyID (sample_stored ''ABC'')
       else if h = ''X-Nonce'' then ''n'' else if h = ''X-Content-SHA256'' then hex_encode (replicate 32 (CHR ''0''))
       else if h = ''X-Signature'' then ''QkM='' else []),
     Body = None, Method = ''GET'', RawQuery = [], EscapedPath = ''/test'', Peer = UnixPeer 1000\<rparr>"

lemma sample_bound_inv: "km_inv sample_lib sample_bound"
proof -
  have "km_inv sample_lib (sample_mgr (Some ''ABC'') None)"
    by (rule sample_mgr_inv) (simp_all add: sample_bytes_ABC)
  then show ?thesis by (simp add: km_inv_def sample_bound_def)
qed

lemma ToLower_hex: "ToLower (hex_encode bs) = hex_encode bs"
proof -
  have "ascii c" "lower_char c = c" if "hex_char c" for c
    using that by (auto simp: hex_char_def ascii_def lower_char_def Let_def)
  then have "\<forall>c\<in>set (hex_encode bs). ascii c" "map lower_char (hex_encode bs) = hex_encode bs"
    by (auto dest: hex_encode_chars intro: map_idI)
  then show ?thesis by (simp add: ToLower_ascii)
qed

lemma sample_signature:
  "VerifySignature sample_lib sample_bound (KeyID (sample_stored ''ABC'')) c ''QkM='' = None"
proof -
  have v: "validateKeyID (KeyID (sample_stored ''ABC'')) = Inr (KeyID (sample_stored ''ABC''))"
    using stored_ok_KeyID(1) [OF sample_stored_ok [OF sample_bytes_ABC(1)] sample_sha256_size] .
  have b: "b64_decode ''QkM='' = Some ''BC''" by code_simp
  have k: "publicKeys sample_bound (KeyID (sample_stored ''ABC'')) = Some ''BC''"
    unfolding sample_bound_def sample_mgr_def by (simp add: sample_map_def emptyKeyManager_def)
  have e: "ed25519_verify sample_lib pub c pub" for pub by (simp add: sample_lib_def)
  show ?thesis by (simp add: VerifySignature_def v k b e)
qed

lemma sample_served:
  assumes "\<bar>wall now\<bar> \<le> maxTimestampDriftV2" and "Remember (nonce_key_of sample_request) now st = (True, st')"
  shows "AuthMiddleware sample_lib now sample_bound sample_request st = (Served sample_request, st')"
proof -
  have ne: "KeyID (sample_stored ''ABC'') \<noteq> []"
    using stored_ok_KeyID(2) [OF sample_stored_ok [OF sample_bytes_ABC(1)] sample_sha256_size] .
  have ts: "ParseInt ''0'' 64 = Some 0"
    by (simp add: ParseInt_def ParseUint_def digit_val_def)
  have h: "hashRequestBody sample_lib sample_request =
      (Inr (hex_encode (replicate 32 (CHR ''0''))), sample_request)"
    by (simp add: hashRequestBody_def sample_request_def sample_lib_def)
  have "length (hex_encode (replicate 32 (CHR ''0''))) = 64" by simp
  then have hne: "hex_encode (replicate 32 (CHR ''0'')) \<noteq> []" by (metis list.size(3) zero_neq_numeral)
  obtain c where c: "buildCanonicalRequestV2 sample_request ''0'' ''n'' (KeyID (sample_stored ''ABC''))
      (hex_encode (replicate 32 (CHR ''0''))) = Some c"
    by (simp add: buildCanonicalRequestV2_def sample_request_def canonicalizeQuery_def)
  have "authenticateV2 sample_lib now sample_bound sample_request st = (None, sample_request, st')"
    by (rule authenticateV2_passes [OF _ _ h _ hne, where ts = 0 and c = c])
      (use assms ts ne c sample_signature in \<open>simp_all add: sample_request_def ToLower_hex\<close>)
  moreover have "VerifyRequestPrincipal sample_bound (Peer sample_request) = None"
    by (simp add: VerifyRequestPrincipal_def sample_bound_def sample_request_def getRequestPrincipal_def)
  moreover have "IsInitialized sample_bound" "HasAuthorizedPrincipal sample_bound"
    using ne by (simp_all add: IsInitialized_def HasAuthorizedPrincipal_def sample_bound_def sample_mgr_def)
  ultimately show ?thesis
    by (simp add: AuthMiddleware_def) (simp add: sample_request_def)
qed

text \<open>The sample request at both ends of its window, with nothing in between.\<close>

lemma sample_boundary:
  "\<exists>st1 st2. AuthMiddleware sample_lib \<lparr>wall = - 30000000000, monotonic = 0\<rparr> sample_bound sample_request
       requestNonceStore = (Served sample_request, st1) \<and>
     AuthMiddleware sample_lib \<lparr>wall = 30000000000, monotonic = 60000000000\<rparr> sample_bound sample_request
       st1 = (Served sample_request, st2)"
proof -
  let ?t0 = "\<lparr>wall = - 30000000000, monotonic = 0\<rparr>" and ?t1 = "\<lparr>wall = 30000000000, monotonic = 60000000000\<rparr>"
  let ?k = "nonce_key_of sample_request"
  have f0: "fst (Remember ?k ?t0 requestNonceStore)"
    by (simp add: Remember_accepts requestNonceStore_def newNonceStore_def)
  then obtain st1 where s1: "Remember ?k ?t0 requestNonceStore = (True, st1)" by (metis prod.collapse)
  have "nonce_live st1 ?k = Some 60000000000"
    using nonces.accepted_live [OF f0] s1
    by (simp add: requestNonceStore_def newNonceStore_def maxTimestampDriftV2_def nanos_per_second_def)
  then have "fst (Remember ?k ?t1 st1)" using nonces.accepts_iff [of ?k ?t1 st1] by simp
  then obtain st2 where s2: "Remember ?k ?t1 st1 = (True, st2)" by (metis prod.collapse)
  have "AuthMiddleware sample_lib ?t0 sample_bound sample_request requestNonceStore = (Served sample_request, st1)"
    by (rule sample_served [OF _ s1]) (simp add: maxTimestampDriftV2_def nanos_per_second_def)
  moreover have "AuthMiddleware sample_lib ?t1 sample_bound sample_request st1 = (Served sample_request, st2)"
    by (rule sample_served [OF _ s2]) (simp add: maxTimestampDriftV2_def nanos_per_second_def)
  ultimately show ?thesis by blast
qed

section \<open>Properties\<close>

text \<open>
  C1. Nothing reaches the next handler without a valid proof of origin: a request is served
  only if its peer is the bound principal, its timestamp is within thirty seconds of the
  wall clock, its body has the announced digest, and the canonical request built from its
  method, path, query, nonce, timestamp, key identifier and body digest carries a signature
  of the current or the previous key; and it is handed on unchanged.
\<close>

theorem served_is_authenticated:
  assumes "km_inv lib km" and "AuthMiddleware lib now km r st = (Served r', st')"
  shows "r' = r \<and> VerifyRequestPrincipal km (Peer r) = None \<and> authorizedPrincipal km \<noteq> None \<and>
    (\<exists>ts. ParseInt (Header r ''X-Timestamp'') 64 = Some ts \<and>
       \<bar>wall now - ts * nanos_per_milli\<bar> \<le> 30 * nanos_per_second) \<and>
    (\<exists>bodyHash canonical k pub sig.
       fst (hashRequestBody lib r) = Inr bodyHash \<and> bodyHash = ToLower (Header r ''X-Content-SHA256'') \<and>
       buildCanonicalRequestV2 r (Header r ''X-Timestamp'') (Header r ''X-Nonce'')
         (Header r ''X-Key-Id'') bodyHash = Some canonical \<and>
       (currentKey km = Some k \<or> previousKey km = Some k) \<and> KeyID k = TrimSpace (Header r ''X-Key-Id'') \<and>
       parsePublicKey lib (PublicKey k) = Inr (PublicKey k, pub) \<and>
       b64_decode (Header r ''X-Signature'') = Some sig \<and> ed25519_verify lib pub canonical sig)"
proof -
  note served = AuthMiddleware_serves [OF assms(2)]
  from served(4) show ?thesis
  proof (rule authenticateV2_accepts)
    fix ts bh c
    assume a: "ParseInt (Header r ''X-Timestamp'') 64 = Some ts"
      "\<bar>wall now - ts * nanos_per_milli\<bar> \<le> maxTimestampDriftV2"
      "fst (hashRequestBody lib r) = Inr bh" "bh = ToLower (Header r ''X-Content-SHA256'')"
      "buildCanonicalRequestV2 r (Header r ''X-Timestamp'') (Header r ''X-Nonce'') (Header r ''X-Key-Id'') bh = Some c"
      "VerifySignature lib km (Header r ''X-Key-Id'') c (Header r ''X-Signature'') = None" "r' = r"
    note key = verified_key [OF assms(1) a(6)]
    with a served(2,3) show ?thesis
      unfolding HasAuthorizedPrincipal_def maxTimestampDriftV2_def by blast
  qed
qed

theorem served_is_authenticated_witness:
  "AuthMiddleware sample_lib \<lparr>wall = 5, monotonic = 5\<rparr> sample_bound sample_request requestNonceStore =
     (Served sample_request, snd (Remember (nonce_key_of sample_request) \<lparr>wall = 5, monotonic = 5\<rparr> requestNonceStore)) \<and>
   VerifyRequestPrincipal sample_bound (Peer sample_request) = None"
proof -
  let ?t = "\<lparr>wall = 5, monotonic = 5\<rparr>"
  have "fst (Remember (nonce_key_of sample_request) ?t requestNonceStore)"
    by (simp add: Remember_accepts requestNonceStore_def newNonceStore_def)
  then have "Remember (nonce_key_of sample_request) ?t requestNonceStore =
      (True, snd (Remember (nonce_key_of sample_request) ?t requestNonceStore))"
    by (metis prod.collapse)
  then have s: "AuthMiddleware sample_lib ?t sample_bound sample_request requestNonceStore =
     (Served sample_request, snd (Remember (nonce_key_of sample_request) ?t requestNonceStore))"
    by (intro sample_served) (simp_all add: maxTimestampDriftV2_def nanos_per_second_def)
  with served_is_authenticated [OF sample_bound_inv s] show ?thesis by simp
qed



text \<open>
  The window is closed at both ends while the replay memory is open at its end: a request
  signed thirty seconds ahead of the clock is served again exactly sixty seconds later.
\<close>

theorem replay_at_the_boundary:
  "\<exists>st1 st2. AuthMiddleware sample_lib \<lparr>wall = - 30000000000, monotonic = 0\<rparr> sample_bound sample_request
       requestNonceStore = (Served sample_request, st1) \<and>
     AuthMiddleware sample_lib \<lparr>wall = 30000000000, monotonic = 60000000000\<rparr> sample_bound sample_request
       st1 = (Served sample_request, st2)"
  by (rule sample_boundary)

text \<open>
  C5. The signature covers the request: two requests without line feeds in their headers,
  method and path that have the same canonical text agree on the timestamp, the nonce, the
  key identifier, the method up to case, the path, the body digest, and on the query
  parameters with their multiplicities.
\<close>

theorem signature_covers_request:
  assumes "LF_free r" and "LF_free r'" and "LF \<notin> set h" and "LF \<notin> set h'"
    and "buildCanonicalRequestV2 r (Header r ''X-Timestamp'') (Header r ''X-Nonce'') (Header r ''X-Key-Id'') h = Some c"
    and "buildCanonicalRequestV2 r' (Header r' ''X-Timestamp'') (Header r' ''X-Nonce'') (Header r' ''X-Key-Id'') h' = Some c"
  shows "Header r ''X-Timestamp'' = Header r' ''X-Timestamp'' \<and> Header r ''X-Nonce'' = Header r' ''X-Nonce'' \<and>
    Header r ''X-Key-Id'' = Header r' ''X-Key-Id'' \<and> ToUpper (Method r) = ToUpper (Method r') \<and>
    (if EscapedPath r = [] then ''/'' else EscapedPath r) = (if EscapedPath r' = [] then ''/'' else EscapedPath r') \<and>
    h = h' \<and> (\<exists>a b. query_pairs (RawQuery r) = Some a \<and> query_pairs (RawQuery r') = Some b \<and> mset a = mset b)"
proof -
  obtain q where q: "canonicalizeQuery (RawQuery r) = Some q"
    "split_on LF c = [''SPARKLE-AUTH-V2'', Header r ''X-Timestamp'', Header r ''X-Nonce'', Header r ''X-Key-Id'',
      ToUpper (Method r), (if EscapedPath r = [] then ''/'' else EscapedPath r), q, h]"
    using canonical_fields [OF assms(5)] assms(1,3) unfolding LF_free_def by blast
  obtain q' where q': "canonicalizeQuery (RawQuery r') = Some q'"
    "split_on LF c = [''SPARKLE-AUTH-V2'', Header r' ''X-Timestamp'', Header r' ''X-Nonce'', Header r' ''X-Key-Id'',
      ToUpper (Method r'), (if EscapedPath r' = [] then ''/'' else EscapedPath r'), q', h']"
    using canonical_fields [OF assms(6)] assms(2,4) unfolding LF_free_def by blast
  have "q = q'" using q(2) q'(2) by simp
  with q(1) q'(1) obtain a b where "query_pairs (RawQuery r) = Some a" "query_pairs (RawQuery r') = Some b" "mset a = mset b"
    by (auto simp: canonicalizeQuery_pairs canonical_eq_iff)
  with q(2) q'(2) show ?thesis by simp
qed

theorem signature_covers_request_witness:
  "\<exists>c. buildCanonicalRequestV2 sample_request ''0'' ''n'' (KeyID (sample_stored ''ABC'')) ''aa'' = Some c \<and>
   (\<exists>a b. query_pairs (RawQuery sample_request) = Some a \<and> query_pairs (RawQuery sample_request) = Some b \<and> mset a = mset b)"
proof -
  have k: "LF \<notin> set (KeyID (sample_stored ''ABC''))" "LF \<notin> set (hex_encode (replicate 32 (CHR ''0'')))"
    using hex_encode_chars [of LF] by (auto simp: sample_stored_def hex_char_def)
  then have free: "LF_free sample_request" by (auto simp: LF_free_def sample_request_def)
  obtain c where c: "buildCanonicalRequestV2 sample_request (Header sample_request ''X-Timestamp'')
      (Header sample_request ''X-Nonce'') (Header sample_request ''X-Key-Id'') ''aa'' = Some c"
    by (simp add: buildCanonicalRequestV2_def sample_request_def canonicalizeQuery_def)
  have "LF \<notin> set ''aa''" by simp
  from signature_covers_request [OF free free this this c c] c
  show ?thesis by (auto simp: sample_request_def)
qed

text \<open>
  Only a request with a valid signature touches the replay memory: any answer other than
  the replay conflict leaves it as it was.
\<close>

theorem rejected_keeps_memory:
  assumes "AuthMiddleware lib now km r st = (Answered code m, st')" and "m \<noteq> ReplayedRequest"
  shows "st' = st"
proof -
  obtain h where h: "hashRequestBody lib r = (h, r)"
    using hashRequestBody_same [of lib r] by (metis prod.collapse)
  have "st1 = st" if "authenticateV2 lib now km r st = (Some e, r1, st1)" "answer e = Answered code m" for e r1 st1
    using that assms(2) unfolding authenticateV2_def Let_def h
    by (auto simp: answer_def SendError_def Conflict_def split: if_splits option.splits sum.splits prod.splits)
  with assms(1) show ?thesis
    by (auto simp: AuthMiddleware_def split: if_splits option.splits prod.splits)
qed

theorem rejected_keeps_memory_witness:
  "AuthMiddleware sample_lib \<lparr>wall = 5, monotonic = 5\<rparr> sample_bound (sample_request\<lparr>Peer := UnixPeer 0\<rparr>)
     requestNonceStore = (Answered 403 (RequesterNotAuthorized PrincipalValueMismatch), requestNonceStore)"
proof -
  have "IsInitialized sample_bound" "HasAuthorizedPrincipal sample_bound"
    using stored_ok_KeyID(2) [OF sample_stored_ok [OF sample_bytes_ABC(1)] sample_sha256_size]
    by (simp_all add: IsInitialized_def HasAuthorizedPrincipal_def sample_bound_def sample_mgr_def)
  moreover have "VerifyRequestPrincipal sample_bound (UnixPeer 0) = Some PrincipalValueMismatch"
    by (simp add: VerifyRequestPrincipal_def sample_bound_def getRequestPrincipal_def FormatUint_inj)
  ultimately have "\<exists>st'. AuthMiddleware sample_lib \<lparr>wall = 5, monotonic = 5\<rparr> sample_bound (sample_request\<lparr>Peer := UnixPeer 0\<rparr>)
     requestNonceStore = (Answered 403 (RequesterNotAuthorized PrincipalValueMismatch), st')"
    by (simp add: AuthMiddleware_def answer_def SendError_def Forbidden_def)
  then obtain st' where s: "AuthMiddleware sample_lib \<lparr>wall = 5, monotonic = 5\<rparr> sample_bound
     (sample_request\<lparr>Peer := UnixPeer 0\<rparr>) requestNonceStore =
       (Answered 403 (RequesterNotAuthorized PrincipalValueMismatch), st')" ..
  from s rejected_keeps_memory [OF s] show ?thesis by simp
qed

end
