(* ===== verification/EventHub.thy ===== *)
theory EventHub
  imports Prelude
begin

text \<open>
  The event hub that the core manager (\<open>core/events.go\<close>) and the system proxy
  guard (\<open>route/sysproxyapi/sysproxy_events.go\<close>) both contain: a set of buffered
  subscriber channels, the last event and a sequence number.  Each critical section of
  the two files is one operation here; the send of the snapshot in the subscribe
  functions happens after the mutex is released and is an operation of its own.
  The locale \<open>event_hub\<close> states what the publish function of a hub promises and
  derives the order and completeness of every subscriber's stream; both hubs are
  interpretations of it.
\<close>

section \<open>State and operations\<close>

text \<open>
  Channels are numbered in the order of their creation.  A channel stays readable after
  \<open>close\<close>; the hub only keeps the numbers of the ones it sends to.
\<close>

record 'e hub =
  hub_chans :: "'e chan list"
  hub_subscribers :: "nat list"
  hub_closed :: "nat list"
  hub_last :: 'e
  hub_nextSeq :: "64 word"

text \<open>The locked part of a subscribe: a channel of at least one slot is registered.\<close>

definition hub_register :: "int \<Rightarrow> 'e hub \<Rightarrow> nat \<times> 'e \<times> 'e hub" where
  "hub_register buffer h =
    (let ch = length (hub_chans h); size = (if buffer < 1 then 1 else nat buffer)
     in (ch, hub_last h,
         h\<lparr>hub_chans := hub_chans h @ [make_chan size],
           hub_subscribers := hub_subscribers h @ [ch]\<rparr>))"

text \<open>\<open>ch <- last\<close>, outside the lock: on a full channel the goroutine blocks (\<open>None\<close>).\<close>

definition hub_send :: "nat \<Rightarrow> 'e \<Rightarrow> 'e hub \<Rightarrow> 'e hub option" where
  "hub_send ch e h =
    (if length (hub_chans h) \<le> ch \<or> send_blocks (hub_chans h ! ch) then None
     else Some (h\<lparr>hub_chans := (hub_chans h)[ch := try_send (hub_chans h ! ch) e]\<rparr>))"

definition hub_unsubscribe :: "nat \<Rightarrow> 'e hub \<Rightarrow> 'e hub" where
  "hub_unsubscribe ch h =
    (if ch \<in> set (hub_subscribers h)
     then h\<lparr>hub_subscribers := removeAll ch (hub_subscribers h),
            hub_closed := ch # hub_closed h\<rparr>
     else h)"

text \<open>
  \<open>for ch := range subscribers { select { case ch <- event: default: } }\<close>: the
  iteration order of the map does not matter, each channel is offered the event once.
\<close>

definition hub_broadcast :: "'e \<Rightarrow> 'e hub \<Rightarrow> 'e chan list" where
  "hub_broadcast e h =
    map (\<lambda>i. if i \<in> set (hub_subscribers h) then try_send (hub_chans h ! i) e
             else hub_chans h ! i)
        [0 ..< length (hub_chans h)]"

definition hub_recv :: "nat \<Rightarrow> 'e hub \<Rightarrow> ('e \<times> 'e hub) option" where
  "hub_recv ch h =
    (if length (hub_chans h) \<le> ch then None
     else case chan_recv (hub_chans h ! ch) of
            None \<Rightarrow> None
          | Some (e, c) \<Rightarrow> Some (e, h\<lparr>hub_chans := (hub_chans h)[ch := c]\<rparr>))"

definition hub_buf :: "nat \<Rightarrow> 'e hub \<Rightarrow> 'e list" where
  "hub_buf ch h = (if ch < length (hub_chans h) then chan_buf (hub_chans h ! ch) else [])"

definition hub_cap :: "nat \<Rightarrow> 'e hub \<Rightarrow> nat" where
  "hub_cap ch h = (if ch < length (hub_chans h) then chan_cap (hub_chans h ! ch) else 0)"

section \<open>Schedules\<close>

text \<open>
  A schedule is a list of the operations the goroutines of the service perform on a
  hub; \<open>'a\<close> is the argument of the publish function.  A blocked operation changes
  nothing.
\<close>

datatype ('a, 'e) hub_op =
    Publish 'a
  | Register int
  | Snapshot nat 'e
  | Receive nat
  | Unsubscribe nat

fun hub_exec :: "('a \<Rightarrow> 'e hub \<Rightarrow> 'e hub) \<Rightarrow> ('a, 'e) hub_op \<Rightarrow> 'e hub \<Rightarrow> 'e hub" where
  "hub_exec pub (Publish a) h = pub a h"
| "hub_exec pub (Register n) h = snd (snd (hub_register n h))"
| "hub_exec pub (Snapshot ch e) h = (case hub_send ch e h of None \<Rightarrow> h | Some h' \<Rightarrow> h')"
| "hub_exec pub (Receive ch) h = (case hub_recv ch h of None \<Rightarrow> h | Some (e, h') \<Rightarrow> h')"
| "hub_exec pub (Unsubscribe ch) h = hub_unsubscribe ch h"

fun hub_out :: "nat \<Rightarrow> ('a, 'e) hub_op \<Rightarrow> 'e hub \<Rightarrow> 'e list" where
  "hub_out i (Receive ch) h =
     (if ch = i then (case hub_recv ch h of None \<Rightarrow> [] | Some (e, h') \<Rightarrow> [e]) else [])"
| "hub_out i _ h = []"

fun hub_run :: "('a \<Rightarrow> 'e hub \<Rightarrow> 'e hub) \<Rightarrow> ('a, 'e) hub_op list \<Rightarrow> 'e hub \<Rightarrow> 'e hub" where
  "hub_run pub [] h = h"
| "hub_run pub (x # xs) h = hub_run pub xs (hub_exec pub x h)"

text \<open>What the reader of channel \<open>i\<close> has received over a schedule, in order.\<close>

fun received :: "('a \<Rightarrow> 'e hub \<Rightarrow> 'e hub) \<Rightarrow> nat \<Rightarrow> ('a, 'e) hub_op list \<Rightarrow> 'e hub \<Rightarrow> 'e list" where
  "received pub i [] h = []"
| "received pub i (x # xs) h = hub_out i x h @ received pub i xs (hub_exec pub x h)"

text \<open>The whole stream of channel \<open>i\<close>: what was received and what still waits.\<close>

definition stream :: "('a \<Rightarrow> 'e hub \<Rightarrow> 'e hub) \<Rightarrow> nat \<Rightarrow> ('a, 'e) hub_op list \<Rightarrow> 'e hub \<Rightarrow> 'e list" where
  "stream pub i xs h = received pub i xs h @ hub_buf i (hub_run pub xs h)"

text \<open>The events a schedule publishes, numbered from \<open>n\<close>.\<close>

fun published :: "('a \<Rightarrow> 64 word \<Rightarrow> 'e) \<Rightarrow> 64 word \<Rightarrow> ('a, 'e) hub_op list \<Rightarrow> 'e list" where
  "published stamp n [] = []"
| "published stamp n (x # xs) =
    (case x of Publish a \<Rightarrow> stamp a (n + 1) # published stamp (n + 1) xs
             | _ \<Rightarrow> published stamp n xs)"

lemma length_hub_broadcast [simp]: "length (hub_broadcast e h) = length (hub_chans h)"
  by (simp add: hub_broadcast_def)

lemma hub_buf_register:
  "hub_buf i (snd (snd (hub_register n h))) = hub_buf i h"
  by (auto simp: hub_register_def Let_def hub_buf_def nth_append make_chan_def)

lemma hub_buf_send:
  "hub_send ch e h = Some h' \<Longrightarrow> hub_buf i h' = (if i = ch then hub_buf i h @ [e] else hub_buf i h)"
  by (auto simp: hub_send_def hub_buf_def nth_list_update try_send_def split: if_splits)

lemma hub_buf_recv:
  "hub_recv ch h = Some (e, h') \<Longrightarrow>
    (if i = ch then hub_buf i h = e # hub_buf i h' else hub_buf i h' = hub_buf i h)"
  by (auto simp: hub_recv_def hub_buf_def chan_recv_def nth_list_update
        split: if_splits option.splits list.splits)

lemma hub_frames [frame_simps]:
  "hub_send ch e h = Some h' \<Longrightarrow> hub_nextSeq h' = hub_nextSeq h"
  "hub_send ch e h = Some h' \<Longrightarrow> hub_subscribers h' = hub_subscribers h"
  "hub_recv ch h = Some (e, h') \<Longrightarrow> hub_nextSeq h' = hub_nextSeq h"
  "hub_recv ch h = Some (e, h') \<Longrightarrow> hub_subscribers h' = hub_subscribers h"
  "hub_nextSeq (snd (snd (hub_register n h))) = hub_nextSeq h"
  "hub_nextSeq (hub_unsubscribe ch h) = hub_nextSeq h"
  "hub_buf i (hub_unsubscribe ch h) = hub_buf i h"
  by (auto simp: hub_send_def hub_recv_def hub_register_def hub_unsubscribe_def Let_def
        hub_buf_def split: if_splits option.splits)

lemma hub_cap_frames [frame_simps]:
  "hub_send ch e h = Some h' \<Longrightarrow> hub_cap i h' = hub_cap i h"
  "hub_recv ch h = Some (e, h') \<Longrightarrow> hub_cap i h' = hub_cap i h"
  "i < length (hub_chans h) \<Longrightarrow> hub_cap i (snd (snd (hub_register n h))) = hub_cap i h"
  "hub_cap i (hub_unsubscribe ch h) = hub_cap i h"
  by (auto simp: hub_send_def hub_recv_def hub_register_def hub_unsubscribe_def Let_def
        hub_cap_def nth_list_update nth_append chan_recv_def hub_broadcast_def
        split: if_splits option.splits list.splits)

lemma length_recv:
  "hub_recv ch h = Some (e, h') \<Longrightarrow> length (hub_chans h') = length (hub_chans h)"
  by (auto simp: hub_recv_def split: if_splits option.splits)

section \<open>The contract of a publish function\<close>

text \<open>
  \<open>stamp a n\<close> is the event that publishing \<open>a\<close> produces under sequence number
  \<open>n\<close>; \<open>replaces a\<close> says whether it becomes the hub's last event.
\<close>

locale event_hub =
  fixes pub :: "'a \<Rightarrow> 'e hub \<Rightarrow> 'e hub"
    and stamp :: "'a \<Rightarrow> 64 word \<Rightarrow> 'e"
    and seq :: "'e \<Rightarrow> 64 word"
    and replaces :: "'a \<Rightarrow> bool"
  assumes seq_stamp: "seq (stamp a n) = n"
    and pub_eq: "pub a h =
      h\<lparr>hub_chans := hub_broadcast (stamp a (hub_nextSeq h + 1)) h,
        hub_nextSeq := hub_nextSeq h + 1,
        hub_last := (if replaces a then stamp a (hub_nextSeq h + 1) else hub_last h)\<rparr>"
begin

lemma pub_frames:
  "hub_nextSeq (pub a h) = hub_nextSeq h + 1"
  "hub_subscribers (pub a h) = hub_subscribers h"
  "hub_last (pub a h) = (if replaces a then stamp a (hub_nextSeq h + 1) else hub_last h)"
  "length (hub_chans (pub a h)) = length (hub_chans h)"
  by (simp_all add: pub_eq)

lemma pub_buf:
  "hub_buf i (pub a h) =
    (if i < length (hub_chans h) \<and> i \<in> set (hub_subscribers h) \<and>
        \<not> send_blocks (hub_chans h ! i)
     then hub_buf i h @ [stamp a (hub_nextSeq h + 1)] else hub_buf i h)"
  by (simp add: pub_eq hub_buf_def hub_broadcast_def chan_buf_try_send)

lemma pub_cap: "hub_cap i (pub a h) = hub_cap i h"
  by (simp add: pub_eq hub_cap_def hub_broadcast_def)

text \<open>One step appends at most one event to the stream of a channel.\<close>

lemma stream_step:
  "hub_out i x h @ hub_buf i (hub_exec pub x h) \<in>
    {hub_buf i h} \<union>
    (case x of Publish a \<Rightarrow> {hub_buf i h @ [stamp a (hub_nextSeq h + 1)]}
             | Snapshot ch e \<Rightarrow> (if ch = i then {hub_buf i h @ [e]} else {})
             | _ \<Rightarrow> {})"
proof (cases x)
  case (Receive ch)
  then show ?thesis
    using hub_buf_recv [of ch h _ _ i] by (auto split: option.splits)
next
  case (Snapshot ch e)
  then show ?thesis
    using hub_buf_send [of ch e h _ i] by (auto split: option.splits)
qed (auto simp: pub_buf hub_buf_register frame_simps)

lemma nextSeq_exec:
  "hub_nextSeq (hub_exec pub x h) =
    (case x of Publish a \<Rightarrow> hub_nextSeq h + 1 | _ \<Rightarrow> hub_nextSeq h)"
  by (cases x) (auto simp: pub_frames frame_simps split: option.splits)

lemma seq_no_wrap:
  assumes "unat n + Suc k < 2 ^ 64"
  shows "n < n + (1 :: 64 word)" and "unat (n + 1) = Suc (unat n)"
proof -
  have "unat (n + 1) = Suc (unat n)"
    using assms by (simp add: unat_word_ariths)
  then show "unat (n + 1) = Suc (unat n)" and "n < n + 1"
    by (simp_all add: word_less_nat_alt)
qed

text \<open>
  The order of a stream above a base \<open>b\<close>: events numbered after \<open>b\<close> come in strictly
  increasing order, whatever the schedule does, as long as the counter does not wrap.
\<close>

lemma stream_sorted_from:
  assumes "sorted_wrt (\<lambda>x y. seq x < seq y) (filter (\<lambda>e. b < seq e) (got @ hub_buf i h))"
    and "\<forall>e\<in>set (got @ hub_buf i h). seq e \<le> hub_nextSeq h"
    and "b \<le> hub_nextSeq h"
    and "\<forall>e. Snapshot i e \<in> set xs \<longrightarrow> seq e \<le> b"
    and "unat (hub_nextSeq h) + length xs < 2 ^ 64"
  shows "sorted_wrt (\<lambda>x y. seq x < seq y)
           (filter (\<lambda>e. b < seq e) (got @ stream pub i xs h))"
  using assms
proof (induction xs arbitrary: got h)
  case Nil
  then show ?case by (simp add: stream_def)
next
  case (Cons x xs)
  let ?h = "hub_exec pub x h" and ?g = "got @ hub_out i x h"
  let ?n = "hub_nextSeq h"
  have small: "unat ?n + Suc (length xs) < 2 ^ 64"
    using Cons.prems(5) by simp
  note up = seq_no_wrap [OF small]
  have le: "?n \<le> hub_nextSeq ?h" and room: "unat (hub_nextSeq ?h) + length xs < 2 ^ 64"
    using up small by (auto simp: nextSeq_exec split: hub_op.splits)
  have tail: "\<exists>ys. ?g @ hub_buf i ?h = (got @ hub_buf i h) @ ys \<and>
      (ys = [] \<or> (\<exists>e. ys = [e] \<and> (seq e \<le> b \<or> (seq e = ?n + 1 \<and> hub_nextSeq ?h = ?n + 1))))"
    using stream_step [of i x h] Cons.prems(4)
    by (cases x) (auto simp: seq_stamp pub_frames split: if_splits)
  then obtain ys where ys: "?g @ hub_buf i ?h = (got @ hub_buf i h) @ ys"
    and small_or_new: "ys = [] \<or> (\<exists>e. ys = [e] \<and>
      (seq e \<le> b \<or> (seq e = ?n + 1 \<and> hub_nextSeq ?h = ?n + 1)))"
    by blast
  have below: "\<forall>e\<in>set (got @ hub_buf i h). seq e < ?n + 1"
    using Cons.prems(2) up(1) by (meson le_less_trans)
  have srt: "sorted_wrt (\<lambda>x y. seq x < seq y) (filter (\<lambda>e. b < seq e) (?g @ hub_buf i ?h))"
    unfolding ys using small_or_new Cons.prems(1) below
    by (auto simp: sorted_wrt_append)
  have "\<forall>e\<in>set (?g @ hub_buf i ?h). seq e \<le> hub_nextSeq ?h"
    unfolding ys using small_or_new order_trans [OF Cons.prems(3) le]
      order_trans [OF _ le] Cons.prems(2) by (auto intro: order_trans)
  from Cons.IH [OF srt this _ _ room] Cons.prems(3,4) le
  show ?case by (simp add: stream_def)
qed

text \<open>A subscriber with room for the whole schedule misses nothing.\<close>

lemma exec_keeps_subscriber:
  assumes "i \<in> set (hub_subscribers h)" and "i < length (hub_chans h)"
    and "x \<noteq> Unsubscribe i"
  shows "i \<in> set (hub_subscribers (hub_exec pub x h)) \<and>
    i < length (hub_chans (hub_exec pub x h)) \<and> hub_cap i (hub_exec pub x h) = hub_cap i h"
proof (cases x)
  case (Publish a)
  then show ?thesis using assms by (simp add: pub_frames pub_cap)
next
  case (Register n)
  then show ?thesis using assms
    by (simp add: hub_register_def Let_def hub_cap_def nth_append)
next
  case (Snapshot ch e)
  then show ?thesis using assms
    by (auto simp: hub_send_def hub_cap_def nth_list_update split: option.splits if_splits)
next
  case (Receive ch)
  then show ?thesis using assms hub_cap_frames(2) [of ch h _ _ i]
    by (auto simp: frame_simps length_recv split: option.splits)
next
  case (Unsubscribe ch)
  then show ?thesis using assms by (auto simp: hub_unsubscribe_def hub_cap_def)
qed

lemma stream_complete_from:
  assumes "i \<in> set (hub_subscribers h)" and "i < length (hub_chans h)"
    and "Unsubscribe i \<notin> set xs" and "\<forall>e. Snapshot i e \<notin> set xs"
    and "length (hub_buf i h) + length xs \<le> hub_cap i h"
  shows "stream pub i xs h = hub_buf i h @ published stamp (hub_nextSeq h) xs"
  using assms
proof (induction xs arbitrary: h)
  case Nil
  then show ?case by (simp add: stream_def)
next
  case (Cons x xs)
  let ?h = "hub_exec pub x h"
  have keep: "i \<in> set (hub_subscribers ?h)" "i < length (hub_chans ?h)"
    "hub_cap i ?h = hub_cap i h"
    using exec_keeps_subscriber [of i h x] Cons.prems by auto
  have open_slot: "\<not> send_blocks (hub_chans h ! i)"
    using Cons.prems(2,5) by (simp add: send_blocks_def hub_buf_def hub_cap_def)
  have one: "hub_out i x h @ hub_buf i ?h =
      hub_buf i h @ (case x of Publish a \<Rightarrow> [stamp a (hub_nextSeq h + 1)] | _ \<Rightarrow> [])"
    using stream_step [of i x h] Cons.prems(1,2,4) open_slot
    by (cases x) (auto simp: pub_buf split: if_splits)
  then have "length (hub_buf i ?h) \<le> Suc (length (hub_buf i h))"
    by (cases x) (auto dest!: arg_cong [where f = length])
  then have "stream pub i xs ?h = hub_buf i ?h @ published stamp (hub_nextSeq ?h) xs"
    using Cons.IH [OF keep(1,2)] Cons.prems(3-5) keep(3) by simp
  then show ?case using one
    using nextSeq_exec [of x h] by (cases x) (simp_all add: stream_def)
qed

end

end
