(* ===== verification/CoreErrors.thy ===== *)
theory CoreErrors
  imports Prelude
begin

text \<open>
  The errors and the user-visible texts of package \<open>core\<close>.  The program formats them
  as Chinese sentences; here every \<open>fmt.Errorf\<close> of the package is a constructor named
  after its meaning, with the values it formats as arguments, and every event message is
  a constructor of \<open>core_text\<close>.  Errors of the operating system and of libraries are
  carried as their text.
\<close>

datatype startup_error =
    FatalOutput string                 \<comment> \<open>a fatal line, with the text after its marker\<close>
  | FatalUnknown
  | ControllerListenFailed string
  | TunFailed string
  | NotifyNotInitialised
  | PostUpFailed string
  | ExitedBeforeReady string string    \<comment> \<open>exit error and captured output\<close>
  | ExitedQuietly
  | StartTimedOut

datatype launch_error =
    BadMode
  | BadCPU int
  | EmptyArg nat
  | DoubleDashArg
  | ManagedArg string
  | NotRunArg string
  | BadSafePath string
  | EmptyEnvKey
  | BadLogPath string
  | EmptyCorePath
  | CorePathUnset
  | CorePathUnresolved
  | CorePathIsDir string
  | CorePathCheck string
  | CorePathMissing string
  | ReadProfileFailed
  | ParseProfileFailed string
  | RemoveProfileFailed string
  | MarshalProfileFailed string
  | WriteProfileFailed string
  | EmptyWorkingDir
  | BadWorkingDir string
  | UnsupportedControllerNet string
  | LaunchOS string                    \<comment> \<open>an operating system error, as it is\<close>

datatype core_error =
    AlreadyRunning
  | LaunchFailed launch_error
  | CommandFailed string
  | StartFailed string
  | AttachFailed string
  | StartupFailed startup_error
  | HardenFailed string
  | StopFailed string
  | AffinityFailed string
  | ControllerUninitialised
  | RetriesExhausted
  | ExitStatus int
  | WaitFailed string
  | StateReadFailed
  | StateCorrupt string
  | StateQuarantineFailed string
  | RestoreFailed core_error
  | StaleTerminateFailed string
  | StaleExitTimedOut int
  | NotRunning
  | ProcessQueryFailed string
  | OSFailed string

datatype core_text =
    MsgNone
  | MsgNotRunning
  | MsgStarting
  | MsgStarted
  | MsgStartFailed
  | MsgStopping
  | MsgStopped
  | MsgRestarting
  | MsgCrashRestarting
  | MsgCrashLimit
  | MsgRestartFailed
  | MsgExitedNormally
  | MsgPanicked
  | MsgSignalled
  | MsgExitedWithError
  | MsgTakenOver
  | MsgReadyAgain
  | MsgLog string

end
