(* ===== verification/CoreEvents.thy ===== *)
theory CoreEvents
  imports EventHub CoreErrors
begin

text \<open>
  The events of the core manager, \<open>core/events.go\<close>: construction, publication and
  subscription.  The manager's atomics \<open>pid\<close> and \<open>isRunning\<close> are read by the
  operations and are arguments here.
\<close>

section \<open>Events\<close>

datatype core_event_type =
    NoType | CoreEventStarting | CoreEventStarted | CoreEventStopping | CoreEventStopped
  | CoreEventExited | CoreEventRestarting | CoreEventRestartFailed | CoreEventTakeover
  | CoreEventReady | CoreEventFailed | CoreEventLog

record CoreEvent =
  ce_Seq :: "64 word"
  ce_Type :: core_event_type
  ce_Time :: "go_time option"
  ce_Running :: bool
  ce_PID :: int
  ce_OldPID :: int
  ce_Message :: core_text
  ce_Error :: "core_error option"
  ce_Data :: "(string \<times> string) list"

definition zeroEvent :: CoreEvent where
  "zeroEvent = \<lparr>ce_Seq = 0, ce_Type = NoType, ce_Time = None, ce_Running = False, ce_PID = 0,
    ce_OldPID = 0, ce_Message = MsgNone, ce_Error = None, ce_Data = []\<rparr>"

text \<open>The atomics an operation on the hub reads, and the clock.\<close>

record core_view =
  cv_now :: go_time
  cv_pid :: int
  cv_running :: bool

definition newCoreEvent ::
    "core_view \<Rightarrow> core_event_type \<Rightarrow> core_text \<Rightarrow> core_error option \<Rightarrow> int \<Rightarrow> int \<Rightarrow> CoreEvent" where
  "newCoreEvent v eventType message err pid oldPID =
    (let p = (if pid = 0 then cv_pid v else pid)
     in zeroEvent\<lparr>ce_Type := eventType, ce_Time := Some (cv_now v), ce_PID := p,
          ce_OldPID := oldPID, ce_Message := message, ce_Error := err,
          ce_Running := (cv_running v \<and> p > 0)\<rparr>)"

section \<open>The hub\<close>

type_synonym coreEventHub = "CoreEvent hub"

definition emptyCoreEventHub :: coreEventHub where
  "emptyCoreEventHub = \<lparr>hub_chans = [], hub_subscribers = [], hub_closed = [],
    hub_last = zeroEvent, hub_nextSeq = 0\<rparr>"

text \<open>The part of \<open>publishCoreEvent\<close> before the lock.\<close>

definition completeEvent :: "core_view \<Rightarrow> CoreEvent \<Rightarrow> CoreEvent" where
  "completeEvent v e =
    (let e1 = (if ce_Time e = None then e\<lparr>ce_Time := Some (cv_now v)\<rparr> else e);
         e2 = (if ce_PID e1 = 0 then e1\<lparr>ce_PID := cv_pid v\<rparr> else e1)
     in e2\<lparr>ce_Running := (cv_running v \<and> ce_PID e2 > 0)\<rparr>)"

definition publishCoreEvent :: "core_view \<Rightarrow> CoreEvent \<Rightarrow> coreEventHub \<Rightarrow> coreEventHub" where
  "publishCoreEvent v event h =
    (let seq = hub_nextSeq h + 1;
         e = (completeEvent v event)\<lparr>ce_Seq := seq\<rparr>
     in h\<lparr>hub_chans := hub_broadcast e h,
          hub_nextSeq := seq,
          hub_last := (if ce_Type e \<noteq> CoreEventLog then e else hub_last h)\<rparr>)"

definition emitCoreEvent ::
    "core_view \<Rightarrow> core_event_type \<Rightarrow> core_text \<Rightarrow> core_error option \<Rightarrow> coreEventHub \<Rightarrow> coreEventHub" where
  "emitCoreEvent v eventType message err h =
    publishCoreEvent v (newCoreEvent v eventType message err 0 0) h"

text \<open>
  \<open>SubscribeEvents\<close> registers under the lock and sends the snapshot after releasing
  it; other goroutines may run in between.  \<open>SubscribeEvents\<close> is the case where none
  does; \<open>None\<close> would be a subscriber that blocks for ever.
\<close>

definition subscribeSnapshot :: "core_view \<Rightarrow> CoreEvent \<Rightarrow> CoreEvent" where
  "subscribeSnapshot v previous =
    (if ce_Type previous = NoType then newCoreEvent v CoreEventStopped MsgNotRunning None 0 0 else previous)"

definition SubscribeEvents :: "core_view \<Rightarrow> int \<Rightarrow> coreEventHub \<Rightarrow> (nat \<times> coreEventHub) option" where
  "SubscribeEvents v buffer h =
    (case hub_register buffer h of (ch, previous, h1) \<Rightarrow>
       map_option (Pair ch) (hub_send ch (subscribeSnapshot v previous) h1))"

section \<open>The contract\<close>

definition stampCore :: "core_view \<times> CoreEvent \<Rightarrow> 64 word \<Rightarrow> CoreEvent" where
  "stampCore a n = (completeEvent (fst a) (snd a))\<lparr>ce_Seq := n\<rparr>"

definition pubCore :: "core_view \<times> CoreEvent \<Rightarrow> coreEventHub \<Rightarrow> coreEventHub" where
  "pubCore a = publishCoreEvent (fst a) (snd a)"

lemma ce_Type_completeEvent [simp]: "ce_Type (completeEvent v e) = ce_Type e"
  by (simp add: completeEvent_def Let_def)

lemma ce_Seq_completeEvent [simp]: "ce_Seq (completeEvent v e) = ce_Seq e"
  by (simp add: completeEvent_def Let_def)

interpretation core_hub: event_hub pubCore stampCore ce_Seq "\<lambda>a. ce_Type (snd a) \<noteq> CoreEventLog"
  by unfold_locales
    (simp_all add: pubCore_def publishCoreEvent_def stampCore_def Let_def)

lemma ce_Seq_newCoreEvent [simp]: "ce_Seq (newCoreEvent v t m err p q) = 0"
  by (simp add: newCoreEvent_def zeroEvent_def Let_def)

lemma SubscribeEvents_Some:
  assumes "SubscribeEvents v n h = Some (ch, h')"
  shows "ch = length (hub_chans h)"
    and "hub_buf ch h' = [subscribeSnapshot v (hub_last h)]"
    and "ch \<in> set (hub_subscribers h')" and "ch < length (hub_chans h')"
    and "hub_cap ch h' = (if n < 1 then 1 else nat n)"
    and "hub_nextSeq h' = hub_nextSeq h"
  using assms
  by (auto simp: SubscribeEvents_def hub_register_def Let_def hub_send_def hub_buf_def
        hub_cap_def make_chan_def try_send_def nth_append split: if_splits)

lemma SubscribeEvents_total: "\<exists>h'. SubscribeEvents v n h = Some (length (hub_chans h), h')"
  by (auto simp: SubscribeEvents_def hub_register_def Let_def hub_send_def send_blocks_def
        make_chan_def nth_append)

section \<open>Streams\<close>

definition lastBelow :: "coreEventHub \<Rightarrow> bool" where
  "lastBelow h \<longleftrightarrow> ce_Seq (hub_last h) \<le> hub_nextSeq h"

lemma snapshot_below:
  "lastBelow h \<Longrightarrow> ce_Seq (subscribeSnapshot v (hub_last h)) \<le> hub_nextSeq h"
  by (simp add: subscribeSnapshot_def lastBelow_def)

text \<open>
  A subscriber of the core event hub sees the events published after its registration
  in strictly increasing order of sequence number, whatever the other goroutines do: for
  every schedule of publications, subscriptions, reads and unsubscriptions (with the
  snapshot of the subscriber itself sent at any point of it), the events of its stream
  that are newer than the registration are sorted, unless the 64-bit counter wraps.
\<close>

theorem core_stream_in_order:
  assumes "hub_register n h = (i, previous, h1)" and "lastBelow h"
    and "\<forall>e. Snapshot i e \<in> set xs \<longrightarrow> e = subscribeSnapshot v previous"
    and "unat (hub_nextSeq h) + length xs < 2 ^ 64"
  shows "sorted_wrt (\<lambda>x y. ce_Seq x < ce_Seq y)
           (filter (\<lambda>e. hub_nextSeq h < ce_Seq e) (stream pubCore i xs h1))"
proof -
  from assms(1) have h1: "h1 = snd (snd (hub_register n h))" and prev: "previous = hub_last h"
    and "i = length (hub_chans h)"
    by (auto simp: hub_register_def Let_def)
  then have "hub_buf i h1 = []" by (simp add: hub_buf_register) (simp add: hub_buf_def)
  moreover have "hub_nextSeq h1 = hub_nextSeq h" by (simp add: h1 frame_simps)
  moreover have "\<forall>e. Snapshot i e \<in> set xs \<longrightarrow> ce_Seq e \<le> hub_nextSeq h"
    using assms(3) snapshot_below [OF assms(2)] prev by blast
  ultimately show ?thesis
    using core_hub.stream_sorted_from [of "hub_nextSeq h" "[]" i h1 xs] assms(4) by simp
qed

theorem core_stream_in_order_witness:
  "sorted_wrt (\<lambda>x y. ce_Seq x < ce_Seq y)
     (filter (\<lambda>e. 0 < ce_Seq e)
       (stream pubCore 0
         [Publish (\<lparr>cv_now = \<lparr>wall = 0, monotonic = 0\<rparr>, cv_pid = 7, cv_running = True\<rparr>, zeroEvent),
          Snapshot 0 (subscribeSnapshot
            \<lparr>cv_now = \<lparr>wall = 0, monotonic = 0\<rparr>, cv_pid = 7, cv_running = True\<rparr> zeroEvent),
          Publish (\<lparr>cv_now = \<lparr>wall = 0, monotonic = 0\<rparr>, cv_pid = 7, cv_running = True\<rparr>, zeroEvent)]
         (snd (snd (hub_register 4 emptyCoreEventHub)))))"
  using core_stream_in_order [of 4 emptyCoreEventHub 0 zeroEvent
      "snd (snd (hub_register 4 emptyCoreEventHub))"
      "[Publish (\<lparr>cv_now = \<lparr>wall = 0, monotonic = 0\<rparr>, cv_pid = 7, cv_running = True\<rparr>, zeroEvent),
        Snapshot 0 (subscribeSnapshot
          \<lparr>cv_now = \<lparr>wall = 0, monotonic = 0\<rparr>, cv_pid = 7, cv_running = True\<rparr> zeroEvent),
        Publish (\<lparr>cv_now = \<lparr>wall = 0, monotonic = 0\<rparr>, cv_pid = 7, cv_running = True\<rparr>, zeroEvent)]"
      "\<lparr>cv_now = \<lparr>wall = 0, monotonic = 0\<rparr>, cv_pid = 7, cv_running = True\<rparr>"]
  by (simp add: hub_register_def Let_def emptyCoreEventHub_def lastBelow_def zeroEvent_def)

text \<open>
  A subscriber with room for what happens next misses nothing: after an undisturbed
  \<open>SubscribeEvents\<close>, a schedule shorter than the free part of the buffer and without an
  unsubscription gives the stream that starts with the snapshot and continues with every
  published event, consecutively numbered, in the order of publication.
\<close>

theorem core_stream_complete:
  assumes "SubscribeEvents v n h = Some (i, h1)"
    and "Unsubscribe i \<notin> set xs" and "\<forall>e. Snapshot i e \<notin> set xs"
    and "length xs < nat n"
  shows "stream pubCore i xs h1 =
           subscribeSnapshot v (hub_last h) # published stampCore (hub_nextSeq h) xs"
  using core_hub.stream_complete_from [of i h1 xs] SubscribeEvents_Some [OF assms(1)] assms(2-4)
  by simp

theorem core_stream_complete_witness:
  "\<exists>h1. SubscribeEvents \<lparr>cv_now = \<lparr>wall = 0, monotonic = 0\<rparr>, cv_pid = 7, cv_running = True\<rparr> 16
      emptyCoreEventHub = Some (0, h1) \<and>
    stream pubCore 0
      [Publish (\<lparr>cv_now = \<lparr>wall = 0, monotonic = 0\<rparr>, cv_pid = 7, cv_running = True\<rparr>, zeroEvent),
       Receive 0] h1 =
    [subscribeSnapshot \<lparr>cv_now = \<lparr>wall = 0, monotonic = 0\<rparr>, cv_pid = 7, cv_running = True\<rparr> zeroEvent,
     stampCore (\<lparr>cv_now = \<lparr>wall = 0, monotonic = 0\<rparr>, cv_pid = 7, cv_running = True\<rparr>, zeroEvent) 1]"
proof -
  let ?v = "\<lparr>cv_now = \<lparr>wall = 0, monotonic = 0\<rparr>, cv_pid = 7, cv_running = True\<rparr>"
  obtain h1 where "SubscribeEvents ?v 16 emptyCoreEventHub = Some (0, h1)"
    using SubscribeEvents_total [of ?v 16 emptyCoreEventHub] by (auto simp: emptyCoreEventHub_def)
  from this core_stream_complete [OF this, of "[Publish (?v, zeroEvent), Receive 0]"]
  show ?thesis by (simp add: emptyCoreEventHub_def)
qed

text \<open>
  The snapshot can arrive behind a newer event: an event published between the
  registration and the send of the snapshot is buffered first, so the subscriber reads
  event 1 and then the older state; with a buffer of one the send of the snapshot blocks.
\<close>

theorem core_snapshot_race:
  "hub_buf 0 (hub_run pubCore
       [Register 2, Publish (v, e), Snapshot 0 (subscribeSnapshot v zeroEvent)] emptyCoreEventHub)
     = [stampCore (v, e) 1, subscribeSnapshot v zeroEvent] \<and>
   hub_send 0 (subscribeSnapshot v zeroEvent)
     (hub_run pubCore [Register 1, Publish (v, e)] emptyCoreEventHub) = None"
  by (simp add: emptyCoreEventHub_def hub_register_def Let_def pubCore_def publishCoreEvent_def
      hub_broadcast_def hub_send_def make_chan_def try_send_def send_blocks_def hub_buf_def
      stampCore_def)

end
