(* ===== verification/LogWatch.thy ===== *)
theory LogWatch
  imports CoreEvents GoStrings
begin

text \<open>
  What the service reads from the output of the core: \<open>core/manager_logs.go\<close> (the bounded
  error buffer, the start-up watcher and the event watcher) and the recognition of fatal
  lines in \<open>core/manager_startup.go\<close>.
\<close>

definition startupBufferLimit :: nat where "startupBufferLimit = 128 * 1024"
definition startupLineLimit :: nat where "startupLineLimit = 16 * 1024"

section \<open>The error buffer\<close>

record boundedOutputBuffer =
  bo_buf :: bytes
  bo_limit :: nat

definition newBoundedOutputBuffer :: "int \<Rightarrow> boundedOutputBuffer" where
  "newBoundedOutputBuffer limit =
    \<lparr>bo_buf = [], bo_limit = (if limit \<le> 0 then startupBufferLimit else nat limit)\<rparr>"

definition buffer_Write :: "bytes \<Rightarrow> boundedOutputBuffer \<Rightarrow> boundedOutputBuffer" where
  "buffer_Write p b =
    (let buf = bo_buf b @ p
     in b\<lparr>bo_buf := (if length buf > bo_limit b then drop (length buf - bo_limit b) buf else buf)\<rparr>)"

lemma buffer_Write_last:
  assumes "bo_buf b = drop (length t - bo_limit b) t"
  shows "bo_buf (buffer_Write p b) = drop (length (t @ p) - bo_limit b) (t @ p)"
  using assms by (cases "bo_limit b \<le> length t") (auto simp: buffer_Write_def Let_def add.commute)

lemma fold_buffer_limit: "bo_limit (fold buffer_Write ps b) = bo_limit b"
  by (induction ps arbitrary: b) (simp_all add: buffer_Write_def Let_def)

lemma fold_buffer_last:
  assumes "bo_buf b = drop (length t - bo_limit b) t"
  shows "bo_buf (fold buffer_Write ps b) = drop (length (t @ concat ps) - bo_limit b) (t @ concat ps)"
  using assms
proof (induction ps arbitrary: b t)
  case (Cons p ps)
  have l: "bo_limit (buffer_Write p b) = bo_limit b" by (simp add: buffer_Write_def Let_def)
  from Cons.IH [of "buffer_Write p b" "t @ p"] buffer_Write_last [OF Cons.prems, of p]
  show ?case by (simp add: l)
qed simp

section \<open>Lines\<close>

text \<open>
  The common part of the two watchers: the new text is appended to the pending line and
  split; the unfinished rest is kept, its last \<open>startupLineLimit\<close> bytes at most.
\<close>

definition keep_tail :: "nat \<Rightarrow> string \<Rightarrow> string" where
  "keep_tail n s = (if length s > n then drop (length s - n) s else s)"

definition take_lines :: "string \<Rightarrow> string list \<times> string" where
  "take_lines combined =
    (let ls = split_on LF combined
     in if has_suffix combined [LF] then (ls, [])
        else (butlast ls, keep_tail startupLineLimit (last ls)))"

lemma split_on_snoc_sep: "split_on d (s @ [d]) = split_on d s @ [[]]"
  by (induction s) (auto split: list.splits)

lemma last_split_on_suffix: "has_suffix s [d] \<Longrightarrow> last (split_on d s) = []"
  by (auto simp: has_suffix_iff suffix_def split_on_snoc_sep)

lemma split_on_append_gen:
  "split_on d (s @ t) = butlast (split_on d s) @ split_on d (last (split_on d s) @ t)"
proof (induction s)
  case (Cons c s)
  show ?case
  proof (cases "c = d")
    case False
    obtain x xs where x: "split_on d s = x # xs" by (cases "split_on d s") auto
    show ?thesis
    proof (cases xs)
      case Nil
      then show ?thesis using Cons x False by (auto split: list.splits)
    next
      case (Cons y ys)
      then show ?thesis using Cons.IH x False by auto
    qed
  qed (use Cons in auto)
qed simp

text \<open>Every line of the text is short enough to be kept whole while it is pending.\<close>

definition lines_short :: "string \<Rightarrow> bool" where
  "lines_short t \<longleftrightarrow> (\<forall>l\<in>set (split_on LF t). length l \<le> startupLineLimit)"

lemma last_prefix_split: "prefix s t \<Longrightarrow> \<exists>l\<in>set (split_on d t). prefix (last (split_on d s)) l"
proof -
  assume "prefix s t"
  then obtain u where t: "t = s @ u" by (auto simp: prefix_def)
  let ?x = "last (split_on d s)"
  have "d \<notin> set ?x" by (rule split_on_no_sep [OF last_in_set]) simp
  then have "prefix ?x (hd (split_on d (?x @ u)))"
  proof (induction ?x arbitrary: s)
    case Nil
    then show ?case by simp
  next
    case (Cons c cs)
    have "prefix xs (hd (split_on d (xs @ u)))" if "d \<notin> set xs" for xs
      using that by (induction xs) (auto split: list.splits)
    then show ?case using Cons.prems by blast
  qed
  moreover have "hd (split_on d (?x @ u)) \<in> set (split_on d t)"
    unfolding t split_on_append_gen [of d s u] by simp
  ultimately show ?thesis by blast
qed

lemma lines_short_pending:
  "lines_short t \<Longrightarrow> prefix s t \<Longrightarrow> length (last (split_on LF s)) \<le> startupLineLimit"
  using last_prefix_split [of s t LF] by (meson lines_short_def prefix_length_le order_trans)

text \<open>
  If the pending line is the last line of the text so far, the lines taken from the next
  chunk are the ones it completes, and the pending line is the last line again.
\<close>

lemma take_lines_step:
  assumes "length (last (split_on LF (t @ c))) \<le> startupLineLimit"
  shows "snd (take_lines (last (split_on LF t) @ c)) = last (split_on LF (t @ c))"
    and "filter (\<lambda>l. l \<noteq> []) (butlast (split_on LF t) @ fst (take_lines (last (split_on LF t) @ c))) =
         filter (\<lambda>l. l \<noteq> []) (butlast (split_on LF (t @ c)))"
proof -
  let ?x = "last (split_on LF t) @ c"
  have all: "split_on LF (t @ c) = butlast (split_on LF t) @ split_on LF ?x"
    by (rule split_on_append_gen)
  then have lst: "last (split_on LF (t @ c)) = last (split_on LF ?x)"
    and but: "butlast (split_on LF (t @ c)) = butlast (split_on LF t) @ butlast (split_on LF ?x)"
    by (simp_all add: butlast_append)
  show "snd (take_lines ?x) = last (split_on LF (t @ c))"
    using assms lst last_split_on_suffix [of ?x LF] by (auto simp: take_lines_def Let_def keep_tail_def)
  have "filter (\<lambda>l. l \<noteq> []) (fst (take_lines ?x)) = filter (\<lambda>l. l \<noteq> []) (butlast (split_on LF ?x))"
  proof (cases "has_suffix ?x [LF]")
    case True
    then have eq: "split_on LF ?x = butlast (split_on LF ?x) @ [[]]"
      using last_split_on_suffix [of ?x LF] by (metis append_butlast_last_id split_on_not_Nil)
    from arg_cong [OF eq, of "filter (\<lambda>l. l \<noteq> [])"]
    have "filter (\<lambda>l. l \<noteq> []) (split_on LF ?x) = filter (\<lambda>l. l \<noteq> []) (butlast (split_on LF ?x))"
      by simp
    then show ?thesis using True by (simp add: take_lines_def Let_def)
  qed (simp add: take_lines_def Let_def)
  then show "filter (\<lambda>l. l \<noteq> []) (butlast (split_on LF t) @ fst (take_lines ?x)) =
         filter (\<lambda>l. l \<noteq> []) (butlast (split_on LF (t @ c)))"
    by (simp add: but)
qed

section \<open>Fatal lines\<close>

definition fatalIndicator :: string where "fatalIndicator = ''level=fatal''"

definition extractFatalError :: "string \<Rightarrow> startup_error" where
  "extractFatalError output =
    (case cut output ''level=fatal msg='' of
       Some (_, after) \<Rightarrow> FatalOutput (TrimSpace after)
     | None \<Rightarrow> FatalUnknown)"

definition startupFatalLineError :: "string \<Rightarrow> startup_error option" where
  "startupFatalLineError line =
    (let lower = ToLower line
     in if contains lower fatalIndicator then Some (extractFatalError line)
        else if contains line ''External controller pipe listen error'' \<or>
                contains line ''External controller unix listen error'' \<or>
                contains line ''External controller listen error''
        then Some (ControllerListenFailed (TrimSpace line))
        else if contains line ''Start TUN listening error'' then Some (TunFailed (TrimSpace line))
        else None)"

section \<open>The start-up watcher\<close>

record startupLogWatcher =
  sw_lineBuffer :: string
  sw_fatal :: "startup_error chan"
  sw_reported :: bool

definition newStartupLogWatcher :: startupLogWatcher where
  "newStartupLogWatcher = \<lparr>sw_lineBuffer = [], sw_fatal = make_chan 1, sw_reported = False\<rparr>"

text \<open>The send on the channel is a plain one: \<open>None\<close> stands for a writer that blocks.\<close>

definition reportFatal :: "startup_error option \<Rightarrow> startupLogWatcher \<Rightarrow> startupLogWatcher option" where
  "reportFatal err w =
    (case err of None \<Rightarrow> Some w
     | Some e \<Rightarrow>
        if sw_reported w then Some w
        else if send_blocks (sw_fatal w) then None
        else Some (w\<lparr>sw_reported := True, sw_fatal := try_send (sw_fatal w) e\<rparr>))"

fun report_lines :: "string list \<Rightarrow> startupLogWatcher \<Rightarrow> startupLogWatcher option" where
  "report_lines [] w = Some w"
| "report_lines (l # ls) w =
    (case reportFatal (startupFatalLineError l) w of None \<Rightarrow> None | Some w' \<Rightarrow> report_lines ls w')"

definition startup_Write :: "bytes \<Rightarrow> startupLogWatcher \<Rightarrow> startupLogWatcher option" where
  "startup_Write p w =
    (case take_lines (sw_lineBuffer w @ replace_crlf p) of (ls, pending) \<Rightarrow>
     (case report_lines ls (w\<lparr>sw_lineBuffer := pending\<rparr>) of None \<Rightarrow> None
      | Some w' \<Rightarrow>
          if pending \<noteq> [] then reportFatal (startupFatalLineError pending) w' else Some w'))"

fun startup_writes :: "bytes list \<Rightarrow> startupLogWatcher \<Rightarrow> startupLogWatcher option" where
  "startup_writes [] w = Some w"
| "startup_writes (p # ps) w = (case startup_Write p w of None \<Rightarrow> None | Some w' \<Rightarrow> startup_writes ps w')"

section \<open>The event watcher\<close>

record coreLogEventWatcher =
  ew_lineBuffer :: string
  ew_active :: bool

definition newCoreLogEventWatcher :: coreLogEventWatcher where
  "newCoreLogEventWatcher = \<lparr>ew_lineBuffer = [], ew_active = True\<rparr>"

definition tailscalePrefix :: string where "tailscalePrefix = ''[Tailscale](''"
definition authMarker :: string where
  "authMarker = '') To start this tsnet server, restart with TS_AUTHKEY set, or go to: ''"
definition doneMarker :: string where
  "doneMarker = '') AuthLoop: state is Starting; done''"

definition urlStops :: string where
  "urlStops = [CHR '' '', CHR 0x09, CHR 0x22, CHR 0x27, CHR ''<'', CHR ''>'']"

definition parseTailscaleAuthCoreLogEvent :: "string \<Rightarrow> CoreEvent option" where
  "parseTailscaleAuthCoreLogEvent line =
    (case cut line tailscalePrefix of None \<Rightarrow> None
     | Some (_, rest) \<Rightarrow>
    (case index_sub rest authMarker of None \<Rightarrow> None
     | Some markerIndex \<Rightarrow>
        if markerIndex = 0 then None
        else
          let name = take markerIndex rest;
              url = until_any urlStops (TrimSpace (drop (markerIndex + length authMarker) rest))
          in if name = [] \<or> (\<not> has_prefix url ''http://'' \<and> \<not> has_prefix url ''https://'') then None
             else Some (zeroEvent\<lparr>ce_Type := CoreEventLog, ce_Message := MsgLog ''tailscale_auth'',
                    ce_Data := [(''name'', name), (''url'', url)]\<rparr>)))"

definition parseTailscaleAuthDoneCoreLogEvent :: "string \<Rightarrow> CoreEvent option" where
  "parseTailscaleAuthDoneCoreLogEvent line =
    (case cut line tailscalePrefix of None \<Rightarrow> None
     | Some (_, rest) \<Rightarrow>
    (case index_sub rest doneMarker of None \<Rightarrow> None
     | Some markerIndex \<Rightarrow>
        if markerIndex = 0 then None
        else
          let name = take markerIndex rest
          in if name = [] then None
             else Some (zeroEvent\<lparr>ce_Type := CoreEventLog, ce_Message := MsgLog ''tailscale_auth_done'',
                    ce_Data := [(''name'', name)]\<rparr>)))"

definition coreLogEventRules :: "(string \<Rightarrow> CoreEvent option) list" where
  "coreLogEventRules = [parseTailscaleAuthCoreLogEvent, parseTailscaleAuthDoneCoreLogEvent]"

definition publishCoreLogEvent :: "core_view \<Rightarrow> string \<Rightarrow> coreEventHub \<Rightarrow> coreEventHub" where
  "publishCoreLogEvent v raw h =
    (let line = TrimSpace raw
     in if line = [] then h
        else fold (\<lambda>rule g. case rule line of None \<Rightarrow> g | Some e \<Rightarrow> publishCoreEvent v e g) coreLogEventRules h)"

definition events_Write ::
    "core_view \<Rightarrow> bytes \<Rightarrow> coreLogEventWatcher \<times> coreEventHub \<Rightarrow> coreLogEventWatcher \<times> coreEventHub" where
  "events_Write v p s = (case s of (w, h) \<Rightarrow>
    if \<not> ew_active w then (w, h)
    else case take_lines (ew_lineBuffer w @ replace_crlf p) of
      (ls, pending) \<Rightarrow> (w\<lparr>ew_lineBuffer := pending\<rparr>, fold (publishCoreLogEvent v) ls h))"

definition events_Stop ::
    "core_view \<Rightarrow> coreLogEventWatcher \<times> coreEventHub \<Rightarrow> coreLogEventWatcher \<times> coreEventHub" where
  "events_Stop v s = (case s of (w, h) \<Rightarrow>
    if \<not> ew_active w then (w, h)
    else (w\<lparr>ew_active := False, ew_lineBuffer := []\<rparr>, publishCoreLogEvent v (ew_lineBuffer w) h))"

section \<open>Lemmas\<close>

lemma TrimSpace_Nil [simp]: "TrimSpace [] = []"
  by (rule TrimSpace_graphic) simp

lemma publish_empty_line [simp]: "publishCoreLogEvent v [] h = h"
  by (simp add: publishCoreLogEvent_def)

lemma fold_publish_filter:
  "fold (publishCoreLogEvent v) ls h = fold (publishCoreLogEvent v) (filter (\<lambda>l. l \<noteq> []) ls) h"
  by (induction ls arbitrary: h) auto

text \<open>The state of the event watcher after the text \<open>t\<close>.\<close>

lemma events_Write_text:
  assumes "length (last (split_on LF (t @ replace_crlf p))) \<le> startupLineLimit"
    and "ew_active w" and "ew_lineBuffer w = last (split_on LF t)"
    and "h = fold (publishCoreLogEvent v) (butlast (split_on LF t)) g"
  shows "events_Write v p (w, h) =
    (w\<lparr>ew_lineBuffer := last (split_on LF (t @ replace_crlf p))\<rparr>,
     fold (publishCoreLogEvent v) (butlast (split_on LF (t @ replace_crlf p))) g)"
proof -
  note step = take_lines_step [OF assms(1)]
  have "fold (publishCoreLogEvent v) (fst (take_lines (last (split_on LF t) @ replace_crlf p))) h =
      fold (publishCoreLogEvent v) (butlast (split_on LF t) @
        fst (take_lines (last (split_on LF t) @ replace_crlf p))) g"
    by (simp add: assms(4))
  also have "\<dots> = fold (publishCoreLogEvent v) (butlast (split_on LF (t @ replace_crlf p))) g"
    by (subst fold_publish_filter, subst step(2), subst fold_publish_filter [symmetric]) simp
  finally show ?thesis
    using assms(2,3) step(1) by (simp add: events_Write_def split_beta)
qed

lemma events_writes_text:
  assumes "lines_short (t @ concat (map replace_crlf ps))"
    and "ew_active w" and "ew_lineBuffer w = last (split_on LF t)"
    and "h = fold (publishCoreLogEvent v) (butlast (split_on LF t)) g"
  shows "fold (events_Write v) ps (w, h) =
    (w\<lparr>ew_lineBuffer := last (split_on LF (t @ concat (map replace_crlf ps)))\<rparr>,
     fold (publishCoreLogEvent v) (butlast (split_on LF (t @ concat (map replace_crlf ps)))) g)"
  using assms
proof (induction ps arbitrary: t w h)
  case (Cons p ps)
  have "length (last (split_on LF (t @ replace_crlf p))) \<le> startupLineLimit"
    using lines_short_pending [OF Cons.prems(1)] by (simp add: prefix_def)
  note first = events_Write_text [OF this Cons.prems(2-4)]
  show ?case
    using Cons.IH [of "t @ replace_crlf p" "w\<lparr>ew_lineBuffer := last (split_on LF (t @ replace_crlf p))\<rparr>"]
      Cons.prems(1,2) first by simp
qed auto

text \<open>The start-up watcher never blocks and reports at most one error.\<close>

definition sw_inv :: "startupLogWatcher \<Rightarrow> bool" where
  "sw_inv w \<longleftrightarrow> chan_cap (sw_fatal w) = 1 \<and>
     (if sw_reported w then length (chan_buf (sw_fatal w)) \<le> 1 else chan_buf (sw_fatal w) = [])"

lemma reportFatal_ok:
  "sw_inv w \<Longrightarrow> \<exists>w'. reportFatal err w = Some w' \<and> sw_inv w' \<and>
     (sw_reported w' \<longleftrightarrow> sw_reported w \<or> err \<noteq> None) \<and> sw_lineBuffer w' = sw_lineBuffer w \<and>
     (sw_reported w \<longrightarrow> w' = w)"
  by (auto simp: reportFatal_def sw_inv_def send_blocks_def try_send_def split: option.splits)

lemma report_lines_ok:
  "sw_inv w \<Longrightarrow> \<exists>w'. report_lines ls w = Some w' \<and> sw_inv w' \<and>
     (sw_reported w' \<longleftrightarrow> sw_reported w \<or> (\<exists>l\<in>set ls. startupFatalLineError l \<noteq> None)) \<and>
     sw_lineBuffer w' = sw_lineBuffer w \<and> (sw_reported w \<longrightarrow> w' = w)"
proof (induction ls arbitrary: w)
  case (Cons l ls)
  obtain w1 where w1: "reportFatal (startupFatalLineError l) w = Some w1" "sw_inv w1"
    "sw_reported w1 \<longleftrightarrow> sw_reported w \<or> startupFatalLineError l \<noteq> None"
    "sw_lineBuffer w1 = sw_lineBuffer w" "sw_reported w \<longrightarrow> w1 = w"
    using reportFatal_ok [OF Cons.prems] by blast
  obtain w2 where "report_lines ls w1 = Some w2" "sw_inv w2"
    "sw_reported w2 \<longleftrightarrow> sw_reported w1 \<or> (\<exists>l\<in>set ls. startupFatalLineError l \<noteq> None)"
    "sw_lineBuffer w2 = sw_lineBuffer w1" "sw_reported w1 \<longrightarrow> w2 = w1"
    using Cons.IH [OF w1(2)] by blast
  then show ?case using w1 by auto
qed simp

lemma startup_Write_ok:
  assumes "sw_inv w" and "take_lines (sw_lineBuffer w @ replace_crlf p) = (ls, pending)"
  shows "\<exists>w'. startup_Write p w = Some w' \<and> sw_inv w' \<and> sw_lineBuffer w' = pending \<and>
     (sw_reported w' \<longleftrightarrow> sw_reported w \<or> (\<exists>l\<in>set ls \<union> ({pending} - {[]}). startupFatalLineError l \<noteq> None)) \<and>
     (sw_reported w \<longrightarrow> sw_fatal w' = sw_fatal w)"
proof -
  let ?w = "w\<lparr>sw_lineBuffer := pending\<rparr>"
  have "sw_inv ?w" using assms(1) by (auto simp: sw_inv_def split: if_splits)
  then obtain w1 where w1: "report_lines ls ?w = Some w1" "sw_inv w1"
    "sw_reported w1 \<longleftrightarrow> sw_reported w \<or> (\<exists>l\<in>set ls. startupFatalLineError l \<noteq> None)"
    "sw_lineBuffer w1 = pending" "sw_reported w \<longrightarrow> w1 = ?w"
    using report_lines_ok [of ?w ls] by auto
  show ?thesis
  proof (cases "pending = []")
    case True
    then show ?thesis using w1 assms(2) by (simp add: startup_Write_def)
  next
    case False
    obtain w2 where w2: "reportFatal (startupFatalLineError pending) w1 = Some w2" "sw_inv w2"
      "sw_reported w2 \<longleftrightarrow> sw_reported w1 \<or> startupFatalLineError pending \<noteq> None"
      "sw_lineBuffer w2 = sw_lineBuffer w1" "sw_reported w1 \<longrightarrow> w2 = w1"
      using reportFatal_ok [OF w1(2)] by blast
    then show ?thesis using w1 assms(2) False by (auto simp: startup_Write_def)
  qed
qed

end
