(* ===== verification/LogWatchProps.thy ===== *)
theory LogWatchProps
  imports LogWatch
begin

text \<open>
  Properties of the output watchers: what they keep and what they report does not depend
  on how the output of the core is cut into writes.
\<close>

text \<open>
  The error buffer holds the end of the output: after any sequence of writes it is
  exactly the last \<open>limit\<close> bytes of everything written, and everything while it fits.
\<close>

theorem error_buffer_keeps_tail:
  "bo_buf (fold buffer_Write ps (newBoundedOutputBuffer limit)) =
     drop (length (concat ps) - (if limit \<le> 0 then startupBufferLimit else nat limit)) (concat ps)"
  using fold_buffer_last [of "newBoundedOutputBuffer limit" "[]" ps]
  by (simp add: newBoundedOutputBuffer_def)

lemma fold_last: "xs \<noteq> [] \<Longrightarrow> fold f xs a = f (last xs) (fold f (butlast xs) a)"
  by (induction xs arbitrary: a) auto



lemma startup_writes_ok:
  assumes "lines_short (t @ concat (map replace_crlf ps))" and "sw_inv w"
    and "sw_lineBuffer w = last (split_on LF t)"
    and "(\<exists>l\<in>set (split_on LF t). l \<noteq> [] \<and> startupFatalLineError l \<noteq> None) \<longrightarrow> sw_reported w"
  shows "\<exists>w'. startup_writes ps w = Some w' \<and> sw_inv w' \<and>
    ((\<exists>l\<in>set (split_on LF (t @ concat (map replace_crlf ps))). l \<noteq> [] \<and> startupFatalLineError l \<noteq> None)
       \<longrightarrow> sw_reported w')"
  using assms
proof (induction ps arbitrary: t w)
  case (Cons p ps)
  let ?u = "t @ replace_crlf p"
  obtain ls pending where tl: "take_lines (last (split_on LF t) @ replace_crlf p) = (ls, pending)"
    by fastforce
  have short: "length (last (split_on LF ?u)) \<le> startupLineLimit"
    using lines_short_pending [OF Cons.prems(1)] by (simp add: prefix_def)
  note step = take_lines_step [OF short]
  have pend: "pending = last (split_on LF ?u)" using step(1) tl by simp
  obtain w1 where w1: "startup_Write p w = Some w1" "sw_inv w1" "sw_lineBuffer w1 = pending"
    "sw_reported w1 \<longleftrightarrow> sw_reported w \<or>
       (\<exists>l\<in>set ls \<union> ({pending} - {[]}). startupFatalLineError l \<noteq> None)"
    using startup_Write_ok [OF Cons.prems(2), of p ls pending] tl Cons.prems(3) by auto
  have "sw_reported w1" if l: "l \<in> set (split_on LF ?u)" "l \<noteq> []" "startupFatalLineError l \<noteq> None" for l
  proof (cases "l = pending")
    case False
    have "split_on LF ?u = butlast (split_on LF ?u) @ [pending]"
      unfolding pend by (metis append_butlast_last_id split_on_not_Nil)
    then have "l \<in> set (butlast (split_on LF ?u) @ [pending])" using l(1) by metis
    then have "l \<in> set (filter (\<lambda>l. l \<noteq> []) (butlast (split_on LF ?u)))" using False l(2) by simp
    then have "l \<in> set (butlast (split_on LF t)) \<or> l \<in> set ls"
      unfolding step(2) [symmetric] using tl by auto
    then show ?thesis
    proof
      assume "l \<in> set (butlast (split_on LF t))"
      then have "l \<in> set (split_on LF t)" by (rule in_set_butlastD)
      then have "sw_reported w" using Cons.prems(4) l(2,3) by blast
      then show ?thesis using w1(4) by simp
    next
      assume "l \<in> set ls"
      then show ?thesis using w1(4) l(3) by blast
    qed
  qed (use w1(4) l in blast)
  then have "(\<exists>l\<in>set (split_on LF ?u). l \<noteq> [] \<and> startupFatalLineError l \<noteq> None) \<longrightarrow> sw_reported w1"
    by blast
  from Cons.IH [OF _ w1(2) _ this] Cons.prems(1) w1(3) pend
  have "\<exists>w'. startup_writes ps w1 = Some w' \<and> sw_inv w' \<and>
    ((\<exists>l\<in>set (split_on LF (?u @ concat (map replace_crlf ps))). l \<noteq> [] \<and> startupFatalLineError l \<noteq> None)
       \<longrightarrow> sw_reported w')"
    by simp
  then show ?case using w1(1) by simp
qed simp

text \<open>
  The start-up watcher never blocks the core and misses no fatal line: for every way of
  cutting the output into writes each write returns, at most one error waits in the
  channel, and an error has been reported as soon as some line of the text so far is
  fatal (lines of up to 16 KiB).
\<close>

theorem fatal_line_reported:
  assumes "lines_short (concat (map replace_crlf ps))"
  shows "\<exists>w. startup_writes ps newStartupLogWatcher = Some w \<and>
    length (chan_buf (sw_fatal w)) \<le> 1 \<and>
    ((\<exists>l\<in>set (split_on LF (concat (map replace_crlf ps))). l \<noteq> [] \<and> startupFatalLineError l \<noteq> None)
       \<longrightarrow> sw_reported w)"
proof -
  have "sw_inv newStartupLogWatcher"
    by (simp add: sw_inv_def newStartupLogWatcher_def make_chan_def)
  from startup_writes_ok [of "[]" ps, OF _ this] assms
  obtain w where "startup_writes ps newStartupLogWatcher = Some w" "sw_inv w"
    "(\<exists>l\<in>set (split_on LF (concat (map replace_crlf ps))). l \<noteq> [] \<and> startupFatalLineError l \<noteq> None)
       \<longrightarrow> sw_reported w"
    by (auto simp: newStartupLogWatcher_def)
  then show ?thesis by (auto simp: sw_inv_def split: if_splits)
qed

theorem fatal_line_reported_witness:
  "\<exists>w. startup_writes [''level=fa'', ''tal msg=x'', [LF]] newStartupLogWatcher = Some w \<and> sw_reported w"
proof -
  let ?ps = "[''level=fa'', ''tal msg=x'', [LF]]"
  have t: "split_on LF (concat (map replace_crlf ?ps)) = [''level=fatal msg=x'', []]" by simp
  have "startupFatalLineError ''level=fatal msg=x'' \<noteq> None" by code_simp
  moreover have "lines_short (concat (map replace_crlf ?ps))"
    unfolding lines_short_def t by (simp add: startupLineLimit_def)
  ultimately show ?thesis using fatal_line_reported [of ?ps] unfolding t by auto
qed

text \<open>
  A Tailscale login line is understood: from a line with the prefix, a non-empty name, the
  marker and a link, where prefix and marker do not occur earlier, the parser returns the
  event with exactly that name and link.  The link ends at the first blank, quote or angle
  bracket.
\<close>

theorem tailscale_login_parsed:
  assumes "index_sub (pre @ tailscalePrefix @ name @ authMarker @ url @ rest) tailscalePrefix = Some (length pre)"
    and "index_sub (name @ authMarker @ url @ rest) authMarker = Some (length name)"
    and "name \<noteq> []" and "has_prefix url ''http://'' \<or> has_prefix url ''https://''"
    and "set url \<inter> set urlStops = {}" and "TrimSpace (url @ rest) = url @ rest'"
    and "rest' = [] \<or> hd rest' \<in> set urlStops"
  shows "parseTailscaleAuthCoreLogEvent (pre @ tailscalePrefix @ name @ authMarker @ url @ rest) =
    Some (zeroEvent\<lparr>ce_Type := CoreEventLog, ce_Message := MsgLog ''tailscale_auth'',
      ce_Data := [(''name'', name), (''url'', url)]\<rparr>)"
proof -
  have "cut (pre @ tailscalePrefix @ name @ authMarker @ url @ rest) tailscalePrefix =
      Some (pre, name @ authMarker @ url @ rest)"
    using assms(1) by (simp add: cut_def)
  moreover have "until_any urlStops (url @ rest') = url"
    using assms(5,7) by (cases rest') (auto simp: until_any_def takeWhile_append disjoint_iff)
  ultimately show ?thesis
    using assms(2,3,4,6) by (auto simp: parseTailscaleAuthCoreLogEvent_def Let_def)
qed

theorem tailscale_login_parsed_witness:
  "parseTailscaleAuthCoreLogEvent (''ts '' @ tailscalePrefix @ ''home'' @ authMarker @ ''https://x/y'' @ '' ok'') =
    Some (zeroEvent\<lparr>ce_Type := CoreEventLog, ce_Message := MsgLog ''tailscale_auth'',
      ce_Data := [(''name'', ''home''), (''url'', ''https://x/y'')]\<rparr>)"
  by (rule tailscale_login_parsed [where rest' = "'' ok''"]) code_simp+

end
