(* ===== verification/LaunchProfile.thy ===== *)
theory LaunchProfile
  imports GoFiles CoreErrors "HOL-Library.AList"
begin

text \<open>
  The launch profile of the core and the functions of \<open>core/launch.go\<close> that compute on
  it: normalisation, the check of client arguments, the removal of controller arguments,
  the working directory and the environment of the core process.  The model is the build
  for Linux; a Go map is an association list in the order in which the range loop meets
  its keys.  What the process asks the operating system (working directory, environment,
  \<open>os.Stat\<close>) is a record of answers.
\<close>

section \<open>Data\<close>

record LaunchProfile =
  CorePath :: string
  SkipHardening :: bool
  Mode :: string
  Args :: "string list"
  SafePaths :: "string list"
  Env :: "(string \<times> string) list"
  Priority :: string
  CPUAffinity :: "int list"
  LogPath :: string
  SaveLogs :: "bool option"
  MaxLogFileSizeMB :: int

record LaunchProfilePatch =
  p_CPUAffinity :: "int list option"
  p_Mode :: "string option"
  p_LogPath :: "string option"
  p_SaveLogs :: "bool option"
  p_MaxLogFileSizeMB :: "int option"

definition CoreRunModeAuto :: string where "CoreRunModeAuto = ''auto''"
definition CoreRunModeSandbox :: string where "CoreRunModeSandbox = ''sandbox''"
definition CoreRunModeDirect :: string where "CoreRunModeDirect = ''direct''"

lemmas run_mode_defs = CoreRunModeAuto_def CoreRunModeSandbox_def CoreRunModeDirect_def

definition zeroProfile :: LaunchProfile where
  "zeroProfile = \<lparr>CorePath = '''', SkipHardening = False, Mode = '''', Args = [], SafePaths = [],
     Env = [], Priority = '''', CPUAffinity = [], LogPath = '''', SaveLogs = None,
     MaxLogFileSizeMB = 0\<rparr>"

datatype stat_result = StatFile | StatDir | StatMissing | StatError string

record host =
  host_cwd :: "string option"
  host_stat :: "string \<Rightarrow> stat_result"
  host_env :: "string \<Rightarrow> string option"

definition Getenv :: "host \<Rightarrow> string \<Rightarrow> string" where
  "Getenv w k = (case host_env w k of None \<Rightarrow> '''' | Some v \<Rightarrow> v)"

section \<open>Arguments\<close>

definition coreArgName :: "string \<Rightarrow> string option" where
  "coreArgName arg =
    (if \<not> has_prefix arg ''-'' \<or> arg = ''-'' then None
     else let trimmed = trim_left_char CHR ''-'' arg
          in if trimmed = [] then None
             else let name = (case cut trimmed ''='' of None \<Rightarrow> trimmed | Some (n, _) \<Rightarrow> n)
                  in if name = [] then None else Some name)"

definition isControllerArg :: "string \<Rightarrow> bool" where
  "isControllerArg arg = (case coreArgName arg of None \<Rightarrow> False
     | Some name \<Rightarrow> name = ''ext-ctl'' \<or> name = ''ext-ctl-pipe'' \<or> name = ''ext-ctl-unix'')"

fun stripControllerArgs :: "string list \<Rightarrow> string list" where
  "stripControllerArgs [] = []"
| "stripControllerArgs (arg # rest) =
     (if isControllerArg arg
      then (if \<not> contains arg ''='' then stripControllerArgs (drop 1 rest) else stripControllerArgs rest)
      else arg # stripControllerArgs rest)"

fun validate_from :: "nat \<Rightarrow> string list \<Rightarrow> (launch_error, unit) result" where
  "validate_from i [] = Inr ()"
| "validate_from i (arg # rest) =
     (if arg = [] then Inl (EmptyArg i)
      else if arg = ''--'' then Inl DoubleDashArg
      else case coreArgName arg of
        None \<Rightarrow> validate_from (Suc i) rest
      | Some name \<Rightarrow>
          if name = ''post-up'' \<or> name = ''post-down'' then Inl (ManagedArg name)
          else if name = ''t'' \<or> name = ''v'' then Inl (NotRunArg name)
          else validate_from (Suc i) rest)"

definition validateCoreArgs :: "string list \<Rightarrow> (launch_error, unit) result" where
  "validateCoreArgs args = validate_from 0 args"

text \<open>An argument that the client may not pass.\<close>

definition forbidden_arg :: "string \<Rightarrow> bool" where
  "forbidden_arg arg \<longleftrightarrow> arg = [] \<or> arg = ''--'' \<or>
     coreArgName arg \<in> Some ` {''post-up'', ''post-down'', ''t'', ''v''}"

lemma validate_from_ok: "validate_from i args = Inr () \<longleftrightarrow> (\<forall>a\<in>set args. \<not> forbidden_arg a)"
  by (induction args arbitrary: i) (auto simp: forbidden_arg_def split: option.splits)

lemma stripControllerArgs_clean: "a \<in> set (stripControllerArgs args) \<Longrightarrow> \<not> isControllerArg a"
  by (induction args rule: stripControllerArgs.induct) (auto split: if_splits)

lemma subseq_drop1: "subseq xs (drop (Suc 0) ys) \<Longrightarrow> subseq xs (y # ys)"
  by (cases ys) auto

lemma stripControllerArgs_subseq: "subseq (stripControllerArgs args) args"
  by (induction args rule: stripControllerArgs.induct) (auto dest: subseq_drop1)

lemma set_stripControllerArgs: "set (stripControllerArgs args) \<subseteq> set args"
  by (induction args rule: stripControllerArgs.induct) (auto dest: in_set_dropD)

lemma stripControllerArgs_id: "(\<forall>a\<in>set args. \<not> isControllerArg a) \<Longrightarrow> stripControllerArgs args = args"
  by (induction args rule: stripControllerArgs.induct) auto

lemma stripControllerArgs_idem: "stripControllerArgs (stripControllerArgs args) = stripControllerArgs args"
  by (rule stripControllerArgs_id) (auto dest: stripControllerArgs_clean)

text \<open>
  \<open>configureManagedController\<close> with what \<open>controller.CreatePrivateEndpoint\<close> returned;
  the last component says whether the endpoint has to be cleaned up by the caller.  On
  an unsupported network the function cleans up itself.
\<close>

definition configureManagedController ::
    "(string, string \<times> string) result \<Rightarrow> string list
     \<Rightarrow> (launch_error, string list \<times> string \<times> string) result" where
  "configureManagedController endpoint args =
    (case endpoint of Inl e \<Rightarrow> Inl (LaunchOS e)
     | Inr (controllerNet, controllerAddr) \<Rightarrow>
         let filteredArgs = stripControllerArgs args
         in if controllerNet = ''pipe''
            then Inr ([''-ext-ctl-pipe'', controllerAddr] @ filteredArgs, controllerNet, controllerAddr)
            else if controllerNet = ''unix''
            then Inr ([''-ext-ctl-unix'', controllerAddr] @ filteredArgs, controllerNet, controllerAddr)
            else Inl (UnsupportedControllerNet controllerNet))"

section \<open>Working directory and log size\<close>

fun last_dir_arg :: "string \<Rightarrow> string list \<Rightarrow> string" where
  "last_dir_arg dir [] = dir"
| "last_dir_arg dir (arg # rest) =
     (if arg = ''-d'' then (case rest of [] \<Rightarrow> dir | v # rest' \<Rightarrow> last_dir_arg v rest')
      else case cut_prefix arg ''-d='' of
        Some after \<Rightarrow> last_dir_arg after rest
      | None \<Rightarrow> last_dir_arg dir rest)"

definition resolveLaunchWorkingDir :: "host \<Rightarrow> string \<Rightarrow> string list \<Rightarrow> (launch_error, string) result" where
  "resolveLaunchWorkingDir w corePath args =
    (let workingDir = TrimSpace (last_dir_arg (Dir corePath) args)
     in if workingDir = [] then Inl EmptyWorkingDir
        else if \<not> IsAbs workingDir
        then (case Abs (host_cwd w) workingDir of None \<Rightarrow> Inl (BadWorkingDir workingDir)
              | Some absPath \<Rightarrow> Inr (Clean absPath))
        else Inr (Clean workingDir))"

definition wrap64 :: "int \<Rightarrow> int" where
  "wrap64 x = (x + 2 ^ 63) mod 2 ^ 64 - 2 ^ 63"

definition maxLogFileSizeBytes :: "int \<Rightarrow> int" where
  "maxLogFileSizeBytes mb = (let m = (if mb \<le> 0 then 20 else mb) in wrap64 (m * 1024 * 1024))"

lemma wrap64_id: "- (2 ^ 63) \<le> x \<Longrightarrow> x < 2 ^ 63 \<Longrightarrow> wrap64 x = x"
  by (simp add: wrap64_def)

section \<open>The core executable\<close>

definition resolveCoreExecutablePath :: "host \<Rightarrow> string \<Rightarrow> bool \<Rightarrow> (launch_error, string) result" where
  "resolveCoreExecutablePath w rawPath allowEnv =
    (let trimmed = TrimSpace rawPath;
         path = (if trimmed = [] \<and> allowEnv then TrimSpace (Getenv w ''SPARKLE_CORE_PATH'') else trimmed)
     in if path = [] then Inl CorePathUnset
        else rbind (if IsAbs path then Inr path
                    else case Abs (host_cwd w) path of None \<Rightarrow> Inl CorePathUnresolved | Some a \<Rightarrow> Inr a)
          (\<lambda>candidate. case host_stat w candidate of
               StatFile \<Rightarrow> Inr candidate
             | StatDir \<Rightarrow> Inl (CorePathIsDir candidate)
             | StatMissing \<Rightarrow> Inl (CorePathMissing candidate)
             | StatError e \<Rightarrow> Inl (CorePathCheck e)))"

section \<open>Normalisation\<close>

definition isZeroLaunchProfile :: "LaunchProfile \<Rightarrow> bool" where
  "isZeroLaunchProfile p \<longleftrightarrow>
     CorePath p = [] \<and> \<not> SkipHardening p \<and> (Mode p = [] \<or> Mode p = CoreRunModeAuto) \<and>
     Priority p = [] \<and> CPUAffinity p = [] \<and> LogPath p = [] \<and> SaveLogs p = None \<and>
     MaxLogFileSizeMB p = 0 \<and> Args p = [] \<and> SafePaths p = [] \<and> Env p = []"

definition normalizeAffinity :: "int list \<Rightarrow> (launch_error, int list) result" where
  "normalizeAffinity cpus =
    (case find (\<lambda>cpu. cpu < 0 \<or> cpu \<ge> 1024) cpus of
       Some cpu \<Rightarrow> Inl (BadCPU cpu)
     | None \<Rightarrow> Inr (remdups_adj (sort cpus)))"

fun normalizeSafePaths :: "host \<Rightarrow> string list \<Rightarrow> (launch_error, string list) result" where
  "normalizeSafePaths w [] = Inr []"
| "normalizeSafePaths w (path # rest) =
     (let trimmedPath = TrimSpace path
      in if trimmedPath = [] then normalizeSafePaths w rest
         else case Abs (host_cwd w) trimmedPath of
           None \<Rightarrow> Inl (BadSafePath trimmedPath)
         | Some absPath \<Rightarrow> rbind (normalizeSafePaths w rest) (\<lambda>ps. Inr (absPath # ps)))"

fun normalizeEnv :: "(string \<times> string) list \<Rightarrow> (string \<times> string) list \<Rightarrow> (launch_error, (string \<times> string) list) result" where
  "normalizeEnv acc [] = Inr acc"
| "normalizeEnv acc ((key, value) # rest) =
     (let k = TrimSpace key
      in if k = [] then Inl EmptyEnvKey else normalizeEnv (AList.update k value acc) rest)"

definition normalizeMode :: "string \<Rightarrow> (launch_error, string) result" where
  "normalizeMode raw =
    (let m = ToLower (TrimSpace raw); mode = (if m = [] then CoreRunModeAuto else m)
     in if mode = CoreRunModeAuto \<or> mode = CoreRunModeSandbox \<or> mode = CoreRunModeDirect
        then Inr mode else Inl BadMode)"

definition normalizeLogPath :: "host \<Rightarrow> string \<Rightarrow> (launch_error, string) result" where
  "normalizeLogPath w raw =
    (let p = TrimSpace raw
     in if p = [] then Inr []
        else case Abs (host_cwd w) p of None \<Rightarrow> Inl (BadLogPath p) | Some a \<Rightarrow> Inr a)"

definition normalizeLaunchProfile :: "host \<Rightarrow> LaunchProfile \<Rightarrow> (launch_error, LaunchProfile) result" where
  "normalizeLaunchProfile w profile =
    rbind (normalizeMode (Mode profile)) (\<lambda>mode.
    rbind (normalizeAffinity (CPUAffinity profile)) (\<lambda>cpus.
    rbind (validateCoreArgs (Args profile)) (\<lambda>_.
    rbind (normalizeSafePaths w (SafePaths profile)) (\<lambda>paths.
    rbind (normalizeEnv [] (Env profile)) (\<lambda>env.
    rbind (normalizeLogPath w (LogPath profile)) (\<lambda>logPath.
      let normalized = \<lparr>CorePath = TrimSpace (CorePath profile), SkipHardening = SkipHardening profile,
            Mode = mode, Args = Args profile, SafePaths = paths, Env = env,
            Priority = TrimSpace (Priority profile), CPUAffinity = cpus, LogPath = logPath,
            SaveLogs = SaveLogs profile, MaxLogFileSizeMB = MaxLogFileSizeMB profile\<rparr>
      in if isZeroLaunchProfile normalized then Inr normalized
         else if CorePath normalized = [] then Inl EmptyCorePath
         else rbind (resolveCoreExecutablePath w (CorePath normalized) False)
                (\<lambda>corePath. Inr (normalized\<lparr>CorePath := corePath\<rparr>))))))))"

section \<open>The environment of the core process\<close>

definition lookupEnvMap :: "(string \<times> string) list \<Rightarrow> string \<Rightarrow> string option" where
  "lookupEnvMap envMap key = map_of envMap key"

definition ensureEssentialEnv :: "host \<Rightarrow> (string \<times> string) list \<Rightarrow> (string \<times> string) list" where
  "ensureEssentialEnv w envMap =
    (case lookupEnvMap envMap ''PATH'' of
       Some _ \<Rightarrow> envMap
     | None \<Rightarrow> (case host_env w ''PATH'' of None \<Rightarrow> envMap | Some v \<Rightarrow> AList.update ''PATH'' v envMap))"

text \<open>The variables the service decides, with the values it gives them.\<close>

definition pinnedEnv :: "LaunchProfile \<Rightarrow> (string \<times> string) list" where
  "pinnedEnv p =
    [(''SAFE_PATHS'', join '':'' (SafePaths p)),
     (''SKIP_SAFE_PATH_CHECK'', ''false''),
     (''CLASH_CONFIG_STRING'', ''''),
     (''CLASH_HOME_DIR'', ''''),
     (''CLASH_CONFIG_FILE'', ''''),
     (''CLASH_OVERRIDE_EXTERNAL_UI_DIR'', ''''),
     (''CLASH_OVERRIDE_EXTERNAL_CONTROLLER'', ''''),
     (''CLASH_OVERRIDE_EXTERNAL_CONTROLLER_UNIX'', ''''),
     (''CLASH_OVERRIDE_EXTERNAL_CONTROLLER_PIPE'', ''''),
     (''CLASH_OVERRIDE_SECRET'', ''''),
     (''CLASH_POST_UP'', ''''),
     (''CLASH_POST_DOWN'', '''')]"

text \<open>\<open>maps.Copy\<close> and the assignments \<open>envMap[k] = v\<close>, in order.\<close>

definition maps_Copy :: "(string \<times> string) list \<Rightarrow> (string \<times> string) list \<Rightarrow> (string \<times> string) list" where
  "maps_Copy dst src = fold (\<lambda>(k, v). AList.update k v) src dst"

definition buildEnvMap :: "host \<Rightarrow> LaunchProfile \<Rightarrow> (string \<times> string) list \<Rightarrow> (string \<times> string) list" where
  "buildEnvMap w profile managed =
    maps_Copy (maps_Copy (ensureEssentialEnv w (maps_Copy [] (Env profile))) (pinnedEnv profile)) managed"

definition buildLaunchEnv :: "host \<Rightarrow> LaunchProfile \<Rightarrow> (string \<times> string) list \<Rightarrow> string list" where
  "buildLaunchEnv w profile managed =
    map (\<lambda>(key, value). key @ ''='' @ value) (buildEnvMap w profile managed)"

section \<open>Lemmas\<close>

lemma map_of_maps_Copy:
  "map_of (maps_Copy dst src) k = (case map_of (rev src) k of Some v \<Rightarrow> Some v | None \<Rightarrow> map_of dst k)"
  unfolding maps_Copy_def
  by (induction src arbitrary: dst)
    (auto simp: update_conv' map_add_def map_upd_Some_unfold split: option.splits)

lemma distinct_maps_Copy: "distinct (map fst dst) \<Longrightarrow> distinct (map fst (maps_Copy dst src))"
  unfolding maps_Copy_def by (induction src arbitrary: dst) (auto simp: distinct_update)

lemma distinct_buildEnvMap: "distinct (map fst (buildEnvMap w p managed))"
  unfolding buildEnvMap_def ensureEssentialEnv_def
  by (intro distinct_maps_Copy)
    (auto intro!: distinct_maps_Copy distinct_update split: option.splits)

end
