(* ===== verification/LogWriter.thy ===== *)
theory LogWriter
  imports LaunchProfile
begin

text \<open>
  The bounded log file of the core, \<open>core/log_writer.go\<close>.  The log file belongs to the
  writer alone, so its content is part of the model; which system calls fail is an
  argument of every operation, and \<open>log.Printf\<close> appends to a list of reports.
\<close>

section \<open>Data\<close>

record fileAccess =
  fa_groupID :: int
  fa_ok :: bool

record coreLogSettings =
  cls_path :: string
  cls_saveLogs :: bool
  cls_maxBytes :: int
  cls_access :: fileAccess

datatype log_error =
    LogDirFailed string | LogOpenFailed string | LogAccessFailed string | LogStatFailed string
  | LogCloseFailed string | LogReadFailed string | LogTrimFailed string | LogReopenFailed string
  | LogAppendFailed string | LogJoined log_error log_error

text \<open>\<open>lw_file\<close> is the path of the open file, if one is open.\<close>

record boundedLogWriter =
  lw_file :: "string option"
  lw_path :: string
  lw_saveLogs :: bool
  lw_maxBytes :: int
  lw_access :: fileAccess
  lw_closed :: bool
  lw_lastError :: "log_error option"
  lw_reports :: "log_error list"

type_synonym log_disk = "string \<Rightarrow> bytes option"

text \<open>
  Failures of the calls that trim a file: each is the error, if the call fails; a failing
  rewrite leaves some content behind.
\<close>

record trim_env =
  te_stat :: "string option"
  te_close :: "string option"
  te_read :: "string option"
  te_rewrite :: "(string \<times> bytes) option"
  te_access :: "string option"
  te_reopen :: "string option"
  te_reaccess :: "string option"

record open_env =
  oe_dir :: "string option"
  oe_open :: "string option"
  oe_access :: "string option"
  oe_trim :: trim_env

definition newBoundedLogWriter :: "coreLogSettings \<Rightarrow> boundedLogWriter" where
  "newBoundedLogWriter settings =
    \<lparr>lw_file = None, lw_path = cls_path settings, lw_saveLogs = cls_saveLogs settings,
     lw_maxBytes = cls_maxBytes settings, lw_access = cls_access settings, lw_closed = False,
     lw_lastError = None, lw_reports = []\<rparr>"

definition coreLogSettingsFromProfile :: "LaunchProfile \<Rightarrow> fileAccess \<Rightarrow> coreLogSettings" where
  "coreLogSettingsFromProfile profile access =
    \<lparr>cls_path = LogPath profile,
     cls_saveLogs = (case SaveLogs profile of None \<Rightarrow> True | Some b \<Rightarrow> b),
     cls_maxBytes = maxLogFileSizeBytes (MaxLogFileSizeMB profile), cls_access = access\<rparr>"

section \<open>The low watermark\<close>

text \<open>
  \<open>int64(float64(w.maxBytes) * 0.7)\<close> in IEEE double precision.  \<open>round53\<close> rounds a natural
  number to 53 significant bits, ties to even; the double nearest to 0.7 is
  \<open>6305039478318694 / 2^53\<close>, and the product is rounded once more before truncation.
\<close>

fun bitlen :: "nat \<Rightarrow> nat" where
  "bitlen n = (if n = 0 then 0 else Suc (bitlen (n div 2)))"

declare bitlen.simps [simp del]

definition round53 :: "nat \<Rightarrow> nat" where
  "round53 p =
    (if bitlen p \<le> 53 then p
     else let s = bitlen p - 53; q = p div 2 ^ s; r = 2 * (p mod 2 ^ s)
          in (if r > 2 ^ s \<or> (r = 2 ^ s \<and> odd q) then q + 1 else q) * 2 ^ s)"

definition lowWatermark :: "int \<Rightarrow> int" where
  "lowWatermark maxBytes =
    max (int (round53 (round53 (nat maxBytes) * 6305039478318694) div 2 ^ 53)) 1"

section \<open>Operations\<close>

definition readLogTail :: "trim_env \<Rightarrow> bytes \<Rightarrow> int \<Rightarrow> (log_error, bytes) result" where
  "readLogTail e file targetBytes =
    (case te_read e of Some er \<Rightarrow> Inl (LogReadFailed er)
     | None \<Rightarrow>
        if int (length file) \<le> targetBytes then Inr file
        else let content = drop (length file - nat targetBytes) file
             in case index_sub content [LF] of
                  Some index \<Rightarrow> Inr (if int index < int (length content) - 1 then drop (index + 1) content else content)
                | None \<Rightarrow> Inr content)"

definition openAppend :: "string \<Rightarrow> log_disk \<Rightarrow> log_disk" where
  "openAppend path d = (case d path of None \<Rightarrow> d(path \<mapsto> []) | Some _ \<Rightarrow> d)"

definition reopenLocked ::
    "trim_env \<Rightarrow> boundedLogWriter \<Rightarrow> log_disk \<Rightarrow> log_error option \<times> boundedLogWriter \<times> log_disk" where
  "reopenLocked e w d =
    (case te_reopen e of Some er \<Rightarrow> (Some (LogReopenFailed er), w, d)
     | None \<Rightarrow>
        let d' = openAppend (lw_path w) d
        in case te_reaccess e of Some er \<Rightarrow> (Some (LogAccessFailed er), w, d')
           | None \<Rightarrow> (None, w\<lparr>lw_file := Some (lw_path w)\<rparr>, d'))"

definition closeFileLocked :: "string option \<Rightarrow> boundedLogWriter \<Rightarrow> log_error option \<times> boundedLogWriter" where
  "closeFileLocked er w =
    (case lw_file w of None \<Rightarrow> (None, w)
     | Some _ \<Rightarrow> (map_option LogCloseFailed er, w\<lparr>lw_file := None\<rparr>))"

definition file_size :: "log_disk \<Rightarrow> string \<Rightarrow> nat" where
  "file_size d path = (case d path of None \<Rightarrow> 0 | Some c \<Rightarrow> length c)"

definition file_bytes :: "log_disk \<Rightarrow> string \<Rightarrow> bytes" where
  "file_bytes d path = (case d path of None \<Rightarrow> [] | Some c \<Rightarrow> c)"

definition enforceLimitLocked ::
    "trim_env \<Rightarrow> boundedLogWriter \<Rightarrow> log_disk \<Rightarrow> log_error option \<times> boundedLogWriter \<times> log_disk" where
  "enforceLimitLocked e w d =
    (if lw_maxBytes w \<le> 0 then (None, w, d)
     else case lw_file w of None \<Rightarrow> (None, w, d)
     | Some path \<Rightarrow>
    (case te_stat e of Some er \<Rightarrow> (Some (LogStatFailed er), w, d)
     | None \<Rightarrow>
        if int (file_size d path) \<le> lw_maxBytes w then (None, w, d)
        else let w1 = w\<lparr>lw_file := None\<rparr> in
    (case te_close e of Some er \<Rightarrow> (Some (LogCloseFailed er), w1, d)
     | None \<Rightarrow>
    (case readLogTail e (file_bytes d (lw_path w)) (lowWatermark (lw_maxBytes w)) of
       Inl er \<Rightarrow> (Some er, snd (reopenLocked e w1 d))
     | Inr content \<Rightarrow>
    (case te_rewrite e of
       Some (er, rest) \<Rightarrow> (Some (LogTrimFailed er), snd (reopenLocked e w1 (d(lw_path w \<mapsto> rest))))
     | None \<Rightarrow>
        let d1 = d(lw_path w \<mapsto> content)
        in case te_access e of
             Some er \<Rightarrow> (Some (LogAccessFailed er), snd (reopenLocked e w1 d1))
           | None \<Rightarrow> reopenLocked e w1 d1)))))"

definition ensureOpenLocked ::
    "open_env \<Rightarrow> boundedLogWriter \<Rightarrow> log_disk \<Rightarrow> log_error option \<times> boundedLogWriter \<times> log_disk" where
  "ensureOpenLocked e w d =
    (case lw_file w of Some _ \<Rightarrow> (None, w, d)
     | None \<Rightarrow>
    (case oe_dir e of Some er \<Rightarrow> (Some (LogDirFailed er), w, d)
     | None \<Rightarrow>
    (case oe_open e of Some er \<Rightarrow> (Some (LogOpenFailed er), w, d)
     | None \<Rightarrow>
        let d1 = openAppend (lw_path w) d in
    (case oe_access e of Some er \<Rightarrow> (Some (LogAccessFailed er), w, d1)
     | None \<Rightarrow> enforceLimitLocked (oe_trim e) (w\<lparr>lw_file := Some (lw_path w)\<rparr>) d1))))"

definition reportErrorLocked :: "log_error \<Rightarrow> boundedLogWriter \<Rightarrow> boundedLogWriter" where
  "reportErrorLocked er w =
    (if lw_lastError w = Some er then w
     else w\<lparr>lw_lastError := Some er, lw_reports := lw_reports w @ [er]\<rparr>)"

text \<open>\<open>reportErrorLocked(errors.Join(err, closeFileLocked()))\<close>.\<close>

definition report_and_close :: "string option \<Rightarrow> log_error \<Rightarrow> boundedLogWriter \<Rightarrow> boundedLogWriter" where
  "report_and_close cl er w =
    (case closeFileLocked cl w of (ce, w1) \<Rightarrow>
       reportErrorLocked (case ce of None \<Rightarrow> er | Some c \<Rightarrow> LogJoined er c) w1)"

text \<open>The file that \<open>w.file\<close> appends to; it is never nil where the code uses it.\<close>

definition handle :: "boundedLogWriter \<Rightarrow> string" where
  "handle w = (case lw_file w of Some f \<Rightarrow> f | None \<Rightarrow> lw_path w)"

text \<open>
  \<open>Write\<close>: the environment answers the open (\<open>oe\<close>), the append (\<open>ap\<close>: an error and the
  bytes that got written), the trim (\<open>te\<close>) and a close (\<open>cl\<close>).
\<close>

definition Write ::
    "open_env \<Rightarrow> (string \<times> nat) option \<Rightarrow> trim_env \<Rightarrow> string option \<Rightarrow> bytes \<Rightarrow>
     boundedLogWriter \<Rightarrow> log_disk \<Rightarrow> boundedLogWriter \<times> log_disk" where
  "Write oe ap te cl p w d =
    (if lw_closed w \<or> p = [] \<or> \<not> lw_saveLogs w \<or> lw_path w = [] then (w, d)
     else case ensureOpenLocked oe w d of
       (Some er, w1, d1) \<Rightarrow> (reportErrorLocked er w1, d1)
     | (None, w1, d1) \<Rightarrow>
         (case ap of
            Some (er, n) \<Rightarrow>
              (report_and_close cl (LogAppendFailed er) w1,
               d1(handle w1 \<mapsto> file_bytes d1 (handle w1) @ take n p))
          | None \<Rightarrow>
              let d2 = d1(handle w1 \<mapsto> file_bytes d1 (handle w1) @ p)
              in case enforceLimitLocked te w1 d2 of
                   (Some er, w3, d3) \<Rightarrow> (report_and_close cl er w3, d3)
                 | (None, w3, d3) \<Rightarrow> (w3, d3)))"

definition Update ::
    "open_env \<Rightarrow> trim_env \<Rightarrow> string option \<Rightarrow> coreLogSettings \<Rightarrow>
     boundedLogWriter \<Rightarrow> log_disk \<Rightarrow> boundedLogWriter \<times> log_disk" where
  "Update oe te cl settings w d =
    (if lw_closed w then (w, d)
     else
       let w1 = (if lw_path w \<noteq> cls_path settings \<or> \<not> cls_saveLogs settings
                 then (case closeFileLocked cl w of (Some er, v) \<Rightarrow> reportErrorLocked er v | (None, v) \<Rightarrow> v)
                 else w);
           w2 = w1\<lparr>lw_path := cls_path settings, lw_saveLogs := cls_saveLogs settings,
                   lw_maxBytes := cls_maxBytes settings, lw_access := cls_access settings,
                   lw_lastError := None\<rparr>
       in if lw_saveLogs w2 \<and> lw_path w2 \<noteq> []
          then (case ensureOpenLocked oe w2 d of
                  (Some er, w3, d3) \<Rightarrow> (reportErrorLocked er w3, d3)
                | (None, w3, d3) \<Rightarrow>
                    (case enforceLimitLocked te w3 d3 of
                       (Some er, w4, d4) \<Rightarrow> (report_and_close cl er w4, d4)
                     | (None, w4, d4) \<Rightarrow> (w4, d4)))
          else (w2, d))"

definition Close :: "string option \<Rightarrow> boundedLogWriter \<Rightarrow> log_error option \<times> boundedLogWriter" where
  "Close cl w = closeFileLocked cl (w\<lparr>lw_closed := True\<rparr>)"

section \<open>The watermark stays below the limit\<close>

lemma bitlen_pos: "0 < n \<Longrightarrow> 2 ^ (bitlen n - 1) \<le> n"
proof (induction n rule: bitlen.induct)
  case (1 n)
  show ?case
  proof (cases "n div 2 = 0")
    case True
    then have "bitlen (n div 2) = 0" by (simp add: bitlen.simps)
    then show ?thesis using "1.prems" by (simp add: bitlen.simps [of n])
  next
    case False
    then have "2 ^ (bitlen (n div 2) - 1) \<le> n div 2" using 1 by simp
    moreover have "bitlen (n div 2) = Suc (bitlen (n div 2) - 1)"
      using False by (simp add: bitlen.simps [of "n div 2"])
    ultimately show ?thesis using "1.prems"
      by (simp add: bitlen.simps [of n]) (metis power_Suc dual_order.trans mult_le_mono2 times_div_less_eq_dividend)
  qed
qed

lemma round53_bound: "8 * round53 p \<le> 9 * p"
proof (cases "bitlen p \<le> 53")
  case False
  define s where "s = bitlen p - 53"
  define q where "q = p div 2 ^ s"
  have "2 ^ (s + 52) \<le> p"
    using bitlen_pos [of p] False by (cases "p = 0") (auto simp: s_def bitlen.simps)
  then have "2 ^ 52 * 2 ^ s \<le> p" by (simp add: power_add mult.commute)
  then have q: "2 ^ 52 \<le> q" unfolding q_def by (simp add: less_eq_div_iff_mult_less_eq)
  have "round53 p \<le> (q + 1) * 2 ^ s"
    using False by (simp add: round53_def Let_def s_def q_def)
  then have "8 * round53 p \<le> (8 * (q + 1)) * 2 ^ s" by (simp add: algebra_simps)
  also have "\<dots> \<le> (9 * q) * 2 ^ s" using q by (intro mult_le_mono1) simp
  also have "\<dots> \<le> 9 * p" unfolding q_def by simp
  finally show ?thesis .
qed (simp add: round53_def)

lemma lowWatermark_range:
  assumes "0 < m"
  shows "1 \<le> lowWatermark m" and "lowWatermark m \<le> m"
proof -
  show "1 \<le> lowWatermark m" by (simp add: lowWatermark_def)
  let ?n = "nat m"
  have "64 * round53 (round53 ?n * 6305039478318694) \<le> 8 * (9 * (round53 ?n * 6305039478318694))"
    using round53_bound [of "round53 ?n * 6305039478318694"] by linarith
  also have "\<dots> \<le> (9 * ?n) * (9 * 6305039478318694)"
    using round53_bound [of ?n] by simp
  also have "\<dots> \<le> 64 * (?n * 2 ^ 53)" by simp
  finally have "round53 (round53 ?n * 6305039478318694) \<le> ?n * 2 ^ 53" by simp
  then have "round53 (round53 ?n * 6305039478318694) div 2 ^ 53 \<le> ?n"
    by (simp add: div_le_mono [where n = "?n * 2 ^ 53"] order_trans [OF div_le_mono])
  then show "lowWatermark m \<le> m"
    using assms unfolding lowWatermark_def by (simp add: nat_le_iff le_nat_iff)
qed

end
