(* ===== verification/LogWriterProps.thy ===== *)
theory LogWriterProps
  imports LogWriter
begin

text \<open>
  The bounded log writer implements an abstract bounded log: appending keeps a suffix of
  everything written that fits the limit and, when something is cut off, starts after a
  line break.
\<close>

section \<open>The abstract log\<close>

definition log_trim :: "int \<Rightarrow> bytes \<Rightarrow> bytes" where
  "log_trim m c =
    (if m \<le> 0 \<or> int (length c) \<le> m then c
     else let window = drop (length c - nat (lowWatermark m)) c
          in case index_sub window [LF] of
               None \<Rightarrow> window
             | Some i \<Rightarrow> if i + 1 < length window then drop (i + 1) window else window)"

lemma log_trim_suffix: "suffix (log_trim m c) c"
  by (auto simp: log_trim_def Let_def suffix_drop split: option.splits)

lemma log_trim_length:
  assumes "0 < m"
  shows "int (length (log_trim m c)) \<le> m"
proof (cases "int (length c) \<le> m")
  case False
  have "int (length (log_trim m c)) \<le> lowWatermark m"
    using lowWatermark_range(1) [OF assms] assms False by (auto simp: log_trim_def Let_def split: option.splits)
  then show ?thesis using lowWatermark_range(2) [OF assms] by linarith
qed (simp add: log_trim_def)

lemma log_trim_id: "int (length c) \<le> m \<Longrightarrow> log_trim m c = c"
  by (simp add: log_trim_def)

section \<open>Healthy operations\<close>

definition trim_healthy :: "trim_env \<Rightarrow> bool" where
  "trim_healthy e \<longleftrightarrow> te_stat e = None \<and> te_close e = None \<and> te_read e = None \<and>
     te_rewrite e = None \<and> te_access e = None \<and> te_reopen e = None \<and> te_reaccess e = None"

definition open_healthy :: "open_env \<Rightarrow> bool" where
  "open_healthy e \<longleftrightarrow> oe_dir e = None \<and> oe_open e = None \<and> oe_access e = None \<and> trim_healthy (oe_trim e)"

text \<open>The invariant: an open file is the configured one, exists, and the writer is live.\<close>

definition lw_inv :: "boundedLogWriter \<Rightarrow> log_disk \<Rightarrow> bool" where
  "lw_inv w d \<longleftrightarrow> (\<forall>f. lw_file w = Some f \<longrightarrow> f = lw_path w \<and> d f \<noteq> None \<and> \<not> lw_closed w)"

lemma readLogTail_trim:
  assumes "te_read e = None" and "0 < m" and "m < int (length c)"
  shows "readLogTail e c (lowWatermark m) = Inr (log_trim m c)"
proof -
  have "lowWatermark m < int (length c)" using lowWatermark_range(2) [OF assms(2)] assms(3) by linarith
  then show ?thesis using assms by (auto simp: readLogTail_def log_trim_def Let_def split: option.splits)
qed

lemma enforce_healthy:
  assumes "trim_healthy e" and "lw_file w = Some (lw_path w)" and "d (lw_path w) = Some c"
  shows "enforceLimitLocked e w d = (None, w, d(lw_path w \<mapsto> log_trim (lw_maxBytes w) c))"
proof (cases "lw_maxBytes w \<le> 0 \<or> int (length c) \<le> lw_maxBytes w")
  case True
  then have "log_trim (lw_maxBytes w) c = c" by (auto simp: log_trim_def)
  then show ?thesis
    using True assms by (auto simp: enforceLimitLocked_def trim_healthy_def file_size_def)
next
  case False
  then show ?thesis
    using assms readLogTail_trim [of e "lw_maxBytes w" c]
    by (simp add: enforceLimitLocked_def trim_healthy_def file_size_def file_bytes_def Let_def
        reopenLocked_def openAppend_def)
qed

text \<open>What an open leaves: the content, trimmed if the file was opened just now.\<close>

definition opened :: "boundedLogWriter \<Rightarrow> log_disk \<Rightarrow> bytes" where
  "opened w d = (let c = file_bytes d (lw_path w)
     in if lw_file w = None then log_trim (lw_maxBytes w) c else c)"

lemma open_healthy_result:
  assumes "open_healthy e" and "lw_inv w d"
  shows "ensureOpenLocked e w d =
    (None, w\<lparr>lw_file := Some (lw_path w)\<rparr>, d(lw_path w \<mapsto> opened w d))"
proof (cases "lw_file w")
  case None
  let ?w = "w\<lparr>lw_file := Some (lw_path w)\<rparr>" and ?d = "openAppend (lw_path w) d"
  have "?d (lw_path w) = Some (file_bytes d (lw_path w))"
    by (simp add: openAppend_def file_bytes_def split: option.splits)
  then have "enforceLimitLocked (oe_trim e) ?w ?d =
      (None, ?w, ?d(lw_path w \<mapsto> log_trim (lw_maxBytes w) (file_bytes d (lw_path w))))"
    using enforce_healthy [of "oe_trim e" ?w ?d] assms(1) by (simp add: open_healthy_def)
  moreover have "?d(lw_path w \<mapsto> x) = d(lw_path w \<mapsto> x)" for x
    by (simp add: openAppend_def split: option.splits)
  ultimately show ?thesis
    using None assms(1) by (simp add: ensureOpenLocked_def open_healthy_def opened_def Let_def)
next
  case (Some f)
  then have "f = lw_path w" and "d (lw_path w) = Some (file_bytes d (lw_path w))"
    using assms(2) by (auto simp: lw_inv_def file_bytes_def)
  then show ?thesis using Some by (auto simp: ensureOpenLocked_def opened_def Let_def fun_eq_iff)
qed

lemma write_healthy:
  assumes "open_healthy oe" and "trim_healthy te" and "lw_inv w d"
    and "\<not> lw_closed w" "lw_saveLogs w" "lw_path w \<noteq> []" "p \<noteq> []"
  shows "Write oe None te cl p w d =
    (w\<lparr>lw_file := Some (lw_path w)\<rparr>,
     d(lw_path w \<mapsto> log_trim (lw_maxBytes w) (opened w d @ p)))"
proof -
  let ?w = "w\<lparr>lw_file := Some (lw_path w)\<rparr>"
  show ?thesis
    using enforce_healthy [OF assms(2), of ?w "d(lw_path w \<mapsto> opened w d @ p)" "opened w d @ p"] assms(4-7)
    by (simp add: Write_def open_healthy_result [OF assms(1,3)] handle_def file_bytes_def Let_def)
qed

lemma lw_inv_write:
  assumes "open_healthy oe" and "trim_healthy te" and "lw_inv w d" and "\<not> lw_closed w"
    and "Write oe None te cl p w d = (w', d')"
  shows "lw_inv w' d'"
  using assms write_healthy [OF assms(1-3), of p cl]
  by (cases "lw_saveLogs w \<and> lw_path w \<noteq> [] \<and> p \<noteq> []") (auto simp: Write_def lw_inv_def)

section \<open>Properties\<close>

definition sample_trim_env :: trim_env where
  "sample_trim_env = \<lparr>te_stat = None, te_close = None, te_read = None, te_rewrite = None,
     te_access = None, te_reopen = None, te_reaccess = None\<rparr>"

definition sample_open_env :: open_env where
  "sample_open_env = \<lparr>oe_dir = None, oe_open = None, oe_access = None, oe_trim = sample_trim_env\<rparr>"

definition sample_writer :: boundedLogWriter where
  "sample_writer = newBoundedLogWriter \<lparr>cls_path = ''/l'', cls_saveLogs = True, cls_maxBytes = 10,
     cls_access = \<lparr>fa_groupID = 0, fa_ok = False\<rparr>\<rparr>"

lemma sample_env_healthy: "trim_healthy sample_trim_env" "open_healthy sample_open_env"
  by (simp_all add: trim_healthy_def open_healthy_def sample_open_env_def sample_trim_env_def)

text \<open>
  C39. The log file is bounded and loses only its oldest part: when the system calls of a
  write succeed, the file then holds at most the configured number of bytes, its content
  is a suffix of what it held before followed by the new bytes, the new bytes are
  complete whenever everything fits, and no other file changes.
\<close>

theorem log_write_bounded:
  assumes "open_healthy oe" and "trim_healthy te" and "lw_inv w d" and "0 < lw_maxBytes w"
    and "\<not> lw_closed w" "lw_saveLogs w" "lw_path w \<noteq> []" "p \<noteq> []"
    and "Write oe None te cl p w d = (w', d')"
  shows "\<exists>c. d' = d(lw_path w \<mapsto> c) \<and> int (length c) \<le> lw_maxBytes w \<and>
           suffix c (file_bytes d (lw_path w) @ p) \<and>
           (int (length (file_bytes d (lw_path w) @ p)) \<le> lw_maxBytes w \<longrightarrow>
              c = file_bytes d (lw_path w) @ p) \<and>
           w' = w\<lparr>lw_file := Some (lw_path w)\<rparr>"
proof -
  let ?b = "file_bytes d (lw_path w)" and ?m = "lw_maxBytes w"
  have "suffix (opened w d) ?b" by (simp add: opened_def Let_def log_trim_suffix)
  then have "suffix (opened w d @ p) (?b @ p)" by (auto simp: suffix_def)
  then have "suffix (log_trim ?m (opened w d @ p)) (?b @ p)"
    using log_trim_suffix suffix_order.trans by blast
  moreover have "log_trim ?m (opened w d @ p) = ?b @ p" if "int (length (?b @ p)) \<le> ?m"
    using that by (simp add: opened_def Let_def log_trim_id)
  ultimately show ?thesis
    using assms(9) write_healthy [OF assms(1-3,5-8), of cl] log_trim_length [OF assms(4)] by auto
qed

theorem log_write_bounded_witness:
  "\<exists>c. snd (Write sample_open_env None sample_trim_env None ''abcdefg'' sample_writer
          [''/l'' \<mapsto> ''12345'']) = [''/l'' \<mapsto> c] \<and> length c \<le> 10 \<and> suffix c ''12345abcdefg''"
proof -
  let ?r = "Write sample_open_env None sample_trim_env None ''abcdefg'' sample_writer [''/l'' \<mapsto> ''12345'']"
  have "lw_inv sample_writer [''/l'' \<mapsto> ''12345'']" "0 < lw_maxBytes sample_writer"
    "\<not> lw_closed sample_writer" "lw_saveLogs sample_writer" "lw_path sample_writer \<noteq> []"
    by (simp_all add: lw_inv_def sample_writer_def newBoundedLogWriter_def)
  from log_write_bounded [OF sample_env_healthy(2,1) this(1-5), of "''abcdefg''" None "fst ?r" "snd ?r"]
  show ?thesis
    by (auto simp: sample_writer_def newBoundedLogWriter_def file_bytes_def)
qed

text \<open>
  A cut lands on a line: if the old content and the new bytes together exceed the limit
  of an open log, what remains is the last \<open>lowWatermark\<close> bytes (seven tenths of the
  limit), from after the first line break in them, or all of them when their only line
  break is the last byte or there is none.
\<close>

theorem log_cut_after_line_break:
  assumes "open_healthy oe" and "trim_healthy te" and "lw_inv w d" and "0 < lw_maxBytes w"
    and "\<not> lw_closed w" "lw_saveLogs w" "lw_path w \<noteq> []" "p \<noteq> []" and "lw_file w \<noteq> None"
    and "lw_maxBytes w < int (length (file_bytes d (lw_path w) @ p))"
    and "window = drop (length (file_bytes d (lw_path w) @ p) - nat (lowWatermark (lw_maxBytes w)))
           (file_bytes d (lw_path w) @ p)"
  shows "snd (Write oe None te cl p w d) (lw_path w) =
    Some (case index_sub window [LF] of
            None \<Rightarrow> window
          | Some i \<Rightarrow> if i + 1 < length window then drop (i + 1) window else window)"
  using assms(4,9-11) write_healthy [OF assms(1-3,5-8), of cl]
  by (auto simp: opened_def Let_def log_trim_def)

theorem log_cut_after_line_break_witness:
  "snd (Write sample_open_env None sample_trim_env None ''ghi''
      (sample_writer\<lparr>lw_file := Some ''/l''\<rparr>) [''/l'' \<mapsto> ''abcd'' @ [LF] @ ''efgh'']) ''/l''
   = Some ''efghghi''"
proof -
  let ?w = "sample_writer\<lparr>lw_file := Some ''/l''\<rparr>" and ?d = "[''/l'' \<mapsto> ''abcd'' @ [LF] @ ''efgh'']"
  have "lw_inv ?w ?d" "0 < lw_maxBytes ?w" "\<not> lw_closed ?w" "lw_saveLogs ?w" "lw_path ?w \<noteq> []"
    "lw_file ?w \<noteq> None" "lw_path ?w = ''/l''" "lw_maxBytes ?w = 10"
    "file_bytes ?d ''/l'' = ''abcd'' @ [LF] @ ''efgh''"
    by (simp_all add: lw_inv_def sample_writer_def newBoundedLogWriter_def file_bytes_def)
  note f = this
  have wm: "lowWatermark 10 = 7" by (simp add: lowWatermark_def round53_def bitlen.simps)
  have "snd (Write sample_open_env None sample_trim_env None ''ghi'' ?w ?d) (lw_path ?w) =
      Some (case index_sub ''efghghi'' [LF] of None \<Rightarrow> ''efghghi''
        | Some i \<Rightarrow> if i + 1 < length ''efghghi'' then drop (i + 1) ''efghghi'' else ''efghghi'')"
    by (rule log_cut_after_line_break [OF sample_env_healthy(2,1) f(1-5) _ f(6)])
      (simp_all only: f(7-9) wm, simp_all)
  moreover have "index_sub ''efghghi'' [LF] = None" by code_simp
  ultimately show ?thesis by (simp only: f(7) option.case)
qed

text \<open>
  After \<open>Close\<close> the writer holds no file and no later \<open>Write\<close> or \<open>Update\<close>, whatever
  the system answers, touches the disk or the writer.
\<close>

theorem closed_writer_inert:
  "lw_file (snd (Close cl w)) = None \<and>
   Write oe ap te cl' p (snd (Close cl w)) d = (snd (Close cl w), d) \<and>
   Update oe te cl' settings (snd (Close cl w)) d = (snd (Close cl w), d)"
  by (auto simp: Close_def closeFileLocked_def Write_def Update_def split: option.splits)

end
