(* ===== verification/LaunchProfileProps.thy ===== *)
theory LaunchProfileProps
  imports LaunchProfile
begin

text \<open>
  What normalisation guarantees of a launch profile, when it is idempotent, and which
  variables the core process sees.
\<close>

section \<open>Well-formed profiles\<close>

definition profile_ok :: "host \<Rightarrow> LaunchProfile \<Rightarrow> bool" where
  "profile_ok w q \<longleftrightarrow>
     Mode q \<in> {CoreRunModeAuto, CoreRunModeSandbox, CoreRunModeDirect} \<and>
     sorted_wrt (<) (CPUAffinity q) \<and> (\<forall>c\<in>set (CPUAffinity q). 0 \<le> c \<and> c < 1024) \<and>
     (\<forall>a\<in>set (Args q). \<not> forbidden_arg a) \<and>
     (\<forall>p\<in>set (SafePaths q). IsAbs p \<and> Clean p = p) \<and>
     distinct (map fst (Env q)) \<and> (\<forall>k\<in>fst ` set (Env q). k \<noteq> [] \<and> TrimSpace k = k) \<and>
     (LogPath q = [] \<or> IsAbs (LogPath q) \<and> Clean (LogPath q) = LogPath q) \<and>
     TrimSpace (Priority q) = Priority q \<and>
     (isZeroLaunchProfile q \<or> IsAbs (CorePath q) \<and> host_stat w (CorePath q) = StatFile)"

definition host_rooted :: "host \<Rightarrow> bool" where
  "host_rooted w \<longleftrightarrow> (\<forall>d. host_cwd w = Some d \<longrightarrow> IsAbs d)"

lemma Abs_Clean:
  assumes "host_rooted w" and "Abs (host_cwd w) p = Some q"
  shows "IsAbs q \<and> Clean q = q"
proof -
  have rooted: "IsAbs q" using Abs_rooted assms by (auto simp: host_rooted_def)
  have "\<exists>r. IsAbs r \<and> q = Clean r"
  proof (cases "IsAbs p")
    case True
    then show ?thesis using assms(2) by (auto simp: Abs_def)
  next
    case False
    then obtain d where d: "host_cwd w = Some d" "q = Join [d, p]"
      using assms(2) by (auto simp: Abs_def split: option.splits)
    then have "IsAbs d" using assms(1) by (simp add: host_rooted_def)
    then have "d \<noteq> []" and "IsAbs (d @ [sep] @ p)" by (cases d; auto simp: IsAbs_def)+
    then show ?thesis using d by auto
  qed
  then show ?thesis using rooted Clean_idem_rooted by auto
qed

lemma Abs_clean_id: "IsAbs q \<Longrightarrow> Clean q = q \<Longrightarrow> Abs cwd q = Some q"
  by (simp add: Abs_def)

lemma strict_sorted_remdups_adj: "sorted xs \<Longrightarrow> sorted_wrt (<) (remdups_adj (xs :: int list))"
  by (induction xs rule: remdups_adj.induct) (auto simp: less_le)

lemma normalizeAffinity_ok:
  "normalizeAffinity cpus = Inr cs \<Longrightarrow>
    sorted_wrt (<) cs \<and> set cs = set cpus \<and> (\<forall>c\<in>set cs. 0 \<le> c \<and> c < 1024)"
  using strict_sorted_remdups_adj [of "sort cpus"]
  by (auto simp: normalizeAffinity_def find_None_iff not_le not_less split: option.splits)

lemma normalizeAffinity_id:
  assumes "sorted_wrt (<) cs" and "\<forall>c\<in>set cs. 0 \<le> c \<and> c < 1024"
  shows "normalizeAffinity cs = Inr cs"
proof -
  have "find (\<lambda>cpu. cpu < 0 \<or> cpu \<ge> 1024) cs = None"
    using assms(2) by (fastforce simp: find_None_iff)
  then show ?thesis using assms(1)
    by (simp add: normalizeAffinity_def strict_sorted_iff sorted_sort_id remdups_adj_distinct)
qed

lemma normalizeSafePaths_ok:
  "host_rooted w \<Longrightarrow> normalizeSafePaths w ps = Inr qs \<Longrightarrow> \<forall>q\<in>set qs. IsAbs q \<and> Clean q = q"
  by (induction ps arbitrary: qs)
    (auto simp: Let_def split: if_splits option.splits dest: Abs_Clean)

lemma TrimSpace_rooted_ne: "IsAbs q \<Longrightarrow> TrimSpace q = q \<Longrightarrow> TrimSpace q \<noteq> []"
  by (auto simp: IsAbs_def)

lemma normalizeSafePaths_id:
  "\<forall>q\<in>set qs. IsAbs q \<and> Clean q = q \<and> TrimSpace q = q \<Longrightarrow> normalizeSafePaths w qs = Inr qs"
  by (induction qs) (auto simp: Let_def Abs_clean_id IsAbs_def)

lemma normalizeEnv_ok:
  "normalizeEnv acc xs = Inr ys \<Longrightarrow> distinct (map fst acc) \<Longrightarrow>
    \<forall>k\<in>fst ` set acc. k \<noteq> [] \<and> TrimSpace k = k \<Longrightarrow>
    distinct (map fst ys) \<and> (\<forall>k\<in>fst ` set ys. k \<noteq> [] \<and> TrimSpace k = k)"
proof (induction acc xs rule: normalizeEnv.induct)
  case (2 acc key val rest)
  let ?k = "TrimSpace key"
  have ne: "?k \<noteq> []" and rec: "normalizeEnv (AList.update ?k val acc) rest = Inr ys"
    using "2.prems"(1) by (auto simp: Let_def split: if_splits)
  have dom: "fst ` set (AList.update ?k val acc) = insert ?k (fst ` set acc)"
    by (simp add: dom_update)
  have "\<forall>k\<in>fst ` set (AList.update ?k val acc). k \<noteq> [] \<and> TrimSpace k = k"
    unfolding dom ball_simps using "2.prems"(3) ne by auto
  from "2.IH" [OF refl ne rec distinct_update [OF "2.prems"(2)] this] show ?case .
qed auto

lemma update_fresh: "k \<notin> fst ` set al \<Longrightarrow> AList.update k v al = al @ [(k, v)]"
  by (induction al) auto

lemma normalizeEnv_id:
  "distinct (map fst (acc @ xs)) \<Longrightarrow> \<forall>k\<in>fst ` set xs. k \<noteq> [] \<and> TrimSpace k = k \<Longrightarrow>
    normalizeEnv acc xs = Inr (acc @ xs)"
proof (induction acc xs rule: normalizeEnv.induct)
  case (2 acc key val rest)
  have ne: "TrimSpace key \<noteq> []" and tr: "TrimSpace key = key" using "2.prems"(2) by auto
  moreover have "AList.update key val acc = acc @ [(key, val)]"
    using "2.prems"(1) by (intro update_fresh) auto
  ultimately show ?case using "2.IH" [OF refl ne] "2.prems" by simp
qed simp

lemma normalizeMode_ok:
  "normalizeMode m = Inr mode \<Longrightarrow> mode \<in> {CoreRunModeAuto, CoreRunModeSandbox, CoreRunModeDirect}"
  by (auto simp: normalizeMode_def Let_def split: if_splits)

lemma mode_graphic:
  assumes "m \<in> {CoreRunModeAuto, CoreRunModeSandbox, CoreRunModeDirect}"
  shows "TrimSpace m = m"
  by (rule TrimSpace_graphic) (use assms in \<open>auto simp: run_mode_defs graphic_def\<close>)

lemma normalizeMode_id:
  assumes "m \<in> {CoreRunModeAuto, CoreRunModeSandbox, CoreRunModeDirect}"
  shows "normalizeMode m = Inr m"
proof -
  have "ToLower m = m" and "m \<noteq> []"
    using assms by (auto simp: run_mode_defs lower_char_def)
  then show ?thesis using mode_graphic [OF assms] assms by (simp add: normalizeMode_def Let_def)
qed

lemma resolveCoreExecutablePath_ok:
  assumes "host_rooted w" and "resolveCoreExecutablePath w raw env = Inr p"
  shows "IsAbs p \<and> host_stat w p = StatFile"
  using assms
  by (auto simp: resolveCoreExecutablePath_def Let_def dest: Abs_Clean
      split: if_splits option.splits stat_result.splits)

lemma resolveCoreExecutablePath_id:
  "IsAbs p \<Longrightarrow> host_stat w p = StatFile \<Longrightarrow> TrimSpace p = p \<Longrightarrow>
    resolveCoreExecutablePath w p env = Inr p"
  by (auto simp: resolveCoreExecutablePath_def Let_def IsAbs_def)

lemma normalizeLogPath_ok:
  "host_rooted w \<Longrightarrow> normalizeLogPath w raw = Inr p \<Longrightarrow> p = [] \<or> IsAbs p \<and> Clean p = p"
  by (auto simp: normalizeLogPath_def Let_def dest: Abs_Clean split: if_splits option.splits)

lemma normalizeLogPath_id:
  "p = [] \<or> IsAbs p \<and> Clean p = p \<and> TrimSpace p = p \<Longrightarrow> normalizeLogPath w p = Inr p"
  by (auto simp: normalizeLogPath_def Let_def Abs_clean_id IsAbs_def TrimSpace_graphic)

text \<open>The fields of a normalised profile.\<close>

lemma normalizeLaunchProfile_Inr:
  assumes "normalizeLaunchProfile w p = Inr q"
  shows "normalizeMode (Mode p) = Inr (Mode q)"
    and "normalizeAffinity (CPUAffinity p) = Inr (CPUAffinity q)"
    and "validateCoreArgs (Args p) = Inr ()" and "Args q = Args p"
    and "normalizeSafePaths w (SafePaths p) = Inr (SafePaths q)"
    and "normalizeEnv [] (Env p) = Inr (Env q)"
    and "normalizeLogPath w (LogPath p) = Inr (LogPath q)"
    and "Priority q = TrimSpace (Priority p)"
    and "SkipHardening q = SkipHardening p" and "SaveLogs q = SaveLogs p"
    and "MaxLogFileSizeMB q = MaxLogFileSizeMB p"
    and "isZeroLaunchProfile q \<and> CorePath q = TrimSpace (CorePath p) \<or>
         resolveCoreExecutablePath w (TrimSpace (CorePath p)) False = Inr (CorePath q)"
  using assms by (auto simp: normalizeLaunchProfile_def Let_def split: if_splits)

lemma normalizeLaunchProfile_fixed:
  assumes "profile_ok w q" and "\<forall>s\<in>{CorePath q, LogPath q} \<union> set (SafePaths q). TrimSpace s = s"
  shows "normalizeLaunchProfile w q = Inr q"
proof -
  note parts = normalizeMode_id [of "Mode q"] normalizeAffinity_id [of "CPUAffinity q"]
    normalizeSafePaths_id [of "SafePaths q" w] normalizeEnv_id [of "[]" "Env q"]
    normalizeLogPath_id [of "LogPath q" w] resolveCoreExecutablePath_id [of "CorePath q" w False]
  have "validateCoreArgs (Args q) = Inr ()"
    using assms(1) by (simp add: validateCoreArgs_def validate_from_ok profile_ok_def)
  moreover have "CorePath q \<noteq> [] \<and> resolveCoreExecutablePath w (CorePath q) False = Inr (CorePath q)"
    if "\<not> isZeroLaunchProfile q"
    using that assms parts(6) by (auto simp: profile_ok_def IsAbs_def)
  ultimately show ?thesis
    using assms parts(1-5)
    by (cases q, cases "isZeroLaunchProfile q")
      (simp_all add: normalizeLaunchProfile_def Let_def profile_ok_def)
qed

lemma normalizeLaunchProfile_profile_ok:
  assumes "host_rooted w" and "normalizeLaunchProfile w p = Inr q"
  shows "profile_ok w q"
proof -
  note q = normalizeLaunchProfile_Inr [OF assms(2)]
  have "isZeroLaunchProfile q \<or> IsAbs (CorePath q) \<and> host_stat w (CorePath q) = StatFile"
    using q(12) resolveCoreExecutablePath_ok [OF assms(1)] by blast
  moreover have "TrimSpace (Priority q) = Priority q" using q(8) by simp
  moreover have "\<forall>a\<in>set (Args q). \<not> forbidden_arg a"
    using q(3,4) by (simp add: validateCoreArgs_def validate_from_ok)
  moreover have "distinct (map fst (Env q)) \<and> (\<forall>k\<in>fst ` set (Env q). k \<noteq> [] \<and> TrimSpace k = k)"
    using normalizeEnv_ok [OF q(6)] by simp
  moreover have "sorted_wrt (<) (CPUAffinity q)" "\<forall>c\<in>set (CPUAffinity q). 0 \<le> c \<and> c < 1024"
    using normalizeAffinity_ok [OF q(2)] by blast+
  ultimately show ?thesis
    unfolding profile_ok_def
    using normalizeMode_ok [OF q(1)] normalizeSafePaths_ok [OF assms(1) q(5)]
      normalizeLogPath_ok [OF assms(1) q(7)]
    by blast
qed

section \<open>Properties of normalisation\<close>

definition sample_host :: host where
  "sample_host = \<lparr>host_cwd = Some ''/srv'',
     host_stat = (\<lambda>p. if p = ''/srv/mihomo'' then StatFile else StatMissing),
     host_env = (\<lambda>k. if k = ''PATH'' then Some ''/bin'' else None)\<rparr>"

definition sample_profile :: LaunchProfile where
  "sample_profile = zeroProfile\<lparr>CorePath := ''mihomo'', Mode := ''Direct'', CPUAffinity := [3, 1, 3],
     Args := [''-f'', ''c.yaml'']\<rparr>"

definition sample_normal :: LaunchProfile where
  "sample_normal = zeroProfile\<lparr>CorePath := ''/srv/mihomo'', Mode := ''direct'', CPUAffinity := [1, 3],
     Args := [''-f'', ''c.yaml'']\<rparr>"

lemma sample_rooted: "host_rooted sample_host"
  by (simp add: host_rooted_def sample_host_def IsAbs_def)

lemma sample_normalizes: "normalizeLaunchProfile sample_host sample_profile = Inr sample_normal"
  by code_simp

text \<open>
  C37. A normalised launch profile is well formed: its run mode is one of the three, its
  CPU list is strictly increasing and within 0 to 1023, no argument is empty, \<open>--\<close>,
  \<open>-post-up\<close>, \<open>-post-down\<close>, \<open>-t\<close> or \<open>-v\<close> under any number of dashes, every safe path
  and the log path are absolute and clean, environment names are distinct, trimmed and
  not empty, and the core path is absolute and names a file unless the whole profile is
  empty.  The CPU set and the arguments are those of the request.
\<close>

theorem normalize_wellformed:
  assumes "host_rooted w" and "normalizeLaunchProfile w p = Inr q"
  shows "profile_ok w q \<and> set (CPUAffinity q) = set (CPUAffinity p) \<and> Args q = Args p"
  using normalizeLaunchProfile_profile_ok [OF assms] normalizeLaunchProfile_Inr [OF assms(2)]
    normalizeAffinity_ok by blast

theorem normalize_wellformed_witness:
  "normalizeLaunchProfile sample_host sample_profile = Inr sample_normal \<and>
   profile_ok sample_host sample_normal \<and> set (CPUAffinity sample_normal) = {1, 3}"
proof -
  have "set (CPUAffinity sample_profile) = {1, 3}"
    by (auto simp: sample_profile_def)
  then show ?thesis
    using sample_normalizes normalize_wellformed [OF sample_rooted sample_normalizes] by simp
qed

text \<open>
  Normalisation is idempotent on every profile whose resolved paths carry no blank at
  their ends: what \<open>SaveLaunchProfile\<close> stores, \<open>LoadLaunchProfile\<close> does not change.
\<close>

theorem normalize_idempotent:
  assumes "host_rooted w" and "normalizeLaunchProfile w p = Inr q"
    and "\<forall>s\<in>{CorePath q, LogPath q} \<union> set (SafePaths q). TrimSpace s = s"
  shows "normalizeLaunchProfile w q = Inr q"
  using normalizeLaunchProfile_fixed normalizeLaunchProfile_profile_ok [OF assms(1,2)] assms(3) by blast

theorem normalize_idempotent_witness:
  "normalizeLaunchProfile sample_host sample_normal = Inr sample_normal"
proof -
  have "\<forall>s\<in>{CorePath sample_normal, LogPath sample_normal} \<union> set (SafePaths sample_normal). TrimSpace s = s"
    by code_simp
  then show ?thesis by (rule normalize_idempotent [OF sample_rooted sample_normalizes])
qed

text \<open>
  The blank matters: a safe path whose last element ends in a blank and is followed by
  \<open>/.\<close> is stored with the blank and read back without it, as another path.
\<close>

theorem normalize_not_idempotent:
  "\<exists>q. normalizeLaunchProfile sample_host (sample_profile\<lparr>SafePaths := [''/a /.'']\<rparr>) = Inr q \<and>
       SafePaths q = [''/a ''] \<and>
       normalizeLaunchProfile sample_host q = Inr (q\<lparr>SafePaths := [''/a'']\<rparr>)"
  by (rule exI [of _ "sample_normal\<lparr>SafePaths := [''/a '']\<rparr>"]) code_simp

section \<open>The environment of the core\<close>

lemma map_of_rev_distinct: "distinct (map fst xs) \<Longrightarrow> map_of (rev xs) = map_of xs"
proof (induction xs)
  case (Cons x xs)
  then have "map_of xs (fst x) = None" by (simp add: map_of_eq_None_iff)
  then show ?case using Cons by (cases x) (auto simp: map_add_def fun_eq_iff split: option.splits)
qed simp

lemma map_of_buildEnvMap:
  "map_of (buildEnvMap w p managed) k =
    (case map_of (rev managed) k of Some v \<Rightarrow> Some v
     | None \<Rightarrow> (case map_of (pinnedEnv p) k of Some v \<Rightarrow> Some v
        | None \<Rightarrow> (case map_of (rev (Env p)) k of Some v \<Rightarrow> Some v
           | None \<Rightarrow> if k = ''PATH'' then host_env w k else None)))"
proof -
  have "map_of (rev (pinnedEnv p)) = map_of (pinnedEnv p)"
    by (rule map_of_rev_distinct) (simp add: pinnedEnv_def)
  then show ?thesis
    by (auto simp: buildEnvMap_def map_of_maps_Copy ensureEssentialEnv_def lookupEnvMap_def
        update_conv' split: option.splits)
qed

text \<open>The value the process sees for a name: the entries whose text before the first
  equals sign is that name.\<close>

definition entries :: "string list \<Rightarrow> string \<Rightarrow> string list" where
  "entries env k = map (\<lambda>s. drop (Suc (length k)) s) (filter (\<lambda>s. map_option fst (cut s ''='') = Some k) env)"

lemma entries_map:
  assumes "\<forall>a\<in>fst ` set m. CHR ''='' \<notin> set a" and "distinct (map fst m)"
  shows "entries (map (\<lambda>(key, v). key @ ''='' @ v) m) k =
    (case map_of m k of None \<Rightarrow> [] | Some v \<Rightarrow> [v])"
  using assms
proof (induction m)
  case (Cons a m)
  obtain key v where a: "a = (key, v)" by (cases a)
  have c: "cut (key @ CHR ''='' # v) ''='' = Some (key, v)"
    using Cons.prems(1) a by (intro cut_single) auto
  have "k \<notin> fst ` set m \<Longrightarrow> map_of m k = None" by (simp add: map_of_eq_None_iff)
  with Cons c a show ?case by (auto simp: entries_def)
qed (simp add: entries_def)

lemma dom_buildEnvMap:
  "k \<in> fst ` set (buildEnvMap w p managed) \<Longrightarrow>
    k \<in> fst ` set managed \<or> k \<in> fst ` set (pinnedEnv p) \<or> k \<in> fst ` set (Env p) \<or> k = ''PATH''"
proof -
  assume "k \<in> fst ` set (buildEnvMap w p managed)"
  then have "map_of (buildEnvMap w p managed) k \<noteq> None" by (simp add: map_of_eq_None_iff)
  then show ?thesis
    unfolding map_of_buildEnvMap
    by (auto split: option.splits if_splits dest!: map_of_SomeD intro: rev_image_eqI)
qed

lemma launch_env_entries:
  assumes "\<forall>k\<in>fst ` set (Env p) \<union> fst ` set managed. CHR ''='' \<notin> set k"
  shows "entries (buildLaunchEnv w p managed) k =
    (case map_of (rev managed) k of Some v \<Rightarrow> [v]
     | None \<Rightarrow> (case map_of (pinnedEnv p) k of Some v \<Rightarrow> [v]
        | None \<Rightarrow> (case map_of (rev (Env p)) k of Some v \<Rightarrow> [v]
           | None \<Rightarrow> if k = ''PATH'' then (case host_env w k of None \<Rightarrow> [] | Some v \<Rightarrow> [v]) else [])))"
proof -
  have pinned: "\<forall>a\<in>fst ` set (pinnedEnv p). CHR ''='' \<notin> set a"
    by (simp add: pinnedEnv_def)
  have "CHR ''='' \<notin> set a" if "a \<in> fst ` set (buildEnvMap w p managed)" for a
    using dom_buildEnvMap [OF that] assms pinned by (elim disjE) auto
  then have "\<forall>a\<in>fst ` set (buildEnvMap w p managed). CHR ''='' \<notin> set a" by blast
  from entries_map [OF this distinct_buildEnvMap, of k]
  show ?thesis
    unfolding buildLaunchEnv_def map_of_buildEnvMap by (simp split: option.splits)
qed

text \<open>
  C40. If no name in the client's environment contains an equals sign, the core process
  sees every variable exactly once, and the service decides the ones that matter: a
  variable of the start-up hook has the hook's value, each of the twelve pinned variables
  (safe paths, configuration, controller and hook overrides) has the service's value, any
  other variable has the client's value, and \<open>PATH\<close> falls back to the service's own.
\<close>

theorem launch_env_pinned:
  assumes "\<forall>k\<in>fst ` set (Env p) \<union> fst ` set managed. CHR ''='' \<notin> set k"
  shows "entries (buildLaunchEnv w p managed) k =
    (case map_of (rev managed) k of Some v \<Rightarrow> [v]
     | None \<Rightarrow> (case map_of (pinnedEnv p) k of Some v \<Rightarrow> [v]
        | None \<Rightarrow> (case map_of (rev (Env p)) k of Some v \<Rightarrow> [v]
           | None \<Rightarrow> if k = ''PATH'' then (case host_env w k of None \<Rightarrow> [] | Some v \<Rightarrow> [v]) else [])))"
  by (rule launch_env_entries [OF assms])

theorem launch_env_pinned_witness:
  "entries (buildLaunchEnv sample_host
      (sample_profile\<lparr>Env := [(''CLASH_POST_UP'', ''evil''), (''TZ'', ''UTC'')]\<rparr>) [])
      ''CLASH_POST_UP'' = ['''']"
  by (subst launch_env_pinned) (simp_all add: sample_profile_def zeroProfile_def pinnedEnv_def)

text \<open>
  With an equals sign in a name the pinning fails: normalisation accepts the name
  \<open>CLASH_POST_UP=evil #\<close> and the environment of the core then holds two entries for
  \<open>CLASH_POST_UP\<close>, one with the client's command and one with the service's value, in
  an order that depends on the iteration of a Go map.
\<close>

theorem launch_env_smuggled:
  "normalizeLaunchProfile sample_host (sample_profile\<lparr>Env := [(''CLASH_POST_UP=evil #'', '''')]\<rparr>)
     = Inr (sample_normal\<lparr>Env := [(''CLASH_POST_UP=evil #'', '''')]\<rparr>) \<and>
   set (entries (buildLaunchEnv sample_host
      (sample_normal\<lparr>Env := [(''CLASH_POST_UP=evil #'', '''')]\<rparr>) []) ''CLASH_POST_UP'')
     = {''evil #='', ''''}"
  by (rule conjI) code_simp+

text \<open>
  The limit of the log file is the requested number of mebibytes, twenty when none is
  given, for every size below \<open>2^43\<close>; from there on the product leaves the 64-bit range,
  and at \<open>2^43\<close> it is negative, which switches the limit off.
\<close>

theorem log_size_bytes:
  "mb < 2 ^ 43 \<Longrightarrow> maxLogFileSizeBytes mb = (if mb \<le> 0 then 20 else mb) * 1048576 \<and>
     0 < maxLogFileSizeBytes mb \<and> maxLogFileSizeBytes (2 ^ 43) < 0"
  by (auto simp: maxLogFileSizeBytes_def Let_def wrap64_def)

theorem log_size_bytes_witness: "maxLogFileSizeBytes 5 = 5242880"
  using log_size_bytes [of 5] by simp

end
