(* ===== verification/StateFiles.thy ===== *)
theory StateFiles
  imports GoFiles
begin

text \<open>
  \<open>core/state_file.go\<close>: the atomic replacement of a state file.  The answers of the
  operating system are a record; the result carries every state the disk passes through,
  so that a crash between two system calls is visible.
\<close>

text \<open>
  Each field is the error of the call, if it fails.  \<open>os.CreateTemp\<close> returns the name of
  a new file; a failing write leaves some bytes behind; \<open>os.Remove\<close> may fail silently.
\<close>

record write_env =
  we_mkdir :: "string option"
  we_chmod_dir :: "string option"
  we_create :: "(string, string) result"
  we_chmod :: "string option"
  we_write :: "(string \<times> bytes) option"
  we_sync :: "string option"
  we_close :: "string option"
  we_rename :: "string option"
  we_syncdir :: "string option"
  we_remove_ok :: bool

datatype write_error = WriteOS string | ReplaceFailed string | SyncDirFailed string

definition removeTmp :: "write_env \<Rightarrow> string \<Rightarrow> disk list \<Rightarrow> disk list" where
  "removeTmp e tmp ds = ds @ [if we_remove_ok e then (last ds)(tmp := Absent) else last ds]"

definition atomicWriteFile ::
    "write_env \<Rightarrow> string \<Rightarrow> bytes \<Rightarrow> disk \<Rightarrow> write_error option \<times> disk list" where
  "atomicWriteFile e path data d =
    (case we_mkdir e of Some er \<Rightarrow> (Some (WriteOS er), [d]) | None \<Rightarrow>
    (case we_chmod_dir e of Some er \<Rightarrow> (Some (WriteOS er), [d]) | None \<Rightarrow>
    (case we_create e of Inl er \<Rightarrow> (Some (WriteOS er), [d]) | Inr tmp \<Rightarrow>
      let d1 = d(tmp := Content []) in
    (case we_chmod e of Some er \<Rightarrow> (Some (WriteOS er), removeTmp e tmp [d, d1]) | None \<Rightarrow>
    (case we_write e of
       Some (er, part) \<Rightarrow> (Some (WriteOS er), removeTmp e tmp [d, d1, d(tmp := Content part)])
     | None \<Rightarrow>
      let d2 = d(tmp := Content data) in
    (case we_sync e of Some er \<Rightarrow> (Some (WriteOS er), removeTmp e tmp [d, d1, d2]) | None \<Rightarrow>
    (case we_close e of Some er \<Rightarrow> (Some (WriteOS er), removeTmp e tmp [d, d1, d2]) | None \<Rightarrow>
    (case we_rename e of Some er \<Rightarrow> (Some (ReplaceFailed er), removeTmp e tmp [d, d1, d2]) | None \<Rightarrow>
      let d3 = d2(tmp := Absent, path := Content data) in
    (case we_syncdir e of
       Some er \<Rightarrow> (Some (SyncDirFailed er), removeTmp e tmp [d, d1, d2, d3])
     | None \<Rightarrow> (None, removeTmp e tmp [d, d1, d2, d3]))))))))))"

text \<open>The disk after the call.\<close>

definition written :: "write_error option \<times> disk list \<Rightarrow> disk" where
  "written r = last (snd r)"

lemmas write_splits = option.splits sum.splits prod.splits

lemma atomicWriteFile_states:
  assumes "\<forall>tmp. we_create e = Inr tmp \<longrightarrow> tmp \<noteq> path"
    and "x \<in> set (snd (atomicWriteFile e path data d))"
  shows "x path = d path \<or> x path = Content data"
  using assms
  by (auto simp: atomicWriteFile_def removeTmp_def Let_def split: write_splits if_splits)

lemma atomicWriteFile_ok:
  assumes "\<forall>tmp. we_create e = Inr tmp \<longrightarrow> tmp \<noteq> path"
    and "fst (atomicWriteFile e path data d) = None"
  shows "written (atomicWriteFile e path data d) path = Content data"
  using assms
  by (auto simp: written_def atomicWriteFile_def removeTmp_def Let_def split: write_splits)

lemma atomicWriteFile_error:
  assumes "\<forall>tmp. we_create e = Inr tmp \<longrightarrow> tmp \<noteq> path"
    and "fst (atomicWriteFile e path data d) = Some er"
  shows "written (atomicWriteFile e path data d) path =
           (case er of SyncDirFailed _ \<Rightarrow> Content data | _ \<Rightarrow> d path)"
  using assms
  by (auto simp: written_def atomicWriteFile_def removeTmp_def Let_def split: write_splits)

lemma atomicWriteFile_other:
  assumes "\<forall>tmp. we_create e = Inr tmp \<longrightarrow> tmp \<noteq> q" and "q \<noteq> path"
    and "x \<in> set (snd (atomicWriteFile e path data d))"
  shows "x q = d q"
  using assms
  by (auto simp: atomicWriteFile_def removeTmp_def Let_def split: write_splits if_splits)

definition write_env_ok :: "string \<Rightarrow> write_env" where
  "write_env_ok tmp = \<lparr>we_mkdir = None, we_chmod_dir = None, we_create = Inr tmp, we_chmod = None,
     we_write = None, we_sync = None, we_close = None, we_rename = None, we_syncdir = None,
     we_remove_ok = True\<rparr>"

text \<open>
  C33. Replacing a state file is atomic: in every state the disk passes through, whichever
  system call fails and wherever the service crashes, the file holds its old content or
  the whole new content; no other file changes except the temporary one; success means
  the new content, and an error means the old content unless only the final
  synchronisation of the directory failed.  The temporary file goes when it can be removed.
\<close>

theorem atomic_write_old_or_new:
  assumes "\<forall>tmp. we_create e = Inr tmp \<longrightarrow> tmp \<noteq> path"
  shows "let r = atomicWriteFile e path data d in
         (\<forall>x\<in>set (snd r). (x path = d path \<or> x path = Content data) \<and>
            (\<forall>q. q \<noteq> path \<and> we_create e \<noteq> Inr q \<longrightarrow> x q = d q)) \<and>
         written r path =
           (case fst r of None \<Rightarrow> Content data | Some (SyncDirFailed _) \<Rightarrow> Content data | _ \<Rightarrow> d path) \<and>
         (\<forall>tmp. we_create e = Inr tmp \<and> we_remove_ok e \<and> d tmp = Absent \<longrightarrow> written r tmp = Absent)"
  unfolding Let_def
proof (intro conjI ballI allI impI)
  let ?r = "atomicWriteFile e path data d"
  fix x assume x: "x \<in> set (snd ?r)"
  show "x path = d path \<or> x path = Content data"
    by (rule atomicWriteFile_states [OF assms x])
  fix q assume "q \<noteq> path \<and> we_create e \<noteq> Inr q"
  then show "x q = d q" using atomicWriteFile_other [of e q path x data d] x by blast
next
  let ?r = "atomicWriteFile e path data d"
  show "written ?r path =
      (case fst ?r of None \<Rightarrow> Content data | Some (SyncDirFailed _) \<Rightarrow> Content data | _ \<Rightarrow> d path)"
    using atomicWriteFile_ok [OF assms, of data d] atomicWriteFile_error [OF assms, of data d]
    by (cases "fst ?r") (auto split: write_error.splits)
next
  let ?r = "atomicWriteFile e path data d"
  fix tmp assume "we_create e = Inr tmp \<and> we_remove_ok e \<and> d tmp = Absent"
  then show "written ?r tmp = Absent"
    using assms by (auto simp: written_def atomicWriteFile_def removeTmp_def Let_def split: write_splits)
qed

theorem atomic_write_old_or_new_witness:
  "written (atomicWriteFile ((write_env_ok ''/s/.state-1'')\<lparr>we_sync := Some ''io''\<rparr>) ''/s/a'' ''new''
     (\<lambda>p. if p = ''/s/a'' then Content ''old'' else Absent)) ''/s/a'' = Content ''old''"
proof -
  let ?e = "(write_env_ok ''/s/.state-1'')\<lparr>we_sync := Some ''io''\<rparr>"
  let ?d = "\<lambda>p. if p = ''/s/a'' then Content ''old'' else Absent"
  let ?r = "atomicWriteFile ?e ''/s/a'' ''new'' ?d"
  have "\<forall>tmp. we_create ?e = Inr tmp \<longrightarrow> tmp \<noteq> ''/s/a''" by (simp add: write_env_ok_def)
  from atomic_write_old_or_new [OF this, of "''new''" ?d]
  have "written ?r ''/s/a'' = (case fst ?r of None \<Rightarrow> Content ''new''
      | Some (SyncDirFailed _) \<Rightarrow> Content ''new'' | _ \<Rightarrow> ?d ''/s/a'')"
    unfolding Let_def by blast
  moreover have "fst ?r = Some (WriteOS ''io'')"
    by (simp add: write_env_ok_def atomicWriteFile_def)
  ultimately show ?thesis by simp
qed

end
