(* ===== verification/LaunchStore.thy ===== *)
theory LaunchStore
  imports LaunchProfileProps StateFiles
begin

text \<open>
  The launch profile on disk (\<open>LoadLaunchProfile\<close>, \<open>SaveLaunchProfile\<close> and
  \<open>PatchLaunchProfile\<close> of \<open>core/launch.go\<close>) and the desired state of the core
  (\<open>core/desired_state.go\<close>).  \<open>encoding/json\<close> is a parameter: an encoder and a
  decoder for the type at hand.
\<close>

section \<open>Paths\<close>

definition serviceConfigDir :: "host \<Rightarrow> string" where
  "serviceConfigDir w =
    (let dir = Getenv w ''SPARKLE_CONFIG_DIR'' in if dir \<noteq> [] then dir else Join [''/root'', ''.config''])"

definition launchProfilePath :: "host \<Rightarrow> string" where
  "launchProfilePath w = Join [serviceConfigDir w, ''sparkle'', ''core'', ''launch_profile.json'']"

definition desiredStatePath :: "host \<Rightarrow> string" where
  "desiredStatePath w = Join [serviceConfigDir w, ''sparkle'', ''core'', ''desired_state.json'']"

definition runtimeRecordPath :: "host \<Rightarrow> string" where
  "runtimeRecordPath w = Join [serviceConfigDir w, ''sparkle'', ''core'', ''runtime.json'']"

section \<open>The launch profile on disk\<close>

record 'a codec =
  marshal :: "'a \<Rightarrow> (string, bytes) result"
  unmarshal :: "bytes \<Rightarrow> (string, 'a) result"

text \<open>What \<open>encoding/json\<close> documents for a value: decoding its encoding gives it back.\<close>

definition codec_law :: "'a codec \<Rightarrow> 'a \<Rightarrow> bool" where
  "codec_law c x \<longleftrightarrow> (\<forall>b. marshal c x = Inr b \<longrightarrow> unmarshal c b = Inr x)"

definition LoadLaunchProfile :: "host \<Rightarrow> LaunchProfile codec \<Rightarrow> disk \<Rightarrow> (launch_error, LaunchProfile) result" where
  "LoadLaunchProfile w c d =
    (case d (launchProfilePath w) of
       Absent \<Rightarrow> Inr (zeroProfile\<lparr>Mode := CoreRunModeAuto\<rparr>)
     | Unreadable \<Rightarrow> Inl ReadProfileFailed
     | Content data \<Rightarrow> rbind (map_err ParseProfileFailed (unmarshal c data)) (normalizeLaunchProfile w))"

text \<open>\<open>rm\<close> is the error of \<open>os.Remove\<close>, if it fails on a file that is there.\<close>

definition SaveLaunchProfile ::
    "host \<Rightarrow> LaunchProfile codec \<Rightarrow> write_env \<Rightarrow> string option \<Rightarrow> LaunchProfile \<Rightarrow> disk
     \<Rightarrow> launch_error option \<times> disk" where
  "SaveLaunchProfile w c e rm profile d =
    (case normalizeLaunchProfile w profile of Inl er \<Rightarrow> (Some er, d)
     | Inr normalized \<Rightarrow>
         let path = launchProfilePath w
         in if isZeroLaunchProfile normalized
            then (case d path of Absent \<Rightarrow> (None, d)
                  | _ \<Rightarrow> (case rm of Some er \<Rightarrow> (Some (RemoveProfileFailed er), d)
                          | None \<Rightarrow> (None, d(path := Absent))))
            else case marshal c normalized of
                   Inl er \<Rightarrow> (Some (MarshalProfileFailed er), d)
                 | Inr data \<Rightarrow>
                     let r = atomicWriteFile e path data d
                     in (map_option (\<lambda>er. WriteProfileFailed (case er of WriteOS t \<Rightarrow> t
                            | ReplaceFailed t \<Rightarrow> t | SyncDirFailed t \<Rightarrow> t)) (fst r),
                         written r))"

definition apply_patch :: "LaunchProfilePatch \<Rightarrow> LaunchProfile \<Rightarrow> LaunchProfile" where
  "apply_patch patch profile =
    (let p1 = (case p_Mode patch of None \<Rightarrow> profile | Some m \<Rightarrow> profile\<lparr>Mode := m\<rparr>);
         p2 = (case p_CPUAffinity patch of None \<Rightarrow> p1 | Some cs \<Rightarrow> p1\<lparr>CPUAffinity := cs\<rparr>);
         p3 = (case p_LogPath patch of None \<Rightarrow> p2 | Some l \<Rightarrow> p2\<lparr>LogPath := l\<rparr>);
         p4 = (case p_SaveLogs patch of None \<Rightarrow> p3 | Some b \<Rightarrow> p3\<lparr>SaveLogs := Some b\<rparr>)
     in (case p_MaxLogFileSizeMB patch of None \<Rightarrow> p4 | Some m \<Rightarrow> p4\<lparr>MaxLogFileSizeMB := m\<rparr>))"

definition PatchLaunchProfile ::
    "host \<Rightarrow> LaunchProfile codec \<Rightarrow> write_env \<Rightarrow> string option \<Rightarrow> LaunchProfilePatch \<Rightarrow> disk
     \<Rightarrow> (launch_error, LaunchProfile) result \<times> disk" where
  "PatchLaunchProfile w c e rm patch d =
    (case LoadLaunchProfile w c d of Inl er \<Rightarrow> (Inl er, d)
     | Inr profile \<Rightarrow>
         (case SaveLaunchProfile w c e rm (apply_patch patch profile) d of
            (Some er, d') \<Rightarrow> (Inl er, d')
          | (None, d') \<Rightarrow> (LoadLaunchProfile w c d', d')))"

definition resolveLaunchProfile ::
    "host \<Rightarrow> LaunchProfile codec \<Rightarrow> disk \<Rightarrow> LaunchProfile option \<Rightarrow> (launch_error, LaunchProfile) result" where
  "resolveLaunchProfile w c d override =
    (case override of Some p \<Rightarrow> normalizeLaunchProfile w p | None \<Rightarrow> LoadLaunchProfile w c d)"

definition temp_fresh :: "write_env \<Rightarrow> string \<Rightarrow> bool" where
  "temp_fresh e path \<longleftrightarrow> (\<forall>tmp. we_create e = Inr tmp \<longrightarrow> tmp \<noteq> path)"

definition blank_free :: "LaunchProfile \<Rightarrow> bool" where
  "blank_free q \<longleftrightarrow> (\<forall>s\<in>{CorePath q, LogPath q} \<union> set (SafePaths q). TrimSpace s = s)"

lemma zero_profile_unique:
  "isZeroLaunchProfile q \<Longrightarrow> Mode q = CoreRunModeAuto \<Longrightarrow> q = zeroProfile\<lparr>Mode := CoreRunModeAuto\<rparr>"
  by (cases q) (simp add: isZeroLaunchProfile_def zeroProfile_def)

lemma normalized_zero:
  assumes "normalizeLaunchProfile w p = Inr q" and "isZeroLaunchProfile q"
  shows "q = zeroProfile\<lparr>Mode := CoreRunModeAuto\<rparr>"
proof (rule zero_profile_unique [OF assms(2)])
  have "Mode q \<in> {CoreRunModeAuto, CoreRunModeSandbox, CoreRunModeDirect}"
    using normalizeMode_ok normalizeLaunchProfile_Inr(1) [OF assms(1)] .
  then show "Mode q = CoreRunModeAuto"
    using assms(2) by (auto simp: isZeroLaunchProfile_def run_mode_defs)
qed

text \<open>What a successful save leaves for the next load.\<close>

lemma SaveLaunchProfile_ok:
  assumes "host_rooted w" and "temp_fresh e (launchProfilePath w)"
    and "SaveLaunchProfile w c e rm p d = (None, d')"
    and "normalizeLaunchProfile w p = Inr q" and "codec_law c q" and "blank_free q"
  shows "LoadLaunchProfile w c d' = Inr q"
proof (cases "isZeroLaunchProfile q")
  case True
  have "d' (launchProfilePath w) = Absent"
    using assms(3,4) True
    by (auto simp: SaveLaunchProfile_def Let_def split: file_state.splits option.splits)
  then show ?thesis using normalized_zero [OF assms(4) True] by (simp add: LoadLaunchProfile_def)
next
  case False
  then obtain data where data: "marshal c q = Inr data"
    and ok: "fst (atomicWriteFile e (launchProfilePath w) data d) = None"
    and d': "d' = written (atomicWriteFile e (launchProfilePath w) data d)"
    using assms(3,4) by (auto simp: SaveLaunchProfile_def Let_def split: sum.splits)
  have "d' (launchProfilePath w) = Content data"
    unfolding d' using atomicWriteFile_ok [OF _ ok] assms(2) by (simp add: temp_fresh_def)
  moreover have "unmarshal c data = Inr q" using assms(5) data by (simp add: codec_law_def)
  moreover have "normalizeLaunchProfile w q = Inr q"
    using normalizeLaunchProfile_fixed normalizeLaunchProfile_profile_ok [OF assms(1,4)] assms(6)
    by (simp add: blank_free_def)
  ultimately show ?thesis by (simp add: LoadLaunchProfile_def)
qed

lemma SaveLaunchProfile_normalizes:
  "SaveLaunchProfile w c e rm p d = (None, d') \<Longrightarrow> \<exists>q. normalizeLaunchProfile w p = Inr q"
  by (auto simp: SaveLaunchProfile_def split: sum.splits)

section \<open>Properties\<close>

definition sample_codec :: "LaunchProfile codec" where
  "sample_codec = \<lparr>marshal = (\<lambda>p. if p = sample_normal then Inr ''json'' else Inl ''unsupported''),
     unmarshal = (\<lambda>b. if b = ''json'' then Inr sample_normal else Inl ''syntax'')\<rparr>"

definition sample_write :: write_env where
  "sample_write = write_env_ok ''/tmp/.state-1''"

definition sample_path :: string where
  "sample_path = ''/root/.config/sparkle/core/launch_profile.json''"

lemma sample_launch_path: "launchProfilePath sample_host = sample_path"
  by code_simp

lemma sample_fresh: "temp_fresh sample_write (launchProfilePath sample_host)"
  unfolding sample_launch_path
  by (simp add: temp_fresh_def sample_write_def write_env_ok_def sample_path_def)

lemma sample_blank_free: "blank_free sample_normal"
  unfolding blank_free_def by code_simp

lemma sample_codec_law: "codec_law sample_codec sample_normal"
  by (simp add: codec_law_def sample_codec_def)

lemma sample_saves:
  "\<exists>d'. SaveLaunchProfile sample_host sample_codec sample_write None sample_profile (\<lambda>_. Absent) = (None, d')"
proof -
  have "\<not> isZeroLaunchProfile sample_normal" by code_simp
  then show ?thesis
    by (simp add: SaveLaunchProfile_def sample_normalizes sample_codec_def sample_write_def
        write_env_ok_def atomicWriteFile_def Let_def)
qed

text \<open>
  A saved launch profile survives a restart: after a successful \<open>SaveLaunchProfile\<close>
  the next \<open>LoadLaunchProfile\<close> returns exactly the normalised profile, also for the
  empty profile, whose file is deleted.  The hypotheses are the documented behaviour of
  \<open>encoding/json\<close> on that profile, of \<open>os.CreateTemp\<close> and of \<open>os.Getwd\<close>, and that the
  resolved paths have no blank at their ends.
\<close>

theorem launch_profile_roundtrip:
  assumes "host_rooted w" and "temp_fresh e (launchProfilePath w)"
    and "SaveLaunchProfile w c e rm p d = (None, d')"
    and "\<forall>q. normalizeLaunchProfile w p = Inr q \<longrightarrow> codec_law c q \<and> blank_free q"
  shows "LoadLaunchProfile w c d' = normalizeLaunchProfile w p"
proof -
  obtain q where q: "normalizeLaunchProfile w p = Inr q"
    using SaveLaunchProfile_normalizes [OF assms(3)] by blast
  then show ?thesis using SaveLaunchProfile_ok [OF assms(1-3) q] assms(4) by simp
qed

theorem launch_profile_roundtrip_witness:
  "\<exists>d'. SaveLaunchProfile sample_host sample_codec sample_write None sample_profile (\<lambda>_. Absent) = (None, d') \<and>
     LoadLaunchProfile sample_host sample_codec d' = Inr sample_normal"
proof -
  obtain d' where d': "SaveLaunchProfile sample_host sample_codec sample_write None sample_profile (\<lambda>_. Absent) = (None, d')"
    using sample_saves by blast
  have "LoadLaunchProfile sample_host sample_codec d' = normalizeLaunchProfile sample_host sample_profile"
    by (rule launch_profile_roundtrip [OF sample_rooted sample_fresh d'])
      (simp add: sample_normalizes sample_codec_law sample_blank_free)
  with d' show ?thesis by (simp add: sample_normalizes)
qed

text \<open>
  A failing \<open>SaveLaunchProfile\<close> leaves a stored profile that was there or the new
  one, never a broken file: the next load answers as before, or, when only the final
  synchronisation of the directory failed, with the new profile.
\<close>

theorem failed_save_keeps_profile:
  assumes "host_rooted w" and "temp_fresh e (launchProfilePath w)"
    and "SaveLaunchProfile w c e rm p d = (Some er, d')"
    and "\<forall>q. normalizeLaunchProfile w p = Inr q \<longrightarrow> codec_law c q \<and> blank_free q"
  shows "LoadLaunchProfile w c d' = LoadLaunchProfile w c d \<or>
         LoadLaunchProfile w c d' = normalizeLaunchProfile w p"
proof -
  let ?path = "launchProfilePath w"
  have same: "LoadLaunchProfile w c d' = LoadLaunchProfile w c d" if "d' ?path = d ?path"
    using that by (simp add: LoadLaunchProfile_def)
  consider "d' = d" | q data where "normalizeLaunchProfile w p = Inr q" "marshal c q = Inr data"
      "d' = written (atomicWriteFile e ?path data d)"
    using assms(3)
    by (auto simp: SaveLaunchProfile_def Let_def split: sum.splits if_splits option.splits file_state.splits)
  then show ?thesis
  proof cases
    case 1
    then show ?thesis by simp
  next
    case (2 q data)
    have "d' \<in> set (snd (atomicWriteFile e ?path data d))"
      unfolding 2(3) written_def
      by (rule last_in_set) (auto simp: atomicWriteFile_def removeTmp_def Let_def split: write_splits)
    from atomicWriteFile_states [OF _ this] assms(2)
    have "d' ?path = d ?path \<or> d' ?path = Content data" by (simp add: temp_fresh_def)
    moreover have "unmarshal c data = Inr q" and "normalizeLaunchProfile w q = Inr q"
      using 2(1,2) assms(4) normalizeLaunchProfile_fixed normalizeLaunchProfile_profile_ok [OF assms(1)]
      by (auto simp: codec_law_def blank_free_def)
    ultimately show ?thesis using same 2(1) by (auto simp: LoadLaunchProfile_def)
  qed
qed

theorem failed_save_keeps_profile_witness:
  "LoadLaunchProfile sample_host sample_codec
     (snd (SaveLaunchProfile sample_host sample_codec (sample_write\<lparr>we_rename := Some ''busy''\<rparr>) None
        sample_profile (\<lambda>_. Absent))) \<in>
   {LoadLaunchProfile sample_host sample_codec (\<lambda>_. Absent), Inr sample_normal}"
proof -
  let ?r = "SaveLaunchProfile sample_host sample_codec (sample_write\<lparr>we_rename := Some ''busy''\<rparr>) None
        sample_profile (\<lambda>_. Absent)"
  have "\<not> isZeroLaunchProfile sample_normal" by code_simp
  then have "\<exists>er. fst ?r = Some er"
    by (simp add: SaveLaunchProfile_def sample_normalizes sample_codec_def sample_write_def
        write_env_ok_def atomicWriteFile_def Let_def)
  then obtain er where er: "?r = (Some er, snd ?r)" by (metis prod.collapse)
  have "temp_fresh (sample_write\<lparr>we_rename := Some ''busy''\<rparr>) (launchProfilePath sample_host)"
    using sample_fresh by (simp add: temp_fresh_def)
  from failed_save_keeps_profile [OF sample_rooted this er]
  show ?thesis by (simp add: sample_normalizes sample_codec_law sample_blank_free)
qed

end
