(* ===== verification/DesiredState.thy ===== *)
theory DesiredState
  imports LaunchStore
begin

text \<open>
  The two state files of the core manager: the desired state
  (\<open>core/desired_state.go\<close>), which says whether the core should run after a restart of
  the service, and the runtime record (\<open>core/runtime_state.go\<close>), which identifies the
  process that runs now.
\<close>

section \<open>Desired state\<close>

record desiredState =
  CoreShouldBeRunning :: bool
  ds_Profile :: LaunchProfile
  UpdatedAt :: int

definition zeroDesiredState :: desiredState where
  "zeroDesiredState = \<lparr>CoreShouldBeRunning = False, ds_Profile = zeroProfile, UpdatedAt = 0\<rparr>"

text \<open>
  A file that does not parse is moved aside under a name with the current time
  \<open>stamp\<close>; \<open>mv\<close> is the error of the rename, if it fails.
\<close>

definition loadDesiredState ::
    "host \<Rightarrow> desiredState codec \<Rightarrow> string \<Rightarrow> string option \<Rightarrow> disk
     \<Rightarrow> (core_error, desiredState) result \<times> disk" where
  "loadDesiredState w c stamp mv d =
    (let path = desiredStatePath w
     in case d path of
          Absent \<Rightarrow> (Inr zeroDesiredState, d)
        | Unreadable \<Rightarrow> (Inl StateReadFailed, d)
        | Content data \<Rightarrow>
            (case unmarshal c data of
               Inr st \<Rightarrow> (Inr st, d)
             | Inl er \<Rightarrow>
                 (case mv of
                    Some er' \<Rightarrow> (Inl (StateQuarantineFailed er'), d)
                  | None \<Rightarrow> (Inl (StateCorrupt er),
                      d(path := Absent, path @ ''.corrupt-'' @ stamp := Content data)))))"

definition saveDesiredState ::
    "host \<Rightarrow> desiredState codec \<Rightarrow> write_env \<Rightarrow> desiredState \<Rightarrow> disk \<Rightarrow> string option \<times> disk" where
  "saveDesiredState w c e st d =
    (case marshal c st of Inl er \<Rightarrow> (Some er, d)
     | Inr data \<Rightarrow>
         let r = atomicWriteFile e (desiredStatePath w) data d
         in (map_option (\<lambda>er. case er of WriteOS t \<Rightarrow> t | ReplaceFailed t \<Rightarrow> t | SyncDirFailed t \<Rightarrow> t) (fst r),
             written r))"

definition persistDesiredState ::
    "host \<Rightarrow> desiredState codec \<Rightarrow> write_env \<Rightarrow> int \<Rightarrow> bool \<Rightarrow> LaunchProfile \<Rightarrow> disk \<Rightarrow> string option \<times> disk" where
  "persistDesiredState w c e now running profile d =
    saveDesiredState w c e \<lparr>CoreShouldBeRunning = running, ds_Profile = profile, UpdatedAt = now\<rparr> d"

definition clearDesiredState ::
    "host \<Rightarrow> desiredState codec \<Rightarrow> write_env \<Rightarrow> int \<Rightarrow> disk \<Rightarrow> string option \<times> disk" where
  "clearDesiredState w c e now d = persistDesiredState w c e now False zeroProfile d"

section \<open>Runtime record\<close>

record runtimeRecord =
  rr_PID :: int
  rr_StartTime :: int
  rr_Executable :: string
  rr_ControllerNet :: string
  rr_ControllerAddr :: string
  rr_Profile :: LaunchProfile

text \<open>What the process table answers for a process identifier.\<close>

record proc_info =
  pi_create :: "(string, int) result"
  pi_exe :: "(string, string) result"
  pi_name :: "(string, string) result"

type_synonym proc_table = "int \<Rightarrow> (string, proc_info) result"

definition writeRuntimeRecord ::
    "host \<Rightarrow> runtimeRecord codec \<Rightarrow> write_env \<Rightarrow> proc_table \<Rightarrow> int \<Rightarrow> string \<Rightarrow> string \<Rightarrow> string
     \<Rightarrow> LaunchProfile \<Rightarrow> disk \<Rightarrow> string option \<times> disk" where
  "writeRuntimeRecord w c e procs pid executable net addr profile d =
    (case procs pid of Inl er \<Rightarrow> (Some er, d)
     | Inr proc \<Rightarrow>
    (case pi_create proc of Inl er \<Rightarrow> (Some er, d)
     | Inr startTime \<Rightarrow>
    (case marshal c \<lparr>rr_PID = pid, rr_StartTime = startTime, rr_Executable = executable,
            rr_ControllerNet = net, rr_ControllerAddr = addr, rr_Profile = profile\<rparr> of
       Inl er \<Rightarrow> (Some er, d)
     | Inr data \<Rightarrow>
         let r = atomicWriteFile e (runtimeRecordPath w) data d
         in (map_option (\<lambda>er. case er of WriteOS t \<Rightarrow> t | ReplaceFailed t \<Rightarrow> t | SyncDirFailed t \<Rightarrow> t) (fst r),
             written r))))"

text \<open>\<open>rm\<close> is the error of \<open>os.Remove\<close>, which is only logged.\<close>

definition removeRuntimeRecord :: "host \<Rightarrow> string option \<Rightarrow> disk \<Rightarrow> disk" where
  "removeRuntimeRecord w rm d =
    (case rm of Some _ \<Rightarrow> d | None \<Rightarrow> d(runtimeRecordPath w := Absent))"

section \<open>Properties\<close>

lemma quarantine_name_differs: "path @ ''.corrupt-'' @ stamp \<noteq> path"
  by simp

lemma saveDesiredState_ok:
  assumes "temp_fresh e (desiredStatePath w)" and "codec_law c st"
    and "saveDesiredState w c e st d = (None, d')"
  shows "loadDesiredState w c stamp mv d' = (Inr st, d')"
proof -
  from assms(3) obtain data where data: "marshal c st = Inr data"
    and ok: "fst (atomicWriteFile e (desiredStatePath w) data d) = None"
    and d': "d' = written (atomicWriteFile e (desiredStatePath w) data d)"
    by (auto simp: saveDesiredState_def Let_def split: sum.splits)
  have "d' (desiredStatePath w) = Content data"
    unfolding d' using atomicWriteFile_ok [OF _ ok] assms(1) by (simp add: temp_fresh_def)
  then show ?thesis using assms(2) data by (simp add: loadDesiredState_def codec_law_def)
qed

text \<open>
  The desired state is what was recorded last: after a successful
  \<open>persistDesiredState\<close> the next start of the service reads back the same flag and
  profile, and after a successful \<open>clearDesiredState\<close> it reads that no core should run.
\<close>

theorem desired_state_roundtrip:
  assumes "temp_fresh e (desiredStatePath w)" and "\<forall>st. codec_law c st"
  shows "(persistDesiredState w c e now running profile d = (None, d') \<longrightarrow>
            fst (loadDesiredState w c stamp mv d') =
              Inr \<lparr>CoreShouldBeRunning = running, ds_Profile = profile, UpdatedAt = now\<rparr>) \<and>
         (clearDesiredState w c e now d = (None, d') \<longrightarrow>
            map_sum id CoreShouldBeRunning (fst (loadDesiredState w c stamp mv d')) = Inr False)"
  using saveDesiredState_ok [OF assms(1), of c _ d d' stamp mv] assms(2)
  by (simp add: persistDesiredState_def clearDesiredState_def)

definition failing_state_codec :: "desiredState codec" where
  "failing_state_codec = \<lparr>marshal = (\<lambda>st. if st = zeroDesiredState then Inr ''0'' else Inl ''unsupported''),
     unmarshal = (\<lambda>b. if b = ''0'' then Inr zeroDesiredState else Inl ''syntax'')\<rparr>"

lemma failing_state_codec_law: "codec_law failing_state_codec st"
  by (simp add: codec_law_def failing_state_codec_def)

lemma sample_desired_path:
  "desiredStatePath sample_host = ''/root/.config/sparkle/core/desired_state.json''"
  by code_simp

lemma sample_desired_fresh: "temp_fresh sample_write (desiredStatePath sample_host)"
  unfolding sample_desired_path by (simp add: temp_fresh_def sample_write_def write_env_ok_def)

theorem desired_state_roundtrip_witness:
  "\<exists>d'. clearDesiredState sample_host failing_state_codec sample_write 0 (\<lambda>_. Absent) = (None, d') \<and>
     map_sum id CoreShouldBeRunning (fst (loadDesiredState sample_host failing_state_codec '''' None d')) = Inr False"
proof -
  have "fst (clearDesiredState sample_host failing_state_codec sample_write 0 (\<lambda>_. Absent)) = None"
    by (simp add: clearDesiredState_def persistDesiredState_def saveDesiredState_def
        failing_state_codec_def zeroDesiredState_def sample_write_def write_env_ok_def
        atomicWriteFile_def Let_def)
  then obtain d' where d': "clearDesiredState sample_host failing_state_codec sample_write 0 (\<lambda>_. Absent) = (None, d')"
    by (metis prod.collapse)
  with desired_state_roundtrip [OF sample_desired_fresh, of failing_state_codec 0 False zeroProfile
      "\<lambda>_. Absent" d' "''''" None] failing_state_codec_law
  show ?thesis by blast
qed

text \<open>
  A damaged desired state is reported once and kept for inspection: the load fails, the
  bytes move unchanged to a file beside it, no other file changes, and the next load
  answers that nothing should run.
\<close>

theorem corrupt_state_quarantined:
  assumes "d (desiredStatePath w) = Content data" and "unmarshal c data = Inl er"
    and "loadDesiredState w c stamp None d = (r, d')"
  shows "r = Inl (StateCorrupt er) \<and>
         d' (desiredStatePath w @ ''.corrupt-'' @ stamp) = Content data \<and>
         (\<forall>q. q \<noteq> desiredStatePath w \<and> q \<noteq> desiredStatePath w @ ''.corrupt-'' @ stamp \<longrightarrow> d' q = d q) \<and>
         loadDesiredState w c stamp' mv d' = (Inr zeroDesiredState, d')"
  using assms by (auto simp: loadDesiredState_def Let_def)

theorem corrupt_state_quarantined_witness:
  "loadDesiredState sample_host failing_state_codec ''9'' None
     (snd (loadDesiredState sample_host failing_state_codec ''7'' None
        (\<lambda>p. if p = desiredStatePath sample_host then Content ''{'' else Absent))) =
   (Inr zeroDesiredState, snd (loadDesiredState sample_host failing_state_codec ''7'' None
        (\<lambda>p. if p = desiredStatePath sample_host then Content ''{'' else Absent)))"
proof -
  let ?d = "\<lambda>p. if p = desiredStatePath sample_host then Content ''{'' else Absent"
  have "loadDesiredState sample_host failing_state_codec ''7'' None ?d =
      (fst (loadDesiredState sample_host failing_state_codec ''7'' None ?d),
       snd (loadDesiredState sample_host failing_state_codec ''7'' None ?d))"
    by simp
  from corrupt_state_quarantined [OF _ _ this, of "''{''" "''syntax''" "''9''" None]
  show ?thesis by (simp add: failing_state_codec_def)
qed

end
