(* ===== verification/SysproxyEvents.thy ===== *)
theory SysproxyEvents
  imports EventHub
begin

text \<open>
  The events of the system proxy guard, \<open>route/sysproxyapi/sysproxy_events.go\<close>.  Texts
  that the program writes in Chinese are constructors of \<open>guard_text\<close>; an error is
  carried as the text that \<open>err.Error()\<close> gives.
\<close>

datatype guard_event_type =
    GuardNoType | GuardStarted | GuardStopped | GuardChanged | GuardRestored
  | GuardRestoreFailed | GuardCheckFailed | GuardWatchFailed

datatype guard_text =
    GNone | GNotRunning | GStarted | GStopped | GChanged | GRestored | GRestoreFailed
  | GCheckFailed | GWatchRetry | GStartFailed

record sysproxyEvent =
  se_Seq :: "64 word"
  se_Type :: guard_event_type
  se_Time :: "go_time option"
  se_Guard :: bool
  se_Mode :: string
  se_Message :: guard_text
  se_Error :: string

definition zeroSysproxyEvent :: sysproxyEvent where
  "zeroSysproxyEvent = \<lparr>se_Seq = 0, se_Type = GuardNoType, se_Time = None, se_Guard = False,
    se_Mode = '''', se_Message = GNone, se_Error = ''''\<rparr>"

type_synonym sysproxyEventHub = "sysproxyEvent hub"

definition emptySysproxyEventHub :: sysproxyEventHub where
  "emptySysproxyEventHub = \<lparr>hub_chans = [], hub_subscribers = [], hub_closed = [],
    hub_last = zeroSysproxyEvent, hub_nextSeq = 0\<rparr>"

record guard_report =
  gr_now :: go_time
  gr_type :: guard_event_type
  gr_mode :: string
  gr_guard :: bool
  gr_message :: guard_text
  gr_err :: "string option"

definition newSysproxyEvent ::
    "go_time \<Rightarrow> guard_event_type \<Rightarrow> string \<Rightarrow> bool \<Rightarrow> guard_text \<Rightarrow> string option \<Rightarrow> sysproxyEvent" where
  "newSysproxyEvent now eventType mode guard message err =
    zeroSysproxyEvent\<lparr>se_Type := eventType, se_Time := Some now, se_Guard := guard, se_Mode := mode,
      se_Message := message, se_Error := (case err of None \<Rightarrow> '''' | Some t \<Rightarrow> t)\<rparr>"

definition publishSysproxyGuardEvent ::
    "go_time \<Rightarrow> guard_event_type \<Rightarrow> string \<Rightarrow> bool \<Rightarrow> guard_text \<Rightarrow> string option \<Rightarrow>
     sysproxyEventHub \<Rightarrow> sysproxyEventHub" where
  "publishSysproxyGuardEvent now eventType mode guard message err h =
    (let seq = hub_nextSeq h + 1;
         e = (newSysproxyEvent now eventType mode guard message err)\<lparr>se_Seq := seq\<rparr>
     in h\<lparr>hub_chans := hub_broadcast e h, hub_nextSeq := seq, hub_last := e\<rparr>)"

definition subscribeSysproxySnapshot :: "go_time \<Rightarrow> sysproxyEvent \<Rightarrow> sysproxyEvent" where
  "subscribeSysproxySnapshot now previous =
    (if se_Type previous = GuardNoType
     then newSysproxyEvent now GuardStopped '''' False GNotRunning None else previous)"

definition subscribeSysproxyEvents ::
    "go_time \<Rightarrow> int \<Rightarrow> sysproxyEventHub \<Rightarrow> (nat \<times> sysproxyEventHub) option" where
  "subscribeSysproxyEvents now buffer h =
    (case hub_register buffer h of (ch, previous, h1) \<Rightarrow>
       map_option (Pair ch) (hub_send ch (subscribeSysproxySnapshot now previous) h1))"

section \<open>The contract\<close>

definition stampSysproxy :: "guard_report \<Rightarrow> 64 word \<Rightarrow> sysproxyEvent" where
  "stampSysproxy r n =
    (newSysproxyEvent (gr_now r) (gr_type r) (gr_mode r) (gr_guard r) (gr_message r) (gr_err r))
      \<lparr>se_Seq := n\<rparr>"

definition pubSysproxy :: "guard_report \<Rightarrow> sysproxyEventHub \<Rightarrow> sysproxyEventHub" where
  "pubSysproxy r =
    publishSysproxyGuardEvent (gr_now r) (gr_type r) (gr_mode r) (gr_guard r) (gr_message r) (gr_err r)"

interpretation sysproxy_hub: event_hub pubSysproxy stampSysproxy se_Seq "\<lambda>_. True"
  by unfold_locales
    (simp_all add: pubSysproxy_def publishSysproxyGuardEvent_def stampSysproxy_def Let_def)

lemma subscribeSysproxyEvents_Some:
  assumes "subscribeSysproxyEvents now n h = Some (ch, h')"
  shows "hub_buf ch h' = [subscribeSysproxySnapshot now (hub_last h)]"
    and "ch \<in> set (hub_subscribers h')" and "ch < length (hub_chans h')"
    and "hub_cap ch h' = (if n < 1 then 1 else nat n)"
    and "hub_nextSeq h' = hub_nextSeq h"
  using assms
  by (auto simp: subscribeSysproxyEvents_def hub_register_def Let_def hub_send_def hub_buf_def
        hub_cap_def make_chan_def try_send_def nth_append split: if_splits)

text \<open>
  A client of \<open>/sysproxy/events\<close> subscribes with a buffer of sixteen: as long as at
  most fifteen operations happen before it reads, its stream is the current state
  followed by every guard event, consecutively numbered and in order.
\<close>

theorem sysproxy_stream_complete:
  assumes "subscribeSysproxyEvents now 16 h = Some (i, h1)"
    and "Unsubscribe i \<notin> set xs" and "\<forall>e. Snapshot i e \<notin> set xs" and "length xs \<le> 15"
  shows "stream pubSysproxy i xs h1 =
           subscribeSysproxySnapshot now (hub_last h) # published stampSysproxy (hub_nextSeq h) xs"
  using sysproxy_hub.stream_complete_from [of i h1 xs]
    subscribeSysproxyEvents_Some [OF assms(1)] assms(2-4)
  by simp

theorem sysproxy_stream_complete_witness:
  "\<exists>h1. subscribeSysproxyEvents \<lparr>wall = 0, monotonic = 0\<rparr> 16 emptySysproxyEventHub = Some (0, h1) \<and>
    stream pubSysproxy 0
      [Publish \<lparr>gr_now = \<lparr>wall = 0, monotonic = 0\<rparr>, gr_type = GuardStarted, gr_mode = ''pac'',
         gr_guard = True, gr_message = GStarted, gr_err = None\<rparr>] h1 =
    [subscribeSysproxySnapshot \<lparr>wall = 0, monotonic = 0\<rparr> zeroSysproxyEvent,
     stampSysproxy \<lparr>gr_now = \<lparr>wall = 0, monotonic = 0\<rparr>, gr_type = GuardStarted, gr_mode = ''pac'',
         gr_guard = True, gr_message = GStarted, gr_err = None\<rparr> 1]"
proof -
  let ?t = "\<lparr>wall = 0, monotonic = 0\<rparr>"
  obtain h1 where "subscribeSysproxyEvents ?t 16 emptySysproxyEventHub = Some (0, h1)"
    by (simp add: subscribeSysproxyEvents_def hub_register_def Let_def hub_send_def
        send_blocks_def make_chan_def emptySysproxyEventHub_def)
  from this sysproxy_stream_complete [OF this, of "[Publish \<lparr>gr_now = ?t, gr_type = GuardStarted,
      gr_mode = ''pac'', gr_guard = True, gr_message = GStarted, gr_err = None\<rparr>]"]
  show ?thesis by (simp add: emptySysproxyEventHub_def)
qed

end
