(* ===== verification/LaunchSession.thy ===== *)
theory LaunchSession
  imports LaunchStore LogWriter
begin

text \<open>
  The preparation of a launch (\<open>prepareLaunchSession\<close> of \<open>core/launch.go\<close>), the start-up
  hook that waits for the core's \<open>post-up\<close> notification, and the clean-up actions a
  session collects (\<open>addCleanup\<close> and \<open>cleanupNow\<close>).
\<close>

section \<open>Sessions and their clean-up\<close>

text \<open>The clean-up closures that occur in the package.\<close>

datatype cleanup_action =
    CleanHook | CleanEndpoint | CleanCommand | CloseLog | StopWatcher | CleanProxy

record launchSession =
  ls_id :: nat
  ls_sourcePath :: string
  ls_executablePath :: string
  ls_workingDir :: string
  ls_args :: "string list"
  ls_env :: "string list"
  ls_hookUpFile :: string
  ls_waitReady :: bool
  ls_readyNotify :: bool
  ls_cpuPriority :: string
  ls_logPath :: string
  ls_saveLogs :: bool
  ls_maxLogBytes :: int
  ls_fileAccess :: fileAccess
  ls_controllerNet :: string
  ls_controllerAddr :: string
  ls_defaultCPUAffinity :: "int list"
  ls_profile :: LaunchProfile
  ls_cleanup :: "cleanup_action list"

text \<open>A later clean-up runs before the earlier ones.\<close>

definition addCleanup :: "cleanup_action \<Rightarrow> launchSession \<Rightarrow> launchSession" where
  "addCleanup a s = s\<lparr>ls_cleanup := a # ls_cleanup s\<rparr>"

text \<open>\<open>cleanupNow\<close>: the actions it runs, and the session with nothing left to run.\<close>

definition cleanupNow :: "launchSession \<Rightarrow> cleanup_action list \<times> launchSession" where
  "cleanupNow s = (ls_cleanup s, s\<lparr>ls_cleanup := []\<rparr>)"

section \<open>Preparation\<close>

record coreStartupHook =
  hk_upFile :: string
  hk_postUpCommand :: string
  hk_postDownCommand :: string
  hk_env :: "(string \<times> string) list"

text \<open>
  What the outside answers during a preparation: the hardening of the binary, the
  creation of the hook and of the controller endpoint, and the CPU set of the service.
\<close>

record prepare_env =
  pe_secure :: "string option"
  pe_hook :: "(string, coreStartupHook) result"
  pe_endpoint :: "(string, string \<times> string) result"
  pe_affinity :: "(string, int list) result"

text \<open>The clean-up actions a call ran itself are the second component.\<close>

definition prepareLaunchSession ::
    "host \<Rightarrow> LaunchProfile codec \<Rightarrow> prepare_env \<Rightarrow> nat \<Rightarrow> LaunchProfile option \<Rightarrow> fileAccess \<Rightarrow> disk
     \<Rightarrow> (launch_error, launchSession) result \<times> cleanup_action list" where
  "prepareLaunchSession w c e sid override access d =
    (case resolveLaunchProfile w c d override of Inl er \<Rightarrow> (Inl er, [])
     | Inr profile0 \<Rightarrow>
    (case resolveCoreExecutablePath w (CorePath profile0) True of Inl er \<Rightarrow> (Inl er, [])
     | Inr corePath \<Rightarrow>
        let profile = profile0\<lparr>CorePath := corePath\<rparr>;
            saveLogs = (case SaveLogs profile of None \<Rightarrow> True | Some b \<Rightarrow> b) in
    (case pe_secure e of Some er \<Rightarrow> (Inl (LaunchOS er), [])
     | None \<Rightarrow>
    (case pe_hook e of Inl er \<Rightarrow> (Inl (LaunchOS er), [])
     | Inr hook \<Rightarrow>
    (case configureManagedController (pe_endpoint e) (Args profile) of
       Inl er \<Rightarrow> (Inl er, (case pe_endpoint e of Inl _ \<Rightarrow> [] | Inr _ \<Rightarrow> [CleanEndpoint]) @ [CleanHook])
     | Inr (managedArgs, controllerNet, controllerAddr) \<Rightarrow>
        let args = [''-post-up'', hk_postUpCommand hook, ''-post-down'', hk_postDownCommand hook] @ managedArgs in
    (case pe_affinity e of Inl er \<Rightarrow> (Inl (LaunchOS er), [CleanHook, CleanEndpoint])
     | Inr defaultCPUAffinity \<Rightarrow>
    (case resolveLaunchWorkingDir w corePath args of Inl er \<Rightarrow> (Inl er, [CleanHook, CleanEndpoint])
     | Inr workingDir \<Rightarrow>
        (Inr \<lparr>ls_id = sid, ls_sourcePath = corePath, ls_executablePath = corePath,
              ls_workingDir = workingDir, ls_args = args, ls_env = buildLaunchEnv w profile (hk_env hook),
              ls_hookUpFile = hk_upFile hook, ls_waitReady = True, ls_readyNotify = True,
              ls_cpuPriority = Priority profile, ls_logPath = LogPath profile, ls_saveLogs = saveLogs,
              ls_maxLogBytes = maxLogFileSizeBytes (MaxLogFileSizeMB profile), ls_fileAccess = access,
              ls_controllerNet = controllerNet, ls_controllerAddr = controllerAddr,
              ls_defaultCPUAffinity = defaultCPUAffinity, ls_profile = profile,
              ls_cleanup = [CleanEndpoint, CleanHook]\<rparr>, []))))))))"

text \<open>What the preparation created, in terms of the answers it got.\<close>

lemma prepare_Inr:
  assumes "prepareLaunchSession w c e sid override access d = (Inr s, cleaned)"
  obtains profile0 hook net addr where
    "resolveLaunchProfile w c d override = Inr profile0"
    "resolveCoreExecutablePath w (CorePath profile0) True = Inr (ls_executablePath s)"
    "pe_hook e = Inr hook" "pe_endpoint e = Inr (net, addr)" "net \<in> {''pipe'', ''unix''}"
    "ls_args s = [''-post-up'', hk_postUpCommand hook, ''-post-down'', hk_postDownCommand hook,
       (if net = ''pipe'' then ''-ext-ctl-pipe'' else ''-ext-ctl-unix''), addr] @ stripControllerArgs (Args profile0)"
    "ls_profile s = profile0\<lparr>CorePath := ls_executablePath s\<rparr>"
    "ls_env s = buildLaunchEnv w (ls_profile s) (hk_env hook)"
    "ls_controllerNet s = net" "ls_controllerAddr s = addr"
    "ls_cleanup s = [CleanEndpoint, CleanHook]" "cleaned = []" "ls_id s = sid" "ls_waitReady s"
  using assms
  by (auto simp: prepareLaunchSession_def configureManagedController_def Let_def
      split: sum.splits option.splits prod.splits if_splits)

section \<open>The start-up hook\<close>

text \<open>
  The goroutine of \<open>newCoreStartupHook\<close>: it consumes the results of
  \<open>waitNotification\<close>, each a flag (the listener is gone) and an error.  \<open>hs_first\<close> is the
  channel of the first result, \<open>hs_notifications\<close> the later ones.
\<close>

record hook_state =
  hs_first :: "string option chan"
  hs_delivered :: bool
  hs_notifications :: "unit chan"
  hs_done :: bool

definition newHookState :: hook_state where
  "newHookState = \<lparr>hs_first = make_chan 1, hs_delivered = False, hs_notifications = make_chan 8, hs_done = False\<rparr>"

text \<open>\<open>deliverFirst\<close>; \<open>None\<close> stands for a send that blocks.\<close>

definition deliverFirst :: "string option \<Rightarrow> hook_state \<Rightarrow> (bool \<times> hook_state) option" where
  "deliverFirst err h =
    (if hs_delivered h then Some (False, h)
     else if send_blocks (hs_first h) then None
     else Some (True, h\<lparr>hs_delivered := True, hs_first := try_send (hs_first h) err\<rparr>))"

definition hook_step :: "bool \<times> string option \<Rightarrow> hook_state \<Rightarrow> hook_state option" where
  "hook_step r h =
    (case r of (fatal, err) \<Rightarrow>
     case err of
       Some e \<Rightarrow> (case deliverFirst (Some e) h of None \<Rightarrow> None
         | Some (_, h1) \<Rightarrow> Some (if fatal then h1\<lparr>hs_done := True\<rparr> else h1))
     | None \<Rightarrow> (case deliverFirst None h of None \<Rightarrow> None
         | Some (True, h1) \<Rightarrow> Some h1
         | Some (False, h1) \<Rightarrow> Some (h1\<lparr>hs_notifications := try_send (hs_notifications h1) ()\<rparr>)))"

fun hook_run :: "(bool \<times> string option) list \<Rightarrow> hook_state \<Rightarrow> hook_state option" where
  "hook_run [] h = Some h"
| "hook_run (r # rs) h =
    (if hs_done h then Some h else case hook_step r h of None \<Rightarrow> None | Some h' \<Rightarrow> hook_run rs h')"

text \<open>\<open>readStartupNotification\<close> on the bytes the connection delivers until its end.\<close>

definition readStartupNotification :: "bytes \<Rightarrow> string \<Rightarrow> bool" where
  "readStartupNotification sent token \<longleftrightarrow> TrimSpace (take (length token + 16) sent) = token"

definition hook_inv :: "hook_state \<Rightarrow> bool" where
  "hook_inv h \<longleftrightarrow> chan_cap (hs_first h) = 1 \<and> (\<not> hs_delivered h \<longrightarrow> chan_buf (hs_first h) = [])
     \<and> length (chan_buf (hs_first h)) \<le> 1 \<and> chan_cap (hs_notifications h) = 8 \<and> chan_ok (hs_notifications h)"

lemma hook_step_ok:
  assumes "hook_inv h"
  shows "\<exists>h'. hook_step r h = Some h' \<and> hook_inv h' \<and> hs_delivered h' \<and>
    (hs_delivered h \<longrightarrow> hs_first h' = hs_first h) \<and>
    (\<not> hs_delivered h \<longrightarrow> chan_buf (hs_first h') = [snd r] \<and> hs_notifications h' = hs_notifications h)"
  using assms chan_ok_try_send [of "hs_notifications h" "()"]
  by (cases r; cases "snd r"; cases "hs_delivered h")
    (auto simp: hook_step_def deliverFirst_def hook_inv_def send_blocks_def
      chan_buf_try_send)

lemma hook_run_delivered:
  "hook_inv h \<Longrightarrow> hs_delivered h \<Longrightarrow>
    \<exists>h'. hook_run rs h = Some h' \<and> hook_inv h' \<and> hs_delivered h' \<and> hs_first h' = hs_first h"
proof (induction rs arbitrary: h)
  case (Cons r rs)
  obtain h1 where "hook_step r h = Some h1" "hook_inv h1" "hs_delivered h1" "hs_first h1 = hs_first h"
    using hook_step_ok [OF Cons.prems(1), of r] Cons.prems(2) by blast
  with Cons show ?case by fastforce
qed simp

section \<open>Properties\<close>

text \<open>
  The client cannot take over the command line: in a prepared session the arguments
  begin with the service's hooks and the private controller endpoint, the rest is a
  subsequence of the client's arguments in which no argument names a controller, a hook,
  \<open>-t\<close> or \<open>-v\<close>, is empty or is \<open>--\<close>, and the profile of the session is well formed.
\<close>

theorem session_arguments:
  assumes "host_rooted w" and "prepareLaunchSession w c e sid (Some p) access d = (Inr s, cleaned)"
  shows "\<exists>hook flag rest. pe_hook e = Inr hook \<and> flag \<in> {''-ext-ctl-pipe'', ''-ext-ctl-unix''} \<and>
    ls_args s = [''-post-up'', hk_postUpCommand hook, ''-post-down'', hk_postDownCommand hook,
                 flag, ls_controllerAddr s] @ rest \<and>
    subseq rest (Args p) \<and> (\<forall>a\<in>set rest. \<not> forbidden_arg a \<and> \<not> isControllerArg a) \<and>
    IsAbs (ls_executablePath s) \<and> host_stat w (ls_executablePath s) = StatFile"
  using assms(2)
proof (rule prepare_Inr)
  fix profile0 hook net addr
  assume p0: "resolveLaunchProfile w c d (Some p) = Inr profile0"
    and exe: "resolveCoreExecutablePath w (CorePath profile0) True = Inr (ls_executablePath s)"
    and hook: "pe_hook e = Inr hook" and net: "net \<in> {''pipe'', ''unix''}"
    and args: "ls_args s = [''-post-up'', hk_postUpCommand hook, ''-post-down'', hk_postDownCommand hook,
       (if net = ''pipe'' then ''-ext-ctl-pipe'' else ''-ext-ctl-unix''), addr] @ stripControllerArgs (Args profile0)"
    and addr: "ls_controllerAddr s = addr"
  from p0 have norm: "normalizeLaunchProfile w p = Inr profile0" by (simp add: resolveLaunchProfile_def)
  note q = normalizeLaunchProfile_profile_ok [OF assms(1) norm] normalizeLaunchProfile_Inr(4) [OF norm]
  have "subseq (stripControllerArgs (Args profile0)) (Args p)"
    using stripControllerArgs_subseq q(2) by metis
  moreover have "\<forall>a\<in>set (Args profile0). \<not> forbidden_arg a" using q(1) by (simp add: profile_ok_def)
  then have "\<forall>a\<in>set (stripControllerArgs (Args profile0)). \<not> forbidden_arg a \<and> \<not> isControllerArg a"
    using stripControllerArgs_clean set_stripControllerArgs by blast
  ultimately show ?thesis
    using hook args addr resolveCoreExecutablePath_ok [OF assms(1) exe] by (auto split: if_splits)
qed

definition sample_prepare :: prepare_env where
  "sample_prepare = \<lparr>pe_secure = None,
     pe_hook = Inr \<lparr>hk_upFile = ''/tmp/n/t.sock'', hk_postUpCommand = ''up'', hk_postDownCommand = ''true'', hk_env = []\<rparr>,
     pe_endpoint = Inr (''unix'', ''/tmp/c/controller.sock''), pe_affinity = Inr [0, 1]\<rparr>"

lemma sample_prepares:
  "\<exists>s. prepareLaunchSession sample_host sample_codec sample_prepare 1 (Some sample_profile)
         \<lparr>fa_groupID = 0, fa_ok = False\<rparr> d = (Inr s, [])"
proof -
  have "resolveCoreExecutablePath sample_host (CorePath sample_normal) True = Inr ''/srv/mihomo''"
    by code_simp
  moreover have "resolveLaunchWorkingDir sample_host ''/srv/mihomo''
      ([''-post-up'', ''up'', ''-post-down'', ''true'', ''-ext-ctl-unix'', ''/tmp/c/controller.sock''] @
        stripControllerArgs (Args sample_normal)) = Inr ''/srv''"
    by code_simp
  ultimately show ?thesis
    by (simp add: prepareLaunchSession_def resolveLaunchProfile_def sample_normalizes sample_prepare_def
        configureManagedController_def Let_def sample_normal_def)
qed

theorem session_arguments_witness:
  "\<exists>s rest. prepareLaunchSession sample_host sample_codec sample_prepare 1 (Some sample_profile)
         \<lparr>fa_groupID = 0, fa_ok = False\<rparr> (\<lambda>_. Absent) = (Inr s, []) \<and>
     drop 6 (ls_args s) = rest \<and> subseq rest [''-f'', ''c.yaml'']"
proof -
  obtain s where s: "prepareLaunchSession sample_host sample_codec sample_prepare 1 (Some sample_profile)
         \<lparr>fa_groupID = 0, fa_ok = False\<rparr> (\<lambda>_. Absent) = (Inr s, [])"
    using sample_prepares by blast
  have "Args sample_profile = [''-f'', ''c.yaml'']" by (simp add: sample_profile_def)
  with session_arguments [OF sample_rooted s] s show ?thesis by auto
qed

text \<open>
  The hook tells its waiter once: whatever sequence of notifications and errors
  arrives, the hook's goroutine never blocks, the first result is delivered exactly as it
  came and never replaced, and at most eight later notifications wait.
\<close>

theorem hook_first_result:
  "\<exists>h. hook_run (r # rs) newHookState = Some h \<and> chan_buf (hs_first h) = [snd r] \<and>
     length (chan_buf (hs_notifications h)) \<le> 8"
proof -
  have inv: "hook_inv newHookState"
    by (simp add: hook_inv_def newHookState_def make_chan_def chan_ok_def)
  obtain h1 where h1: "hook_step r newHookState = Some h1" "hook_inv h1" "hs_delivered h1"
    "chan_buf (hs_first h1) = [snd r]"
    using hook_step_ok [OF inv, of r] by (auto simp: newHookState_def)
  then obtain h2 where "hook_run rs h1 = Some h2" "hook_inv h2" "hs_first h2 = hs_first h1"
    using hook_run_delivered by blast
  then show ?thesis using h1 by (auto simp: newHookState_def hook_inv_def chan_ok_def)
qed

end
