(* ===== verification/CoreManager.thy ===== *)
theory CoreManager
  imports LaunchSession DesiredState LogWatch
begin

text \<open>
  The core manager: \<open>core/manager.go\<close>, \<open>core/manager_start.go\<close>,
  \<open>core/manager_startup.go\<close>, \<open>core/manager_takeover.go\<close> and the manager's part of
  \<open>core/runtime_state.go\<close> and \<open>core/desired_state.go\<close>.  The state is the manager's struct
  together with the part of the world it owns.  Every section of code that runs under the
  manager's mutex is one function here; what the operating system answers is an argument.
\<close>

section \<open>State\<close>

text \<open>Commands, controllers, sessions and channels are numbered in order of creation.\<close>

record CoreManager =
  cm_cmd :: "nat option"
  cm_controller :: "nat option"
  cm_launch :: "launchSession option"
  cm_eventHub :: coreEventHub
  cm_isRunning :: bool
  cm_monitoring :: bool
  cm_pidPolling :: bool
  cm_startTime :: "int option"
  cm_pid :: int
  cm_stopChan :: "nat option"
  cm_restartAttempts :: nat

text \<open>
  The world: the state files, the controllers that are open, the sessions whose clean-up
  has not run, the clean-up actions that ran, the closed stop channels, the processes the
  manager stopped or killed, and the next number.
\<close>

record core_world = CoreManager +
  cw_disk :: disk
  cw_controllers :: "nat list"
  cw_sessions :: "nat list"
  cw_cleaned :: "(nat \<times> cleanup_action) list"
  cw_closedChans :: "nat list"
  cw_stopped :: "int list"
  cw_next :: nat

definition NewCoreManager :: "disk \<Rightarrow> core_world" where
  "NewCoreManager d =
    \<lparr>cm_cmd = None, cm_controller = None, cm_launch = None, cm_eventHub = emptyCoreEventHub,
     cm_isRunning = False, cm_monitoring = False, cm_pidPolling = False, cm_startTime = None,
     cm_pid = 0, cm_stopChan = None, cm_restartAttempts = 0, cw_disk = d, cw_controllers = [],
     cw_sessions = [], cw_cleaned = [], cw_closedChans = [], cw_stopped = [], cw_next = 0\<rparr>"

record service =
  sv_host :: host
  sv_profile :: "LaunchProfile codec"
  sv_desired :: "desiredState codec"
  sv_runtime :: "runtimeRecord codec"

definition maxCrashRestarts :: nat where "maxCrashRestarts = 3"

section \<open>Events\<close>

definition view :: "go_time \<Rightarrow> core_world \<Rightarrow> core_view" where
  "view now s = \<lparr>cv_now = now, cv_pid = cm_pid s, cv_running = cm_isRunning s\<rparr>"

definition publish :: "go_time \<Rightarrow> CoreEvent \<Rightarrow> core_world \<Rightarrow> core_world" where
  "publish now e s = s\<lparr>cm_eventHub := publishCoreEvent (view now s) e (cm_eventHub s)\<rparr>"

definition emit :: "go_time \<Rightarrow> core_event_type \<Rightarrow> core_text \<Rightarrow> core_error option \<Rightarrow> core_world \<Rightarrow> core_world" where
  "emit now t m err s = s\<lparr>cm_eventHub := emitCoreEvent (view now s) t m err (cm_eventHub s)\<rparr>"

section \<open>Releasing resources\<close>

definition closeProcessController :: "nat \<Rightarrow> core_world \<Rightarrow> core_world" where
  "closeProcessController c s = s\<lparr>cw_controllers := removeAll c (cw_controllers s)\<rparr>"

definition signalStopLocked :: "core_world \<Rightarrow> core_world" where
  "signalStopLocked s =
    (case cm_stopChan s of None \<Rightarrow> s
     | Some ch \<Rightarrow> s\<lparr>cw_closedChans := ch # cw_closedChans s, cm_stopChan := None\<rparr>)"

text \<open>
  \<open>line\<close> is the unfinished line of the event watcher, which its \<open>Stop\<close> still publishes.
\<close>

definition run_cleanup :: "go_time \<Rightarrow> string \<Rightarrow> nat \<Rightarrow> cleanup_action \<Rightarrow> core_world \<Rightarrow> core_world" where
  "run_cleanup now line sid a s =
    (let s1 = s\<lparr>cw_cleaned := cw_cleaned s @ [(sid, a)]\<rparr>
     in if a = StopWatcher
        then s1\<lparr>cm_eventHub := publishCoreLogEvent (view now s1) line (cm_eventHub s1)\<rparr>
        else s1)"

definition cleanup_session :: "go_time \<Rightarrow> string \<Rightarrow> launchSession \<Rightarrow> core_world \<Rightarrow> core_world" where
  "cleanup_session now line l s =
    (let s1 = fold (run_cleanup now line (ls_id l)) (fst (cleanupNow l)) s
     in s1\<lparr>cw_sessions := removeAll (ls_id l) (cw_sessions s1)\<rparr>)"

record clean_env =
  ce_line :: string
  ce_rm :: "string option"

definition cleanupLocked :: "service \<Rightarrow> go_time \<Rightarrow> clean_env \<Rightarrow> core_world \<Rightarrow> core_world" where
  "cleanupLocked sv now e s =
    (let s1 = (case cm_controller s of None \<Rightarrow> s
               | Some c \<Rightarrow> (closeProcessController c s)\<lparr>cm_controller := None\<rparr>);
         s2 = (case cm_launch s1 of None \<Rightarrow> s1
               | Some l \<Rightarrow> (cleanup_session now (ce_line e) l s1)\<lparr>cm_launch := None\<rparr>);
         s3 = s2\<lparr>cw_disk := removeRuntimeRecord (sv_host sv) (ce_rm e) (cw_disk s2)\<rparr>
     in s3\<lparr>cm_cmd := None, cm_startTime := None, cm_pid := 0, cm_isRunning := False\<rparr>)"

text \<open>\<open>er\<close> is the answer of \<open>controller.Stop\<close>.\<close>

definition stopProcessLocked :: "string option \<Rightarrow> core_world \<Rightarrow> core_error option \<times> core_world" where
  "stopProcessLocked er s =
    (if cm_pid s \<le> 0 \<or> cm_controller s = None then (None, s)
     else (map_option StopFailed er, s\<lparr>cw_stopped := cm_pid s # cw_stopped s\<rparr>))"

section \<open>Waiting for the start\<close>

text \<open>
  The signals that \<open>waitForStartup\<close> selects from, in the order in which they win; the
  deadline of thirty seconds comes last.
\<close>

datatype startup_signal =
    SigReady "string option"
  | SigFatal "startup_error option"
  | SigDone "string option"
  | SigTimeout

fun wait_loop :: "string \<Rightarrow> startup_signal list \<Rightarrow> startup_error option" where
  "wait_loop out [] = Some StartTimedOut"
| "wait_loop out (SigReady err # _) = map_option PostUpFailed err"
| "wait_loop out (SigFatal (Some e) # _) = Some e"
| "wait_loop out (SigFatal None # rest) = wait_loop out rest"
| "wait_loop out (SigDone (Some e) # _) = Some (ExitedBeforeReady e out)"
| "wait_loop out (SigDone None # _) = Some ExitedQuietly"
| "wait_loop out (SigTimeout # _) = Some StartTimedOut"

definition waitForStartup :: "launchSession \<Rightarrow> string \<Rightarrow> startup_signal list \<Rightarrow> startup_error option" where
  "waitForStartup launch out signals =
    (if \<not> ls_waitReady launch then Some NotifyNotInitialised else wait_loop out signals)"

text \<open>
  \<open>hardenLaunchControllerEndpoint\<close>: the results of the attempts before the deadline of two
  seconds, and of the first attempt after it.
\<close>

definition hardenLaunchControllerEndpoint :: "string option list \<times> string option \<Rightarrow> string option" where
  "hardenLaunchControllerEndpoint attempts =
    (if None \<in> set (fst attempts) then None else snd attempts)"

section \<open>Starting\<close>

record start_env =
  st_prepare :: prepare_env
  st_command :: "string option"
  st_spawn :: "(string, int) result"
  st_attach :: "string option"
  st_signals :: "startup_signal list"
  st_errOutput :: string
  st_harden :: "string option list \<times> string option"
  st_stop :: "string option"
  st_clean :: clean_env
  st_procs :: proc_table
  st_record :: write_env
  st_persist :: write_env

text \<open>The common end of the failures before the process is under management.\<close>

definition fail_early ::
    "go_time \<Rightarrow> start_env \<Rightarrow> nat \<Rightarrow> launchSession \<Rightarrow> core_error \<Rightarrow> core_world \<Rightarrow> core_error option \<times> core_world" where
  "fail_early now e c launch err s =
    (let s1 = cleanup_session now (ce_line (st_clean e)) launch (closeProcessController c s);
         s2 = signalStopLocked (s1\<lparr>cm_monitoring := False\<rparr>)
     in (Some err, emit now CoreEventFailed MsgStartFailed (Some err) (s2\<lparr>cm_isRunning := False\<rparr>)))"

text \<open>The common end of the failures after that.\<close>

definition fail_late ::
    "service \<Rightarrow> go_time \<Rightarrow> start_env \<Rightarrow> core_error \<Rightarrow> core_world \<Rightarrow> core_error option \<times> core_world" where
  "fail_late sv now e err s =
    (let s1 = snd (stopProcessLocked (st_stop e) s);
         s2 = signalStopLocked (s1\<lparr>cm_monitoring := False\<rparr>);
         s3 = cleanupLocked sv now (st_clean e) s2
     in (Some err, emit now CoreEventFailed MsgStartFailed (Some err) s3))"

definition startProcessLocked ::
    "service \<Rightarrow> go_time \<Rightarrow> start_env \<Rightarrow> LaunchProfile option \<Rightarrow> fileAccess \<Rightarrow> core_world
     \<Rightarrow> core_error option \<times> core_world" where
  "startProcessLocked sv now e profile access s =
    (let sid = cw_next s; s0 = s\<lparr>cw_next := cw_next s + 1\<rparr> in
    (case prepareLaunchSession (sv_host sv) (sv_profile sv) (st_prepare e) sid profile access (cw_disk s) of
       (Inl er, cleaned) \<Rightarrow>
         (let s1 = s0\<lparr>cw_cleaned := cw_cleaned s0 @ map (Pair sid) cleaned, cm_monitoring := False\<rparr>;
              s2 = (signalStopLocked s1)\<lparr>cm_isRunning := False\<rparr>
          in (Some (LaunchFailed er), emit now CoreEventFailed MsgStartFailed (Some (LaunchFailed er)) s2))
     | (Inr launch, _) \<Rightarrow>
         (let c = cw_next s0;
              s1 = s0\<lparr>cw_next := c + 1, cw_sessions := sid # cw_sessions s0,
                      cw_controllers := c # cw_controllers s0\<rparr> in
          (case st_command e of
             Some er \<Rightarrow>
               fail_early now e c launch (CommandFailed er) (run_cleanup now [] sid CloseLog s1)
           | None \<Rightarrow>
               (let launch1 = addCleanup StopWatcher (addCleanup CloseLog (addCleanup CleanCommand launch)) in
                (case st_spawn e of
                   Inl er \<Rightarrow> fail_early now e c launch1 (StartFailed er) s1
                 | Inr pid \<Rightarrow>
                    (case st_attach e of
                       Some er \<Rightarrow> fail_early now e c launch1 (AttachFailed er) (s1\<lparr>cw_stopped := pid # cw_stopped s1\<rparr>)
                     | None \<Rightarrow>
                         (let cmd = cw_next s1;
                              s2 = s1\<lparr>cw_next := cmd + 1, cm_cmd := Some cmd, cm_controller := Some c,
                                      cm_launch := Some launch1, cm_pid := pid, cm_startTime := Some (wall now)\<rparr> in
                          (case waitForStartup launch1 (st_errOutput e) (st_signals e) of
                             Some er \<Rightarrow> fail_late sv now e (StartupFailed er) s2
                           | None \<Rightarrow>
                          (case hardenLaunchControllerEndpoint (st_harden e) of
                             Some er \<Rightarrow> fail_late sv now e (HardenFailed er) s2
                           | None \<Rightarrow>
                             (let s3 = s2\<lparr>cm_monitoring := True\<rparr>;
                                  d = snd (writeRuntimeRecord (sv_host sv) (sv_runtime sv) (st_record e) (st_procs e)
                                        pid (ls_executablePath launch1) (ls_controllerNet launch1)
                                        (ls_controllerAddr launch1) (ls_profile launch1) (cw_disk s3))
                              in (None, emit now CoreEventStarted MsgStarted None (s3\<lparr>cw_disk := d\<rparr>)))))))))))))"

definition startCoreLocked ::
    "service \<Rightarrow> go_time \<Rightarrow> start_env \<Rightarrow> LaunchProfile option \<Rightarrow> fileAccess \<Rightarrow> core_world
     \<Rightarrow> core_error option \<times> core_world" where
  "startCoreLocked sv now e profile access s =
    (if cm_isRunning s then (Some AlreadyRunning, s)
     else
       let s1 = emit now CoreEventStarting MsgStarting None (s\<lparr>cm_isRunning := True\<rparr>);
           s2 = s1\<lparr>cm_stopChan := Some (cw_next s1), cw_next := cw_next s1 + 1\<rparr>
       in (case startProcessLocked sv now e profile access s2 of
             (Some er, s3) \<Rightarrow> (Some er, s3)
           | (None, s3) \<Rightarrow>
               (case cm_launch s3 of None \<Rightarrow> (None, s3)
                | Some l \<Rightarrow>
                    (None, s3\<lparr>cw_disk := snd (persistDesiredState (sv_host sv) (sv_desired sv) (st_persist e)
                             (wall now) True (ls_profile l) (cw_disk s3))\<rparr>))))"

section \<open>Stopping and restarting\<close>

record stop_env =
  sp_stop :: "string option"
  sp_clean :: clean_env
  sp_persist :: write_env

definition idle :: "core_world \<Rightarrow> bool" where
  "idle s \<longleftrightarrow> cm_pid s = 0 \<and> cm_controller s = None \<and> cm_launch s = None \<and> \<not> cm_isRunning s"

definition clearDesired :: "service \<Rightarrow> go_time \<Rightarrow> write_env \<Rightarrow> core_world \<Rightarrow> core_world" where
  "clearDesired sv now we s =
    s\<lparr>cw_disk := snd (clearDesiredState (sv_host sv) (sv_desired sv) we (wall now) (cw_disk s))\<rparr>"

definition stopCoreLocked :: "service \<Rightarrow> go_time \<Rightarrow> stop_env \<Rightarrow> core_world \<Rightarrow> core_error option \<times> core_world" where
  "stopCoreLocked sv now e s =
    (if idle s then (None, clearDesired sv now (sp_persist e) s)
     else
       let s1 = emit now CoreEventStopping MsgStopping None s;
           s2 = signalStopLocked (s1\<lparr>cm_monitoring := False\<rparr>)
       in (case stopProcessLocked (sp_stop e) s2 of
             (stopErr, s3) \<Rightarrow>
               let s4 = clearDesired sv now (sp_persist e) (cleanupLocked sv now (sp_clean e) s3)
               in (case stopErr of Some er \<Rightarrow> (Some er, s4)
                   | None \<Rightarrow> (None, emit now CoreEventStopped MsgStopped None s4))))"

definition RestartCoreWithProfile ::
    "service \<Rightarrow> go_time \<Rightarrow> stop_env \<Rightarrow> start_env \<Rightarrow> LaunchProfile option \<Rightarrow> fileAccess \<Rightarrow> core_world
     \<Rightarrow> core_error option \<times> core_world" where
  "RestartCoreWithProfile sv now e1 e2 profile access s =
    startCoreLocked sv now e2 profile access
      (snd (stopCoreLocked sv now e1 (emit now CoreEventRestarting MsgRestarting None s)))"

section \<open>Changing the profile of a running core\<close>

text \<open>
  The settings handed to the log writer's \<open>Update\<close> are the second component;
  \<open>aff\<close> is the answer of \<open>process.SetCPUAffinity\<close>.
\<close>

definition ApplyLaunchProfile ::
    "string option \<Rightarrow> LaunchProfile \<Rightarrow> fileAccess \<Rightarrow> core_world
     \<Rightarrow> core_error option \<times> coreLogSettings option \<times> core_world" where
  "ApplyLaunchProfile aff profile access s =
    (case cm_launch s of None \<Rightarrow> (None, None, s)
     | Some l \<Rightarrow>
        (if cm_isRunning s \<and> cm_pid s > 0 \<and> CPUAffinity (ls_profile l) \<noteq> CPUAffinity profile \<and> aff \<noteq> None
         then (map_option AffinityFailed aff, None, s)
         else
           let acc = (if fa_ok access then access else ls_fileAccess l);
               settings = coreLogSettingsFromProfile profile acc;
               l1 = l\<lparr>ls_profile := (ls_profile l)\<lparr>LogPath := LogPath profile, SaveLogs := SaveLogs profile,
                         MaxLogFileSizeMB := MaxLogFileSizeMB profile, CPUAffinity := CPUAffinity profile\<rparr>,
                      ls_fileAccess := cls_access settings, ls_logPath := cls_path settings,
                      ls_saveLogs := cls_saveLogs settings, ls_maxLogBytes := cls_maxBytes settings\<rparr>
           in (None, Some settings, s\<lparr>cm_launch := Some l1\<rparr>)))"

definition ControllerEndpoint :: "core_world \<Rightarrow> (core_error, string \<times> string) result" where
  "ControllerEndpoint s =
    (case cm_launch s of None \<Rightarrow> Inl ControllerUninitialised
     | Some l \<Rightarrow>
        if ls_controllerNet l = [] \<or> ls_controllerAddr l = [] then Inl ControllerUninitialised
        else Inr (ls_controllerNet l, ls_controllerAddr l))"

section \<open>Process exits\<close>

datatype exit_error = ExitErr int | OtherErr string

definition processExitReason :: "exit_error option \<Rightarrow> string \<Rightarrow> string" where
  "processExitReason err output =
    (if contains (ToLower output) ''panic:'' then ''panic''
     else case err of None \<Rightarrow> ''normal''
     | Some (OtherErr _) \<Rightarrow> ''abnormal''
     | Some (ExitErr code) \<Rightarrow> if code = 0 then ''normal'' else if code < 0 then ''signal'' else ''exit_error'')"

definition exit_message :: "string \<Rightarrow> core_text" where
  "exit_message reason =
    (if reason = ''panic'' then MsgPanicked else if reason = ''signal'' then MsgSignalled
     else if reason = ''exit_error'' then MsgExitedWithError else MsgExitedNormally)"

definition exit_core_error :: "exit_error \<Rightarrow> core_error" where
  "exit_core_error e = (case e of ExitErr n \<Rightarrow> ExitStatus n | OtherErr t \<Rightarrow> WaitFailed t)"

text \<open>
  The first part of \<open>monitorProcess\<close>, up to the published event; the result says whether
  the exit was a crash, or that the monitor returns at once.
\<close>

definition monitorProcess ::
    "go_time \<Rightarrow> nat \<Rightarrow> int \<Rightarrow> exit_error option \<Rightarrow> string \<Rightarrow> core_world \<Rightarrow> bool option \<times> core_world" where
  "monitorProcess now cmd pid err output s =
    (if \<not> cm_monitoring s \<or> cm_cmd s \<noteq> Some cmd then (None, s)
     else
       let reason = processExitReason err output
       in (Some (reason = ''panic'' \<or> reason = ''signal''),
           publish now (newCoreEvent (view now s) CoreEventExited (exit_message reason)
             (map_option exit_core_error err) pid 0) s))"

definition finishExpectedProcessExit ::
    "service \<Rightarrow> go_time \<Rightarrow> clean_env \<Rightarrow> write_env \<Rightarrow> nat \<Rightarrow> core_world \<Rightarrow> core_world" where
  "finishExpectedProcessExit sv now ce we cmd s =
    (if cm_cmd s \<noteq> Some cmd then s
     else clearDesired sv now we (cleanupLocked sv now ce (signalStopLocked (s\<lparr>cm_monitoring := False\<rparr>))))"

text \<open>
  The locked part of \<open>handleProcessExit\<close>; the first component is the profile that the
  restart goroutine gets, if one is started.
\<close>

definition handleProcessExit ::
    "service \<Rightarrow> go_time \<Rightarrow> clean_env \<Rightarrow> core_world \<Rightarrow> (LaunchProfile \<times> fileAccess) option \<times> core_world" where
  "handleProcessExit sv now ce s =
    (if idle s then (None, s)
     else
       let restart = (case cm_launch s of None \<Rightarrow> (zeroProfile, \<lparr>fa_groupID = 0, fa_ok = False\<rparr>)
                      | Some l \<Rightarrow> (ls_profile l, ls_fileAccess l));
           s1 = s\<lparr>cm_restartAttempts := cm_restartAttempts s + 1\<rparr>;
           finish = (\<lambda>t m. cleanupLocked sv now ce (signalStopLocked ((emit now t m None s1)\<lparr>cm_monitoring := False\<rparr>)))
       in if cm_restartAttempts s1 > maxCrashRestarts
          then (None, finish CoreEventRestartFailed MsgCrashLimit)
          else (Some restart, finish CoreEventRestarting MsgCrashRestarting))"

text \<open>
  The goroutine of a crash restart, when nothing interferes: at most three attempts, each
  with its own answers, and a final event if all fail.
\<close>

fun restart_attempts ::
    "service \<Rightarrow> LaunchProfile \<Rightarrow> fileAccess \<Rightarrow> (go_time \<times> start_env) list \<Rightarrow> core_world \<Rightarrow> bool \<times> core_world" where
  "restart_attempts sv profile access [] s = (False, s)"
| "restart_attempts sv profile access ((now, e) # es) s =
    (case startCoreLocked sv now e (Some profile) access s of
       (None, s') \<Rightarrow> (True, s')
     | (Some _, s') \<Rightarrow> restart_attempts sv profile access es s')"

definition restart_goroutine ::
    "service \<Rightarrow> go_time \<Rightarrow> LaunchProfile \<Rightarrow> fileAccess \<Rightarrow> (go_time \<times> start_env) list \<Rightarrow> core_world \<Rightarrow> core_world" where
  "restart_goroutine sv now profile access es s =
    (case restart_attempts sv profile access (take 3 es) s of
       (True, s') \<Rightarrow> s'
     | (False, s') \<Rightarrow> emit now CoreEventRestartFailed MsgRestartFailed (Some RetriesExhausted) s')"

text \<open>\<open>restartBackoff\<close>, in nanoseconds.\<close>

definition restartBackoff :: "int \<Rightarrow> int" where
  "restartBackoff attempt =
    (if attempt \<le> 0 then 0
     else let delay = nanos_per_second * 2 ^ nat (min (attempt - 1) 5)
          in if delay > 30 * nanos_per_second then 30 * nanos_per_second else delay)"

end
