(* ===== verification/CoreTakeover.thy ===== *)
theory CoreTakeover
  imports CoreManager
begin

text \<open>
  How the manager finds and adopts a core it did not start itself:
  \<open>core/manager_takeover.go\<close>, the notification and polling loops of
  \<open>core/manager.go\<close>, and \<open>ReconcileRuntimeState\<close>, \<open>adoptRuntimeRecord\<close> and
  \<open>RestoreDesiredState\<close>.
\<close>

section \<open>Finding the process\<close>

definition isCoreProcessCandidate :: "proc_table \<Rightarrow> int \<Rightarrow> launchSession \<Rightarrow> bool" where
  "isCoreProcessCandidate procs pid launch =
    (case procs pid of Inl _ \<Rightarrow> False
     | Inr proc \<Rightarrow>
        (case pi_name proc of
           Inr name \<Rightarrow> ToLower name = ToLower (Base (ls_executablePath launch))
         | Inl _ \<Rightarrow> False) \<or>
        (case pi_exe proc of Inr exe \<Rightarrow> EqualFold exe (ls_executablePath launch) | Inl _ \<Rightarrow> False))"

definition create_time :: "proc_table \<Rightarrow> int \<Rightarrow> int" where
  "create_time procs pid =
    (case procs pid of Inl _ \<Rightarrow> 0 | Inr proc \<Rightarrow> (case pi_create proc of Inl _ \<Rightarrow> 0 | Inr t \<Rightarrow> t))"

fun find_best :: "proc_table \<Rightarrow> int \<Rightarrow> launchSession \<Rightarrow> int \<times> int \<Rightarrow> int list \<Rightarrow> int \<times> int" where
  "find_best procs oldPID launch best [] = best"
| "find_best procs oldPID launch (bestPID, bestTime) (pid # pids) =
    (if pid \<le> 0 \<or> pid = oldPID \<or> \<not> isCoreProcessCandidate procs pid launch
     then find_best procs oldPID launch (bestPID, bestTime) pids
     else if bestPID = 0 \<or> create_time procs pid \<ge> bestTime
     then find_best procs oldPID launch (pid, create_time procs pid) pids
     else find_best procs oldPID launch (bestPID, bestTime) pids)"

definition findManagedCorePID ::
    "proc_table \<Rightarrow> (string, int list) result \<Rightarrow> int \<Rightarrow> launchSession \<Rightarrow> int option" where
  "findManagedCorePID procs pids oldPID launch =
    (case pids of Inl _ \<Rightarrow> None
     | Inr ps \<Rightarrow> (let best = fst (find_best procs oldPID launch (0, 0) ps)
                  in if best \<noteq> 0 then Some best else None))"

definition updateStartTimeFromPIDLocked :: "go_time \<Rightarrow> proc_table \<Rightarrow> int \<Rightarrow> core_world \<Rightarrow> core_world" where
  "updateStartTimeFromPIDLocked now procs pid s =
    s\<lparr>cm_startTime := Some
        (case procs pid of Inl _ \<Rightarrow> wall now
         | Inr proc \<Rightarrow> (case pi_create proc of Inl _ \<Rightarrow> wall now | Inr t \<Rightarrow> t * nanos_per_milli))\<rparr>"

definition startPIDPollingLocked :: "core_world \<Rightarrow> core_world" where
  "startPIDPollingLocked s =
    (if cm_stopChan s = None \<or> cm_pidPolling s then s else s\<lparr>cm_pidPolling := True\<rparr>)"

section \<open>Taking over a restarted process\<close>

text \<open>
  The first locked part of a round: what the manager holds, if the round may go on.
\<close>

definition takeover_begin :: "core_world \<Rightarrow> (int \<times> nat \<times> launchSession) option" where
  "takeover_begin s =
    (case (cm_controller s, cm_launch s) of
       (Some c, Some l) \<Rightarrow> if cm_monitoring s \<and> cm_isRunning s then Some (cm_pid s, c, l) else None
     | _ \<Rightarrow> None)"

text \<open>
  The second locked part with what follows it, once a process was found and hardened.
\<close>

definition takeover_commit ::
    "service \<Rightarrow> go_time \<Rightarrow> proc_table \<Rightarrow> write_env \<Rightarrow> int \<Rightarrow> int \<Rightarrow> nat \<Rightarrow> launchSession \<Rightarrow> core_world
     \<Rightarrow> bool \<times> core_world" where
  "takeover_commit sv now procs we oldPID newPID controller launch s =
    (if cm_monitoring s \<and> cm_controller s = Some controller
     then
       let s1 = startPIDPollingLocked (updateStartTimeFromPIDLocked now procs newPID
                  (s\<lparr>cm_cmd := None, cm_pid := newPID\<rparr>));
           d = snd (writeRuntimeRecord (sv_host sv) (sv_runtime sv) we procs newPID (ls_executablePath launch)
                 (ls_controllerNet launch) (ls_controllerAddr launch) (ls_profile launch) (cw_disk s1));
           s2 = s1\<lparr>cw_disk := d\<rparr>
       in (True, publish now (newCoreEvent (view now s2) CoreEventTakeover MsgTakenOver None newPID oldPID) s2)
     else (False, s))"

text \<open>
  \<open>takeoverRestartedProcess\<close> when nothing interferes: one entry per round until the
  deadline, with the answers for the process group, the hardening of the binary and of the
  endpoint.  A failed hardening stops the process that was found.
\<close>

record takeover_round =
  tr_procs :: proc_table
  tr_pids :: "(string, int list) result"
  tr_secure :: "string option"
  tr_harden :: "string option list \<times> string option"
  tr_record :: write_env
  tr_now :: go_time

fun takeoverRestartedProcess :: "service \<Rightarrow> takeover_round list \<Rightarrow> core_world \<Rightarrow> bool \<times> core_world" where
  "takeoverRestartedProcess sv [] s = (False, s)"
| "takeoverRestartedProcess sv (r # rs) s =
    (case takeover_begin s of None \<Rightarrow> (False, s)
     | Some (oldPID, controller, launch) \<Rightarrow>
        (case findManagedCorePID (tr_procs r) (tr_pids r) oldPID launch of
           None \<Rightarrow> takeoverRestartedProcess sv rs s
         | Some newPID \<Rightarrow>
             if tr_secure r \<noteq> None \<or> hardenLaunchControllerEndpoint (tr_harden r) \<noteq> None
             then (False, s\<lparr>cw_stopped := newPID # cw_stopped s\<rparr>)
             else takeover_commit sv (tr_now r) (tr_procs r) (tr_record r) oldPID newPID controller launch s))"

section \<open>Notifications and polling\<close>

text \<open>\<open>handleStartupNotification\<close>: its first locked part, and the rest with its commit.\<close>

definition notification_begin :: "launchSession \<Rightarrow> core_world \<Rightarrow> (int \<times> nat option) option" where
  "notification_begin launch s =
    (if \<not> cm_monitoring s \<or> \<not> cm_isRunning s \<or> map_option ls_id (cm_launch s) \<noteq> Some (ls_id launch)
     then None else Some (cm_pid s, cm_controller s))"

definition notification_pid ::
    "proc_table \<Rightarrow> (string, int list) result \<Rightarrow> int \<Rightarrow> nat option \<Rightarrow> launchSession \<Rightarrow> int" where
  "notification_pid procs pids oldPID controller launch =
    (case controller of None \<Rightarrow> oldPID
     | Some _ \<Rightarrow> (case findManagedCorePID procs pids oldPID launch of None \<Rightarrow> oldPID | Some p \<Rightarrow> p))"

definition notification_commit ::
    "service \<Rightarrow> go_time \<Rightarrow> proc_table \<Rightarrow> write_env \<Rightarrow> int \<Rightarrow> int \<Rightarrow> nat option \<Rightarrow> launchSession \<Rightarrow> core_world
     \<Rightarrow> core_world" where
  "notification_commit sv now procs we oldPID newPID controller launch s =
    (if \<not> cm_monitoring s \<or> map_option ls_id (cm_launch s) \<noteq> Some (ls_id launch) \<or> cm_controller s \<noteq> controller
     then s
     else if newPID \<noteq> oldPID
     then
       let s1 = startPIDPollingLocked (updateStartTimeFromPIDLocked now procs newPID
                  (s\<lparr>cm_cmd := None, cm_pid := newPID\<rparr>));
           d = snd (writeRuntimeRecord (sv_host sv) (sv_runtime sv) we procs newPID (ls_executablePath launch)
                 (ls_controllerNet launch) (ls_controllerAddr launch) (ls_profile launch) (cw_disk s1));
           s2 = s1\<lparr>cw_disk := d\<rparr>
       in publish now (newCoreEvent (view now s2) CoreEventTakeover MsgTakenOver None newPID oldPID) s2
     else publish now (newCoreEvent (view now s) CoreEventReady MsgReadyAgain None newPID 0) s)"

text \<open>
  One tick of \<open>monitorPID\<close>: whether the loop ends, and whether it calls
  \<open>handleProcessExit\<close>.  \<open>exists\<close> is the answer of \<open>process.Exists\<close>.
\<close>

datatype poll_result = PollEnd | PollWait | PollGone

definition monitorPID :: "(string, bool) result \<Rightarrow> core_world \<Rightarrow> poll_result" where
  "monitorPID exists s =
    (if \<not> cm_monitoring s then PollEnd
     else if cm_pid s \<le> 0 then PollWait
     else case exists of Inl _ \<Rightarrow> PollWait
     | Inr b \<Rightarrow> if \<not> b \<and> cm_isRunning s then PollGone else PollWait)"

section \<open>Adopting a core after a restart of the service\<close>

definition adoptRuntimeRecord ::
    "string option \<Rightarrow> int list \<Rightarrow> runtimeRecord \<Rightarrow> core_world \<Rightarrow> core_error option \<times> core_world" where
  "adoptRuntimeRecord attach affinity r s =
    (let c = cw_next s; s0 = s\<lparr>cw_next := c + 1, cw_controllers := c # cw_controllers s\<rparr>
     in case attach of Some er \<Rightarrow> (Some (AttachFailed er), s0)
        | None \<Rightarrow>
           let sid = cw_next s0; ch = cw_next s0 + 1;
               l = \<lparr>ls_id = sid, ls_sourcePath = rr_Executable r, ls_executablePath = rr_Executable r,
                    ls_workingDir = [], ls_args = [], ls_env = [], ls_hookUpFile = [], ls_waitReady = False,
                    ls_readyNotify = False, ls_cpuPriority = [], ls_logPath = [], ls_saveLogs = False,
                    ls_maxLogBytes = 0, ls_fileAccess = \<lparr>fa_groupID = 0, fa_ok = False\<rparr>,
                    ls_controllerNet = rr_ControllerNet r, ls_controllerAddr = rr_ControllerAddr r,
                    ls_defaultCPUAffinity = affinity, ls_profile = rr_Profile r, ls_cleanup = []\<rparr>
           in (None, startPIDPollingLocked
                (s0\<lparr>cm_controller := Some c, cm_launch := Some l, cm_cmd := None, cm_pid := rr_PID r,
                    cm_startTime := Some (rr_StartTime r * nanos_per_milli), cm_stopChan := Some ch,
                    cm_isRunning := True, cm_monitoring := True, cw_next := ch + 1,
                    cw_sessions := sid # cw_sessions s0\<rparr>)))"

record reconcile_env =
  re_procs :: proc_table
  re_reachable :: bool
  re_attach :: "string option"
  re_affinity :: "int list"
  re_terminate :: "string option"
  re_exists :: "(string, bool) result list"
  re_rm :: "string option"

definition record_matches :: "proc_table \<Rightarrow> runtimeRecord \<Rightarrow> bool" where
  "record_matches procs r =
    (case procs (rr_PID r) of Inl _ \<Rightarrow> False
     | Inr proc \<Rightarrow> pi_create proc = Inr (rr_StartTime r) \<and> pi_exe proc = Inr (rr_Executable r))"

definition ReconcileRuntimeState ::
    "service \<Rightarrow> reconcile_env \<Rightarrow> core_world \<Rightarrow> core_error option \<times> core_world" where
  "ReconcileRuntimeState sv e s =
    (let w = sv_host sv; forget = (\<lambda>x. x\<lparr>cw_disk := removeRuntimeRecord w (re_rm e) (cw_disk x)\<rparr>)
     in case cw_disk s (runtimeRecordPath w) of
       Absent \<Rightarrow> (None, s)
     | Unreadable \<Rightarrow> (Some StateReadFailed, s)
     | Content data \<Rightarrow>
        (case unmarshal (sv_runtime sv) data of
           Inl _ \<Rightarrow> (None, forget s)
         | Inr r \<Rightarrow>
             if \<not> record_matches (re_procs e) r then (None, forget s)
             else
               let adopt = (if rr_ControllerNet r \<noteq> [] \<and> rr_ControllerAddr r \<noteq> [] \<and> re_reachable e
                            then adoptRuntimeRecord (re_attach e) (re_affinity e) r s
                            else (Some NotRunning, s))
               in (case adopt of
                     (None, s1) \<Rightarrow> (None, s1)
                   | (Some _, s1) \<Rightarrow>
                       (case re_terminate e of
                          Some er \<Rightarrow> (Some (StaleTerminateFailed er), s1)
                        | None \<Rightarrow>
                            let s2 = s1\<lparr>cw_stopped := rr_PID r # cw_stopped s1\<rparr>
                            in if Inr False \<in> set (re_exists e) then (None, forget s2)
                               else (Some (StaleExitTimedOut (rr_PID r)), s2)))))"

definition RestoreDesiredState ::
    "service \<Rightarrow> go_time \<Rightarrow> string \<Rightarrow> string option \<Rightarrow> start_env \<Rightarrow> core_world \<Rightarrow> core_error option \<times> core_world" where
  "RestoreDesiredState sv now stamp mv e s =
    (case loadDesiredState (sv_host sv) (sv_desired sv) stamp mv (cw_disk s) of
       (Inl er, d) \<Rightarrow> (Some er, s\<lparr>cw_disk := d\<rparr>)
     | (Inr st, d) \<Rightarrow>
        let s1 = s\<lparr>cw_disk := d\<rparr>
        in if \<not> CoreShouldBeRunning st then (None, s1)
           else (case startCoreLocked sv now e (Some (ds_Profile st)) \<lparr>fa_groupID = 0, fa_ok = False\<rparr> s1 of
                   (None, s2) \<Rightarrow> (None, s2)
                 | (Some er, s2) \<Rightarrow> (Some (RestoreFailed er), s2)))"

section \<open>Lemmas\<close>

lemma find_best_sound:
  assumes "fst best = 0 \<or> fst best > 0 \<and> fst best \<noteq> oldPID \<and> isCoreProcessCandidate procs (fst best) launch \<and>
      snd best = create_time procs (fst best)"
    and "find_best procs oldPID launch best pids = (p, t)"
  shows "p = 0 \<and> fst best = 0 \<or>
    p > 0 \<and> p \<noteq> oldPID \<and> isCoreProcessCandidate procs p launch \<and> t = create_time procs p \<and>
    (p \<in> set pids \<or> p = fst best)"
  using assms
proof (induction procs oldPID launch best pids rule: find_best.induct)
  case (2 procs oldPID launch bestPID bestTime pid pids)
  show ?case
  proof (cases "pid \<le> 0 \<or> pid = oldPID \<or> \<not> isCoreProcessCandidate procs pid launch")
    case True
    then show ?thesis using "2.IH"(1) "2.prems" by auto
  next
    case False
    then show ?thesis
      using "2.IH"(2,3) "2.prems" by (cases "bestPID = 0 \<or> create_time procs pid \<ge> bestTime") auto
  qed
qed auto

lemma findManagedCorePID_sound:
  assumes "findManagedCorePID procs pids oldPID launch = Some p"
  shows "p > 0 \<and> p \<noteq> oldPID \<and> isCoreProcessCandidate procs p launch \<and> (\<exists>ps. pids = Inr ps \<and> p \<in> set ps)"
proof -
  obtain ps where ps: "pids = Inr ps" and b: "fst (find_best procs oldPID launch (0, 0) ps) = p" "p \<noteq> 0"
    using assms by (auto simp: findManagedCorePID_def Let_def split: sum.splits if_splits)
  obtain t where "find_best procs oldPID launch (0, 0) ps = (p, t)" using b(1) by (metis prod.collapse)
  from find_best_sound [OF _ this] b(2) ps show ?thesis by auto
qed

lemma find_best_latest:
  assumes "find_best procs oldPID launch (b, bt) pids = (p, t)"
  shows "(b \<noteq> 0 \<longrightarrow> bt \<le> t) \<and>
    (\<forall>q\<in>set pids. q > 0 \<and> q \<noteq> oldPID \<and> isCoreProcessCandidate procs q launch \<longrightarrow> create_time procs q \<le> t)"
  using assms
proof (induction pids arbitrary: b bt)
  case (Cons pid pids)
  let ?ct = "create_time procs pid"
  show ?case
  proof (cases "pid \<le> 0 \<or> pid = oldPID \<or> \<not> isCoreProcessCandidate procs pid launch")
    case True
    then have "find_best procs oldPID launch (b, bt) pids = (p, t)" using Cons.prems by auto
    from Cons.IH [OF this] True show ?thesis by auto
  next
    case cand: False
    then have pos: "pid \<noteq> 0" by auto
    show ?thesis
    proof (cases "b = 0 \<or> ?ct \<ge> bt")
      case True
      then have "find_best procs oldPID launch (pid, ?ct) pids = (p, t)" using Cons.prems cand by auto
      from Cons.IH [OF this] True pos show ?thesis by auto
    next
      case False
      then have "find_best procs oldPID launch (b, bt) pids = (p, t)" using Cons.prems cand by auto
      from Cons.IH [OF this] False show ?thesis by auto
    qed
  qed
qed auto

lemma find_best_nonzero: "b \<noteq> 0 \<Longrightarrow> fst (find_best procs oldPID launch (b, bt) pids) \<noteq> 0"
  by (induction pids arbitrary: b bt) auto

lemma find_best_some:
  "q \<in> set pids \<Longrightarrow> q > 0 \<Longrightarrow> q \<noteq> oldPID \<Longrightarrow> isCoreProcessCandidate procs q launch \<Longrightarrow>
    fst (find_best procs oldPID launch (b, bt) pids) \<noteq> 0"
proof (induction pids arbitrary: b bt)
  case (Cons pid pids)
  show ?case
  proof (cases "q = pid")
    case True
    then show ?thesis using Cons.prems find_best_nonzero [of _ procs oldPID launch _ pids] by auto
  qed (use Cons in auto)
qed simp

end
