(* ===== verification/CoreInvariant.thy ===== *)
theory CoreInvariant
  imports CoreTakeover
begin

text \<open>
  The invariant of the core manager and its preservation by every operation, in every
  interleaving of the locked sections.
\<close>

section \<open>What the operations leave alone\<close>

lemma emit_frame [simp]:
  "cm_cmd (emit now t m err s) = cm_cmd s" "cm_controller (emit now t m err s) = cm_controller s"
  "cm_launch (emit now t m err s) = cm_launch s" "cm_isRunning (emit now t m err s) = cm_isRunning s"
  "cm_monitoring (emit now t m err s) = cm_monitoring s" "cm_pid (emit now t m err s) = cm_pid s"
  "cm_stopChan (emit now t m err s) = cm_stopChan s" "cm_pidPolling (emit now t m err s) = cm_pidPolling s"
  "cm_restartAttempts (emit now t m err s) = cm_restartAttempts s" "cw_disk (emit now t m err s) = cw_disk s"
  "cw_controllers (emit now t m err s) = cw_controllers s" "cw_sessions (emit now t m err s) = cw_sessions s"
  "cw_cleaned (emit now t m err s) = cw_cleaned s" "cw_closedChans (emit now t m err s) = cw_closedChans s"
  "cw_stopped (emit now t m err s) = cw_stopped s" "cw_next (emit now t m err s) = cw_next s"
  by (simp_all add: emit_def)

lemma publish_frame [simp]:
  "cm_cmd (publish now e s) = cm_cmd s" "cm_controller (publish now e s) = cm_controller s"
  "cm_launch (publish now e s) = cm_launch s" "cm_isRunning (publish now e s) = cm_isRunning s"
  "cm_monitoring (publish now e s) = cm_monitoring s" "cm_pid (publish now e s) = cm_pid s"
  "cm_stopChan (publish now e s) = cm_stopChan s"
  "cm_restartAttempts (publish now e s) = cm_restartAttempts s"
  "cw_controllers (publish now e s) = cw_controllers s" "cw_sessions (publish now e s) = cw_sessions s"
  "cw_cleaned (publish now e s) = cw_cleaned s" "cw_closedChans (publish now e s) = cw_closedChans s"
  "cw_stopped (publish now e s) = cw_stopped s" "cw_next (publish now e s) = cw_next s"
  by (simp_all add: publish_def)

lemma run_cleanup_frame [simp]:
  "cm_cmd (run_cleanup now line sid a s) = cm_cmd s" "cm_controller (run_cleanup now line sid a s) = cm_controller s"
  "cm_launch (run_cleanup now line sid a s) = cm_launch s" "cm_isRunning (run_cleanup now line sid a s) = cm_isRunning s"
  "cm_monitoring (run_cleanup now line sid a s) = cm_monitoring s" "cm_pid (run_cleanup now line sid a s) = cm_pid s"
  "cm_stopChan (run_cleanup now line sid a s) = cm_stopChan s"
  "cm_restartAttempts (run_cleanup now line sid a s) = cm_restartAttempts s"
  "cw_disk (run_cleanup now line sid a s) = cw_disk s"
  "cw_controllers (run_cleanup now line sid a s) = cw_controllers s" "cw_sessions (run_cleanup now line sid a s) = cw_sessions s"
  "cw_closedChans (run_cleanup now line sid a s) = cw_closedChans s"
  "cw_stopped (run_cleanup now line sid a s) = cw_stopped s" "cw_next (run_cleanup now line sid a s) = cw_next s"
  "cw_cleaned (run_cleanup now line sid a s) = cw_cleaned s @ [(sid, a)]"
  by (simp_all add: run_cleanup_def Let_def)

lemma fold_keeps: "(\<And>a t. f (g a t) = f t) \<Longrightarrow> f (fold g as s) = f s"
  by (induction as arbitrary: s) simp_all

lemma fold_cleaned: "cw_cleaned (fold (run_cleanup now line sid) as s) = cw_cleaned s @ map (Pair sid) as"
  by (induction as arbitrary: s) simp_all

lemma cleanup_session_frame [simp]:
  "cm_cmd (cleanup_session now line l s) = cm_cmd s" "cm_controller (cleanup_session now line l s) = cm_controller s"
  "cm_launch (cleanup_session now line l s) = cm_launch s" "cm_isRunning (cleanup_session now line l s) = cm_isRunning s"
  "cm_monitoring (cleanup_session now line l s) = cm_monitoring s" "cm_pid (cleanup_session now line l s) = cm_pid s"
  "cm_stopChan (cleanup_session now line l s) = cm_stopChan s"
  "cm_restartAttempts (cleanup_session now line l s) = cm_restartAttempts s"
  "cw_disk (cleanup_session now line l s) = cw_disk s"
  "cw_controllers (cleanup_session now line l s) = cw_controllers s"
  "cw_closedChans (cleanup_session now line l s) = cw_closedChans s"
  "cw_stopped (cleanup_session now line l s) = cw_stopped s" "cw_next (cleanup_session now line l s) = cw_next s"
  "cw_sessions (cleanup_session now line l s) = removeAll (ls_id l) (cw_sessions s)"
  "cw_cleaned (cleanup_session now line l s) = cw_cleaned s @ map (Pair (ls_id l)) (ls_cleanup l)"
  by (simp_all add: cleanup_session_def Let_def cleanupNow_def fold_cleaned
      fold_keeps [where f = cm_cmd] fold_keeps [where f = cm_controller] fold_keeps [where f = cm_launch]
      fold_keeps [where f = cm_isRunning] fold_keeps [where f = cm_monitoring] fold_keeps [where f = cm_pid]
      fold_keeps [where f = cm_stopChan] fold_keeps [where f = cm_restartAttempts]
      fold_keeps [where f = cw_disk] fold_keeps [where f = cw_controllers]
      fold_keeps [where f = cw_closedChans] fold_keeps [where f = cw_stopped]
      fold_keeps [where f = cw_next] fold_keeps [where f = cw_sessions])

lemma closeProcessController_frame [simp]:
  "cm_cmd (closeProcessController c s) = cm_cmd s" "cm_controller (closeProcessController c s) = cm_controller s"
  "cm_launch (closeProcessController c s) = cm_launch s" "cm_isRunning (closeProcessController c s) = cm_isRunning s"
  "cm_monitoring (closeProcessController c s) = cm_monitoring s" "cm_pid (closeProcessController c s) = cm_pid s"
  "cm_stopChan (closeProcessController c s) = cm_stopChan s"
  "cm_restartAttempts (closeProcessController c s) = cm_restartAttempts s"
  "cw_disk (closeProcessController c s) = cw_disk s" "cw_sessions (closeProcessController c s) = cw_sessions s"
  "cw_cleaned (closeProcessController c s) = cw_cleaned s"
  "cw_closedChans (closeProcessController c s) = cw_closedChans s"
  "cw_stopped (closeProcessController c s) = cw_stopped s" "cw_next (closeProcessController c s) = cw_next s"
  "cw_controllers (closeProcessController c s) = removeAll c (cw_controllers s)"
  by (simp_all add: closeProcessController_def)

lemma signalStop_frame [simp]:
  "cm_cmd (signalStopLocked s) = cm_cmd s" "cm_controller (signalStopLocked s) = cm_controller s"
  "cm_launch (signalStopLocked s) = cm_launch s" "cm_isRunning (signalStopLocked s) = cm_isRunning s"
  "cm_monitoring (signalStopLocked s) = cm_monitoring s" "cm_pid (signalStopLocked s) = cm_pid s"
  "cm_restartAttempts (signalStopLocked s) = cm_restartAttempts s" "cw_disk (signalStopLocked s) = cw_disk s"
  "cw_controllers (signalStopLocked s) = cw_controllers s" "cw_sessions (signalStopLocked s) = cw_sessions s"
  "cw_cleaned (signalStopLocked s) = cw_cleaned s"
  "cw_stopped (signalStopLocked s) = cw_stopped s" "cw_next (signalStopLocked s) = cw_next s"
  "cm_stopChan (signalStopLocked s) = None"
  "cw_closedChans (signalStopLocked s) =
     (case cm_stopChan s of None \<Rightarrow> cw_closedChans s | Some ch \<Rightarrow> ch # cw_closedChans s)"
  by (simp_all add: signalStopLocked_def split: option.splits)

lemma cleanupLocked_frame [simp]:
  "cm_cmd (cleanupLocked sv now e s) = None" "cm_controller (cleanupLocked sv now e s) = None"
  "cm_launch (cleanupLocked sv now e s) = None" "cm_isRunning (cleanupLocked sv now e s) = False"
  "cm_monitoring (cleanupLocked sv now e s) = cm_monitoring s" "cm_pid (cleanupLocked sv now e s) = 0"
  "cm_stopChan (cleanupLocked sv now e s) = cm_stopChan s"
  "cm_restartAttempts (cleanupLocked sv now e s) = cm_restartAttempts s"
  "cw_closedChans (cleanupLocked sv now e s) = cw_closedChans s"
  "cw_stopped (cleanupLocked sv now e s) = cw_stopped s" "cw_next (cleanupLocked sv now e s) = cw_next s"
  "cw_disk (cleanupLocked sv now e s) = removeRuntimeRecord (sv_host sv) (ce_rm e) (cw_disk s)"
  "cw_controllers (cleanupLocked sv now e s) =
     (case cm_controller s of None \<Rightarrow> cw_controllers s | Some c \<Rightarrow> removeAll c (cw_controllers s))"
  "cw_sessions (cleanupLocked sv now e s) =
     (case cm_launch s of None \<Rightarrow> cw_sessions s | Some l \<Rightarrow> removeAll (ls_id l) (cw_sessions s))"
  "cw_cleaned (cleanupLocked sv now e s) =
     (case cm_launch s of None \<Rightarrow> cw_cleaned s
      | Some l \<Rightarrow> cw_cleaned s @ map (Pair (ls_id l)) (ls_cleanup l))"
  by (simp_all add: cleanupLocked_def Let_def split: option.splits)

lemma clearDesired_frame [simp]:
  "cm_cmd (clearDesired sv now we s) = cm_cmd s" "cm_controller (clearDesired sv now we s) = cm_controller s"
  "cm_launch (clearDesired sv now we s) = cm_launch s" "cm_isRunning (clearDesired sv now we s) = cm_isRunning s"
  "cm_monitoring (clearDesired sv now we s) = cm_monitoring s" "cm_pid (clearDesired sv now we s) = cm_pid s"
  "cm_stopChan (clearDesired sv now we s) = cm_stopChan s"
  "cm_restartAttempts (clearDesired sv now we s) = cm_restartAttempts s"
  "cw_controllers (clearDesired sv now we s) = cw_controllers s" "cw_sessions (clearDesired sv now we s) = cw_sessions s"
  "cw_cleaned (clearDesired sv now we s) = cw_cleaned s"
  "cw_closedChans (clearDesired sv now we s) = cw_closedChans s"
  "cw_stopped (clearDesired sv now we s) = cw_stopped s" "cw_next (clearDesired sv now we s) = cw_next s"
  by (simp_all add: clearDesired_def)

lemma stopProcess_frame [simp]:
  "cm_cmd (snd (stopProcessLocked er s)) = cm_cmd s" "cm_controller (snd (stopProcessLocked er s)) = cm_controller s"
  "cm_launch (snd (stopProcessLocked er s)) = cm_launch s" "cm_isRunning (snd (stopProcessLocked er s)) = cm_isRunning s"
  "cm_monitoring (snd (stopProcessLocked er s)) = cm_monitoring s" "cm_pid (snd (stopProcessLocked er s)) = cm_pid s"
  "cm_stopChan (snd (stopProcessLocked er s)) = cm_stopChan s"
  "cm_restartAttempts (snd (stopProcessLocked er s)) = cm_restartAttempts s"
  "cw_disk (snd (stopProcessLocked er s)) = cw_disk s"
  "cw_controllers (snd (stopProcessLocked er s)) = cw_controllers s" "cw_sessions (snd (stopProcessLocked er s)) = cw_sessions s"
  "cw_cleaned (snd (stopProcessLocked er s)) = cw_cleaned s"
  "cw_closedChans (snd (stopProcessLocked er s)) = cw_closedChans s" "cw_next (snd (stopProcessLocked er s)) = cw_next s"
  by (simp_all add: stopProcessLocked_def)

section \<open>The invariant\<close>

text \<open>
  A stop channel is closed at most once (a second close would panic) and numbers are
  fresh.  A running manager holds one controller, one session, an open stop channel and a
  process; an idle one holds nothing, and nothing is left open behind it.
\<close>

definition core_ids :: "core_world \<Rightarrow> bool" where
  "core_ids s \<longleftrightarrow> distinct (cw_closedChans s) \<and> (\<forall>ch\<in>set (cw_closedChans s). ch < cw_next s) \<and>
     (\<forall>ch. cm_stopChan s = Some ch \<longrightarrow> ch < cw_next s \<and> ch \<notin> set (cw_closedChans s))"

definition running_ok :: "core_world \<Rightarrow> bool" where
  "running_ok s \<longleftrightarrow> cm_isRunning s \<and> cm_monitoring s \<and> cm_pid s > 0 \<and> cm_stopChan s \<noteq> None \<and>
     (\<exists>c l. cm_controller s = Some c \<and> cm_launch s = Some l \<and>
        cw_controllers s = [c] \<and> cw_sessions s = [ls_id l])"

definition idle_ok :: "core_world \<Rightarrow> bool" where
  "idle_ok s \<longleftrightarrow> \<not> cm_isRunning s \<and> \<not> cm_monitoring s \<and> cm_pid s = 0 \<and> cm_stopChan s = None \<and>
     cm_cmd s = None \<and> cm_controller s = None \<and> cm_launch s = None \<and> cw_controllers s = [] \<and> cw_sessions s = []"

definition core_inv :: "core_world \<Rightarrow> bool" where
  "core_inv s \<longleftrightarrow> core_ids s \<and> (running_ok s \<or> idle_ok s)"

lemma core_inv_new: "core_inv (NewCoreManager d)"
  by (simp add: core_inv_def core_ids_def idle_ok_def NewCoreManager_def emptyCoreEventHub_def)

lemma idle_of_idle_ok: "idle_ok s \<Longrightarrow> idle s" and running_not_idle: "running_ok s \<Longrightarrow> \<not> idle s"
  by (auto simp: idle_ok_def idle_def running_ok_def)

text \<open>The end of a run: monitoring off, stop channel closed, everything released.\<close>

lemma release_idle_ok:
  assumes "cm_controller s = Some c" "cm_launch s = Some l" "cw_controllers s = [c]" "cw_sessions s = [ls_id l]"
  shows "idle_ok (cleanupLocked sv now ce (signalStopLocked (s\<lparr>cm_monitoring := False\<rparr>)))"
  using assms by (simp add: idle_ok_def)

lemma release_ids:
  "core_ids s \<Longrightarrow> core_ids (cleanupLocked sv now ce (signalStopLocked (s\<lparr>cm_monitoring := False\<rparr>)))"
  by (auto simp: core_ids_def split: option.splits)

lemma core_ids_cong:
  "cw_closedChans t = cw_closedChans s \<Longrightarrow> cm_stopChan t = cm_stopChan s \<Longrightarrow> cw_next s \<le> cw_next t \<Longrightarrow>
    core_ids s \<Longrightarrow> core_ids t"
  by (auto simp: core_ids_def)

section \<open>Starting\<close>

definition starting :: "core_world \<Rightarrow> bool" where
  "starting s \<longleftrightarrow> core_ids s \<and> cm_isRunning s \<and> \<not> cm_monitoring s \<and> cm_pid s = 0 \<and> cm_stopChan s \<noteq> None \<and>
     cm_cmd s = None \<and> cm_controller s = None \<and> cm_launch s = None \<and> cw_controllers s = [] \<and> cw_sessions s = []"

lemma fail_early_inv:
  assumes "fail_early now e c launch err s = (r, t)"
    and "core_ids s" "cm_pid s = 0" "cm_cmd s = None" "cm_controller s = None" "cm_launch s = None"
    and "cw_controllers s = [c]" "cw_sessions s = [ls_id launch]"
  shows "r = Some err \<and> core_ids t \<and> idle_ok t \<and>
    cw_cleaned t = cw_cleaned s @ map (Pair (ls_id launch)) (ls_cleanup launch) \<and> cw_stopped t = cw_stopped s \<and>
    cm_restartAttempts t = cm_restartAttempts s"
  using assms by (auto simp: fail_early_def Let_def core_ids_def idle_ok_def split: option.splits)

lemma fail_late_inv:
  assumes "fail_late sv now e err s = (r, t)" and "core_ids s"
    and "cm_controller s = Some c" "cm_launch s = Some l" "cw_controllers s = [c]" "cw_sessions s = [ls_id l]"
    and "cm_pid s > 0"
  shows "r = Some err \<and> core_ids t \<and> idle_ok t \<and>
    cw_cleaned t = cw_cleaned s @ map (Pair (ls_id l)) (ls_cleanup l) \<and> cw_stopped t = cm_pid s # cw_stopped s \<and>
    cm_restartAttempts t = cm_restartAttempts s"
  using assms
  by (auto simp: fail_late_def Let_def core_ids_def idle_ok_def stopProcessLocked_def split: option.splits)

text \<open>
  The clean-up of a session that got as far as a command, and what a preparation that
  failed has already undone.
\<close>

definition started_cleanup :: "cleanup_action list" where
  "started_cleanup = [StopWatcher, CloseLog, CleanCommand, CleanEndpoint, CleanHook]"

definition spawn_positive :: "start_env \<Rightarrow> bool" where
  "spawn_positive e \<longleftrightarrow> (\<forall>pid. st_spawn e = Inr pid \<longrightarrow> pid > 0)"

lemma prepared_session:
  assumes "prepareLaunchSession w c e sid p access d = (Inr launch, x)"
  shows "ls_id launch = sid" and "ls_cleanup launch = [CleanEndpoint, CleanHook]"
  using assms by (auto elim!: prepare_Inr)

lemmas start_defs = startProcessLocked_def Let_def

text \<open>The outcome of \<open>startProcessLocked\<close>, by the point it reaches.\<close>

lemma startProcess_prepare_fails:
  assumes "starting s"
    and "prepareLaunchSession (sv_host sv) (sv_profile sv) (st_prepare e) (cw_next s) p access (cw_disk s) = (Inl er, cl)"
    and "startProcessLocked sv now e p access s = (r, t)"
  shows "r = Some (LaunchFailed er) \<and> core_ids t \<and> idle_ok t \<and>
    cw_cleaned t = cw_cleaned s @ map (Pair (cw_next s)) cl \<and> cw_stopped t = cw_stopped s \<and>
    cm_restartAttempts t = cm_restartAttempts s"
  using assms
  by (auto simp: start_defs starting_def core_ids_def idle_ok_def less_SucI split: option.splits)

definition prepared :: "nat \<Rightarrow> core_world \<Rightarrow> core_world" where
  "prepared sid s = s\<lparr>cw_next := cw_next s + 2, cw_sessions := sid # cw_sessions s,
     cw_controllers := (cw_next s + 1) # cw_controllers s\<rparr>"

lemma starting_prepared:
  assumes "starting s"
  shows "core_ids (prepared sid s)" "cm_pid (prepared sid s) = 0" "cm_cmd (prepared sid s) = None"
    "cm_controller (prepared sid s) = None" "cm_launch (prepared sid s) = None"
    "cw_controllers (prepared sid s) = [cw_next s + 1]" "cw_sessions (prepared sid s) = [sid]"
    "cw_cleaned (prepared sid s) = cw_cleaned s" "cw_stopped (prepared sid s) = cw_stopped s"
    "cm_restartAttempts (prepared sid s) = cm_restartAttempts s" "cm_isRunning (prepared sid s)"
    "cm_stopChan (prepared sid s) \<noteq> None"
  using assms by (auto simp: starting_def prepared_def core_ids_def)

text \<open>The session and the state once the process is spawned and attached.\<close>

definition armed :: "launchSession \<Rightarrow> launchSession" where
  "armed launch = addCleanup StopWatcher (addCleanup CloseLog (addCleanup CleanCommand launch))"

definition attached :: "go_time \<Rightarrow> launchSession \<Rightarrow> int \<Rightarrow> core_world \<Rightarrow> core_world" where
  "attached now launch pid s = (prepared (cw_next s) s)\<lparr>cw_next := cw_next s + 3, cm_cmd := Some (cw_next s + 2),
     cm_controller := Some (cw_next s + 1), cm_launch := Some (armed launch), cm_pid := pid,
     cm_startTime := Some (wall now)\<rparr>"

lemma startProcess_prepared:
  assumes "prepareLaunchSession (sv_host sv) (sv_profile sv) (st_prepare e) (cw_next s) p access (cw_disk s) = (Inr launch, cl)"
  shows "startProcessLocked sv now e p access s =
    (case st_command e of
       Some er \<Rightarrow> fail_early now e (cw_next s + 1) launch (CommandFailed er)
                    (run_cleanup now [] (cw_next s) CloseLog (prepared (cw_next s) s))
     | None \<Rightarrow>
    (case st_spawn e of
       Inl er \<Rightarrow> fail_early now e (cw_next s + 1) (armed launch) (StartFailed er) (prepared (cw_next s) s)
     | Inr pid \<Rightarrow>
    (case st_attach e of
       Some er \<Rightarrow> fail_early now e (cw_next s + 1) (armed launch) (AttachFailed er)
                    ((prepared (cw_next s) s)\<lparr>cw_stopped := pid # cw_stopped s\<rparr>)
     | None \<Rightarrow>
    (case waitForStartup (armed launch) (st_errOutput e) (st_signals e) of
       Some er \<Rightarrow> fail_late sv now e (StartupFailed er) (attached now launch pid s)
     | None \<Rightarrow>
    (case hardenLaunchControllerEndpoint (st_harden e) of
       Some er \<Rightarrow> fail_late sv now e (HardenFailed er) (attached now launch pid s)
     | None \<Rightarrow>
       (None, emit now CoreEventStarted MsgStarted None
         ((attached now launch pid s)\<lparr>cm_monitoring := True,
            cw_disk := snd (writeRuntimeRecord (sv_host sv) (sv_runtime sv) (st_record e) (st_procs e) pid
              (ls_executablePath (armed launch)) (ls_controllerNet (armed launch))
              (ls_controllerAddr (armed launch)) (ls_profile (armed launch)) (cw_disk s))\<rparr>)))))))"
proof -
  let ?s1 = "s\<lparr>cw_next := cw_next s + 1\<rparr>
      \<lparr>cw_next := cw_next (s\<lparr>cw_next := cw_next s + 1\<rparr>) + 1,
       cw_sessions := cw_next s # cw_sessions (s\<lparr>cw_next := cw_next s + 1\<rparr>),
       cw_controllers := cw_next (s\<lparr>cw_next := cw_next s + 1\<rparr>) # cw_controllers (s\<lparr>cw_next := cw_next s + 1\<rparr>)\<rparr>"
  have s1: "?s1 = prepared (cw_next s) s" by (simp add: prepared_def)
  show ?thesis
    unfolding startProcessLocked_def Let_def assms prod.case sum.case s1 armed_def [symmetric]
    by (simp add: attached_def prepared_def numeral_3_eq_3 split: option.split sum.split)
qed

lemma attached_facts:
  assumes "starting s" and "ls_id launch = cw_next s"
  shows "core_ids (attached now launch pid s)" "cm_controller (attached now launch pid s) = Some (cw_next s + 1)"
    "cm_launch (attached now launch pid s) = Some (armed launch)"
    "cw_controllers (attached now launch pid s) = [cw_next s + 1]"
    "cw_sessions (attached now launch pid s) = [ls_id (armed launch)]"
    "cm_pid (attached now launch pid s) = pid" "cw_cleaned (attached now launch pid s) = cw_cleaned s"
    "cw_stopped (attached now launch pid s) = cw_stopped s"
    "cm_restartAttempts (attached now launch pid s) = cm_restartAttempts s"
    "cm_isRunning (attached now launch pid s)" "cm_stopChan (attached now launch pid s) \<noteq> None"
  using assms by (auto simp: starting_def attached_def prepared_def core_ids_def armed_def addCleanup_def)

lemma armed_facts: "ls_id (armed l) = ls_id l"
    "ls_cleanup (armed l) = [StopWatcher, CloseLog, CleanCommand] @ ls_cleanup l"
  by (simp_all add: armed_def addCleanup_def)

text \<open>
  The clean-up actions that a failing start has to run, newest first, and the process it
  has to stop, as far as it got.
\<close>

definition expected_cleanup ::
    "(launch_error, launchSession) result \<times> cleanup_action list \<Rightarrow> start_env \<Rightarrow> cleanup_action list" where
  "expected_cleanup prep e =
    (case prep of (Inl _, cl) \<Rightarrow> cl
     | (Inr _, _) \<Rightarrow> if st_command e \<noteq> None then [CloseLog, CleanEndpoint, CleanHook] else started_cleanup)"

definition expected_stopped ::
    "(launch_error, launchSession) result \<times> cleanup_action list \<Rightarrow> start_env \<Rightarrow> int list" where
  "expected_stopped prep e =
    (case prep of (Inl _, _) \<Rightarrow> []
     | (Inr _, _) \<Rightarrow> if st_command e \<noteq> None then []
        else (case st_spawn e of Inl _ \<Rightarrow> [] | Inr pid \<Rightarrow> [pid]))"

definition preparation :: "service \<Rightarrow> start_env \<Rightarrow> LaunchProfile option \<Rightarrow> fileAccess \<Rightarrow> nat \<Rightarrow> disk
    \<Rightarrow> (launch_error, launchSession) result \<times> cleanup_action list" where
  "preparation sv e p access sid d =
    prepareLaunchSession (sv_host sv) (sv_profile sv) (st_prepare e) sid p access d"

lemma startProcess_ok:
  assumes "starting s" and "spawn_positive e"
    and "startProcessLocked sv now e p access s = (r, t)"
  shows "core_ids t \<and> cm_restartAttempts t = cm_restartAttempts s \<and>
    (r = None \<longrightarrow> running_ok t) \<and>
    (r \<noteq> None \<longrightarrow> idle_ok t \<and>
       cw_cleaned t = cw_cleaned s @ map (Pair (cw_next s))
         (expected_cleanup (preparation sv e p access (cw_next s) (cw_disk s)) e) \<and>
       cw_stopped t = expected_stopped (preparation sv e p access (cw_next s) (cw_disk s)) e @ cw_stopped s)"
proof -
  obtain x cl where prep: "preparation sv e p access (cw_next s) (cw_disk s) = (x, cl)" by fastforce
  show ?thesis
  proof (cases x)
    case (Inl er)
    from startProcess_prepare_fails [OF assms(1) _ assms(3)] prep
    show ?thesis by (simp add: Inl preparation_def expected_cleanup_def expected_stopped_def)
  next
    case (Inr launch)
    have p: "prepareLaunchSession (sv_host sv) (sv_profile sv) (st_prepare e) (cw_next s) p access (cw_disk s) = (Inr launch, cl)"
      using prep Inr by (simp add: preparation_def)
    note id = prepared_session [OF p]
    note run = startProcess_prepared [OF p, of now, unfolded assms(3)]
    note pre = starting_prepared [OF assms(1), of "cw_next s"]
    note att = attached_facts [OF assms(1) id(1), of now]
    let ?P = "prepared (cw_next s) s" and ?c = "cw_next s + 1"
    show ?thesis
    proof (cases "st_command e")
      case (Some er)
      have "core_ids (run_cleanup now [] (cw_next s) CloseLog ?P)"
        by (rule core_ids_cong [OF _ _ _ pre(1)]) simp_all
      from fail_early_inv [OF _ this, of now e ?c launch "CommandFailed er" r t] run Some pre id
      show ?thesis by (simp add: prep Inr expected_cleanup_def expected_stopped_def)
    next
      case None
      note command = None
      show ?thesis
      proof (cases "st_spawn e")
        case (Inl er)
        from fail_early_inv [OF _ pre(1), of now e ?c "armed launch" "StartFailed er" r t] run command pre id Inl
        show ?thesis
          by (simp add: prep Inr armed_facts expected_cleanup_def expected_stopped_def started_cleanup_def)
      next
        case spawn: (Inr pid)
        then have pos: "pid > 0" using assms(2) by (simp add: spawn_positive_def)
        have exp: "expected_cleanup (preparation sv e p access (cw_next s) (cw_disk s)) e = started_cleanup"
          "expected_stopped (preparation sv e p access (cw_next s) (cw_disk s)) e = [pid]"
          by (simp_all add: prep Inr expected_cleanup_def expected_stopped_def command spawn)
        have late: ?thesis if "(r, t) = fail_late sv now e er (attached now launch pid s)" for er
          using fail_late_inv [OF that [symmetric] att(1-5)] pos id
          by (simp add: exp att(6-9) armed_facts started_cleanup_def)
        show ?thesis
        proof (cases "st_attach e")
          case (Some er)
          let ?Q = "?P\<lparr>cw_stopped := pid # cw_stopped s\<rparr>"
          have "core_ids ?Q" by (rule core_ids_cong [OF _ _ _ pre(1)]) simp_all
          from fail_early_inv [OF _ this, of now e ?c "armed launch" "AttachFailed er" r t] run command spawn Some pre id
          show ?thesis by (simp add: exp armed_facts started_cleanup_def)
        next
          case attach: None
          show ?thesis
          proof (cases "waitForStartup (armed launch) (st_errOutput e) (st_signals e)")
            case (Some er)
            then show ?thesis using late run command spawn attach by simp
          next
            case wait: None
            show ?thesis
            proof (cases "hardenLaunchControllerEndpoint (st_harden e)")
              case (Some er)
              then show ?thesis using late run command spawn attach wait by simp
            next
              case None
              have "core_ids t" using run command spawn attach wait None
                by (auto intro!: core_ids_cong [OF _ _ _ att(1) [of pid]])
              then show ?thesis using run command spawn attach wait None att pos id
                by (simp add: running_ok_def armed_facts)
            qed
          qed
        qed
      qed
    qed
  qed
qed

lemma begin_start:
  assumes "core_inv s" and "\<not> cm_isRunning s"
  shows "starting ((emit now CoreEventStarting MsgStarting None (s\<lparr>cm_isRunning := True\<rparr>))
      \<lparr>cm_stopChan := Some (cw_next s), cw_next := cw_next s + 1\<rparr>)"
  using assms by (auto simp: core_inv_def running_ok_def idle_ok_def starting_def core_ids_def)

text \<open>A start from any state that satisfies the invariant.\<close>

lemma startCore_ok:
  assumes "core_inv s" and "spawn_positive e" and "startCoreLocked sv now e p access s = (r, t)"
  shows "core_inv t \<and> cm_restartAttempts t = cm_restartAttempts s \<and> (r = None \<longrightarrow> running_ok t) \<and>
    (cm_isRunning s \<longrightarrow> r = Some AlreadyRunning \<and> t = s) \<and>
    (\<not> cm_isRunning s \<and> r \<noteq> None \<longrightarrow> idle_ok t \<and>
       cw_cleaned t = cw_cleaned s @ map (Pair (cw_next s + 1))
         (expected_cleanup (preparation sv e p access (cw_next s + 1) (cw_disk s)) e) \<and>
       cw_stopped t = expected_stopped (preparation sv e p access (cw_next s + 1) (cw_disk s)) e @ cw_stopped s)"
proof (cases "cm_isRunning s")
  case True
  then show ?thesis using assms by (auto simp: startCoreLocked_def core_inv_def idle_ok_def)
next
  case False
  let ?s = "(emit now CoreEventStarting MsgStarting None (s\<lparr>cm_isRunning := True\<rparr>))
      \<lparr>cm_stopChan := Some (cw_next s), cw_next := cw_next s + 1\<rparr>"
  obtain r1 t1 where run: "startProcessLocked sv now e p access ?s = (r1, t1)" by fastforce
  from startProcess_ok [OF begin_start [OF assms(1) False] assms(2) run]
  have ok: "core_ids t1" "cm_restartAttempts t1 = cm_restartAttempts s" "r1 = None \<longrightarrow> running_ok t1"
    "r1 \<noteq> None \<longrightarrow> idle_ok t1 \<and> cw_cleaned t1 = cw_cleaned s @ map (Pair (cw_next s + 1))
         (expected_cleanup (preparation sv e p access (cw_next s + 1) (cw_disk s)) e) \<and>
       cw_stopped t1 = expected_stopped (preparation sv e p access (cw_next s + 1) (cw_disk s)) e @ cw_stopped s"
    by simp_all
  show ?thesis
  proof (cases r1)
    case None
    have "running_ok (t1\<lparr>cw_disk := d\<rparr>)" "core_ids (t1\<lparr>cw_disk := d\<rparr>)" for d
      using ok None by (simp_all add: running_ok_def core_ids_def)
    moreover have "\<exists>l. cm_launch t1 = Some l" using ok(3) None by (auto simp: running_ok_def)
    ultimately show ?thesis
      using assms(3) run None False ok(2) by (auto simp: startCoreLocked_def Let_def core_inv_def)
  next
    case (Some er)
    then show ?thesis
      using assms(3) run False ok by (auto simp: startCoreLocked_def Let_def core_inv_def)
  qed
qed

section \<open>The other operations\<close>

lemma running_resources:
  assumes "running_ok s"
  obtains c l where "cm_controller s = Some c" "cm_launch s = Some l" "cw_controllers s = [c]" "cw_sessions s = [ls_id l]"
  using assms by (auto simp: running_ok_def)

lemma release_inv:
  assumes "core_ids s" and "running_ok s"
  shows "core_inv (cleanupLocked sv now ce (signalStopLocked (s\<lparr>cm_monitoring := False\<rparr>)))"
    and "idle_ok (cleanupLocked sv now ce (signalStopLocked (s\<lparr>cm_monitoring := False\<rparr>)))"
proof -
  obtain c l where "cm_controller s = Some c" "cm_launch s = Some l" "cw_controllers s = [c]" "cw_sessions s = [ls_id l]"
    using running_resources [OF assms(2)] .
  from release_idle_ok [OF this] release_ids [OF assms(1)]
  show "core_inv (cleanupLocked sv now ce (signalStopLocked (s\<lparr>cm_monitoring := False\<rparr>)))"
    and "idle_ok (cleanupLocked sv now ce (signalStopLocked (s\<lparr>cm_monitoring := False\<rparr>)))"
    by (auto simp: core_inv_def)
qed

text \<open>States that differ only in what the invariant does not mention.\<close>

lemma core_inv_cong:
  assumes "core_inv s"
    and "cm_isRunning t = cm_isRunning s" "cm_monitoring t = cm_monitoring s" "cm_pid t = cm_pid s"
    "cm_stopChan t = cm_stopChan s" "cm_cmd t = cm_cmd s" "cm_controller t = cm_controller s"
    "cm_launch t = cm_launch s" "cw_controllers t = cw_controllers s" "cw_sessions t = cw_sessions s"
    "cw_closedChans t = cw_closedChans s" "cw_next t = cw_next s"
  shows "core_inv t" and "idle_ok t \<longleftrightarrow> idle_ok s" and "running_ok t \<longleftrightarrow> running_ok s"
  using assms by (auto simp: core_inv_def core_ids_def running_ok_def idle_ok_def)

lemma stopCore_ok:
  assumes "core_inv s" and "stopCoreLocked sv now e s = (r, t)"
  shows "core_inv t \<and> idle_ok t \<and> cm_restartAttempts t = cm_restartAttempts s \<and>
    (\<forall>er. r = Some er \<longrightarrow> cm_pid s > 0 \<and> (\<exists>x. sp_stop e = Some x \<and> er = StopFailed x)) \<and>
    (running_ok s \<longrightarrow> cw_stopped t = cm_pid s # cw_stopped s)"
proof (cases "idle_ok s")
  case True
  then have t: "t = clearDesired sv now (sp_persist e) s" "r = None"
    using assms(2) idle_of_idle_ok by (simp_all add: stopCoreLocked_def)
  show ?thesis
    using True core_inv_cong [OF assms(1), of t] t by (auto simp: running_ok_def idle_ok_def)
next
  case False
  then have run: "running_ok s" and ids: "core_ids s" using assms(1) by (auto simp: core_inv_def)
  let ?s1 = "emit now CoreEventStopping MsgStopping None s"
  let ?s2 = "signalStopLocked (?s1\<lparr>cm_monitoring := False\<rparr>)"
  let ?s3 = "snd (stopProcessLocked (sp_stop e) ?s2)"
  let ?s4 = "clearDesired sv now (sp_persist e) (cleanupLocked sv now (sp_clean e) ?s3)"
  obtain c l where res: "cm_controller s = Some c" "cm_launch s = Some l" "cw_controllers s = [c]" "cw_sessions s = [ls_id l]"
    using running_resources [OF run] .
  have pid: "cm_pid s > 0" using run by (simp add: running_ok_def)
  have st: "fst (stopProcessLocked (sp_stop e) ?s2) = map_option StopFailed (sp_stop e)"
    "cw_stopped ?s3 = cm_pid s # cw_stopped s"
    using pid res(1) by (simp_all add: stopProcessLocked_def)
  have four: "idle_ok ?s4" "core_ids ?s4" "cm_restartAttempts ?s4 = cm_restartAttempts s"
    "cw_stopped ?s4 = cm_pid s # cw_stopped s"
    using res ids st(2) by (auto simp: idle_ok_def core_ids_def split: option.splits)
  have "(r, t) = (case map_option StopFailed (sp_stop e) of Some er \<Rightarrow> (Some er, ?s4)
      | None \<Rightarrow> (None, emit now CoreEventStopped MsgStopped None ?s4))"
    using assms(2) running_not_idle [OF run] st(1)
    by (simp add: stopCoreLocked_def Let_def split_beta)
  then show ?thesis
    using four pid by (auto simp: core_inv_def idle_ok_def core_ids_def split: option.splits)
qed

lemma restartCore_ok:
  assumes "core_inv s" and "spawn_positive e2" and "RestartCoreWithProfile sv now e1 e2 p access s = (r, t)"
  shows "core_inv t \<and> cm_restartAttempts t = cm_restartAttempts s \<and> (r = None \<longleftrightarrow> running_ok t)"
proof -
  let ?s = "emit now CoreEventRestarting MsgRestarting None s"
  obtain r1 s1 where stop: "stopCoreLocked sv now e1 ?s = (r1, s1)" by fastforce
  have "core_inv ?s" by (rule core_inv_cong(1) [OF assms(1)]) simp_all
  from stopCore_ok [OF this stop] have s1: "core_inv s1" "idle_ok s1" "cm_restartAttempts s1 = cm_restartAttempts s"
    by simp_all
  have "startCoreLocked sv now e2 p access s1 = (r, t)"
    using assms(3) stop by (simp add: RestartCoreWithProfile_def)
  from startCore_ok [OF s1(1) assms(2) this] s1
  show ?thesis by (auto simp: idle_ok_def running_ok_def)
qed

lemma apply_ok:
  assumes "core_inv s" and "ApplyLaunchProfile aff p access s = (r, settings, t)"
  shows "core_inv t \<and> cm_restartAttempts t = cm_restartAttempts s"
  using assms
  by (auto simp: ApplyLaunchProfile_def Let_def core_inv_def core_ids_def running_ok_def idle_ok_def
      split: option.splits if_splits)

lemma handleProcessExit_ok:
  assumes "core_inv s" and "handleProcessExit sv now ce s = (r, t)"
  shows "core_inv t \<and> idle_ok t \<and>
    (if idle_ok s then r = None \<and> t = s
     else cm_restartAttempts t = cm_restartAttempts s + 1 \<and>
          (r \<noteq> None \<longleftrightarrow> cm_restartAttempts s < maxCrashRestarts) \<and>
          (\<forall>p a. r = Some (p, a) \<longrightarrow> map_option ls_profile (cm_launch s) = Some p))"
proof (cases "idle_ok s")
  case True
  then show ?thesis using assms idle_of_idle_ok by (auto simp: handleProcessExit_def)
next
  case False
  then have run: "running_ok s" and ids: "core_ids s" using assms(1) by (auto simp: core_inv_def)
  let ?s = "\<lambda>ty m. emit now ty m None (s\<lparr>cm_restartAttempts := cm_restartAttempts s + 1\<rparr>)"
  have e: "core_ids (?s ty m)" "running_ok (?s ty m)" for ty m
    using run ids by (simp_all add: core_ids_def running_ok_def)
  define f where "f ty m = cleanupLocked sv now ce (signalStopLocked ((?s ty m)\<lparr>cm_monitoring := False\<rparr>))" for ty m
  have f: "core_inv (f ty m)" "idle_ok (f ty m)" "cm_restartAttempts (f ty m) = cm_restartAttempts s + 1" for ty m
    using release_inv [OF e] by (simp_all add: f_def)
  obtain l where l: "cm_launch s = Some l" using run by (auto simp: running_ok_def)
  have "(r, t) = (if cm_restartAttempts s + 1 > maxCrashRestarts
      then (None, f CoreEventRestartFailed MsgCrashLimit)
      else (Some (ls_profile l, ls_fileAccess l), f CoreEventRestarting MsgCrashRestarting))"
    using assms(2) running_not_idle [OF run] l by (auto simp: handleProcessExit_def Let_def f_def)
  then show ?thesis using f False l by (simp split: if_splits)
qed

lemma finishExit_ok:
  assumes "core_inv s"
  shows "core_inv (finishExpectedProcessExit sv now ce we cmd s) \<and>
    cm_restartAttempts (finishExpectedProcessExit sv now ce we cmd s) = cm_restartAttempts s"
proof (cases "cm_cmd s = Some cmd")
  case True
  then have run: "running_ok s" and ids: "core_ids s" using assms by (auto simp: core_inv_def idle_ok_def)
  let ?t = "cleanupLocked sv now ce (signalStopLocked (s\<lparr>cm_monitoring := False\<rparr>))"
  have "core_inv (clearDesired sv now we ?t)"
    by (rule core_inv_cong(1) [OF release_inv(1) [OF ids run]]) simp_all
  then show ?thesis using True by (simp add: finishExpectedProcessExit_def)
qed (use assms in \<open>simp add: finishExpectedProcessExit_def\<close>)

lemma adopt_pid_ok:
  assumes "core_inv s" and "cm_monitoring s" and "p > 0"
  shows "core_inv (publish now e ((startPIDPollingLocked (updateStartTimeFromPIDLocked now procs p
      (s\<lparr>cm_cmd := None, cm_pid := p\<rparr>)))\<lparr>cw_disk := d\<rparr>))"
  using assms
  by (auto simp: core_inv_def core_ids_def running_ok_def idle_ok_def startPIDPollingLocked_def
      updateStartTimeFromPIDLocked_def)

lemma takeover_commit_ok:
  assumes "core_inv s" and "newPID > 0"
  shows "core_inv (snd (takeover_commit sv now procs we oldPID newPID c l s)) \<and>
    cm_restartAttempts (snd (takeover_commit sv now procs we oldPID newPID c l s)) = cm_restartAttempts s"
  using adopt_pid_ok [OF assms(1) _ assms(2)] assms(1)
  by (auto simp: takeover_commit_def Let_def startPIDPollingLocked_def updateStartTimeFromPIDLocked_def)

lemma notification_commit_ok:
  assumes "core_inv s" and "newPID = oldPID \<or> newPID > 0"
  shows "core_inv (notification_commit sv now procs we oldPID newPID c l s) \<and>
    cm_restartAttempts (notification_commit sv now procs we oldPID newPID c l s) = cm_restartAttempts s"
proof -
  have "core_inv (publish now e s)" for e
    by (rule core_inv_cong(1) [OF assms(1)]) simp_all
  then show ?thesis
    using adopt_pid_ok [OF assms(1)] assms
    by (auto simp: notification_commit_def Let_def startPIDPollingLocked_def updateStartTimeFromPIDLocked_def)
qed

lemma notification_pid_ok: "notification_pid procs pids oldPID c l = oldPID \<or> notification_pid procs pids oldPID c l > 0"
  using findManagedCorePID_sound [of procs pids oldPID l]
  by (auto simp: notification_pid_def split: option.splits)

end
