(* ===== verification/CoreMachine.thy ===== *)
theory CoreMachine
  imports CoreInvariant
begin

text \<open>
  The core manager as a state machine: every locked section is an action, the goroutines
  may run them in any order and with any of the values they could have captured earlier,
  and the invariant holds in every reachable state.
\<close>

section \<open>Actions\<close>

text \<open>
  One constructor per locked section.  What a goroutine captured before (the old process
  identifier, the controller, the session) is arbitrary, which covers every interleaving.
  \<open>EventClient\<close> is any use of the hub by subscribers, \<open>PollEnds\<close> the end of the polling
  goroutine.
\<close>

datatype core_action =
    StartCore go_time start_env "LaunchProfile option" fileAccess
  | StopCore go_time stop_env
  | RestartCore go_time stop_env start_env "LaunchProfile option" fileAccess
  | ApplyProfile "string option" LaunchProfile fileAccess
  | ProcessExited go_time nat int "exit_error option" string
  | FinishExit go_time clean_env write_env nat
  | CrashExit go_time clean_env
  | TakeOver takeover_round int nat launchSession
  | Notification go_time proc_table "(string, int list) result" write_env int "nat option" launchSession
  | LogLine go_time string
  | EventClient coreEventHub
  | PollEnds
  | RestartGaveUp go_time

fun core_exec :: "service \<Rightarrow> core_action \<Rightarrow> core_world \<Rightarrow> core_world" where
  "core_exec sv (StartCore now e p access) s = snd (startCoreLocked sv now e p access s)"
| "core_exec sv (StopCore now e) s = snd (stopCoreLocked sv now e s)"
| "core_exec sv (RestartCore now e1 e2 p access) s = snd (RestartCoreWithProfile sv now e1 e2 p access s)"
| "core_exec sv (ApplyProfile aff p access) s = snd (snd (ApplyLaunchProfile aff p access s))"
| "core_exec sv (ProcessExited now cmd pid err output) s = snd (monitorProcess now cmd pid err output s)"
| "core_exec sv (FinishExit now ce we cmd) s = finishExpectedProcessExit sv now ce we cmd s"
| "core_exec sv (CrashExit now ce) s = snd (handleProcessExit sv now ce s)"
| "core_exec sv (TakeOver r oldPID controller launch) s =
    (case findManagedCorePID (tr_procs r) (tr_pids r) oldPID launch of None \<Rightarrow> s
     | Some newPID \<Rightarrow>
        if tr_secure r \<noteq> None \<or> hardenLaunchControllerEndpoint (tr_harden r) \<noteq> None
        then s\<lparr>cw_stopped := newPID # cw_stopped s\<rparr>
        else snd (takeover_commit sv (tr_now r) (tr_procs r) (tr_record r) oldPID newPID controller launch s))"
| "core_exec sv (Notification now procs pids we oldPID controller launch) s =
    notification_commit sv now procs we oldPID (notification_pid procs pids oldPID controller launch)
      controller launch s"
| "core_exec sv (LogLine now line) s = s\<lparr>cm_eventHub := publishCoreLogEvent (view now s) line (cm_eventHub s)\<rparr>"
| "core_exec sv (EventClient h) s = s\<lparr>cm_eventHub := h\<rparr>"
| "core_exec sv PollEnds s = s\<lparr>cm_pidPolling := False\<rparr>"
| "core_exec sv (RestartGaveUp now) s =
    emit now CoreEventRestartFailed MsgRestartFailed (Some RetriesExhausted) s"

text \<open>The operating system gives positive process identifiers.\<close>

fun action_ok :: "core_action \<Rightarrow> bool" where
  "action_ok (StartCore now e p access) = spawn_positive e"
| "action_ok (RestartCore now e1 e2 p access) = spawn_positive e2"
| "action_ok _ = True"

text \<open>Whether an action starts a restart goroutine.\<close>

fun schedules_restart :: "service \<Rightarrow> core_action \<Rightarrow> core_world \<Rightarrow> bool" where
  "schedules_restart sv (CrashExit now ce) s = (fst (handleProcessExit sv now ce s) \<noteq> None)"
| "schedules_restart sv _ s = False"

lemma core_exec_ok:
  assumes "core_inv s" and "action_ok a"
  shows "core_inv (core_exec sv a s) \<and>
    cm_restartAttempts (core_exec sv a s) \<ge> cm_restartAttempts s \<and>
    (schedules_restart sv a s \<longrightarrow>
       cm_restartAttempts s < maxCrashRestarts \<and> cm_restartAttempts (core_exec sv a s) = cm_restartAttempts s + 1)"
proof (cases a)
  case (StartCore now e p access)
  then show ?thesis
    using startCore_ok [OF assms(1), of e sv now p access] assms(2)
    by (cases "startCoreLocked sv now e p access s") auto
next
  case (StopCore now e)
  then show ?thesis
    using stopCore_ok [OF assms(1), of sv now e] by (cases "stopCoreLocked sv now e s") auto
next
  case (RestartCore now e1 e2 p access)
  then show ?thesis
    using restartCore_ok [OF assms(1), of e2 sv now e1 p access] assms(2)
    by (cases "RestartCoreWithProfile sv now e1 e2 p access s") auto
next
  case (ApplyProfile aff p access)
  then show ?thesis
    using apply_ok [OF assms(1), of aff p access] by (cases "ApplyLaunchProfile aff p access s") auto
next
  case (ProcessExited now cmd pid err out)
  have "core_inv (publish now e s)" for e by (rule core_inv_cong(1) [OF assms(1)]) simp_all
  then show ?thesis using ProcessExited assms(1) by (auto simp: monitorProcess_def Let_def)
next
  case (FinishExit now ce we cmd)
  then show ?thesis using finishExit_ok [OF assms(1)] by simp
next
  case (CrashExit now ce)
  then show ?thesis
    using handleProcessExit_ok [OF assms(1), of sv now ce]
    by (cases "handleProcessExit sv now ce s") (auto split: if_splits)
next
  case (TakeOver r oldPID controller launch)
  have "core_inv (s\<lparr>cw_stopped := x\<rparr>)" for x by (rule core_inv_cong(1) [OF assms(1)]) simp_all
  then show ?thesis
    using TakeOver takeover_commit_ok [OF assms(1)] findManagedCorePID_sound assms(1)
    by (auto split: option.splits)
next
  case (Notification now procs pids we oldPID controller launch)
  then show ?thesis using notification_commit_ok [OF assms(1)] notification_pid_ok by simp
next
  case (LogLine now line)
  have "core_inv (s\<lparr>cm_eventHub := h\<rparr>)" for h by (rule core_inv_cong(1) [OF assms(1)]) simp_all
  then show ?thesis using LogLine by simp
next
  case (EventClient h)
  have "core_inv (s\<lparr>cm_eventHub := h\<rparr>)" by (rule core_inv_cong(1) [OF assms(1)]) simp_all
  then show ?thesis using EventClient by simp
next
  case PollEnds
  have "core_inv (s\<lparr>cm_pidPolling := False\<rparr>)" by (rule core_inv_cong(1) [OF assms(1)]) simp_all
  then show ?thesis using PollEnds by simp
next
  case (RestartGaveUp now)
  have "core_inv (emit now t m e s)" for t m e by (rule core_inv_cong(1) [OF assms(1)]) simp_all
  then show ?thesis using RestartGaveUp by simp
qed

section \<open>Reachable states\<close>

text \<open>
  The service creates the manager, reconciles it with a runtime record if one is there,
  and then performs actions.  \<open>crashes\<close> counts the restart goroutines started so far.
\<close>

definition procs_positive :: "proc_table \<Rightarrow> bool" where
  "procs_positive procs \<longleftrightarrow> (\<forall>pid x. procs pid = Inr x \<longrightarrow> pid > 0)"

inductive reachable :: "service \<Rightarrow> core_world \<Rightarrow> nat \<Rightarrow> bool" for sv where
  new: "reachable sv (NewCoreManager d) 0"
| reconciled: "reachable sv (snd (ReconcileRuntimeState sv e (NewCoreManager d))) 0"
    if "re_attach e = None" and "procs_positive (re_procs e)"
| step: "reachable sv (core_exec sv a s) (if schedules_restart sv a s then n + 1 else n)"
    if "reachable sv s n" and "action_ok a"

inductive_cases reachable_stepE: "reachable sv s n"

lemma polling_frame:
  "cm_controller (startPIDPollingLocked s) = cm_controller s" "cm_launch (startPIDPollingLocked s) = cm_launch s"
  "cm_isRunning (startPIDPollingLocked s) = cm_isRunning s" "cm_monitoring (startPIDPollingLocked s) = cm_monitoring s"
  "cm_pid (startPIDPollingLocked s) = cm_pid s" "cm_stopChan (startPIDPollingLocked s) = cm_stopChan s"
  "cm_restartAttempts (startPIDPollingLocked s) = cm_restartAttempts s"
  "cw_controllers (startPIDPollingLocked s) = cw_controllers s" "cw_sessions (startPIDPollingLocked s) = cw_sessions s"
  "cw_closedChans (startPIDPollingLocked s) = cw_closedChans s" "cw_next (startPIDPollingLocked s) = cw_next s"
  by (simp_all add: startPIDPollingLocked_def)

lemma adopt_succeeds: "adoptRuntimeRecord None aff r s \<noteq> (Some er, t)"
  by (simp add: adoptRuntimeRecord_def Let_def)

lemma adopt_ok:
  assumes "idle_ok s" and "core_ids s" and "rr_PID r > 0" and "adoptRuntimeRecord None aff r s = (er, t)"
  shows "core_inv t \<and> running_ok t \<and> cm_restartAttempts t = cm_restartAttempts s \<and> cm_pid t = rr_PID r"
proof -
  have s: "cw_controllers s = []" "cw_sessions s = []" using assms(1) by (simp_all add: idle_ok_def)
  have ids: "distinct (cw_closedChans s)" "\<forall>ch\<in>set (cw_closedChans s). ch < cw_next s"
    using assms(2) by (simp_all add: core_ids_def)
  have t: "running_ok t" "cm_restartAttempts t = cm_restartAttempts s" "cm_pid t = rr_PID r"
    "cw_closedChans t = cw_closedChans s" "cm_stopChan t = Some (cw_next s + 2)" "cw_next t = cw_next s + 3"
    using assms(3,4) s
    by (auto simp: adoptRuntimeRecord_def Let_def polling_frame running_ok_def)
  moreover have "core_ids t"
    unfolding core_ids_def t(4-6) using ids by auto
  ultimately show ?thesis by (simp add: core_inv_def)
qed

lemma reconcile_ok:
  assumes "re_attach e = None" and "procs_positive (re_procs e)" and "idle_ok s" and "core_ids s"
    and "ReconcileRuntimeState sv e s = (er, t)"
  shows "core_inv t \<and> cm_restartAttempts t = cm_restartAttempts s"
proof -
  have inv: "core_inv s" using assms(3,4) by (simp add: core_inv_def)
  have keep: "core_inv (s\<lparr>cw_disk := d\<rparr>)" "core_inv (s\<lparr>cw_stopped := x\<rparr>)" "core_inv (s\<lparr>cw_stopped := x, cw_disk := d\<rparr>)" for d x
    by (rule core_inv_cong(1) [OF inv]; simp)+
  have pid: "rr_PID r > 0" if "record_matches (re_procs e) r" for r
    using that assms(2) by (auto simp: record_matches_def procs_positive_def split: sum.splits)
  show ?thesis
    using assms(1,5) inv keep adopt_ok [OF assms(3,4) pid]
    by (auto simp: ReconcileRuntimeState_def Let_def adopt_succeeds split: file_state.splits sum.splits if_splits
        prod.splits option.splits)
qed

lemma reachable_inv: "reachable sv s n \<Longrightarrow> core_inv s \<and> n \<le> cm_restartAttempts s \<and> n \<le> maxCrashRestarts"
proof (induction rule: reachable.induct)
  case (new d)
  then show ?case by (simp add: core_inv_new)
next
  case (reconciled e d)
  have "idle_ok (NewCoreManager d)" "core_ids (NewCoreManager d)"
    by (simp_all add: idle_ok_def core_ids_def NewCoreManager_def)
  from reconcile_ok [OF reconciled this] show ?case
    by (cases "ReconcileRuntimeState sv e (NewCoreManager d)") simp
next
  case (step s n a)
  then show ?case using core_exec_ok [of s a sv] by auto
qed

end
