(* ===== verification/CoreMachineProps.thy ===== *)
theory CoreMachineProps
  imports CoreMachine
begin

text \<open>
  The properties of the core manager: its invariant in every reachable state, the release
  of everything a failed start acquired, the budget of crash restarts, and the safety of
  adoption after a restart of the service.
\<close>

section \<open>Starts that succeed\<close>

lemma wait_armed:
  "ls_waitReady launch \<Longrightarrow> waitForStartup (armed launch) out sigs = wait_loop out sigs"
  by (simp add: waitForStartup_def armed_def addCleanup_def)

definition start_healthy :: "start_env \<Rightarrow> int \<Rightarrow> bool" where
  "start_healthy e pid \<longleftrightarrow> st_command e = None \<and> st_spawn e = Inr pid \<and> st_attach e = None \<and>
     wait_loop (st_errOutput e) (st_signals e) = None \<and> hardenLaunchControllerEndpoint (st_harden e) = None"

lemma start_process_healthy:
  assumes "preparation sv e p access (cw_next s) (cw_disk s) = (Inr launch, cl)" and "start_healthy e pid"
  shows "\<exists>t. startProcessLocked sv now e p access s = (None, t) \<and> cm_pid t = pid \<and> cm_launch t = Some (armed launch)"
proof -
  have p: "prepareLaunchSession (sv_host sv) (sv_profile sv) (st_prepare e) (cw_next s) p access (cw_disk s) = (Inr launch, cl)"
    using assms(1) by (simp add: preparation_def)
  then have "ls_waitReady launch" by (auto elim!: prepare_Inr)
  with startProcess_prepared [OF p, of now] assms(2) show ?thesis
    by (simp add: start_healthy_def wait_armed attached_def prepared_def)
qed

lemma start_core_healthy:
  assumes "\<not> cm_isRunning s"
    and "preparation sv e p access (cw_next s + 1) (cw_disk s) = (Inr launch, cl)" and "start_healthy e pid"
  shows "\<exists>t. startCoreLocked sv now e p access s = (None, t) \<and> cm_pid t = pid \<and> cm_launch t = Some (armed launch)"
proof -
  let ?s = "(emit now CoreEventStarting MsgStarting None (s\<lparr>cm_isRunning := True\<rparr>))
      \<lparr>cm_stopChan := Some (cw_next s), cw_next := cw_next s + 1\<rparr>"
  have "preparation sv e p access (cw_next ?s) (cw_disk ?s) = (Inr launch, cl)" using assms(2) by simp
  from start_process_healthy [OF this assms(3), of now]
  obtain t where "startProcessLocked sv now e p access ?s = (None, t)" "cm_pid t = pid" "cm_launch t = Some (armed launch)"
    by blast
  then show ?thesis using assms(1) by (simp add: startCoreLocked_def Let_def)
qed

section \<open>A sample service\<close>

definition sample_now :: go_time where "sample_now = \<lparr>wall = 0, monotonic = 0\<rparr>"

definition sample_service :: service where
  "sample_service = \<lparr>sv_host = sample_host, sv_profile = sample_codec, sv_desired = failing_state_codec,
     sv_runtime = \<lparr>marshal = (\<lambda>_. Inl ''unsupported''), unmarshal = (\<lambda>_. Inl ''syntax'')\<rparr>\<rparr>"

definition sample_clean :: clean_env where "sample_clean = \<lparr>ce_line = '''', ce_rm = None\<rparr>"

definition sample_start :: start_env where
  "sample_start = \<lparr>st_prepare = sample_prepare, st_command = None, st_spawn = Inr 42, st_attach = None,
     st_signals = [SigReady None], st_errOutput = '''', st_harden = ([None], None), st_stop = None,
     st_clean = sample_clean, st_procs = (\<lambda>_. Inl ''gone''), st_record = sample_write, st_persist = sample_write\<rparr>"

definition sample_stop :: stop_env where
  "sample_stop = \<lparr>sp_stop = None, sp_clean = sample_clean, sp_persist = sample_write\<rparr>"

definition no_access :: fileAccess where "no_access = \<lparr>fa_groupID = 0, fa_ok = False\<rparr>"

lemma sample_spawn: "spawn_positive sample_start" "spawn_positive (sample_start\<lparr>st_signals := xs\<rparr>)"
  by (simp_all add: spawn_positive_def sample_start_def)

lemma sample_start_healthy: "start_healthy sample_start 42"
  by (simp add: start_healthy_def sample_start_def hardenLaunchControllerEndpoint_def)

lemma sample_normal_fixed: "normalizeLaunchProfile sample_host sample_normal = Inr sample_normal"
  by code_simp

lemma sample_preparation:
  assumes "q = sample_profile \<or> q = sample_normal"
  shows "\<exists>launch. preparation sample_service (sample_start\<lparr>st_signals := xs\<rparr>) (Some q) access sid d = (Inr launch, []) \<and>
    ls_profile launch = sample_normal"
proof -
  have "resolveCoreExecutablePath sample_host (CorePath sample_normal) True = Inr ''/srv/mihomo''"
    by code_simp
  moreover have "resolveLaunchWorkingDir sample_host ''/srv/mihomo''
      ([''-post-up'', ''up'', ''-post-down'', ''true'', ''-ext-ctl-unix'', ''/tmp/c/controller.sock''] @
        stripControllerArgs (Args sample_normal)) = Inr ''/srv''"
    by code_simp
  moreover have "normalizeLaunchProfile sample_host q = Inr sample_normal"
    using assms sample_normalizes sample_normal_fixed by blast
  ultimately show ?thesis
    by (simp add: preparation_def sample_service_def sample_start_def prepareLaunchSession_def
        resolveLaunchProfile_def sample_prepare_def configureManagedController_def Let_def
        sample_normal_def)
qed

lemma sample_preparation':
  assumes "q = sample_profile \<or> q = sample_normal"
  shows "\<exists>launch. preparation sample_service sample_start (Some q) access sid d = (Inr launch, []) \<and>
    ls_profile launch = sample_normal"
proof -
  have "sample_start\<lparr>st_signals := [SigReady None]\<rparr> = sample_start" by (simp add: sample_start_def)
  then show ?thesis using sample_preparation [OF assms, of "[SigReady None]" access sid d] by simp
qed

lemma sample_running:
  "\<exists>s. startCoreLocked sample_service sample_now sample_start (Some sample_profile) no_access (NewCoreManager d) = (None, s) \<and>
     core_inv s \<and> running_ok s \<and> cm_restartAttempts s = 0 \<and> map_option ls_profile (cm_launch s) = Some sample_normal"
proof -
  obtain launch where launch: "preparation sample_service sample_start (Some sample_profile) no_access
      (cw_next (NewCoreManager d) + 1) (cw_disk (NewCoreManager d)) = (Inr launch, [])" "ls_profile launch = sample_normal"
    using sample_preparation' by blast
  from start_core_healthy [OF _ launch(1) sample_start_healthy, of sample_now]
  obtain t where t: "startCoreLocked sample_service sample_now sample_start (Some sample_profile) no_access (NewCoreManager d) = (None, t)"
    "cm_launch t = Some (armed launch)"
    by (auto simp: NewCoreManager_def)
  from startCore_ok [OF core_inv_new sample_spawn(1) t(1)] t launch(2) show ?thesis
    by (simp add: NewCoreManager_def armed_def addCleanup_def)
qed

section \<open>Properties\<close>





text \<open>
  C34. Crash recovery is bounded for the life of the service: however the core is started,
  stopped and restarted in between, at most three crashes lead to an automatic restart,
  and each crash that does is counted.  The count never goes back.
\<close>

theorem crash_restarts_bounded:
  assumes "reachable sv s n" and "action_ok a"
  shows "n \<le> maxCrashRestarts \<and> n \<le> cm_restartAttempts s \<and>
         cm_restartAttempts s \<le> cm_restartAttempts (core_exec sv a s) \<and>
         (cm_restartAttempts s \<ge> maxCrashRestarts \<longrightarrow> \<not> schedules_restart sv a s)"
  using reachable_inv [OF assms(1)] core_exec_ok [of s a sv] assms(2) by auto

theorem crash_restarts_bounded_witness:
  "\<exists>s. reachable sample_service s 1 \<and> 1 \<le> cm_restartAttempts s \<and> \<not> cm_isRunning s"
proof -
  let ?a = "StartCore sample_now sample_start (Some sample_profile) no_access"
  let ?s = "core_exec sample_service ?a (NewCoreManager (\<lambda>_. Absent))"
  let ?c = "CrashExit sample_now sample_clean"
  have r: "reachable sample_service ?s 0"
    using reachable.step [OF reachable.new, of ?a sample_service "\<lambda>_. Absent"] sample_spawn(1) by simp
  obtain s where s: "?s = s" "core_inv s" "running_ok s" "cm_restartAttempts s = 0"
    using sample_running [of "\<lambda>_. Absent"] by auto
  then have "\<not> idle_ok s" by (auto simp: running_ok_def idle_ok_def)
  obtain x t where h: "handleProcessExit sample_service sample_now sample_clean s = (x, t)" by fastforce
  from handleProcessExit_ok [OF s(2) h] s(4) \<open>\<not> idle_ok s\<close>
  have x: "x \<noteq> None" "idle_ok t" by (simp_all add: maxCrashRestarts_def)
  then have "reachable sample_service t 1"
    using reachable.step [OF r, of ?c] s(1) h by simp
  from this crash_restarts_bounded [OF this, of PollEnds] x(2) show ?thesis
    by (auto simp: idle_ok_def)
qed

text \<open>
  A stop during a crash restart is lost: after a crash the manager is idle until the
  restart goroutine runs; a \<open>StopCore\<close> in that window reports success, and the attempt
  that follows starts the core again with the profile of the crashed one.
\<close>

theorem stop_lost_during_restart:
  assumes "core_inv s" and "running_ok s" and "cm_restartAttempts s < maxCrashRestarts"
    and "handleProcessExit sv now ce s = (x, s1)" and "stopCoreLocked sv now e s1 = (r, s2)"
    and "spawn_positive e'" and "start_healthy e' pid"
    and "\<And>p a sid d. x = Some (p, a) \<Longrightarrow> \<exists>l cl. preparation sv e' (Some p) a sid d = (Inr l, cl)"
  shows "\<exists>p a s3. x = Some (p, a) \<and> r = None \<and> idle_ok s2 \<and>
    startCoreLocked sv now e' (Some p) a s2 = (None, s3) \<and> running_ok s3"
proof -
  have "\<not> idle_ok s" using assms(2) by (auto simp: running_ok_def idle_ok_def)
  with handleProcessExit_ok [OF assms(1,4)] assms(3)
  obtain p a where x: "x = Some (p, a)" and s1: "core_inv s1" "idle_ok s1" by auto
  from stopCore_ok [OF s1(1) assms(5)] s1(2)
  have s2: "core_inv s2" "idle_ok s2" "r = None" by (auto simp: idle_ok_def)
  obtain l cl where "preparation sv e' (Some p) a (cw_next s2 + 1) (cw_disk s2) = (Inr l, cl)"
    using assms(8) [OF x] by blast
  from start_core_healthy [OF _ this assms(7), of now] s2(2)
  obtain s3 where s3: "startCoreLocked sv now e' (Some p) a s2 = (None, s3)" by (auto simp: idle_ok_def)
  from startCore_ok [OF s2(1) assms(6) s3] s3 x s2 show ?thesis by auto
qed

theorem stop_lost_during_restart_witness:
  "\<exists>s s1 s2 s3 p a. running_ok s \<and>
     handleProcessExit sample_service sample_now sample_clean s = (Some (p, a), s1) \<and>
     stopCoreLocked sample_service sample_now sample_stop s1 = (None, s2) \<and>
     startCoreLocked sample_service sample_now sample_start (Some p) a s2 = (None, s3) \<and> running_ok s3"
proof -
  obtain s where s: "core_inv s" "running_ok s" "cm_restartAttempts s = 0"
    "map_option ls_profile (cm_launch s) = Some sample_normal"
    using sample_running by blast
  obtain x s1 where h: "handleProcessExit sample_service sample_now sample_clean s = (x, s1)" by fastforce
  obtain r s2 where st: "stopCoreLocked sample_service sample_now sample_stop s1 = (r, s2)" by fastforce
  have "\<not> idle_ok s" using s(2) by (auto simp: running_ok_def idle_ok_def)
  then have "p = sample_normal" if "x = Some (p, a)" for p a
    using handleProcessExit_ok [OF s(1) h] that s(4) by simp
  then have "\<exists>l cl. preparation sample_service sample_start (Some p) a sid d = (Inr l, cl)"
    if "x = Some (p, a)" for p a sid d
    using sample_preparation' [of p a sid d] that by blast
  from stop_lost_during_restart [OF s(1,2) _ h st sample_spawn(1) sample_start_healthy this] s(2,3) h st
  show ?thesis by (auto simp: maxCrashRestarts_def)
qed



text \<open>
  C36. After a restart the service touches only its own core: \<open>ReconcileRuntimeState\<close> adopts
  or terminates a process only if the process table still shows the recorded start time
  and executable under the recorded identifier; in every other case the manager stays idle
  and no process is stopped.
\<close>

theorem reconcile_touches_own_core:
  assumes "idle_ok s" and "ReconcileRuntimeState sv e s = (er, t)"
    and "cm_isRunning t \<or> cw_stopped t \<noteq> cw_stopped s"
  shows "\<exists>data r. cw_disk s (runtimeRecordPath (sv_host sv)) = Content data \<and>
    unmarshal (sv_runtime sv) data = Inr r \<and> record_matches (re_procs e) r \<and>
    (cm_isRunning t \<longrightarrow> cm_pid t = rr_PID r \<and> re_reachable e) \<and>
    (cw_stopped t \<noteq> cw_stopped s \<longrightarrow> cw_stopped t = rr_PID r # cw_stopped s)"
proof -
  have frame: "cw_stopped (snd (adoptRuntimeRecord att aff r s)) = cw_stopped s" for att aff r
    by (simp add: adoptRuntimeRecord_def Let_def startPIDPollingLocked_def split: option.splits)
  have failed: "\<not> cm_isRunning u \<and> cw_stopped u = cw_stopped s" if "adoptRuntimeRecord att aff r s = (Some x, u)" for att aff r x u
    using that assms(1) by (auto simp: adoptRuntimeRecord_def Let_def idle_ok_def split: option.splits)
  have adopted: "cm_pid u = rr_PID r \<and> cw_stopped u = cw_stopped s" if "adoptRuntimeRecord att aff r s = (None, u)" for att aff r u
    using that by (auto simp: adoptRuntimeRecord_def Let_def startPIDPollingLocked_def split: option.splits if_splits)
  have idle: "\<not> cm_isRunning s" using assms(1) by (simp add: idle_ok_def)
  show ?thesis
    using assms(2,3) idle
    by (auto simp: ReconcileRuntimeState_def Let_def dest!: failed adopted
        split: file_state.splits sum.splits if_splits prod.splits option.splits)
qed

definition sample_record :: runtimeRecord where
  "sample_record = \<lparr>rr_PID = 7, rr_StartTime = 5, rr_Executable = ''/srv/mihomo'', rr_ControllerNet = ''unix'',
     rr_ControllerAddr = ''/tmp/c.sock'', rr_Profile = zeroProfile\<rparr>"

definition record_service :: service where
  "record_service = sample_service\<lparr>sv_runtime :=
     \<lparr>marshal = (\<lambda>_. Inl ''unsupported''), unmarshal = (\<lambda>b. if b = ''r'' then Inr sample_record else Inl ''syntax'')\<rparr>\<rparr>"

definition sample_table :: proc_table where
  "sample_table pid = (if pid = 7
     then Inr \<lparr>pi_create = Inr 5, pi_exe = Inr ''/srv/mihomo'', pi_name = Inr ''mihomo''\<rparr> else Inl ''no process'')"

definition sample_reconcile :: reconcile_env where
  "sample_reconcile = \<lparr>re_procs = sample_table, re_reachable = True, re_attach = None, re_affinity = [],
     re_terminate = None, re_exists = [], re_rm = None\<rparr>"

theorem reconcile_touches_own_core_witness:
  "\<exists>s er t. ReconcileRuntimeState record_service sample_reconcile s = (er, t) \<and> cm_isRunning t \<and>
     cm_pid t = 7 \<and> record_matches sample_table sample_record"
proof -
  let ?s = "NewCoreManager (\<lambda>_. Content ''r'')"
  have idle: "idle_ok ?s" by (simp add: idle_ok_def NewCoreManager_def)
  obtain er t where run: "ReconcileRuntimeState record_service sample_reconcile ?s = (er, t)" by fastforce
  have m: "record_matches sample_table sample_record"
    by (simp add: record_matches_def sample_table_def sample_record_def)
  have t: "cm_isRunning t"
    using run m
    by (auto simp: ReconcileRuntimeState_def Let_def NewCoreManager_def record_service_def sample_service_def
        sample_reconcile_def sample_record_def adoptRuntimeRecord_def startPIDPollingLocked_def)
  then have "cm_isRunning t \<or> cw_stopped t \<noteq> cw_stopped ?s" by blast
  from reconcile_touches_own_core [OF idle run this] t
  have "cm_pid t = rr_PID sample_record"
    by (auto simp: NewCoreManager_def record_service_def)
  then show ?thesis using run t m by (auto simp: sample_record_def)
qed

text \<open>
  A takeover picks the newest candidate: the process it returns is in the controller's
  group, is not the old one, carries the name or the path of the core's executable, and no
  other candidate was created later; without a candidate there is no takeover.
\<close>

theorem takeover_newest_candidate:
  "case findManagedCorePID procs (Inr pids) oldPID launch of
     Some p \<Rightarrow> p \<in> set pids \<and> p > 0 \<and> p \<noteq> oldPID \<and> isCoreProcessCandidate procs p launch \<and>
       (\<forall>q\<in>set pids. q > 0 \<and> q \<noteq> oldPID \<and> isCoreProcessCandidate procs q launch \<longrightarrow>
          create_time procs q \<le> create_time procs p)
   | None \<Rightarrow> \<forall>q\<in>set pids. \<not> (q > 0 \<and> q \<noteq> oldPID \<and> isCoreProcessCandidate procs q launch)"
proof -
  obtain p t where best: "find_best procs oldPID launch (0, 0) pids = (p, t)" by fastforce
  note sound = find_best_sound [OF _ best] and late = find_best_latest [OF best]
  show ?thesis
  proof (cases "p = 0")
    case True
    have "find_best procs oldPID launch (0, 0) pids \<noteq> (0, t)"
      if "q \<in> set pids" "q > 0" "q \<noteq> oldPID" "isCoreProcessCandidate procs q launch" for q
      using find_best_some [OF that, of 0 0] by auto
    then show ?thesis using best True by (auto simp: findManagedCorePID_def)
  next
    case False
    then show ?thesis using best sound late by (auto simp: findManagedCorePID_def)
  qed
qed

definition sample_session :: launchSession where
  "sample_session = \<lparr>ls_id = 0, ls_sourcePath = ''/srv/mihomo'', ls_executablePath = ''/srv/mihomo'', ls_workingDir = ''/srv'',
     ls_args = [], ls_env = [], ls_hookUpFile = [], ls_waitReady = True, ls_readyNotify = True, ls_cpuPriority = [],
     ls_logPath = [], ls_saveLogs = True, ls_maxLogBytes = 0, ls_fileAccess = no_access, ls_controllerNet = ''unix'',
     ls_controllerAddr = ''/tmp/c.sock'', ls_defaultCPUAffinity = [], ls_profile = zeroProfile, ls_cleanup = []\<rparr>"

theorem takeover_newest_candidate_witness:
  "findManagedCorePID sample_table (Inr [3, 7]) 3 sample_session = Some 7"
proof -
  have "EqualFold ''/srv/mihomo'' ''/srv/mihomo''" by (simp add: EqualFold_def)
  then have c: "isCoreProcessCandidate sample_table 7 sample_session"
    by (simp add: isCoreProcessCandidate_def sample_table_def sample_session_def)
  show ?thesis
    using takeover_newest_candidate [where procs = sample_table and pids = "[3, 7]" and oldPID = 3
        and launch = sample_session] c
    by (auto split: option.splits)
qed

text \<open>
  The pause before a crash restart is bounded: nothing before the first attempt, then one
  second, doubling with every attempt, and never more than thirty seconds.
\<close>

theorem backoff_doubles_to_cap:
  "restartBackoff n =
     (if n \<le> 0 then 0 else if n \<le> 5 then 2 ^ nat (n - 1) * nanos_per_second else 30 * nanos_per_second)"
proof (cases "n \<le> 5")
  case True
  then have "n \<le> 0 \<or> n \<in> {1, 2, 3, 4, 5}" by auto
  then show ?thesis by (auto simp: restartBackoff_def nanos_per_second_def Let_def)
next
  case False
  then have "min (n - 1) 5 = 5" by simp
  then show ?thesis using False by (simp add: restartBackoff_def nanos_per_second_def)
qed



end
