(* ===== verification/SysproxyGuard.thy ===== *)
theory SysproxyGuard
  imports SysproxyEvents GoStrings
begin

text \<open>
  The system proxy guard, \<open>route/sysproxyapi/sysproxy_guard.go\<close>: what it remembers of the
  proxy settings, when it considers them changed, how it starts, stops and restores, and
  the handlers of \<open>route/sysproxyapi/sysproxy.go\<close> that set and clear the proxy.  The
  library \<open>sysproxy-go\<close> reads and writes the settings of the desktop; its answers are
  arguments.
\<close>

section \<open>Settings and options\<close>

text \<open>The fields of the library's configuration and option types that the sources use.\<close>

record ProxyConfig =
  pc_ProxyEnable :: bool
  pc_SameForAll :: bool
  pc_Servers :: "(string \<times> string) list"
  pc_Bypass :: string
  pc_PACEnable :: bool
  pc_PACURL :: string

record Options =
  op_Proxy :: string
  op_Bypass :: string
  op_PACURL :: string
  op_Device :: string
  op_OnlyActiveDevice :: bool
  op_UseRegistry :: bool
  op_PeerPID :: int
  op_PeerUID :: int
  op_PeerGID :: int
  op_Environment :: "string list"

definition zeroOptions :: Options where
  "zeroOptions = \<lparr>op_Proxy = '''', op_Bypass = '''', op_PACURL = '''', op_Device = '''',
     op_OnlyActiveDevice = False, op_UseRegistry = False, op_PeerPID = 0, op_PeerUID = 0, op_PeerGID = 0,
     op_Environment = []\<rparr>"

definition sysproxyGuardModeProxy :: string where "sysproxyGuardModeProxy = ''proxy''"
definition sysproxyGuardModePAC :: string where "sysproxyGuardModePAC = ''pac''"

lemmas guard_mode_defs = sysproxyGuardModeProxy_def sysproxyGuardModePAC_def

definition cloneSysproxyOptions :: "Options option \<Rightarrow> Options" where
  "cloneSysproxyOptions opt = (case opt of None \<Rightarrow> zeroOptions | Some o1 \<Rightarrow> o1)"

text \<open>\<open>peer\<close> is what the connection says of its peer, on Linux: process, user and group.\<close>

definition prepareSysproxyOptions :: "(int \<times> int \<times> int) option \<Rightarrow> Options \<Rightarrow> Options" where
  "prepareSysproxyOptions peer opt =
    (case peer of None \<Rightarrow> cloneSysproxyOptions (Some opt)
     | Some (pid, uid, gid) \<Rightarrow>
        (cloneSysproxyOptions (Some opt))\<lparr>op_PeerPID := pid, op_PeerUID := uid, op_PeerGID := gid\<rparr>)"

section \<open>Snapshots\<close>

record sysproxyGuardSnapshot =
  sn_Mode :: string
  sn_ProxyEnable :: bool
  sn_ProxySameForAll :: bool
  sn_ProxyServers :: "(string \<times> string) list"
  sn_ProxyBypass :: string
  sn_ProxyPACConflict :: bool
  sn_PACEnable :: bool
  sn_PACURL :: string
  sn_PACProxyConflict :: bool

text \<open>A Go map with distinct keys; the nil map and the empty one do not differ here, since
  \<open>copyStringMap\<close> never returns an empty map that is not nil.\<close>

definition copyStringMap :: "(string \<times> string) list \<Rightarrow> (string \<times> string) list" where
  "copyStringMap src = filter (\<lambda>(key, v). v \<noteq> []) src"

definition newSysproxyGuardSnapshot :: "string \<Rightarrow> ProxyConfig option \<Rightarrow> sysproxyGuardSnapshot" where
  "newSysproxyGuardSnapshot mode config =
    (let snapshot = \<lparr>sn_Mode = mode, sn_ProxyEnable = False, sn_ProxySameForAll = False, sn_ProxyServers = [],
           sn_ProxyBypass = '''', sn_ProxyPACConflict = False, sn_PACEnable = False, sn_PACURL = '''',
           sn_PACProxyConflict = False\<rparr>
     in case config of None \<Rightarrow> snapshot
        | Some c \<Rightarrow>
           if mode = sysproxyGuardModeProxy
           then snapshot\<lparr>sn_ProxyEnable := pc_ProxyEnable c, sn_ProxySameForAll := pc_SameForAll c,
                  sn_ProxyServers := copyStringMap (pc_Servers c), sn_ProxyBypass := pc_Bypass c,
                  sn_ProxyPACConflict := pc_PACEnable c\<rparr>
           else if mode = sysproxyGuardModePAC
           then snapshot\<lparr>sn_PACEnable := pc_PACEnable c, sn_PACURL := pc_PACURL c,
                  sn_PACProxyConflict := pc_ProxyEnable c\<rparr>
           else snapshot)"

text \<open>\<open>reflect.DeepEqual\<close> on maps: the same number of keys, each with the same value.\<close>

definition map_equal :: "(string \<times> string) list \<Rightarrow> (string \<times> string) list \<Rightarrow> bool" where
  "map_equal a b \<longleftrightarrow> length a = length b \<and> list_all (\<lambda>(k, v). map_of b k = Some v) a"

definition snapshot_equal :: "sysproxyGuardSnapshot \<Rightarrow> sysproxyGuardSnapshot \<Rightarrow> bool" where
  "snapshot_equal a b \<longleftrightarrow> map_equal (sn_ProxyServers a) (sn_ProxyServers b) \<and>
     a\<lparr>sn_ProxyServers := []\<rparr> = b\<lparr>sn_ProxyServers := []\<rparr>"

definition sysproxyGuardMatches :: "string \<Rightarrow> sysproxyGuardSnapshot \<Rightarrow> ProxyConfig option \<Rightarrow> bool" where
  "sysproxyGuardMatches mode expected current =
    snapshot_equal expected (newSysproxyGuardSnapshot mode current)"

fun firstNonEmpty :: "string list \<Rightarrow> string" where
  "firstNonEmpty [] = []"
| "firstNonEmpty (v # vs) = (if v \<noteq> [] then v else firstNonEmpty vs)"

definition server_of :: "(string \<times> string) list \<Rightarrow> string \<Rightarrow> string" where
  "server_of m k = (case map_of m k of None \<Rightarrow> [] | Some v \<Rightarrow> v)"

definition fillSysproxyGuardApplyOptions :: "string \<Rightarrow> Options \<Rightarrow> sysproxyGuardSnapshot \<Rightarrow> Options" where
  "fillSysproxyGuardApplyOptions mode opts expected =
    (if mode = sysproxyGuardModeProxy
     then opts\<lparr>op_Proxy := firstNonEmpty
              [server_of (sn_ProxyServers expected) ''http_server'', server_of (sn_ProxyServers expected) ''https_server'',
               server_of (sn_ProxyServers expected) ''socks_server'', op_Proxy opts],
            op_Bypass := sn_ProxyBypass expected\<rparr>
     else if mode = sysproxyGuardModePAC then opts\<lparr>op_PACURL := sn_PACURL expected\<rparr>
     else opts)"

definition newSysproxyGuardWatchOptions :: "Options option \<Rightarrow> Options" where
  "newSysproxyGuardWatchOptions opts =
    (case opts of None \<Rightarrow> zeroOptions
     | Some o1 \<Rightarrow> zeroOptions\<lparr>op_Device := op_Device o1, op_OnlyActiveDevice := op_OnlyActiveDevice o1,
                     op_UseRegistry := op_UseRegistry o1\<rparr>)"

section \<open>Error texts\<close>

text \<open>The prefixes with which the sources wrap an error, as the UTF-8 bytes of the literals.\<close>

definition captureFailedText :: string where
  "captureFailedText = map (char_of :: nat \<Rightarrow> char)
    [229, 136, 157, 229, 167, 139, 229, 140, 150, 231, 179, 187, 231, 187, 159, 228, 187, 163,
    231, 144, 134, 229, 174, 136, 230, 138, 164, 229, 164, 177, 232, 180, 165, 239, 188, 154]"

definition targetFailedText :: string where
  "targetFailedText = map (char_of :: nat \<Rightarrow> char)
    [232, 175, 187, 229, 143, 150, 231, 179, 187, 231, 187, 159, 228, 187, 163, 231, 144, 134,
    229, 174, 136, 230, 138, 164, 231, 155, 174, 230, 160, 135, 229, 164, 177, 232, 180, 165,
    239, 188, 154]"

definition environFailedText :: string where
  "environFailedText = map (char_of :: nat \<Rightarrow> char)
    [232, 175, 187, 229, 143, 150, 232, 191, 158, 230, 142, 165, 232, 191, 155, 231, 168, 139,
    231, 142, 175, 229, 162, 131, 229, 164, 177, 232, 180, 165, 239, 188, 154]"

definition recheckFailedText :: string where
  "recheckFailedText = map (char_of :: nat \<Rightarrow> char)
    [231, 179, 187, 231, 187, 159, 228, 187, 163, 231, 144, 134, 229, 174, 136, 230, 138, 164,
    230, 129, 162, 229, 164, 141, 229, 144, 142, 230, 163, 128, 230, 159, 165, 229, 164, 177,
    232, 180, 165, 239, 188, 154]"

definition bodyInvalidText :: string where
  "bodyInvalidText = map (char_of :: nat \<Rightarrow> char)
    [230, 151, 160, 230, 149, 136, 231, 154, 132, 232, 175, 183, 230, 177, 130, 228, 189, 147,
    58, 32]"

definition unknownModeText :: string where
  "unknownModeText = map (char_of :: nat \<Rightarrow> char)
    [230, 156, 170, 231, 159, 165, 231, 179, 187, 231, 187, 159, 228, 187, 163, 231, 144, 134,
    229, 174, 136, 230, 138, 164, 230, 168, 161, 229, 188, 143, 239, 188, 154]"

section \<open>The library and its runner\<close>

text \<open>
  The functions of \<open>sysproxy-go\<close> on the settings of a desktop session, of any type: one
  query and three changes, each of which may fail after having changed something.
\<close>

record 'd sysproxy_lib =
  QueryProxySettings :: "Options \<Rightarrow> 'd \<Rightarrow> (string, ProxyConfig option) result"
  SetProxy :: "Options \<Rightarrow> 'd \<Rightarrow> string option \<times> 'd"
  SetPac :: "Options \<Rightarrow> 'd \<Rightarrow> string option \<times> 'd"
  DisableProxy :: "Options \<Rightarrow> 'd \<Rightarrow> string option \<times> 'd"

record linuxSysproxyGuardRunner =
  rn_env :: "string list"
  rn_uid :: int
  rn_gid :: int

text \<open>\<open>environ\<close> is the content of \<open>/proc/<pid>/environ\<close> or the error of reading it.\<close>

definition readLinuxProcessEnv :: "bytes \<Rightarrow> string list" where
  "readLinuxProcessEnv data = filter (\<lambda>item. item \<noteq> [] \<and> contains item ''='') (split_on (CHR 0x00) data)"

definition captureSysproxyGuardRunner ::
    "(int \<times> int \<times> int) option \<Rightarrow> (string, bytes) result \<Rightarrow> (string, linuxSysproxyGuardRunner) result" where
  "captureSysproxyGuardRunner peer environ =
    (case peer of None \<Rightarrow> Inr \<lparr>rn_env = [], rn_uid = 0, rn_gid = 0\<rparr>
     | Some (pid, uid, gid) \<Rightarrow>
        (case environ of Inl er \<Rightarrow> Inl (environFailedText @ er)
         | Inr data \<Rightarrow> Inr \<lparr>rn_env = readLinuxProcessEnv data, rn_uid = uid, rn_gid = gid\<rparr>))"

definition sessionOptions :: "linuxSysproxyGuardRunner \<Rightarrow> Options option \<Rightarrow> Options" where
  "sessionOptions r opts =
    (cloneSysproxyOptions opts)\<lparr>op_Environment := rn_env r, op_PeerUID := rn_uid r, op_PeerGID := rn_gid r\<rparr>"

definition applySysproxyGuardSettings ::
    "'d sysproxy_lib \<Rightarrow> string \<Rightarrow> Options \<Rightarrow> 'd \<Rightarrow> string option \<times> 'd" where
  "applySysproxyGuardSettings lib mode opts d =
    (if mode = sysproxyGuardModeProxy then SetProxy lib opts d
     else if mode = sysproxyGuardModePAC then SetPac lib opts d
     else (Some (unknownModeText @ mode), d))"

definition runner_Query ::
    "'d sysproxy_lib \<Rightarrow> linuxSysproxyGuardRunner \<Rightarrow> Options \<Rightarrow> 'd \<Rightarrow> (string, ProxyConfig option) result" where
  "runner_Query lib r opts d = QueryProxySettings lib (sessionOptions r (Some opts)) d"

definition runner_Apply ::
    "'d sysproxy_lib \<Rightarrow> linuxSysproxyGuardRunner \<Rightarrow> string \<Rightarrow> Options \<Rightarrow> 'd \<Rightarrow> string option \<times> 'd" where
  "runner_Apply lib r mode opts d = applySysproxyGuardSettings lib mode (sessionOptions r (Some opts)) d"

section \<open>The guard\<close>

record sysproxyGuardConfig =
  gc_mode :: string
  gc_opts :: Options
  gc_watchOpts :: Options
  gc_expected :: sysproxyGuardSnapshot
  gc_runner :: linuxSysproxyGuardRunner

text \<open>
  The state of \<open>sysproxyGuardState\<close> with the contexts it created (numbered; the cancelled
  ones are listed), the goroutines it started, the event hub and the desktop's settings.
\<close>

record 'd guard_world =
  gw_generation :: "64 word"
  gw_cancel :: "nat option"
  gw_cancelled :: "nat list"
  gw_nextCtx :: nat
  gw_runs :: "(nat \<times> 64 word \<times> sysproxyGuardConfig) list"
  gw_hub :: sysproxyEventHub
  gw_desktop :: 'd

definition newGuardWorld :: "'d \<Rightarrow> 'd guard_world" where
  "newGuardWorld d = \<lparr>gw_generation = 0, gw_cancel = None, gw_cancelled = [], gw_nextCtx = 0, gw_runs = [],
     gw_hub = emptySysproxyEventHub, gw_desktop = d\<rparr>"

definition report ::
    "go_time \<Rightarrow> guard_event_type \<Rightarrow> string \<Rightarrow> bool \<Rightarrow> guard_text \<Rightarrow> string option \<Rightarrow> 'd guard_world \<Rightarrow> 'd guard_world" where
  "report now t mode guard msg err g =
    g\<lparr>gw_hub := publishSysproxyGuardEvent now t mode guard msg err (gw_hub g)\<rparr>"

definition guard_start :: "go_time \<Rightarrow> sysproxyGuardConfig \<Rightarrow> 'd guard_world \<Rightarrow> 'd guard_world" where
  "guard_start now config g =
    (let ctx = gw_nextCtx g; generation = gw_generation g + 1;
         g1 = g\<lparr>gw_generation := generation, gw_cancel := Some ctx, gw_nextCtx := ctx + 1,
                gw_cancelled := (case gw_cancel g of None \<Rightarrow> gw_cancelled g | Some c \<Rightarrow> c # gw_cancelled g)\<rparr>;
         g2 = report now GuardStarted (gc_mode config) True GStarted None g1
     in g2\<lparr>gw_runs := gw_runs g2 @ [(ctx, generation, config)]\<rparr>)"

definition guard_stop :: "go_time \<Rightarrow> 'd guard_world \<Rightarrow> 'd guard_world" where
  "guard_stop now g =
    (let g1 = g\<lparr>gw_generation := gw_generation g + 1, gw_cancel := None\<rparr>
     in case gw_cancel g of None \<Rightarrow> g1
        | Some c \<Rightarrow> report now GuardStopped '''' False GStopped None (g1\<lparr>gw_cancelled := c # gw_cancelled g1\<rparr>))"

definition active :: "64 word \<Rightarrow> 'd guard_world \<Rightarrow> bool" where
  "active generation g \<longleftrightarrow> gw_generation g = generation"

text \<open>
  The request of a handler: the time, the peer of the connection and the environment of
  the peer's process.
\<close>

record guard_request =
  gq_now :: go_time
  gq_peer :: "(int \<times> int \<times> int) option"
  gq_environ :: "(string, bytes) result"

definition configureSysproxyGuard ::
    "'d sysproxy_lib \<Rightarrow> guard_request \<Rightarrow> bool \<Rightarrow> string \<Rightarrow> Options \<Rightarrow> 'd guard_world
     \<Rightarrow> string option \<times> 'd guard_world" where
  "configureSysproxyGuard lib r enabled mode opts g =
    (if \<not> enabled then (None, guard_stop (gq_now r) g)
     else case captureSysproxyGuardRunner (gq_peer r) (gq_environ r) of
       Inl er \<Rightarrow> (Some (captureFailedText @ er), g)
     | Inr runner \<Rightarrow>
        let guardOpts = cloneSysproxyOptions (Some opts)
        in case runner_Query lib runner guardOpts (gw_desktop g) of
             Inl er \<Rightarrow> (Some (targetFailedText @ er), g)
           | Inr current \<Rightarrow>
              let expected = newSysproxyGuardSnapshot mode current;
                  filled = fillSysproxyGuardApplyOptions mode guardOpts expected
              in (None, guard_start (gq_now r) \<lparr>gc_mode = mode, gc_opts = filled,
                    gc_watchOpts = newSysproxyGuardWatchOptions (Some filled), gc_expected = expected,
                    gc_runner = runner\<rparr> g))"

definition configureSysproxyGuardBestEffort ::
    "'d sysproxy_lib \<Rightarrow> guard_request \<Rightarrow> bool \<Rightarrow> string \<Rightarrow> Options \<Rightarrow> 'd guard_world \<Rightarrow> 'd guard_world" where
  "configureSysproxyGuardBestEffort lib r enabled mode opts g =
    (case configureSysproxyGuard lib r enabled mode opts g of
       (None, g1) \<Rightarrow> g1
     | (Some er, g1) \<Rightarrow> report (gq_now r) GuardWatchFailed mode False GStartFailed (Some er) g1)"

section \<open>One round of the guard\<close>

text \<open>
  The answers in one round of the loop of \<open>run\<close>: whether the context is done at the two
  places before the query, whether the wait after a failure was ended by a change, and how
  the wait for the next change ended.  \<open>rd_render\<close> is the text that \<open>fmt\<close> gives for two
  differing snapshots.
\<close>

datatype watch_end = WatchDone | WatchChanged | WatchError string bool | WatchCancelled bool

record guard_round =
  rd_now :: go_time
  rd_done :: bool
  rd_changed :: bool
  rd_watch :: watch_end
  rd_render :: "sysproxyGuardSnapshot \<Rightarrow> sysproxyGuardSnapshot \<Rightarrow> string"

text \<open>The section under \<open>sysproxyMutationMu\<close>: the error or whether it restored.\<close>

definition restore_section ::
    "'d sysproxy_lib \<Rightarrow> 64 word \<Rightarrow> sysproxyGuardConfig \<Rightarrow> guard_round \<Rightarrow> 'd guard_world
     \<Rightarrow> (string, bool) result \<times> 'd guard_world" where
  "restore_section lib generation config r g =
    (if \<not> active generation g then (Inr False, g)
     else
       let g1 = report (rd_now r) GuardChanged (gc_mode config) True GChanged None g
       in case runner_Apply lib (gc_runner config) (gc_mode config) (gc_opts config) (gw_desktop g1) of
            (Some er, d) \<Rightarrow> (Inl er, g1\<lparr>gw_desktop := d\<rparr>)
          | (None, d) \<Rightarrow>
             let g2 = g1\<lparr>gw_desktop := d\<rparr>
             in (case runner_Query lib (gc_runner config) (gc_opts config) d of
                   Inl er \<Rightarrow> (Inl (recheckFailedText @ er), g2)
                 | Inr current \<Rightarrow>
                    if \<not> sysproxyGuardMatches (gc_mode config) (gc_expected config) current
                    then (Inl (rd_render r (gc_expected config) (newSysproxyGuardSnapshot (gc_mode config) current)), g2)
                    else (Inr True, g2)))"

text \<open>An error is published when its text differs from the last one.\<close>

definition report_once ::
    "go_time \<Rightarrow> guard_event_type \<Rightarrow> string \<Rightarrow> guard_text \<Rightarrow> string \<Rightarrow> string \<Rightarrow> 'd guard_world \<Rightarrow> 'd guard_world" where
  "report_once now t mode msg lastErr er g =
    (if er \<noteq> lastErr then report now t mode True msg (Some er) g else g)"

text \<open>The result: whether the loop goes on, the last error text, and the state.\<close>

definition guard_run_round ::
    "'d sysproxy_lib \<Rightarrow> 64 word \<Rightarrow> sysproxyGuardConfig \<Rightarrow> string \<Rightarrow> guard_round \<Rightarrow> 'd guard_world
     \<Rightarrow> bool \<times> string \<times> 'd guard_world" where
  "guard_run_round lib generation config lastErr r g =
    (if rd_done r then (False, lastErr, g)
     else case runner_Query lib (gc_runner config) (gc_opts config) (gw_desktop g) of
       Inl er \<Rightarrow> (rd_changed r, er, report_once (rd_now r) GuardCheckFailed (gc_mode config) GCheckFailed lastErr er g)
     | Inr current \<Rightarrow>
         let outcome = (if sysproxyGuardMatches (gc_mode config) (gc_expected config) current then (Inr False, g)
                        else restore_section lib generation config r g)
         in (case outcome of
               (Inl er, g1) \<Rightarrow>
                 (rd_changed r, er, report_once (rd_now r) GuardRestoreFailed (gc_mode config) GRestoreFailed lastErr er g1)
             | (Inr restored, g1) \<Rightarrow>
                 let g2 = (if restored then report (rd_now r) GuardRestored (gc_mode config) True GRestored None g1 else g1)
                 in (case rd_watch r of
                       WatchDone \<Rightarrow> (False, '''', g2)
                     | WatchChanged \<Rightarrow> (True, '''', g2)
                     | WatchError er ctxDone \<Rightarrow>
                         if ctxDone then (False, '''', g2)
                         else (True, er, report_once (rd_now r) GuardWatchFailed (gc_mode config) GWatchRetry '''' er g2)
                     | WatchCancelled ctxDone \<Rightarrow> (\<not> ctxDone, '''', g2))))"

text \<open>The loop over the answers of its rounds, as long as nothing else runs.\<close>

fun guard_run ::
    "'d sysproxy_lib \<Rightarrow> 64 word \<Rightarrow> sysproxyGuardConfig \<Rightarrow> string \<Rightarrow> guard_round list \<Rightarrow> 'd guard_world \<Rightarrow> 'd guard_world" where
  "guard_run lib generation config lastErr [] g = g"
| "guard_run lib generation config lastErr (r # rs) g =
    (case guard_run_round lib generation config lastErr r g of
       (True, er, g1) \<Rightarrow> guard_run lib generation config er rs g1
     | (False, er, g1) \<Rightarrow> g1)"

section \<open>Handlers\<close>

record proxyRequest =
  pr_Server :: string
  pr_Bypass :: string
  pr_Url :: string
  pr_Device :: string
  pr_OnlyActiveDevice :: bool
  pr_UseRegistry :: bool
  pr_Guard :: bool

datatype 'a handler_result = HBadRequest string | HFailed string | HNoContent | HJSON 'a

text \<open>The locked section of \<open>pac\<close> and \<open>proxy\<close>; their calls of \<open>StopGuard\<close> come before it,
  outside the lock.\<close>

definition set_section ::
    "'d sysproxy_lib \<Rightarrow> guard_request \<Rightarrow> string \<Rightarrow> bool \<Rightarrow> Options \<Rightarrow> 'd guard_world \<Rightarrow> string option \<times> 'd guard_world" where
  "set_section lib r mode guard opts g =
    (case (if mode = sysproxyGuardModePAC then SetPac lib opts (gw_desktop g) else SetProxy lib opts (gw_desktop g)) of
       (Some er, d) \<Rightarrow> (Some er, g\<lparr>gw_desktop := d\<rparr>)
     | (None, d) \<Rightarrow> (None, configureSysproxyGuardBestEffort lib r guard mode opts (g\<lparr>gw_desktop := d\<rparr>)))"

definition disable_section ::
    "'d sysproxy_lib \<Rightarrow> Options \<Rightarrow> 'd guard_world \<Rightarrow> string option \<times> 'd guard_world" where
  "disable_section lib opts g =
    (case DisableProxy lib opts (gw_desktop g) of (er, d) \<Rightarrow> (er, g\<lparr>gw_desktop := d\<rparr>))"

definition answer :: "string option \<times> 'd guard_world \<Rightarrow> 'a handler_result \<times> 'd guard_world" where
  "answer res = (case fst res of Some er \<Rightarrow> HFailed er | None \<Rightarrow> HNoContent, snd res)"

definition pac_options :: "proxyRequest \<Rightarrow> Options" where
  "pac_options req = zeroOptions\<lparr>op_PACURL := pr_Url req, op_Device := pr_Device req,
     op_OnlyActiveDevice := pr_OnlyActiveDevice req, op_UseRegistry := pr_UseRegistry req\<rparr>"

definition proxy_options :: "proxyRequest \<Rightarrow> Options" where
  "proxy_options req = zeroOptions\<lparr>op_Proxy := pr_Server req, op_Bypass := pr_Bypass req,
     op_Device := pr_Device req, op_OnlyActiveDevice := pr_OnlyActiveDevice req,
     op_UseRegistry := pr_UseRegistry req\<rparr>"

definition disable_options :: "proxyRequest \<Rightarrow> Options" where
  "disable_options req = zeroOptions\<lparr>op_Device := pr_Device req,
     op_OnlyActiveDevice := pr_OnlyActiveDevice req, op_UseRegistry := pr_UseRegistry req\<rparr>"

definition pac ::
    "'d sysproxy_lib \<Rightarrow> guard_request \<Rightarrow> (string, proxyRequest) result \<Rightarrow> 'd guard_world
     \<Rightarrow> 'a handler_result \<times> 'd guard_world" where
  "pac lib r body g =
    (case body of Inl er \<Rightarrow> (HBadRequest (bodyInvalidText @ er), g)
     | Inr req \<Rightarrow> answer (set_section lib r sysproxyGuardModePAC (pr_Guard req)
         (prepareSysproxyOptions (gq_peer r) (pac_options req)) (guard_stop (gq_now r) g)))"

definition proxy ::
    "'d sysproxy_lib \<Rightarrow> guard_request \<Rightarrow> (string, proxyRequest) result \<Rightarrow> 'd guard_world
     \<Rightarrow> 'a handler_result \<times> 'd guard_world" where
  "proxy lib r body g =
    (case body of Inl er \<Rightarrow> (HBadRequest (bodyInvalidText @ er), g)
     | Inr req \<Rightarrow> answer (set_section lib r sysproxyGuardModeProxy (pr_Guard req)
         (prepareSysproxyOptions (gq_peer r) (proxy_options req)) (guard_stop (gq_now r) g)))"

definition disable ::
    "'d sysproxy_lib \<Rightarrow> guard_request \<Rightarrow> (string, proxyRequest) result \<Rightarrow> 'd guard_world
     \<Rightarrow> 'a handler_result \<times> 'd guard_world" where
  "disable lib r body g =
    (case body of Inl er \<Rightarrow> (HBadRequest (bodyInvalidText @ er), g)
     | Inr req \<Rightarrow> answer (disable_section lib
         (prepareSysproxyOptions (gq_peer r) (disable_options req)) (guard_stop (gq_now r) g)))"

definition status ::
    "'d sysproxy_lib \<Rightarrow> guard_request \<Rightarrow> 'd guard_world \<Rightarrow> ProxyConfig option handler_result" where
  "status lib r g =
    (case QueryProxySettings lib (prepareSysproxyOptions (gq_peer r) (zeroOptions\<lparr>op_OnlyActiveDevice := True\<rparr>))
            (gw_desktop g) of
       Inl er \<Rightarrow> HFailed er | Inr config \<Rightarrow> HJSON config)"

definition splitBypassRules :: "string \<Rightarrow> string list" where
  "splitBypassRules bypass = filter (\<lambda>r. r \<noteq> []) (map TrimSpace (split_on CHR '','' bypass))"

section \<open>Interleaving\<close>

text \<open>
  What several handlers and guard goroutines do, cut at the lock \<open>sysproxyMutationMu\<close>:
  a call of \<open>StopGuard\<close>, the locked sections, and a change of the settings by another
  program.  \<open>GRestore i\<close> is the locked section of the goroutine started as number \<open>i\<close>, at
  any time, whatever its query before the lock said.
\<close>

datatype 'd guard_step =
    HStop go_time
  | HSet guard_request string bool Options
  | HDisable Options
  | GRestore nat guard_round
  | Outside 'd

fun guard_exec :: "'d sysproxy_lib \<Rightarrow> 'd guard_step \<Rightarrow> 'd guard_world \<Rightarrow> 'd guard_world" where
  "guard_exec lib (HStop now) g = guard_stop now g"
| "guard_exec lib (HSet r mode guard opts) g = snd (set_section lib r mode guard opts g)"
| "guard_exec lib (HDisable opts) g = snd (disable_section lib opts g)"
| "guard_exec lib (GRestore i r) g =
    (if i < length (gw_runs g)
     then (case gw_runs g ! i of (ctx, generation, config) \<Rightarrow> snd (restore_section lib generation config r g))
     else g)"
| "guard_exec lib (Outside d) g = g\<lparr>gw_desktop := d\<rparr>"

fun guard_steps :: "'d sysproxy_lib \<Rightarrow> 'd guard_step list \<Rightarrow> 'd guard_world \<Rightarrow> 'd guard_world" where
  "guard_steps lib [] g = g"
| "guard_steps lib (s # ss) g = guard_steps lib ss (guard_exec lib s g)"

end
