(* ===== verification/Interfaces.thy ===== *)
theory Interfaces
  imports Prelude
begin

text \<open>
  Contracts that several components share, as locales: a state machine with an invariant
  that allowed events keep,
  a machine whose invariant carries an index that only grows, and a sweep that removes the
  entries whose owners are gone.  The components interpret them on their own operations.
\<close>

section \<open>Machines\<close>

locale machine =
  fixes step :: "'e \<Rightarrow> 's \<Rightarrow> 's"
    and allowed :: "'e \<Rightarrow> bool"
    and inv :: "'s \<Rightarrow> bool"
  assumes step_inv: "inv s \<Longrightarrow> allowed e \<Longrightarrow> inv (step e s)"
begin

lemma run_inv: "inv s \<Longrightarrow> \<forall>e\<in>set es. allowed e \<Longrightarrow> inv (fold step es s)"
  by (induction es arbitrary: s) (simp_all add: step_inv)

text \<open>What no allowed step can change is the same after a run.\<close>

lemma run_frame:
  assumes "inv s" and "\<And>s e. inv s \<Longrightarrow> allowed e \<Longrightarrow> P e \<Longrightarrow> look (step e s) = look s"
    and "\<forall>e\<in>set es. allowed e \<and> P e"
  shows "look (fold step es s) = look s"
  using assms(1,3)
proof (induction es arbitrary: s)
  case (Cons e es)
  then have "look (fold step es (step e s)) = look (step e s)" by (simp add: step_inv)
  then show ?case using Cons.prems assms(2) by simp
qed simp

end

text \<open>The same with an index of the invariant that a step may increase by one.\<close>

locale counting_machine =
  fixes step :: "'e \<Rightarrow> 's \<Rightarrow> 's"
    and inv :: "nat \<Rightarrow> 's \<Rightarrow> bool"
  assumes count_step: "inv n s \<Longrightarrow> inv n (step e s) \<or> inv (Suc n) (step e s)"
begin

lemma count_run: "inv n s \<Longrightarrow> \<exists>m\<le>n + length es. inv m (fold step es s)"
proof (induction es arbitrary: n s)
  case (Cons e es)
  from count_step [OF Cons.prems, of e]
  show ?case
  proof
    assume "inv n (step e s)"
    from Cons.IH [OF this] show ?thesis by (auto intro: le_SucI)
  next
    assume "inv (Suc n) (step e s)"
    from Cons.IH [OF this] show ?thesis by auto
  qed
qed auto

end

section \<open>Sweeps\<close>

text \<open>
  Each name whose owner is not active is handed to \<open>discard\<close>, which touches nothing but
  the place of that name.
\<close>

locale stale_sweep =
  fixes active :: "'k \<Rightarrow> bool"
    and discard :: "'k \<Rightarrow> ('p \<Rightarrow> 'v) \<Rightarrow> 'p \<Rightarrow> 'v"
    and place :: "'k \<Rightarrow> 'p"
  assumes discard_other: "q \<noteq> place p \<Longrightarrow> discard p d q = d q"
begin

lemma spared:
  "(\<forall>p\<in>set ps. place p = q \<longrightarrow> active p) \<Longrightarrow>
    fold (\<lambda>p d. if active p then d else discard p d) ps d q = d q"
proof (induction ps arbitrary: d)
  case (Cons p ps)
  then show ?case using discard_other [of q p d] by (cases "q = place p") auto
qed simp

end

text \<open>A sweep that also leaves alone the places it has no business with.\<close>

locale careful_sweep = stale_sweep active discard place
  for active :: "'k \<Rightarrow> bool" and discard :: "'k \<Rightarrow> ('p \<Rightarrow> 'v) \<Rightarrow> 'p \<Rightarrow> 'v" and place :: "'k \<Rightarrow> 'p" +
  fixes alien :: "'p \<Rightarrow> 'v \<Rightarrow> bool"
  assumes discard_alien: "alien (place p) (d (place p)) \<Longrightarrow> discard p d (place p) = d (place p)"
begin

lemma alien_spared: "alien q (d q) \<Longrightarrow> fold (\<lambda>p d. if active p then d else discard p d) ps d q = d q"
proof (induction ps arbitrary: d)
  case (Cons p ps)
  have "(if active p then d else discard p d) q = d q"
    using discard_other [of q p d] discard_alien [of p d] Cons.prems by (cases "q = place p") auto
  then show ?case using Cons by simp
qed simp

end

text \<open>A sweep that leaves nothing at the places that are ripe for it.\<close>

locale thorough_sweep = stale_sweep active discard place
  for active :: "'k \<Rightarrow> bool" and discard :: "'k \<Rightarrow> ('p \<Rightarrow> 'v) \<Rightarrow> 'p \<Rightarrow> 'v" and place :: "'k \<Rightarrow> 'p" +
  fixes ripe :: "'p \<Rightarrow> 'v \<Rightarrow> bool" and gone :: 'v
  assumes discard_ripe: "ripe (place p) (d (place p)) \<Longrightarrow> discard p d (place p) = gone"
    and discard_gone: "d (place p) = gone \<Longrightarrow> discard p d (place p) = gone"
begin

lemma stays_gone: "d q = gone \<Longrightarrow> fold (\<lambda>p d. if active p then d else discard p d) ps d q = gone"
proof (induction ps arbitrary: d)
  case (Cons p ps)
  then show ?case using discard_other [of q p d] discard_gone [of d p] by (cases "q = place p") auto
qed simp

lemma swept:
  assumes "p \<in> set ps" and "\<not> active p" and "ripe (place p) (d (place p))"
  shows "fold (\<lambda>p d. if active p then d else discard p d) ps d (place p) = gone"
  using assms(1,3)
proof (induction ps arbitrary: d)
  case (Cons a ps)
  show ?case
  proof (cases "place a = place p \<and> \<not> active a")
    case True
    then have "discard a d (place p) = gone" using Cons.prems(2) discard_ripe [of a d] by simp
    then show ?thesis using True stays_gone by simp
  next
    case False
    then have "(if active a then d else discard a d) (place p) = d (place p)"
      using discard_other [of "place p" a d] by auto
    moreover have "p \<in> set ps" using False Cons.prems(1) assms(2) by auto
    ultimately show ?thesis using Cons by simp
  qed
qed simp

end

end
