(* ===== verification/SysproxyGuardProps.thy ===== *)
theory SysproxyGuardProps
  imports SysproxyGuard Interfaces
begin

text \<open>
  Properties of the system proxy guard: at most one goroutine may restore settings, a
  stopped guard is invisible to everything that follows, when settings count as changed,
  and how often failures are published.
\<close>

section \<open>Frames\<close>

lemma report_frame [simp]:
  "gw_generation (report now t m b x e g) = gw_generation g"
  "gw_cancel (report now t m b x e g) = gw_cancel g"
  "gw_cancelled (report now t m b x e g) = gw_cancelled g"
  "gw_nextCtx (report now t m b x e g) = gw_nextCtx g"
  "gw_runs (report now t m b x e g) = gw_runs g"
  "gw_desktop (report now t m b x e g) = gw_desktop g"
  by (simp_all add: report_def)

lemma report_seq [simp]:
  "hub_nextSeq (gw_hub (report now t m b x e g)) = hub_nextSeq (gw_hub g) + 1"
  by (simp add: report_def publishSysproxyGuardEvent_def Let_def)

text \<open>What a restoration never touches.\<close>

definition same_guard :: "'d guard_world \<Rightarrow> 'd guard_world \<Rightarrow> bool" where
  "same_guard g g' \<longleftrightarrow> gw_generation g' = gw_generation g \<and> gw_cancel g' = gw_cancel g \<and>
     gw_cancelled g' = gw_cancelled g \<and> gw_nextCtx g' = gw_nextCtx g \<and> gw_runs g' = gw_runs g"

lemma same_guard_refl [simp]: "same_guard g g"
  by (simp add: same_guard_def)

lemma same_guard_desktop [simp]: "same_guard g (g'\<lparr>gw_desktop := d\<rparr>) = same_guard g g'"
  by (simp add: same_guard_def)

lemma same_guard_report [simp]: "same_guard g (report now t m b x e g') = same_guard g g'"
  by (simp add: same_guard_def)

lemma restore_same_guard: "same_guard g (snd (restore_section lib gen c r g))"
  by (auto simp: restore_section_def Let_def split: prod.splits option.splits sum.splits)

lemma restore_inactive: "\<not> active gen g \<Longrightarrow> snd (restore_section lib gen c r g) = g"
  by (simp add: restore_section_def)

section \<open>The invariant\<close>

text \<open>
  After \<open>n\<close> starts and stops: the generation is \<open>n\<close>; goroutine number \<open>i\<close> has context
  \<open>i\<close>; it carries the current generation exactly when its context is the one to cancel,
  and otherwise it is cancelled and carries an earlier one.
\<close>

definition run_ok :: "nat \<Rightarrow> 'd guard_world \<Rightarrow> nat \<Rightarrow> bool" where
  "run_ok n g i \<longleftrightarrow> fst (gw_runs g ! i) = i \<and>
     (if gw_cancel g = Some i then fst (snd (gw_runs g ! i)) = of_nat n \<and> i \<notin> set (gw_cancelled g)
      else (\<exists>k<n. fst (snd (gw_runs g ! i)) = of_nat k) \<and> i \<in> set (gw_cancelled g))"

definition guard_inv :: "nat \<Rightarrow> 'd guard_world \<Rightarrow> bool" where
  "guard_inv n g \<longleftrightarrow> gw_generation g = of_nat n \<and> gw_nextCtx g = length (gw_runs g) \<and>
     (\<forall>c. gw_cancel g = Some c \<longrightarrow> c < length (gw_runs g)) \<and>
     (\<forall>i<length (gw_runs g). run_ok n g i) \<and> (\<forall>c\<in>set (gw_cancelled g). c < length (gw_runs g))"

lemma guard_inv_new: "guard_inv 0 (newGuardWorld d)"
  by (simp add: guard_inv_def newGuardWorld_def)

lemma guard_inv_same: "same_guard g g' \<Longrightarrow> guard_inv n g' = guard_inv n g"
  by (simp add: guard_inv_def same_guard_def run_ok_def)

lemma guard_inv_restore [simp]: "guard_inv n (snd (restore_section lib gen c r g)) = guard_inv n g"
  by (rule guard_inv_same) (rule restore_same_guard)

lemma guard_stop_fields [simp]:
  "gw_generation (guard_stop now g) = gw_generation g + 1"
  "gw_cancel (guard_stop now g) = None"
  "gw_cancelled (guard_stop now g) = (case gw_cancel g of None \<Rightarrow> [] | Some c \<Rightarrow> [c]) @ gw_cancelled g"
  "gw_nextCtx (guard_stop now g) = gw_nextCtx g"
  "gw_runs (guard_stop now g) = gw_runs g"
  "gw_desktop (guard_stop now g) = gw_desktop g"
  by (simp_all add: guard_stop_def Let_def split: option.split)

lemma guard_start_fields [simp]:
  "gw_generation (guard_start now c g) = gw_generation g + 1"
  "gw_cancel (guard_start now c g) = Some (gw_nextCtx g)"
  "gw_cancelled (guard_start now c g) = (case gw_cancel g of None \<Rightarrow> [] | Some c \<Rightarrow> [c]) @ gw_cancelled g"
  "gw_nextCtx (guard_start now c g) = Suc (gw_nextCtx g)"
  "gw_runs (guard_start now c g) = gw_runs g @ [(gw_nextCtx g, gw_generation g + 1, c)]"
  "gw_desktop (guard_start now c g) = gw_desktop g"
  by (simp_all add: guard_start_def Let_def split: option.split)

lemma run_ok_retired:
  assumes "run_ok n g i" "fst (gw_runs g' ! i) = fst (gw_runs g ! i)"
    "fst (snd (gw_runs g' ! i)) = fst (snd (gw_runs g ! i))" "gw_cancel g' \<noteq> Some i"
    "set (gw_cancelled g') = set_option (gw_cancel g) \<union> set (gw_cancelled g)"
  shows "run_ok (Suc n) g' i"
  using assms unfolding run_ok_def by (cases "gw_cancel g = Some i") (auto intro: less_SucI)

lemma cancelled_set: "set ((case gw_cancel g of None \<Rightarrow> [] | Some c \<Rightarrow> [c]) @ xs) = set_option (gw_cancel g) \<union> set xs"
  by (cases "gw_cancel g") auto

lemma guard_stop_inv:
  assumes "guard_inv n g"
  shows "guard_inv (Suc n) (guard_stop now g)"
proof -
  have "run_ok (Suc n) (guard_stop now g) i" if "i < length (gw_runs g)" for i
    using assms that by (intro run_ok_retired [of n g i]) (auto simp: guard_inv_def cancelled_set)
  then show ?thesis using assms by (auto simp: guard_inv_def cancelled_set add.commute split: option.splits)
qed

lemma guard_start_inv:
  assumes "guard_inv n g"
  shows "guard_inv (Suc n) (guard_start now c g)"
proof -
  have ctx: "gw_nextCtx g = length (gw_runs g)" and gen: "gw_generation g = of_nat n"
    and below: "\<forall>c\<in>set (gw_cancelled g). c < length (gw_runs g)" "\<forall>c. gw_cancel g = Some c \<longrightarrow> c < length (gw_runs g)"
    using assms by (auto simp: guard_inv_def)
  have old: "run_ok (Suc n) (guard_start now c g) i" if "i < length (gw_runs g)" for i
    using assms that ctx by (intro run_ok_retired [of n g i]) (auto simp: guard_inv_def cancelled_set nth_append)
  have new: "run_ok (Suc n) (guard_start now c g) (length (gw_runs g))"
    using below by (cases "gw_cancel g") (auto simp: run_ok_def ctx gen nth_append)
  have "run_ok (Suc n) (guard_start now c g) i" if "i < Suc (length (gw_runs g))" for i
    using that old new by (cases "i = length (gw_runs g)") auto
  then show ?thesis using below
    by (auto simp: guard_inv_def ctx gen add.commute less_Suc_eq split: option.splits)
qed

text \<open>The three ways in which a guard request ends: stopped, started, or reported as failed.\<close>

lemma configure_cases:
  fixes g :: "'d guard_world"
  obtains (stopped) "\<not> b" "configureSysproxyGuardBestEffort lib r b mode opts g = guard_stop (gq_now r) g"
  | (started) c where "b" "configureSysproxyGuardBestEffort lib r b mode opts g = guard_start (gq_now r) c g"
  | (failed) er where "b" "configureSysproxyGuardBestEffort lib r b mode opts g =
        report (gq_now r) GuardWatchFailed mode False GStartFailed (Some er) g"
proof (cases b)
  case False
  then show ?thesis
    by (intro stopped) (simp_all add: configureSysproxyGuardBestEffort_def configureSysproxyGuard_def)
next
  case b: True
  show ?thesis
  proof (cases "captureSysproxyGuardRunner (gq_peer r) (gq_environ r)")
    case (Inl er)
    then show ?thesis using b
      by (intro failed) (simp_all add: configureSysproxyGuardBestEffort_def configureSysproxyGuard_def)
  next
    case runner: (Inr runner)
    show ?thesis
    proof (cases "runner_Query lib runner (cloneSysproxyOptions (Some opts)) (gw_desktop g)")
      case (Inl er)
      then show ?thesis using b runner
        by (intro failed) (simp_all add: configureSysproxyGuardBestEffort_def configureSysproxyGuard_def Let_def)
    next
      case (Inr current)
      then show ?thesis using b runner
        by (intro started) (simp_all add: configureSysproxyGuardBestEffort_def configureSysproxyGuard_def Let_def)
    qed
  qed
qed

lemma configure_inv:
  fixes g :: "'d guard_world"
  assumes "guard_inv n g" and g'_def: "g' = configureSysproxyGuardBestEffort lib r b mode opts g"
  shows "guard_inv n g' \<or> guard_inv (Suc n) g'"
proof (cases rule: configure_cases [of b lib r mode opts g])
  case stopped
  then show ?thesis using guard_stop_inv [OF assms(1)] by (simp add: g'_def)
next
  case (started c)
  then show ?thesis using guard_start_inv [OF assms(1)] by (simp add: g'_def)
next
  case (failed er)
  then have "same_guard g g'" by (simp add: g'_def)
  then show ?thesis using assms(1) guard_inv_same by blast
qed

lemma set_section_inv:
  assumes "guard_inv n g"
  shows "guard_inv n (snd (set_section lib r mode b opts g)) \<or> guard_inv (Suc n) (snd (set_section lib r mode b opts g))"
proof -
  obtain e d where ed: "(if mode = sysproxyGuardModePAC then SetPac lib opts (gw_desktop g)
      else SetProxy lib opts (gw_desktop g)) = (e, d)" by fastforce
  have inv: "guard_inv n (g\<lparr>gw_desktop := d\<rparr>)" using assms guard_inv_same [of g "g\<lparr>gw_desktop := d\<rparr>"] by simp
  show ?thesis
    using inv configure_inv [OF inv refl] by (cases e) (auto simp: set_section_def ed)
qed

lemma guard_exec_inv:
  assumes "guard_inv n g"
  shows "guard_inv n (guard_exec lib s g) \<or> guard_inv (Suc n) (guard_exec lib s g)"
proof (cases s)
  case (HStop now)
  then show ?thesis using guard_stop_inv [OF assms] by simp
next
  case (HSet r mode b opts)
  then show ?thesis using set_section_inv [OF assms] by simp
next
  case (HDisable opts)
  then show ?thesis using assms guard_inv_same [of g "snd (disable_section lib opts g)"]
    by (auto simp: disable_section_def split: prod.splits)
next
  case (GRestore i r)
  then show ?thesis using assms by (simp split: prod.split)
next
  case (Outside d)
  then show ?thesis using assms guard_inv_same [of g "g\<lparr>gw_desktop := d\<rparr>"] by auto
qed

interpretation guards: counting_machine "guard_exec lib" guard_inv for lib
  by unfold_locales (rule guard_exec_inv)

lemma guard_steps_fold: "guard_steps lib ss g = fold (guard_exec lib) ss g"
  by (induction ss arbitrary: g) auto

lemmas guard_steps_inv = guards.count_run [folded guard_steps_fold]

lemma guard_steps_append: "guard_steps lib (xs @ ys) g = guard_steps lib ys (guard_steps lib xs g)"
  by (simp add: guard_steps_fold)

section \<open>One live guard\<close>

text \<open>Generations count up without wrapping as long as there are fewer than $2^{64}$ of them.\<close>

lemma of_nat_64_eq: "m < 2 ^ 64 \<Longrightarrow> n < 2 ^ 64 \<Longrightarrow> (of_nat m :: 64 word) = of_nat n \<longleftrightarrow> m = n"
  by (simp add: word_of_nat_eq_iff take_bit_nat_eq_self)

lemma inv_active:
  assumes "guard_inv n g" "n < 2 ^ 64" "i < length (gw_runs g)"
  shows "active (fst (snd (gw_runs g ! i))) g \<longleftrightarrow> gw_cancel g = Some i"
    and "i \<in> set (gw_cancelled g) \<longleftrightarrow> gw_cancel g \<noteq> Some i"
proof -
  have ok: "run_ok n g i" and gen: "gw_generation g = of_nat n" using assms by (auto simp: guard_inv_def)
  show "i \<in> set (gw_cancelled g) \<longleftrightarrow> gw_cancel g \<noteq> Some i" using ok by (auto simp: run_ok_def split: if_splits)
  show "active (fst (snd (gw_runs g ! i))) g \<longleftrightarrow> gw_cancel g = Some i"
  proof (cases "gw_cancel g = Some i")
    case True
    then show ?thesis using ok gen by (simp add: run_ok_def active_def)
  next
    case False
    then obtain k where "k < n" "fst (snd (gw_runs g ! i)) = of_nat k" using ok by (auto simp: run_ok_def)
    then show ?thesis using False gen assms(2) of_nat_64_eq [of n k] by (simp add: active_def)
  qed
qed



section \<open>A stopped guard\<close>

fun starts_guard :: "'d guard_step \<Rightarrow> bool" where
  "starts_guard (HSet r mode b opts) = b"
| "starts_guard _ = False"

fun is_restore :: "'d guard_step \<Rightarrow> bool" where
  "is_restore (GRestore i r) = True"
| "is_restore _ = False"

lemma exec_keeps_stopped:
  assumes "gw_cancel g = None" "\<not> starts_guard s"
  shows "gw_cancel (guard_exec lib s g) = None"
proof (cases s)
  case (HSet r mode b opts)
  then have "\<not> b" using assms(2) by simp
  then show ?thesis using assms HSet
    by (auto simp: set_section_def configureSysproxyGuardBestEffort_def configureSysproxyGuard_def
        split: prod.splits option.splits)
next
  case (GRestore i r)
  then show ?thesis using assms restore_same_guard [of g lib]
    by (auto simp: same_guard_def split: prod.splits)
qed (use assms in \<open>auto simp: disable_section_def split: prod.splits\<close>)

lemma stopped_restore_skips:
  assumes "guard_inv n g" "n < 2 ^ 64" "gw_cancel g = None"
  shows "guard_exec lib (GRestore i r) g = g"
proof (cases "i < length (gw_runs g)")
  case True
  obtain c gen cfg where run: "gw_runs g ! i = (c, gen, cfg)" by (metis prod_cases3)
  then have "\<not> active gen g" using inv_active(1) [OF assms(1,2) True] assms(3) by simp
  then show ?thesis using True run by (simp add: restore_inactive)
qed simp

lemma stopped_restores_invisible:
  assumes "guard_inv n g" "n + length ss < 2 ^ 64" "gw_cancel g = None" "\<not> list_ex starts_guard ss"
  shows "guard_steps lib ss g = guard_steps lib (filter (Not \<circ> is_restore) ss) g"
  using assms
proof (induction ss arbitrary: n g)
  case (Cons s ss)
  have n: "n < 2 ^ 64" using Cons.prems(2) by linarith
  show ?case
  proof (cases "is_restore s")
    case True
    then have "guard_exec lib s g = g" using stopped_restore_skips [OF Cons.prems(1) n Cons.prems(3)]
      by (cases s) auto
    then show ?thesis using True Cons.IH [OF Cons.prems(1) _ Cons.prems(3)] Cons.prems(2,4) by simp
  next
    case False
    obtain m where m: "m \<le> Suc n" "guard_inv m (guard_exec lib s g)"
      using guard_exec_inv [OF Cons.prems(1), of lib s] by (metis le_SucI order_refl)
    have "gw_cancel (guard_exec lib s g) = None"
      using exec_keeps_stopped [OF Cons.prems(3)] Cons.prems(4) by simp
    from Cons.IH [OF m(2) _ this] m(1) Cons.prems(2,4) False show ?thesis by simp
  qed
qed simp



section \<open>A sample desktop\<close>

text \<open>A desktop whose settings are one configuration, and a library that always succeeds.\<close>

definition proxy_off :: ProxyConfig where
  "proxy_off = \<lparr>pc_ProxyEnable = False, pc_SameForAll = False, pc_Servers = [], pc_Bypass = [], pc_PACEnable = False,
     pc_PACURL = []\<rparr>"

definition sample_lib :: "ProxyConfig sysproxy_lib" where
  "sample_lib = \<lparr>QueryProxySettings = (\<lambda>opts d. Inr (Some d)),
     SetProxy = (\<lambda>opts d. (None, proxy_off\<lparr>pc_ProxyEnable := True, pc_SameForAll := True,
        pc_Servers := [(''http_server'', op_Proxy opts)], pc_Bypass := op_Bypass opts\<rparr>)),
     SetPac = (\<lambda>opts d. (None, proxy_off\<lparr>pc_PACEnable := True, pc_PACURL := op_PACURL opts\<rparr>)),
     DisableProxy = (\<lambda>opts d. (None, proxy_off))\<rparr>"

definition sample_time :: go_time where
  "sample_time = \<lparr>wall = 0, monotonic = 0\<rparr>"

definition sample_request :: guard_request where
  "sample_request = \<lparr>gq_now = sample_time, gq_peer = None, gq_environ = Inl []\<rparr>"

definition sample_round :: "watch_end \<Rightarrow> guard_round" where
  "sample_round w = \<lparr>rd_now = sample_time, rd_done = False, rd_changed = True, rd_watch = w,
     rd_render = (\<lambda>a b. ''differs'')\<rparr>"

definition sample_options :: Options where
  "sample_options = zeroOptions\<lparr>op_Proxy := ''127.0.0.1:7890''\<rparr>"

lemmas sample_defs = sample_lib_def sample_time_def sample_request_def sample_round_def sample_options_def proxy_off_def

lemmas guard_defs = newGuardWorld_def guard_stop_def guard_start_def set_section_def disable_section_def
  configureSysproxyGuardBestEffort_def configureSysproxyGuard_def captureSysproxyGuardRunner_def runner_Query_def
  runner_Apply_def restore_section_def active_def applySysproxyGuardSettings_def

lemmas snapshot_defs = newSysproxyGuardSnapshot_def fillSysproxyGuardApplyOptions_def guard_mode_defs
  sysproxyGuardMatches_def snapshot_equal_def map_equal_def copyStringMap_def sessionOptions_def
  cloneSysproxyOptions_def server_of_def zeroOptions_def

text \<open>The state after a handler has set the proxy with a guard.\<close>

definition sample_guarded :: "ProxyConfig guard_world" where
  "sample_guarded = guard_steps sample_lib
     [HStop sample_time, HSet sample_request sysproxyGuardModeProxy True sample_options] (newGuardWorld proxy_off)"

lemma sample_guarded_fields:
  "gw_cancel sample_guarded = Some 0" "length (gw_runs sample_guarded) = 1"
  "fst (snd (gw_runs sample_guarded ! 0)) = 2" "gw_generation sample_guarded = 2"
  "pc_ProxyEnable (gw_desktop sample_guarded)" "gw_cancelled sample_guarded = []"
  by (simp_all add: sample_guarded_def sample_defs guard_defs Let_def snapshot_defs)



text \<open>
  The call of \<open>StopGuard\<close> in the handler \<open>disable\<close> is made before the lock is taken.  When
  another request sets the proxy with a guard between the two, the settings are off right
  after the locked section of \<open>disable\<close>, and the guard that was started in between turns
  them on again.
\<close>

theorem disable_undone_by_new_guard:
  "\<not> pc_ProxyEnable (gw_desktop (guard_exec sample_lib (HDisable zeroOptions) (guard_exec sample_lib (HStop sample_time) sample_guarded))) \<and>
   (let g = guard_exec sample_lib (HDisable zeroOptions) (guard_steps sample_lib
      [HStop sample_time, HSet sample_request sysproxyGuardModeProxy True sample_options] (guard_stop sample_time (newGuardWorld proxy_off)))
    in \<not> pc_ProxyEnable (gw_desktop g) \<and>
       pc_ProxyEnable (gw_desktop (guard_exec sample_lib (GRestore 0 (sample_round WatchChanged)) g)))"
  by (simp add: sample_guarded_def sample_defs guard_defs Let_def snapshot_defs report_def)

section \<open>When settings count as changed\<close>

lemma map_equal_iff:
  assumes "distinct (map fst a)" "distinct (map fst b)"
  shows "map_equal a b \<longleftrightarrow> map_of a = map_of b"
proof
  assume eq: "map_equal a b"
  then have sub: "set a \<subseteq> set b" by (auto simp: map_equal_def list_all_iff dest: map_of_SomeD)
  have "card (set a) = card (set b)"
    using eq assms by (simp add: map_equal_def distinct_card distinct_map)
  then have "set a = set b" using sub by (simp add: card_subset_eq)
  then show "map_of a = map_of b" using assms by (simp add: map_of_inject_set)
next
  assume eq: "map_of a = map_of b"
  then have set: "set a = set b" using assms by (simp add: map_of_inject_set)
  have "length a = length b" using assms set by (metis distinct_card distinct_map)
  then show "map_equal a b" using set assms by (auto simp: map_equal_def list_all_iff)
qed

lemma copyStringMap_keys: "distinct (map fst m) \<Longrightarrow> distinct (map fst (copyStringMap m))"
  by (simp add: copyStringMap_def distinct_map_filter)

lemma copyStringMap_lookup:
  "distinct (map fst m) \<Longrightarrow>
    map_of (copyStringMap m) k = (if server_of m k = [] then None else Some (server_of m k))"
proof (induction m)
  case (Cons kv m)
  have "fst kv \<notin> fst ` set m" using Cons.prems by simp
  then have "map_of (copyStringMap m) (fst kv) = None" by (force simp: copyStringMap_def map_of_eq_None_iff)
  then show ?case using Cons by (auto simp: copyStringMap_def server_of_def split: prod.splits)
qed (simp add: copyStringMap_def server_of_def)

lemma copyStringMap_equal:
  assumes "distinct (map fst a)" "distinct (map fst b)"
  shows "map_equal (copyStringMap a) (copyStringMap b) \<longleftrightarrow> (\<forall>k. server_of a k = server_of b k)"
  using assms by (simp add: map_equal_iff copyStringMap_keys fun_eq_iff copyStringMap_lookup) metis

text \<open>
  The guard takes settings for changed exactly when a field it protects differs: for a
  plain proxy the switch, the common-server flag, the bypass list, whether a PAC script is
  on, and the address under some key, where an empty address is the same as none; for a
  PAC script the two switches and the address of the script, whatever the servers are.
\<close>

theorem guard_matches_exactly:
  assumes "distinct (map fst (pc_Servers a))" "distinct (map fst (pc_Servers b))"
  shows "(sysproxyGuardMatches sysproxyGuardModeProxy (newSysproxyGuardSnapshot sysproxyGuardModeProxy (Some a)) (Some b) \<longleftrightarrow>
      pc_ProxyEnable a = pc_ProxyEnable b \<and> pc_SameForAll a = pc_SameForAll b \<and> pc_Bypass a = pc_Bypass b \<and>
      pc_PACEnable a = pc_PACEnable b \<and> (\<forall>k. server_of (pc_Servers a) k = server_of (pc_Servers b) k)) \<and>
    (sysproxyGuardMatches sysproxyGuardModePAC (newSysproxyGuardSnapshot sysproxyGuardModePAC (Some a)) (Some b) \<longleftrightarrow>
      pc_PACEnable a = pc_PACEnable b \<and> pc_PACURL a = pc_PACURL b \<and> pc_ProxyEnable a = pc_ProxyEnable b)"
  by (auto simp: sysproxyGuardMatches_def newSysproxyGuardSnapshot_def snapshot_equal_def guard_mode_defs
      copyStringMap_equal [OF assms, symmetric] map_equal_def)

theorem guard_matches_exactly_witness:
  "sysproxyGuardMatches sysproxyGuardModeProxy
     (newSysproxyGuardSnapshot sysproxyGuardModeProxy (Some (proxy_off\<lparr>pc_Servers := [(''http_server'', ''h''), (''x'', '''')]\<rparr>)))
     (Some (proxy_off\<lparr>pc_Servers := [(''http_server'', ''h'')]\<rparr>))"
  using guard_matches_exactly [of "proxy_off\<lparr>pc_Servers := [(''http_server'', ''h''), (''x'', '''')]\<rparr>"
      "proxy_off\<lparr>pc_Servers := [(''http_server'', ''h'')]\<rparr>"]
  by (simp add: server_of_def proxy_off_def)

section \<open>How often failures are published\<close>

lemma check_failures_silent:
  assumes "runner_Query lib (gc_runner c) (gc_opts c) (gw_desktop g) = Inl er"
    "list_all (\<lambda>r. \<not> rd_done r \<and> rd_changed r) rs"
  shows "guard_run lib gen c er rs g = g"
  using assms(2) by (induction rs) (simp_all add: guard_run_round_def report_once_def assms(1))

lemma watch_failures_counted:
  assumes "runner_Query lib (gc_runner c) (gc_opts c) (gw_desktop g) = Inr cur"
    "sysproxyGuardMatches (gc_mode c) (gc_expected c) cur" "er \<noteq> []"
    "list_all (\<lambda>r. \<not> rd_done r \<and> rd_watch r = WatchError er False) rs"
  shows "hub_nextSeq (gw_hub (guard_run lib gen c le rs g)) = hub_nextSeq (gw_hub g) + of_nat (length rs)"
  using assms(1,4)
proof (induction rs arbitrary: g le)
  case (Cons r rs)
  let ?g = "report (rd_now r) GuardWatchFailed (gc_mode c) True GWatchRetry (Some er) g"
  have "guard_run_round lib gen c le r g = (True, er, ?g)"
    using Cons.prems assms(2,3) by (simp add: guard_run_round_def report_once_def)
  then show ?case using Cons.IH [of ?g er] Cons.prems by (simp add: algebra_simps)
qed simp

text \<open>
  A query that keeps failing with the same text is published once, however many rounds
  fail; a wait for changes that keeps failing with the same text while the settings match
  is published in every round, because the text of the last failure is cleared before the
  wait.
\<close>

theorem repeated_failures_published:
  assumes "er \<noteq> []" "er \<noteq> lastErr" "rs \<noteq> []"
  shows "(runner_Query lib (gc_runner c) (gc_opts c) (gw_desktop g) = Inl er \<and>
      list_all (\<lambda>r. \<not> rd_done r \<and> rd_changed r) rs \<longrightarrow>
      hub_nextSeq (gw_hub (guard_run lib gen c lastErr rs g)) = hub_nextSeq (gw_hub g) + 1) \<and>
    (runner_Query lib (gc_runner c) (gc_opts c) (gw_desktop g) = Inr cur \<and>
      sysproxyGuardMatches (gc_mode c) (gc_expected c) cur \<and>
      list_all (\<lambda>r. \<not> rd_done r \<and> rd_watch r = WatchError er False) rs \<longrightarrow>
      hub_nextSeq (gw_hub (guard_run lib gen c lastErr rs g)) = hub_nextSeq (gw_hub g) + of_nat (length rs))"
proof (intro conjI impI; elim conjE)
  assume q: "runner_Query lib (gc_runner c) (gc_opts c) (gw_desktop g) = Inl er"
    and rs: "list_all (\<lambda>r. \<not> rd_done r \<and> rd_changed r) rs"
  obtain r rest where cons: "rs = r # rest" using assms(3) by (cases rs) auto
  let ?g = "report (rd_now r) GuardCheckFailed (gc_mode c) True GCheckFailed (Some er) g"
  have "guard_run_round lib gen c lastErr r g = (True, er, ?g)"
    using q rs cons assms(2) by (simp add: guard_run_round_def report_once_def)
  moreover have "guard_run lib gen c er rest ?g = ?g"
    using check_failures_silent [of lib c ?g er rest gen] q rs cons by simp
  ultimately show "hub_nextSeq (gw_hub (guard_run lib gen c lastErr rs g)) = hub_nextSeq (gw_hub g) + 1"
    by (simp add: cons)
qed (rule watch_failures_counted [OF _ _ assms(1)])

text \<open>A desktop that cannot be queried, and one that matches but cannot be watched.\<close>

definition sample_config :: sysproxyGuardConfig where
  "sample_config = \<lparr>gc_mode = sysproxyGuardModePAC, gc_opts = zeroOptions, gc_watchOpts = zeroOptions,
     gc_expected = newSysproxyGuardSnapshot sysproxyGuardModePAC (Some proxy_off),
     gc_runner = \<lparr>rn_env = [], rn_uid = 0, rn_gid = 0\<rparr>\<rparr>"

theorem repeated_failures_published_witness:
  "hub_nextSeq (gw_hub (guard_run (sample_lib\<lparr>QueryProxySettings := \<lambda>opts d. Inl ''e''\<rparr>) 1 sample_config []
      (replicate 3 (sample_round WatchChanged)) (newGuardWorld proxy_off))) = 1 \<and>
   hub_nextSeq (gw_hub (guard_run sample_lib 1 sample_config []
      (replicate 3 (sample_round (WatchError ''e'' False))) (newGuardWorld proxy_off))) = 3"
  using repeated_failures_published [of "''e''" "[]" "replicate 3 (sample_round WatchChanged)"
      "sample_lib\<lparr>QueryProxySettings := \<lambda>opts d. Inl ''e''\<rparr>" sample_config "newGuardWorld proxy_off" 1 None]
    repeated_failures_published [of "''e''" "[]" "replicate 3 (sample_round (WatchError ''e'' False))"
      sample_lib sample_config "newGuardWorld proxy_off" 1 "Some proxy_off"]
  by (simp add: runner_Query_def sample_round_def newGuardWorld_def emptySysproxyEventHub_def list_all_iff
      sample_config_def sample_lib_def sysproxyGuardMatches_def snapshot_equal_def map_equal_def
      newSysproxyGuardSnapshot_def guard_mode_defs)

end
