(* ===== verification/WebSocket.thy ===== *)
theory WebSocket
  imports HttpHelper GoCodec "HOL-Library.Word"
begin

text \<open>
  The WebSocket transport of \<open>route/httphelper/websocket.go\<close>: the handshake, the frames the
  service writes and the frames it reads, and the reader goroutine of the two event
  streams (\<open>coreEvents\<close> of \<open>route/coreapi/core_events.go\<close> and \<open>sysproxyEvents\<close> of
  \<open>route/sysproxyapi/sysproxy_events.go\<close>).
\<close>

unbundle bit_operations_syntax

section \<open>Handshake\<close>

datatype ws_reject =
    WsOnlyGet | WsNoUpgrade | WsWrongVersion | WsNoKey | WsBadKey | WsNotHijackable | WsIO string

definition webSocketGUID :: string where
  "webSocketGUID = ''258EAFA5-E914-47DA-95CA-C5AB0DC85B11''"

definition webSocketAccept :: "(bytes \<Rightarrow> bytes) \<Rightarrow> string \<Rightarrow> string" where
  "webSocketAccept sha1_sum key = b64_encode (sha1_sum (key @ webSocketGUID))"

text \<open>
  What the connection answers: whether it can be hijacked, and the errors of the hijack,
  of the write and of the flush.
\<close>

record ws_conn =
  wc_hijacker :: bool
  wc_hijack :: "string option"
  wc_write :: "string option"
  wc_flush :: "string option"

definition ws_response :: "string \<Rightarrow> string" where
  "ws_response acc = ''HTTP/1.1 101 Switching Protocols'' @ [CR, LF] @ ''Upgrade: websocket'' @ [CR, LF] @
     ''Connection: Upgrade'' @ [CR, LF] @ ''Sec-WebSocket-Accept: '' @ acc @ [CR, LF, CR, LF]"

text \<open>The result is the text that was sent; the second component says that the connection was closed.\<close>

definition AcceptWebSocket ::
    "(bytes \<Rightarrow> bytes) \<Rightarrow> string \<Rightarrow> header \<Rightarrow> ws_conn \<Rightarrow> (ws_reject HTTPError, string) result \<times> bool" where
  "AcceptWebSocket sha1_sum meth h c =
    (if meth \<noteq> ''GET'' then (Inl (BadRequest WsOnlyGet), False)
     else if \<not> headerContainsToken h ''Connection'' ''upgrade'' \<or> \<not> EqualFold (header_Get h ''Upgrade'') ''websocket''
     then (Inl (BadRequest WsNoUpgrade), False)
     else if header_Get h ''Sec-Websocket-Version'' \<noteq> ''13'' then (Inl (BadRequest WsWrongVersion), False)
     else
       let key = TrimSpace (header_Get h ''Sec-Websocket-Key'')
       in if key = [] then (Inl (BadRequest WsNoKey), False)
          else if (case b64_decode key of None \<Rightarrow> True | Some d \<Rightarrow> length d \<noteq> 16) then (Inl (BadRequest WsBadKey), False)
          else if \<not> wc_hijacker c then (Inl (PlainError WsNotHijackable), False)
          else case wc_hijack c of Some er \<Rightarrow> (Inl (PlainError (WsIO er)), False)
          | None \<Rightarrow>
              (case wc_write c of Some er \<Rightarrow> (Inl (PlainError (WsIO er)), True)
               | None \<Rightarrow>
                  (case wc_flush c of Some er \<Rightarrow> (Inl (PlainError (WsIO er)), True)
                   | None \<Rightarrow> (Inr (ws_response (webSocketAccept sha1_sum key)), False))))"

section \<open>Frames\<close>

type_synonym octets = "8 word list"

definition webSocketMaxPayload :: "64 word" where "webSocketMaxPayload = push_bit 20 1"

definition WebSocketOpText :: "8 word" where "WebSocketOpText = 0x1"
definition WebSocketOpClose :: "8 word" where "WebSocketOpClose = 0x8"
definition WebSocketOpPing :: "8 word" where "WebSocketOpPing = 0x9"
definition WebSocketOpPong :: "8 word" where "WebSocketOpPong = 0xA"

lemmas ws_op_defs = WebSocketOpText_def WebSocketOpClose_def WebSocketOpPing_def WebSocketOpPong_def

text \<open>\<open>binary.BigEndian.PutUint64\<close>, \<open>Uint64\<close> and \<open>Uint16\<close>.\<close>

definition PutUint64 :: "64 word \<Rightarrow> octets" where
  "PutUint64 w = map (\<lambda>i. ucast (drop_bit (8 * i) w)) (rev [0..<8])"

definition be_uint :: "octets \<Rightarrow> 64 word" where
  "be_uint bs = foldl (\<lambda>a b. push_bit 8 a OR ucast b) 0 bs"

text \<open>\<open>payloadLen\<close> is the length of a slice, below $2^{63}$.\<close>

definition frame_length :: "nat \<Rightarrow> octets" where
  "frame_length n =
    (if n \<le> 125 then [of_nat n]
     else if n \<le> 0xffff then [126, of_nat (n div 2 ^ 8), of_nat n]
     else 127 # PutUint64 (of_nat n))"

definition WriteWebSocketFrame :: "8 word \<Rightarrow> octets \<Rightarrow> octets" where
  "WriteWebSocketFrame opcode payload = (0x80 OR opcode) # frame_length (length payload) @ payload"

datatype ws_error = WsEOF | WsUnexpectedEOF | WsFragmented | WsUnmasked | WsTooLarge

text \<open>\<open>io.ReadFull\<close> on the bytes that are still to come.\<close>

definition ReadFull :: "nat \<Rightarrow> octets \<Rightarrow> (ws_error, octets \<times> octets) result" where
  "ReadFull n r =
    (if n \<le> length r then Inr (take n r, drop n r)
     else if r = [] then Inl WsEOF else Inl WsUnexpectedEOF)"

definition unmask :: "octets \<Rightarrow> octets \<Rightarrow> octets" where
  "unmask key p = map (\<lambda>(i, b). b XOR key ! (i mod 4)) (enumerate 0 p)"

definition read_length :: "8 word \<Rightarrow> octets \<Rightarrow> (ws_error, 64 word \<times> octets) result" where
  "read_length h1 r =
    (let payloadLen = h1 AND 0x7f
     in if payloadLen = 126 then rbind (ReadFull 2 r) (\<lambda>(buf, r1). Inr (be_uint buf, r1))
        else if payloadLen = 127 then rbind (ReadFull 8 r) (\<lambda>(buf, r1). Inr (be_uint buf, r1))
        else Inr (ucast payloadLen, r))"

definition ReadWebSocketFrame :: "octets \<Rightarrow> (ws_error, 8 word \<times> octets \<times> octets) result" where
  "ReadWebSocketFrame r =
    rbind (ReadFull 2 r) (\<lambda>(hdr, r1).
      if (hdr ! 0) AND 0x80 = 0 then Inl WsFragmented
      else if (hdr ! 1) AND 0x80 = 0 then Inl WsUnmasked
      else rbind (read_length (hdr ! 1) r1) (\<lambda>(payloadLen, r2).
        if payloadLen > webSocketMaxPayload then Inl WsTooLarge
        else rbind (ReadFull 4 r2) (\<lambda>(maskKey, r3).
          rbind (ReadFull (unat payloadLen) r3) (\<lambda>(payload, r4).
            Inr ((hdr ! 0) AND 0x0f, unmask maskKey payload, r4)))))"

section \<open>Progress\<close>

lemma ReadFull_Inr: "ReadFull n r = Inr (a, b) \<longleftrightarrow> n \<le> length r \<and> a = take n r \<and> b = drop n r"
  by (auto simp: ReadFull_def split: if_splits)

lemma ReadFull_append [simp]: "n = length a \<Longrightarrow> ReadFull n (a @ b) = Inr (a, b)"
  by (simp add: ReadFull_def)

lemma read_length_shrinks: "read_length h r = Inr (n, r') \<Longrightarrow> length r' \<le> length r"
  by (auto simp: read_length_def Let_def ReadFull_Inr split: if_splits)

lemma length_unmask [simp]: "length (unmask key p) = length p"
  by (simp add: unmask_def)

lemma ReadWebSocketFrame_Inr:
  assumes "ReadWebSocketFrame r = Inr (opcode, payload, rest)"
  shows "length payload \<le> 2 ^ 20" and "length rest + length payload + 6 \<le> length r" and "opcode < 16"
proof -
  from assms obtain hdr r1 n r2 key r3 p where
    a: "ReadFull 2 r = Inr (hdr, r1)" and l: "read_length (hdr ! 1) r1 = Inr (n, r2)"
    and n: "\<not> n > webSocketMaxPayload" and k: "ReadFull 4 r2 = Inr (key, r3)"
    and p: "ReadFull (unat n) r3 = Inr (p, rest)" and res: "opcode = (hdr ! 0) AND 0x0f" "payload = unmask key p"
    unfolding ReadWebSocketFrame_def by (auto split: if_splits)
  have "unat n \<le> unat webSocketMaxPayload" using n by (simp add: word_less_nat_alt)
  then have n20: "unat n \<le> 2 ^ 20" by (simp add: webSocketMaxPayload_def)
  moreover have "length payload = unat n" using p res by (auto simp: ReadFull_Inr)
  ultimately show "length payload \<le> 2 ^ 20" by simp
  show "length rest + length payload + 6 \<le> length r"
    using a l k p res read_length_shrinks [OF l] by (auto simp: ReadFull_Inr)
  have "opcode \<le> 0x0f" using res(1) by (simp add: word_and_le1)
  then show "opcode < 16" by (simp add: word_le_nat_alt word_less_nat_alt)
qed

section \<open>The reader of an event stream\<close>

text \<open>
  The goroutine that reads a client's frames, on the bytes the client sends until the
  connection ends: the frames it writes, in order, and whether it ended on a close frame.
\<close>

function read_loop :: "octets \<Rightarrow> octets list \<times> bool" where
  "read_loop r =
    (case ReadWebSocketFrame r of
       Inl _ \<Rightarrow> ([], False)
     | Inr (opcode, payload, rest) \<Rightarrow>
         if opcode = WebSocketOpClose then ([WriteWebSocketFrame WebSocketOpClose []], True)
         else if opcode = WebSocketOpPing
         then (case read_loop rest of (out, b) \<Rightarrow> (WriteWebSocketFrame WebSocketOpPong payload # out, b))
         else read_loop rest)"
  by pat_completeness auto

termination
  by (relation "measure length") (auto dest: ReadWebSocketFrame_Inr(2))

declare read_loop.simps [simp del]

end
