(* ===== verification/WebSocketProps.thy ===== *)
theory WebSocketProps
  imports WebSocket
begin

text \<open>
  Properties of the WebSocket frames: what a client masks the service reads back, what
  the service writes a client reads back, bounds and progress of the reader, and the
  answers to pings.
\<close>

unbundle bit_operations_syntax

section \<open>Octets\<close>

lemma be_foldl:
  "foldl (\<lambda>a b. push_bit 8 a OR ucast b) a (map (\<lambda>i. ucast (drop_bit (8 * i) w) :: 8 word) (rev [0..<k])) =
    push_bit (8 * k) a OR take_bit (8 * k) (w :: 64 word)"
proof (induction k arbitrary: a)
  case (Suc k)
  let ?b = "ucast (ucast (drop_bit (8 * k) w) :: 8 word) :: 64 word"
  have "push_bit (8 * k) ?b OR take_bit (8 * k) w = take_bit (8 * Suc k) w"
    by (rule bit_word_eqI) (auto simp: bit_simps)
  then show ?case using Suc.IH [of "push_bit 8 a OR ?b"]
    by (simp add: push_bit_or or.assoc add.commute)
qed simp

lemma be_uint_PutUint64: "be_uint (PutUint64 w) = w"
  unfolding be_uint_def PutUint64_def be_foldl by (simp add: take_bit_word_eq_self)

lemma be_uint_two:
  assumes "n \<le> 0xffff"
  shows "be_uint [of_nat (n div 2 ^ 8), of_nat n] = of_nat n"
proof -
  have "be_uint (map (\<lambda>i. ucast (drop_bit (8 * i) (of_nat n :: 64 word))) (rev [0..<2])) = of_nat n"
    unfolding be_uint_def be_foldl using assms
    by (simp add: take_bit_of_nat take_bit_nat_eq_self)
  moreover have "ucast (drop_bit 8 (of_nat n :: 64 word)) = (of_nat (n div 2 ^ 8) :: 8 word)"
    using assms by (simp add: drop_bit_eq_div word_arith_nat_div unat_of_nat take_bit_nat_eq_self unsigned_of_nat)
  moreover have "(ucast (of_nat n :: 64 word) :: 8 word) = of_nat n"
    using assms by (simp add: unsigned_of_nat take_bit_nat_eq_self)
  ultimately show ?thesis by (simp add: numeral_2_eq_2)
qed

lemma mask_bits:
  fixes b :: "8 word"
  shows "b < 128 \<Longrightarrow> (0x80 OR b) AND 0x7f = b" and "(0x80 OR b) AND 0x80 = 0x80"
    and "b < 16 \<Longrightarrow> (0x80 OR b) AND 0x0f = b" and "b < 128 \<Longrightarrow> b AND 0x80 = 0"
proof -
  show "(0x80 OR b) AND 0x7f = b" if "b < 128"
  proof -
    have "b AND mask 7 = b" using that by (intro less_mask_eq) simp
    then have "b AND 0x7f = b" by (simp add: mask_eq_decr_exp)
    then show ?thesis by (simp add: bit.conj_disj_distrib2)
  qed
  show "(0x80 OR b) AND 0x80 = 0x80" by (simp add: bit.conj_disj_distrib2)
  show "(0x80 OR b) AND 0x0f = b" if "b < 16"
  proof -
    have "b AND mask 4 = b" using that by (intro less_mask_eq) simp
    then have "b AND 0xf = b" by (simp add: mask_eq_decr_exp)
    then show ?thesis by (simp add: bit.conj_disj_distrib2)
  qed
  show "b AND 0x80 = 0" if "b < 128"
  proof -
    have "b AND mask 7 = b" using that by (intro less_mask_eq) simp
    then have "b AND 0x7f = b" by (simp add: mask_eq_decr_exp)
    moreover have "(b AND 0x7f) AND 0x80 = 0" by (simp add: and.assoc)
    ultimately show ?thesis by simp
  qed
qed

section \<open>Reading what a client writes\<close>

text \<open>The masked frame of RFC 6455, section 5, that a client sends.\<close>

definition client_frame :: "octets \<Rightarrow> 8 word \<Rightarrow> octets \<Rightarrow> octets" where
  "client_frame key opcode p =
    (0x80 OR opcode) # (0x80 OR hd (frame_length (length p))) # tl (frame_length (length p)) @ key @ unmask key p"

lemma unmask_nth: "i < length p \<Longrightarrow> unmask key p ! i = p ! i XOR key ! (i mod 4)"
  by (simp add: unmask_def nth_enumerate_eq)

lemma unmask_unmask [simp]: "unmask key (unmask key p) = p"
  by (rule nth_equalityI) (simp_all add: unmask_nth xor.assoc)

lemma small_length:
  assumes "n \<le> 125"
  shows "unat (of_nat n :: 8 word) = n" "(of_nat n :: 8 word) < 128"
    "(of_nat n :: 8 word) \<noteq> 126" "(of_nat n :: 8 word) \<noteq> 127"
proof -
  show u: "unat (of_nat n :: 8 word) = n" using assms by (simp add: unat_of_nat)
  show "(of_nat n :: 8 word) < 128" using u assms by (simp add: word_less_nat_alt)
  show "(of_nat n :: 8 word) \<noteq> 126" "(of_nat n :: 8 word) \<noteq> 127"
    using u assms by (auto simp: word_unat_eq_iff)
qed

lemma read_length_frame:
  assumes "n < 2 ^ 64"
  shows "read_length (0x80 OR hd (frame_length n)) (tl (frame_length n) @ r) = Inr (of_nat n, r) \<and>
    read_length (hd (frame_length n)) (tl (frame_length n) @ r) = Inr (of_nat n, r)"
proof -
  have len: "length (PutUint64 (of_nat n)) = 8" by (simp add: PutUint64_def)
  consider (a) "n \<le> 125" | (b) "125 < n" "n \<le> 0xffff" | (c) "n > 0xffff" by linarith
  then show ?thesis
  proof cases
    case a
    note s = small_length [OF a]
    have m: "(of_nat n :: 8 word) AND 0x7f = of_nat n"
      using less_mask_eq [of "of_nat n :: 8 word" 7] s(2) by (simp add: mask_eq_decr_exp)
    have u: "(ucast (of_nat n :: 8 word) :: 64 word) = of_nat n" using s(1) by (metis of_nat_unat)
    show ?thesis
      using a s(3,4) u m by (simp add: frame_length_def read_length_def mask_bits(1) [OF s(2)])
  next
    case b
    have "ReadFull 2 ([of_nat (n div 2 ^ 8), of_nat n] @ r) = Inr ([of_nat (n div 2 ^ 8), of_nat n], r)"
      by (rule ReadFull_append) simp
    then show ?thesis
      using b be_uint_two [of n] by (simp_all add: frame_length_def read_length_def)
  next
    case c
    then show ?thesis
      using len be_uint_PutUint64 [of "of_nat n"] by (simp_all add: frame_length_def read_length_def)
  qed
qed

lemma read_client_frame:
  assumes "opcode < 16" "length key = 4" "length p \<le> 2 ^ 20"
  shows "ReadWebSocketFrame (client_frame key opcode p @ r) = Inr (opcode, p, r)"
proof -
  let ?n = "length p"
  have hdr: "ReadFull 2 (client_frame key opcode p @ r) =
      Inr ([0x80 OR opcode, 0x80 OR hd (frame_length ?n)], tl (frame_length ?n) @ key @ unmask key p @ r)"
    by (simp add: ReadFull_def client_frame_def numeral_2_eq_2)
  have len: "read_length (0x80 OR hd (frame_length ?n)) (tl (frame_length ?n) @ key @ unmask key p @ r) =
      Inr (of_nat ?n, key @ unmask key p @ r)"
    using assms(3) by (intro read_length_frame [THEN conjunct1]) simp
  have u: "unat (of_nat ?n :: 64 word) = ?n" using assms(3) by (simp add: unat_of_nat)
  then have "\<not> webSocketMaxPayload < (of_nat ?n :: 64 word)"
    using assms(3) by (simp add: word_less_nat_alt webSocketMaxPayload_def)
  then show ?thesis
    using assms by (simp add: ReadWebSocketFrame_def hdr len u mask_bits)
qed

text \<open>
  C26. The frames travel unchanged in both directions: a masked frame of a client, with an
  operation code of four bits and at most one MiB of payload, is read back as its code
  and payload and exactly its bytes are consumed; and the bytes of a frame that the
  service writes are the final-frame bit with the code, a length field that decodes to
  the number of payload bytes, and the payload.
\<close>

theorem frame_roundtrip:
  assumes "opcode < 16" "length key = 4"
  shows "(length p \<le> 2 ^ 20 \<longrightarrow> ReadWebSocketFrame (client_frame key opcode p @ r) = Inr (opcode, p, r)) \<and>
    (length p < 2 ^ 63 \<longrightarrow>
      (\<exists>b l ls. WriteWebSocketFrame opcode p @ r = b # l # ls \<and> b AND 0x80 \<noteq> 0 \<and> b AND 0x0f = opcode \<and>
        l AND 0x80 = 0 \<and> read_length l ls = Inr (of_nat (length p), p @ r)))"
proof (intro conjI impI)
  show "ReadWebSocketFrame (client_frame key opcode p @ r) = Inr (opcode, p, r)" if "length p \<le> 2 ^ 20"
    using assms that by (rule read_client_frame)
  assume n: "length p < 2 ^ 63"
  have hd: "hd (frame_length (length p)) < 128"
    using small_length(2) [of "length p"] by (auto simp: frame_length_def)
  have split: "frame_length (length p) = hd (frame_length (length p)) # tl (frame_length (length p))"
    by (auto simp: frame_length_def)
  have w: "WriteWebSocketFrame opcode p @ r =
      (0x80 OR opcode) # hd (frame_length (length p)) # tl (frame_length (length p)) @ p @ r"
    unfolding WriteWebSocketFrame_def by (subst split) simp
  have "read_length (hd (frame_length (length p))) (tl (frame_length (length p)) @ p @ r) = Inr (of_nat (length p), p @ r)"
    using n by (intro read_length_frame [THEN conjunct2]) simp
  then show "\<exists>b l ls. WriteWebSocketFrame opcode p @ r = b # l # ls \<and> b AND 0x80 \<noteq> 0 \<and> b AND 0x0f = opcode \<and>
        l AND 0x80 = 0 \<and> read_length l ls = Inr (of_nat (length p), p @ r)"
    using w assms(1) hd by (auto simp: mask_bits)
qed

theorem frame_roundtrip_witness:
  "ReadWebSocketFrame (client_frame [1, 2, 3, 4] 1 [72, 105] @ [7]) = Inr (1, [72, 105], [7])"
  using frame_roundtrip [of 1 "[1, 2, 3, 4]" "[72, 105]" "[7]"] by simp

text \<open>
  Whatever a client sends, a frame that is read has at most one MiB of payload and a
  code of four bits, and at least six bytes more than its payload are consumed.
\<close>

theorem read_frame_bounded:
  assumes "ReadWebSocketFrame r = Inr (opcode, payload, rest)"
  shows "length payload \<le> 2 ^ 20 \<and> opcode < 16 \<and> length rest + length payload + 6 \<le> length r"
  using ReadWebSocketFrame_Inr [OF assms] by simp

theorem read_frame_bounded_witness:
  "length [72, 105 :: 8 word] \<le> 2 ^ 20 \<and> (1 :: 8 word) < 16 \<and>
   length [7 :: 8 word] + length [72, 105 :: 8 word] + 6 \<le> length (client_frame [1, 2, 3, 4] 1 [72, 105] @ [7])"
  using read_frame_bounded [OF read_client_frame [of 1 "[1, 2, 3, 4]" "[72, 105]" "[7]"]] by simp

section \<open>Pings\<close>

text \<open>What the reader owes the client, frame by frame.\<close>

fun replies :: "(8 word \<times> octets) list \<Rightarrow> octets list \<times> bool" where
  "replies [] = ([], False)"
| "replies ((opcode, p) # fs) =
    (if opcode = WebSocketOpClose then ([WriteWebSocketFrame WebSocketOpClose []], True)
     else case replies fs of (out, b) \<Rightarrow>
       (if opcode = WebSocketOpPing then (WriteWebSocketFrame WebSocketOpPong p # out, b) else (out, b)))"

lemma read_loop_nil: "read_loop [] = ([], False)"
  by (subst read_loop.simps) (simp add: ReadWebSocketFrame_def ReadFull_def)

text \<open>
  C25. The reader of an event stream answers the frames of a client, each masked with a key
  of its own, as the list of frames demands: every ping before a close frame is answered
  by a pong with the same payload, in order, other frames are skipped, and a close frame
  is answered by one and ends the reader.  The reader returns on every input.
\<close>

theorem reader_refines_replies:
  assumes "list_all (\<lambda>(key, opcode, p). length key = 4 \<and> opcode < 16 \<and> length p \<le> 2 ^ 20) fs"
  shows "read_loop (concat (map (\<lambda>(key, opcode, p). client_frame key opcode p) fs)) = replies (map snd fs)"
  using assms
proof (induction fs)
  case (Cons f fs)
  obtain key opcode p where f: "f = (key, opcode, p)" by (cases f) auto
  let ?r = "concat (map (\<lambda>(key, opcode, p). client_frame key opcode p) fs)"
  have "ReadWebSocketFrame (client_frame key opcode p @ ?r) = Inr (opcode, p, ?r)"
    using Cons.prems f by (intro read_client_frame) auto
  then show ?case using Cons f
    by (subst read_loop.simps) (simp split: prod.split)
qed (simp add: read_loop_nil)

theorem reader_refines_replies_witness:
  "read_loop (client_frame [1, 2, 3, 4] 9 [5] @ client_frame [0, 0, 0, 9] 8 []) =
   ([WriteWebSocketFrame WebSocketOpPong [5], WriteWebSocketFrame WebSocketOpClose []], True)"
  using reader_refines_replies [of "[([1, 2, 3, 4], 9, [5]), ([0, 0, 0, 9], 8, [])]"]
  by (simp add: ws_op_defs)

text \<open>The frames of the service itself are refused: only a client masks.\<close>

lemma server_frame_refused:
  assumes "opcode < 16"
  shows "ReadWebSocketFrame (WriteWebSocketFrame opcode p @ r) = Inl WsUnmasked"
proof -
  have hd: "hd (frame_length (length p)) < 128"
    using small_length(2) [of "length p"] by (auto simp: frame_length_def)
  have split: "frame_length (length p) = hd (frame_length (length p)) # tl (frame_length (length p))"
    by (auto simp: frame_length_def)
  have "ReadFull 2 (WriteWebSocketFrame opcode p @ r) =
      Inr ([0x80 OR opcode, hd (frame_length (length p))], tl (frame_length (length p)) @ p @ r)"
    unfolding WriteWebSocketFrame_def by (subst split) (simp add: ReadFull_def numeral_2_eq_2)
  then show ?thesis using hd by (simp add: ReadWebSocketFrame_def mask_bits)
qed

end
