(* ===== verification/SandboxPlan.thy ===== *)
theory SandboxPlan
  imports LaunchProfile
begin

text \<open>
  The mount plan of the core's sandbox: the path helpers, \<open>sandboxMounts\<close>,
  \<open>compactSandboxMounts\<close> and the name of a sandbox root, from
  \<open>core/sandbox/sandbox_linux.go\<close>, with \<open>validateWritablePaths\<close> of
  \<open>core/sandbox/command_linux.go\<close>.
\<close>

section \<open>Configuration\<close>

record Config =
  cf_ExecutablePath :: string
  cf_Args :: "string list"
  cf_Env :: "string list"
  cf_WorkingDir :: string
  cf_CPUAffinity :: "int list"
  cf_Sandbox :: bool
  cf_ReadOnlyPaths :: "string list"
  cf_WritablePaths :: "string list"
  cf_WritableDirs :: "string list"

record sandboxMount =
  sm_source :: string
  sm_target :: string
  sm_readOnly :: bool
  sm_file :: bool
  sm_proc :: bool

text \<open>\<open>ConfigError\<close> is the wrapper \<open>configError\<close>; the other constructors are plain errors.\<close>

datatype sandbox_error =
    EmptyPath
  | NoWorkingDirectory
  | PathMissing string
  | PathFailed string string
  | ResolveFailed string
  | ConfigError string sandbox_error

fun IsConfigError :: "sandbox_error \<Rightarrow> bool" where
  "IsConfigError (ConfigError p e) = True"
| "IsConfigError _ = False"

section \<open>Paths\<close>

definition normalizeSandboxPath :: "host \<Rightarrow> string \<Rightarrow> (sandbox_error, string) result" where
  "normalizeSandboxPath w path =
    (if TrimSpace path = [] then Inl EmptyPath
     else if \<not> IsAbs path
     then (case Abs (host_cwd w) path of None \<Rightarrow> Inl NoWorkingDirectory | Some p \<Rightarrow> Inr (Clean p))
     else Inr (Clean path))"

text \<open>\<open>os.Stat\<close>: whether the path is a directory.\<close>

definition Stat :: "host \<Rightarrow> string \<Rightarrow> (sandbox_error, bool) result" where
  "Stat w path =
    (case host_stat w path of
       StatDir \<Rightarrow> Inr True | StatFile \<Rightarrow> Inr False
     | StatMissing \<Rightarrow> Inl (PathMissing path) | StatError er \<Rightarrow> Inl (PathFailed path er))"

definition sandboxDirForPath :: "host \<Rightarrow> string \<Rightarrow> (sandbox_error, string) result" where
  "sandboxDirForPath w path =
    rbind (normalizeSandboxPath w path) (\<lambda>p. rbind (Stat w p) (\<lambda>isDir. Inr (if isDir then p else Dir p)))"

definition writableSandboxDir :: "host \<Rightarrow> string \<Rightarrow> (sandbox_error, string) result" where
  "writableSandboxDir w path =
    rbind (normalizeSandboxPath w path) (\<lambda>p. rbind (Stat w p) (\<lambda>isDir. Inr (Clean (if isDir then p else Dir p))))"

definition sandboxTarget :: "string \<Rightarrow> string \<Rightarrow> string" where
  "sandboxTarget root target =
    Join [root, (case cut_prefix (Clean target) [sep] of None \<Rightarrow> Clean target | Some t \<Rightarrow> t)]"

text \<open>The elements of a cleaned path, and \<open>filepath.Rel\<close> on two paths of the same kind.\<close>

definition elems :: "string \<Rightarrow> string list" where
  "elems p = filter (\<lambda>e. e \<noteq> [] \<and> e \<noteq> ''.'') (split_on sep (Clean p))"

fun strip_common :: "string list \<Rightarrow> string list \<Rightarrow> string list \<times> string list" where
  "strip_common (a # as) (b # bs) = (if a = b then strip_common as bs else (a # as, b # bs))"
| "strip_common as bs = (as, bs)"

definition Rel :: "string \<Rightarrow> string \<Rightarrow> string list option" where
  "Rel base targ =
    (if IsAbs base \<noteq> IsAbs targ then None
     else case strip_common (elems base) (elems targ) of (b, t) \<Rightarrow>
       if (case b of e # _ \<Rightarrow> e = ''..'' | [] \<Rightarrow> False) then None else Some (map (\<lambda>_. ''..'') b @ t))"

text \<open>\<open>rel != ".."\<close> without the prefix \<open>"../"\<close>: the first element is not dot-dot.\<close>

definition pathWithin :: "string \<Rightarrow> string \<Rightarrow> bool" where
  "pathWithin path root =
    (if path = root then True
     else case Rel root path of None \<Rightarrow> False | Some rel \<Rightarrow> (case rel of [] \<Rightarrow> True | e # _ \<Rightarrow> e \<noteq> ''..''))"

section \<open>Compaction\<close>

definition merge_mount :: "sandboxMount \<Rightarrow> sandboxMount \<Rightarrow> sandboxMount" where
  "merge_mount existing m =
    existing\<lparr>sm_readOnly := sm_readOnly existing \<and> sm_readOnly m, sm_file := sm_file existing \<or> sm_file m,
      sm_proc := sm_proc existing \<or> sm_proc m,
      sm_source := (if sm_source existing = [] then sm_source m else sm_source existing)\<rparr>"

fun insert_mount :: "sandboxMount \<Rightarrow> sandboxMount list \<Rightarrow> sandboxMount list" where
  "insert_mount m [] = [m]"
| "insert_mount m (x # xs) = (if sm_target x = sm_target m then merge_mount x m # xs else x # insert_mount m xs)"

definition clean_mount :: "sandboxMount \<Rightarrow> sandboxMount" where
  "clean_mount m = m\<lparr>sm_target := Clean (sm_target m),
     sm_source := (if sm_source m \<noteq> [] then Clean (sm_source m) else sm_source m)\<rparr>"

definition compact_step :: "sandboxMount \<Rightarrow> sandboxMount list \<Rightarrow> sandboxMount list" where
  "compact_step m result = (if sm_target m = [] then result else insert_mount (clean_mount m) result)"

definition depth :: "string \<Rightarrow> nat" where
  "depth p = length (filter (\<lambda>c. c = sep) p)"

definition compactSandboxMounts :: "sandboxMount list \<Rightarrow> sandboxMount list" where
  "compactSandboxMounts mounts = sort_key (depth \<circ> sm_target) (fold compact_step mounts [])"

section \<open>The plan\<close>

type_synonym mounts = "sandboxMount list"

fun rfold :: "('a \<Rightarrow> 's \<Rightarrow> ('e, 's) result) \<Rightarrow> 'a list \<Rightarrow> 's \<Rightarrow> ('e, 's) result" where
  "rfold f [] s = Inr s"
| "rfold f (x # xs) s = rbind (f x s) (rfold f xs)"

definition bind_mount :: "string \<Rightarrow> bool \<Rightarrow> bool \<Rightarrow> sandboxMount" where
  "bind_mount path readOnly isFile =
    \<lparr>sm_source = path, sm_target = path, sm_readOnly = readOnly, sm_file = isFile, sm_proc = False\<rparr>"

definition addMount :: "host \<Rightarrow> bool \<Rightarrow> bool \<Rightarrow> string \<Rightarrow> mounts \<Rightarrow> (sandbox_error, mounts) result" where
  "addMount w readOnly isFile source ms =
    rbind (normalizeSandboxPath w source) (\<lambda>p. rbind (Stat w p) (\<lambda>_. Inr (ms @ [bind_mount p readOnly isFile])))"

definition addMountIfExists :: "host \<Rightarrow> bool \<Rightarrow> bool \<Rightarrow> string \<Rightarrow> mounts \<Rightarrow> (sandbox_error, mounts) result" where
  "addMountIfExists w readOnly isFile source ms =
    (if host_stat w source = StatMissing then Inr ms else addMount w readOnly isFile source ms)"

text \<open>\<open>addReadOnlyPath\<close> and \<open>addWritablePath\<close>.\<close>

definition addPath :: "host \<Rightarrow> bool \<Rightarrow> string \<Rightarrow> mounts \<Rightarrow> (sandbox_error, mounts) result" where
  "addPath w readOnly path ms =
    rbind (normalizeSandboxPath w path) (\<lambda>p. rbind (Stat w p) (\<lambda>isDir. addMount w readOnly (\<not> isDir) p ms))"

definition addWritableDir :: "host \<Rightarrow> string \<Rightarrow> mounts \<Rightarrow> (sandbox_error, mounts) result" where
  "addWritableDir w path ms = rbind (writableSandboxDir w path) (\<lambda>p. addMount w False False p ms)"

definition system_dirs :: "string list" where
  "system_dirs = [''/bin'', ''/sbin'', ''/usr'', ''/lib'', ''/lib64'', ''/etc'', ''/sys'', ''/nix/store'',
     ''/run/systemd/resolve'', ''/run/resolvconf'', ''/run/current-system'', ''/run/booted-system'', ''/run/wrappers'']"

definition device_files :: "string list" where
  "device_files = [''/dev/null'', ''/dev/zero'', ''/dev/random'', ''/dev/urandom'', ''/dev/net/tun'']"

definition proc_mount :: sandboxMount where
  "proc_mount = \<lparr>sm_source = [], sm_target = ''/proc'', sm_readOnly = False, sm_file = False, sm_proc = True\<rparr>"

text \<open>\<open>resolve\<close> is \<open>filepath.EvalSymlinks\<close>.\<close>

definition core_mounts ::
    "host \<Rightarrow> (string \<Rightarrow> (string, string) result) \<Rightarrow> Config \<Rightarrow> mounts \<Rightarrow> (sandbox_error, string \<times> mounts) result" where
  "core_mounts w resolve config ms =
    rbind (sandboxDirForPath w (cf_ExecutablePath config)) (\<lambda>coreDir.
    rbind (addMount w (pathWithin coreDir ''/nix/store'') False coreDir ms) (\<lambda>ms1.
    (case resolve (cf_ExecutablePath config) of Inl er \<Rightarrow> Inl (ResolveFailed er)
     | Inr exe \<Rightarrow>
    rbind (sandboxDirForPath w exe) (\<lambda>resolvedDir.
    rbind (if resolvedDir \<noteq> coreDir then addMount w (pathWithin resolvedDir ''/nix/store'') False resolvedDir ms1
           else Inr ms1) (\<lambda>ms2. Inr (coreDir, ms2))))))"

definition config_mounts :: "host \<Rightarrow> Config \<Rightarrow> string \<Rightarrow> mounts \<Rightarrow> (sandbox_error, mounts) result" where
  "config_mounts w config coreDir ms =
    rbind (rfold (addPath w True) (cf_ReadOnlyPaths config) ms) (\<lambda>ms1.
    rbind (sandboxDirForPath w (cf_WorkingDir config)) (\<lambda>workingDir.
    rbind (if workingDir \<noteq> coreDir then addMount w True False workingDir ms1 else Inr ms1) (\<lambda>ms2.
    rbind (rfold (\<lambda>path. map_err (ConfigError path) \<circ> addPath w False path) (cf_WritablePaths config) ms2)
      (rfold (addWritableDir w) (cf_WritableDirs config)))))"

definition sandboxMounts ::
    "host \<Rightarrow> (string \<Rightarrow> (string, string) result) \<Rightarrow> Config \<Rightarrow> (sandbox_error, mounts) result" where
  "sandboxMounts w resolve config =
    (if list_ex (\<lambda>path. Clean path = [sep]) (cf_WritablePaths config)
     then Inr [bind_mount [sep] False False]
     else
       rbind (rfold (addMountIfExists w True False) system_dirs []) (\<lambda>ms1.
       rbind (addMount w False True ''/run/xtables.lock'' ms1) (\<lambda>ms2.
       rbind (core_mounts w resolve config ms2) (\<lambda>(coreDir, ms3).
       rbind (config_mounts w config coreDir ms3) (\<lambda>ms4.
       rbind (rfold (addMountIfExists w False True) device_files (ms4 @ [proc_mount])) (\<lambda>ms5.
       Inr (compactSandboxMounts ms5)))))))"

text \<open>\<open>validateWritablePaths\<close>: the first error.\<close>

fun validateWritablePaths :: "host \<Rightarrow> string list \<Rightarrow> sandbox_error option" where
  "validateWritablePaths w [] = None"
| "validateWritablePaths w (path # paths) =
    (if TrimSpace path = [] then Some (ConfigError [] EmptyPath)
     else case normalizeSandboxPath w path of Inl er \<Rightarrow> Some (ConfigError [] er)
     | Inr p \<Rightarrow> (case Stat w p of Inl er \<Rightarrow> Some (ConfigError p er) | Inr _ \<Rightarrow> validateWritablePaths w paths))"

end
