(* ===== verification/SandboxRoot.thy ===== *)
theory SandboxRoot
  imports SandboxPlan
begin

text \<open>
  The root directory of a sandbox, from \<open>core/sandbox/sandbox_linux.go\<close>: its name and
  owner, the checks before it is used or removed, \<open>mountIntoSandbox\<close>, \<open>prepareRoot\<close> with
  its roll-back, and the removal of roots that an earlier service left behind.
\<close>

section \<open>Names\<close>

definition sandboxRootPrefix :: string where
  "sandboxRootPrefix = ''sparkle-core-sandbox-''"

text \<open>\<open>strings.Fields\<close>.\<close>

function fields_from :: "string \<Rightarrow> string \<Rightarrow> string list" where
  "fields_from cur s =
    (if s = [] then (if cur = [] then [] else [rev cur])
     else case leading space_runes s of
       Some p \<Rightarrow> (if cur = [] then [] else [rev cur]) @ fields_from [] (drop (length p) s)
     | None \<Rightarrow> fields_from (hd s # cur) (tl s))"
  by pat_completeness auto

termination
proof (relation "measure (length \<circ> snd)")
  fix cur s p
  assume "s \<noteq> []" "leading space_runes s = Some p"
  then show "(([], drop (length p) s), cur, s) \<in> measure (length \<circ> snd)"
    using leading_Some [of space_runes s p] by (auto intro!: diff_less)
qed auto

declare fields_from.simps [simp del]

definition Fields :: "string \<Rightarrow> string list" where
  "Fields s = fields_from [] s"

text \<open>The text after the last occurrence of a character, if there is one.\<close>

definition after_last :: "char \<Rightarrow> string \<Rightarrow> string option" where
  "after_last c s = (if c \<in> set s then Some (rev (takeWhile (\<lambda>x. x \<noteq> c) (rev s))) else None)"

text \<open>\<open>stat\<close> gives the content of \<open>/proc/<pid>/stat\<close>; an error is a plain text.\<close>

definition linuxProcessStartTime :: "(int \<Rightarrow> (string, bytes) result) \<Rightarrow> int \<Rightarrow> (string, string) result" where
  "linuxProcessStartTime stat pid =
    (case stat pid of Inl er \<Rightarrow> Inl er
     | Inr data \<Rightarrow>
        (case after_last CHR '')'' data of None \<Rightarrow> Inl ''format''
         | Some rest \<Rightarrow> (let fields = Fields rest in if length fields \<le> 19 then Inl ''fields'' else Inr (fields ! 19))))"

text \<open>\<open>random\<close> is what \<open>os.MkdirTemp\<close> puts in the place of the star.\<close>

definition sandbox_root_name :: "nat \<Rightarrow> string \<Rightarrow> string \<Rightarrow> string" where
  "sandbox_root_name pid startTime random = sandboxRootPrefix @ FormatUint pid @ ''-'' @ startTime @ ''-'' @ random"

definition sandboxRootOwnerActive :: "(int \<Rightarrow> (string, bytes) result) \<Rightarrow> string \<Rightarrow> bool" where
  "sandboxRootOwnerActive stat root =
    (let base = Base root;
         name = (case cut_prefix base sandboxRootPrefix of None \<Rightarrow> base | Some n \<Rightarrow> n)
     in case cut name ''-'' of None \<Rightarrow> False
        | Some (pidValue, rest) \<Rightarrow>
           (case cut rest ''-'' of None \<Rightarrow> False
            | Some (startTime, _) \<Rightarrow>
               (case ParseInt pidValue 64 of None \<Rightarrow> False
                | Some pid \<Rightarrow> pid > 0 \<and> linuxProcessStartTime stat pid = Inr startTime)))"

section \<open>The mount table\<close>

text \<open>\<open>strings.NewReplacer\<close> with the four escapes of the mount table, at each position in turn.\<close>

fun unescapeMountInfoPath :: "string \<Rightarrow> string" where
  "unescapeMountInfoPath [] = []"
| "unescapeMountInfoPath (c # cs) =
    (if prefix [CHR 0x5C, CHR ''0'', CHR ''4'', CHR ''0''] (c # cs) then CHR '' '' # unescapeMountInfoPath (drop 3 cs)
     else if prefix [CHR 0x5C, CHR ''0'', CHR ''1'', CHR ''1''] (c # cs) then CHR 0x09 # unescapeMountInfoPath (drop 3 cs)
     else if prefix [CHR 0x5C, CHR ''0'', CHR ''1'', CHR ''2''] (c # cs) then LF # unescapeMountInfoPath (drop 3 cs)
     else if prefix [CHR 0x5C, CHR ''1'', CHR ''3'', CHR ''4''] (c # cs) then CHR 0x5C # unescapeMountInfoPath (drop 3 cs)
     else c # unescapeMountInfoPath cs)"

text \<open>
  \<open>linuxMountPointsUnder\<close> on the content of \<open>/proc/self/mountinfo\<close> (none if it cannot be
  read).  \<open>sortf\<close> is \<open>slices.SortFunc\<close> by falling depth, which leaves the order of equals
  open.
\<close>

definition mount_points_in :: "bytes \<Rightarrow> string list" where
  "mount_points_in data =
    map (\<lambda>fields. Clean (unescapeMountInfoPath (fields ! 4)))
      (filter (\<lambda>fields. 5 \<le> length fields) (map Fields (split_on LF data)))"

definition linuxMountPointsUnder :: "(string list \<Rightarrow> string list) \<Rightarrow> bytes option \<Rightarrow> string \<Rightarrow> string list" where
  "linuxMountPointsUnder sortf info root =
    (case info of None \<Rightarrow> []
     | Some data \<Rightarrow> sortf (filter (\<lambda>p. pathWithin p (Clean root)) (mount_points_in data)))"

section \<open>Checks\<close>

text \<open>What \<open>os.Lstat\<close> reports of a directory entry.\<close>

record file_info =
  fi_isDir :: bool
  fi_symlink :: bool
  fi_uid :: int
  fi_perm :: nat

datatype lstat_result = LMissing | LError string | LInfo file_info

definition private_dir :: "int \<Rightarrow> file_info \<Rightarrow> bool" where
  "private_dir euid i \<longleftrightarrow> fi_isDir i \<and> \<not> fi_symlink i \<and> fi_uid i = euid \<and> fi_perm i = 448"

datatype root_error =
    UntrustedRoot string
  | LstatFailed string
  | BadRootMode string
  | LockFailed string
  | PlanFailed sandbox_error
  | MountFailed string nat
  | PrivateFailed string nat
  | LayoutFailed string
  | MkdirFailed string
  | ReadOnlyFailed string
  | UnmountFailed string nat
  | RemoveFailed string

definition validateSandboxRoot :: "string \<Rightarrow> int \<Rightarrow> (string \<Rightarrow> lstat_result) \<Rightarrow> string \<Rightarrow> root_error option" where
  "validateSandboxRoot tmp euid lstat root0 =
    (let root = Clean root0
     in if Dir root \<noteq> Clean tmp \<or> \<not> has_prefix (Base root) sandboxRootPrefix then Some (UntrustedRoot root)
        else case lstat root of
          LMissing \<Rightarrow> Some (LstatFailed root) | LError er \<Rightarrow> Some (LstatFailed root)
        | LInfo i \<Rightarrow> if private_dir euid i then None else Some (BadRootMode root))"

section \<open>Mounting\<close>

text \<open>
  System calls: an answer is \<open>None\<close> for success or an error number.  A state counts the
  calls, so that the same call may answer differently each time, and holds the mount
  points in the order of mounting, those made read-only, whether the root directory
  exists, and the mount points whose contents a recursive removal went through.
  \<open>k_mountinfo\<close> is the mount table the kernel shows for the points mounted.
\<close>

record kernel =
  k_mount :: "nat \<Rightarrow> string \<Rightarrow> nat option"
  k_private :: "nat \<Rightarrow> string \<Rightarrow> nat option"
  k_unmount :: "nat \<Rightarrow> string \<Rightarrow> nat option"
  k_mkdir :: "nat \<Rightarrow> string \<Rightarrow> bool"
  k_setattr :: "nat \<Rightarrow> string \<Rightarrow> bool"
  k_remount :: "nat \<Rightarrow> string \<Rightarrow> bool"
  k_remove :: "nat \<Rightarrow> string \<Rightarrow> bool"
  k_mountinfo :: "nat \<Rightarrow> string list \<Rightarrow> bytes option"
  k_sort :: "string list \<Rightarrow> string list"

record mount_state =
  ms_clock :: nat
  ms_mounted :: "string list"
  ms_readonly :: "string list"
  ms_exists :: bool
  ms_emptied :: "string list"

definition EINVAL :: nat where "EINVAL = 22"
definition ENOENT :: nat where "ENOENT = 2"

definition tick :: "mount_state \<Rightarrow> mount_state" where
  "tick s = s\<lparr>ms_clock := ms_clock s + 1\<rparr>"

definition sys_mount :: "kernel \<Rightarrow> string \<Rightarrow> mount_state \<Rightarrow> nat option \<times> mount_state" where
  "sys_mount k target s =
    (case k_mount k (ms_clock s) target of
       Some e \<Rightarrow> (Some e, tick s)
     | None \<Rightarrow> (None, (tick s)\<lparr>ms_mounted := ms_mounted s @ [target]\<rparr>))"

text \<open>\<open>MNT_DETACH\<close> takes away the topmost mount of the point.\<close>

definition sys_unmount :: "kernel \<Rightarrow> string \<Rightarrow> mount_state \<Rightarrow> nat option \<times> mount_state" where
  "sys_unmount k target s =
    (case k_unmount k (ms_clock s) target of
       Some e \<Rightarrow> (Some e, tick s)
     | None \<Rightarrow> (None, (tick s)\<lparr>ms_mounted := rev (remove1 target (rev (ms_mounted s)))\<rparr>))"

text \<open>\<open>makeSandboxMountPrivate\<close>: a second, not recursive attempt follows \<open>EINVAL\<close>.\<close>

definition makeSandboxMountPrivate :: "kernel \<Rightarrow> string \<Rightarrow> mount_state \<Rightarrow> nat option \<times> mount_state" where
  "makeSandboxMountPrivate k target s =
    (case k_private k (ms_clock s) target of
       Some e \<Rightarrow> if e = EINVAL then (k_private k (ms_clock s + 1) target, tick (tick s)) else (Some e, tick s)
     | None \<Rightarrow> (None, tick s))"

fun remount_all :: "kernel \<Rightarrow> string list \<Rightarrow> mount_state \<Rightarrow> bool \<times> mount_state" where
  "remount_all k [] s = (True, s)"
| "remount_all k (p # ps) s =
    (if k_remount k (ms_clock s) p
     then remount_all k ps ((tick s)\<lparr>ms_readonly := p # ms_readonly s\<rparr>) else (False, tick s))"

definition makeSandboxMountTreeReadOnly :: "kernel \<Rightarrow> string \<Rightarrow> mount_state \<Rightarrow> bool \<times> mount_state" where
  "makeSandboxMountTreeReadOnly k target s =
    (let points = linuxMountPointsUnder (k_sort k) (k_mountinfo k (ms_clock s) (ms_mounted s)) target
     in remount_all k (if points = [] then [target] else points) (tick s))"

text \<open>The end that a mount takes when it cannot be made private or read-only.\<close>

definition undo_mount :: "kernel \<Rightarrow> string \<Rightarrow> root_error \<Rightarrow> mount_state \<Rightarrow> root_error option \<times> mount_state" where
  "undo_mount k target er s = (Some er, snd (sys_unmount k target s))"

definition isolate ::
    "kernel \<Rightarrow> string \<Rightarrow> (mount_state \<Rightarrow> root_error option \<times> mount_state) \<Rightarrow> mount_state
     \<Rightarrow> root_error option \<times> mount_state" where
  "isolate k target cont s =
    (case makeSandboxMountPrivate k target s of
       (Some e, s1) \<Rightarrow> undo_mount k target (PrivateFailed target e) s1
     | (None, s1) \<Rightarrow> cont s1)"

definition mountKernelFilesystem :: "kernel \<Rightarrow> string \<Rightarrow> mount_state \<Rightarrow> root_error option \<times> mount_state" where
  "mountKernelFilesystem k target s =
    (if \<not> k_mkdir k (ms_clock s) target then (Some (MkdirFailed target), tick s)
     else case sys_mount k target (tick s) of
       (Some e, s1) \<Rightarrow> (Some (MountFailed target e), s1)
     | (None, s1) \<Rightarrow> isolate k target (Pair None) s1)"

definition make_readonly :: "kernel \<Rightarrow> string \<Rightarrow> mount_state \<Rightarrow> root_error option \<times> mount_state" where
  "make_readonly k target s =
    (if k_setattr k (ms_clock s) target then (None, (tick s)\<lparr>ms_readonly := target # ms_readonly s\<rparr>)
     else case makeSandboxMountTreeReadOnly k target (tick s) of
       (True, s1) \<Rightarrow> (None, s1)
     | (False, s1) \<Rightarrow> undo_mount k target (ReadOnlyFailed target) s1)"

text \<open>\<open>k_mkdir\<close> also stands for creating the file that a file is mounted on.\<close>

definition mountIntoSandbox :: "kernel \<Rightarrow> string \<Rightarrow> sandboxMount \<Rightarrow> mount_state \<Rightarrow> root_error option \<times> mount_state" where
  "mountIntoSandbox k target m s =
    (if sm_proc m then mountKernelFilesystem k target s
     else if \<not> k_mkdir k (ms_clock s) target then (Some (MkdirFailed target), tick s)
     else case sys_mount k target (tick s) of
       (Some e, s1) \<Rightarrow> (Some (MountFailed target e), s1)
     | (None, s1) \<Rightarrow>
         isolate k target (\<lambda>s2. if sm_readOnly m then make_readonly k target s2 else (None, s2)) s1)"

section \<open>Preparing the root\<close>

definition mountSandboxRoot :: "kernel \<Rightarrow> string \<Rightarrow> mount_state \<Rightarrow> root_error option \<times> mount_state" where
  "mountSandboxRoot k root s =
    (case sys_mount k root s of
       (Some e, s1) \<Rightarrow> (Some (MountFailed root e), s1)
     | (None, s1) \<Rightarrow> isolate k root (Pair None) s1)"

text \<open>One step of a clean-up; the first error is kept.\<close>

definition detach :: "kernel \<Rightarrow> bool \<Rightarrow> string \<Rightarrow> root_error option \<times> mount_state \<Rightarrow> root_error option \<times> mount_state" where
  "detach k lenient point r =
    (case r of (err, s) \<Rightarrow>
     (let keep = (\<lambda>er. case err of None \<Rightarrow> Some er | Some e \<Rightarrow> Some e)
      in case makeSandboxMountPrivate k point s of
           (Some e, s1) \<Rightarrow> (if e = EINVAL \<or> e = ENOENT then err else keep (PrivateFailed point e), s1)
         | (None, s1) \<Rightarrow>
            (case sys_unmount k point s1 of
               (Some e, s2) \<Rightarrow> (if lenient \<and> (e = EINVAL \<or> e = ENOENT) then err else keep (UnmountFailed point e), s2)
             | (None, s2) \<Rightarrow> (err, s2))))"

text \<open>
  \<open>os.RemoveAll\<close> descends into whatever is mounted below the root and can be written.
\<close>

definition remove_root :: "kernel \<Rightarrow> string \<Rightarrow> root_error option \<times> mount_state \<Rightarrow> root_error option \<times> mount_state" where
  "remove_root k root r =
    (case r of (err, s) \<Rightarrow>
     let s1 = (tick s)\<lparr>ms_emptied := ms_emptied s @ filter (\<lambda>p. p \<noteq> root \<and> p \<notin> set (ms_readonly s)) (ms_mounted s)\<rparr>
     in if k_remove k (ms_clock s) root then (err, s1\<lparr>ms_exists := False\<rparr>)
        else ((case err of None \<Rightarrow> Some (RemoveFailed root) | Some e \<Rightarrow> Some e), s1))"

text \<open>The closure \<open>cleanup\<close> of \<open>prepareRoot\<close>: the targets in reverse order, then the root.\<close>

definition rollback :: "kernel \<Rightarrow> string \<Rightarrow> string list \<Rightarrow> mount_state \<Rightarrow> root_error option \<times> mount_state" where
  "rollback k root mounted s =
    remove_root k root (detach k True root (fold (detach k False) (rev mounted) (None, s)))"

fun mount_all ::
    "kernel \<Rightarrow> string \<Rightarrow> sandboxMount list \<Rightarrow> string list \<Rightarrow> mount_state \<Rightarrow> root_error option \<times> mount_state" where
  "mount_all k root [] mounted s = (None, s)"
| "mount_all k root (m # ms) mounted s =
    (let target = sandboxTarget root (sm_target m)
     in case mountIntoSandbox k target m s of
          (Some er, s1) \<Rightarrow> (Some er, snd (rollback k root mounted s1))
        | (None, s1) \<Rightarrow> mount_all k root ms (mounted @ [target]) s1)"

text \<open>\<open>cleanupLinuxSandboxRoot\<close>, for a root that may have been left behind.\<close>

definition cleanupLinuxSandboxRoot ::
    "kernel \<Rightarrow> int \<Rightarrow> (string \<Rightarrow> lstat_result) \<Rightarrow> string \<Rightarrow> mount_state \<Rightarrow> root_error option \<times> mount_state" where
  "cleanupLinuxSandboxRoot k euid lstat root s =
    (case lstat root of
       LMissing \<Rightarrow> (None, s)
     | LError er \<Rightarrow> (Some (LstatFailed root), s)
     | LInfo i \<Rightarrow>
        if \<not> private_dir euid i then (None, s)
        else remove_root k root (fold (detach k True)
          (linuxMountPointsUnder (k_sort k) (k_mountinfo k (ms_clock s) (ms_mounted s)) root) (None, tick s)))"

record root_env =
  en_tmp :: string
  en_euid :: int
  en_lstat :: "string \<Rightarrow> lstat_result"
  en_lock :: "string option"
  en_layout :: "string option"

definition prepareRoot ::
    "host \<Rightarrow> (string \<Rightarrow> (string, string) result) \<Rightarrow> root_env \<Rightarrow> kernel \<Rightarrow> Config \<Rightarrow> string \<Rightarrow> mount_state
     \<Rightarrow> root_error option \<times> mount_state" where
  "prepareRoot w resolve e k config root s =
    (case validateSandboxRoot (en_tmp e) (en_euid e) (en_lstat e) root of Some er \<Rightarrow> (Some er, s)
     | None \<Rightarrow>
    (case en_lock e of Some er \<Rightarrow> (Some (LockFailed er), s)
     | None \<Rightarrow>
    (case sandboxMounts w resolve config of Inl er \<Rightarrow> (Some (PlanFailed er), s)
     | Inr mounts \<Rightarrow>
    (case mountSandboxRoot k root s of (Some er, s1) \<Rightarrow> (Some er, s1)
     | (None, s1) \<Rightarrow>
    (case en_layout e of
       Some er \<Rightarrow> (Some (LayoutFailed er), snd (cleanupLinuxSandboxRoot k (en_euid e) (en_lstat e) root s1))
     | None \<Rightarrow> mount_all k root mounts [] s1)))))"

text \<open>\<open>cleanupStaleLinuxSandboxRoots\<close> over the roots that the pattern finds; errors are only logged.\<close>

definition cleanupStaleLinuxSandboxRoots ::
    "kernel \<Rightarrow> int \<Rightarrow> (string \<Rightarrow> lstat_result) \<Rightarrow> (int \<Rightarrow> (string, bytes) result) \<Rightarrow> string list
     \<Rightarrow> (string \<Rightarrow> mount_state) \<Rightarrow> string \<Rightarrow> mount_state" where
  "cleanupStaleLinuxSandboxRoots k euid lstat stat roots =
    fold (\<lambda>root d. if sandboxRootOwnerActive stat root then d
            else d(root := snd (cleanupLinuxSandboxRoot k euid lstat root (d root)))) roots"

end
