(* ===== verification/SandboxPlanProps.thy ===== *)
theory SandboxPlanProps
  imports SandboxPlan
begin

text \<open>
  Properties of the mount plan: compaction implements a map from targets to access modes,
  parents come before children, and only the paths that the configuration names, the
  directory of the core and a fixed list of files can be written inside the sandbox.
\<close>

section \<open>Compaction\<close>

text \<open>What a list of mounts means: for every target, whether all its mounts are read-only.\<close>

primrec plan_modes :: "sandboxMount list \<Rightarrow> string \<rightharpoonup> bool" where
  "plan_modes [] = Map.empty"
| "plan_modes (m # ms) = (plan_modes ms)(sm_target m \<mapsto> sm_readOnly m \<and> plan_modes ms (sm_target m) \<noteq> Some False)"

lemma plan_modes_iff:
  "plan_modes ms t = (if \<exists>m\<in>set ms. sm_target m = t
     then Some (\<forall>m\<in>set ms. sm_target m = t \<longrightarrow> sm_readOnly m) else None)"
proof (induction ms)
  case (Cons m ms)
  show ?case
  proof (cases "sm_target m = t")
    case True
    then show ?thesis using Cons by (cases "\<exists>m\<in>set ms. sm_target m = t") (auto split: if_splits)
  qed (use Cons in auto)
qed simp

lemma plan_modes_set: "set xs = set ys \<Longrightarrow> plan_modes xs = plan_modes ys"
  by (rule ext) (simp add: plan_modes_iff)

lemma merge_mount_fields [simp]:
  "sm_target (merge_mount x m) = sm_target x"
  "sm_readOnly (merge_mount x m) \<longleftrightarrow> sm_readOnly x \<and> sm_readOnly m"
  by (simp_all add: merge_mount_def)

lemma plan_modes_swap: "plan_modes (a # b # xs) = plan_modes (b # a # xs)"
  by (rule plan_modes_set) auto

lemma plan_modes_insert: "plan_modes (insert_mount m xs) = plan_modes (m # xs)"
proof (induction xs)
  case (Cons x xs)
  show ?case
  proof (cases "sm_target x = sm_target m")
    case False
    then have "plan_modes (insert_mount m (x # xs)) = plan_modes (x # insert_mount m xs)" by simp
    also have "\<dots> = plan_modes (x # m # xs)" by (subst (1 2) plan_modes.simps) (simp only: Cons)
    finally have "plan_modes (insert_mount m (x # xs)) = plan_modes (x # m # xs)" .
    then show ?thesis by (simp only: plan_modes_swap)
  qed auto
qed simp

lemma plan_modes_append: "plan_modes ys = plan_modes zs \<Longrightarrow> plan_modes (xs @ ys) = plan_modes (xs @ zs)"
  by (induction xs) simp_all

lemma insert_mount_targets:
  "sm_target ` set (insert_mount m xs) = insert (sm_target m) (sm_target ` set xs)"
  by (induction xs) auto

lemma insert_mount_distinct:
  "distinct (map sm_target xs) \<Longrightarrow> distinct (map sm_target (insert_mount m xs))"
proof (induction xs)
  case (Cons x xs)
  then show ?case using insert_mount_targets [of m xs] by auto
qed simp

definition named :: "sandboxMount list \<Rightarrow> sandboxMount list" where
  "named ms = map clean_mount (filter (\<lambda>m. sm_target m \<noteq> []) ms)"

lemma fold_compact_modes:
  "plan_modes (fold compact_step ms acc) = plan_modes (named ms @ acc)"
proof (induction ms arbitrary: acc)
  case (Cons m ms)
  have "plan_modes (named ms @ clean_mount m # acc) = plan_modes (clean_mount m # named ms @ acc)"
    by (rule plan_modes_set) auto
  moreover have "plan_modes (named ms @ insert_mount (clean_mount m) acc) = plan_modes (named ms @ clean_mount m # acc)"
    by (rule plan_modes_append) (rule plan_modes_insert)
  ultimately show ?case using Cons.IH by (simp add: compact_step_def named_def)
qed (simp add: named_def)

lemma fold_compact_distinct:
  "distinct (map sm_target acc) \<Longrightarrow> distinct (map sm_target (fold compact_step ms acc))"
  by (induction ms arbitrary: acc) (simp_all add: compact_step_def insert_mount_distinct)


section \<open>What can be written\<close>

text \<open>\<open>os.Getwd\<close> returns a rooted path.\<close>

definition rooted_host :: "host \<Rightarrow> bool" where
  "rooted_host w \<longleftrightarrow> (\<forall>d. host_cwd w = Some d \<longrightarrow> IsAbs d)"

definition clean_path :: "string \<Rightarrow> bool" where
  "clean_path p \<longleftrightarrow> IsAbs p \<and> Clean p = p"

lemma clean_path_Clean: "IsAbs p \<Longrightarrow> clean_path (Clean p)"
  by (simp add: clean_path_def Clean_idem_rooted)

lemma clean_path_not_Nil: "clean_path p \<Longrightarrow> p \<noteq> []"
  by (auto simp: clean_path_def IsAbs_def)

lemma normalize_clean:
  assumes "rooted_host w" "normalizeSandboxPath w q = Inr p"
  shows "clean_path p"
proof (cases "IsAbs q")
  case True
  then show ?thesis using assms(2) by (auto simp: normalizeSandboxPath_def clean_path_Clean split: if_splits)
next
  case False
  then obtain r where "Abs (host_cwd w) q = Some r" "p = Clean r"
    using assms(2) by (auto simp: normalizeSandboxPath_def split: if_splits option.splits)
  then show ?thesis using Abs_rooted assms(1) clean_path_Clean by (auto simp: rooted_host_def)
qed

text \<open>A path that starts with a separator is not blank.\<close>

lemma rooted_not_blank: "IsAbs p \<Longrightarrow> TrimSpace p \<noteq> []"
  using TrimSpace_keeps_graphic [of sep p] by (auto simp: IsAbs_def prefix_def graphic_def)

lemma normalize_id: "clean_path p \<Longrightarrow> normalizeSandboxPath w p = Inr p"
  by (simp add: normalizeSandboxPath_def clean_path_def rooted_not_blank)

lemma Dir_clean:
  assumes "clean_path p"
  shows "clean_path (Dir p)"
proof -
  obtain r where p: "p = sep # r" using assms by (auto simp: clean_path_def IsAbs_def prefix_def)
  have "\<exists>q. rev (dropWhile (\<lambda>c. c \<noteq> sep) (rev p)) = sep # q"
    unfolding p by (simp add: dropWhile_append) (metis append_Nil rev.simps(2) rev_append rev_rev_ident dropWhile_append3)
  then show ?thesis unfolding Dir_def by (auto intro!: clean_path_Clean simp: IsAbs_def)
qed

lemma sandboxDirForPath_clean:
  assumes "rooted_host w" "sandboxDirForPath w q = Inr p"
  shows "clean_path p"
  using assms normalize_clean [OF assms(1), of q] Dir_clean by (auto simp: sandboxDirForPath_def split: if_splits)

lemma writableSandboxDir_clean:
  assumes "rooted_host w" "writableSandboxDir w q = Inr p"
  shows "clean_path p"
  using assms normalize_clean [OF assms(1), of q] Dir_clean
  by (auto simp: writableSandboxDir_def clean_path_def Clean_idem_rooted split: if_splits)

text \<open>
  The paths that a configuration makes writable: the directory of the executable and of
  the file it resolves to, unless they are in the Nix store, the trusted paths, the
  writable directories, the lock of \<open>iptables\<close>, the process file system and five devices.
\<close>

definition may_write :: "host \<Rightarrow> (string \<Rightarrow> (string, string) result) \<Rightarrow> Config \<Rightarrow> string \<Rightarrow> bool" where
  "may_write w resolve c t \<longleftrightarrow>
     t \<in> {''/run/xtables.lock'', ''/proc''} \<union> set device_files \<or>
     (\<exists>exe. (exe = cf_ExecutablePath c \<or> resolve (cf_ExecutablePath c) = Inr exe) \<and>
        sandboxDirForPath w exe = Inr t \<and> \<not> pathWithin t ''/nix/store'') \<or>
     (\<exists>p\<in>set (cf_WritablePaths c). normalizeSandboxPath w p = Inr t) \<or>
     (\<exists>p\<in>set (cf_WritableDirs c). writableSandboxDir w p = Inr t)"

definition plan_ok :: "host \<Rightarrow> (string \<Rightarrow> (string, string) result) \<Rightarrow> Config \<Rightarrow> mounts \<Rightarrow> bool" where
  "plan_ok w resolve c ms \<longleftrightarrow>
     (\<forall>m\<in>set ms. clean_path (sm_target m) \<and> (\<not> sm_readOnly m \<longrightarrow> may_write w resolve c (sm_target m)))"

lemma addMount_ok:
  assumes "rooted_host w" "plan_ok w resolve c ms" "addMount w ro f q ms = Inr ms'"
    "\<And>t. \<not> ro \<Longrightarrow> normalizeSandboxPath w q = Inr t \<Longrightarrow> may_write w resolve c t"
  shows "plan_ok w resolve c ms'"
  using assms normalize_clean [OF assms(1), of q] by (auto simp: addMount_def plan_ok_def bind_mount_def)

lemma rfold_inv:
  assumes "rfold f xs s = Inr s'" "P s" "\<And>x s s'. x \<in> set xs \<Longrightarrow> P s \<Longrightarrow> f x s = Inr s' \<Longrightarrow> P s'"
  shows "P s'"
  using assms
proof (induction xs arbitrary: s)
  case (Cons x xs)
  then obtain s1 where s1: "f x s = Inr s1" "rfold f xs s1 = Inr s'" by auto
  have "P s1" using Cons.prems(2,3) s1(1) by (metis list.set_intros(1))
  with s1(2) show ?case by (rule Cons.IH) (metis Cons.prems(3) list.set_intros(2))
qed simp

lemma addMountIfExists_ok:
  assumes "rooted_host w" "plan_ok w resolve c ms" "addMountIfExists w ro f q ms = Inr ms'"
    "\<And>t. \<not> ro \<Longrightarrow> normalizeSandboxPath w q = Inr t \<Longrightarrow> may_write w resolve c t"
  shows "plan_ok w resolve c ms'"
  using assms(2,3) addMount_ok [OF assms(1,2) _ assms(4)]
  by (auto simp: addMountIfExists_def split: if_splits)

lemma addPath_ok:
  assumes "rooted_host w" "plan_ok w resolve c ms" "addPath w ro q ms = Inr ms'"
    "\<And>t. \<not> ro \<Longrightarrow> normalizeSandboxPath w q = Inr t \<Longrightarrow> may_write w resolve c t"
  shows "plan_ok w resolve c ms'"
proof -
  obtain p b where p: "normalizeSandboxPath w q = Inr p" "addMount w ro (\<not> b) p ms = Inr ms'"
    using assms(3) by (auto simp: addPath_def)
  have "normalizeSandboxPath w p = Inr p" using normalize_id normalize_clean [OF assms(1) p(1)] by blast
  then show ?thesis using addMount_ok [OF assms(1,2) p(2)] assms(4) p(1) by auto
qed

lemma addWritableDir_ok:
  assumes "rooted_host w" "plan_ok w resolve c ms" "addWritableDir w q ms = Inr ms'" "q \<in> set (cf_WritableDirs c)"
  shows "plan_ok w resolve c ms'"
proof -
  obtain p where p: "writableSandboxDir w q = Inr p" "addMount w False False p ms = Inr ms'"
    using assms(3) by (auto simp: addWritableDir_def)
  have "normalizeSandboxPath w p = Inr p" using normalize_id writableSandboxDir_clean [OF assms(1) p(1)] by blast
  then show ?thesis using addMount_ok [OF assms(1,2) p(2)] assms(4) p(1) by (auto simp: may_write_def)
qed

lemma core_dir_ok:
  assumes "rooted_host w" "plan_ok w resolve c ms" "sandboxDirForPath w exe = Inr d"
    "exe = cf_ExecutablePath c \<or> resolve (cf_ExecutablePath c) = Inr exe"
    "addMount w (pathWithin d ''/nix/store'') False d ms = Inr ms'"
  shows "plan_ok w resolve c ms'"
proof -
  have "normalizeSandboxPath w d = Inr d" using normalize_id sandboxDirForPath_clean [OF assms(1,3)] by blast
  then show ?thesis using addMount_ok [OF assms(1,2,5)] assms(3,4) by (auto simp: may_write_def)
qed

lemma core_mounts_ok:
  assumes "rooted_host w" "plan_ok w resolve c ms" "core_mounts w resolve c ms = Inr (d, ms')"
  shows "plan_ok w resolve c ms'"
proof -
  obtain exe where exe: "resolve (cf_ExecutablePath c) = Inr exe"
    using assms(3) by (cases "resolve (cf_ExecutablePath c)") (auto simp: core_mounts_def)
  then obtain ms1 d2 where a: "sandboxDirForPath w (cf_ExecutablePath c) = Inr d"
      "addMount w (pathWithin d ''/nix/store'') False d ms = Inr ms1"
    and b: "sandboxDirForPath w exe = Inr d2"
      "(if d2 \<noteq> d then addMount w (pathWithin d2 ''/nix/store'') False d2 ms1 else Inr ms1) = Inr ms'"
    using assms(3) by (auto simp: core_mounts_def)
  have ok1: "plan_ok w resolve c ms1" using core_dir_ok [OF assms(1,2) a(1) _ a(2)] by simp
  show ?thesis
  proof (cases "d2 = d")
    case False
    then show ?thesis using core_dir_ok [OF assms(1) ok1 b(1)] b exe by simp
  qed (use ok1 b(2) in simp)
qed


lemma config_mounts_ok:
  assumes "rooted_host w" "plan_ok w resolve c ms" "config_mounts w c d ms = Inr ms'"
  shows "plan_ok w resolve c ms'"
proof -
  obtain ms1 wd ms2 ms3 where
    s: "rfold (addPath w True) (cf_ReadOnlyPaths c) ms = Inr ms1"
      "(if wd \<noteq> d then addMount w True False wd ms1 else Inr ms1) = Inr ms2"
      "rfold (\<lambda>path. map_err (ConfigError path) \<circ> addPath w False path) (cf_WritablePaths c) ms2 = Inr ms3"
      "rfold (addWritableDir w) (cf_WritableDirs c) ms3 = Inr ms'"
    using assms(3) unfolding config_mounts_def by auto
  have ok1: "plan_ok w resolve c ms1"
    using s(1) assms(2) by (rule rfold_inv) (use addPath_ok [OF assms(1)] in blast)
  have ok2: "plan_ok w resolve c ms2"
    using s(2) ok1 addMount_ok [OF assms(1) ok1] by (auto split: if_splits)
  have ok3: "plan_ok w resolve c ms3"
    using s(3) ok2
  proof (rule rfold_inv)
    fix q xs xs'
    assume "q \<in> set (cf_WritablePaths c)" "plan_ok w resolve c xs"
      "(map_err (ConfigError q) \<circ> addPath w False q) xs = Inr xs'"
    then show "plan_ok w resolve c xs'"
      using addPath_ok [OF assms(1), of resolve c xs False q xs'] by (auto simp: may_write_def)
  qed
  show ?thesis
    using s(4) ok3 by (rule rfold_inv) (use addWritableDir_ok [OF assms(1)] in blast)
qed

lemma literal_paths:
  "\<forall>p\<in>set (''/run/xtables.lock'' # ''/proc'' # device_files). clean_path p"
  by (simp add: device_files_def clean_path_def Clean_def IsAbs_def)

lemma plan_writable:
  assumes "rooted_host w" "sandboxMounts w resolve c = Inr ms"
    "\<not> list_ex (\<lambda>p. Clean p = ''/'') (cf_WritablePaths c)" "m \<in> set ms" "\<not> sm_readOnly m"
  shows "may_write w resolve c (sm_target m)"
proof -
  obtain ms1 ms2 d ms3 ms4 ms5 where
    s: "rfold (addMountIfExists w True False) system_dirs [] = Inr ms1"
      "addMount w False True ''/run/xtables.lock'' ms1 = Inr ms2"
      "core_mounts w resolve c ms2 = Inr (d, ms3)" "config_mounts w c d ms3 = Inr ms4"
      "rfold (addMountIfExists w False True) device_files (ms4 @ [proc_mount]) = Inr ms5"
      "ms = compactSandboxMounts ms5"
    using assms(2,3) unfolding sandboxMounts_def by auto
  have "plan_ok w resolve c []" by (simp add: plan_ok_def)
  with s(1) have ok1: "plan_ok w resolve c ms1"
    by (rule rfold_inv) (use addMountIfExists_ok [OF assms(1)] in blast)
  have "normalizeSandboxPath w ''/run/xtables.lock'' = Inr ''/run/xtables.lock''"
    using literal_paths normalize_id by auto
  then have ok2: "plan_ok w resolve c ms2"
    using addMount_ok [OF assms(1) ok1 s(2)] by (auto simp: may_write_def)
  have ok4: "plan_ok w resolve c ms4"
    using config_mounts_ok [OF assms(1) core_mounts_ok [OF assms(1) ok2 s(3)] s(4)] .
  have "plan_ok w resolve c (ms4 @ [proc_mount])"
    using ok4 literal_paths by (auto simp: plan_ok_def proc_mount_def may_write_def)
  with s(5) have ok5: "plan_ok w resolve c ms5"
  proof (rule rfold_inv)
    fix q xs xs'
    assume q: "q \<in> set device_files" "plan_ok w resolve c xs" "addMountIfExists w False True q xs = Inr xs'"
    then have "normalizeSandboxPath w q = Inr q" using literal_paths normalize_id by auto
    then show "plan_ok w resolve c xs'"
      using addMountIfExists_ok [OF assms(1) q(2,3)] q(1) by (auto simp: may_write_def)
  qed
  have modes: "plan_modes (compactSandboxMounts ms5) = plan_modes (fold compact_step ms5 [])"
    by (rule plan_modes_set) (simp add: compactSandboxMounts_def)
  have "plan_modes ms (sm_target m) = Some False" using assms(4,5) by (auto simp: plan_modes_iff)
  then have "plan_modes (named ms5) (sm_target m) = Some False"
    using modes s(6) by (simp add: fold_compact_modes)
  then obtain m' where "m' \<in> set ms5" "Clean (sm_target m') = sm_target m" "\<not> sm_readOnly m'"
    by (auto simp: plan_modes_iff named_def clean_mount_def split: if_splits)
  then show ?thesis using ok5 by (auto simp: plan_ok_def clean_path_def)
qed

text \<open>
  Unless a trusted path is the root directory, a mount of the plan that is not
  read-only has as its target one of the paths that may be written: the lock file, \<open>/proc\<close>
  and the devices, the directory of the core and of what it resolves to outside
  \<open>/nix/store\<close>, and the writable paths and directories of the configuration.  Every other
  mount, of a system directory, a read-only path or a working directory, is read-only.
  The hypothesis on the host is the documented result of \<open>os.Getwd\<close>.
\<close>

theorem sandbox_writable_only:
  assumes "rooted_host w" "sandboxMounts w resolve c = Inr ms"
    "\<not> list_ex (\<lambda>p. Clean p = ''/'') (cf_WritablePaths c)" "m \<in> set ms" "\<not> sm_readOnly m"
  shows "may_write w resolve c (sm_target m)"
  by (rule plan_writable [OF assms])

text \<open>A host with \<open>/usr\<close> and a core in \<open>/opt/core\<close>.\<close>

definition sandbox_host :: host where
  "sandbox_host = \<lparr>host_cwd = Some ''/'', host_stat = (\<lambda>p.
     if p = ''/opt/core/mihomo'' \<or> p = ''/run/xtables.lock'' \<or> p = ''/mihomo'' then StatFile
     else if p \<in> set [''/usr'', ''/opt/core'', ''/data'', ''/''] then StatDir else StatMissing),
     host_env = (\<lambda>k. None)\<rparr>"

definition sandbox_config :: "string \<Rightarrow> Config" where
  "sandbox_config exe = \<lparr>cf_ExecutablePath = exe, cf_Args = [], cf_Env = [], cf_WorkingDir = ''/opt/core'',
     cf_CPUAffinity = [], cf_Sandbox = True, cf_ReadOnlyPaths = [], cf_WritablePaths = [''/data''], cf_WritableDirs = []\<rparr>"

lemma sandbox_plan:
  "sandboxMounts sandbox_host Inr (sandbox_config ''/opt/core/mihomo'') =
   Inr [bind_mount ''/usr'' True False, bind_mount ''/data'' False False, proc_mount,
     bind_mount ''/run/xtables.lock'' False True, bind_mount ''/opt/core'' False False]"
  by code_simp

theorem sandbox_writable_only_witness:
  "may_write sandbox_host Inr (sandbox_config ''/opt/core/mihomo'') ''/data''"
  using sandbox_writable_only [OF _ sandbox_plan, of "bind_mount ''/data'' False False"]
  by (simp add: rooted_host_def sandbox_host_def IsAbs_def sandbox_config_def Clean_def bind_mount_def)

text \<open>
  A core that lies in the root directory itself makes the root directory writable and
  hides the read-only mounts that come before it, without the message that a trusted root
  directory gives.
\<close>

lemma core_in_root_unconfined:
  "sandboxMounts sandbox_host Inr (sandbox_config ''/mihomo'') =
   Inr [bind_mount ''/usr'' True False, bind_mount ''/'' False False, bind_mount ''/data'' False False, proc_mount,
     bind_mount ''/run/xtables.lock'' False True, bind_mount ''/opt/core'' True False]"
  by code_simp

end
