(* ===== verification/SandboxRootProps.thy ===== *)
theory SandboxRootProps
  imports SandboxRoot SandboxPlanProps Interfaces
begin

text \<open>
  Properties of the sandbox root: preparation mounts everything or nothing, what a
  removal may go through, the escapes of the mount table, and which roots the clean-up of
  a new service spares.
\<close>

section \<open>A kernel that does not refuse to unmount\<close>

definition obedient :: "kernel \<Rightarrow> bool" where
  "obedient k \<longleftrightarrow> (\<forall>t p. k_private k t p = None \<and> k_unmount k t p = None)"

lemma tick_fields [simp]:
  "ms_mounted (tick s) = ms_mounted s" "ms_readonly (tick s) = ms_readonly s"
  "ms_exists (tick s) = ms_exists s" "ms_emptied (tick s) = ms_emptied s"
  by (simp_all add: tick_def)

lemma private_ok: "obedient k \<Longrightarrow> makeSandboxMountPrivate k t s = (None, tick s)"
  by (simp add: makeSandboxMountPrivate_def obedient_def)

lemma unmount_last:
  assumes "obedient k" "ms_mounted s = xs @ [t]"
  shows "\<exists>s'. sys_unmount k t s = (None, s') \<and> ms_mounted s' = xs \<and> ms_emptied s' = ms_emptied s"
  using assms by (simp add: sys_unmount_def obedient_def)

lemma remount_frame:
  "ms_mounted (snd (remount_all k ps s)) = ms_mounted s \<and> ms_emptied (snd (remount_all k ps s)) = ms_emptied s"
  by (induction ps arbitrary: s) auto

text \<open>A mount that fails leaves nothing, a mount that succeeds adds its target.\<close>

definition mount_effect :: "string \<Rightarrow> mount_state \<Rightarrow> root_error option \<times> mount_state \<Rightarrow> bool" where
  "mount_effect target s r \<longleftrightarrow> ms_emptied (snd r) = ms_emptied s \<and>
     ms_mounted (snd r) = (if fst r = None then ms_mounted s @ [target] else ms_mounted s)"

lemma undo_effect:
  assumes "obedient k" "ms_mounted s1 = ms_mounted s @ [target]" "ms_emptied s1 = ms_emptied s"
  shows "mount_effect target s (undo_mount k target er s1)"
  using unmount_last [OF assms(1,2)] assms(3) by (auto simp: undo_mount_def mount_effect_def)

lemma make_readonly_effect:
  assumes "obedient k" "ms_mounted s1 = ms_mounted s @ [target]" "ms_emptied s1 = ms_emptied s"
  shows "mount_effect target s (make_readonly k target s1)"
proof (cases "k_setattr k (ms_clock s1) target")
  case True
  then show ?thesis using assms by (simp add: make_readonly_def mount_effect_def)
next
  case False
  obtain b s2 where r: "makeSandboxMountTreeReadOnly k target (tick s1) = (b, s2)" by fastforce
  then have "ms_mounted s2 = ms_mounted s @ [target]" "ms_emptied s2 = ms_emptied s"
    using assms(2,3) remount_frame [of k] unfolding makeSandboxMountTreeReadOnly_def Let_def
    by (metis snd_conv tick_fields(1), metis snd_conv tick_fields(4))
  then show ?thesis using False r undo_effect [OF assms(1), of s2 s target]
    by (cases b) (auto simp: make_readonly_def mount_effect_def)
qed

lemma mountIntoSandbox_effect:
  assumes "obedient k"
  shows "mount_effect target s (mountIntoSandbox k target m s)"
proof -
  note defs = mountIntoSandbox_def mountKernelFilesystem_def sys_mount_def isolate_def private_ok [OF assms]
  show ?thesis
    using make_readonly_effect [OF assms, of _ s target]
    by (auto simp: defs mount_effect_def split: option.splits)
qed

lemma detach_last:
  assumes "obedient k" "ms_mounted s = xs @ [t]"
  shows "\<exists>s'. detach k b t (err, s) = (err, s') \<and> ms_mounted s' = xs \<and> ms_emptied s' = ms_emptied s"
  using unmount_last [OF assms(1), of "tick s" xs t] assms
  by (auto simp: detach_def private_ok)

lemma detach_all:
  assumes "obedient k" "ms_mounted s = xs @ ps"
  shows "\<exists>s'. fold (detach k b) (rev ps) (err, s) = (err, s') \<and> ms_mounted s' = xs \<and> ms_emptied s' = ms_emptied s"
  using assms(2)
proof (induction ps arbitrary: s rule: rev_induct)
  case (snoc p ps)
  obtain s1 where s1: "detach k b p (err, s) = (err, s1)" "ms_mounted s1 = xs @ ps" "ms_emptied s1 = ms_emptied s"
    using detach_last [OF assms(1), of s "xs @ ps" p b err] snoc.prems by auto
  with snoc.IH [OF s1(2)] show ?case by auto
qed auto

lemma rollback_all:
  assumes "obedient k" "ms_mounted s = root # ps"
  shows "ms_mounted (snd (rollback k root ps s)) = [] \<and> ms_emptied (snd (rollback k root ps s)) = ms_emptied s"
proof -
  obtain s1 where s1: "fold (detach k False) (rev ps) (None, s) = (None, s1)" "ms_mounted s1 = [root]"
      "ms_emptied s1 = ms_emptied s"
    using detach_all [OF assms(1), of s "[root]" ps] assms(2) by auto
  obtain s2 where s2: "detach k True root (None, s1) = (None, s2)" "ms_mounted s2 = []" "ms_emptied s2 = ms_emptied s1"
    using detach_last [OF assms(1), of s1 "[]" root] s1(2) by auto
  show ?thesis using s1 s2 by (simp add: rollback_def remove_root_def Let_def)
qed

lemma mount_all_effect:
  assumes "obedient k" "ms_mounted s = root # ps"
  shows "ms_emptied (snd (mount_all k root ms ps s)) = ms_emptied s \<and>
    ms_mounted (snd (mount_all k root ms ps s)) =
      (if fst (mount_all k root ms ps s) = None then root # ps @ map (sandboxTarget root \<circ> sm_target) ms else [])"
  using assms(2)
proof (induction ms arbitrary: ps s)
  case (Cons m ms)
  let ?t = "sandboxTarget root (sm_target m)"
  obtain er s1 where r: "mountIntoSandbox k ?t m s = (er, s1)" by fastforce
  have eff: "mount_effect ?t s (er, s1)" using mountIntoSandbox_effect [OF assms(1), of ?t s m] r by simp
  show ?case
  proof (cases er)
    case None
    then have "ms_mounted s1 = root # (ps @ [?t])" "ms_emptied s1 = ms_emptied s"
      using eff Cons.prems by (auto simp: mount_effect_def)
    then show ?thesis using Cons.IH [of s1 "ps @ [?t]"] r None by (auto simp: Let_def)
  next
    case (Some e)
    then have "ms_mounted s1 = root # ps" "ms_emptied s1 = ms_emptied s"
      using eff Cons.prems by (auto simp: mount_effect_def)
    then show ?thesis using rollback_all [OF assms(1), of s1 root ps] r Some by (simp add: Let_def)
  qed
qed simp

text \<open>The root alone is mounted, and the mount table says so.\<close>

definition shows_root :: "kernel \<Rightarrow> string \<Rightarrow> bool" where
  "shows_root k root \<longleftrightarrow>
     (\<forall>t. map_option mount_points_in (k_mountinfo k t [root]) = Some [root]) \<and> k_sort k [root] = [root]"

lemma pathWithin_refl [simp]: "pathWithin p p"
  by (simp add: pathWithin_def)

lemma cleanup_root_alone:
  assumes "obedient k" "shows_root k root" "Clean root = root" "ms_mounted s = [root]"
    "lstat root = LInfo i" "private_dir euid i"
  shows "ms_mounted (snd (cleanupLinuxSandboxRoot k euid lstat root s)) = [] \<and>
    ms_emptied (snd (cleanupLinuxSandboxRoot k euid lstat root s)) = ms_emptied s"
proof -
  obtain data where info: "k_mountinfo k (ms_clock s) [root] = Some data" "mount_points_in data = [root]"
    using assms(2) unfolding shows_root_def by (metis option.map_disc_iff option.map_sel option.collapse option.sel option.distinct(1))
  have points: "linuxMountPointsUnder (k_sort k) (k_mountinfo k (ms_clock s) (ms_mounted s)) root = [root]"
    using info assms(2,3,4) by (simp add: linuxMountPointsUnder_def shows_root_def)
  obtain s1 where "detach k True root (None, tick s) = (None, s1)" "ms_mounted s1 = []" "ms_emptied s1 = ms_emptied s"
    using detach_last [OF assms(1), of "tick s" "[]" root True None] assms(4) by auto
  then show ?thesis
    using assms(5,6) points by (simp add: cleanupLinuxSandboxRoot_def remove_root_def Let_def)
qed

lemma mountSandboxRoot_effect:
  "obedient k \<Longrightarrow> mount_effect root s (mountSandboxRoot k root s)"
  by (auto simp: mountSandboxRoot_def sys_mount_def isolate_def private_ok mount_effect_def split: option.splits)

lemma validate_None:
  assumes "validateSandboxRoot tmp euid lstat root = None"
  shows "\<exists>i. lstat (Clean root) = LInfo i \<and> private_dir euid i"
  using assms by (auto simp: validateSandboxRoot_def Let_def split: if_splits lstat_result.splits)

text \<open>The outcome of preparing a root; the property below states it.\<close>

lemma prepare_root_outcome:
  assumes "obedient k" "shows_root k root" "Clean root = root" "ms_mounted s = []"
    and "prepareRoot w resolve e k c root s = (er, s')"
  shows "ms_emptied s' = ms_emptied s \<and>
    ms_mounted s' = (if er = None
      then root # map (sandboxTarget root \<circ> sm_target) (projr (sandboxMounts w resolve c)) else [])"
proof (cases "validateSandboxRoot (en_tmp e) (en_euid e) (en_lstat e) root \<noteq> None \<or> en_lock e \<noteq> None \<or>
    (\<exists>er. sandboxMounts w resolve c = Inl er)")
  case True
  then have "\<exists>x. prepareRoot w resolve e k c root s = (Some x, s)"
    unfolding prepareRoot_def
    by (cases "validateSandboxRoot (en_tmp e) (en_euid e) (en_lstat e) root"; cases "en_lock e";
        cases "sandboxMounts w resolve c"; simp)
  then show ?thesis using assms(4,5) by auto
next
  case False
  then obtain mounts where v: "validateSandboxRoot (en_tmp e) (en_euid e) (en_lstat e) root = None" "en_lock e = None"
      "sandboxMounts w resolve c = Inr mounts" by (metis sum.exhaust)
  obtain i where i: "en_lstat e root = LInfo i" "private_dir (en_euid e) i"
    using validate_None [OF v(1)] assms(3) by auto
  obtain er1 s1 where r: "mountSandboxRoot k root s = (er1, s1)" by fastforce
  have eff: "mount_effect root s (er1, s1)" using mountSandboxRoot_effect [OF assms(1), of root s] r by simp
  show ?thesis
  proof (cases er1)
    case (Some x)
    then show ?thesis using eff assms(4,5) v r by (auto simp: prepareRoot_def mount_effect_def)
  next
    case None
    then have s1: "ms_mounted s1 = [root]" "ms_emptied s1 = ms_emptied s"
      using eff assms(4) by (auto simp: mount_effect_def)
    show ?thesis
    proof (cases "en_layout e")
      case layout: None
      then have "mount_all k root mounts [] s1 = (er, s')" using assms(5) v r None by (simp add: prepareRoot_def)
      with mount_all_effect [OF assms(1) s1(1), of mounts] show ?thesis using s1(2) v(3) by (auto split: if_splits)
    next
      case (Some x)
      then show ?thesis
        using cleanup_root_alone [OF assms(1-3) s1(1), of "en_lstat e" i "en_euid e"] i s1(2) assms(5) v r None by (auto simp: prepareRoot_def)
    qed
  qed
qed


section \<open>What a removal goes through\<close>

lemma detach_keeps:
  assumes "\<And>t. k_unmount k t p \<noteq> None" "p \<in> set (ms_mounted s)"
  shows "p \<in> set (ms_mounted (snd (detach k b q (err, s))))"
proof (cases "q = p")
  case True
  have refused: "(k_unmount k t p = None) = False" for t using assms(1) by simp
  show ?thesis using True assms(2)
    by (auto simp: refused detach_def makeSandboxMountPrivate_def sys_unmount_def Let_def split: option.splits)
next
  case False
  then show ?thesis using assms(2)
    by (auto simp: detach_def makeSandboxMountPrivate_def sys_unmount_def Let_def split: option.splits)
qed

lemma detach_readonly: "ms_readonly (snd (detach k b q (err, s))) = ms_readonly s"
  by (auto simp: detach_def makeSandboxMountPrivate_def sys_unmount_def Let_def split: option.splits)

lemma fold_detach_keeps:
  assumes "\<And>t. k_unmount k t p \<noteq> None" "p \<in> set (ms_mounted (snd r))"
  shows "p \<in> set (ms_mounted (snd (fold (detach k b) qs r))) \<and> ms_readonly (snd (fold (detach k b) qs r)) = ms_readonly (snd r)"
  using assms(2)
proof (induction qs arbitrary: r)
  case (Cons q qs)
  have "p \<in> set (ms_mounted (snd (detach k b q r)))" "ms_readonly (snd (detach k b q r)) = ms_readonly (snd r)"
    using detach_keeps [OF assms(1), of "snd r" b q "fst r"] detach_readonly [of k b q "fst r" "snd r"] Cons.prems by auto
  then show ?case using Cons.IH [of "detach k b q r"] by simp
qed simp

text \<open>
  A mount point that the kernel refuses to detach stays mounted, and the removal of the
  root that follows goes through it: what the host has there is deleted.
\<close>

lemma refused_unmount_emptied:
  assumes "\<And>t. k_unmount k t p \<noteq> None" "p \<in> set (ms_mounted s)" "p \<notin> set (ms_readonly s)" "p \<noteq> root"
  shows "p \<in> set (ms_emptied (snd (rollback k root mounted s)))"
proof -
  let ?r = "fold (detach k False) (rev mounted) (None, s)"
  have "p \<in> set (ms_mounted (snd ?r))" "ms_readonly (snd ?r) = ms_readonly s"
    using fold_detach_keeps [OF assms(1), of "(None, s)"] assms(2) by auto
  then have "p \<in> set (ms_mounted (snd (detach k True root ?r)))" "ms_readonly (snd (detach k True root ?r)) = ms_readonly s"
    using detach_keeps [OF assms(1), of "snd ?r" True root "fst ?r"] detach_readonly [of k True root "fst ?r" "snd ?r"]
    by auto
  then show ?thesis using assms(3,4)
    by (cases "detach k True root ?r") (simp add: rollback_def remove_root_def Let_def)
qed

text \<open>
  A file system on which no directory can be created, and a root in \<open>/tmp\<close>.
\<close>

definition sample_root :: string where "sample_root = ''/tmp/sparkle-core-sandbox-7-42-x''"

definition full_kernel :: kernel where
  "full_kernel = \<lparr>k_mount = (\<lambda>t p. None),
     k_private = (\<lambda>t p. None), k_unmount = (\<lambda>t p. None), k_mkdir = (\<lambda>t p. False), k_setattr = (\<lambda>t p. True),
     k_remount = (\<lambda>t p. True), k_remove = (\<lambda>t p. True),
     k_mountinfo = (\<lambda>t ps. Some (''1 1 1 / '' @ concat ps)), k_sort = id\<rparr>"

definition sample_root_env :: root_env where
  "sample_root_env = \<lparr>en_tmp = ''/tmp'', en_euid = 0,
     en_lstat = (\<lambda>p. LInfo \<lparr>fi_isDir = True, fi_symlink = False, fi_uid = 0, fi_perm = 448\<rparr>),
     en_lock = None, en_layout = None\<rparr>"

definition fresh_mounts :: mount_state where
  "fresh_mounts = \<lparr>ms_clock = 0, ms_mounted = [], ms_readonly = [], ms_exists = True, ms_emptied = []\<rparr>"

lemma sample_root_shown: "mount_points_in (''1 1 1 / '' @ concat [sample_root]) = [sample_root]" "Clean sample_root = sample_root"
  by code_simp+

lemma sample_root_valid: "validateSandboxRoot ''/tmp'' 0 (en_lstat sample_root_env) sample_root = None"
proof -
  have "Dir sample_root = ''/tmp''" "Clean ''/tmp'' = ''/tmp''" "prefix sandboxRootPrefix (Base sample_root)" by code_simp+
  then show ?thesis using sample_root_shown(2)
    by (simp add: validateSandboxRoot_def sample_root_env_def private_dir_def)
qed

lemma sample_prepare_fails:
  "fst (prepareRoot sandbox_host Inr sample_root_env full_kernel (sandbox_config ''/opt/core/mihomo'') sample_root
     fresh_mounts) \<noteq> None"
proof -
  have v: "validateSandboxRoot (en_tmp sample_root_env) (en_euid sample_root_env) (en_lstat sample_root_env) sample_root = None"
    "en_lock sample_root_env = None" "en_layout sample_root_env = None"
    using sample_root_valid by (simp_all add: sample_root_env_def)
  show ?thesis unfolding prepareRoot_def sandbox_plan v
    by (simp add: full_kernel_def mountSandboxRoot_def sys_mount_def isolate_def makeSandboxMountPrivate_def
        mountIntoSandbox_def bind_mount_def)
qed


section \<open>The mount table\<close>

text \<open>How the kernel writes a mount point into the mount table.\<close>

definition escape_char :: "char \<Rightarrow> string" where
  "escape_char c =
    (if c = CHR '' '' then [CHR 0x5C, CHR ''0'', CHR ''4'', CHR ''0'']
     else if c = CHR 0x09 then [CHR 0x5C, CHR ''0'', CHR ''1'', CHR ''1'']
     else if c = LF then [CHR 0x5C, CHR ''0'', CHR ''1'', CHR ''2'']
     else if c = CHR 0x5C then [CHR 0x5C, CHR ''1'', CHR ''3'', CHR ''4'']
     else [c])"

lemma unescape_plain: "c \<noteq> CHR 0x5C \<Longrightarrow> unescapeMountInfoPath (c # s) = c # unescapeMountInfoPath s"
  by simp

text \<open>
  Reading a mount point undoes the kernel's escapes: spaces, tabs, line breaks and
  backslashes of a path come back, also when the path itself looks like an escape.
\<close>

theorem mount_path_roundtrip: "unescapeMountInfoPath (concat (map escape_char p)) = p"
proof (induction p)
  case (Cons c p)
  show ?case
  proof (cases "c \<in> {CHR '' '', CHR 0x09, LF, CHR 0x5C}")
    case True
    then show ?thesis using Cons by (auto simp: escape_char_def numeral_3_eq_3)
  next
    case False
    then show ?thesis using Cons by (auto simp: escape_char_def unescape_plain)
  qed
qed simp

text \<open>
  The table is cut into fields at every Unicode blank, but the kernel escapes only ASCII
  blanks: a mount point with an ideographic space is read as its part before the space.
\<close>

lemma ideographic_space_cut:
  "mount_points_in (''1 1 1 / /tmp/r/a'' @ [CHR 0xE3, CHR 0x80, CHR 0x80] @ ''b rw'') = [''/tmp/r/a'']"
  by code_simp

section \<open>Roots of other services\<close>

lemma owner_of_name:
  assumes "Base root = sandbox_root_name pid st random" "0 < pid" "pid < 2 ^ 63" "CHR ''-'' \<notin> set st"
  shows "sandboxRootOwnerActive stat root \<longleftrightarrow> linuxProcessStartTime stat (int pid) = Inr st"
proof -
  let ?rest = "FormatUint pid @ ''-'' @ st @ ''-'' @ random"
  have base: "Base root = sandboxRootPrefix @ ?rest" using assms(1) by (simp add: sandbox_root_name_def)
  have prefix: "cut_prefix (sandboxRootPrefix @ ?rest) sandboxRootPrefix = Some ?rest" by (simp add: cut_prefix_Some)
  have c1: "cut ?rest ''-'' = Some (FormatUint pid, st @ ''-'' @ random)"
    using cut_single [OF FormatUint_no_sign(1), of pid "st @ ''-'' @ random"] by simp
  have c2: "cut (st @ ''-'' @ random) ''-'' = Some (st, random)" using cut_single [OF assms(4), of random] by simp
  show ?thesis unfolding sandboxRootOwnerActive_def base Let_def prefix option.case c1 prod.case c2
    using assms(2,3) by (simp add: ParseInt_FormatUint)
qed

interpretation root_sweep: careful_sweep "sandboxRootOwnerActive stat"
    "\<lambda>root d. d(root := snd (cleanupLinuxSandboxRoot k euid lstat root (d root)))" "\<lambda>root. root"
    "\<lambda>root s. \<forall>i. lstat root = LInfo i \<longrightarrow> \<not> private_dir euid i"
  for stat k euid lstat
  by unfold_locales (auto simp: cleanupLinuxSandboxRoot_def split: lstat_result.split)

lemma stale_frame:
  "sandboxRootOwnerActive stat root \<Longrightarrow> cleanupStaleLinuxSandboxRoots k euid lstat stat roots d root = d root"
  unfolding cleanupStaleLinuxSandboxRoots_def by (rule root_sweep.spared) simp

text \<open>
  A service that starts removes the sandbox roots of services that are gone and spares
  those of services that run: a root whose name carries a process and its start time is
  untouched while that process runs, and it counts as abandoned as soon as the process is
  gone or its number belongs to a process that started at another time.
\<close>

theorem live_root_spared:
  assumes "Base root = sandbox_root_name pid st random" "0 < pid" "pid < 2 ^ 63" "CHR ''-'' \<notin> set st"
  shows "(sandboxRootOwnerActive stat root \<longleftrightarrow> linuxProcessStartTime stat (int pid) = Inr st) \<and>
    (linuxProcessStartTime stat (int pid) = Inr st \<longrightarrow>
      cleanupStaleLinuxSandboxRoots k euid lstat stat roots d root = d root)"
  using owner_of_name [OF assms] stale_frame by blast

definition sample_proc_stat :: "int \<Rightarrow> (string, bytes) result" where
  "sample_proc_stat pid = (if pid = 7
     then Inr (''7 (a) b) S 1 2 3 4 5 6 7 8 9 10 11 12 13 14 15 16 17 18 42 0'') else Inl ''gone'')"

lemma sample_start: "linuxProcessStartTime sample_proc_stat 7 = Inr ''42''"
  by code_simp

lemma sample_root_base: "Base sample_root = sandbox_root_name 7 ''42'' ''x''"
  by code_simp

theorem live_root_spared_witness:
  "sandboxRootOwnerActive sample_proc_stat sample_root \<and>
   cleanupStaleLinuxSandboxRoots full_kernel 0 (\<lambda>p. LMissing) sample_proc_stat [sample_root] (\<lambda>p. fresh_mounts) sample_root =
     fresh_mounts"
  using live_root_spared [OF sample_root_base, of sample_proc_stat full_kernel 0 "\<lambda>p. LMissing" "[sample_root]" "\<lambda>p. fresh_mounts"]
    sample_start by simp

end
