(* ===== verification/Forwarding.thy ===== *)
theory Forwarding
  imports GoFiles
begin

text \<open>
  The forwarding switches of the LAN gateway, \<open>route/lanternapi/forwarding_linux.go\<close>: what
  \<open>prepareForwarding\<close> changes under \<open>/proc/sys\<close>, and how \<open>restore\<close> puts it back.
\<close>

section \<open>The switches\<close>

text \<open>
  The files under \<open>/proc/sys\<close> with their trimmed contents; a file that is not there has
  none.
\<close>

type_synonym sysctl = "string \<rightharpoonup> string"

text \<open>
  The environment of one call: the effect of writing a file, given by the kernel; the
  errors of reads and writes other than that a file does not exist; and what the pattern
  \<open>/proc/sys/net/ipv6/conf/*/forwarding\<close> finds.
\<close>

record sysctl_io =
  io_put :: "string \<Rightarrow> string \<Rightarrow> sysctl \<Rightarrow> sysctl"
  io_read :: "string \<Rightarrow> string option"
  io_write :: "string \<Rightarrow> string option"
  io_glob :: "(string, string list) result"

record forwardingSetting =
  fs_path :: string
  fs_before :: string
  fs_value :: string

type_synonym forwardingState = "forwardingSetting list"

datatype read_result = Missing | Failed string | Read string

definition read_setting :: "sysctl_io \<Rightarrow> sysctl \<Rightarrow> string \<Rightarrow> read_result" where
  "read_setting io m p =
    (case io_read io p of Some er \<Rightarrow> Failed er | None \<Rightarrow> (case m p of None \<Rightarrow> Missing | Some v \<Rightarrow> Read v))"

section \<open>Restoring\<close>

text \<open>The first pass: the errors and the settings to write back.\<close>

fun plan_restore :: "sysctl_io \<Rightarrow> sysctl \<Rightarrow> forwardingSetting list \<Rightarrow> string list \<times> forwardingSetting list" where
  "plan_restore io m [] = ([], [])"
| "plan_restore io m (s # ss) =
    (case plan_restore io m ss of (errs, back) \<Rightarrow>
     case read_setting io m (fs_path s) of
       Missing \<Rightarrow> (errs, back)
     | Failed er \<Rightarrow> (er # errs, back)
     | Read b \<Rightarrow> (errs, s\<lparr>fs_value := (if b = fs_value s then fs_before s else b)\<rparr> # back))"

text \<open>The second pass; a file that is gone is not an error.\<close>

fun write_back :: "sysctl_io \<Rightarrow> forwardingSetting list \<Rightarrow> sysctl \<Rightarrow> string list \<times> sysctl" where
  "write_back io [] m = ([], m)"
| "write_back io (s # ss) m =
    (case io_write io (fs_path s) of
       Some er \<Rightarrow> (case write_back io ss m of (errs, m') \<Rightarrow> (er # errs, m'))
     | None \<Rightarrow> write_back io ss (if m (fs_path s) = None then m else io_put io (fs_path s) (fs_value s) m))"

definition restore :: "sysctl_io \<Rightarrow> forwardingState \<Rightarrow> sysctl \<Rightarrow> string list \<times> forwardingState \<times> sysctl" where
  "restore io f m =
    (case plan_restore io m f of (errs, back) \<Rightarrow>
     if errs \<noteq> [] then (errs, f, m)
     else case write_back io back m of (errs2, m') \<Rightarrow> (errs2, if errs2 = [] then [] else f, m'))"

section \<open>Preparing\<close>

definition proc_sys :: "string \<Rightarrow> string" where
  "proc_sys p = (if IsAbs p then p else Join [''/proc/sys'', p])"

definition bad_interface :: "string \<Rightarrow> bool" where
  "bad_interface iface \<longleftrightarrow> iface = [] \<or> CHR ''/'' \<in> set iface \<or> CHR 0x5C \<in> set iface \<or> iface = ''.'' \<or> iface = ''..''"

definition wish :: "string \<Rightarrow> string \<Rightarrow> forwardingSetting" where
  "wish p v = \<lparr>fs_path = p, fs_before = [], fs_value = v\<rparr>"

definition wishes :: "string \<Rightarrow> bool \<Rightarrow> string list \<Rightarrow> forwardingSetting list" where
  "wishes iface ipv6 paths =
    [wish (''net/ipv4/conf/'' @ iface @ ''/forwarding'') ''1'', wish (''net/ipv4/conf/'' @ iface @ ''/send_redirects'') ''0'',
     wish ''net/ipv4/conf/all/send_redirects'' ''0''] @
    (if ipv6
     then [wish ''net/ipv6/conf/all/forwarding'' ''1''] @
       map (\<lambda>p. wish p []) (filter (\<lambda>p. Base (Dir p) \<noteq> ''all'') paths) @
       [wish (''net/ipv6/conf/'' @ iface @ ''/accept_ra'') ''2'']
     else [])"

definition fill_setting :: "string \<Rightarrow> string \<Rightarrow> forwardingSetting \<Rightarrow> forwardingSetting" where
  "fill_setting iface b s =
    s\<lparr>fs_before := b,
      fs_value := (if fs_value s = [] then (if Base (Dir (fs_path s)) = iface then ''1'' else b) else fs_value s)\<rparr>"

definition keeps :: "forwardingSetting \<Rightarrow> bool" where
  "keeps s \<longleftrightarrow> fs_before s \<noteq> fs_value s \<or>
     has_prefix (fs_path s) ''/proc/sys/net/ipv6/conf/'' \<and> has_suffix (fs_path s) ''/forwarding''"

fun collect :: "sysctl_io \<Rightarrow> string \<Rightarrow> sysctl \<Rightarrow> forwardingSetting list \<Rightarrow> (string, forwardingSetting list) result" where
  "collect io iface m [] = Inr []"
| "collect io iface m (s # ss) =
    (let s1 = s\<lparr>fs_path := proc_sys (fs_path s)\<rparr>
     in case read_setting io m (fs_path s1) of
          Missing \<Rightarrow> Inl ''missing''
        | Failed er \<Rightarrow> Inl er
        | Read b \<Rightarrow>
            let s2 = fill_setting iface b s1
            in rbind (collect io iface m ss) (\<lambda>rest. Inr (if keeps s2 then s2 # rest else rest)))"

text \<open>Writing the new values, up to the first error.\<close>

fun apply_settings :: "sysctl_io \<Rightarrow> forwardingSetting list \<Rightarrow> sysctl \<Rightarrow> string option \<times> sysctl" where
  "apply_settings io [] m = (None, m)"
| "apply_settings io (s # ss) m =
    (case io_write io (fs_path s) of Some er \<Rightarrow> (Some er, m)
     | None \<Rightarrow> apply_settings io ss (io_put io (fs_path s) (fs_value s) m))"

definition note_current :: "sysctl_io \<Rightarrow> sysctl \<Rightarrow> forwardingSetting \<Rightarrow> forwardingSetting" where
  "note_current io m s = (case read_setting io m (fs_path s) of Read v \<Rightarrow> s\<lparr>fs_value := v\<rparr> | _ \<Rightarrow> s)"

text \<open>The state to restore later, if any, the error, and the switches afterwards.\<close>

definition prepareForwarding ::
    "sysctl_io \<Rightarrow> string \<Rightarrow> bool \<Rightarrow> sysctl \<Rightarrow> forwardingState option \<times> string list \<times> sysctl" where
  "prepareForwarding io iface ipv6 m =
    (if bad_interface iface then (None, [''interface''], m)
     else
       (case (if ipv6 then io_glob io else Inr []) of Inl er \<Rightarrow> (None, [er], m)
        | Inr paths \<Rightarrow>
           (case collect io iface m (wishes iface ipv6 paths) of Inl er \<Rightarrow> (None, [er], m)
            | Inr f \<Rightarrow>
               (case apply_settings io f m of
                  (None, m1) \<Rightarrow> (Some f, [], m1)
                | (Some er, m1) \<Rightarrow>
                   (case restore io (map (note_current io m1) f) m1 of
                      (errs, f', m2) \<Rightarrow> (Some f', er # errs, m2))))))"

end
