(* ===== verification/Lantern.thy ===== *)
theory Lantern
  imports Forwarding HttpHelper
begin

text \<open>
  The manager of the LAN gateway, \<open>route/lanternapi/lantern.go\<close>, on Linux: starting and
  stopping the controller, switching its interface, the DHCP probes and the stack of
  forwarding switches to restore.

  The packages of \<open>github.com/UruhaLushia/lantern\<close> are not part of the sources.  What they
  answer during one request is given with the request (\<open>lantern_env\<close>); of their option types
  the fields the sources use are modelled, the rest is a type parameter.
\<close>

section \<open>Options and answers of the library\<close>

text \<open>A \<open>netip.Addr\<close>; the zero value is not valid.\<close>

type_synonym addr = "string option"

record 'x discovery_Options =
  disc_Enabled :: bool
  disc_rest :: 'x

record 'x announce_Options =
  ra_Enabled :: bool
  ra_rest :: 'x

record 'x dhcpserver_Options =
  dhcp_Enabled :: bool
  dhcp_Gateway :: addr
  dhcp_LeaseFile :: string
  dhcp_GatewayMACs :: "string list"
  dhcp_rest :: 'x

record 'x startOptions =
  so_GatewayMode :: bool
  so_Interface :: string
  so_GatewayIPv4 :: addr
  so_GatewayIPv6 :: addr
  so_Discovery :: "'x discovery_Options"
  so_RA :: "'x announce_Options"
  so_DHCP :: "'x dhcpserver_Options"

record DHCPProbe =
  pr_Truncated :: bool
  pr_DiscoveriesSent :: int
  pr_Servers :: "(string \<times> string) list"

record lantern_status =
  st_Discovery_Running :: bool
  st_RA_Enabled :: bool
  st_DHCP_Running :: bool
  st_DHCP_GatewayMACs :: "string list"
  st_Problems :: "string list"

record selection =
  sel_Name :: string
  sel_GatewayIPv4 :: addr
  sel_GatewayIPv6 :: addr

text \<open>
  What happens during one call of \<open>stopLocked\<close>: the error of \<open>controller.Stop\<close>, whether the
  controller still runs afterwards, and the file system.
\<close>

record stop_env =
  stop_err :: "string option"
  stop_live :: bool
  stop_io :: sysctl_io

record 'x lantern_env =
  env_Discover :: "string option"
  env_Select :: "string \<Rightarrow> addr \<Rightarrow> addr \<Rightarrow> (string, selection) result"
  env_ProbeDHCP :: "string \<Rightarrow> DHCPProbe \<times> string option"
  env_Normalize :: "'x dhcpserver_Options \<Rightarrow> (string, 'x dhcpserver_Options) result"
  env_zero :: 'x
  env_New :: "'x startOptions \<Rightarrow> string option"
  env_Context :: "string option"
  env_io :: sysctl_io
  env_Start :: "string option"
  env_check :: lantern_status
  env_Status :: lantern_status
  env_Devices :: "string list"
  env_ForwardingReady :: "string \<Rightarrow> bool \<Rightarrow> string option"
  env_ConfigureGateway :: "'x startOptions \<Rightarrow> string option"
  env_ResumeDHCP :: "string option"
  env_SetMACs :: "string list \<Rightarrow> string option"
  env_stop1 :: stop_env
  env_stop2 :: stop_env

section \<open>State\<close>

text \<open>
  The \<open>manager\<close> with the world around it: the controllers are numbered in the order they
  are made, \<open>lm_live\<close> are those whose \<open>Done\<close> channel is open; the contexts of the probes
  are numbered as well, \<open>lm_cancelled\<close> are the cancelled ones.
\<close>

record 'x manager =
  lm_controller :: "nat option"
  lm_options :: "'x startOptions option"
  lm_closed :: bool
  lm_probing :: bool
  lm_probeStop :: "nat option"
  lm_lastProbe :: "DHCPProbe option"
  lm_store :: bool
  lm_forwarding :: "forwardingState option"
  lm_updates :: "forwardingState list"
  lm_live :: "nat set"
  lm_next :: nat
  lm_cancelled :: "nat set"
  lm_sys :: sysctl

definition new_manager :: "sysctl \<Rightarrow> 'x manager" where
  "new_manager m = \<lparr>lm_controller = None, lm_options = None, lm_closed = False, lm_probing = False, lm_probeStop = None,
     lm_lastProbe = None, lm_store = False, lm_forwarding = None, lm_updates = [], lm_live = {}, lm_next = 0,
     lm_cancelled = {}, lm_sys = m\<rparr>"

record 'x snapshot =
  sn_Supported :: bool
  sn_Running :: bool
  sn_GatewayMode :: bool
  sn_Probe :: "DHCPProbe option"
  sn_Options :: "'x startOptions option"
  sn_Status :: "lantern_status option"
  sn_Devices :: "string list"

datatype message =
    Text string
  | Unsupported
  | StartBusy
  | NoRouter
  | ProbeFailed string
  | ProbeIncomplete
  | ServersFound "(string \<times> string) list"
  | SwitchRefused message
  | StartIncomplete "string list"
  | GatewayOff
  | NotRunning
  | ProbeBusy
  | OneValue
  | Joined "message list"

datatype 'x response = Snapshot "'x snapshot" | Probe DHCPProbe | Failure nat message | Panic

definition fail :: "message HTTPError \<Rightarrow> 'x response" where
  "fail e = (case SendError e of (code, m) \<Rightarrow> Failure code m)"

text \<open>Errors joined with \<open>errors.Join\<close>.\<close>

definition plain :: "string list \<Rightarrow> message HTTPError" where
  "plain errs = PlainError (Joined (map Text errs))"

section \<open>Helpers\<close>

definition runningLocked :: "'x manager \<Rightarrow> bool" where
  "runningLocked s = (case lm_controller s of None \<Rightarrow> False | Some c \<Rightarrow> c \<in> lm_live s)"

definition gateway_options :: "'x manager \<Rightarrow> bool" where
  "gateway_options s = (case lm_options s of None \<Rightarrow> False | Some opts \<Rightarrow> so_GatewayMode opts)"

definition snapshotLocked :: "string \<Rightarrow> 'x lantern_env \<Rightarrow> 'x manager \<Rightarrow> 'x snapshot" where
  "snapshotLocked goos e s =
    \<lparr>sn_Supported = (goos = ''linux'' \<or> goos = ''darwin''), sn_Running = runningLocked s,
     sn_GatewayMode = (runningLocked s \<and> gateway_options s), sn_Probe = lm_lastProbe s, sn_Options = lm_options s,
     sn_Status = (if lm_controller s = None then None else Some (env_Status e)),
     sn_Devices = (if lm_controller s = None then [] else env_Devices e)\<rparr>"

definition allowGateway :: "DHCPProbe \<Rightarrow> message HTTPError option" where
  "allowGateway p =
    (if pr_Truncated p \<or> pr_DiscoveriesSent p = 0 then Some (Conflict ProbeIncomplete)
     else if pr_Servers p \<noteq> [] then Some (Conflict (ServersFound (pr_Servers p)))
     else None)"

text \<open>
  \<open>decode\<close>: the first value of the body, and then whether the body ends there.
\<close>

definition decode :: "(string, 'a) result \<times> bool \<Rightarrow> (message HTTPError, 'a) result" where
  "decode body =
    (case fst body of Inl er \<Rightarrow> Inl (BadRequest (Text er))
     | Inr v \<Rightarrow> if snd body then Inr v else Inl (BadRequest OneValue))"

text \<open>
  Finding the interface and its routers; \<open>start\<close> and \<open>configure\<close> answer a failure of
  \<open>Select\<close> with different statuses.
\<close>

definition select_gateway ::
    "(message \<Rightarrow> message HTTPError) \<Rightarrow> 'x lantern_env \<Rightarrow> 'x startOptions \<Rightarrow> (message HTTPError, selection) result" where
  "select_gateway mk e opts =
    (case env_Discover e of Some er \<Rightarrow> Inl (PlainError (Text er))
     | None \<Rightarrow>
        (case env_Select e (so_Interface opts) (so_GatewayIPv4 opts) (so_GatewayIPv6 opts) of
           Inl er \<Rightarrow> Inl (mk (Text er))
         | Inr sel \<Rightarrow> if sel_GatewayIPv4 sel = None then Inl (mk NoRouter) else Inr sel))"

section \<open>Stopping\<close>

text \<open>Restoring the updates, the newest first, up to the first that fails.\<close>

fun restore_updates :: "sysctl_io \<Rightarrow> forwardingState list \<Rightarrow> sysctl \<Rightarrow> string list \<times> forwardingState list \<times> sysctl" where
  "restore_updates io [] m = ([], [], m)"
| "restore_updates io (f # fs) m =
    (case restore io f m of (errs, f', m') \<Rightarrow>
       if errs \<noteq> [] then (errs, f' # fs, m') else restore_updates io fs m')"

definition restore_forwarding :: "sysctl_io \<Rightarrow> string list \<Rightarrow> 'x manager \<Rightarrow> string list \<times> 'x manager" where
  "restore_forwarding io stopErr s =
    (case lm_forwarding s of None \<Rightarrow> (stopErr, s)
     | Some f \<Rightarrow>
        (case restore_updates io (rev (lm_updates s)) (lm_sys s) of (errs, fs, m) \<Rightarrow>
           let s1 = s\<lparr>lm_updates := rev fs, lm_sys := m\<rparr>
           in if errs \<noteq> [] then (stopErr @ errs, s1)
              else case restore io f m of (errs2, f', m2) \<Rightarrow>
                if errs2 \<noteq> [] then (stopErr @ errs2, s1\<lparr>lm_forwarding := Some f', lm_sys := m2\<rparr>)
                else (stopErr, s1\<lparr>lm_forwarding := None, lm_sys := m2\<rparr>)))"

definition stopLocked :: "stop_env \<Rightarrow> 'x manager \<Rightarrow> string list \<times> 'x manager" where
  "stopLocked e s =
    (case lm_controller s of None \<Rightarrow> restore_forwarding (stop_io e) [] s
     | Some c \<Rightarrow>
        let s1 = (if stop_live e then s else s\<lparr>lm_live := lm_live s - {c}\<rparr>)
        in case stop_err e of None \<Rightarrow> restore_forwarding (stop_io e) [] s1
           | Some er \<Rightarrow> if runningLocked s1 then ([er], s1) else restore_forwarding (stop_io e) [er] s1)"


section \<open>Starting\<close>

text \<open>
  The part of \<open>start\<close> for the gateway mode, up to the options to run with: the state with
  the probe recorded, and the options with the two decisions on IPv6.
\<close>

definition start_gateway ::
    "string \<Rightarrow> 'x lantern_env \<Rightarrow> 'x startOptions \<Rightarrow> 'x manager \<Rightarrow>
     'x manager \<times> (message HTTPError, 'x startOptions \<times> bool \<times> bool) result" where
  "start_gateway stateDir e opts s =
    (case select_gateway Conflict e opts of Inl er \<Rightarrow> (s, Inl er)
     | Inr sel \<Rightarrow>
        (case env_ProbeDHCP e (sel_Name sel) of (probe, err) \<Rightarrow>
           let s1 = s\<lparr>lm_lastProbe := Some probe\<rparr>
           in case err of Some er \<Rightarrow> (s1, Inl (Conflict (ProbeFailed er)))
              | None \<Rightarrow>
                 (case allowGateway probe of Some er \<Rightarrow> (s1, Inl er)
                  | None \<Rightarrow>
                     let requireRA = ra_Enabled (so_RA opts) \<and> sel_GatewayIPv6 sel \<noteq> None;
                         forwardIPv6 = ra_Enabled (so_RA opts) \<or> sel_GatewayIPv6 sel \<noteq> None;
                         d = (so_DHCP opts)\<lparr>dhcp_Enabled := True, dhcp_Gateway := sel_GatewayIPv4 sel,
                               dhcp_LeaseFile := Join [stateDir, ''leases.json'']\<rparr>
                     in case env_Normalize e d of Inl er \<Rightarrow> (s1, Inl (BadRequest (Text er)))
                        | Inr d' \<Rightarrow> (s1, Inr (opts\<lparr>so_Interface := sel_Name sel, so_DHCP := d'\<rparr>, requireRA, forwardIPv6)))))"

definition active_options :: "'x \<Rightarrow> 'x startOptions \<Rightarrow> 'x startOptions" where
  "active_options z opts =
    (if so_GatewayMode opts then opts
     else opts\<lparr>so_RA := \<lparr>ra_Enabled = False, ra_rest = z\<rparr>,
               so_DHCP := \<lparr>dhcp_Enabled = False, dhcp_Gateway = None, dhcp_LeaseFile = [], dhcp_GatewayMACs = [], dhcp_rest = z\<rparr>\<rparr>)"

definition incomplete :: "bool \<Rightarrow> lantern_status \<Rightarrow> bool" where
  "incomplete requireRA st \<longleftrightarrow>
    \<not> st_Discovery_Running st \<or> requireRA \<and> \<not> st_RA_Enabled st \<or> \<not> st_DHCP_Running st"

text \<open>The controller exists and is being started; the last steps of \<open>start\<close>.\<close>

definition start_controller ::
    "string \<Rightarrow> 'x lantern_env \<Rightarrow> 'x startOptions \<Rightarrow> bool \<Rightarrow> 'x manager \<Rightarrow> 'x response \<times> 'x manager" where
  "start_controller goos e opts requireRA s =
    (case env_Start e of
       Some er \<Rightarrow> (case stopLocked (env_stop2 e) s of (errs, s1) \<Rightarrow> (fail (plain (er # errs)), s1))
     | None \<Rightarrow>
        let c = lm_next s;
            s1 = s\<lparr>lm_controller := Some c, lm_options := Some opts, lm_live := insert c (lm_live s), lm_next := Suc c\<rparr>
        in if so_GatewayMode opts \<and> incomplete requireRA (env_check e)
           then case stopLocked (env_stop2 e) s1 of (errs, s2) \<Rightarrow>
             (fail (PlainError (Joined (StartIncomplete (st_Problems (env_check e)) # map Text errs))), s2)
           else (Snapshot (snapshotLocked goos e s1), s1))"

text \<open>From \<open>device.NewStore\<close> on.\<close>

definition start_rest ::
    "string \<Rightarrow> 'x lantern_env \<Rightarrow> 'x startOptions \<Rightarrow> bool \<Rightarrow> bool \<Rightarrow> 'x manager \<Rightarrow> 'x response \<times> 'x manager" where
  "start_rest goos e opts requireRA forwardIPv6 s =
    (let s1 = s\<lparr>lm_store := True\<rparr>
     in case env_New e (active_options (env_zero e) opts) of Some er \<Rightarrow> (fail (BadRequest (Text er)), s1)
        | None \<Rightarrow>
           (case env_Context e of Some er \<Rightarrow> (fail (PlainError (Text er)), s1)
            | None \<Rightarrow>
               (case stopLocked (env_stop1 e) s1 of (errs, s2) \<Rightarrow>
                  if errs \<noteq> [] then (fail (plain errs), s2)
                  else if so_GatewayMode opts
                  then case prepareForwarding (env_io e) (so_Interface opts) forwardIPv6 (lm_sys s2) of (fo, errs2, m) \<Rightarrow>
                    let s3 = s2\<lparr>lm_forwarding := fo, lm_sys := m\<rparr>
                    in if errs2 \<noteq> [] then (fail (plain errs2), s3) else start_controller goos e opts requireRA s3
                  else start_controller goos e opts requireRA s2)))"

text \<open>The guard reads \<open>m.options\<close> only when a controller runs.\<close>

definition start ::
    "string \<Rightarrow> string \<Rightarrow> 'x lantern_env \<Rightarrow> (string, 'x startOptions) result \<times> bool \<Rightarrow> 'x manager \<Rightarrow> 'x response \<times> 'x manager" where
  "start goos stateDir e body s =
    (if goos \<noteq> ''linux'' \<and> goos \<noteq> ''darwin'' then (fail (HTTPError 501 Unsupported), s)
     else
       (case decode body of Inl er \<Rightarrow> (fail er, s)
        | Inr opts0 \<Rightarrow>
           if \<not> lm_closed s \<and> \<not> lm_probing s \<and> runningLocked s \<and> lm_options s = None then (Panic, s)
           else if lm_closed s \<or> lm_probing s \<or> runningLocked s \<and> gateway_options s \<and> so_GatewayMode opts0
           then (fail (Conflict StartBusy), s)
           else
             let opts = opts0\<lparr>so_Discovery := (so_Discovery opts0)\<lparr>disc_Enabled := True\<rparr>\<rparr>
             in if so_GatewayMode opts
                then (case start_gateway stateDir e opts s of
                        (s1, Inl er) \<Rightarrow> (fail er, s1)
                      | (s1, Inr (opts', requireRA, forwardIPv6)) \<Rightarrow> start_rest goos e opts' requireRA forwardIPv6 s1)
                else start_rest goos e opts False False s))"

section \<open>Reconfiguring\<close>

text \<open>
  The probe before switching to another interface; none when the interface stays.
\<close>

definition switch_probe :: "'x lantern_env \<Rightarrow> selection \<Rightarrow> string \<Rightarrow> 'x manager \<Rightarrow> 'x manager \<times> message HTTPError option" where
  "switch_probe e sel current s =
    (if sel_Name sel = current then (s, None)
     else case env_ProbeDHCP e (sel_Name sel) of (probe, err) \<Rightarrow>
       (s\<lparr>lm_lastProbe := Some probe\<rparr>,
        case err of Some er \<Rightarrow> Some (Conflict (SwitchRefused (Text er)))
        | None \<Rightarrow> (case allowGateway probe of None \<Rightarrow> None
            | Some er \<Rightarrow> Some (Conflict (SwitchRefused (snd (SendError er)))))))"

definition configure_options ::
    "string \<Rightarrow> 'x lantern_env \<Rightarrow> selection \<Rightarrow> 'x startOptions \<Rightarrow> 'x startOptions \<Rightarrow> (message HTTPError, 'x startOptions) result" where
  "configure_options stateDir e sel old opts =
    (case env_Normalize e ((so_DHCP opts)\<lparr>dhcp_Enabled := True, dhcp_Gateway := sel_GatewayIPv4 sel,
          dhcp_LeaseFile := Join [stateDir, ''leases.json''], dhcp_GatewayMACs := dhcp_GatewayMACs (so_DHCP old)\<rparr>) of
       Inl er \<Rightarrow> Inl (BadRequest (Text er))
     | Inr d \<Rightarrow> Inr (opts\<lparr>so_GatewayMode := True, so_Discovery := so_Discovery old, so_Interface := sel_Name sel, so_DHCP := d\<rparr>))"

definition push_update :: "forwardingState option \<Rightarrow> 'x manager \<Rightarrow> 'x manager" where
  "push_update fo s = (case fo of None \<Rightarrow> s | Some f \<Rightarrow> s\<lparr>lm_updates := lm_updates s @ [f]\<rparr>)"

text \<open>The call of \<open>ConfigureGateway\<close>, with the switches set before it.\<close>

definition configure_controller ::
    "string \<Rightarrow> 'x lantern_env \<Rightarrow> 'x startOptions \<Rightarrow> forwardingState option \<Rightarrow> 'x manager \<Rightarrow> 'x response \<times> 'x manager" where
  "configure_controller goos e opts fo s =
    (case env_ConfigureGateway e opts of
       Some er \<Rightarrow>
         (case fo of None \<Rightarrow> (fail (PlainError (Text er)), s)
          | Some f \<Rightarrow>
             (case restore (env_io e) f (lm_sys s) of (errs, f', m) \<Rightarrow>
                let s1 = s\<lparr>lm_sys := m\<rparr>
                in if errs = [] then (fail (PlainError (Text er)), s1)
                   else (fail (plain (er # errs)), push_update (Some f') s1)))
     | None \<Rightarrow>
        let s1 = (push_update fo s)\<lparr>lm_options := Some opts\<rparr>
        in (Snapshot (snapshotLocked goos e s1), s1))"

definition configure ::
    "string \<Rightarrow> string \<Rightarrow> 'x lantern_env \<Rightarrow> (string, 'x startOptions) result \<times> bool \<Rightarrow> 'x manager \<Rightarrow> 'x response \<times> 'x manager" where
  "configure goos stateDir e body s =
    (case decode body of Inl er \<Rightarrow> (fail er, s)
     | Inr opts0 \<Rightarrow>
        (case lm_options s of
           None \<Rightarrow> (fail (Conflict GatewayOff), s)
         | Some old \<Rightarrow>
            if lm_closed s \<or> lm_probing s \<or> \<not> runningLocked s \<or> \<not> so_GatewayMode old then (fail (Conflict GatewayOff), s)
            else
              (case select_gateway BadRequest e opts0 of Inl er \<Rightarrow> (fail er, s)
               | Inr sel \<Rightarrow>
                  (case switch_probe e sel (so_Interface old) s of
                     (s1, Some er) \<Rightarrow> (fail er, s1)
                   | (s1, None) \<Rightarrow>
                      (case configure_options stateDir e sel old opts0 of Inl er \<Rightarrow> (fail er, s1)
                       | Inr opts \<Rightarrow>
                          let ipv6 = (ra_Enabled (so_RA opts) \<or> sel_GatewayIPv6 sel \<noteq> None)
                          in if env_ForwardingReady e (so_Interface opts) ipv6 = None
                             then configure_controller goos e opts None s1
                             else (case prepareForwarding (env_io e) (so_Interface opts) ipv6 (lm_sys s1) of (fo, errs, m) \<Rightarrow>
                               let s2 = s1\<lparr>lm_sys := m\<rparr>
                               in if errs \<noteq> [] then (fail (plain errs), push_update fo s2)
                                  else configure_controller goos e opts fo s2))))))"

section \<open>The other requests\<close>

definition status :: "string \<Rightarrow> 'x lantern_env \<Rightarrow> 'x manager \<Rightarrow> 'x response \<times> 'x manager" where
  "status goos e s = (Snapshot (snapshotLocked goos e s), s)"

definition stop :: "string \<Rightarrow> 'x lantern_env \<Rightarrow> 'x manager \<Rightarrow> 'x response \<times> 'x manager" where
  "stop goos e s =
    (case stopLocked (env_stop1 e) s of (errs, s1) \<Rightarrow>
       if errs \<noteq> [] then (fail (plain errs), s1) else (Snapshot (snapshotLocked goos e s1), s1))"

text \<open>
  \<open>probe\<close> holds the lock three times: when it begins, when it records the result, and in
  its deferred function.
\<close>

definition probe_begin :: "(string, string) result \<times> bool \<Rightarrow> nat \<Rightarrow> 'x manager \<Rightarrow> 'x response option \<times> 'x manager" where
  "probe_begin body ctx s =
    (case decode body of Inl er \<Rightarrow> (Some (fail er), s)
     | Inr iface \<Rightarrow>
        if lm_closed s \<or> lm_probing s then (Some (fail (Conflict ProbeBusy)), s)
        else (None, s\<lparr>lm_probing := True, lm_probeStop := Some ctx\<rparr>))"

definition probe_record :: "DHCPProbe \<times> string option \<Rightarrow> 'x manager \<Rightarrow> 'x response \<times> 'x manager" where
  "probe_record r s =
    (case snd r of Some er \<Rightarrow> fail (BadRequest (Text er)) | None \<Rightarrow> Probe (fst r), s\<lparr>lm_lastProbe := Some (fst r)\<rparr>)"

definition probe_end :: "nat \<Rightarrow> 'x manager \<Rightarrow> 'x manager" where
  "probe_end ctx s = s\<lparr>lm_cancelled := insert ctx (lm_cancelled s), lm_probing := False, lm_probeStop := None\<rparr>"

definition resumeDHCP :: "string \<Rightarrow> 'x lantern_env \<Rightarrow> 'x manager \<Rightarrow> 'x response \<times> 'x manager" where
  "resumeDHCP goos e s =
    (if lm_closed s \<or> \<not> runningLocked s then (fail (Conflict NotRunning), s)
     else
       (case lm_options s of None \<Rightarrow> (fail (Conflict GatewayOff), s)
        | Some opts \<Rightarrow>
           if \<not> so_GatewayMode opts then (fail (Conflict GatewayOff), s)
           else
             (case env_ProbeDHCP e (so_Interface opts) of (probe, err) \<Rightarrow>
                let s1 = s\<lparr>lm_lastProbe := Some probe\<rparr>
                in case err of Some er \<Rightarrow> (fail (Conflict (ProbeFailed er)), s1)
                   | None \<Rightarrow>
                      (case allowGateway probe of Some er \<Rightarrow> (fail er, s1)
                       | None \<Rightarrow>
                          (case env_ResumeDHCP e of Some er \<Rightarrow> (fail (Conflict (Text er)), s1)
                           | None \<Rightarrow> (Snapshot (snapshotLocked goos e s1), s1))))))"

definition gatewayDevices ::
    "string \<Rightarrow> 'x lantern_env \<Rightarrow> (string, string list) result \<times> bool \<Rightarrow> 'x manager \<Rightarrow> 'x response \<times> 'x manager" where
  "gatewayDevices goos e body s =
    (case decode body of Inl er \<Rightarrow> (fail er, s)
     | Inr macs \<Rightarrow>
        (case lm_options s of None \<Rightarrow> (fail (Conflict GatewayOff), s)
         | Some opts \<Rightarrow>
            if lm_closed s \<or> \<not> runningLocked s \<or> \<not> so_GatewayMode opts then (fail (Conflict GatewayOff), s)
            else
              (case env_Normalize e ((so_DHCP opts)\<lparr>dhcp_GatewayMACs := macs\<rparr>) of Inl er \<Rightarrow> (fail (BadRequest (Text er)), s)
               | Inr d \<Rightarrow>
                  (case env_SetMACs e (dhcp_GatewayMACs d) of Some er \<Rightarrow> (fail (PlainError (Text er)), s)
                   | None \<Rightarrow>
                      let s1 = s\<lparr>lm_options := Some (opts\<lparr>so_DHCP := (so_DHCP opts)\<lparr>dhcp_GatewayMACs := st_DHCP_GatewayMACs (env_check e)\<rparr>\<rparr>)\<rparr>
                      in (Snapshot (snapshotLocked goos e s1), s1)))))"

definition Shutdown :: "'x lantern_env \<Rightarrow> 'x manager \<Rightarrow> string list \<times> 'x manager" where
  "Shutdown e s =
    (let s1 = s\<lparr>lm_closed := True\<rparr>;
         s2 = (case lm_probeStop s1 of None \<Rightarrow> s1 | Some ctx \<Rightarrow> s1\<lparr>lm_cancelled := insert ctx (lm_cancelled s1)\<rparr>)
     in stopLocked (env_stop1 e) s2)"

section \<open>Requests in sequence\<close>

text \<open>
  The lock makes one request follow another; a controller may also end on its own.
\<close>

datatype 'x request =
    Status
  | Start "(string, 'x startOptions) result \<times> bool"
  | Stop
  | Configure "(string, 'x startOptions) result \<times> bool"
  | ProbeBegin "(string, string) result \<times> bool" nat
  | ProbeRecord "DHCPProbe \<times> string option"
  | ProbeEnd nat
  | Resume
  | Devices "(string, string list) result \<times> bool"
  | Leave
  | Dies nat

fun serve :: "string \<Rightarrow> string \<Rightarrow> 'x lantern_env \<Rightarrow> 'x request \<Rightarrow> 'x manager \<Rightarrow> 'x response option \<times> 'x manager" where
  "serve goos dir e Status s = map_prod Some id (status goos e s)"
| "serve goos dir e (Start b) s = map_prod Some id (start goos dir e b s)"
| "serve goos dir e Stop s = map_prod Some id (stop goos e s)"
| "serve goos dir e (Configure b) s = map_prod Some id (configure goos dir e b s)"
| "serve goos dir e (ProbeBegin b ctx) s = probe_begin b ctx s"
| "serve goos dir e (ProbeRecord r) s = map_prod Some id (probe_record r s)"
| "serve goos dir e (ProbeEnd ctx) s = (None, probe_end ctx s)"
| "serve goos dir e Resume s = map_prod Some id (resumeDHCP goos e s)"
| "serve goos dir e (Devices b) s = map_prod Some id (gatewayDevices goos e b s)"
| "serve goos dir e Leave s = (None, snd (Shutdown e s))"
| "serve goos dir e (Dies c) s = (None, s\<lparr>lm_live := lm_live s - {c}\<rparr>)"

end
