(* ===== verification/ForwardingProps.thy ===== *)
theory ForwardingProps
  imports Forwarding
begin

text \<open>
  What \<open>prepareForwarding\<close> changes, \<open>restore\<close> puts back, although writing one of the
  switches changes others: the kernel copies \<open>net/ipv6/conf/all/forwarding\<close> to every
  interface.
\<close>

definition all6 :: string where "all6 = ''/proc/sys/net/ipv6/conf/all/forwarding''"

definition glob_paths :: "string list \<Rightarrow> string set" where
  "glob_paths paths = set (filter (\<lambda>p. Base (Dir p) \<noteq> ''all'') paths)"

text \<open>
  The documented effect of writing a switch, and the form of the paths the pattern finds.
\<close>

definition kernel_law :: "(string \<Rightarrow> string \<Rightarrow> sysctl \<Rightarrow> sysctl) \<Rightarrow> string set \<Rightarrow> bool" where
  "kernel_law put G \<longleftrightarrow>
     (\<forall>p v m. p \<noteq> all6 \<longrightarrow> put p v m = m(p \<mapsto> v)) \<and>
     (\<forall>v m. put all6 v m = (\<lambda>q. if q \<in> G then Some v else m q)(all6 \<mapsto> v))"

definition glob_form :: "string list \<Rightarrow> bool" where
  "glob_form paths \<longleftrightarrow> distinct paths \<and>
     (\<forall>p\<in>set paths. prefix ''/proc/sys/net/ipv6/conf/'' p \<and> has_suffix p ''/forwarding'')"

section \<open>Sequences of writes\<close>

fun covers :: "string set \<Rightarrow> forwardingSetting list \<Rightarrow> bool" where
  "covers G [] = True"
| "covers G (s # ss) \<longleftrightarrow> (fs_path s = all6 \<longrightarrow> G \<subseteq> fs_path ` set ss) \<and> covers G ss"

definition overlay :: "forwardingSetting list \<Rightarrow> sysctl \<Rightarrow> sysctl" where
  "overlay ss m = m ++ map_of (map (\<lambda>s. (fs_path s, fs_value s)) ss)"

lemma overlay_Nil [simp]: "overlay [] m = m"
  by (simp add: overlay_def)

lemma puts_overlay:
  assumes "kernel_law put G" "distinct (map fs_path ss)" "covers G ss"
  shows "fold (\<lambda>s. put (fs_path s) (fs_value s)) ss m = overlay ss m"
  using assms(2,3)
proof (induction ss arbitrary: m)
  case (Cons s ss)
  let ?p = "fs_path s" and ?v = "fs_value s"
  have out: "map_of (map (\<lambda>s. (fs_path s, fs_value s)) ss) ?p = None"
    using Cons.prems(1) by (force simp: map_of_eq_None_iff)
  have "overlay ss (put ?p ?v m) = overlay (s # ss) m"
  proof (cases "?p = all6")
    case True
    then have sub: "G \<subseteq> fs_path ` set ss" using Cons.prems(2) by simp
    have "(q \<in> G \<and> map_of (map (\<lambda>s. (fs_path s, fs_value s)) ss) q = None) = False" for q
      using sub by (auto simp: map_of_eq_None_iff image_image)
    then have "map_of (map (\<lambda>s. (fs_path s, fs_value s)) ss) q = None \<Longrightarrow> q \<notin> G" for q by blast
    then show ?thesis using assms(1) True out
      by (auto simp: overlay_def kernel_law_def map_add_def fun_eq_iff split: option.splits)
  next
    case False
    then show ?thesis using assms(1) out
      by (auto simp: overlay_def kernel_law_def map_add_def fun_eq_iff split: option.splits)
  qed
  then show ?case using Cons.IH [of "put ?p ?v m"] Cons.prems by simp
qed simp

lemma apply_settings_puts:
  "apply_settings io ss m = (None, m') \<Longrightarrow> m' = fold (\<lambda>s. io_put io (fs_path s) (fs_value s)) ss m"
  by (induction ss arbitrary: m) (auto split: option.splits)

definition no_errors :: "sysctl_io \<Rightarrow> bool" where
  "no_errors io \<longleftrightarrow> (\<forall>p. io_read io p = None \<and> io_write io p = None)"

text \<open>With every file there, the second pass writes all of them.\<close>

lemma write_back_puts:
  assumes "no_errors io" "kernel_law (io_put io) G" "\<forall>s\<in>set ss. m (fs_path s) \<noteq> None"
  shows "write_back io ss m = ([], fold (\<lambda>s. io_put io (fs_path s) (fs_value s)) ss m)"
  using assms(3)
proof (induction ss arbitrary: m)
  case (Cons s ss)
  have "\<forall>x\<in>set ss. io_put io (fs_path s) (fs_value s) m (fs_path x) \<noteq> None"
    using Cons.prems assms(2) by (cases "fs_path s = all6") (auto simp: kernel_law_def)
  then show ?case using Cons assms(1) by (auto simp: no_errors_def)
qed simp

section \<open>Round trip\<close>

definition undone :: "forwardingSetting \<Rightarrow> forwardingSetting" where
  "undone s = s\<lparr>fs_value := fs_before s\<rparr>"

lemma plan_restore_values:
  assumes "no_errors io" "\<forall>s\<in>set ss. m (fs_path s) = Some (fs_value s)"
  shows "plan_restore io m ss = ([], map undone ss)"
  using assms(2) by (induction ss) (use assms(1) in \<open>auto simp: read_setting_def no_errors_def undone_def\<close>)

lemma map_of_settings:
  assumes "distinct (map fs_path ss)" "s \<in> set ss"
  shows "map_of (map (\<lambda>s. (fs_path s, fs_value s)) ss) (fs_path s) = Some (fs_value s)"
  using assms by (intro map_of_is_SomeI) (auto simp: comp_def)

lemma covers_undone: "covers G (map undone ss) = covers G ss"
  by (induction ss) (auto simp: undone_def image_comp)

text \<open>Undoing the writes of settings that remember what was there.\<close>

lemma restore_undoes:
  assumes "no_errors io" "kernel_law (io_put io) G" "distinct (map fs_path f)" "covers G f"
    and before: "\<forall>s\<in>set f. m (fs_path s) = Some (fs_before s)"
  shows "restore io f (overlay f m) = ([], [], m)"
proof -
  let ?m1 = "overlay f m" and ?b = "map undone f"
  have val: "\<forall>s\<in>set f. ?m1 (fs_path s) = Some (fs_value s)"
    using map_of_settings [OF assms(3)] by (auto simp: overlay_def map_add_Some_iff)
  then have plan: "plan_restore io ?m1 f = ([], ?b)" using plan_restore_values [OF assms(1)] by blast
  have b: "distinct (map fs_path ?b)" "covers G ?b"
    using assms(3,4) by (simp_all add: covers_undone comp_def undone_def)
  have "write_back io ?b ?m1 = ([], overlay ?b ?m1)"
    using write_back_puts [OF assms(1,2), of ?b ?m1] val puts_overlay [OF assms(2) b, of ?m1] by (auto simp: undone_def)
  moreover have "overlay ?b ?m1 = m"
  proof (rule ext)
    fix q
    show "overlay ?b ?m1 q = m q"
    proof (cases "q \<in> fs_path ` set f")
      case True
      then obtain s where s: "s \<in> set f" "q = fs_path s" by auto
      have "undone s \<in> set ?b" "fs_path (undone s) = q" "fs_value (undone s) = fs_before s"
        using s by (auto simp: undone_def)
      then show ?thesis using map_of_settings [OF b(1), of "undone s"] before s
        by (simp add: overlay_def map_add_Some_iff)
    next
      case False
      then have "map_of (map (\<lambda>s. (fs_path s, fs_value s)) f) q = None"
        "map_of (map (\<lambda>s. (fs_path s, fs_value s)) ?b) q = None"
        by (force simp: map_of_eq_None_iff undone_def)+
      then show ?thesis by (simp add: overlay_def map_add_def)
    qed
  qed
  ultimately show ?thesis using plan by (simp add: restore_def)
qed

section \<open>The settings that are collected\<close>

lemma collect_Inr:
  assumes "collect io iface m ws = Inr f"
  shows "f = filter keeps (map (\<lambda>s. fill_setting iface (the (m (proc_sys (fs_path s)))) (s\<lparr>fs_path := proc_sys (fs_path s)\<rparr>)) ws) \<and>
    (\<forall>s\<in>set ws. m (proc_sys (fs_path s)) \<noteq> None)"
  using assms
proof (induction ws arbitrary: f)
  case (Cons s ws)
  then obtain b rest where b: "m (proc_sys (fs_path s)) = Some b" "collect io iface m ws = Inr rest"
    by (auto simp: read_setting_def Let_def split: option.splits read_result.splits)
  then have "f = (let s2 = fill_setting iface b (s\<lparr>fs_path := proc_sys (fs_path s)\<rparr>) in if keeps s2 then s2 # rest else rest)"
    using Cons.prems by (auto simp: read_setting_def Let_def split: option.splits read_result.splits if_splits)
  then show ?case using Cons.IH [OF b(2)] b(1) by (simp add: Let_def)
qed simp

lemma fill_path [simp]: "fs_path (fill_setting iface b s) = fs_path s" "fs_before (fill_setting iface b s) = b"
  by (simp_all add: fill_setting_def)

lemma collected_before:
  assumes "collect io iface m ws = Inr f" "s \<in> set f"
  shows "m (fs_path s) = Some (fs_before s)"
  using collect_Inr [OF assms(1)] assms(2) by auto

lemma proc_sys_plain:
  assumes "plain_elem iface"
  shows "proc_sys (''net/ipv4/conf/'' @ iface @ ''/forwarding'') = ''/proc/sys/net/ipv4/conf/'' @ iface @ ''/forwarding''"
    and "proc_sys (''net/ipv4/conf/'' @ iface @ ''/send_redirects'') = ''/proc/sys/net/ipv4/conf/'' @ iface @ ''/send_redirects''"
    and "proc_sys (''net/ipv6/conf/'' @ iface @ ''/accept_ra'') = ''/proc/sys/net/ipv6/conf/'' @ iface @ ''/accept_ra''"
proof -
  have elem: "plain_elem x" if "x \<in> {''proc'', ''sys'', ''net'', ''ipv4'', ''ipv6'', ''conf'', ''forwarding'',
      ''send_redirects'', ''accept_ra''}" for x
    using that by (auto simp: plain_elem_def)
  show "proc_sys (''net/ipv4/conf/'' @ iface @ ''/forwarding'') = ''/proc/sys/net/ipv4/conf/'' @ iface @ ''/forwarding''"
    using Clean_plain_elems [of "[''proc'', ''sys'', ''net'', ''ipv4'', ''conf'', iface, ''forwarding'']"] assms elem
    by (simp add: proc_sys_def IsAbs_def)
  show "proc_sys (''net/ipv4/conf/'' @ iface @ ''/send_redirects'') = ''/proc/sys/net/ipv4/conf/'' @ iface @ ''/send_redirects''"
    using Clean_plain_elems [of "[''proc'', ''sys'', ''net'', ''ipv4'', ''conf'', iface, ''send_redirects'']"] assms elem
    by (simp add: proc_sys_def IsAbs_def)
  show "proc_sys (''net/ipv6/conf/'' @ iface @ ''/accept_ra'') = ''/proc/sys/net/ipv6/conf/'' @ iface @ ''/accept_ra''"
    using Clean_plain_elems [of "[''proc'', ''sys'', ''net'', ''ipv6'', ''conf'', iface, ''accept_ra'']"] assms elem
    by (simp add: proc_sys_def IsAbs_def)
qed

lemma proc_sys_fixed:
  "proc_sys ''net/ipv4/conf/all/send_redirects'' = ''/proc/sys/net/ipv4/conf/all/send_redirects''"
  "proc_sys ''net/ipv6/conf/all/forwarding'' = all6" "Base (Dir all6) = ''all''"
  by code_simp+

lemma proc_sys_glob: "prefix ''/proc/sys/net/ipv6/conf/'' p \<Longrightarrow> proc_sys p = p"
  by (auto simp: proc_sys_def IsAbs_def prefix_def)

lemma wish_path [simp]: "fs_path (wish p v) = p"
  by (simp add: wish_def)

text \<open>The four paths besides those of the pattern are different from each other and from those.\<close>

lemma path_facts:
  assumes "plain_elem iface" "iface \<noteq> ''all''"
  defines "a \<equiv> ''/proc/sys/net/ipv4/conf/'' @ iface @ ''/forwarding''"
    and "b \<equiv> ''/proc/sys/net/ipv4/conf/'' @ iface @ ''/send_redirects''"
    and "c \<equiv> ''/proc/sys/net/ipv4/conf/all/send_redirects''"
    and "d \<equiv> ''/proc/sys/net/ipv6/conf/'' @ iface @ ''/accept_ra''"
  shows "distinct [a, b, c, d]" and "\<forall>p\<in>{a, b, c}. \<not> prefix ''/proc/sys/net/ipv6/conf/'' p"
    and "\<not> has_suffix d ''/forwarding''"
proof -
  have "last a = CHR ''g''" "last c = CHR ''s''" by (simp_all add: a_def c_def)
  then have "a \<noteq> c" by auto
  moreover have "b \<noteq> c"
  proof
    assume "b = c"
    then have "iface @ ''/send_redirects'' = ''all'' @ ''/send_redirects''" by (simp add: b_def c_def)
    then show False using assms(2) by (simp only: append_same_eq)
  qed
  ultimately show "distinct [a, b, c, d]" by (auto simp: a_def b_def c_def d_def)
  show "\<forall>p\<in>{a, b, c}. \<not> prefix ''/proc/sys/net/ipv6/conf/'' p" by (auto simp: a_def b_def c_def)
  show "\<not> has_suffix d ''/forwarding''" by (simp add: has_suffix_def d_def)
qed

lemma good_interface: "\<not> bad_interface iface \<longleftrightarrow> plain_elem iface \<and> CHR 0x5C \<notin> set iface"
  by (auto simp: bad_interface_def plain_elem_def)

lemma all6_form: "prefix ''/proc/sys/net/ipv6/conf/'' all6" "has_suffix all6 ''/forwarding''"
  by (simp_all add: all6_def has_suffix_def)

lemma glob_all6: "all6 \<notin> glob_paths paths"
  by (simp add: glob_paths_def proc_sys_fixed(3))

lemma wishes_paths:
  assumes "plain_elem iface" "glob_form paths"
  shows "map (proc_sys \<circ> fs_path) (wishes iface ipv6 paths) =
    [''/proc/sys/net/ipv4/conf/'' @ iface @ ''/forwarding'', ''/proc/sys/net/ipv4/conf/'' @ iface @ ''/send_redirects'',
     ''/proc/sys/net/ipv4/conf/all/send_redirects''] @
    (if ipv6 then [all6] @ filter (\<lambda>p. Base (Dir p) \<noteq> ''all'') paths @ [''/proc/sys/net/ipv6/conf/'' @ iface @ ''/accept_ra'']
     else [])"
proof -
  let ?g = "filter (\<lambda>p. Base (Dir p) \<noteq> ''all'') paths"
  have g: "map (\<lambda>p. proc_sys p) ?g = ?g"
    by (rule map_idI) (use assms(2) proc_sys_glob in \<open>auto simp: glob_form_def\<close>)
  show ?thesis
    by (cases ipv6) (simp_all only: wishes_def if_True if_False append_Nil2 map_append list.map map_map comp_def wish_path
      proc_sys_plain [OF assms(1)] proc_sys_fixed g)
qed

lemma distinct_groups:
  assumes "distinct [a, b, c, d]" "distinct g" "d \<notin> set g" "e \<notin> set g" "e \<noteq> d" "set g \<inter> {a, b, c} = {}" "e \<notin> {a, b, c}"
  shows "distinct ([a, b, c] @ (if x then [e] @ g @ [d] else []))"
  using assms by auto

lemma wishes_distinct:
  assumes "\<not> bad_interface iface" "iface \<noteq> ''all''" "glob_form paths"
  shows "distinct (map (proc_sys \<circ> fs_path) (wishes iface ipv6 paths))"
proof -
  have plain: "plain_elem iface" using assms(1) by (simp add: good_interface)
  note f = path_facts [OF plain assms(2)]
  let ?g = "filter (\<lambda>p. Base (Dir p) \<noteq> ''all'') paths"
  have g: "\<forall>p\<in>set ?g. prefix ''/proc/sys/net/ipv6/conf/'' p \<and> has_suffix p ''/forwarding''" "distinct ?g"
    using assms(3) by (auto simp: glob_form_def)
  show ?thesis
    unfolding wishes_paths [OF plain assms(3)]
  proof (rule distinct_groups [OF f(1) g(2)])
    show "''/proc/sys/net/ipv6/conf/'' @ iface @ ''/accept_ra'' \<notin> set ?g" using g(1) f(3) by metis
    show "all6 \<notin> set ?g" using glob_all6 [of paths] by (simp add: glob_paths_def)
    show "all6 \<noteq> ''/proc/sys/net/ipv6/conf/'' @ iface @ ''/accept_ra''" using f(3) all6_form(2) by metis
    show "set ?g \<inter> {''/proc/sys/net/ipv4/conf/'' @ iface @ ''/forwarding'',
      ''/proc/sys/net/ipv4/conf/'' @ iface @ ''/send_redirects'', ''/proc/sys/net/ipv4/conf/all/send_redirects''} = {}"
      using g(1) f(2) by blast
    show "all6 \<notin> {''/proc/sys/net/ipv4/conf/'' @ iface @ ''/forwarding'',
      ''/proc/sys/net/ipv4/conf/'' @ iface @ ''/send_redirects'', ''/proc/sys/net/ipv4/conf/all/send_redirects''}"
      using all6_form(1) f(2) by blast
  qed
qed

lemma covers_no_all6: "\<forall>s\<in>set ss. fs_path s \<noteq> all6 \<Longrightarrow> covers G ss"
  by (induction ss) auto

lemma covers_append: "\<forall>s\<in>set xs. fs_path s \<noteq> all6 \<Longrightarrow> covers G (xs @ ys) = covers G ys"
  by (induction xs) auto


lemma wishes4_paths:
  assumes "plain_elem iface" "s \<in> set (wishes iface False ps)"
  shows "proc_sys (fs_path s) \<noteq> all6"
proof -
  have "map (\<lambda>s. proc_sys (fs_path s)) (wishes iface False ps) =
      [''/proc/sys/net/ipv4/conf/'' @ iface @ ''/forwarding'', ''/proc/sys/net/ipv4/conf/'' @ iface @ ''/send_redirects'',
       ''/proc/sys/net/ipv4/conf/all/send_redirects'']"
    by (simp only: wishes_def if_False append_Nil2 list.map wish_path proc_sys_plain [OF assms(1)] proc_sys_fixed)
  then have "proc_sys (fs_path s) \<in> set [''/proc/sys/net/ipv4/conf/'' @ iface @ ''/forwarding'',
      ''/proc/sys/net/ipv4/conf/'' @ iface @ ''/send_redirects'', ''/proc/sys/net/ipv4/conf/all/send_redirects'']"
    using assms(2) by (metis image_eqI list.set_map)
  then show ?thesis by (auto simp: all6_def)
qed

lemma accept_ra_path:
  assumes "plain_elem iface"
  shows "proc_sys (fs_path (wish (''net/ipv6/conf/'' @ iface @ ''/accept_ra'') v)) \<noteq> all6"
  unfolding wish_path proc_sys_plain [OF assms]
proof
  assume "''/proc/sys/net/ipv6/conf/'' @ iface @ ''/accept_ra'' = all6"
  then have "last (''/proc/sys/net/ipv6/conf/'' @ iface @ ''/accept_ra'') = last all6" by simp
  then show False by (simp add: all6_def)
qed

lemma set_filter_map: "(\<forall>s\<in>set xs. P (g s)) \<Longrightarrow> \<forall>s\<in>set (filter k (map g xs)). P s"
  by auto

lemma collected_covers:
  assumes "\<not> bad_interface iface" "iface \<noteq> ''all''" "glob_form paths"
    "collect io iface m (wishes iface ipv6 paths) = Inr f"
  shows "distinct (map fs_path f)" and "covers (glob_paths paths) f"
proof -
  have plain: "plain_elem iface" using assms(1) by (simp add: good_interface)
  note pf = path_facts [OF plain assms(2)]
  let ?fill = "\<lambda>s. fill_setting iface (the (m (proc_sys (fs_path s)))) (s\<lparr>fs_path := proc_sys (fs_path s)\<rparr>)"
  have f: "f = filter keeps (map ?fill (wishes iface ipv6 paths))" using collect_Inr [OF assms(4)] by simp
  have fp: "map fs_path (map ?fill (wishes iface ipv6 paths)) = map (proc_sys \<circ> fs_path) (wishes iface ipv6 paths)" by simp
  have "distinct (map fs_path (map ?fill (wishes iface ipv6 paths)))"
    unfolding fp by (rule wishes_distinct [OF assms(1-3)])
  then show "distinct (map fs_path f)" unfolding f by (rule distinct_map_filter)
  show "covers (glob_paths paths) f"
  proof (cases ipv6)
    case False
    then have "\<forall>s\<in>set f. fs_path s \<noteq> all6" using wishes4_paths [OF plain] by (auto simp: f)
    then show ?thesis by (rule covers_no_all6)
  next
    case True
    let ?pre = "filter keeps (map ?fill (wishes iface False []))"
    let ?a = "?fill (wish ''net/ipv6/conf/all/forwarding'' ''1'')"
    let ?globs = "map (\<lambda>p. wish p []) (filter (\<lambda>p. Base (Dir p) \<noteq> ''all'') paths)"
    let ?post = "filter keeps (map ?fill ?globs) @
      filter keeps [?fill (wish (''net/ipv6/conf/'' @ iface @ ''/accept_ra'') ''2'')]"
    have a: "fs_path ?a = all6" "keeps ?a" using all6_form by (simp_all add: proc_sys_fixed keeps_def)
    have split: "f = ?pre @ ?a # ?post" using True a(2) by (simp add: f wishes_def)
    have pre: "\<forall>s\<in>set ?pre. fs_path s \<noteq> all6" using wishes4_paths [OF plain] by auto
    have form: "prefix ''/proc/sys/net/ipv6/conf/'' p \<and> has_suffix p ''/forwarding''" if "p \<in> glob_paths paths" for p
      using that assms(3) by (auto simp: glob_form_def glob_paths_def)
    have sub: "glob_paths paths \<subseteq> fs_path ` set ?post"
    proof
      fix p assume p: "p \<in> glob_paths paths"
      let ?s = "?fill (wish p [])"
      have "fs_path ?s = p" "keeps ?s" using form [OF p] by (simp_all add: proc_sys_glob keeps_def)
      moreover have "?s \<in> set (map ?fill ?globs)" using p by (auto simp: glob_paths_def)
      ultimately have "?s \<in> set (filter keeps (map ?fill ?globs))" "fs_path ?s = p" unfolding set_filter by blast+
      then show "p \<in> fs_path ` set ?post" unfolding set_append image_Un by (intro UnI1 image_eqI [of _ _ ?s]) simp_all
    qed
    have "fs_path (?fill s) \<noteq> all6" if mem: "s \<in> set ?globs" for s
    proof -
      obtain p where "p \<in> glob_paths paths" "s = wish p []" using mem by (auto simp: glob_paths_def)
      then show ?thesis using form glob_all6 [of paths] by (auto simp: proc_sys_glob)
    qed
    moreover have "fs_path (?fill (wish (''net/ipv6/conf/'' @ iface @ ''/accept_ra'') ''2'')) \<noteq> all6"
      using accept_ra_path [OF plain] by (simp only: fill_path forwardingSetting.simps) simp
    ultimately have "\<forall>s\<in>set (?globs @ [wish (''net/ipv6/conf/'' @ iface @ ''/accept_ra'') ''2'']). fs_path (?fill s) \<noteq> all6"
      unfolding set_append list.set by blast
    then have "\<forall>s\<in>set (filter keeps (map ?fill (?globs @ [wish (''net/ipv6/conf/'' @ iface @ ''/accept_ra'') ''2'']))). fs_path s \<noteq> all6"
      by (rule set_filter_map)
    then have "\<forall>s\<in>set ?post. fs_path s \<noteq> all6" unfolding map_append filter_append list.map .
    then have "covers (glob_paths paths) ?post" by (rule covers_no_all6)
    then show ?thesis unfolding split covers_append [OF pre] using sub a(1) by simp
  qed
qed

lemma forwarding_undone:
  assumes "prepareForwarding io iface ipv6 m = (Some f, [], m1)" "iface \<noteq> ''all''"
    and "io_glob io = Inr paths" "glob_form paths" "kernel_law (io_put io) (glob_paths paths)"
    and "no_errors io2" "kernel_law (io_put io2) (glob_paths paths)"
  shows "restore io2 f m1 = ([], [], m)"
proof -
  have good: "\<not> bad_interface iface" using assms(1) by (auto simp: prepareForwarding_def)
  let ?paths = "if ipv6 then paths else []"
  have p: "(if ipv6 then io_glob io else Inr []) = Inr ?paths" using assms(3) by simp
  have w: "wishes iface ipv6 ?paths = wishes iface ipv6 paths" by (simp add: wishes_def)
  obtain f0 where f0: "collect io iface m (wishes iface ipv6 paths) = Inr f0"
    using assms(1) good p w by (auto simp: prepareForwarding_def split: sum.splits)
  obtain er m2 where ap: "apply_settings io f0 m = (er, m2)" by fastforce
  have "er = None \<and> f0 = f \<and> m2 = m1"
    using assms(1) good p w f0 ap by (auto simp: prepareForwarding_def split: option.splits prod.splits)
  then have f: "collect io iface m (wishes iface ipv6 paths) = Inr f" and "apply_settings io f m = (None, m1)"
    using f0 ap by auto
  note c = collected_covers [OF good assms(2,4) f]
  have "m1 = overlay f m"
    using apply_settings_puts [OF \<open>apply_settings io f m = (None, m1)\<close>] puts_overlay [OF assms(5) c] by simp
  then show ?thesis
    using restore_undoes [OF assms(6,7) c] collected_before [OF f] by blast
qed


text \<open>
  Restoring undoes preparing: when every switch could be set, a later \<open>restore\<close> brings
  each of them, and each switch of another interface that the kernel changed along, back
  to the value it had, provided nothing else changed them and no file fails.  The
  hypotheses on the kernel: writing a switch sets it, writing
  \<open>net/ipv6/conf/all/forwarding\<close> also sets those the pattern finds, and the pattern finds
  paths of its form.
\<close>

theorem forwarding_roundtrip:
  assumes "prepareForwarding io iface ipv6 m = (Some f, [], m1)" "iface \<noteq> ''all''"
    and "io_glob io = Inr paths" "glob_form paths" "kernel_law (io_put io) (glob_paths paths)"
    and "no_errors io2" "kernel_law (io_put io2) (glob_paths paths)"
  shows "restore io2 f m1 = ([], [], m)"
  by (rule forwarding_undone [OF assms])

text \<open>
  A host with the interface \<open>eth0\<close> besides the two pseudo interfaces.
\<close>

definition sample_globs :: "string list" where
  "sample_globs = map (\<lambda>i. ''/proc/sys/net/ipv6/conf/'' @ i @ ''/forwarding'') [''all'', ''default'', ''eth0'']"

definition sample_put :: "string \<Rightarrow> string \<Rightarrow> sysctl \<Rightarrow> sysctl" where
  "sample_put p v m =
    (if p = all6 then (\<lambda>q. if q \<in> set (filter (\<lambda>p. Base (Dir p) \<noteq> ''all'') sample_globs) then Some v else m q)(all6 \<mapsto> v)
     else m(p \<mapsto> v))"

definition sample_io :: sysctl_io where
  "sample_io = \<lparr>io_put = sample_put, io_read = \<lambda>_. None, io_write = \<lambda>_. None, io_glob = Inr sample_globs\<rparr>"

definition sample_switches :: sysctl where
  "sample_switches = map_of (map (\<lambda>p. (p, ''0'')) sample_globs @
    [(''/proc/sys/net/ipv4/conf/eth0/forwarding'', ''0''), (''/proc/sys/net/ipv4/conf/eth0/send_redirects'', ''1''),
     (''/proc/sys/net/ipv4/conf/all/send_redirects'', ''1''), (''/proc/sys/net/ipv6/conf/eth0/accept_ra'', ''1'')])"

definition sample_prepared :: "forwardingState option \<times> string list \<times> sysctl" where
  "sample_prepared = prepareForwarding sample_io ''eth0'' True sample_switches"

lemma sample_prepared_ok:
  "map_option length (fst sample_prepared) = Some 7" "fst (snd sample_prepared) = []"
  "snd (snd sample_prepared) ''/proc/sys/net/ipv6/conf/eth0/forwarding'' = Some ''1''"
  by code_simp+

lemma sample_host: "glob_form sample_globs" "kernel_law (io_put sample_io) (glob_paths sample_globs)" "no_errors sample_io"
proof -
  show "glob_form sample_globs" unfolding glob_form_def by code_simp
  show "kernel_law (io_put sample_io) (glob_paths sample_globs)"
    by (simp add: kernel_law_def sample_io_def sample_put_def glob_paths_def)
  show "no_errors sample_io" by (simp add: no_errors_def sample_io_def)
qed

theorem forwarding_roundtrip_witness:
  "snd (snd sample_prepared) ''/proc/sys/net/ipv6/conf/eth0/forwarding'' = Some ''1'' \<and>
   restore sample_io (the (fst sample_prepared)) (snd (snd sample_prepared)) = ([], [], sample_switches)"
proof -
  obtain f where f: "fst sample_prepared = Some f" using sample_prepared_ok(1) by auto
  then have "sample_prepared = (Some f, [], snd (snd sample_prepared))"
    using sample_prepared_ok(2) by (metis prod.collapse)
  then have "prepareForwarding sample_io ''eth0'' True sample_switches = (Some f, [], snd (snd sample_prepared))"
    by (simp add: sample_prepared_def)
  then show ?thesis
    using forwarding_roundtrip [of sample_io "''eth0''" True sample_switches f "snd (snd sample_prepared)" sample_globs sample_io]
      sample_host sample_prepared_ok(3) f
    by (simp add: sample_io_def)
qed

end
