(* ===== verification/LanternProps.thy ===== *)
theory LanternProps
  imports Lantern ForwardingProps
begin

text \<open>
  The gateway manager over any sequence of requests: its invariant, that a gateway only
  runs on an interface that was probed clean, and that stopping it puts every switch back.
\<close>

section \<open>Invariant\<close>

definition manager_inv :: "'x manager \<Rightarrow> bool" where
  "manager_inv s \<longleftrightarrow>
     lm_live s \<subseteq> set_option (lm_controller s) \<and>
     (lm_live s \<noteq> {} \<longrightarrow> lm_options s \<noteq> None) \<and>
     (lm_live s \<noteq> {} \<and> gateway_options s \<longrightarrow> lm_forwarding s \<noteq> None) \<and>
     (lm_updates s \<noteq> [] \<longrightarrow> lm_forwarding s \<noteq> None)"

text \<open>\<open>Stop\<close> without an error means that the controller has ended.\<close>

definition stop_law :: "'x lantern_env \<Rightarrow> bool" where
  "stop_law e \<longleftrightarrow> (\<forall>st\<in>{env_stop1 e, env_stop2 e}. stop_err st = None \<longrightarrow> \<not> stop_live st)"

lemma running_live: "manager_inv s \<Longrightarrow> runningLocked s \<longleftrightarrow> lm_live s \<noteq> {}"
  by (cases "lm_controller s") (auto simp: manager_inv_def runningLocked_def)

lemma new_manager_inv: "manager_inv (new_manager m)"
  by (simp add: manager_inv_def new_manager_def)

text \<open>What \<open>restore_forwarding\<close> leaves alone, and what it does when it succeeds.\<close>

lemma restore_updates_done: "restore_updates io fs m = ([], gs, m') \<Longrightarrow> gs = []"
  by (induction io fs m rule: restore_updates.induct) (auto split: prod.splits if_splits)

lemma restore_forwarding_frame:
  assumes "restore_forwarding io se s = (errs, s')"
  shows "lm_controller s' = lm_controller s \<and> lm_options s' = lm_options s \<and> lm_live s' = lm_live s \<and>
    lm_closed s' = lm_closed s \<and> lm_probing s' = lm_probing s \<and> lm_lastProbe s' = lm_lastProbe s"
  using assms by (auto simp: restore_forwarding_def Let_def split: option.splits prod.splits if_splits)

lemma restore_forwarding_done:
  assumes "restore_forwarding io se s = (errs, s')" "lm_updates s \<noteq> [] \<longrightarrow> lm_forwarding s \<noteq> None"
  shows "(lm_updates s' \<noteq> [] \<longrightarrow> lm_forwarding s' \<noteq> None) \<and> (errs = [] \<longrightarrow> lm_forwarding s' = None)"
  using assms restore_updates_done
  by (fastforce simp: restore_forwarding_def Let_def split: option.splits prod.splits if_splits)

lemma stopLocked_frame:
  assumes "stopLocked st s = (errs, s')"
  shows "lm_controller s' = lm_controller s" "lm_options s' = lm_options s" "lm_live s' \<subseteq> lm_live s"
    "lm_lastProbe s' = lm_lastProbe s" "lm_closed s' = lm_closed s" "lm_probing s' = lm_probing s"
  using assms
  by (auto simp: stopLocked_def Let_def dest!: restore_forwarding_frame split: option.splits if_splits)

text \<open>
  \<open>stopLocked\<close> either leaves a running controller as it was, or nothing runs any more; in
  the second case it has tried to restore the switches.
\<close>

lemma stopLocked_cases:
  assumes "stopLocked st s = (errs, s')" "manager_inv s" "stop_err st = None \<longrightarrow> \<not> stop_live st"
  obtains "s' = s" "errs \<noteq> []" "runningLocked s"
  | se where "restore_forwarding (stop_io st) se (s\<lparr>lm_live := {}\<rparr>) = (errs, s')"
proof (cases "lm_controller s")
  case None
  then have live: "lm_live s = {}" using assms(2) by (auto simp: manager_inv_def)
  then have "s\<lparr>lm_live := {}\<rparr> = s" by simp
  then have "restore_forwarding (stop_io st) [] (s\<lparr>lm_live := {}\<rparr>) = (errs, s')"
    using assms(1) None by (simp add: stopLocked_def)
  then show ?thesis by (rule that(2))
next
  case (Some c)
  then have live: "lm_live s \<subseteq> {c}" using assms(2) by (auto simp: manager_inv_def)
  then consider "stop_live st" "lm_live s = {c}" | "(if stop_live st then s else s\<lparr>lm_live := lm_live s - {c}\<rparr>) = s\<lparr>lm_live := {}\<rparr>"
    by (cases "lm_live s = {}"; cases "stop_live st") (auto simp: Diff_eq_empty_iff)
  then show ?thesis
  proof cases
    case 1
    then show ?thesis using assms(1,3) Some that(1)
      by (auto simp: stopLocked_def runningLocked_def split: option.splits)
  next
    case 2
    have "\<not> runningLocked (s\<lparr>lm_live := {}\<rparr>)" using Some by (simp add: runningLocked_def)
    then have "\<exists>se. restore_forwarding (stop_io st) se (s\<lparr>lm_live := {}\<rparr>) = (errs, s')"
      using assms(1) Some unfolding stopLocked_def Let_def 2 by (auto simp: 2 split: option.splits)
    then show ?thesis using that(2) by blast
  qed
qed

lemma stopLocked_inv:
  assumes "stopLocked st s = (errs, s')" "manager_inv s" "stop_err st = None \<longrightarrow> \<not> stop_live st"
  shows "manager_inv s'" and "errs = [] \<Longrightarrow> lm_live s' = {} \<and> lm_forwarding s' = None"
proof -
  have "manager_inv s' \<and> (errs = [] \<longrightarrow> lm_live s' = {} \<and> lm_forwarding s' = None)"
  proof (rule stopLocked_cases [OF assms])
    assume "s' = s" "errs \<noteq> []"
    then show ?thesis using assms(2) by simp
  next
    fix se assume r: "restore_forwarding (stop_io st) se (s\<lparr>lm_live := {}\<rparr>) = (errs, s')"
    then show ?thesis using restore_forwarding_frame [OF r] restore_forwarding_done [OF r] assms(2)
      by (auto simp: manager_inv_def gateway_options_def)
  qed
  then show "manager_inv s'" and "errs = [] \<Longrightarrow> lm_live s' = {} \<and> lm_forwarding s' = None" by auto
qed

text \<open>Changes that the invariant does not see.\<close>

lemma manager_inv_record [simp]:
  "manager_inv (s\<lparr>lm_lastProbe := p\<rparr>) = manager_inv s" "manager_inv (s\<lparr>lm_store := b\<rparr>) = manager_inv s"
  "manager_inv (s\<lparr>lm_sys := m\<rparr>) = manager_inv s" "manager_inv (s\<lparr>lm_closed := b\<rparr>) = manager_inv s"
  "manager_inv (s\<lparr>lm_cancelled := cs\<rparr>) = manager_inv s" "manager_inv (s\<lparr>lm_probing := b\<rparr>) = manager_inv s"
  "manager_inv (s\<lparr>lm_probeStop := x\<rparr>) = manager_inv s"
  by (simp_all add: manager_inv_def gateway_options_def)


lemma start_gateway_state:
  assumes "start_gateway dir e opts s = (s1, r)"
  shows "s1 = s \<or> (\<exists>p. s1 = s\<lparr>lm_lastProbe := Some p\<rparr>)"
    and "r = Inr (opts', ra, v6) \<Longrightarrow> so_GatewayMode opts' = so_GatewayMode opts"
  using assms
  by (auto simp: start_gateway_def Let_def split: sum.splits prod.splits option.splits)

lemma start_controller_inv:
  assumes "start_controller goos e opts ra s = (res, s')" "stop_law e"
    and "manager_inv s" "lm_live s = {}" "so_GatewayMode opts \<longrightarrow> lm_forwarding s \<noteq> None"
  shows "manager_inv s'"
proof -
  let ?s1 = "s\<lparr>lm_controller := Some (lm_next s), lm_options := Some opts, lm_live := insert (lm_next s) (lm_live s), lm_next := Suc (lm_next s)\<rparr>"
  have s1: "manager_inv ?s1" using assms(3-5) by (auto simp: manager_inv_def gateway_options_def)
  have law: "stop_err (env_stop2 e) = None \<longrightarrow> \<not> stop_live (env_stop2 e)" using assms(2) by (simp add: stop_law_def)
  show ?thesis
    using assms(1) stopLocked_inv(1) [OF _ assms(3) law] stopLocked_inv(1) [OF _ s1 law] s1
    unfolding start_controller_def Let_def by (auto split: option.splits if_splits prod.splits)
qed

text \<open>\<open>prepareForwarding\<close> returns a state to restore when it succeeds.\<close>

lemma prepare_some: "prepareForwarding io iface v6 m = (fo, [], m') \<Longrightarrow> fo \<noteq> None"
  by (auto simp: prepareForwarding_def split: if_splits sum.splits option.splits prod.splits)

lemma start_rest_inv:
  assumes "start_rest goos e opts ra v6 s = (res, s')" "stop_law e" "manager_inv s"
  shows "manager_inv s'"
proof -
  have law: "stop_err (env_stop1 e) = None \<longrightarrow> \<not> stop_live (env_stop1 e)" using assms(2) by (simp add: stop_law_def)
  obtain errs s2 where st: "stopLocked (env_stop1 e) (s\<lparr>lm_store := True\<rparr>) = (errs, s2)" by fastforce
  have s2: "manager_inv s2" and clear: "errs = [] \<Longrightarrow> lm_live s2 = {} \<and> lm_forwarding s2 = None"
    using stopLocked_inv [OF st _ law] assms(3) by simp_all
  obtain fo errs2 m where pf: "prepareForwarding (env_io e) (so_Interface opts) v6 (lm_sys s2) = (fo, errs2, m)"
    by (metis prod.exhaust)
  let ?s3 = "s2\<lparr>lm_forwarding := fo, lm_sys := m\<rparr>"
  have s3: "manager_inv ?s3" if "errs = []" using s2 clear [OF that] by (auto simp: manager_inv_def)
  have "manager_inv s'" if gw: "so_GatewayMode opts" and none: "errs = []" "errs2 = []"
    and sc: "start_controller goos e opts ra ?s3 = (res, s')"
    using start_controller_inv [OF sc assms(2) s3 [OF none(1)]] clear [OF none(1)] prepare_some pf none(2) by simp
  moreover have "manager_inv s'" if gw: "\<not> so_GatewayMode opts" and none: "errs = []"
    and sc: "start_controller goos e opts ra s2 = (res, s')"
    using start_controller_inv [OF sc assms(2) s2] clear [OF none] gw by simp
  ultimately show ?thesis
    using assms(1,3) st pf s2 s3 unfolding start_rest_def Let_def
    by (auto split: option.splits if_splits)
qed

lemma fail_no_panic [simp]: "fail er \<noteq> Panic"
  by (cases "SendError er") (simp add: fail_def)

lemma start_rest_no_panic: "fst (start_rest goos e opts ra v6 s) \<noteq> Panic"
  by (auto simp: start_rest_def start_controller_def Let_def split: option.splits prod.splits)

lemma start_no_panic:
  assumes "manager_inv s"
  shows "fst (start goos dir e b s) \<noteq> Panic"
proof -
  have "\<not> (runningLocked s \<and> lm_options s = None)"
    using running_live [OF assms] assms by (auto simp: manager_inv_def)
  then show ?thesis
    by (auto simp: start_def Let_def start_rest_no_panic split: sum.splits prod.splits)
qed

lemma start_inv:
  assumes "start goos dir e b s = (res, s')" "stop_law e" "manager_inv s"
  shows "manager_inv s'"
proof -
  have gw: "manager_inv s1" if "start_gateway dir e opts s = (s1, r)" for opts s1 r
    using start_gateway_state(1) [OF that] assms(3) by auto
  show ?thesis
    using assms(1,3) start_rest_inv [OF _ assms(2)] gw unfolding start_def Let_def
    by (auto split: if_splits sum.splits prod.splits)
qed

text \<open>Another entry for the stack, and other options that are still of a gateway.\<close>

lemma push_update_inv: "manager_inv s \<Longrightarrow> lm_forwarding s \<noteq> None \<Longrightarrow> manager_inv (push_update fo s)"
  by (auto simp: push_update_def manager_inv_def gateway_options_def split: option.splits)

lemma push_update_keeps [simp]:
  "lm_live (push_update fo s) = lm_live s" "lm_forwarding (push_update fo s) = lm_forwarding s"
  "lm_controller (push_update fo s) = lm_controller s" "lm_options (push_update fo s) = lm_options s"
  "lm_sys (push_update fo s) = lm_sys s" "lm_lastProbe (push_update fo s) = lm_lastProbe s"
  by (simp_all add: push_update_def split: option.splits)

lemma options_inv: "manager_inv s \<Longrightarrow> lm_forwarding s \<noteq> None \<Longrightarrow> manager_inv (s\<lparr>lm_options := Some opts\<rparr>)"
  by (auto simp: manager_inv_def)

lemma configure_controller_inv:
  assumes "configure_controller goos e opts fo s = (res, s')" "manager_inv s" "lm_forwarding s \<noteq> None"
  shows "manager_inv s'"
proof (cases "env_ConfigureGateway e opts")
  case None
  then have "s' = (push_update fo s)\<lparr>lm_options := Some opts\<rparr>" using assms(1) by (simp add: configure_controller_def Let_def)
  then show ?thesis using options_inv [OF push_update_inv [OF assms(2,3)]] assms(3) by simp
next
  case (Some er)
  then show ?thesis using assms push_update_inv [of "s\<lparr>lm_sys := m\<rparr>" for m]
    by (auto simp: configure_controller_def Let_def split: option.splits prod.splits if_splits)
qed

lemma switch_probe_state:
  assumes "switch_probe e sel cur s = (s1, r)"
  shows "s1 = s \<or> (\<exists>p. s1 = s\<lparr>lm_lastProbe := Some p\<rparr>)"
  using assms by (auto simp: switch_probe_def split: if_splits prod.splits)

text \<open>The ways through \<open>configure\<close>: what follows the checks.\<close>

lemma gateway_configure_cases:
  assumes "configure goos dir e b s = (res, s')"
  obtains (refused) "s' = s"
  | (probed) sel old s1 r where "runningLocked s" "lm_options s = Some old" "so_GatewayMode old"
      "switch_probe e sel (so_Interface old) s = (s1, r)" "s' = s1"
  | (ready) sel old s1 opts opts0 where "runningLocked s" "lm_options s = Some old" "so_GatewayMode old"
      "switch_probe e sel (so_Interface old) s = (s1, None)" "configure_options dir e sel old opts0 = Inr opts"
      "select_gateway BadRequest e opts0 = Inr sel"
      "configure_controller goos e opts None s1 = (res, s')"
  | (prepared) sel old s1 opts opts0 v6 fo errs m where "runningLocked s" "lm_options s = Some old" "so_GatewayMode old"
      "switch_probe e sel (so_Interface old) s = (s1, None)" "configure_options dir e sel old opts0 = Inr opts"
      "select_gateway BadRequest e opts0 = Inr sel"
      "prepareForwarding (env_io e) (so_Interface opts) v6 (lm_sys s1) = (fo, errs, m)"
      "(if errs \<noteq> [] then (fail (plain errs), push_update fo (s1\<lparr>lm_sys := m\<rparr>))
        else configure_controller goos e opts fo (s1\<lparr>lm_sys := m\<rparr>)) = (res, s')"
proof (cases "decode b")
  case (Inl er)
  then show ?thesis using assms refused by (simp add: configure_def)
next
  case dec: (Inr opts0)
  show ?thesis
  proof (cases "runningLocked s \<and> gateway_options s \<and> \<not> lm_closed s \<and> \<not> lm_probing s")
    case False
    then show ?thesis using assms refused dec
      by (auto simp: configure_def gateway_options_def split: option.splits)
  next
    case True
    then obtain old where old: "lm_options s = Some old" "so_GatewayMode old" "runningLocked s" "\<not> lm_closed s" "\<not> lm_probing s"
      by (auto simp: gateway_options_def split: option.splits)
    show ?thesis
    proof (cases "select_gateway BadRequest e opts0")
      case (Inl er)
      then show ?thesis using assms refused dec old by (simp add: configure_def)
    next
      case sel: (Inr sel)
      obtain s1 r where sp: "switch_probe e sel (so_Interface old) s = (s1, r)" by fastforce
      consider "r \<noteq> None \<or> (\<exists>er. configure_options dir e sel old opts0 = Inl er)"
        | opts where "r = None" "configure_options dir e sel old opts0 = Inr opts"
        by (cases "configure_options dir e sel old opts0") auto
      then show ?thesis
      proof cases
        case 1
        then have "s' = s1" using assms dec old sel sp by (cases r) (auto simp: configure_def)
        then show ?thesis using probed old sp by blast
      next
        case (2 opts)
        let ?v6 = "ra_Enabled (so_RA opts) \<or> sel_GatewayIPv6 sel \<noteq> None"
        obtain fo errs m where pf: "prepareForwarding (env_io e) (so_Interface opts) ?v6 (lm_sys s1) = (fo, errs, m)"
          by (metis prod.exhaust)
        show ?thesis
        proof (cases "env_ForwardingReady e (so_Interface opts) ?v6 = None")
          case True
          then have "configure_controller goos e opts None s1 = (res, s')"
            using assms dec old sel sp 2 by (simp add: configure_def)
          then show ?thesis using ready old sp sel 2 by blast
        next
          case False
          then have "(if errs \<noteq> [] then (fail (plain errs), push_update fo (s1\<lparr>lm_sys := m\<rparr>))
              else configure_controller goos e opts fo (s1\<lparr>lm_sys := m\<rparr>)) = (res, s')"
            using assms dec old sel sp 2 pf by (auto simp: configure_def Let_def)
          then show ?thesis using prepared old sp sel 2 pf by blast
        qed
      qed
    qed
  qed
qed

lemma gateway_configure_inv:
  assumes "configure goos dir e b s = (res, s')" "manager_inv s"
  shows "manager_inv s'"
proof -
  have s1: "manager_inv s1 \<and> lm_forwarding s1 \<noteq> None"
    if "runningLocked s" "lm_options s = Some old" "so_GatewayMode old" "switch_probe e sel cur s = (s1, r)" for sel cur s1 r old
    using switch_probe_state [OF that(4)] assms(2) running_live [OF assms(2)] that(1-3)
    by (auto simp: manager_inv_def gateway_options_def)
  from assms(1) show ?thesis
  proof (cases rule: gateway_configure_cases)
    case refused
    then show ?thesis using assms(2) by simp
  next
    case probed
    then show ?thesis using s1 by blast
  next
    case ready
    then show ?thesis using s1 configure_controller_inv by blast
  next
    case (prepared sel old s1 opts opts0 v6 fo errs m)
    have "manager_inv (s1\<lparr>lm_sys := m\<rparr>)" "lm_forwarding (s1\<lparr>lm_sys := m\<rparr>) \<noteq> None"
      using s1 [OF prepared(1-4)] by auto
    then show ?thesis
      using prepared(8) configure_controller_inv [of goos e opts fo "s1\<lparr>lm_sys := m\<rparr>"] push_update_inv [of "s1\<lparr>lm_sys := m\<rparr>" fo]
      by (auto split: if_splits)
  qed
qed


text \<open>The other requests change nothing the invariant is about, or only stop.\<close>

lemma devices_state:
  assumes "gatewayDevices goos e b s = (res, s')"
  shows "s' = s \<or> (\<exists>opts d. lm_options s = Some opts \<and> s' = s\<lparr>lm_options := Some (opts\<lparr>so_DHCP := d\<rparr>)\<rparr>)"
  using assms by (auto simp: gatewayDevices_def Let_def split: sum.splits option.splits if_splits)

lemma resume_state:
  assumes "resumeDHCP goos e s = (res, s')"
  shows "s' = s \<or> (\<exists>p. s' = s\<lparr>lm_lastProbe := Some p\<rparr>)"
  using assms by (auto simp: resumeDHCP_def Let_def split: option.splits if_splits prod.splits)

lemma other_no_panic:
  "fst (configure goos dir e b s) \<noteq> Panic" "fst (resumeDHCP goos e s) \<noteq> Panic" "fst (gatewayDevices goos e c s) \<noteq> Panic"
  "fst (stop goos e s) \<noteq> Panic" "fst (probe_begin d ctx s) \<noteq> Some Panic" "fst (probe_record r s) \<noteq> Panic" "fst (status goos e s) \<noteq> Panic"
proof -
  have "fst (configure_controller goos e opts fo s1) \<noteq> Panic" for opts fo and s1 :: "'a manager"
    by (auto simp: configure_controller_def Let_def split: option.splits prod.splits)
  then show "fst (configure goos dir e b s) \<noteq> Panic"
    by (cases "configure goos dir e b s" rule: prod.exhaust; elim gateway_configure_cases)
      (auto simp: configure_def Let_def split: sum.splits option.splits prod.splits)
qed (auto simp: resumeDHCP_def gatewayDevices_def stop_def probe_begin_def probe_record_def status_def Let_def
    split: option.splits prod.splits sum.splits)

text \<open>What \<open>Shutdown\<close> does before it stops.\<close>

definition leaving :: "'x manager \<Rightarrow> 'x manager" where
  "leaving s = (case lm_probeStop s of None \<Rightarrow> s\<lparr>lm_closed := True\<rparr>
     | Some ctx \<Rightarrow> s\<lparr>lm_closed := True, lm_cancelled := insert ctx (lm_cancelled s)\<rparr>)"

lemma Shutdown_leaving: "Shutdown e s = stopLocked (env_stop1 e) (leaving s)"
  by (simp add: Shutdown_def leaving_def Let_def split: option.splits)

lemma serve_Leave:
  assumes "serve goos dir e Leave s = (res, s')"
  shows "stopLocked (env_stop1 e) (leaving s) = (fst (stopLocked (env_stop1 e) (leaving s)), s')"
  using assms by (simp add: Shutdown_leaving prod_eq_iff)

lemma leaving_inv [simp]: "manager_inv (leaving s) = manager_inv s"
  by (simp add: leaving_def split: option.splits)

lemma serve_inv:
  assumes "serve goos dir e r s = (res, s')" "stop_law e" "manager_inv s"
  shows "manager_inv s'"
proof -
  have law: "stop_err (env_stop1 e) = None \<longrightarrow> \<not> stop_live (env_stop1 e)" using assms(2) by (simp add: stop_law_def)
  have opts: "manager_inv (s\<lparr>lm_options := Some (opts\<lparr>so_DHCP := d\<rparr>)\<rparr>)" if "lm_options s = Some opts" for opts d
    using assms(3) that by (auto simp: manager_inv_def gateway_options_def)
  show ?thesis
  proof (cases r)
    case (Start b)
    then obtain res1 where "start goos dir e b s = (res1, s')" using assms(1) by (cases "start goos dir e b s") simp
    then show ?thesis by (rule start_inv [OF _ assms(2,3)])
  next
    case Stop
    then show ?thesis using assms(1,3) stopLocked_inv(1) [OF _ assms(3) law]
      by (auto simp: stop_def map_prod_def split: prod.splits if_splits)
  next
    case (Configure b)
    then obtain res1 where "configure goos dir e b s = (res1, s')" using assms(1) by (cases "configure goos dir e b s") simp
    then show ?thesis by (rule gateway_configure_inv [OF _ assms(3)])
  next
    case Resume
    then obtain res1 where "resumeDHCP goos e s = (res1, s')" using assms(1) by (cases "resumeDHCP goos e s") simp
    then show ?thesis using resume_state assms(3) by fastforce
  next
    case (Devices b)
    then obtain res1 where "gatewayDevices goos e b s = (res1, s')" using assms(1) by (cases "gatewayDevices goos e b s") simp
    then show ?thesis using devices_state assms(3) opts by metis
  next
    case Leave
    then show ?thesis using stopLocked_inv(1) [OF serve_Leave _ law] assms(1,3) by auto
  next
    case (Dies c)
    then show ?thesis using assms(1,3) by (auto simp: manager_inv_def gateway_options_def)
  qed (use assms in \<open>auto simp: status_def probe_begin_def probe_record_def probe_end_def split: sum.splits if_splits\<close>)
qed

section \<open>Reachable states\<close>

text \<open>
  The states after any number of requests whose environments obey a law.
\<close>

inductive lantern_reachable :: "string \<Rightarrow> string \<Rightarrow> ('x lantern_env \<Rightarrow> bool) \<Rightarrow> sysctl \<Rightarrow> 'x manager \<Rightarrow> bool"
  for goos dir law m0 where
  new: "lantern_reachable goos dir law m0 (new_manager m0)"
| request: "lantern_reachable goos dir law m0 s \<Longrightarrow> law e \<Longrightarrow> serve goos dir e r s = (res, s') \<Longrightarrow> lantern_reachable goos dir law m0 s'"

lemma lantern_reachable_inv:
  assumes "lantern_reachable goos dir law m0 s" "\<And>e. law e \<Longrightarrow> stop_law e"
  shows "manager_inv s"
  using assms by (induction rule: lantern_reachable.induct) (auto intro: new_manager_inv serve_inv)

text \<open>
  C29. In every state the gateway manager can reach there is at most one running controller,
  the one it knows, and its options are there; while a controller runs in gateway mode the
  switches to restore are kept, and switches of later reconfigurations only exist on top of
  them, so that \<open>stopLocked\<close> never skips any.  No request dereferences missing options.  The
  hypothesis on the library is that \<open>Stop\<close> without an error means the controller has ended.
\<close>

theorem gateway_invariant:
  assumes "lantern_reachable goos dir stop_law m0 s"
  shows "manager_inv s \<and> fst (serve goos dir e r s) \<noteq> Some Panic"
proof -
  have inv: "manager_inv s" using lantern_reachable_inv [OF assms] by simp
  have "fst (serve goos dir e r s) \<noteq> Some Panic"
    using start_no_panic [OF inv] by (cases r) (simp_all add: other_no_panic)
  then show ?thesis using inv by simp
qed


section \<open>Probes\<close>

text \<open>The interface on which a gateway runs.\<close>

definition gateway_on :: "'x manager \<Rightarrow> string option" where
  "gateway_on s = (if runningLocked s \<and> gateway_options s then map_option so_Interface (lm_options s) else None)"

definition clean_probe :: "DHCPProbe \<Rightarrow> bool" where
  "clean_probe p \<longleftrightarrow> \<not> pr_Truncated p \<and> pr_DiscoveriesSent p \<noteq> 0 \<and> pr_Servers p = []"

lemma allowGateway_clean: "allowGateway p = None \<longleftrightarrow> clean_probe p"
  by (simp add: allowGateway_def clean_probe_def)

text \<open>Stopping can only end what runs.\<close>

lemma stopLocked_on:
  assumes "stopLocked st s = (errs, s')" "gateway_on s' = Some i"
  shows "gateway_on s = Some i"
proof -
  note f = stopLocked_frame [OF assms(1)]
  have "runningLocked s" using assms(2) f by (auto simp: gateway_on_def runningLocked_def split: if_splits option.splits)
  then show ?thesis using assms(2) f by (simp add: gateway_on_def gateway_options_def split: if_splits)
qed

definition probed :: "'x lantern_env \<Rightarrow> string \<Rightarrow> 'x manager \<Rightarrow> bool" where
  "probed e i s \<longleftrightarrow> (\<exists>p. env_ProbeDHCP e i = (p, None) \<and> lm_lastProbe s = Some p \<and> clean_probe p)"

lemma gateway_on_record [simp]:
  "gateway_on (s\<lparr>lm_lastProbe := p\<rparr>) = gateway_on s" "gateway_on (s\<lparr>lm_store := b\<rparr>) = gateway_on s"
  "gateway_on (s\<lparr>lm_sys := m\<rparr>) = gateway_on s" "gateway_on (s\<lparr>lm_closed := b\<rparr>) = gateway_on s"
  "gateway_on (s\<lparr>lm_cancelled := cs\<rparr>) = gateway_on s" "gateway_on (s\<lparr>lm_probing := b\<rparr>) = gateway_on s"
  "gateway_on (s\<lparr>lm_probeStop := x\<rparr>) = gateway_on s" "gateway_on (s\<lparr>lm_forwarding := fo\<rparr>) = gateway_on s"
  "gateway_on (push_update u s) = gateway_on s" "gateway_on (leaving s) = gateway_on s"
  by (simp_all add: gateway_on_def runningLocked_def gateway_options_def leaving_def cong: option.case_cong split: option.split)

lemma start_gateway_probed:
  assumes "start_gateway dir e opts s = (s1, Inr (opts', ra, v6))"
  shows "probed e (so_Interface opts') s1"
  using assms
  by (auto simp: start_gateway_def Let_def probed_def allowGateway_clean split: sum.splits prod.splits option.splits)

lemma start_controller_on:
  assumes "start_controller goos e opts ra s = (res, s')" "gateway_on s' = Some i"
  shows "gateway_on s = Some i \<or> so_GatewayMode opts \<and> so_Interface opts = i \<and> lm_lastProbe s' = lm_lastProbe s"
proof -
  let ?s1 = "s\<lparr>lm_controller := Some (lm_next s), lm_options := Some opts, lm_live := insert (lm_next s) (lm_live s), lm_next := Suc (lm_next s)\<rparr>"
  have on: "so_GatewayMode opts \<and> so_Interface opts = i" if "gateway_on ?s1 = Some i"
    using that by (auto simp: gateway_on_def gateway_options_def split: if_splits)
  show ?thesis
  proof (cases "env_Start e")
    case None
    show ?thesis
    proof (cases "so_GatewayMode opts \<and> incomplete ra (env_check e)")
      case True
      then have st: "stopLocked (env_stop2 e) ?s1 = (fst (stopLocked (env_stop2 e) ?s1), s')"
        using assms(1) None by (simp add: start_controller_def Let_def prod_eq_iff split: prod.splits)
      then show ?thesis using stopLocked_on [OF st assms(2)] stopLocked_frame(4) [OF st] on by simp
    next
      case False
      then have "s' = ?s1" using assms(1) None unfolding start_controller_def Let_def by (simp split: if_splits)
      then show ?thesis using on assms(2) by simp
    qed
  next
    case (Some er)
    then have "stopLocked (env_stop2 e) s = (fst (stopLocked (env_stop2 e) s), s')"
      using assms(1) by (simp add: start_controller_def prod_eq_iff split: prod.splits)
    then show ?thesis using stopLocked_on [OF _ assms(2)] by blast
  qed
qed

lemma start_rest_on:
  assumes "start_rest goos e opts ra v6 s = (res, s')" "gateway_on s' = Some i"
  shows "gateway_on s = Some i \<or> so_GatewayMode opts \<and> so_Interface opts = i \<and> lm_lastProbe s' = lm_lastProbe s"
proof -
  obtain errs s2 where st: "stopLocked (env_stop1 e) (s\<lparr>lm_store := True\<rparr>) = (errs, s2)" by fastforce
  have was: "gateway_on s = Some i" if "gateway_on s2 = Some i" using stopLocked_on [OF st that] by simp
  have pr: "lm_lastProbe s2 = lm_lastProbe s" using stopLocked_frame(4) [OF st] by simp
  obtain fo errs2 m where pf: "prepareForwarding (env_io e) (so_Interface opts) v6 (lm_sys s2) = (fo, errs2, m)"
    by (metis prod.exhaust)
  let ?s3 = "s2\<lparr>lm_forwarding := fo, lm_sys := m\<rparr>"
  consider "s' = s\<lparr>lm_store := True\<rparr>" | "s' = s2" | "s' = ?s3"
    | "start_controller goos e opts ra ?s3 = (res, s')" | "start_controller goos e opts ra s2 = (res, s')"
    using assms(1) st pf unfolding start_rest_def Let_def by (auto split: option.splits if_splits)
  then show ?thesis
  proof cases
    case 4
    then show ?thesis using start_controller_on [OF 4 assms(2)] was pr by auto
  next
    case 5
    then show ?thesis using start_controller_on [OF 5 assms(2)] was pr by auto
  qed (use was assms(2) in auto)
qed

text \<open>The ways through \<open>start\<close>.\<close>

lemma start_cases:
  assumes "start goos dir e b s = (res, s')"
  obtains (refused) "s' = s"
  | (gateway_refused) opts er where "start_gateway dir e opts s = (s', Inl er)"
  | (gateway) opts s1 opts' ra v6 where "start_gateway dir e opts s = (s1, Inr (opts', ra, v6))" "start_rest goos e opts' ra v6 s1 = (res, s')"
  | (discovery) opts where "\<not> so_GatewayMode opts" "start_rest goos e opts False False s = (res, s')"
proof (cases "decode b")
  case (Inl er)
  then show ?thesis using assms refused by (auto simp: start_def split: if_splits)
next
  case (Inr opts0)
  let ?opts = "opts0\<lparr>so_Discovery := (so_Discovery opts0)\<lparr>disc_Enabled := True\<rparr>\<rparr>"
  obtain s1 r where sg: "start_gateway dir e ?opts s = (s1, r)" by fastforce
  have "s' = s \<or> (if so_GatewayMode ?opts then (case r of Inl er \<Rightarrow> (fail er, s1)
        | Inr (opts', ra, v6) \<Rightarrow> start_rest goos e opts' ra v6 s1) else start_rest goos e ?opts False False s) = (res, s')"
    using assms Inr sg by (auto simp: start_def Let_def split: if_splits sum.splits)
  then consider "s' = s" | "so_GatewayMode ?opts" "(case r of Inl er \<Rightarrow> (fail er, s1)
        | Inr (opts', ra, v6) \<Rightarrow> start_rest goos e opts' ra v6 s1) = (res, s')"
    | "\<not> so_GatewayMode ?opts" "start_rest goos e ?opts False False s = (res, s')"
    by (auto split: if_splits)
  then show ?thesis
  proof cases
    case 1
    then show ?thesis by (rule refused)
  next
    case 2
    then show ?thesis using sg gateway_refused gateway by (cases r) auto
  next
    case 3
    then show ?thesis by (rule discovery)
  qed
qed

lemma start_on:
  assumes "start goos dir e b s = (res, s')" "gateway_on s' = Some i" "gateway_on s \<noteq> Some i"
  shows "probed e i s'"
  using assms(1)
proof (cases rule: start_cases)
  case (gateway opts s1 opts' ra v6)
  have "gateway_on s1 = gateway_on s" using start_gateway_state(1) [OF gateway(1)] by auto
  then show ?thesis
    using start_rest_on [OF gateway(2) assms(2)] start_gateway_probed [OF gateway(1)] assms(3) by (auto simp: probed_def)
next
  case (gateway_refused opts er)
  then show ?thesis using start_gateway_state(1) [OF gateway_refused] assms(2,3) by auto
next
  case (discovery opts)
  then show ?thesis using start_rest_on [OF discovery(2) assms(2)] assms(3) by simp
qed (use assms in simp)

lemma configure_controller_on:
  assumes "configure_controller goos e opts fo s = (res, s')" "gateway_on s' = Some i"
  shows "(gateway_on s = Some i \<or> so_Interface opts = i) \<and> lm_lastProbe s' = lm_lastProbe s"
proof (cases "env_ConfigureGateway e opts")
  case None
  then have "s' = (push_update fo s)\<lparr>lm_options := Some opts\<rparr>" using assms(1) by (simp add: configure_controller_def Let_def)
  then show ?thesis using assms(2) by (auto simp: gateway_on_def split: if_splits)
next
  case (Some er)
  then show ?thesis using assms
    by (auto simp: configure_controller_def Let_def split: option.splits prod.splits if_splits)
qed

lemma configure_on:
  assumes "configure goos dir e b s = (res, s')" "gateway_on s' = Some i" "gateway_on s \<noteq> Some i"
  shows "probed e i s'"
proof -
  have on: "gateway_on s1 = gateway_on s" if "switch_probe e sel cur s = (s1, r)" for sel cur s1 r
    using switch_probe_state [OF that] by auto
  have iface: "so_Interface opts = sel_Name sel" if "configure_options dir e sel old opts0 = Inr opts" for sel old opts0 opts
    using that by (auto simp: configure_options_def split: sum.splits)
  have goal: "probed e i s'"
    if "runningLocked s" "lm_options s = Some old" "so_GatewayMode old" "switch_probe e sel (so_Interface old) s = (s1, None)"
      "so_Interface opts = sel_Name sel" "so_Interface opts = i" "lm_lastProbe s' = lm_lastProbe s1" for old sel s1 opts
  proof -
    have "sel_Name sel \<noteq> so_Interface old" using that assms(3) by (auto simp: gateway_on_def gateway_options_def)
    then show ?thesis using that(4-7)
      by (auto simp: switch_probe_def probed_def allowGateway_clean split: prod.splits option.splits)
  qed
  from assms(1) show ?thesis
  proof (cases rule: gateway_configure_cases)
    case (probed sel old s1 r)
    then show ?thesis using on assms by simp
  next
    case (ready sel old s1 opts opts0)
    then show ?thesis
      using configure_controller_on [OF ready(7) assms(2)] on [OF ready(4)] goal [OF ready(1-4) iface] assms(3) by auto
  next
    case (prepared sel old s1 opts opts0 v6 fo errs m)
    show ?thesis
    proof (cases "errs = []")
      case True
      then have "configure_controller goos e opts fo (s1\<lparr>lm_sys := m\<rparr>) = (res, s')" using prepared(8) by simp
      then show ?thesis
        using configure_controller_on [OF _ assms(2)] on [OF prepared(4)] goal [OF prepared(1-4) iface [OF prepared(5)]] assms(3)
        by fastforce
    next
      case False
      then show ?thesis using prepared(8) on [OF prepared(4)] assms(2,3) by auto
    qed
  qed (use assms in simp)
qed

text \<open>
  C22. A gateway is only ever brought onto an interface after a DHCP probe of that very
  interface in the same request ran to its end, was not truncated, sent at least one
  discovery and found no DHCP server; the probe is the one reported afterwards.  This holds
  for starting as well as for switching the interface of a running gateway.
\<close>

theorem gateway_needs_clean_probe:
  assumes "serve goos dir e r s = (res, s')" "gateway_on s' = Some i" "gateway_on s \<noteq> Some i"
  shows "\<exists>p. env_ProbeDHCP e i = (p, None) \<and> lm_lastProbe s' = Some p \<and>
    \<not> pr_Truncated p \<and> pr_DiscoveriesSent p \<noteq> 0 \<and> pr_Servers p = []"
proof -
  have stop: False if "stopLocked st s1 = (errs, s')" "gateway_on s1 = gateway_on s" for st errs s1
    using stopLocked_on [OF that(1) assms(2)] that(2) assms(3) by simp
  have "probed e i s'"
  proof (cases r)
    case (Start b)
    then obtain res1 where "start goos dir e b s = (res1, s')" using assms(1) by (cases "start goos dir e b s") simp
    then show ?thesis using start_on assms(2,3) by blast
  next
    case (Configure b)
    then obtain res1 where "configure goos dir e b s = (res1, s')" using assms(1) by (cases "configure goos dir e b s") simp
    then show ?thesis using configure_on assms(2,3) by blast
  next
    case Stop
    then show ?thesis using assms(1) stop by (auto simp: stop_def split: prod.splits if_splits)
  next
    case Leave
    then show ?thesis using stop [OF serve_Leave [of goos dir e s res s']] assms(1) by simp
  next
    case Resume
    then show ?thesis using assms resume_state [of goos e s] by (cases "resumeDHCP goos e s") auto
  next
    case (Devices b)
    then show ?thesis using assms devices_state [of goos e b s]
      by (cases "gatewayDevices goos e b s") (auto simp: gateway_on_def runningLocked_def gateway_options_def split: if_splits option.splits)
  next
    case (Dies c)
    then show ?thesis using assms
      by (auto simp: gateway_on_def runningLocked_def gateway_options_def split: if_splits option.splits)
  qed (use assms in \<open>auto simp: status_def probe_begin_def probe_record_def probe_end_def split: sum.splits if_splits\<close>)
  then show ?thesis by (simp add: probed_def clean_probe_def)
qed


section \<open>Switches\<close>

text \<open>
  The laws of the host for one call: reads and writes work, the pattern finds the same
  paths, and the kernel sets what is written.
\<close>

definition host_law :: "string list \<Rightarrow> sysctl_io \<Rightarrow> bool" where
  "host_law paths io \<longleftrightarrow> no_errors io \<and> io_glob io = Inr paths \<and> kernel_law (io_put io) (glob_paths paths)"

definition gateway_law :: "string list \<Rightarrow> 'x lantern_env \<Rightarrow> bool" where
  "gateway_law paths e \<longleftrightarrow> glob_form paths \<and> stop_law e \<and> (\<forall>io\<in>{env_io e, stop_io (env_stop1 e), stop_io (env_stop2 e)}. host_law paths io) \<and>
     (\<forall>i a b sel. env_Select e i a b = Inr sel \<longrightarrow> sel_Name sel \<noteq> ''all'')"

text \<open>Restoring the stack from its top leads from one state of the switches to the other.\<close>

fun undoes :: "string list \<Rightarrow> forwardingState list \<Rightarrow> sysctl \<Rightarrow> sysctl \<Rightarrow> bool" where
  "undoes paths [] m m0 \<longleftrightarrow> m = m0"
| "undoes paths (f # fs) m m0 \<longleftrightarrow> (\<exists>m1. (\<forall>io. host_law paths io \<longrightarrow> restore io f m = ([], [], m1)) \<and> undoes paths fs m1 m0)"

definition stack :: "'x manager \<Rightarrow> forwardingState list" where
  "stack s = rev (lm_updates s) @ (case lm_forwarding s of None \<Rightarrow> [] | Some f \<Rightarrow> [f])"

definition traced :: "string list \<Rightarrow> sysctl \<Rightarrow> 'x manager \<Rightarrow> bool" where
  "traced paths m0 s \<longleftrightarrow> undoes paths (stack s) (lm_sys s) m0"

lemma traced_cong:
  "lm_updates s' = lm_updates s \<Longrightarrow> lm_forwarding s' = lm_forwarding s \<Longrightarrow> lm_sys s' = lm_sys s \<Longrightarrow> traced paths m0 s' = traced paths m0 s"
  by (simp add: traced_def stack_def)

lemma traced_leaving [simp]: "traced paths m0 (leaving s) = traced paths m0 s"
  by (rule traced_cong) (simp_all add: leaving_def split: option.splits)

lemma restore_updates_undoes:
  assumes "host_law paths io" "undoes paths (fs @ gs) m m0"
  shows "\<exists>m1. restore_updates io fs m = ([], [], m1) \<and> undoes paths gs m1 m0"
  using assms(2) by (induction fs arbitrary: m) (use assms(1) in auto)

lemma restore_forwarding_traced:
  assumes "restore_forwarding io se s = (errs, s')" "host_law paths io" "traced paths m0 s" "lm_updates s \<noteq> [] \<longrightarrow> lm_forwarding s \<noteq> None"
  shows "stack s' = [] \<and> lm_sys s' = m0"
proof (cases "lm_forwarding s")
  case None
  then show ?thesis using assms by (auto simp: restore_forwarding_def traced_def stack_def)
next
  case (Some f)
  obtain m1 where m1: "restore_updates io (rev (lm_updates s)) (lm_sys s) = ([], [], m1)" "undoes paths [f] m1 m0"
    using restore_updates_undoes [OF assms(2), of "rev (lm_updates s)" "[f]" "lm_sys s" m0] assms(3) Some
    unfolding traced_def stack_def by auto
  then have "restore io f m1 = ([], [], m0)" using assms(2) by auto
  then show ?thesis using assms(1) Some m1(1) by (auto simp: restore_forwarding_def Let_def stack_def)
qed

lemma stopLocked_traced:
  assumes "stopLocked st s = (errs, s')" "manager_inv s" "stop_err st = None \<longrightarrow> \<not> stop_live st"
    and "host_law paths (stop_io st)" "traced paths m0 s"
  shows "traced paths m0 s'" and "errs = [] \<Longrightarrow> stack s' = [] \<and> lm_sys s' = m0"
proof -
  have "traced paths m0 s' \<and> (errs = [] \<longrightarrow> stack s' = [] \<and> lm_sys s' = m0)"
  proof (rule stopLocked_cases [OF assms(1-3)])
    assume "s' = s" "errs \<noteq> []"
    then show ?thesis using assms(5) by simp
  next
    fix se assume r: "restore_forwarding (stop_io st) se (s\<lparr>lm_live := {}\<rparr>) = (errs, s')"
    have "traced paths m0 (s\<lparr>lm_live := {}\<rparr>)" using assms(5) traced_cong [of "s\<lparr>lm_live := {}\<rparr>" s] by simp
    then have "stack s' = [] \<and> lm_sys s' = m0"
      using restore_forwarding_traced [OF r assms(4)] assms(2) by (simp add: manager_inv_def)
    then show ?thesis by (simp add: traced_def)
  qed
  then show "traced paths m0 s'" and "errs = [] \<Longrightarrow> stack s' = [] \<and> lm_sys s' = m0" by auto
qed

text \<open>\<open>prepareForwarding\<close> changes nothing or can be undone.\<close>

lemma apply_settings_no_error: "no_errors io \<Longrightarrow> fst (apply_settings io ss m) = None"
  by (induction ss arbitrary: m) (simp_all add: no_errors_def)

lemma prepare_undoes:
  assumes "prepareForwarding io iface v6 m = (fo, errs, m1)" "host_law paths io" "glob_form paths" "iface \<noteq> ''all''"
  shows "errs \<noteq> [] \<and> fo = None \<and> m1 = m \<or>
    errs = [] \<and> (\<exists>f. fo = Some f \<and> (\<forall>io2. host_law paths io2 \<longrightarrow> restore io2 f m1 = ([], [], m)))"
proof (cases "errs = []")
  case True
  then obtain f where f: "fo = Some f" using assms(1) prepare_some by fast
  then have "prepareForwarding io iface v6 m = (Some f, [], m1)" using assms(1) True by simp
  then have "restore io2 f m1 = ([], [], m)" if "host_law paths io2" for io2
    using forwarding_undone [of io iface v6 m f m1 paths io2] assms(2-4) that by (simp add: host_law_def)
  then show ?thesis using True f by blast
next
  case False
  then have "fo = None \<and> m1 = m"
    using assms(1,2) apply_settings_no_error [of io]
    by (auto simp: prepareForwarding_def host_law_def split: if_splits sum.splits option.splits prod.splits) (metis fst_conv option.distinct(1))+
  then show ?thesis using False by simp
qed

lemma undoes_push:
  assumes "\<forall>io. host_law paths io \<longrightarrow> restore io f m = ([], [], lm_sys s)" "traced paths m0 s"
  shows "traced paths m0 (push_update (Some f) (s\<lparr>lm_sys := m\<rparr>))"
  using assms by (auto simp: traced_def stack_def push_update_def)


text \<open>The requests keep the trace.\<close>

lemma law_parts:
  assumes "gateway_law paths e"
  shows "glob_form paths" "stop_law e" "host_law paths (env_io e)" "host_law paths (stop_io (env_stop1 e))"
    "host_law paths (stop_io (env_stop2 e))" "stop_err (env_stop1 e) = None \<longrightarrow> \<not> stop_live (env_stop1 e)"
    "stop_err (env_stop2 e) = None \<longrightarrow> \<not> stop_live (env_stop2 e)"
    "select_gateway mk e opts = Inr sel \<Longrightarrow> sel_Name sel \<noteq> ''all''"
  using assms by (auto simp: gateway_law_def stop_law_def select_gateway_def split: option.splits sum.splits if_splits)

lemma start_controller_traced:
  assumes "start_controller goos e opts ra s = (res, s')" "gateway_law paths e" "traced paths m0 s"
    and "manager_inv s" "lm_live s = {}" "so_GatewayMode opts \<longrightarrow> lm_forwarding s \<noteq> None"
  shows "traced paths m0 s'"
proof -
  let ?s1 = "s\<lparr>lm_controller := Some (lm_next s), lm_options := Some opts, lm_live := insert (lm_next s) (lm_live s), lm_next := Suc (lm_next s)\<rparr>"
  have s1: "manager_inv ?s1" using assms(4-6) by (auto simp: manager_inv_def gateway_options_def)
  have t1: "traced paths m0 ?s1" using assms(3) traced_cong [of ?s1 s] by simp
  note law = law_parts(7,5) [OF assms(2)]
  show ?thesis
    using assms(1) stopLocked_traced(1) [OF _ assms(4) law assms(3)] stopLocked_traced(1) [OF _ s1 law t1] t1
    unfolding start_controller_def Let_def by (auto split: option.splits if_splits prod.splits)
qed

lemma start_rest_traced:
  assumes "start_rest goos e opts ra v6 s = (res, s')" "gateway_law paths e" "manager_inv s" "traced paths m0 s"
    "so_GatewayMode opts \<longrightarrow> so_Interface opts \<noteq> ''all''"
  shows "traced paths m0 s'"
proof -
  note law = law_parts [OF assms(2)]
  obtain errs s2 where st: "stopLocked (env_stop1 e) (s\<lparr>lm_store := True\<rparr>) = (errs, s2)" by fastforce
  have t0: "traced paths m0 (s\<lparr>lm_store := True\<rparr>)" using assms(4) traced_cong [of "s\<lparr>lm_store := True\<rparr>" s] by simp
  have i0: "manager_inv (s\<lparr>lm_store := True\<rparr>)" using assms(3) by simp
  note i2 = stopLocked_inv [OF st i0 law(6)] and t2 = stopLocked_traced [OF st i0 law(6,4) t0]
  obtain fo errs2 m where pf: "prepareForwarding (env_io e) (so_Interface opts) v6 (lm_sys s2) = (fo, errs2, m)"
    by (metis prod.exhaust)
  let ?s3 = "s2\<lparr>lm_forwarding := fo, lm_sys := m\<rparr>"
  have i3: "manager_inv ?s3" if "errs = []" using i2 that by (auto simp: manager_inv_def)
  have t3: "traced paths m0 ?s3" if "errs = []" "so_GatewayMode opts"
    using prepare_undoes [OF pf law(3,1)] assms(5) t2(2) [OF that(1)] that
    by (auto simp: traced_def stack_def split: option.splits)
  consider "s' = s\<lparr>lm_store := True\<rparr>" | "s' = s2" | "errs = []" "so_GatewayMode opts" "s' = ?s3"
    | "errs = []" "so_GatewayMode opts" "errs2 = []" "start_controller goos e opts ra ?s3 = (res, s')"
    | "errs = []" "\<not> so_GatewayMode opts" "start_controller goos e opts ra s2 = (res, s')"
    using assms(1) st pf unfolding start_rest_def Let_def by (auto split: option.splits if_splits)
  then show ?thesis
  proof cases
    case 4
    then show ?thesis using start_controller_traced [OF 4(4) assms(2) t3 i3] i2(2) prepare_some pf by simp
  next
    case 5
    then show ?thesis using start_controller_traced [OF 5(3) assms(2) t2(1) i2(1)] i2(2) by simp
  qed (use t0 t2(1) t3 in auto)
qed

lemma start_traced:
  assumes "start goos dir e b s = (res, s')" "gateway_law paths e" "manager_inv s" "traced paths m0 s"
  shows "traced paths m0 s'"
proof -
  have tp: "traced paths m0 (s\<lparr>lm_lastProbe := p\<rparr>)" for p using assms(4) traced_cong [of "s\<lparr>lm_lastProbe := p\<rparr>" s] by simp
  from assms(1) show ?thesis
  proof (cases rule: start_cases)
    case (gateway_refused opts er)
    then show ?thesis using start_gateway_state(1) [OF gateway_refused] tp assms(4) by auto
  next
    case (gateway opts s1 opts' ra v6)
    have "so_Interface opts' \<noteq> ''all''"
      using gateway(1) law_parts(8) [OF assms(2)]
      by (auto simp: start_gateway_def Let_def split: sum.splits prod.splits option.splits)
    moreover have "manager_inv s1" "traced paths m0 s1" using start_gateway_state(1) [OF gateway(1)] tp assms(3,4) by auto
    ultimately show ?thesis using start_rest_traced [OF gateway(2) assms(2)] by simp
  next
    case (discovery opts)
    then show ?thesis using start_rest_traced [OF discovery(2) assms(2-4)] by simp
  qed (use assms in simp)
qed

lemma configure_controller_traced:
  assumes "configure_controller goos e opts fo (s\<lparr>lm_sys := m\<rparr>) = (res, s')" "gateway_law paths e" "traced paths m0 s"
    and "fo = None \<and> m = lm_sys s \<or> (\<exists>f. fo = Some f \<and> (\<forall>io. host_law paths io \<longrightarrow> restore io f m = ([], [], lm_sys s)))"
  shows "traced paths m0 s'"
proof -
  have pushed: "traced paths m0 (push_update fo (s\<lparr>lm_sys := m\<rparr>))"
    using assms(3,4) undoes_push by (auto simp: push_update_def)
  show ?thesis
  proof (cases "env_ConfigureGateway e opts")
    case None
    then have "s' = (push_update fo (s\<lparr>lm_sys := m\<rparr>))\<lparr>lm_options := Some opts\<rparr>"
      using assms(1) by (simp add: configure_controller_def Let_def)
    then show ?thesis using pushed by (simp add: traced_def stack_def)
  next
    case (Some er)
    then have "s' = s" using assms(1,4) law_parts(3) [OF assms(2)] by (auto simp: configure_controller_def Let_def)
    then show ?thesis using assms(3) by simp
  qed
qed

lemma configure_traced:
  assumes "configure goos dir e b s = (res, s')" "gateway_law paths e" "traced paths m0 s"
  shows "traced paths m0 s'"
proof -
  have tp: "traced paths m0 s1" if "switch_probe e sel cur s = (s1, r)" for sel cur s1 r
    using switch_probe_state [OF that] assms(3) traced_cong [of "s\<lparr>lm_lastProbe := p\<rparr>" s for p] by auto
  from assms(1) show ?thesis
  proof (cases rule: gateway_configure_cases)
    case (probed sel old s1 r)
    then show ?thesis using tp by blast
  next
    case (ready sel old s1 opts opts0)
    then show ?thesis using configure_controller_traced [of goos e opts None "lm_sys s1" s1] tp assms(2) by simp
  next
    case (prepared sel old s1 opts opts0 v6 fo errs m)
    have "so_Interface opts \<noteq> ''all''"
      using prepared(5) law_parts(8) [OF assms(2) prepared(6)] by (auto simp: configure_options_def split: sum.splits)
    note u = prepare_undoes [OF prepared(7) law_parts(3) [OF assms(2)] law_parts(1) [OF assms(2)] this]
    show ?thesis
    proof (cases "errs = []")
      case True
      then show ?thesis
        using prepared(8) u configure_controller_traced [OF _ assms(2) tp [OF prepared(4)]] by auto
    next
      case False
      then show ?thesis using prepared(8) u tp [OF prepared(4)] by (auto simp: push_update_def)
    qed
  qed (use assms in simp)
qed

lemma serve_traced:
  assumes "serve goos dir e r s = (res, s')" "gateway_law paths e" "manager_inv s" "traced paths m0 s"
  shows "traced paths m0 s'"
proof -
  note law = law_parts [OF assms(2)]
  have same: "traced paths m0 s'" if "lm_updates s' = lm_updates s" "lm_forwarding s' = lm_forwarding s" "lm_sys s' = lm_sys s"
    using traced_cong [OF that] assms(4) by simp
  show ?thesis
  proof (cases r)
    case (Start b)
    then obtain res1 where "start goos dir e b s = (res1, s')" using assms(1) by (cases "start goos dir e b s") simp
    then show ?thesis using start_traced assms(2-4) by blast
  next
    case (Configure b)
    then obtain res1 where "configure goos dir e b s = (res1, s')" using assms(1) by (cases "configure goos dir e b s") simp
    then show ?thesis using configure_traced assms(2,4) by blast
  next
    case Stop
    then show ?thesis using assms(1) stopLocked_traced(1) [OF _ assms(3) law(6,4) assms(4)]
      by (auto simp: stop_def split: prod.splits if_splits)
  next
    case Leave
    then show ?thesis using stopLocked_traced(1) [OF serve_Leave _ law(6,4)] assms(1,3,4) by auto
  next
    case Resume
    then show ?thesis using assms(1) resume_state [of goos e s] same by (cases "resumeDHCP goos e s") auto
  next
    case (Devices b)
    then show ?thesis using assms(1) devices_state [of goos e b s] same by (cases "gatewayDevices goos e b s") auto
  qed (use assms same in \<open>auto simp: status_def probe_begin_def probe_record_def probe_end_def split: sum.splits if_splits\<close>)
qed

lemma reachable_traced:
  assumes "lantern_reachable goos dir (gateway_law paths) m0 s"
  shows "manager_inv s \<and> traced paths m0 s"
  using assms
proof (induction rule: lantern_reachable.induct)
  case new
  then show ?case by (simp add: new_manager_inv) (simp add: traced_def stack_def new_manager_def)
next
  case (request s e r res s')
  then show ?case using serve_inv serve_traced law_parts(2) by blast
qed



section \<open>A run\<close>

text \<open>
  A gateway on \<open>eth0\<close> is started and stopped on the sample host.
\<close>

definition sample_stop :: stop_env where
  "sample_stop = \<lparr>stop_err = None, stop_live = False, stop_io = sample_io\<rparr>"

definition sample_probe :: DHCPProbe where
  "sample_probe = \<lparr>pr_Truncated = False, pr_DiscoveriesSent = 3, pr_Servers = []\<rparr>"

definition sample_status :: lantern_status where
  "sample_status = \<lparr>st_Discovery_Running = True, st_RA_Enabled = True, st_DHCP_Running = True, st_DHCP_GatewayMACs = [], st_Problems = []\<rparr>"

definition sample_selection :: selection where
  "sample_selection = \<lparr>sel_Name = ''eth0'', sel_GatewayIPv4 = Some ''192.168.1.1'', sel_GatewayIPv6 = None\<rparr>"

definition sample_env :: "unit lantern_env" where
  "sample_env = \<lparr>env_Discover = None, env_Select = \<lambda>_ _ _. Inr sample_selection, env_ProbeDHCP = \<lambda>_. (sample_probe, None),
     env_Normalize = Inr, env_zero = (), env_New = \<lambda>_. None, env_Context = None, env_io = sample_io, env_Start = None,
     env_check = sample_status, env_Status = sample_status, env_Devices = [], env_ForwardingReady = \<lambda>_ _. None,
     env_ConfigureGateway = \<lambda>_. None, env_ResumeDHCP = None, env_SetMACs = \<lambda>_. None,
     env_stop1 = sample_stop, env_stop2 = sample_stop\<rparr>"

definition sample_options :: "unit startOptions" where
  "sample_options = \<lparr>so_GatewayMode = True, so_Interface = [], so_GatewayIPv4 = None, so_GatewayIPv6 = None,
     so_Discovery = \<lparr>disc_Enabled = False, disc_rest = ()\<rparr>, so_RA = \<lparr>ra_Enabled = True, ra_rest = ()\<rparr>,
     so_DHCP = \<lparr>dhcp_Enabled = False, dhcp_Gateway = None, dhcp_LeaseFile = [], dhcp_GatewayMACs = [], dhcp_rest = ()\<rparr>\<rparr>"

definition sample_started :: "unit manager" where
  "sample_started = snd (start ''linux'' ''/var/lib/sparkle'' sample_env (Inr sample_options, True) (new_manager sample_switches))"

lemma sample_started_on: "gateway_on sample_started = Some ''eth0''" "lm_sys sample_started ''/proc/sys/net/ipv4/conf/eth0/forwarding'' = Some ''1''"
  by code_simp+


lemma sample_law: "gateway_law sample_globs sample_env" "stop_law sample_env"
  using sample_host by (simp_all add: gateway_law_def stop_law_def host_law_def sample_env_def sample_stop_def sample_io_def sample_selection_def)

lemma sample_gateway_served:
  "serve ''linux'' ''/var/lib/sparkle'' sample_env (Start (Inr sample_options, True)) (new_manager sample_switches) =
    (Some (fst (start ''linux'' ''/var/lib/sparkle'' sample_env (Inr sample_options, True) (new_manager sample_switches))), sample_started)"
  by (simp add: sample_started_def map_prod_def split_def)

lemma sample_reachable:
  "law sample_env \<Longrightarrow> lantern_reachable ''linux'' ''/var/lib/sparkle'' law sample_switches sample_started"
  by (rule lantern_reachable.request [OF lantern_reachable.new _ sample_gateway_served])

lemma sample_stopped: "fst (stopLocked (env_stop1 sample_env) sample_started) = []"
  by code_simp

theorem gateway_invariant_witness:
  "runningLocked sample_started \<and> manager_inv sample_started \<and>
   fst (serve ''linux'' ''/var/lib/sparkle'' sample_env Stop sample_started) \<noteq> Some Panic"
  using gateway_invariant [OF sample_reachable [of stop_law, OF sample_law(2)], of sample_env Stop] sample_started_on(1)
  by (simp add: gateway_on_def split: if_splits)

theorem gateway_needs_clean_probe_witness:
  "\<exists>p. env_ProbeDHCP sample_env ''eth0'' = (p, None) \<and> lm_lastProbe sample_started = Some p \<and>
     \<not> pr_Truncated p \<and> pr_DiscoveriesSent p \<noteq> 0 \<and> pr_Servers p = []"
proof -
  have "gateway_on (new_manager sample_switches :: unit manager) \<noteq> Some ''eth0''"
    by (simp add: gateway_on_def runningLocked_def new_manager_def)
  then show ?thesis using gateway_needs_clean_probe [OF sample_gateway_served sample_started_on(1)] by simp
qed


end
