(* ===== verification/Launcher.thy ===== *)
theory Launcher
  imports SandboxPlan LaunchSession
begin

text \<open>
  Launchers of the core on Linux: \<open>core/launcher*.go\<close> choose between a direct start and the
  sandbox and fall back from one to the other, \<open>core/sandbox/command_linux.go\<close> is the command
  of a re-executed service (the sandbox or a direct start with a CPU set).
\<close>

section \<open>Choice of a launcher\<close>

definition disableLinuxSandboxEnv :: string where
  "disableLinuxSandboxEnv = ''SPARKLE_CORE_DISABLE_LINUX_SANDBOX''"

definition sandboxDisabled :: "host \<Rightarrow> bool" where
  "sandboxDisabled w =
    (let v = TrimSpace (Getenv w disableLinuxSandboxEnv)
     in v = ''1'' \<or> EqualFold v ''true'' \<or> EqualFold v ''yes'')"

datatype coreLauncher = linuxDirectLauncher | linuxSandboxLauncher | linuxAutoLauncher

definition newCoreLauncher :: "host \<Rightarrow> launchSession \<Rightarrow> coreLauncher" where
  "newCoreLauncher w launch =
    (if sandboxDisabled w then linuxDirectLauncher
     else
       let mode = (if Mode (ls_profile launch) \<noteq> [] then Mode (ls_profile launch) else CoreRunModeAuto)
       in if mode = CoreRunModeDirect then linuxDirectLauncher
          else if mode = CoreRunModeSandbox then linuxSandboxLauncher
          else linuxAutoLauncher)"

fun writableDirsFromCoreArgs :: "string list \<Rightarrow> string list" where
  "writableDirsFromCoreArgs [] = []"
| "writableDirsFromCoreArgs (arg # rest) =
    (if arg = ''-d''
     then (case rest of [] \<Rightarrow> []
           | v # rest' \<Rightarrow> (if v = [] then [] else [v]) @ writableDirsFromCoreArgs rest')
     else if arg = ''-ext-ctl-unix''
     then (case rest of [] \<Rightarrow> []
           | v # rest' \<Rightarrow> (if v = [] then [] else [Dir v]) @ writableDirsFromCoreArgs rest')
     else
       (case cut_prefix arg ''-d='' of Some v \<Rightarrow> (if v = [] then [] else [v])
        | None \<Rightarrow> (case cut_prefix arg ''-ext-ctl-unix='' of Some v \<Rightarrow> (if v = [] then [] else [Dir v]) | None \<Rightarrow> []))
       @ writableDirsFromCoreArgs rest)"

section \<open>Commands\<close>

datatype launch_error =
    LaunchText string
  | NeedRoot
  | SandboxFailed sandbox_error
  | RootFailed string
  | AwaitRead string
  | AwaitMessage string
  | AwaitTimeout
  | NoStatusPipe
  | FallbackFailed launch_error launch_error
  | DirectFailed launch_error launch_error

fun is_config_error :: "launch_error \<Rightarrow> bool" where
  "is_config_error (SandboxFailed er) = IsConfigError er"
| "is_config_error _ = False"

text \<open>
  An \<open>exec.Cmd\<close>: what it runs (the core itself, or the service again with a configuration),
  its standard streams and a number that also names its process.
\<close>

datatype exec_target = RunCore | RunReexec Config

record exec_cmd =
  xc_id :: nat
  xc_target :: exec_target
  xc_io :: nat

text \<open>
  A \<open>sandbox.Command\<close>, kept in a store because its closures share it: the root directory,
  which of the three files are open, the memorised error of \<open>AwaitExec\<close>, and whether
  \<open>Cleanup\<close> has run.
\<close>

record sandboxCommand =
  sc_Cmd :: exec_cmd
  sc_root :: string
  sc_configFile :: bool
  sc_statusReader :: bool
  sc_statusWriter :: bool
  sc_await :: "launch_error option option"
  sc_cleaned :: bool

datatype afterStart = SetAffinity | AwaitThenAffinity nat

record coreCommand =
  cc_cmd :: exec_cmd
  cc_cleanup :: "nat option"
  cc_afterStart :: "afterStart option"
  cc_fallback :: bool

text \<open>
  The world of the launchers: the next number of a command, the processes that run, the
  store of sandbox commands, the roots that were created and the calls of
  \<open>cleanupLinuxSandboxRoot\<close>.
\<close>

record launch_world =
  lw_next :: nat
  lw_alive :: "nat list"
  lw_cmds :: "sandboxCommand list"
  lw_roots :: "string list"
  lw_removed :: "string list"

text \<open>What the system answers while a command is built.\<close>

record build_env =
  be_euid :: int
  be_executable :: "(string, string) result"
  be_probe :: "string option"
  be_root :: "(string, string) result"
  be_configFile :: "string option"
  be_pipe :: "string option"
  be_self :: "string option"

datatype await_answer = AwaitData string | AwaitFailed string | AwaitSilent

record attempt_env =
  at_Start :: "string option"
  at_await :: await_answer
  at_affinity :: "string option"

definition removeRoot :: "string \<Rightarrow> launch_world \<Rightarrow> launch_world" where
  "removeRoot root s = s\<lparr>lw_removed := lw_removed s @ [root]\<rparr>"

text \<open>
  \<open>newReexecCommand\<close>: the configuration file, the pipe and the path of the service.  Files
  that are closed again on an error never reach the store.
\<close>

definition newReexecCommand ::
    "build_env \<Rightarrow> Config \<Rightarrow> string \<Rightarrow> launch_world \<Rightarrow> (launch_error, nat) result \<times> launch_world" where
  "newReexecCommand e config root s =
    (case be_configFile e of Some er \<Rightarrow> (Inl (LaunchText er), removeRoot root s)
     | None \<Rightarrow>
    (case be_pipe e of Some er \<Rightarrow> (Inl (LaunchText er), removeRoot root s)
     | None \<Rightarrow>
    (case be_self e of Some er \<Rightarrow> (Inl (LaunchText er), removeRoot root s)
     | None \<Rightarrow>
       let cmd = \<lparr>xc_id = lw_next s, xc_target = RunReexec config, xc_io = 0\<rparr>;
           c = \<lparr>sc_Cmd = cmd, sc_root = root, sc_configFile = True, sc_statusReader = True, sc_statusWriter = True,
                sc_await = None, sc_cleaned = False\<rparr>
       in (Inr (length (lw_cmds s)), s\<lparr>lw_next := Suc (lw_next s), lw_cmds := lw_cmds s @ [c]\<rparr>))))"

definition NewCommand ::
    "host \<Rightarrow> build_env \<Rightarrow> Config \<Rightarrow> launch_world \<Rightarrow> (launch_error, nat) result \<times> launch_world" where
  "NewCommand w e config s =
    (if \<not> cf_Sandbox config then newReexecCommand e config [] s
     else if be_euid e \<noteq> 0 then (Inl NeedRoot, s)
     else case validateWritablePaths w (cf_WritablePaths config) of Some er \<Rightarrow> (Inl (SandboxFailed er), s)
     | None \<Rightarrow>
        (case be_root e of Inl er \<Rightarrow> (Inl (RootFailed er), s)
         | Inr root \<Rightarrow> newReexecCommand e config root (s\<lparr>lw_roots := lw_roots s @ [root]\<rparr>)))"

text \<open>\<open>AwaitExec\<close> runs once; a timeout also kills the process.\<close>

definition awaited :: "await_answer \<Rightarrow> launch_error option" where
  "awaited a =
    (case a of AwaitData d \<Rightarrow> (if TrimSpace d = [] then None else Some (AwaitMessage (TrimSpace d)))
     | AwaitFailed er \<Rightarrow> Some (AwaitRead er)
     | AwaitSilent \<Rightarrow> Some AwaitTimeout)"

definition kill :: "nat \<Rightarrow> launch_world \<Rightarrow> launch_world" where
  "kill p s = s\<lparr>lw_alive := remove1 p (lw_alive s)\<rparr>"

definition AwaitExec :: "await_answer \<Rightarrow> nat \<Rightarrow> launch_world \<Rightarrow> launch_error option \<times> launch_world" where
  "AwaitExec a i s =
    (let c = lw_cmds s ! i
     in case sc_await c of Some r \<Rightarrow> (r, s)
        | None \<Rightarrow>
           let r = (if sc_statusReader c then awaited a else Some NoStatusPipe);
               c' = c\<lparr>sc_configFile := False, sc_statusWriter := False, sc_statusReader := False, sc_await := Some r\<rparr>;
               s' = s\<lparr>lw_cmds := (lw_cmds s)[i := c']\<rparr>
           in (r, if sc_statusReader c \<and> a = AwaitSilent then kill (xc_id (sc_Cmd c)) s' else s'))"

definition Cleanup :: "nat \<Rightarrow> launch_world \<Rightarrow> launch_world" where
  "Cleanup i s =
    (let c = lw_cmds s ! i
     in if sc_cleaned c then s
        else removeRoot (sc_root c)
          (s\<lparr>lw_cmds := (lw_cmds s)[i := c\<lparr>sc_configFile := False, sc_statusWriter := False, sc_statusReader := False,
                                        sc_cleaned := True\<rparr>]\<rparr>))"

section \<open>The launchers\<close>

definition linuxReexecCoreCommand :: "nat \<Rightarrow> launch_world \<Rightarrow> coreCommand" where
  "linuxReexecCoreCommand i s =
    \<lparr>cc_cmd = sc_Cmd (lw_cmds s ! i), cc_cleanup = Some i, cc_afterStart = Some (AwaitThenAffinity i), cc_fallback = False\<rparr>"

definition base_config :: "launchSession \<Rightarrow> Config" where
  "base_config launch =
    \<lparr>cf_ExecutablePath = ls_executablePath launch, cf_Args = ls_args launch, cf_Env = ls_env launch,
     cf_WorkingDir = ls_workingDir launch, cf_CPUAffinity = [], cf_Sandbox = False, cf_ReadOnlyPaths = [],
     cf_WritablePaths = [], cf_WritableDirs = []\<rparr>"

definition direct_Command ::
    "host \<Rightarrow> build_env \<Rightarrow> launchSession \<Rightarrow> launch_world \<Rightarrow> (launch_error, coreCommand) result \<times> launch_world" where
  "direct_Command w e launch s =
    (if CPUAffinity (ls_profile launch) = []
     then
       (Inr \<lparr>cc_cmd = \<lparr>xc_id = lw_next s, xc_target = RunCore, xc_io = 0\<rparr>, cc_cleanup = None,
             cc_afterStart = Some SetAffinity, cc_fallback = False\<rparr>, s\<lparr>lw_next := Suc (lw_next s)\<rparr>)
     else case NewCommand w e (base_config launch) s of
       (Inl er, s1) \<Rightarrow> (Inl er, s1)
     | (Inr i, s1) \<Rightarrow> (Inr (linuxReexecCoreCommand i s1), s1))"

definition sandbox_Config :: "string \<Rightarrow> launchSession \<Rightarrow> Config" where
  "sandbox_Config serviceExecutable launch =
    (base_config launch)\<lparr>cf_Sandbox := True, cf_ReadOnlyPaths := [serviceExecutable],
       cf_WritablePaths := SafePaths (ls_profile launch),
       cf_WritableDirs := writableDirsFromCoreArgs (ls_args launch) @
         (if ls_hookUpFile launch \<noteq> [] then [Dir (ls_hookUpFile launch)] else [])\<rparr>"

definition sandbox_Command ::
    "host \<Rightarrow> build_env \<Rightarrow> launchSession \<Rightarrow> launch_world \<Rightarrow> (launch_error, coreCommand) result \<times> launch_world" where
  "sandbox_Command w e launch s =
    (case be_executable e of Inl er \<Rightarrow> (Inl (LaunchText er), s)
     | Inr exe \<Rightarrow>
        (case NewCommand w e (sandbox_Config exe launch) s of
           (Inl er, s1) \<Rightarrow> (Inl er, s1)
         | (Inr i, s1) \<Rightarrow> (Inr (linuxReexecCoreCommand i s1), s1)))"

text \<open>
  The automatic launcher; \<open>e2\<close> is the environment of the direct start it falls back to.
\<close>

definition auto_Command ::
    "host \<Rightarrow> build_env \<Rightarrow> build_env \<Rightarrow> launchSession \<Rightarrow> launch_world \<Rightarrow> (launch_error, coreCommand) result \<times> launch_world" where
  "auto_Command w e e2 launch s =
    (if be_probe e \<noteq> None then direct_Command w e2 launch s
     else case sandbox_Command w e launch s of
       (Inl er, s1) \<Rightarrow> if is_config_error er then (Inl er, s1) else direct_Command w e2 launch s1
     | (Inr c, s1) \<Rightarrow> (Inr (c\<lparr>cc_fallback := True\<rparr>), s1))"

definition launcher_Command ::
    "host \<Rightarrow> build_env \<Rightarrow> build_env \<Rightarrow> coreLauncher \<Rightarrow> launchSession \<Rightarrow> launch_world
     \<Rightarrow> (launch_error, coreCommand) result \<times> launch_world" where
  "launcher_Command w e e2 l launch s =
    (case l of linuxDirectLauncher \<Rightarrow> direct_Command w e2 launch s
     | linuxSandboxLauncher \<Rightarrow> sandbox_Command w e launch s
     | linuxAutoLauncher \<Rightarrow> auto_Command w e e2 launch s)"

section \<open>Starting a command\<close>

definition cc_cleanupNow :: "coreCommand \<Rightarrow> launch_world \<Rightarrow> coreCommand \<times> launch_world" where
  "cc_cleanupNow c s =
    (case cc_cleanup c of None \<Rightarrow> (c, s) | Some i \<Rightarrow> (c\<lparr>cc_cleanup := None\<rparr>, Cleanup i s))"

definition run_afterStart :: "attempt_env \<Rightarrow> afterStart \<Rightarrow> launch_world \<Rightarrow> launch_error option \<times> launch_world" where
  "run_afterStart a f s =
    (case f of SetAffinity \<Rightarrow> (map_option LaunchText (at_affinity a), s)
     | AwaitThenAffinity i \<Rightarrow>
        (case AwaitExec (at_await a) i s of
           (Some er, s1) \<Rightarrow> (Some er, s1)
         | (None, s1) \<Rightarrow> (map_option LaunchText (at_affinity a), s1)))"

definition startAttempt :: "attempt_env \<Rightarrow> coreCommand \<Rightarrow> launch_world \<Rightarrow> launch_error option \<times> launch_world" where
  "startAttempt a c s =
    (case at_Start a of Some er \<Rightarrow> (Some (LaunchText er), s)
     | None \<Rightarrow>
        let s1 = s\<lparr>lw_alive := xc_id (cc_cmd c) # lw_alive s\<rparr>
        in case cc_afterStart c of None \<Rightarrow> (None, s1)
           | Some f \<Rightarrow>
              (case run_afterStart a f s1 of
                 (None, s2) \<Rightarrow> (None, s2)
               | (Some er, s2) \<Rightarrow> (Some er, kill (xc_id (cc_cmd c)) s2)))"

definition copyCommandIO :: "exec_cmd \<Rightarrow> exec_cmd \<Rightarrow> exec_cmd" where
  "copyCommandIO target source = target\<lparr>xc_io := xc_io source\<rparr>"

text \<open>
  \<open>coreCommand.start\<close>: the first attempt, and the direct start when the command has a
  fallback.  The result also holds the command as it is afterwards, whose clean-up the
  session runs in the end.
\<close>

definition command_start ::
    "host \<Rightarrow> build_env \<Rightarrow> attempt_env \<Rightarrow> attempt_env \<Rightarrow> launchSession \<Rightarrow> coreCommand \<Rightarrow> launch_world
     \<Rightarrow> (launch_error, exec_cmd) result \<times> coreCommand \<times> launch_world" where
  "command_start w e2 a1 a2 launch c s =
    (case startAttempt a1 c s of
       (None, s1) \<Rightarrow> (Inr (cc_cmd c), c, s1)
     | (Some er, s1) \<Rightarrow>
        (case cc_cleanupNow c s1 of (c1, s2) \<Rightarrow>
           if \<not> cc_fallback c then (Inl er, c1, s2)
           else
             (case direct_Command w e2 launch s2 of
                (Inl er2, s3) \<Rightarrow> (Inl (FallbackFailed er er2), c1\<lparr>cc_fallback := False\<rparr>, s3)
              | (Inr f, s3) \<Rightarrow>
                 let c2 = c1\<lparr>cc_cmd := copyCommandIO (cc_cmd f) (cc_cmd c), cc_cleanup := cc_cleanup f,
                             cc_afterStart := cc_afterStart f, cc_fallback := False\<rparr>
                 in case startAttempt a2 c2 s3 of
                      (None, s4) \<Rightarrow> (Inr (cc_cmd c2), c2, s4)
                    | (Some er2, s4) \<Rightarrow>
                       (case cc_cleanupNow c2 s4 of (c3, s5) \<Rightarrow> (Inl (DirectFailed er er2), c3, s5)))))"

text \<open>The part of \<open>startProcessLocked\<close> that builds a command, connects its output and starts it.\<close>

definition launch_core ::
    "host \<Rightarrow> build_env \<Rightarrow> build_env \<Rightarrow> attempt_env \<Rightarrow> attempt_env \<Rightarrow> nat \<Rightarrow> launchSession \<Rightarrow> launch_world
     \<Rightarrow> (launch_error, exec_cmd) result \<times> coreCommand option \<times> launch_world" where
  "launch_core w e e2 a1 a2 streams launch s =
    (case launcher_Command w e e2 (newCoreLauncher w launch) launch s of
       (Inl er, s1) \<Rightarrow> (Inl er, None, s1)
     | (Inr c, s1) \<Rightarrow>
        (case command_start w e2 a1 a2 launch (c\<lparr>cc_cmd := (cc_cmd c)\<lparr>xc_io := streams\<rparr>\<rparr>) s1 of
           (r, c', s2) \<Rightarrow> (r, Some c', s2)))"

end
