(* ===== verification/LauncherProps.thy ===== *)
theory LauncherProps
  imports Launcher "HOL-Library.Multiset"
begin

text \<open>
  A launch of the core either runs exactly one process or leaves nothing behind, and a
  forced sandbox is never left.
\<close>

section \<open>Resources of a launch\<close>

definition closed_files :: "sandboxCommand \<Rightarrow> bool" where
  "closed_files c \<longleftrightarrow> \<not> sc_configFile c \<and> \<not> sc_statusReader c \<and> \<not> sc_statusWriter c"

definition real_roots :: "string list \<Rightarrow> string multiset" where
  "real_roots rs = mset (filter (\<lambda>r. r \<noteq> []) rs)"

text \<open>
  All commands but one are cleaned up, with their files closed, and all roots but that of
  this one have been removed once.
\<close>

definition tidy :: "nat option \<Rightarrow> launch_world \<Rightarrow> bool" where
  "tidy live s \<longleftrightarrow>
     (\<forall>i<length (lw_cmds s). live \<noteq> Some i \<longrightarrow> sc_cleaned (lw_cmds s ! i) \<and> closed_files (lw_cmds s ! i)) \<and>
     (case live of None \<Rightarrow> real_roots (lw_roots s) = real_roots (lw_removed s)
      | Some i \<Rightarrow> i < length (lw_cmds s) \<and> \<not> sc_cleaned (lw_cmds s ! i) \<and>
          real_roots (lw_roots s) = real_roots (lw_removed s) + real_roots [sc_root (lw_cmds s ! i)])"

definition fresh_ids :: "launch_world \<Rightarrow> bool" where
  "fresh_ids s \<longleftrightarrow> (\<forall>p\<in>set (lw_alive s). p < lw_next s)"

lemma real_roots_append [simp]: "real_roots (xs @ ys) = real_roots xs + real_roots ys"
  by (simp add: real_roots_def)

lemma tidy_alive [simp]: "tidy live (s\<lparr>lw_alive := a\<rparr>) = tidy live s" "tidy live (kill p s) = tidy live s"
  by (simp_all add: tidy_def kill_def cong: option.case_cong)

lemma reexec_effect:
  assumes "newReexecCommand e cfg root s = (r, s1)"
  shows "(\<exists>er. r = Inl er \<and> s1 = removeRoot root s) \<or>
    (\<exists>c. r = Inr (length (lw_cmds s)) \<and> s1 = s\<lparr>lw_next := Suc (lw_next s), lw_cmds := lw_cmds s @ [c]\<rparr> \<and>
       xc_id (sc_Cmd c) = lw_next s \<and> xc_target (sc_Cmd c) = RunReexec cfg \<and> sc_root c = root \<and> \<not> sc_cleaned c \<and>
       sc_await c = None \<and> sc_statusReader c)"
  using assms by (auto simp: newReexecCommand_def Let_def split: option.splits)

text \<open>What a command that was built looks like.\<close>

definition built :: "launch_world \<Rightarrow> coreCommand \<Rightarrow> launch_world \<Rightarrow> bool" where
  "built s c s1 \<longleftrightarrow> tidy (cc_cleanup c) s1 \<and> lw_alive s1 = lw_alive s \<and> lw_next s1 = Suc (lw_next s) \<and>
     xc_id (cc_cmd c) = lw_next s \<and>
     (case cc_afterStart c of None \<Rightarrow> False
      | Some SetAffinity \<Rightarrow> cc_cleanup c = None
      | Some (AwaitThenAffinity i) \<Rightarrow> cc_cleanup c = Some i \<and> sc_await (lw_cmds s1 ! i) = None \<and>
          xc_id (sc_Cmd (lw_cmds s1 ! i)) = xc_id (cc_cmd c))"

lemma tidy_new_command:
  assumes "tidy None s" "\<not> sc_cleaned c" "real_roots rs = real_roots [sc_root c]"
  shows "tidy (Some (length (lw_cmds s))) (s\<lparr>lw_roots := lw_roots s @ rs, lw_next := n, lw_cmds := lw_cmds s @ [c]\<rparr>)"
  using assms by (auto simp: tidy_def nth_append less_Suc_eq)

lemma NewCommand_built:
  assumes "NewCommand w e cfg s = (r, s1)" "tidy None s" "\<forall>root. be_root e = Inr root \<longrightarrow> root \<noteq> []"
  shows "case r of Inl er \<Rightarrow> tidy None s1 \<and> lw_alive s1 = lw_alive s \<and> lw_next s1 = lw_next s
    | Inr i \<Rightarrow> built s (linuxReexecCoreCommand i s1) s1 \<and> xc_target (cc_cmd (linuxReexecCoreCommand i s1)) = RunReexec cfg"
proof -
  have go: ?thesis
    if re: "newReexecCommand e cfg root (s\<lparr>lw_roots := lw_roots s @ rs\<rparr>) = (r, s1)"
      and rs: "real_roots rs = real_roots [root]" for root rs
    using reexec_effect [OF re]
  proof (elim disjE exE conjE)
    fix er assume "r = Inl er" "s1 = removeRoot root (s\<lparr>lw_roots := lw_roots s @ rs\<rparr>)"
    then show ?thesis using assms(2) rs by (auto simp: removeRoot_def tidy_def)
  next
    fix c assume c: "r = Inr (length (lw_cmds (s\<lparr>lw_roots := lw_roots s @ rs\<rparr>)))"
      "s1 = s\<lparr>lw_roots := lw_roots s @ rs, lw_next := Suc (lw_next (s\<lparr>lw_roots := lw_roots s @ rs\<rparr>)),
         lw_cmds := lw_cmds (s\<lparr>lw_roots := lw_roots s @ rs\<rparr>) @ [c]\<rparr>"
      "xc_id (sc_Cmd c) = lw_next (s\<lparr>lw_roots := lw_roots s @ rs\<rparr>)" "xc_target (sc_Cmd c) = RunReexec cfg" "sc_root c = root"
      "\<not> sc_cleaned c" "sc_await c = None"
    have "tidy (Some (length (lw_cmds s))) s1" using tidy_new_command [OF assms(2) c(6), of rs] c rs by simp
    then show ?thesis using c by (simp add: built_def linuxReexecCoreCommand_def)
  qed
  show ?thesis
  proof (cases "cf_Sandbox cfg")
    case False
    then show ?thesis using assms(1) go [of "[]" "[]"] by (simp add: NewCommand_def real_roots_def)
  next
    case True
    then consider "\<exists>er. r = Inl er" "s1 = s" | root where "be_root e = Inr root"
        "newReexecCommand e cfg root (s\<lparr>lw_roots := lw_roots s @ [root]\<rparr>) = (r, s1)"
      using assms(1) by (auto simp: NewCommand_def split: if_splits option.splits sum.splits)
    then show ?thesis using go assms(2) by cases auto
  qed
qed

lemma direct_built:
  assumes "direct_Command w e launch s = (r, s1)" "tidy None s" "\<forall>root. be_root e = Inr root \<longrightarrow> root \<noteq> []"
  shows "case r of Inl er \<Rightarrow> tidy None s1 \<and> lw_alive s1 = lw_alive s \<and> lw_next s1 = lw_next s | Inr c \<Rightarrow> built s c s1 \<and> \<not> cc_fallback c"
proof (cases "CPUAffinity (ls_profile launch) = []")
  case True
  then show ?thesis using assms(1,2) by (auto simp: direct_Command_def built_def tidy_def)
next
  case False
  obtain r1 s2 where n: "NewCommand w e (base_config launch) s = (r1, s2)" by fastforce
  then show ?thesis using assms(1) False NewCommand_built [OF n assms(2,3)]
    by (auto simp: direct_Command_def linuxReexecCoreCommand_def split: sum.splits)
qed

lemma sandbox_built:
  assumes "sandbox_Command w e launch s = (r, s1)" "tidy None s" "\<forall>root. be_root e = Inr root \<longrightarrow> root \<noteq> []"
  shows "case r of Inl er \<Rightarrow> tidy None s1 \<and> lw_alive s1 = lw_alive s \<and> lw_next s1 = lw_next s
    | Inr c \<Rightarrow> built s c s1 \<and> \<not> cc_fallback c \<and> (\<exists>exe. xc_target (cc_cmd c) = RunReexec (sandbox_Config exe launch))"
proof (cases "be_executable e")
  case (Inl er)
  then show ?thesis using assms(1,2) by (auto simp: sandbox_Command_def)
next
  case (Inr exe)
  obtain r1 s2 where n: "NewCommand w e (sandbox_Config exe launch) s = (r1, s2)" by fastforce
  then show ?thesis using assms(1) Inr NewCommand_built [OF n assms(2,3)]
    by (auto simp: sandbox_Command_def linuxReexecCoreCommand_def split: sum.splits)
qed

lemma built_fallback [simp]: "built s (c\<lparr>cc_fallback := b\<rparr>) s1 = built s c s1"
  by (simp add: built_def split: option.split afterStart.split)

lemma built_io [simp]: "built s (c\<lparr>cc_cmd := (cc_cmd c)\<lparr>xc_io := n\<rparr>\<rparr>) s1 = built s c s1"
  by (simp add: built_def split: option.split afterStart.split)

lemma launcher_built:
  assumes "launcher_Command w e e2 l launch s = (r, s1)" "tidy None s"
    and "\<forall>root. be_root e = Inr root \<longrightarrow> root \<noteq> []" "\<forall>root. be_root e2 = Inr root \<longrightarrow> root \<noteq> []"
  shows "case r of Inl er \<Rightarrow> tidy None s1 \<and> lw_alive s1 = lw_alive s | Inr c \<Rightarrow> built s c s1"
proof (cases l)
  case linuxDirectLauncher
  then show ?thesis using assms(1) direct_built [OF _ assms(2,4)] by (fastforce simp: launcher_Command_def split: sum.splits)
next
  case linuxSandboxLauncher
  then show ?thesis using assms(1) sandbox_built [OF _ assms(2,3)] by (fastforce simp: launcher_Command_def split: sum.splits)
next
  case linuxAutoLauncher
  obtain r1 s2 where sb: "sandbox_Command w e launch s = (r1, s2)" by fastforce
  note b = sandbox_built [OF sb assms(2,3)]
  have s2: "tidy None s2 \<and> lw_alive s2 = lw_alive s \<and> lw_next s2 = lw_next s" if "r1 = Inl er" for er using b that by simp
  have built2: "built s c s1" if "built s2 c s1" "r1 = Inl er" for c er using that s2 by (auto simp: built_def)
  have au: "auto_Command w e e2 launch s = (r, s1)" using assms(1) linuxAutoLauncher by (simp add: launcher_Command_def)
  show ?thesis
  proof (cases "be_probe e = None")
    case False
    then have d: "direct_Command w e2 launch s = (r, s1)" using au by (simp add: auto_Command_def)
    show ?thesis using direct_built [OF d assms(2,4)] by (auto split: sum.splits)
  next
    case probe: True
    show ?thesis
    proof (cases r1)
      case (Inr c)
      then show ?thesis using au sb probe b by (auto simp: auto_Command_def)
    next
      case (Inl er)
      show ?thesis
      proof (cases "is_config_error er")
        case True
        then show ?thesis using au sb probe Inl s2 by (auto simp: auto_Command_def)
      next
        case False
        then have d: "direct_Command w e2 launch s2 = (r, s1)" using au sb probe Inl by (simp add: auto_Command_def)
        show ?thesis using direct_built [OF d _ assms(4)] s2 [OF Inl] built2 [OF _ Inl] by (auto split: sum.splits)
      qed
    qed
  qed
qed

section \<open>Starting\<close>

lemma tidy_update:
  assumes "tidy (Some i) s" "sc_cleaned c = sc_cleaned (lw_cmds s ! i)" "sc_root c = sc_root (lw_cmds s ! i)"
  shows "tidy (Some i) (s\<lparr>lw_cmds := (lw_cmds s)[i := c]\<rparr>)"
  using assms by (auto simp: tidy_def nth_list_update)

lemma Cleanup_tidy: "tidy (Some i) s \<Longrightarrow> tidy None (Cleanup i s)"
  by (auto simp: tidy_def Cleanup_def removeRoot_def Let_def nth_list_update closed_files_def)

lemma Cleanup_alive [simp]: "lw_alive (Cleanup i s) = lw_alive s" "lw_next (Cleanup i s) = lw_next s"
  by (simp_all add: Cleanup_def removeRoot_def Let_def)

lemma cleanupNow_tidy:
  assumes "cc_cleanupNow c s = (c1, s1)" "tidy (cc_cleanup c) s"
  shows "tidy None s1 \<and> lw_alive s1 = lw_alive s \<and> lw_next s1 = lw_next s \<and> cc_cleanup c1 = None"
  using assms Cleanup_tidy by (auto simp: cc_cleanupNow_def split: option.splits)

lemma AwaitExec_effect:
  assumes "AwaitExec a i s = (r, s1)" "tidy (Some i) s" "sc_await (lw_cmds s ! i) = None"
  shows "tidy (Some i) s1 \<and> closed_files (lw_cmds s1 ! i) \<and> lw_next s1 = lw_next s \<and>
    (lw_alive s1 = lw_alive s \<or> r \<noteq> None \<and> lw_alive s1 = remove1 (xc_id (sc_Cmd (lw_cmds s ! i))) (lw_alive s))"
proof -
  let ?c = "lw_cmds s ! i"
  have i: "i < length (lw_cmds s)" using assms(2) by (simp add: tidy_def)
  have "tidy (Some i) (s\<lparr>lw_cmds := (lw_cmds s)[i := ?c\<lparr>sc_configFile := False, sc_statusWriter := False, sc_statusReader := False, sc_await := q\<rparr>]\<rparr>)" for q
    using tidy_update [OF assms(2)] by simp
  then show ?thesis using assms(1,3) i
    by (auto simp: AwaitExec_def Let_def kill_def awaited_def closed_files_def split: if_splits)
qed

text \<open>One attempt leaves its process running or none.\<close>

lemma attempt_effect:
  assumes "startAttempt a c s1 = (r, s2)" "built s c s1" "fresh_ids s"
  shows "tidy (cc_cleanup c) s2 \<and> lw_next s2 = lw_next s1 \<and>
    (case r of Some er \<Rightarrow> lw_alive s2 = lw_alive s
     | None \<Rightarrow> lw_alive s2 = xc_id (cc_cmd c) # lw_alive s \<and> (\<forall>i. cc_cleanup c = Some i \<longrightarrow> closed_files (lw_cmds s2 ! i)))"
proof -
  let ?p = "xc_id (cc_cmd c)" and ?s = "s1\<lparr>lw_alive := xc_id (cc_cmd c) # lw_alive s1\<rparr>"
  have b: "tidy (cc_cleanup c) s1" "lw_alive s1 = lw_alive s" "?p = lw_next s" using assms(2) by (auto simp: built_def)
  have new: "?p \<notin> set (lw_alive s)" using assms(3) b(3) by (auto simp: fresh_ids_def)
  show ?thesis
  proof (cases "at_Start a")
    case (Some er)
    then show ?thesis using assms(1) b by (auto simp: startAttempt_def)
  next
    case start: None
    from assms(2) consider "cc_afterStart c = Some SetAffinity" "cc_cleanup c = None"
      | i where "cc_afterStart c = Some (AwaitThenAffinity i)" "cc_cleanup c = Some i" "sc_await (lw_cmds s1 ! i) = None"
          "xc_id (sc_Cmd (lw_cmds s1 ! i)) = ?p"
      by (auto simp: built_def split: option.splits afterStart.splits)
    then show ?thesis
    proof cases
      case 1
      then show ?thesis using assms(1) start b
        by (cases "at_affinity a") (auto simp: startAttempt_def run_afterStart_def kill_def)
    next
      case (2 i)
      obtain q s3 where aw: "AwaitExec (at_await a) i ?s = (q, s3)" by fastforce
      have t: "tidy (Some i) ?s" using b(1) 2(2) by simp
      note f = AwaitExec_effect [OF aw t]
      have "remove1 ?p (remove1 ?p (?p # lw_alive s)) = lw_alive s" using new by (simp add: remove1_idem)
      then show ?thesis
        using assms(1) start aw f 2 b
        by (cases q; cases "at_affinity a") (auto simp: startAttempt_def run_afterStart_def kill_def)
    qed
  qed
qed

lemma built_fresh: "built s c s1 \<Longrightarrow> fresh_ids s \<Longrightarrow> fresh_ids s1"
  by (auto simp: built_def fresh_ids_def)


lemma command_start_effect:
  assumes "command_start w e2 a1 a2 launch c s1 = (r, c', s')" "built s c s1" "fresh_ids s"
    and "\<forall>root. be_root e2 = Inr root \<longrightarrow> root \<noteq> []"
  shows "case r of
      Inl er \<Rightarrow> tidy None s' \<and> lw_alive s' = lw_alive s \<and> cc_cleanup c' = None
    | Inr cmd \<Rightarrow> tidy (cc_cleanup c') s' \<and> lw_alive s' = xc_id cmd # lw_alive s \<and> xc_io cmd = xc_io (cc_cmd c) \<and>
        (\<forall>i. cc_cleanup c' = Some i \<longrightarrow> closed_files (lw_cmds s' ! i))"
proof -
  obtain q s2 where at: "startAttempt a1 c s1 = (q, s2)" by fastforce
  note f = attempt_effect [OF at assms(2,3)]
  show ?thesis
  proof (cases q)
    case None
    then show ?thesis using assms(1) at f by (auto simp: command_start_def)
  next
    case (Some er)
    obtain c1 s3 where cl: "cc_cleanupNow c s2 = (c1, s3)" by fastforce
    have t3: "tidy None s3" "lw_alive s3 = lw_alive s" "cc_cleanup c1 = None" and n3: "lw_next s3 = Suc (lw_next s)"
      using cleanupNow_tidy [OF cl] f Some assms(2) by (auto simp: built_def)
    show ?thesis
    proof (cases "cc_fallback c")
      case False
      then show ?thesis using assms(1) at Some cl t3 by (auto simp: command_start_def)
    next
      case fb: True
      obtain d s4 where dc: "direct_Command w e2 launch s3 = (d, s4)" by fastforce
      note g = direct_built [OF dc t3(1) assms(4)]
      have fr: "fresh_ids s3" using assms(3) t3(2) n3 by (auto simp: fresh_ids_def)
      show ?thesis
      proof (cases d)
        case (Inl er2)
        then show ?thesis using assms(1) at Some cl fb dc g t3 by (auto simp: command_start_def)
      next
        case (Inr fc)
        let ?c2 = "c1\<lparr>cc_cmd := copyCommandIO (cc_cmd fc) (cc_cmd c), cc_cleanup := cc_cleanup fc, cc_afterStart := cc_afterStart fc, cc_fallback := False\<rparr>"
        have b2: "built s3 ?c2 s4" using g Inr by (simp add: built_def copyCommandIO_def split: option.splits afterStart.splits)
        obtain q2 s5 where at2: "startAttempt a2 ?c2 s4 = (q2, s5)" by fastforce
        note h = attempt_effect [OF at2 b2 fr]
        show ?thesis
        proof (cases q2)
          case None
          then show ?thesis using assms(1) at Some cl fb dc Inr at2 h t3(2) by (auto simp: command_start_def copyCommandIO_def)
        next
          case (Some er2)
          obtain c3 s6 where cl2: "cc_cleanupNow ?c2 s5 = (c3, s6)" by fastforce
          have "r = Inl (DirectFailed er er2) \<and> c' = c3 \<and> s' = s6"
            using assms(1) at \<open>q = Some er\<close> cl fb dc Inr at2 cl2 Some by (simp add: command_start_def)
          then show ?thesis using cleanupNow_tidy [OF cl2] h Some t3(2) by auto
        qed
      qed
    qed
  qed
qed

lemma tidy_None:
  "tidy None s \<longleftrightarrow> list_all (\<lambda>c. sc_cleaned c \<and> closed_files c) (lw_cmds s) \<and> real_roots (lw_roots s) = real_roots (lw_removed s)"
  by (auto simp: tidy_def list_all_length)

text \<open>A world in which nothing of an earlier launch is left.\<close>

definition clean_world :: "nat \<Rightarrow> nat list \<Rightarrow> launch_world" where
  "clean_world n ps = \<lparr>lw_next = n, lw_alive = ps, lw_cmds = [], lw_roots = [], lw_removed = []\<rparr>"

lemma clean_world_tidy: "tidy None (clean_world n ps)"
  by (simp add: tidy_def clean_world_def)

text \<open>
  C9. Launching the core, in every mode and through every fallback, is all or nothing.  If
  it succeeds, exactly one more process runs, the one returned, connected to the output
  that was given to the first command; every pipe and file of the commands is closed, and
  every sandbox root that was created has been removed once except that of the running
  core, which the clean-up of the returned command still owns.  If it fails, no process
  runs, every file is closed and every root has been removed.  The hypothesis on the
  system: a directory that \<open>os.MkdirTemp\<close> makes has a name.
\<close>

theorem launch_all_or_nothing:
  assumes "launch_core w e e2 a1 a2 streams launch (clean_world n ps) = (r, co, s')" "\<forall>p\<in>set ps. p < n"
    and "\<forall>root. be_root e = Inr root \<longrightarrow> root \<noteq> []" "\<forall>root. be_root e2 = Inr root \<longrightarrow> root \<noteq> []"
  shows "case r of
      Inl er \<Rightarrow> lw_alive s' = ps \<and> list_all (\<lambda>c. sc_cleaned c \<and> closed_files c) (lw_cmds s') \<and> real_roots (lw_roots s') = real_roots (lw_removed s')
    | Inr cmd \<Rightarrow> lw_alive s' = xc_id cmd # ps \<and> xc_io cmd = streams \<and> list_all closed_files (lw_cmds s') \<and>
        (\<exists>c'. co = Some c' \<and> (case cc_cleanup c' of None \<Rightarrow> real_roots (lw_roots s') = real_roots (lw_removed s')
           | Some i \<Rightarrow> real_roots (lw_roots s') = real_roots (lw_removed s') + real_roots [sc_root (lw_cmds s' ! i)]))"
proof -
  let ?s = "clean_world n ps"
  have fr: "fresh_ids ?s" and al: "lw_alive ?s = ps" using assms(2) by (auto simp: fresh_ids_def clean_world_def)
  obtain d s1 where lc: "launcher_Command w e e2 (newCoreLauncher w launch) launch ?s = (d, s1)" by fastforce
  note b = launcher_built [OF lc clean_world_tidy assms(3,4)]
  show ?thesis
  proof (cases d)
    case (Inl er)
    then have "r = Inl er" "s' = s1" using assms(1) lc by (simp_all add: launch_core_def)
    moreover have t: "tidy None s1" "lw_alive s1 = ps" using b Inl al by simp_all
    ultimately show ?thesis by (simp add: tidy_None)
  next
    case (Inr c)
    let ?c = "c\<lparr>cc_cmd := (cc_cmd c)\<lparr>xc_io := streams\<rparr>\<rparr>"
    have bc: "built ?s ?c s1" using b Inr by simp
    obtain r' c' s2 where cs: "command_start w e2 a1 a2 launch ?c s1 = (r', c', s2)" by (metis prod.exhaust)
    then have eq: "r = r'" "co = Some c'" "s' = s2" using assms(1) lc Inr by (auto simp: launch_core_def)
    have files: "list_all closed_files (lw_cmds s2)"
      if "tidy (cc_cleanup c') s2" "\<forall>i. cc_cleanup c' = Some i \<longrightarrow> closed_files (lw_cmds s2 ! i)"
      using that by (auto simp: tidy_def list_all_length)
    show ?thesis
      using command_start_effect [OF cs bc fr assms(4)] files al unfolding eq
      by (cases r') (auto simp: tidy_None, auto simp: tidy_def split: option.splits)
  qed
qed


text \<open>
  In the mode \<open>sandbox\<close>, unless the environment switches the sandbox off, a core that runs
  was started by the service with a sandbox configuration; no failure makes the launcher
  fall back to a start outside.
\<close>

lemma forced_sandbox_confined:
  assumes "launch_core w e e2 a1 a2 streams launch s = (Inr cmd, co, s')"
    and "\<not> sandboxDisabled w" "Mode (ls_profile launch) = CoreRunModeSandbox"
  shows "\<exists>exe. xc_target cmd = RunReexec (sandbox_Config exe launch)"
proof -
  have l: "newCoreLauncher w launch = linuxSandboxLauncher"
    using assms(2,3) by (simp add: newCoreLauncher_def CoreRunModeSandbox_def CoreRunModeDirect_def Let_def)
  obtain c s1 where c: "sandbox_Command w e launch s = (Inr c, s1)"
    and st: "command_start w e2 a1 a2 launch (c\<lparr>cc_cmd := (cc_cmd c)\<lparr>xc_io := streams\<rparr>\<rparr>) s1 = (Inr cmd, the co, s')"
    using assms(1) l by (auto simp: launch_core_def launcher_Command_def split: prod.splits sum.splits)
  obtain exe where "xc_target (cc_cmd c) = RunReexec (sandbox_Config exe launch)" "\<not> cc_fallback c"
    using c by (auto simp: sandbox_Command_def NewCommand_def newReexecCommand_def linuxReexecCoreCommand_def Let_def
        split: sum.splits option.splits if_splits prod.splits)
  then have "xc_target cmd = RunReexec (sandbox_Config exe launch)"
    using st by (auto simp: command_start_def split: prod.splits option.splits if_splits)
  then show ?thesis by blast
qed


section \<open>A launch\<close>

text \<open>
  A sandboxed start whose core does not come up, and the direct start it falls back to.
\<close>

definition sample_session :: launchSession where
  "sample_session = \<lparr>ls_id = 0, ls_sourcePath = ''/opt/core/mihomo'', ls_executablePath = ''/opt/core/mihomo'', ls_workingDir = ''/data'',
     ls_args = [''-d'', ''/data''], ls_env = [], ls_hookUpFile = [], ls_waitReady = False, ls_readyNotify = False,
     ls_cpuPriority = [], ls_logPath = [], ls_saveLogs = False, ls_maxLogBytes = 0, ls_fileAccess = \<lparr>fa_groupID = 0, fa_ok = False\<rparr>,
     ls_controllerNet = [], ls_controllerAddr = [], ls_defaultCPUAffinity = [],
     ls_profile = zeroProfile\<lparr>Mode := CoreRunModeAuto\<rparr>, ls_cleanup = []\<rparr>"

definition sample_build :: build_env where
  "sample_build = \<lparr>be_euid = 0, be_executable = Inr ''/usr/bin/sparkle-service'', be_probe = None,
     be_root = Inr ''/tmp/sparkle-core-sandbox-1'', be_configFile = None, be_pipe = None, be_self = None\<rparr>"

definition sample_attempt :: "await_answer \<Rightarrow> attempt_env" where
  "sample_attempt a = \<lparr>at_Start = None, at_await = a, at_affinity = None\<rparr>"

definition bare_host :: host where
  "bare_host = \<lparr>host_cwd = Some ''/'', host_stat = (\<lambda>p. StatDir), host_env = (\<lambda>k. None)\<rparr>"

definition sample_launch :: "launchSession \<Rightarrow> await_answer \<Rightarrow> (launch_error, exec_cmd) result \<times> coreCommand option \<times> launch_world" where
  "sample_launch l a = launch_core bare_host sample_build sample_build (sample_attempt a) (sample_attempt AwaitSilent) 5 l (clean_world 1 [0])"

lemma sample_falls_back:
  "fst (sample_launch sample_session AwaitSilent) = Inr \<lparr>xc_id = 2, xc_target = RunCore, xc_io = 5\<rparr>"
  by code_simp

lemma sample_forced:
  "map_option xc_id (case fst (sample_launch (sample_session\<lparr>ls_profile := zeroProfile\<lparr>Mode := CoreRunModeSandbox\<rparr>\<rparr>) (AwaitData [])) of
     Inl _ \<Rightarrow> None | Inr c \<Rightarrow> Some c) = Some 1"
  by code_simp

theorem launch_all_or_nothing_witness:
  "lw_alive (snd (snd (sample_launch sample_session AwaitSilent))) = [2, 0] \<and>
   list_all closed_files (lw_cmds (snd (snd (sample_launch sample_session AwaitSilent))))"
proof -
  obtain co s' where r: "sample_launch sample_session AwaitSilent = (Inr \<lparr>xc_id = 2, xc_target = RunCore, xc_io = 5\<rparr>, co, s')"
    using sample_falls_back by (metis prod.collapse)
  show ?thesis
    using launch_all_or_nothing [OF r [unfolded sample_launch_def]] r by (simp add: sample_build_def)
qed

end
