(* ===== verification/ProcessControl.thy ===== *)
theory ProcessControl
  imports GoStrings
begin

text \<open>
  Ending a process and choosing its priority and CPU set on Linux, from \<open>core/process\<close>:
  \<open>exists_unix.go\<close>, \<open>terminate_unix.go\<close>, \<open>process_control_other.go\<close> and the CPU list of
  \<open>process_cgroup_linux.go\<close>; and the quoting of \<open>core/startup_notify_command_unix.go\<close>.
\<close>

section \<open>Existence\<close>

text \<open>Error numbers of \<open>kill(2)\<close>; an answer is \<open>None\<close> for success.\<close>

definition ESRCH :: nat where "ESRCH = 3"
definition EPERM :: nat where "EPERM = 1"

datatype stop_error = KillFailed nat | ExistsFailed nat | ExitTimeout

definition Exists :: "int \<Rightarrow> nat option \<Rightarrow> (stop_error, bool) result" where
  "Exists pid answer =
    (if pid \<le> 0 then Inr False
     else case answer of None \<Rightarrow> Inr True
       | Some e \<Rightarrow> if e = ESRCH then Inr False else if e = EPERM then Inr True else Inl (ExistsFailed e))"

text \<open>
  \<open>waitForUnixProcessExit\<close>: one look at the process in each round; the list holds the
  answers to them.  The second component is the number of looks.
\<close>

fun waitForUnixProcessExit :: "int \<Rightarrow> nat \<Rightarrow> (nat \<Rightarrow> nat option) \<Rightarrow> nat \<Rightarrow> (stop_error, bool) result \<times> nat" where
  "waitForUnixProcessExit pid 0 look n = (Inr False, n)"
| "waitForUnixProcessExit pid (Suc k) look n =
    (case Exists pid (look n) of Inl er \<Rightarrow> (Inl er, Suc n)
     | Inr False \<Rightarrow> (Inr True, Suc n)
     | Inr True \<Rightarrow> waitForUnixProcessExit pid k look (Suc n))"

section \<open>Ending a process\<close>

text \<open>
  The signals sent, to the group or to the process, and the answers: those of the three
  calls of \<open>kill\<close> and of every look.
\<close>

datatype signal = GroupTerm | GroupKill | ProcessKill

record kill_env =
  ke_term :: "nat option"
  ke_groupKill :: "nat option"
  ke_kill :: "nat option"
  ke_look :: "nat \<Rightarrow> nat option"

definition kill_error :: "nat option \<Rightarrow> stop_error option" where
  "kill_error a = (case a of None \<Rightarrow> None | Some e \<Rightarrow> if e = ESRCH then None else Some (KillFailed e))"

definition Terminate :: "kill_env \<Rightarrow> int \<Rightarrow> stop_error option \<times> signal list" where
  "Terminate e pid =
    (if pid \<le> 0 then (None, [])
     else case kill_error (ke_term e) of Some er \<Rightarrow> (Some er, [GroupTerm])
     | None \<Rightarrow>
        (case waitForUnixProcessExit pid 20 (ke_look e) 0 of
           (Inl er, n) \<Rightarrow> (Some er, [GroupTerm])
         | (Inr True, n) \<Rightarrow> (None, [GroupTerm])
         | (Inr False, n) \<Rightarrow>
            (case kill_error (ke_groupKill e) of Some er \<Rightarrow> (Some er, [GroupTerm, GroupKill])
             | None \<Rightarrow>
                (case kill_error (ke_kill e) of Some er \<Rightarrow> (Some er, [GroupTerm, GroupKill, ProcessKill])
                 | None \<Rightarrow>
                    (case waitForUnixProcessExit pid 20 (ke_look e) n of
                       (Inl er, _) \<Rightarrow> Some er | (Inr exited, _) \<Rightarrow> if exited then None else Some ExitTimeout,
                     [GroupTerm, GroupKill, ProcessKill])))))"

text \<open>\<open>Stop\<close> of the controller: the same, but a failing signal does not keep it from the rest.\<close>

definition controller_Stop :: "kill_env \<Rightarrow> int \<Rightarrow> stop_error option \<times> signal list" where
  "controller_Stop e pid =
    (if pid \<le> 0 then (None, [])
     else case kill_error (ke_term e) of Some er \<Rightarrow> (Some er, [GroupTerm])
     | None \<Rightarrow>
        (case waitForUnixProcessExit pid 20 (ke_look e) 0 of
           (Inl er, n) \<Rightarrow> (Some er, [GroupTerm])
         | (Inr True, n) \<Rightarrow> (None, [GroupTerm])
         | (Inr False, n) \<Rightarrow>
            let err1 = kill_error (ke_groupKill e);
                err2 = (case err1 of None \<Rightarrow> kill_error (ke_kill e) | Some er \<Rightarrow> Some er)
            in (case waitForUnixProcessExit pid 20 (ke_look e) n of
                  (Inr exited, _) \<Rightarrow> (case err2 of None \<Rightarrow> if exited then None else Some ExitTimeout | Some er \<Rightarrow> Some er)
                | (Inl er, _) \<Rightarrow> (case err2 of None \<Rightarrow> Some er | Some er2 \<Rightarrow> Some er2),
                [GroupTerm, GroupKill, ProcessKill])))"

section \<open>Priority\<close>

definition nice_table :: "(string \<times> int) list" where
  "nice_table = [(''PRIORITY_LOW'', 19), (''PRIORITY_BELOW'', 10), (''PRIORITY_BELOW_NORMAL'', 10), (''PRIORITY_NORMAL'', 0),
     (''PRIORITY_ABOVE'', - 5), (''PRIORITY_ABOVE_NORMAL'', - 5), (''PRIORITY_HIGH'', - 10), (''PRIORITY_HIGHEST'', - 20)]"

datatype priority_result = PriorityKept | PriorityUnknown string | PrioritySet int

definition SetPriority :: "string \<Rightarrow> priority_result" where
  "SetPriority priority =
    (if priority = [] \<or> priority = ''PRIORITY_NORMAL'' then PriorityKept
     else case map_of nice_table priority of None \<Rightarrow> PriorityUnknown priority | Some nice \<Rightarrow> PrioritySet nice)"

section \<open>CPU lists\<close>

text \<open>The loop of \<open>formatCPURange\<close> from the second element on; \<open>write\<close> appends one range.\<close>

definition cpu_write :: "int \<Rightarrow> int \<Rightarrow> string \<Rightarrow> string" where
  "cpu_write start previous b =
    b @ (if b \<noteq> [] then '','' else []) @
    (if start = previous then FormatInt start else FormatInt start @ ''-'' @ FormatInt previous)"

fun cpu_ranges :: "int \<Rightarrow> int \<Rightarrow> int list \<Rightarrow> string \<Rightarrow> string" where
  "cpu_ranges start previous [] b = cpu_write start previous b"
| "cpu_ranges start previous (cpu # cpus) b =
    (if cpu = previous + 1 then cpu_ranges start cpu cpus b else cpu_ranges cpu cpu cpus (cpu_write start previous b))"

definition formatCPURange :: "int list \<Rightarrow> string" where
  "formatCPURange cpus = (case cpus of [] \<Rightarrow> [] | cpu # rest \<Rightarrow> cpu_ranges cpu cpu rest [])"

section \<open>Shell words\<close>

definition shellQuote :: "string \<Rightarrow> string" where
  "shellQuote value = [CHR 0x27] @
     concat (map (\<lambda>c. if c = CHR 0x27 then [CHR 0x27, CHR 0x5C, CHR 0x27, CHR 0x27] else [c]) value) @ [CHR 0x27]"

end
