(* ===== verification/ProcessControlProps.thy ===== *)
theory ProcessControlProps
  imports ProcessControl
begin

text \<open>
  Ending a process is only reported when it was seen to be gone, and the lists and words
  that are handed to the kernel and to the shell read back as what was meant.
\<close>

section \<open>Ending a process\<close>

text \<open>An observation that the process does not exist.\<close>

lemma wait_exited:
  assumes "waitForUnixProcessExit pid k look n = (Inr True, m)"
  shows "n < m \<and> m \<le> n + k \<and> Exists pid (look (m - 1)) = Inr False \<and> (\<forall>i. n \<le> i \<and> i < m - 1 \<longrightarrow> Exists pid (look i) = Inr True)"
  using assms
proof (induction k arbitrary: n)
  case (Suc k)
  show ?case
  proof (cases "Exists pid (look n)")
    case (Inl er)
    then show ?thesis using Suc.prems by simp
  next
    case (Inr b)
    show ?thesis
    proof (cases b)
      case True
      have "n < i \<or> i = n" if "n \<le> i" for i using that by auto
      then show ?thesis using Suc.IH [of "Suc n"] Suc.prems Inr True by (auto simp: Suc_le_eq)
    next
      case False
      then show ?thesis using Suc.prems Inr by auto
    qed
  qed
qed simp

lemma wait_not_exited:
  assumes "waitForUnixProcessExit pid k look n = (Inr False, m)"
  shows "m = n + k \<and> (\<forall>i. n \<le> i \<and> i < m \<longrightarrow> Exists pid (look i) = Inr True)"
  using assms
proof (induction k arbitrary: n)
  case (Suc k)
  have a: "Exists pid (look n) = Inr True" "waitForUnixProcessExit pid k look (Suc n) = (Inr False, m)"
    using Suc.prems by (auto split: sum.splits bool.splits)
  have "Exists pid (look i) = Inr True" if "n \<le> i" "i < m" for i
    using Suc.IH [OF a(2)] a(1) that by (cases "i = n") auto
  then show ?case using Suc.IH [OF a(2)] by simp
qed auto

text \<open>
  The controller reports that a process was stopped only if it saw within at most forty
  looks that the process does not exist; it sends the first signal always, and the killing
  signals only after twenty looks found the process alive.  \<open>Terminate\<close> does the same.
\<close>

theorem stop_reports_exit:
  assumes "f = controller_Stop \<or> f = Terminate" "f e pid = (None, sigs)" "0 < pid"
  shows "(\<exists>n<40. Exists pid (ke_look e n) = Inr False) \<and> hd sigs = GroupTerm \<and>
    (length sigs > 1 \<longrightarrow> (\<forall>n<20. Exists pid (ke_look e n) = Inr True))"
proof -
  obtain r n where w: "waitForUnixProcessExit pid 20 (ke_look e) 0 = (r, n)" by fastforce
  obtain r2 n2 where w2: "waitForUnixProcessExit pid 20 (ke_look e) n = (r2, n2)" by fastforce
  have "r = Inr True \<and> sigs = [GroupTerm] \<or> r = Inr False \<and> r2 = Inr True \<and> hd sigs = GroupTerm"
    using assms w w2 by (auto simp: controller_Stop_def Terminate_def Let_def split: option.splits sum.splits bool.splits if_splits)
  then show ?thesis
  proof
    assume "r = Inr True \<and> sigs = [GroupTerm]"
    then show ?thesis using wait_exited [of pid 20 "ke_look e" 0 n] w by (auto intro!: exI [of _ "n - 1"])
  next
    assume r: "r = Inr False \<and> r2 = Inr True \<and> hd sigs = GroupTerm"
    then have "n = 20" "\<forall>i<20. Exists pid (ke_look e i) = Inr True" using wait_not_exited [of pid 20 "ke_look e" 0 n] w by auto
    then show ?thesis using wait_exited [of pid 20 "ke_look e" n n2] w2 r by (auto intro!: exI [of _ "n2 - 1"])
  qed
qed

definition sample_kill :: kill_env where
  "sample_kill = \<lparr>ke_term = None, ke_groupKill = Some 3, ke_kill = None, ke_look = (\<lambda>n. if n < 25 then None else Some 3)\<rparr>"

theorem stop_reports_exit_witness:
  "controller_Stop sample_kill 7 = (None, [GroupTerm, GroupKill, ProcessKill]) \<and> (\<forall>n<20. Exists 7 (ke_look sample_kill n) = Inr True)"
proof -
  have s: "controller_Stop sample_kill 7 = (None, [GroupTerm, GroupKill, ProcessKill])" by code_simp
  then show ?thesis using stop_reports_exit [of controller_Stop sample_kill 7 "[GroupTerm, GroupKill, ProcessKill]"] by simp
qed

section \<open>CPU lists\<close>

text \<open>How the kernel reads a list of CPUs.\<close>

definition parse_range :: "string \<Rightarrow> int list option" where
  "parse_range s =
    (case map (parse_digits 0) (split_on CHR ''-'' s) of
       [Some a] \<Rightarrow> Some [int a] | [Some a, Some b] \<Rightarrow> Some [int a..int b] | _ \<Rightarrow> None)"

fun parse_ranges :: "string list \<Rightarrow> int list option" where
  "parse_ranges [] = Some []"
| "parse_ranges (p # ps) = (case parse_range p of None \<Rightarrow> None | Some xs \<Rightarrow> map_option ((@) xs) (parse_ranges ps))"

definition parse_cpu_list :: "string \<Rightarrow> int list option" where
  "parse_cpu_list s = (if s = [] then Some [] else parse_ranges (split_on CHR '','' s))"

definition range_text :: "int \<Rightarrow> int \<Rightarrow> string" where
  "range_text a b = (if a = b then FormatInt a else FormatInt a @ ''-'' @ FormatInt b)"

lemma FormatInt_nonneg [simp]: "0 \<le> i \<Longrightarrow> FormatInt i = FormatUint (nat i)"
  by (simp add: FormatInt_def)

lemma no_comma: "CHR '','' \<notin> set (FormatUint n)"
  using FormatUint_digits [of "CHR '',''" n] by (auto simp: digit_val_def)

lemma range_text_no_comma: "0 \<le> a \<Longrightarrow> a \<le> b \<Longrightarrow> CHR '','' \<notin> set (range_text a b)"
  by (cases "a = b") (simp_all add: range_text_def no_comma)

lemma parse_range_text:
  assumes "0 \<le> a" "a \<le> b"
  shows "parse_range (range_text a b) = Some [a..b]"
proof -
  have "split_on CHR ''-'' (FormatUint m @ CHR ''-'' # FormatUint n) = [FormatUint m, FormatUint n]" for m n
    using split_on_join [of "[FormatUint m, FormatUint n]" "CHR ''-''"] FormatUint_no_sign by simp
  then show ?thesis using assms
    by (simp add: range_text_def parse_range_def parse_digits_FormatUint split_on_plain FormatUint_no_sign)
qed

text \<open>The ranges that the loop writes, as a list.\<close>

fun range_list :: "int \<Rightarrow> int \<Rightarrow> int list \<Rightarrow> string list" where
  "range_list start previous [] = [range_text start previous]"
| "range_list start previous (cpu # cpus) =
    (if cpu = previous + 1 then range_list start cpu cpus else range_text start previous # range_list cpu cpu cpus)"

lemma range_list_not_Nil: "range_list start previous cpus \<noteq> [] \<and> [] \<notin> set (range_list start previous cpus)"
  by (induction start previous cpus rule: range_list.induct) (auto simp: range_text_def FormatInt_def dest: sym)

lemma join_Nil_iff: "\<forall>p\<in>set ps. p \<noteq> [] \<Longrightarrow> join sep ps = [] \<longleftrightarrow> ps = []"
  by (cases ps) (auto simp: join_Cons)

lemma range_text_not_Nil [simp]: "range_text a b \<noteq> []"
  by (simp add: range_text_def FormatInt_def)

lemma cpu_ranges_join:
  "\<forall>p\<in>set ps. p \<noteq> [] \<Longrightarrow> cpu_ranges start previous cpus (join '','' ps) = join '','' (ps @ range_list start previous cpus)"
proof (induction start previous cpus arbitrary: ps rule: range_list.induct)
  case (1 start previous)
  then show ?case by (auto simp: cpu_write_def join_Nil_iff join_snoc range_text_def)
next
  case (2 start previous cpu cpus)
  have w: "cpu_write start previous (join '','' ps) = join '','' (ps @ [range_text start previous])"
    using 2(3) by (auto simp: cpu_write_def join_Nil_iff join_snoc range_text_def)
  show ?case using 2(1) [of ps] 2(2) [of "ps @ [range_text start previous]"] 2(3) w by simp
qed

lemma range_list_parses:
  assumes "0 \<le> start" "start \<le> previous" "\<forall>c\<in>set cpus. 0 \<le> c"
  shows "parse_ranges (range_list start previous cpus) = Some ([start..previous] @ cpus) \<and>
    (\<forall>p\<in>set (range_list start previous cpus). CHR '','' \<notin> set p)"
  using assms
proof (induction start previous cpus rule: range_list.induct)
  case (1 start previous)
  then show ?case by (auto simp: parse_range_text range_text_no_comma)
next
  case (2 start previous cpu cpus)
  have "[start..previous + 1] = [start..previous] @ [previous + 1]" using 2(4) by (simp add: upto_rec2)
  then show ?case using 2 by (auto simp: parse_range_text range_text_no_comma)
qed

text \<open>
  The list of CPUs that is written to a control group reads back as exactly the CPUs of
  the profile, in their order, whatever runs of neighbours it has.
\<close>

theorem cpu_range_roundtrip:
  assumes "list_all (\<lambda>c. 0 \<le> c) cpus"
  shows "parse_cpu_list (formatCPURange cpus) = Some cpus"
proof (cases cpus)
  case (Cons c cs)
  have f: "formatCPURange cpus = join '','' (range_list c c cs)"
    using cpu_ranges_join [of "[]" c c cs] Cons by (simp add: formatCPURange_def)
  have "range_list c c cs \<noteq> []" "\<forall>p\<in>set (range_list c c cs). p \<noteq> []" using range_list_not_Nil by metis+
  moreover have p: "parse_ranges (range_list c c cs) = Some cpus" "\<forall>p\<in>set (range_list c c cs). CHR '','' \<notin> set p"
    using range_list_parses [of c c cs] assms Cons by (auto simp: list_all_iff)
  ultimately show ?thesis using f split_on_join [of "range_list c c cs" "CHR '',''"] join_Nil_iff [of "range_list c c cs"]
    by (simp add: parse_cpu_list_def)
qed (simp add: formatCPURange_def parse_cpu_list_def)

theorem cpu_range_roundtrip_witness:
  "formatCPURange [0, 1, 2, 5, 7, 8] = ''0-2,5,7-8'' \<and> parse_cpu_list (formatCPURange [0, 1, 2, 5, 7, 8]) = Some [0, 1, 2, 5, 7, 8]"
proof -
  have "formatCPURange [0, 1, 2, 5, 7, 8] = ''0-2,5,7-8''" by code_simp
  then show ?thesis using cpu_range_roundtrip [of "[0, 1, 2, 5, 7, 8]"] by simp
qed

section \<open>Shell words\<close>

text \<open>
  The part of the shell's grammar that matters: outside quotes a backslash takes the next
  character and a quote opens; inside quotes everything up to the next quote is literal.
  The result is the first word and the rest, \<open>None\<close> when a quote is left open.
\<close>

fun sh_word :: "bool \<Rightarrow> string \<Rightarrow> (string \<times> string) option" where
  "sh_word True [] = None"
| "sh_word False [] = Some ([], [])"
| "sh_word True (c # cs) = (if c = CHR 0x27 then sh_word False cs else map_option (map_prod ((#) c) id) (sh_word True cs))"
| "sh_word False (c # cs) =
    (if c = CHR 0x27 then sh_word True cs
     else if c = CHR 0x5C then (case cs of [] \<Rightarrow> Some ([CHR 0x5C], []) | d # ds \<Rightarrow> map_option (map_prod ((#) d) id) (sh_word False ds))
     else if c = CHR '' '' then Some ([], c # cs)
     else map_option (map_prod ((#) c) id) (sh_word False cs))"

text \<open>
  A quoted word is one word of the shell with exactly the characters that were quoted,
  also with quotes, blanks and backslashes in it, and what follows stays outside.
\<close>

theorem shell_quote_roundtrip: "sh_word False (shellQuote v @ CHR '' '' # rest) = Some (v, CHR '' '' # rest)"
proof -
  have "sh_word True (concat (map (\<lambda>c. if c = CHR 0x27 then [CHR 0x27, CHR 0x5C, CHR 0x27, CHR 0x27] else [c]) v) @
      CHR 0x27 # CHR '' '' # rest) = Some (v, CHR '' '' # rest)"
    by (induction v) auto
  then show ?thesis by (simp add: shellQuote_def)
qed

end
