(* ===== verification/ControllerProxy.thy ===== *)
theory ControllerProxy
  imports GoStrings Interfaces
begin

text \<open>
  Requests to the core's controller are forwarded by \<open>route/coreapi/core_controller_proxy.go\<close>:
  the path that is asked for, and the cache that keeps one HTTP transport for the current
  endpoint of the controller.
\<close>

section \<open>Paths\<close>

fun strip_first :: "string list \<Rightarrow> string \<Rightarrow> string" where
  "strip_first [] path = path"
| "strip_first (p # ps) path =
    (case cut_prefix path p of Some after \<Rightarrow> (if after = [] then ''/'' else after) | None \<Rightarrow> strip_first ps path)"

definition stripCoreControllerPrefix :: "string \<Rightarrow> string" where
  "stripCoreControllerPrefix = strip_first [''/core/controller'', ''/controller'']"

section \<open>The transport cache\<close>

text \<open>
  Transports are numbered in the order they are made; \<open>tc_dial\<close> is the endpoint that the
  transport's \<open>DialContext\<close> connects to, \<open>tc_idle\<close> the transports with idle connections.
\<close>

record controllerTransportCache =
  tc_network :: string
  tc_address :: string
  tc_transport :: "nat option"
  tc_next :: nat
  tc_dial :: "nat \<Rightarrow> string \<times> string"
  tc_idle :: "nat set"

definition newTransportCache :: controllerTransportCache where
  "newTransportCache = \<lparr>tc_network = [], tc_address = [], tc_transport = None, tc_next = 0, tc_dial = (\<lambda>_. ([], [])), tc_idle = {}\<rparr>"

text \<open>
  The part of \<open>get\<close> under the mutex: the transport to use and the one to close afterwards.
\<close>

definition get_locked :: "string \<Rightarrow> string \<Rightarrow> controllerTransportCache \<Rightarrow> nat \<times> nat option \<times> controllerTransportCache" where
  "get_locked network address c =
    (let fresh = (tc_next c, tc_transport c,
           c\<lparr>tc_network := network, tc_address := address, tc_transport := Some (tc_next c), tc_next := Suc (tc_next c),
             tc_dial := (tc_dial c)(tc_next c := (network, address))\<rparr>)
     in case tc_transport c of None \<Rightarrow> fresh
        | Some t \<Rightarrow> if tc_network c = network \<and> tc_address c = address then (t, None, c) else fresh)"

definition CloseIdleConnections :: "nat \<Rightarrow> controllerTransportCache \<Rightarrow> controllerTransportCache" where
  "CloseIdleConnections t c = c\<lparr>tc_idle := tc_idle c - {t}\<rparr>"

definition stale :: "nat \<Rightarrow> controllerTransportCache \<Rightarrow> bool" where
  "stale t c \<longleftrightarrow> tc_transport c \<noteq> Some t"

section \<open>Requests\<close>

text \<open>
  A request is before the close of the old transport that its \<open>get\<close> replaced, forwards
  with its transport, or has found this stale in \<open>closeIfStale\<close> and is about to close it.
  Connections become idle while a request forwards.  The lock is released between these
  steps, so those of different requests interleave.
\<close>

datatype proxy_request = Replacing nat nat | Forwarding nat | Closing nat

fun transport_of :: "proxy_request \<Rightarrow> nat" where
  "transport_of (Replacing old t) = t"
| "transport_of (Forwarding t) = t"
| "transport_of (Closing t) = t"

type_synonym proxy_state = "controllerTransportCache \<times> proxy_request list"

datatype proxy_event = Arrive string string | Step nat | Idle nat

definition arrive :: "string \<Rightarrow> string \<Rightarrow> proxy_state \<Rightarrow> proxy_state" where
  "arrive network address st =
    (case st of (c, rs) \<Rightarrow>
     case get_locked network address c of
       (t, None, c') \<Rightarrow> (c', rs @ [Forwarding t])
     | (t, Some old, c') \<Rightarrow> (c', rs @ [Replacing old t]))"

definition remove_at :: "nat \<Rightarrow> 'a list \<Rightarrow> 'a list" where
  "remove_at i xs = take i xs @ drop (Suc i) xs"

text \<open>The next step of one request; from \<open>Forwarding\<close> it is the check of \<open>closeIfStale\<close>.\<close>

definition advance :: "nat \<Rightarrow> proxy_state \<Rightarrow> proxy_state" where
  "advance i st =
    (case st of (c, rs) \<Rightarrow>
     if i < length rs
     then (case rs ! i of
             Replacing old t \<Rightarrow> (CloseIdleConnections old c, rs[i := Forwarding t])
           | Forwarding t \<Rightarrow> if stale t c then (c, rs[i := Closing t]) else (c, remove_at i rs)
           | Closing t \<Rightarrow> (CloseIdleConnections t c, remove_at i rs))
     else st)"

definition make_idle :: "nat \<Rightarrow> proxy_state \<Rightarrow> proxy_state" where
  "make_idle i st =
    (case st of (c, rs) \<Rightarrow>
     if i < length rs
     then (case rs ! i of Forwarding t \<Rightarrow> (c\<lparr>tc_idle := insert t (tc_idle c)\<rparr>, rs) | _ \<Rightarrow> st)
     else st)"

fun proxy_step :: "proxy_event \<Rightarrow> proxy_state \<Rightarrow> proxy_state" where
  "proxy_step (Arrive n a) st = arrive n a st"
| "proxy_step (Step i) st = advance i st"
| "proxy_step (Idle i) st = make_idle i st"

definition proxy_run :: "proxy_event list \<Rightarrow> proxy_state" where
  "proxy_run es = fold proxy_step es (newTransportCache, [])"

section \<open>Properties\<close>

text \<open>
  A transport with idle connections is the cached one, or some request is going to close
  it; and the cached transport dials the cached endpoint.
\<close>

definition covered :: "proxy_state \<Rightarrow> nat \<Rightarrow> bool" where
  "covered st t \<longleftrightarrow> tc_transport (fst st) = Some t \<or>
     (\<exists>r\<in>set (snd st). transport_of r = t \<or> (\<exists>u. r = Replacing t u))"

definition proxy_inv :: "proxy_state \<Rightarrow> bool" where
  "proxy_inv st \<longleftrightarrow> (\<forall>t\<in>tc_idle (fst st). covered st t) \<and>
     (\<forall>t. tc_transport (fst st) = Some t \<longrightarrow> tc_dial (fst st) t = (tc_network (fst st), tc_address (fst st)))"

lemma set_remove_at: "i < length xs \<Longrightarrow> set xs = insert (xs ! i) (set (remove_at i xs))"
  by (metis remove_at_def id_take_nth_drop list.simps(15) set_append Un_insert_right)

lemma set_update_at: "i < length xs \<Longrightarrow> set (xs[i := y]) = insert y (set (remove_at i xs))"
  by (simp add: remove_at_def upd_conv_take_nth_drop)

lemma get_locked_endpoint:
  assumes "get_locked n a c = (t, old, c')" "\<forall>t. tc_transport c = Some t \<longrightarrow> tc_dial c t = (tc_network c, tc_address c)"
  shows "tc_dial c' t = (n, a) \<and> tc_transport c' = Some t \<and> tc_network c' = n \<and> tc_address c' = a \<and> tc_idle c' = tc_idle c \<and>
    (case old of None \<Rightarrow> tc_transport c = None \<or> tc_transport c = Some t | Some u \<Rightarrow> tc_transport c = Some u)"
  using assms by (auto simp: get_locked_def Let_def split: option.splits if_splits)

lemma arrive_inv: "proxy_inv st \<Longrightarrow> proxy_inv (arrive n a st)"
proof -
  assume inv: "proxy_inv st"
  obtain c rs where st: "st = (c, rs)" by fastforce
  obtain t old c' where g: "get_locked n a c = (t, old, c')" by (metis prod.exhaust)
  note f = get_locked_endpoint [OF g]
  show ?thesis using inv f unfolding st
    by (cases old) (auto simp: arrive_def g proxy_inv_def covered_def)
qed

lemma advance_inv: "proxy_inv st \<Longrightarrow> proxy_inv (advance i st)"
proof -
  assume inv: "proxy_inv st"
  obtain c rs where st: "st = (c, rs)" by fastforce
  show ?thesis
  proof (cases "i < length rs")
    case True
    note s = set_remove_at [OF True] and u = set_update_at [OF True]
    show ?thesis using inv True s u unfolding st
      by (cases "rs ! i") (auto simp: advance_def proxy_inv_def covered_def CloseIdleConnections_def stale_def)
  next
    case False
    then show ?thesis using inv by (simp add: st advance_def)
  qed
qed

lemma make_idle_inv: "proxy_inv st \<Longrightarrow> proxy_inv (make_idle i st)"
proof -
  assume inv: "proxy_inv st"
  obtain c rs where st: "st = (c, rs)" by fastforce
  show ?thesis
  proof (cases "\<exists>t. i < length rs \<and> rs ! i = Forwarding t")
    case True
    then obtain t where t: "i < length rs" "rs ! i = Forwarding t" by blast
    then have "Forwarding t \<in> set rs" by (metis nth_mem)
    then show ?thesis using inv t unfolding st by (auto simp: make_idle_def proxy_inv_def covered_def intro: bexI [of _ "Forwarding t"])
  next
    case False
    then show ?thesis using inv unfolding st by (auto simp: make_idle_def split: proxy_request.splits)
  qed
qed

lemma proxy_step_inv: "proxy_inv st \<Longrightarrow> proxy_inv (proxy_step ev st)"
  by (cases ev) (simp_all add: arrive_inv advance_inv make_idle_inv)

interpretation proxies: machine proxy_step "\<lambda>ev. True" proxy_inv
  by unfold_locales (rule proxy_step_inv)

lemma proxy_run_inv: "proxy_inv (proxy_run es)"
  unfolding proxy_run_def by (rule proxies.run_inv) (simp_all add: proxy_inv_def newTransportCache_def)

text \<open>
  However requests to the controller interleave, and however often its endpoint
  changes, once all of them are through no transport but the cached one holds idle
  connections; and a request that arrives is forwarded to the endpoint that the core
  manager gave it, also when the cache held another one.
\<close>

theorem proxy_connections_kept:
  assumes "proxy_run es = (c, rs)"
  shows "(rs = [] \<longrightarrow> tc_idle c \<subseteq> set_option (tc_transport c)) \<and>
    tc_dial (fst (arrive n a (c, rs))) (transport_of (last (snd (arrive n a (c, rs))))) = (n, a)"
proof -
  have inv: "proxy_inv (c, rs)" using proxy_run_inv [of es] assms by simp
  obtain t old c' where g: "get_locked n a c = (t, old, c')" by (metis prod.exhaust)
  have "tc_dial c' t = (n, a)" using get_locked_endpoint [OF g] inv by (simp add: proxy_inv_def)
  then show ?thesis using inv by (cases old) (auto simp: arrive_def g proxy_inv_def covered_def)
qed

definition sample_proxy :: "proxy_event list" where
  "sample_proxy = [Arrive ''unix'' ''/a'', Idle 0, Arrive ''unix'' ''/b'', Step 1, Idle 0, Idle 1, Step 1, Step 0, Step 0]"

theorem proxy_connections_kept_witness:
  "snd (proxy_run (take 8 sample_proxy)) = [Closing 0] \<and> snd (proxy_run sample_proxy) = [] \<and>
   tc_idle (fst (proxy_run sample_proxy)) \<subseteq> set_option (tc_transport (fst (proxy_run sample_proxy)))"
proof -
  have r: "snd (proxy_run (take 8 sample_proxy)) = [Closing 0]" "snd (proxy_run sample_proxy) = []" by code_simp+
  then show ?thesis
    using proxy_connections_kept [of sample_proxy "fst (proxy_run sample_proxy)" "[]" "[]" "[]"] by (metis prod.collapse)
qed

text \<open>The path that is forwarded.\<close>

lemma stripped_path:
  "stripCoreControllerPrefix ''/core/controller'' = ''/''" "stripCoreControllerPrefix (''/core/controller/'' @ p) = ''/'' @ p"
  by (simp_all add: stripCoreControllerPrefix_def cut_prefix_def)

end
