(* ===== verification/CpuSets.thy ===== *)
theory CpuSets
  imports ProcessControl GoFiles
begin

text \<open>
  Confining a core to a set of CPUs on Linux: a control group of its own when the service
  is root (\<open>core/process/process_cgroup_linux.go\<close>), the scheduler's mask of every thread
  otherwise (\<open>core/process/process_affinity_linux.go\<close>).
\<close>

section \<open>Control groups\<close>

definition cgroupRoot :: string where "cgroupRoot = ''/sys/fs/cgroup''"

record cpuCgroupState =
  cg_path :: string
  cg_parent :: string

text \<open>
  The kernel's side: what a write, a new directory or a removal does to the files it
  shows.  A new directory may already be there.
\<close>

datatype mkdir_outcome = MkdirOK | MkdirExists | MkdirError string

record cgroup_kernel =
  ck_write :: "string \<Rightarrow> bytes \<Rightarrow> disk \<Rightarrow> string option \<times> disk"
  ck_mkdirAll :: "string \<Rightarrow> disk \<Rightarrow> string option \<times> disk"
  ck_mkdir :: "string \<Rightarrow> disk \<Rightarrow> mkdir_outcome \<times> disk"
  ck_remove :: "string \<Rightarrow> disk \<Rightarrow> disk"

text \<open>The table \<open>cpuCgroups\<close>, the files, and the writes made so far, last first.\<close>

record cgroup_world =
  cw_items :: "int \<Rightarrow> cpuCgroupState option"
  cw_disk :: disk
  cw_writes :: "(string \<times> bytes) list"

definition cg_writeFile :: "cgroup_kernel \<Rightarrow> string \<Rightarrow> bytes \<Rightarrow> cgroup_world \<Rightarrow> string option \<times> cgroup_world" where
  "cg_writeFile k path data w =
    (case ck_write k path data (cw_disk w) of
       (err, d) \<Rightarrow> (err, w\<lparr>cw_disk := d, cw_writes := (path, data) # cw_writes w\<rparr>))"

definition cg_readFile :: "string \<Rightarrow> cgroup_world \<Rightarrow> (string, bytes) result" where
  "cg_readFile path w = (case cw_disk w path of Content data \<Rightarrow> Inr data | _ \<Rightarrow> Inl path)"

definition writeCgroupValue :: "cgroup_kernel \<Rightarrow> string \<Rightarrow> string \<Rightarrow> string \<Rightarrow> cgroup_world \<Rightarrow> string option \<times> cgroup_world" where
  "writeCgroupValue k path name content = cg_writeFile k (Join [path, name]) content"

definition writeCgroupPID :: "cgroup_kernel \<Rightarrow> string \<Rightarrow> int \<Rightarrow> cgroup_world \<Rightarrow> string option \<times> cgroup_world" where
  "writeCgroupPID k path pid = writeCgroupValue k path ''cgroup.procs'' (FormatInt pid)"

definition copyCgroupValue :: "cgroup_kernel \<Rightarrow> string \<Rightarrow> string \<Rightarrow> string \<Rightarrow> string \<Rightarrow> cgroup_world \<Rightarrow> string option \<times> cgroup_world" where
  "copyCgroupValue k src dst source target w =
    (case cg_readFile (Join [src, source]) w of Inl er \<Rightarrow> (Some er, w)
     | Inr data \<Rightarrow> cg_writeFile k (Join [dst, target]) data w)"

text \<open>\<open>strings.SplitN(line, ":", 3)\<close> when it gives three parts.\<close>

definition split3 :: "string \<Rightarrow> (string \<times> string \<times> string) option" where
  "split3 line = (case cut line '':'' of None \<Rightarrow> None
     | Some (a, rest) \<Rightarrow> (case cut rest '':'' of None \<Rightarrow> None | Some (b, c) \<Rightarrow> Some (a, b, c)))"

fun cgroup_line :: "string list \<Rightarrow> string" where
  "cgroup_line [] = []"
| "cgroup_line (line # rest) = (case split3 line of
     Some (a, b, c) \<Rightarrow> if a = ''0'' then Join [cgroupRoot, c] else cgroup_line rest
   | None \<Rightarrow> cgroup_line rest)"

definition processCgroupPath :: "int \<Rightarrow> cgroup_world \<Rightarrow> (string, string) result" where
  "processCgroupPath pid w =
    (case cg_readFile (''/proc/'' @ FormatInt pid @ ''/cgroup'') w of Inl er \<Rightarrow> Inl er
     | Inr data \<Rightarrow> Inr (cgroup_line (split_on LF data)))"

definition enableCPUSetController :: "cgroup_kernel \<Rightarrow> cgroup_world \<Rightarrow> string option \<times> cgroup_world" where
  "enableCPUSetController k w =
    (case cg_readFile (Join [cgroupRoot, ''cgroup.subtree_control'']) w of Inl er \<Rightarrow> (Some er, w)
     | Inr data \<Rightarrow>
        if contains data ''cpuset'' then (None, w)
        else writeCgroupValue k cgroupRoot ''cgroup.subtree_control'' ''+cpuset'' w)"

definition cgroup_path :: "int \<Rightarrow> string" where
  "cgroup_path pid = Join [cgroupRoot, ''sparkle-service'', ''core-'' @ FormatInt pid]"

text \<open>The first confinement of a process: its group is made and given the memory nodes of the parent.\<close>

definition new_cgroup :: "cgroup_kernel \<Rightarrow> int \<Rightarrow> string \<Rightarrow> cgroup_world \<Rightarrow> (string, cpuCgroupState) result \<times> cgroup_world" where
  "new_cgroup k pid parent w =
    (let state = \<lparr>cg_path = cgroup_path pid, cg_parent = parent\<rparr> in
     case ck_mkdirAll k (Dir (cg_path state)) (cw_disk w) of
       (Some er, d1) \<Rightarrow> (Inl er, w\<lparr>cw_disk := d1\<rparr>)
     | (None, d1) \<Rightarrow>
        (case ck_mkdir k (cg_path state) d1 of
           (MkdirError er, d2) \<Rightarrow> (Inl er, w\<lparr>cw_disk := d2\<rparr>)
         | (_, d2) \<Rightarrow>
            (case copyCgroupValue k parent (cg_path state) ''cpuset.mems.effective'' ''cpuset.mems'' (w\<lparr>cw_disk := d2\<rparr>) of
               (Some er, w3) \<Rightarrow> (Inl er, w3\<lparr>cw_disk := ck_remove k (cg_path state) (cw_disk w3)\<rparr>)
             | (None, w3) \<Rightarrow> (Inr state, w3\<lparr>cw_items := (cw_items w3)(pid \<mapsto> state)\<rparr>))))"

text \<open>\<open>setCPUCgroup\<close>: whether a control group was used, and an error.\<close>

definition confine :: "cgroup_kernel \<Rightarrow> int \<Rightarrow> int list \<Rightarrow> cpuCgroupState \<Rightarrow> cgroup_world \<Rightarrow> (bool \<times> string option) \<times> cgroup_world" where
  "confine k pid cpus state w =
    (case writeCgroupValue k (cg_path state) ''cpuset.cpus'' (formatCPURange cpus) w of
       (Some er, w1) \<Rightarrow> ((True, Some er), w1)
     | (None, w1) \<Rightarrow> (case writeCgroupPID k (cg_path state) pid w1 of (er, w2) \<Rightarrow> ((True, er), w2)))"

definition release :: "cgroup_kernel \<Rightarrow> int \<Rightarrow> cpuCgroupState \<Rightarrow> cgroup_world \<Rightarrow> (bool \<times> string option) \<times> cgroup_world" where
  "release k pid state w =
    (case writeCgroupPID k (cg_parent state) pid w of
       (Some er, w1) \<Rightarrow> ((True, Some er), w1)
     | (None, w1) \<Rightarrow>
        ((True, None), w1\<lparr>cw_disk := ck_remove k (cg_path state) (cw_disk w1), cw_items := (cw_items w1)(pid := None)\<rparr>))"

definition setCPUCgroup ::
    "cgroup_kernel \<Rightarrow> int \<Rightarrow> int \<Rightarrow> int list \<Rightarrow> cgroup_world \<Rightarrow> (bool \<times> string option) \<times> cgroup_world" where
  "setCPUCgroup k euid pid cpus w =
    (if euid \<noteq> 0 then ((False, None), w)
     else case processCgroupPath pid w of Inl er \<Rightarrow> ((False, Some er), w)
     | Inr parent \<Rightarrow>
        if parent = '''' \<or> \<not> has_prefix parent (cgroupRoot @ [sep]) then ((False, None), w)
        else case enableCPUSetController k w of (Some er, w1) \<Rightarrow> ((False, Some er), w1)
        | (None, w1) \<Rightarrow>
           (case (cpus, cw_items w1 pid) of
              ([], None) \<Rightarrow> ((False, None), w1)
            | ([], Some state) \<Rightarrow> release k pid state w1
            | (_ # _, Some state) \<Rightarrow> confine k pid cpus state w1
            | (_ # _, None) \<Rightarrow>
               (case new_cgroup k pid parent w1 of
                  (Inl er, w2) \<Rightarrow> ((False, Some er), w2)
                | (Inr state, w2) \<Rightarrow> confine k pid cpus state w2)))"

section \<open>Threads\<close>

text \<open>
  The masks of the live threads of the core.  A thread may start, with the mask of the one
  that starts it, or end before any system call of the service; \<open>ts_born\<close> counts the
  threads that started.
\<close>

record 'm tasks =
  ts_mask :: "int \<Rightarrow> 'm option"
  ts_clock :: nat
  ts_born :: nat

datatype task_event = Clone int int | Exit int

fun task_step :: "task_event \<Rightarrow> 'm tasks \<Rightarrow> 'm tasks" where
  "task_step (Clone parent child) s =
    (case (ts_mask s parent, ts_mask s child) of
       (Some m, None) \<Rightarrow> s\<lparr>ts_mask := (ts_mask s)(child \<mapsto> m), ts_born := Suc (ts_born s)\<rparr>
     | _ \<Rightarrow> s)"
| "task_step (Exit tid) s = s\<lparr>ts_mask := (ts_mask s)(tid := None)\<rparr>"

text \<open>
  \<open>sc_events\<close> are the events before the system call of that number, \<open>sc_list\<close> the entries
  of \<open>/proc/<pid>/task\<close>, \<open>sc_set\<close> the mask that the kernel gives a thread when a mask is
  asked for, or an error number.
\<close>

record 'm sched =
  sc_events :: "nat \<Rightarrow> task_event list"
  sc_list :: "nat \<Rightarrow> (int \<Rightarrow> 'm option) \<Rightarrow> (string, string list) result"
  sc_set :: "nat \<Rightarrow> int \<Rightarrow> 'm \<Rightarrow> (nat, 'm) result"
  sc_get :: "nat \<Rightarrow> int \<Rightarrow> nat option"

definition ESRCH :: nat where "ESRCH = 3"

definition disturb :: "'m sched \<Rightarrow> 'm tasks \<Rightarrow> 'm tasks" where
  "disturb k s = (fold task_step (sc_events k (ts_clock s)) s)\<lparr>ts_clock := Suc (ts_clock s)\<rparr>"

definition SchedSetaffinity :: "'m sched \<Rightarrow> int \<Rightarrow> 'm \<Rightarrow> 'm tasks \<Rightarrow> nat option \<times> 'm tasks" where
  "SchedSetaffinity k tid m s0 =
    (let s = disturb k s0 in
     case ts_mask s tid of None \<Rightarrow> (Some ESRCH, s)
     | Some _ \<Rightarrow> (case sc_set k (ts_clock s) tid m of
         Inl er \<Rightarrow> (Some er, s)
       | Inr m' \<Rightarrow> (None, s\<lparr>ts_mask := (ts_mask s)(tid \<mapsto> m')\<rparr>)))"

definition SchedGetaffinity :: "'m sched \<Rightarrow> int \<Rightarrow> 'm tasks \<Rightarrow> (nat, 'm) result \<times> 'm tasks" where
  "SchedGetaffinity k tid s0 =
    (let s = disturb k s0 in
     case ts_mask s tid of None \<Rightarrow> (Inl ESRCH, s)
     | Some m \<Rightarrow> (case sc_get k (ts_clock s) tid of Some er \<Rightarrow> (Inl er, s) | None \<Rightarrow> (Inr m, s)))"

datatype affinity_error =
    BadPID int
  | OwnMaskUnread nat
  | CPUOutOfRange int
  | GroupFailed string
  | ThreadsUnread string
  | BindFailed int nat
  | BindUnread int nat
  | BindPartial int

text \<open>The threads of one listing in turn; \<open>strconv.Atoi\<close> skips what is no number.\<close>

fun bind_threads :: "'m sched \<Rightarrow> 'm \<Rightarrow> string list \<Rightarrow> 'm tasks \<Rightarrow> affinity_error option \<times> 'm tasks" where
  "bind_threads k m [] s = (None, s)"
| "bind_threads k m (name # names) s =
    (case ParseInt name 64 of None \<Rightarrow> bind_threads k m names s
     | Some tid \<Rightarrow>
        (case SchedSetaffinity k tid m s of
           (Some er, s1) \<Rightarrow> if er = ESRCH then bind_threads k m names s1 else (Some (BindFailed tid er), s1)
         | (None, s1) \<Rightarrow>
            (case SchedGetaffinity k tid s1 of
               (Inl er, s2) \<Rightarrow> if er = ESRCH then bind_threads k m names s2 else (Some (BindUnread tid er), s2)
             | (Inr actual, s2) \<Rightarrow> if actual \<noteq> m then (Some (BindPartial tid), s2) else bind_threads k m names s2)))"

fun bind_scans :: "nat \<Rightarrow> 'm sched \<Rightarrow> 'm \<Rightarrow> 'm tasks \<Rightarrow> affinity_error option \<times> 'm tasks" where
  "bind_scans 0 k m s = (None, s)"
| "bind_scans (Suc n) k m s0 =
    (let s = disturb k s0 in
     case sc_list k (ts_clock s) (ts_mask s) of Inl er \<Rightarrow> (Some (ThreadsUnread er), s)
     | Inr names \<Rightarrow>
        (case bind_threads k m names s of
           (Some er, s1) \<Rightarrow> (Some er, s1)
         | (None, s1) \<Rightarrow> bind_scans n k m s1))"

text \<open>
  The type \<open>unix.CPUSet\<close> with \<open>Set\<close> and \<open>IsSet\<close> is a parameter; so is what
  \<open>SchedGetaffinity\<close> answers for the service itself.
\<close>

record 'm cpu_lib =
  cl_zero :: 'm
  cl_set :: "int \<Rightarrow> 'm \<Rightarrow> 'm"
  cl_isSet :: "'m \<Rightarrow> int \<Rightarrow> bool"
  cl_own :: "(nat, 'm) result"

definition CurrentCPUAffinity :: "'m cpu_lib \<Rightarrow> (nat, int list) result" where
  "CurrentCPUAffinity lib = (case cl_own lib of Inl er \<Rightarrow> Inl er
     | Inr own \<Rightarrow> Inr (filter (cl_isSet lib own) [0..1023]))"

definition mask_of :: "'m cpu_lib \<Rightarrow> int list \<Rightarrow> 'm" where
  "mask_of lib cpus = fold (cl_set lib) cpus (cl_zero lib)"

definition requested_mask :: "'m cpu_lib \<Rightarrow> int list \<Rightarrow> int list list \<Rightarrow> (affinity_error, 'm) result" where
  "requested_mask lib cpus restore =
    (if cpus = [] then
       (case restore of
          (c # cs) # _ \<Rightarrow> Inr (mask_of lib (c # cs))
        | _ \<Rightarrow> map_err OwnMaskUnread (cl_own lib))
     else case find (\<lambda>cpu. cpu < 0 \<or> 1024 \<le> cpu) cpus of
        Some cpu \<Rightarrow> Inl (CPUOutOfRange cpu)
      | None \<Rightarrow> Inr (mask_of lib cpus))"

definition SetCPUAffinity ::
    "'m cpu_lib \<Rightarrow> cgroup_kernel \<Rightarrow> 'm sched \<Rightarrow> int \<Rightarrow> int \<Rightarrow> int list \<Rightarrow> int list list \<Rightarrow> cgroup_world \<times> 'm tasks
     \<Rightarrow> affinity_error option \<times> cgroup_world \<times> 'm tasks" where
  "SetCPUAffinity lib ck k euid pid cpus restore w =
    (case w of (g, s) \<Rightarrow>
     if pid \<le> 0 then (Some (BadPID pid), g, s)
     else case requested_mask lib cpus restore of Inl er \<Rightarrow> (Some er, g, s)
     | Inr requested \<Rightarrow>
        (case setCPUCgroup ck euid pid cpus g of
           ((True, Some er), g1) \<Rightarrow> (Some (GroupFailed er), g1, s)
         | ((used, _), g1) \<Rightarrow>
            if used \<and> cpus \<noteq> [] then (None, g1, s)
            else (case bind_scans 3 k requested s of (er, s1) \<Rightarrow> (er, g1, s1))))"

end
