(* ===== verification/CpuSetsProps.thy ===== *)
theory CpuSetsProps
  imports CpuSets ProcessControlProps
begin

text \<open>
  What confining a core achieves: every thread runs on the requested CPUs although threads
  come and go meanwhile, and the service writes nothing outside the control groups.
\<close>

section \<open>Threads come and go\<close>

lemma task_step_born: "ts_born s \<le> ts_born (task_step ev s)"
  by (cases ev) (auto split: option.split)

lemma task_step_quiet: "ts_born (task_step ev s) = ts_born s \<Longrightarrow> ts_mask (task_step ev s) \<subseteq>\<^sub>m ts_mask s"
  by (cases ev) (auto simp: map_le_def split: option.splits)

lemma task_steps_born: "ts_born s \<le> ts_born (fold task_step evs s)"
proof (induction evs arbitrary: s)
  case (Cons ev evs)
  then show ?case using task_step_born [of s ev] by (auto intro: order_trans)
qed simp

lemma task_steps_quiet: "ts_born (fold task_step evs s) = ts_born s \<Longrightarrow> ts_mask (fold task_step evs s) \<subseteq>\<^sub>m ts_mask s"
proof (induction evs arbitrary: s)
  case (Cons ev evs)
  have "ts_born (task_step ev s) = ts_born s"
    using Cons.prems task_steps_born [of "task_step ev s" evs] task_step_born [of s ev] by simp
  then show ?case using Cons.IH [of "task_step ev s"] Cons.prems task_step_quiet [of ev s] map_le_trans by fastforce
qed simp

lemma disturb_born: "ts_born s \<le> ts_born (disturb k s)"
  by (simp add: disturb_def task_steps_born)

lemma disturb_quiet: "ts_born (disturb k s) = ts_born s \<Longrightarrow> ts_mask (disturb k s) tid = Some m \<Longrightarrow> ts_mask s tid = Some m"
  using task_steps_quiet [of "sc_events k (ts_clock s)" s] by (simp add: disturb_def map_le_def) (metis domI)

text \<open>
  All live threads have one mask, and it is the one that the kernel gives.  A thread that
  starts inherits it.
\<close>

definition settled :: "'m \<Rightarrow> 'm \<Rightarrow> 'm tasks \<Rightarrow> bool" where
  "settled m given s \<longleftrightarrow> (\<forall>tid m'. ts_mask s tid = Some m' \<longrightarrow> m' = m \<and> given = m)"

lemma settled_step: "settled m given s \<Longrightarrow> settled m given (task_step ev s)"
  by (cases ev) (auto simp: settled_def split: option.split)

lemma settled_disturb: "settled m given s \<Longrightarrow> settled m given (disturb k s)"
proof -
  assume "settled m given s"
  then have "settled m given (fold task_step evs s)" for evs
    by (induction evs arbitrary: s) (simp_all add: settled_step)
  then show ?thesis by (simp add: settled_def disturb_def)
qed

text \<open>
  What the code relies on of the kernel.  All threads of the process are in one control
  group, so the kernel gives them all the same mask; a thread is reported missing only
  when it is; and a listing shows every live thread.
\<close>

definition sched_law :: "'m sched \<Rightarrow> 'm \<Rightarrow> 'm \<Rightarrow> bool" where
  "sched_law k m given \<longleftrightarrow>
     (\<forall>c tid m'. sc_set k c tid m = Inr m' \<longrightarrow> m' = given) \<and>
     (\<forall>c tid. sc_set k c tid m \<noteq> Inl ESRCH \<and> sc_get k c tid \<noteq> Some ESRCH) \<and>
     (\<forall>c live names tid. sc_list k c live = Inr names \<longrightarrow> live tid \<noteq> None \<longrightarrow>
       (\<exists>n\<in>set names. ParseInt n 64 = Some tid))"

text \<open>One turn of the inner loop that goes on.\<close>

definition bound :: "'m sched \<Rightarrow> 'm \<Rightarrow> int \<Rightarrow> 'm tasks \<Rightarrow> 'm tasks \<Rightarrow> bool" where
  "bound k m tid s s2 \<longleftrightarrow>
     (SchedSetaffinity k tid m s = (Some ESRCH, s2) \<or>
      (\<exists>s1 r. SchedSetaffinity k tid m s = (None, s1) \<and> SchedGetaffinity k tid s1 = (r, s2) \<and> (r = Inl ESRCH \<or> r = Inr m)))"

lemma bind_threads_Cons:
  assumes "bind_threads k m (name # names) s = (None, s')"
  obtains "ParseInt name 64 = None" "bind_threads k m names s = (None, s')"
  | tid s2 where "ParseInt name 64 = Some tid" "bound k m tid s s2" "bind_threads k m names s2 = (None, s')"
  using assms by (auto simp: bound_def split: option.splits prod.splits sum.splits if_splits)

lemma set_affinity_cases:
  assumes "SchedSetaffinity k tid m s = (r, s1)" "sched_law k m given"
  shows "r = Some ESRCH \<Longrightarrow> s1 = disturb k s \<and> ts_mask s1 tid = None"
    and "r = None \<Longrightarrow> s1 = (disturb k s)\<lparr>ts_mask := (ts_mask (disturb k s))(tid \<mapsto> given)\<rparr> \<and> ts_mask (disturb k s) tid \<noteq> None"
  using assms by (auto simp: SchedSetaffinity_def sched_law_def Let_def split: option.splits sum.splits)

lemma get_affinity_cases:
  assumes "SchedGetaffinity k tid s = (r, s1)" "sched_law k m given"
  shows "s1 = disturb k s" "r = Inl ESRCH \<Longrightarrow> ts_mask s1 tid = None" "r = Inr m' \<Longrightarrow> ts_mask s1 tid = Some m'"
  using assms by (auto simp: SchedGetaffinity_def sched_law_def Let_def split: option.splits)

lemma bound_cases:
  assumes "bound k m tid s s2" "sched_law k m given"
  obtains "s2 = disturb k s" "ts_mask s2 tid = None"
  | s1 where "s1 = (disturb k s)\<lparr>ts_mask := (ts_mask (disturb k s))(tid \<mapsto> given)\<rparr>" "ts_mask (disturb k s) tid \<noteq> None"
      "s2 = disturb k s1" "ts_mask s2 tid = None \<or> ts_mask s2 tid = Some m"
  using assms(1) unfolding bound_def
  using set_affinity_cases [OF _ assms(2)] get_affinity_cases [OF _ assms(2)] by metis

lemma bound_born:
  assumes "bound k m tid s s2" "sched_law k m given"
  shows "ts_born s \<le> ts_born s2"
  using assms
proof (cases rule: bound_cases)
  case 1
  then show ?thesis by (simp add: disturb_born)
next
  case (2 s1)
  then show ?thesis using disturb_born [of s k] disturb_born [of s1 k] by simp
qed

lemma bound_settled:
  assumes "bound k m tid s s2" "sched_law k m given" "settled m given s"
  shows "settled m given s2"
  using assms(1,2)
proof (cases rule: bound_cases)
  case 1
  then show ?thesis by (simp add: settled_disturb assms(3))
next
  case (2 s1)
  have "settled m given (disturb k s)" by (rule settled_disturb [OF assms(3)])
  then have "settled m given s1" using 2(1,2) by (auto simp: settled_def)
  then show ?thesis using 2 by (simp add: settled_disturb)
qed

text \<open>Without a birth, a thread that survives the turn is as before, and the one it is about has the mask.\<close>

lemma bound_quiet:
  assumes "bound k m tid s s2" "sched_law k m given" "ts_born s2 = ts_born s" "ts_mask s2 t = Some m'"
  shows "(ts_mask s t = Some m' \<or> ts_mask s t \<noteq> None \<and> m' = m \<and> given = m) \<and> (t = tid \<longrightarrow> m' = m \<and> given = m)"
  using assms(1,2)
proof (cases rule: bound_cases)
  case 1
  then show ?thesis using assms(3,4) disturb_quiet [of k s t m'] by auto
next
  case (2 s1)
  have born: "ts_born (disturb k s) = ts_born s" "ts_born s2 = ts_born s1"
    using 2 assms(3) disturb_born [of s k] disturb_born [of s1 k] by simp_all
  have s1: "ts_mask s1 t = Some m'" using disturb_quiet [of k s1 t m'] born(2) 2(3) assms(4) by simp
  show ?thesis
  proof (cases "t = tid")
    case True
    then have "m' = m" "given = m" using s1 2(1,4) assms(4) by auto
    moreover obtain x where "ts_mask (disturb k s) t = Some x" using 2(2) True by blast
    ultimately show ?thesis using disturb_quiet [OF born(1)] by blast
  next
    case False
    then show ?thesis using s1 2(1) disturb_quiet [OF born(1), of t m'] by simp
  qed
qed

section \<open>Scans\<close>

lemma bind_threads_born:
  assumes "bind_threads k m names s = (None, s')" "sched_law k m given"
  shows "ts_born s \<le> ts_born s' \<and> (settled m given s \<longrightarrow> settled m given s')"
  using assms(1)
proof (induction names arbitrary: s)
  case (Cons name names)
  from Cons.prems show ?case
  proof (cases rule: bind_threads_Cons)
    case 1
    then show ?thesis using Cons.IH by simp
  next
    case (2 tid s2)
    then show ?thesis using Cons.IH [OF 2(3)] bound_born [OF 2(2) assms(2)] bound_settled [OF 2(2) assms(2)] by simp
  qed
qed simp

lemma bind_threads_quiet:
  assumes "bind_threads k m names s = (None, s')" "sched_law k m given" "ts_born s' = ts_born s" "ts_mask s' t = Some m'"
  shows "(ts_mask s t = Some m' \<or> ts_mask s t \<noteq> None \<and> m' = m \<and> given = m) \<and>
    ((\<exists>n\<in>set names. ParseInt n 64 = Some t) \<longrightarrow> m' = m \<and> given = m)"
  using assms(1,3)
proof (induction names arbitrary: s)
  case Nil
  then show ?case using assms(4) by simp
next
  case (Cons name names)
  from Cons.prems(1) show ?case
  proof (cases rule: bind_threads_Cons)
    case 1
    then show ?thesis using Cons.IH [OF 1(2) Cons.prems(2)] by simp
  next
    case (2 tid s2)
    have born: "ts_born s' = ts_born s2" "ts_born s2 = ts_born s"
      using Cons.prems(2) bound_born [OF 2(2) assms(2)] bind_threads_born [OF 2(3) assms(2)] by simp_all
    note ih = Cons.IH [OF 2(3) born(1)]
    then obtain x where x: "ts_mask s2 t = Some x" "m' = x \<or> m' = m \<and> given = m" by blast
    show ?thesis using ih x bound_quiet [OF 2(2) assms(2) born(2) x(1)] 2(1) by auto
  qed
qed

lemma scan_settles:
  assumes "bind_threads k m names s = (None, s1)" "sched_law k m given" "sc_list k c (ts_mask s) = Inr names"
    and "ts_born s1 = ts_born s"
  shows "settled m given s1"
proof -
  have "m' = m \<and> given = m" if t: "ts_mask s1 t = Some m'" for t m'
  proof -
    note q = bind_threads_quiet [OF assms(1,2,4) t]
    then have "ts_mask s t \<noteq> None" by auto
    then have "\<exists>n\<in>set names. ParseInt n 64 = Some t" using assms(2,3) unfolding sched_law_def by blast
    then show ?thesis using q by blast
  qed
  then show ?thesis by (simp add: settled_def)
qed

lemma bind_scans_Suc:
  assumes "bind_scans (Suc n) k m s = (None, s')"
  obtains names s1 where "sc_list k (ts_clock (disturb k s)) (ts_mask (disturb k s)) = Inr names"
    "bind_threads k m names (disturb k s) = (None, s1)" "bind_scans n k m s1 = (None, s')"
  using assms by (auto simp: Let_def split: sum.splits prod.splits option.splits)

lemma bind_scans_keep:
  "bind_scans n k m s = (None, s') \<Longrightarrow> sched_law k m given \<Longrightarrow> settled m given s \<Longrightarrow> settled m given s'"
proof (induction n arbitrary: s)
  case (Suc n)
  from Suc.prems(1) show ?case
  proof (rule bind_scans_Suc)
    fix names s1
    assume a: "bind_threads k m names (disturb k s) = (None, s1)" "bind_scans n k m s1 = (None, s')"
    show ?thesis
      using Suc.IH [OF a(2) Suc.prems(2)] bind_threads_born [OF a(1) Suc.prems(2)] settled_disturb [OF Suc.prems(3)] by blast
  qed
qed simp

text \<open>Fewer births than scans: one scan is quiet, and what it settles stays.\<close>

lemma bind_scans_settle:
  assumes "bind_scans n k m s = (None, s')" "sched_law k m given" "ts_born s' < ts_born s + n"
  shows "settled m given s'"
  using assms(1,3)
proof (induction n arbitrary: s)
  case (Suc n)
  from Suc.prems(1) show ?case
  proof (rule bind_scans_Suc)
    fix names s1
    assume l: "sc_list k (ts_clock (disturb k s)) (ts_mask (disturb k s)) = Inr names"
      and a: "bind_threads k m names (disturb k s) = (None, s1)" "bind_scans n k m s1 = (None, s')"
    show ?thesis
    proof (cases "ts_born s1 = ts_born (disturb k s)")
      case True
      then show ?thesis using bind_scans_keep [OF a(2) assms(2)] scan_settles [OF a(1) assms(2) l] by blast
    next
      case False
      then have "ts_born s < ts_born s1"
        using bind_threads_born [OF a(1) assms(2)] disturb_born [of s k] by simp
      then show ?thesis using Suc.IH [OF a(2)] Suc.prems(2) by simp
    qed
  qed
qed simp

section \<open>Writes stay in the control groups\<close>

definition group_dir :: "string \<Rightarrow> bool" where
  "group_dir p \<longleftrightarrow> IsAbs p \<and> Clean p = p \<and> has_prefix p (cgroupRoot @ [sep])"

definition group_file :: "string \<Rightarrow> bool" where
  "group_file p \<longleftrightarrow> has_prefix p (cgroupRoot @ [sep])"

definition items_ok :: "cgroup_world \<Rightarrow> bool" where
  "items_ok w \<longleftrightarrow> (\<forall>pid st. cw_items w pid = Some st \<longrightarrow> cg_path st = cgroup_path pid \<and> group_dir (cg_parent st))"

lemma group_dir_file:
  assumes "group_dir p" "plain_elem e"
  shows "Join [p, e] = p @ sep # e" "group_file (Join [p, e])"
proof -
  show j: "Join [p, e] = p @ sep # e"
    using assms by (intro Join_below) (auto simp: group_dir_def cgroupRoot_def)
  show "group_file (Join [p, e])"
    using assms(1) unfolding j group_dir_def group_file_def by (auto simp: prefix_def)
qed

lemma FormatInt_plain: "sep \<notin> set (FormatInt pid)"
  using FormatUint_digits [of sep] by (auto simp: FormatInt_def digit_val_def)

lemma cgroup_path_dir: "group_dir (cgroup_path pid)"
proof -
  let ?es = "[''sys'', ''fs'', ''cgroup'', ''sparkle-service'', ''core-'' @ FormatInt pid]"
  have plain: "\<forall>e\<in>set ?es. plain_elem e" using FormatInt_plain by (simp add: plain_elem_def)
  have p: "cgroup_path pid = sep # join [sep] ?es"
    using Clean_plain_elems [OF plain] by (simp add: cgroup_path_def cgroupRoot_def)
  have "Clean (cgroup_path pid) = cgroup_path pid" unfolding p by (rule Clean_plain_elems [OF plain]) simp
  moreover have "IsAbs (cgroup_path pid)" "has_prefix (cgroup_path pid) (cgroupRoot @ [sep])"
    by (simp_all add: p IsAbs_def cgroupRoot_def)
  ultimately show ?thesis by (simp add: group_dir_def)
qed

lemma plain_names [simp]: "plain_elem ''cgroup.procs''" "plain_elem ''cpuset.cpus''" "plain_elem ''cpuset.mems''"
  by (simp_all add: plain_elem_def)

lemma cgroup_line_root: "cgroup_line ls = [] \<or> (\<exists>c. cgroup_line ls = Join [cgroupRoot, c])"
  by (induction ls) (auto simp del: Join.simps split: option.split)

lemma parent_dir:
  assumes "processCgroupPath pid w = Inr parent" "has_prefix parent (cgroupRoot @ [sep])"
  shows "group_dir parent"
proof -
  obtain c where "parent = [] \<or> parent = Join [cgroupRoot, c]"
    using assms(1) cgroup_line_root by (auto simp: processCgroupPath_def simp del: Join.simps split: sum.splits)
  then have p: "parent = Clean (cgroupRoot @ sep # c)" using assms(2) by (auto simp: cgroupRoot_def)
  have "IsAbs (cgroupRoot @ sep # c)" by (simp add: IsAbs_def cgroupRoot_def)
  from IsAbs_Clean [OF this] Clean_idem_rooted [OF this] show ?thesis
    using assms(2) unfolding group_dir_def p by simp
qed

lemma items_ok_simps [simp]:
  "items_ok (w\<lparr>cw_disk := d\<rparr>) = items_ok w" "items_ok (w\<lparr>cw_writes := l\<rparr>) = items_ok w"
  by (simp_all add: items_ok_def)

lemma items_ok_cong: "cw_items w' = cw_items w \<Longrightarrow> items_ok w' = items_ok w"
  by (simp add: items_ok_def)

lemma items_ok_add:
  "items_ok w \<Longrightarrow> group_dir parent \<Longrightarrow>
    items_ok (w\<lparr>cw_items := (cw_items w)(pid \<mapsto> \<lparr>cg_path = cgroup_path pid, cg_parent = parent\<rparr>)\<rparr>)"
  unfolding items_ok_def by simp

lemma items_ok_drop: "items_ok w \<Longrightarrow> items_ok (w\<lparr>cw_items := (cw_items w)(pid := None)\<rparr>)"
  unfolding items_ok_def by simp

text \<open>An operation that keeps the table well formed and writes below the root only.\<close>

definition tame :: "cgroup_world \<Rightarrow> cgroup_world \<Rightarrow> bool" where
  "tame w w' \<longleftrightarrow> (items_ok w \<longrightarrow> items_ok w') \<and>
     (\<exists>new. cw_writes w' = new @ cw_writes w \<and> (\<forall>p\<in>fst ` set new. group_file p))"

lemma tame_refl: "cw_items w' = cw_items w \<Longrightarrow> cw_writes w' = cw_writes w \<Longrightarrow> tame w w'"
  using items_ok_cong [of w' w] by (simp add: tame_def)

lemma tame_trans: "tame w w1 \<Longrightarrow> tame w1 w2 \<Longrightarrow> tame w w2"
  unfolding tame_def by (elim conjE exE) (simp add: ball_Un image_Un)

lemma tame_write: "cg_writeFile k p data w = (er, w') \<Longrightarrow> group_file p \<Longrightarrow> tame w w' \<and> cw_items w' = cw_items w"
  by (auto simp: cg_writeFile_def tame_def split: prod.splits)

lemma tame_value:
  "writeCgroupValue k dir name v w = (er, w') \<Longrightarrow> group_dir dir \<Longrightarrow> plain_elem name \<Longrightarrow> tame w w' \<and> cw_items w' = cw_items w"
  unfolding writeCgroupValue_def using tame_write group_dir_file(2) by blast

lemma tame_pid: "writeCgroupPID k dir pid w = (er, w') \<Longrightarrow> group_dir dir \<Longrightarrow> tame w w' \<and> cw_items w' = cw_items w"
  unfolding writeCgroupPID_def by (erule tame_value) simp_all

lemma tame_copy:
  "copyCgroupValue k src dst a b w = (er, w') \<Longrightarrow> group_dir dst \<Longrightarrow> plain_elem b \<Longrightarrow> tame w w' \<and> cw_items w' = cw_items w"
  using tame_write [of k "Join [dst, b]"] group_dir_file(2) [of dst b]
  by (auto simp: copyCgroupValue_def tame_refl simp del: Join.simps split: sum.splits)

lemma tame_disk: "tame w w' \<Longrightarrow> tame w (w'\<lparr>cw_disk := d\<rparr>)"
  by (simp add: tame_def)

lemma tame_from_disk: "tame (w\<lparr>cw_disk := d\<rparr>) w' \<Longrightarrow> tame w w'"
  by (simp add: tame_def)

lemma tame_new:
  assumes "new_cgroup k pid parent w = (r, w')" "group_dir parent"
  shows "tame w w'" "r = Inr st \<Longrightarrow> cg_path st = cgroup_path pid"
proof -
  show "r = Inr st \<Longrightarrow> cg_path st = cgroup_path pid"
    using assms(1) by (auto simp: new_cgroup_def Let_def split: prod.splits option.splits mkdir_outcome.splits)
  obtain er1 d1 where m1: "ck_mkdirAll k (Dir (cgroup_path pid)) (cw_disk w) = (er1, d1)" by fastforce
  obtain er2 d2 where m2: "ck_mkdir k (cgroup_path pid) d1 = (er2, d2)" by fastforce
  obtain er3 w3 where c: "copyCgroupValue k parent (cgroup_path pid) ''cpuset.mems.effective'' ''cpuset.mems''
      (w\<lparr>cw_disk := d2\<rparr>) = (er3, w3)" by fastforce
  have t: "tame w w3" using tame_from_disk tame_copy [OF c cgroup_path_dir plain_names(3)] by blast
  have "tame w w" by (rule tame_refl) simp_all
  moreover have "tame w (w3\<lparr>cw_items := (cw_items w3)(pid \<mapsto> \<lparr>cg_path = cgroup_path pid, cg_parent = parent\<rparr>)\<rparr>)"
    using t assms(2) items_ok_add [of w3 parent pid] by (simp add: tame_def)
  ultimately show "tame w w'"
    using assms(1) t tame_disk
    by (auto simp: new_cgroup_def Let_def m1 m2 c split: option.splits mkdir_outcome.splits)
qed

lemma tame_confine:
  assumes "confine k pid cpus st w = (r, w')" "cg_path st = cgroup_path pid"
  shows "tame w w'" "r = (True, None) \<Longrightarrow> \<exists>rest. cw_writes w' =
      (cgroup_path pid @ ''/cgroup.procs'', FormatInt pid) # (cgroup_path pid @ ''/cpuset.cpus'', formatCPURange cpus) # rest"
    "fst r"
proof -
  obtain er1 w1 where v: "writeCgroupValue k (cgroup_path pid) ''cpuset.cpus'' (formatCPURange cpus) w = (er1, w1)" by fastforce
  obtain er2 w2 where p: "writeCgroupPID k (cgroup_path pid) pid w1 = (er2, w2)" by fastforce
  note t = tame_value [OF v cgroup_path_dir plain_names(2)] tame_pid [OF p cgroup_path_dir]
  show "tame w w'" "fst r"
    using assms t tame_trans by (auto simp: confine_def v p split: option.splits)
  assume "r = (True, None)"
  then have "er1 = None" "w' = w2" using assms by (auto simp: confine_def v p split: option.splits)
  then show "\<exists>rest. cw_writes w' =
      (cgroup_path pid @ ''/cgroup.procs'', FormatInt pid) # (cgroup_path pid @ ''/cpuset.cpus'', formatCPURange cpus) # rest"
    using v p group_dir_file(1) [OF cgroup_path_dir plain_names(1)] group_dir_file(1) [OF cgroup_path_dir plain_names(2)]
    by (auto simp: writeCgroupPID_def writeCgroupValue_def cg_writeFile_def simp del: Join.simps split: prod.splits)
qed

lemma tame_release:
  assumes "release k pid st w = (r, w')" "group_dir (cg_parent st)"
  shows "tame w w'"
proof -
  obtain er w1 where p: "writeCgroupPID k (cg_parent st) pid w = (er, w1)" by fastforce
  note t = tame_pid [OF p assms(2)]
  have "tame w (w1\<lparr>cw_disk := d, cw_items := (cw_items w1)(pid := None)\<rparr>)" for d
    using t items_ok_drop [of "w1\<lparr>cw_disk := d\<rparr>" pid] by (simp add: tame_def)
  then show ?thesis using assms(1) t by (auto simp: release_def p split: option.splits)
qed

lemma tame_enable:
  assumes "enableCPUSetController k w = (er, w')"
  shows "tame w w'" "cw_items w' = cw_items w"
proof -
  have "group_file (Join [cgroupRoot, ''cgroup.subtree_control''])" by code_simp
  then show "tame w w'" "cw_items w' = cw_items w"
    using assms tame_write [of k "Join [cgroupRoot, ''cgroup.subtree_control'']"]
    by (auto simp: enableCPUSetController_def writeCgroupValue_def tame_refl simp del: Join.simps
        split: sum.splits if_splits)
qed

lemma setCPUCgroup_cases:
  assumes "setCPUCgroup k euid pid cpus w = (r, w')"
  obtains "\<not> fst r" "w' = w"
  | er w1 where "enableCPUSetController k w = (er, w1)" "w' = w1" "\<not> fst r"
  | w1 st where "enableCPUSetController k w = (None, w1)" "cpus = []" "cw_items w1 pid = Some st" "release k pid st w1 = (r, w')"
  | w1 st where "enableCPUSetController k w = (None, w1)" "cpus \<noteq> []" "cw_items w1 pid = Some st" "confine k pid cpus st w1 = (r, w')"
  | w1 parent er where "enableCPUSetController k w = (None, w1)" "group_dir parent" "new_cgroup k pid parent w1 = (Inl er, w')" "\<not> fst r"
  | w1 parent st w2 where "enableCPUSetController k w = (None, w1)" "cpus \<noteq> []" "group_dir parent"
      "new_cgroup k pid parent w1 = (Inr st, w2)" "confine k pid cpus st w2 = (r, w')"
  using assms parent_dir [of pid w]
  by (auto simp: setCPUCgroup_def split: sum.splits prod.splits option.splits if_splits list.splits)

lemma setCPUCgroup_tame:
  assumes "setCPUCgroup k euid pid cpus w = (r, w')" "items_ok w"
  shows "tame w w'" "cpus \<noteq> [] \<Longrightarrow> r = (True, None) \<Longrightarrow> \<exists>rest. cw_writes w' =
      (cgroup_path pid @ ''/cgroup.procs'', FormatInt pid) # (cgroup_path pid @ ''/cpuset.cpus'', formatCPURange cpus) # rest"
proof -
  have item: "cg_path st = cgroup_path pid" "group_dir (cg_parent st)"
    if "enableCPUSetController k w = (None, w1)" "cw_items w1 pid = Some st" for w1 st
    using that assms(2) tame_enable(2) [OF that(1)] unfolding items_ok_def by metis+
  have "tame w w' \<and> (cpus \<noteq> [] \<longrightarrow> r = (True, None) \<longrightarrow> (\<exists>rest. cw_writes w' =
      (cgroup_path pid @ ''/cgroup.procs'', FormatInt pid) # (cgroup_path pid @ ''/cpuset.cpus'', formatCPURange cpus) # rest))"
    using assms(1)
  proof (cases rule: setCPUCgroup_cases)
    case 1
    then show ?thesis using tame_refl [of w w] by auto
  next
    case (2 er w1)
    then show ?thesis using tame_enable(1) by fastforce
  next
    case (3 w1 st)
    then show ?thesis using tame_trans [OF tame_enable(1) [OF 3(1)] tame_release [OF 3(4) item(2) [OF 3(1,3)]]] by simp
  next
    case (4 w1 st)
    note c = tame_confine [OF 4(4) item(1) [OF 4(1,3)]]
    show ?thesis using tame_trans [OF tame_enable(1) [OF 4(1)] c(1)] c(2) by blast
  next
    case (5 w1 parent er)
    then show ?thesis using tame_trans [OF tame_enable(1) [OF 5(1)] tame_new(1) [OF 5(3,2)]] by auto
  next
    case (6 w1 parent st w2)
    note c = tame_confine [OF 6(5) tame_new(2) [OF 6(4,3) refl]]
    show ?thesis using tame_trans [OF tame_trans [OF tame_enable(1) [OF 6(1)] tame_new(1) [OF 6(4,3)]] c(1)] c(2) by blast
  qed
  then show "tame w w'" "cpus \<noteq> [] \<Longrightarrow> r = (True, None) \<Longrightarrow> \<exists>rest. cw_writes w' =
      (cgroup_path pid @ ''/cgroup.procs'', FormatInt pid) # (cgroup_path pid @ ''/cpuset.cpus'', formatCPURange cpus) # rest"
    by blast+
qed

section \<open>Properties\<close>

lemma SetCPUAffinity_success:
  assumes "SetCPUAffinity lib ck k euid pid cpus restore (g, s) = (None, g', s')" "items_ok g"
  obtains m where "0 < pid" "requested_mask lib cpus restore = Inr m" "cpus \<noteq> []" "s' = s"
      "\<exists>rest. cw_writes g' = (cgroup_path pid @ ''/cgroup.procs'', FormatInt pid) #
         (cgroup_path pid @ ''/cpuset.cpus'', formatCPURange cpus) # rest"
  | m where "0 < pid" "requested_mask lib cpus restore = Inr m" "bind_scans 3 k m s = (None, s')"
proof -
  have pid: "0 < pid" using assms(1) by (auto simp: SetCPUAffinity_def split: if_splits)
  obtain m where m: "requested_mask lib cpus restore = Inr m"
    using assms(1) by (auto simp: SetCPUAffinity_def split: if_splits sum.splits)
  obtain used er g1 where g: "setCPUCgroup ck euid pid cpus g = ((used, er), g1)" by (metis prod.collapse)
  show thesis
  proof (cases "used \<and> cpus \<noteq> []")
    case True
    then have "er = None" "g' = g1" "s' = s"
      using assms(1) pid by (auto simp: SetCPUAffinity_def m g split: option.splits)
    then show thesis using that(1) [OF pid m] True setCPUCgroup_tame(2) [OF g assms(2)] by simp
  next
    case False
    then show thesis using that(2) [OF pid m] assms(1) pid
      by (auto simp: SetCPUAffinity_def m g split: option.splits bool.splits prod.splits)
  qed
qed


text \<open>
  Whatever is asked for and whatever fails, the files that the service writes to confine
  or release a core lie below the root of the control groups, and the table of confined
  cores stays well formed, so that the next call is as safe; a CPU number outside the
  supported range or a bad process number changes nothing at all.
\<close>

theorem affinity_writes_confined:
  assumes "SetCPUAffinity lib ck k euid pid cpus restore (g, s) = (er, g', s')" "items_ok g"
  shows "items_ok g' \<and> (\<exists>new. cw_writes g' = new @ cw_writes g \<and>
      (\<forall>p\<in>fst ` set new. has_prefix p (cgroupRoot @ [sep]))) \<and>
    ((pid \<le> 0 \<or> (\<exists>cpu\<in>set cpus. cpu < 0 \<or> 1024 \<le> cpu)) \<longrightarrow> er \<noteq> None \<and> g' = g \<and> s' = s)"
proof -
  have bad: "er \<noteq> None \<and> g' = g \<and> s' = s" if out: "pid \<le> 0 \<or> (\<exists>cpu\<in>set cpus. cpu < 0 \<or> 1024 \<le> cpu)"
  proof (cases "pid \<le> 0")
    case False
    then have "find (\<lambda>cpu. cpu < 0 \<or> 1024 \<le> cpu) cpus \<noteq> None" "cpus \<noteq> []"
      using out by (auto simp: find_None_iff)
    then show ?thesis using assms(1) False by (auto simp: SetCPUAffinity_def requested_mask_def)
  qed (use assms(1) in \<open>auto simp: SetCPUAffinity_def\<close>)
  have "g' = g \<or> (\<exists>r. setCPUCgroup ck euid pid cpus g = (r, g'))"
    using assms(1) by (auto simp: SetCPUAffinity_def split: if_splits sum.splits prod.splits option.splits bool.splits)
  then have "tame g g'" using setCPUCgroup_tame(1) [OF _ assms(2)] tame_refl [of g g] by auto
  then show ?thesis using assms(2) bad by (auto simp: tame_def group_file_def)
qed

text \<open>A core with one thread that starts a second one during the first scan.\<close>

definition sample_cpu_lib :: "int set cpu_lib" where
  "sample_cpu_lib = \<lparr>cl_zero = {}, cl_set = insert, cl_isSet = (\<lambda>m c. c \<in> m), cl_own = Inr {0, 1}\<rparr>"

definition sample_sched :: "int set sched" where
  "sample_sched = \<lparr>sc_events = (\<lambda>c. if c = 1 then [Clone 7 8] else []),
     sc_list = (\<lambda>c live. if dom live \<subseteq> {7, 8} then Inr (if live 8 = None then [''7'', ''x''] else [''7'', ''8'']) else Inl ''task''),
     sc_set = (\<lambda>c tid m. Inr m), sc_get = (\<lambda>c tid. None)\<rparr>"

definition sample_tasks :: "int set tasks" where
  "sample_tasks = \<lparr>ts_mask = [7 \<mapsto> {0, 1}], ts_clock = 0, ts_born = 0\<rparr>"

definition sample_groups :: cgroup_world where
  "sample_groups = \<lparr>cw_items = Map.empty, cw_disk = (\<lambda>p. Absent), cw_writes = []\<rparr>"

definition sample_cgroup_kernel :: cgroup_kernel where
  "sample_cgroup_kernel = \<lparr>ck_write = (\<lambda>p data d. (None, d(p := Content data))), ck_mkdirAll = (\<lambda>p d. (None, d)),
     ck_mkdir = (\<lambda>p d. (MkdirOK, d)), ck_remove = (\<lambda>p d. d)\<rparr>"

lemma sample_tids: "ParseInt ''7'' 64 = Some 7" "ParseInt ''8'' 64 = Some 8" "ParseInt ''x'' 64 = None"
  by (simp_all add: ParseInt_def ParseUint_def digit_val_def)

lemma sample_sched_law: "sched_law sample_sched m m"
  using sample_tids by (auto simp: sched_law_def sample_sched_def ESRCH_def split: if_splits)

lemma sample_scans:
  "\<exists>s'. bind_scans 3 sample_sched {0} sample_tasks = (None, s') \<and> ts_born s' = 1 \<and> ts_mask s' 8 = Some {0}"
  by (simp add: numeral_3_eq_3 sample_sched_def sample_tasks_def disturb_def SchedSetaffinity_def SchedGetaffinity_def
      Let_def sample_tids)


text \<open>A core whose own control group is already there: the service has been restarted.\<close>

definition adopted_groups :: cgroup_world where
  "adopted_groups = sample_groups\<lparr>cw_disk := (\<lambda>p. Absent)
     (''/proc/7/cgroup'' := Content ''0::/sparkle-service/core-7'',
      ''/sys/fs/cgroup/cgroup.subtree_control'' := Content ''cpuset'',
      ''/sys/fs/cgroup/sparkle-service/core-7/cpuset.mems.effective'' := Content ''0'')\<rparr>"

lemma sample_group_paths:
  "''/proc/'' @ FormatInt 7 @ ''/cgroup'' = ''/proc/7/cgroup''"
  "Join [cgroupRoot, ''cgroup.subtree_control''] = ''/sys/fs/cgroup/cgroup.subtree_control''"
  "cgroup_line (split_on LF ''0::/sparkle-service/core-7'') = ''/sys/fs/cgroup/sparkle-service/core-7''"
  "contains ''cpuset'' ''cpuset''" "has_prefix ''/sys/fs/cgroup/sparkle-service/core-7'' (cgroupRoot @ [sep])"
  "cgroup_path 7 = ''/sys/fs/cgroup/sparkle-service/core-7''"
  "Join [''/sys/fs/cgroup/sparkle-service/core-7'', ''cpuset.mems.effective''] = ''/sys/fs/cgroup/sparkle-service/core-7/cpuset.mems.effective''"
  by code_simp+

text \<open>
  Releasing a core that a former instance of the service confined does not release it:
  with no entry in the table the call falls through to the scheduler and leaves the
  group as it is.
\<close>

lemma adopted_core_stays_confined:
  "setCPUCgroup sample_cgroup_kernel 0 7 [] adopted_groups = ((False, None), adopted_groups)"
  using sample_group_paths
  by (simp add: setCPUCgroup_def processCgroupPath_def cg_readFile_def adopted_groups_def sample_groups_def
      enableCPUSetController_def del: Join.simps)

text \<open>
  And if the new instance has confined it again, the parent it remembers is the core's own
  group, so that a release puts the process back where it is.
\<close>

lemma adopted_core_parent:
  "map_option cg_parent (cw_items (snd (setCPUCgroup sample_cgroup_kernel 0 7 [0] adopted_groups)) 7) = Some (cgroup_path 7)"
  by code_simp

lemma adopted_group_writes:
  "map fst (cw_writes (snd (setCPUCgroup sample_cgroup_kernel 0 7 [0] adopted_groups))) =
    [''/sys/fs/cgroup/sparkle-service/core-7/cgroup.procs'', ''/sys/fs/cgroup/sparkle-service/core-7/cpuset.cpus'',
     ''/sys/fs/cgroup/sparkle-service/core-7/cpuset.mems'']"
  "fst (setCPUCgroup sample_cgroup_kernel 0 7 [0] adopted_groups) = (True, None)"
  by code_simp+

theorem affinity_writes_confined_witness:
  "\<exists>g'. SetCPUAffinity sample_cpu_lib sample_cgroup_kernel sample_sched 0 7 [0] [] (adopted_groups, sample_tasks) =
     (None, g', sample_tasks) \<and> length (cw_writes g') = 3 \<and> (\<forall>p\<in>fst ` set (cw_writes g'). has_prefix p (cgroupRoot @ [sep]))"
proof -
  obtain g' where g: "setCPUCgroup sample_cgroup_kernel 0 7 [0] adopted_groups = ((True, None), g')"
    using adopted_group_writes(2) by (metis prod.collapse)
  have set: "SetCPUAffinity sample_cpu_lib sample_cgroup_kernel sample_sched 0 7 [0] [] (adopted_groups, sample_tasks) =
     (None, g', sample_tasks)"
    by (simp add: SetCPUAffinity_def requested_mask_def g)
  have "items_ok adopted_groups" "cw_writes adopted_groups = []"
    by (simp_all add: items_ok_def adopted_groups_def sample_groups_def)
  moreover have "length (cw_writes g') = 3" using adopted_group_writes(1) g by (metis length_map length_Cons list.size(3) numeral_3_eq_3 snd_conv)
  ultimately show ?thesis using affinity_writes_confined [OF set] set by simp
qed

end
