(* ===== verification/StartupNotify.thy ===== *)
theory StartupNotify
  imports LaunchSession SandboxRoot ProcessControl Interfaces
begin

text \<open>
  The transport of the start-up notification on Linux and macOS
  (\<open>core/startup_notify_unix.go\<close>, \<open>core/startup_notify.go\<close>): a private directory below the
  temporary directory holds a socket; the core runs the service's own executable as its
  post-up command, and that process sends the token to the socket.  Left-over directories
  of services that are gone are removed first.  The private endpoint of the controller
  (\<open>core/controller/endpoint_unix.go\<close>) and the hardening of the core binary
  (\<open>core/security/binary_unix.go\<close>) are here too.
\<close>

section \<open>Directories\<close>

text \<open>
  A directory entry below the temporary directory, with the one socket the service may
  have put into it: its path, its permission bits, and whether somebody listens.
\<close>

record notify_dir =
  nd_info :: lstat_result
  nd_sock :: "(string \<times> nat) option"
  nd_listening :: bool

definition no_dir :: notify_dir where
  "no_dir = \<lparr>nd_info = LMissing, nd_sock = None, nd_listening = False\<rparr>"

type_synonym notify_fs = "string \<Rightarrow> notify_dir"

text \<open>
  What the operating system answers: the temporary directory, the process and its user,
  the matches of the pattern, \<open>kill(pid, 0)\<close> as an error number, the random part of a new
  directory's name, the two \<open>chmod\<close>s, the permission bits that the umask leaves to a new
  socket, the path of the executable, and what a removal leaves if it fails.
\<close>

record notify_env =
  ne_tmp :: string
  ne_pid :: nat
  ne_euid :: int
  ne_glob :: "string list option"
  ne_kill :: "int \<Rightarrow> nat option"
  ne_mkdtemp :: "(string, string) result"
  ne_chmod_dir :: "string option"
  ne_listen :: "(string, nat) result"
  ne_chmod_sock :: "string option"
  ne_executable :: "(string, string) result"
  ne_remove :: "string \<Rightarrow> notify_dir option"

definition EPERM :: nat where "EPERM = 1"

definition startupNotifyDirPrefix :: string where
  "startupNotifyDirPrefix = ''sparkle-core-notify-''"

text \<open>\<open>os.RemoveAll\<close>; \<open>False\<close> stands for an error.\<close>

definition remove_dir :: "notify_env \<Rightarrow> string \<Rightarrow> notify_fs \<Rightarrow> bool \<times> notify_fs" where
  "remove_dir e dir d = (case ne_remove e dir of
     None \<Rightarrow> (True, d(dir := no_dir))
   | Some left \<Rightarrow> (False, d(dir := left)))"

section \<open>Left-over directories\<close>

definition startupNotifyOwnerActive :: "(int \<Rightarrow> nat option) \<Rightarrow> string \<Rightarrow> bool" where
  "startupNotifyOwnerActive kill dir =
    (let base = Base dir;
         name = (case cut_prefix base startupNotifyDirPrefix of None \<Rightarrow> base | Some n \<Rightarrow> n)
     in case cut name ''-'' of None \<Rightarrow> True
        | Some (pidValue, _) \<Rightarrow>
           (case ParseInt pidValue 64 of None \<Rightarrow> True
            | Some pid \<Rightarrow> pid \<le> 0 \<or> kill pid = None \<or> kill pid = Some EPERM))"

definition removeStartupNotifyDir :: "notify_env \<Rightarrow> string \<Rightarrow> notify_fs \<Rightarrow> string option \<times> notify_fs" where
  "removeStartupNotifyDir e dir0 d =
    (let dir = Clean dir0
     in if Dir dir \<noteq> Clean (ne_tmp e) \<or> \<not> has_prefix (Base dir) startupNotifyDirPrefix then (None, d)
        else case nd_info (d dir) of
          LMissing \<Rightarrow> (None, d)
        | LError er \<Rightarrow> (Some er, d)
        | LInfo i \<Rightarrow>
           if \<not> private_dir (ne_euid e) i then (None, d)
           else (case remove_dir e dir d of
                   (True, d1) \<Rightarrow> (None, d1)
                 | (False, d1) \<Rightarrow> (Some dir, d1)))"

text \<open>The errors of single removals are only logged.\<close>

definition cleanupStaleStartupNotifyDirs :: "notify_env \<Rightarrow> notify_fs \<Rightarrow> notify_fs" where
  "cleanupStaleStartupNotifyDirs e d =
    (case ne_glob e of None \<Rightarrow> d
     | Some dirs \<Rightarrow>
        fold (\<lambda>dir d. if startupNotifyOwnerActive (ne_kill e) dir then d
                else snd (removeStartupNotifyDir e dir d)) dirs d)"

section \<open>The hook\<close>

definition startupNotifyModeEnv :: string where "startupNotifyModeEnv = ''SPARKLE_CORE_STARTUP_NOTIFY''"
definition startupNotifyNetworkEnv :: string where "startupNotifyNetworkEnv = ''SPARKLE_CORE_STARTUP_NOTIFY_NETWORK''"
definition startupNotifyAddressEnv :: string where "startupNotifyAddressEnv = ''SPARKLE_CORE_STARTUP_NOTIFY_ADDRESS''"
definition startupNotifyTokenEnv :: string where "startupNotifyTokenEnv = ''SPARKLE_CORE_STARTUP_NOTIFY_TOKEN''"

lemmas notify_env_names = startupNotifyModeEnv_def startupNotifyNetworkEnv_def startupNotifyAddressEnv_def
  startupNotifyTokenEnv_def

definition startupNotificationEnv :: "string \<Rightarrow> string \<Rightarrow> string \<Rightarrow> (string \<times> string) list" where
  "startupNotificationEnv network address token =
    [(startupNotifyModeEnv, ''1''), (startupNotifyNetworkEnv, network),
     (startupNotifyAddressEnv, address), (startupNotifyTokenEnv, token)]"

datatype notify_error =
    MkdirNotify string
  | ChmodNotifyDir string
  | ListenNotify string
  | ChmodNotifySocket string
  | NoExecutable string
  | NoToken string

definition noopShellCommand :: string where
  "noopShellCommand = ''true''"

definition startupNotifyCommand :: "(string, string) result \<Rightarrow> (notify_error, string) result" where
  "startupNotifyCommand executable = (case executable of
     Inl er \<Rightarrow> Inl (NoExecutable er) | Inr path \<Rightarrow> Inr (shellQuote path))"

text \<open>\<open>os.MkdirTemp\<close>: the pattern's star becomes \<open>random\<close>; the directory is private from the start.\<close>

definition mkdtemp_path :: "string \<Rightarrow> string \<Rightarrow> string" where
  "mkdtemp_path tmp name = (if tmp \<noteq> [] \<and> last tmp = sep then tmp @ name else tmp @ sep # name)"

definition notify_dir_name :: "nat \<Rightarrow> string \<Rightarrow> string" where
  "notify_dir_name pid random = startupNotifyDirPrefix @ FormatUint pid @ ''-'' @ random"

definition private_info :: "int \<Rightarrow> lstat_result" where
  "private_info euid = LInfo \<lparr>fi_isDir = True, fi_symlink = False, fi_uid = euid, fi_perm = 448\<rparr>"

text \<open>
  The hook comes with its directory, which its clean-up closes and removes.  Closing a
  listener removes its socket.
\<close>

definition close_listener :: "string \<Rightarrow> notify_fs \<Rightarrow> notify_fs" where
  "close_listener dir d = d(dir := (d dir)\<lparr>nd_sock := None, nd_listening := False\<rparr>)"

definition hook_cleanup :: "notify_env \<Rightarrow> string \<Rightarrow> notify_fs \<Rightarrow> notify_fs" where
  "hook_cleanup e dir d = snd (remove_dir e dir (close_listener dir d))"

definition createNativeStartupHook ::
    "notify_env \<Rightarrow> string \<Rightarrow> notify_fs \<Rightarrow> (notify_error, coreStartupHook \<times> string) result \<times> notify_fs" where
  "createNativeStartupHook e token d0 =
    (let d = cleanupStaleStartupNotifyDirs e d0 in
     case ne_mkdtemp e of Inl er \<Rightarrow> (Inl (MkdirNotify er), d)
     | Inr random \<Rightarrow>
        let socketDir = mkdtemp_path (ne_tmp e) (notify_dir_name (ne_pid e) random);
            d1 = d(socketDir := no_dir\<lparr>nd_info := private_info (ne_euid e)\<rparr>) in
     (case ne_chmod_dir e of Some er \<Rightarrow> (Inl (ChmodNotifyDir er), snd (remove_dir e socketDir d1))
      | None \<Rightarrow>
        let socketPath = Join [socketDir, token @ ''.sock''] in
     (case ne_listen e of Inl er \<Rightarrow> (Inl (ListenNotify er), snd (remove_dir e socketDir d1))
      | Inr perm \<Rightarrow>
        let d2 = d1(socketDir := (d1 socketDir)\<lparr>nd_sock := Some (socketPath, perm), nd_listening := True\<rparr>) in
     (case ne_chmod_sock e of Some er \<Rightarrow> (Inl (ChmodNotifySocket er), hook_cleanup e socketDir d2)
      | None \<Rightarrow>
        let d3 = d2(socketDir := (d2 socketDir)\<lparr>nd_sock := Some (socketPath, 384)\<rparr>) in
     (case startupNotifyCommand (ne_executable e) of Inl er \<Rightarrow> (Inl er, hook_cleanup e socketDir d3)
      | Inr command \<Rightarrow>
        (Inr (\<lparr>hk_upFile = socketPath, hk_postUpCommand = command, hk_postDownCommand = noopShellCommand,
               hk_env = startupNotificationEnv ''unix'' socketPath token\<rparr>, socketDir), d3))))))"

text \<open>\<open>randomToken\<close> on the bytes that the random source delivers, and \<open>createCoreStartupHook\<close>.\<close>

definition randomToken :: "(string, bytes) result \<Rightarrow> (notify_error, string) result" where
  "randomToken source = (case source of Inl er \<Rightarrow> Inl (NoToken er) | Inr data \<Rightarrow> Inr (hex_encode data))"

definition createCoreStartupHook ::
    "notify_env \<Rightarrow> (string, bytes) result \<Rightarrow> notify_fs \<Rightarrow> (notify_error, coreStartupHook \<times> string) result \<times> notify_fs" where
  "createCoreStartupHook e source d =
    (case randomToken source of Inl er \<Rightarrow> (Inl er, d) | Inr token \<Rightarrow> createNativeStartupHook e token d)"

section \<open>The notification\<close>

text \<open>
  What the sending process puts on the wire, if it can: \<open>dial\<close> answers whether a
  connection to an address comes about, \<open>write\<close> whether the token gets through.  The
  result is an error text, or the address and the bytes delivered.
\<close>

definition sendNativeStartupNotification ::
    "(string \<Rightarrow> string option) \<Rightarrow> string option \<Rightarrow> string \<Rightarrow> string \<Rightarrow> string \<Rightarrow> (string, string \<times> bytes) result" where
  "sendNativeStartupNotification dial write network address token =
    (if network \<noteq> ''unix'' then Inl ''network''
     else case dial address of Some er \<Rightarrow> Inl er
     | None \<Rightarrow> (case write of Some er \<Rightarrow> Inl er | None \<Rightarrow> Inr (address, token)))"

text \<open>
  The package's \<open>init\<close>: a process started in the notification mode sends and exits; any
  other goes on (\<open>None\<close>).
\<close>

definition startup_init ::
    "(string \<Rightarrow> string) \<Rightarrow> (string \<Rightarrow> string option) \<Rightarrow> string option \<Rightarrow> (nat \<times> (string \<times> bytes) option) option" where
  "startup_init getenv dial write =
    (if getenv startupNotifyModeEnv \<noteq> ''1'' then None
     else case sendNativeStartupNotification dial write (getenv startupNotifyNetworkEnv)
            (getenv startupNotifyAddressEnv) (getenv startupNotifyTokenEnv) of
       Inl er \<Rightarrow> Some (125, None)
     | Inr sent \<Rightarrow> Some (0, Some sent))"

text \<open>\<open>waitNotification\<close> on what \<open>Accept\<close> and the reading of the connection gave.\<close>

definition waitNotification :: "(string, (string, bytes) result) result \<Rightarrow> string \<Rightarrow> bool \<times> string option" where
  "waitNotification conn token = (case conn of
     Inl er \<Rightarrow> (True, Some er)
   | Inr (Inl er) \<Rightarrow> (False, Some er)
   | Inr (Inr sent) \<Rightarrow> (False, if readStartupNotification sent token then None else Some ''token''))"

section \<open>The controller endpoint\<close>

definition EndpointReachable :: "(string \<Rightarrow> bool) \<Rightarrow> string \<Rightarrow> string \<Rightarrow> bool" where
  "EndpointReachable dial network address \<longleftrightarrow> network = ''unix'' \<and> dial address"

text \<open>The endpoint comes with the directory that its clean-up removes.\<close>

definition CreatePrivateEndpoint ::
    "notify_env \<Rightarrow> notify_fs \<Rightarrow> (notify_error, (string \<times> string) \<times> string) result \<times> notify_fs" where
  "CreatePrivateEndpoint e d =
    (case ne_mkdtemp e of Inl er \<Rightarrow> (Inl (MkdirNotify er), d)
     | Inr random \<Rightarrow>
        let dir = mkdtemp_path (ne_tmp e) (''sparkle-mihomo-controller-'' @ random);
            d1 = d(dir := no_dir\<lparr>nd_info := private_info (ne_euid e)\<rparr>) in
     (case ne_chmod_dir e of Some er \<Rightarrow> (Inl (ChmodNotifyDir er), snd (remove_dir e dir d1))
      | None \<Rightarrow> (Inr ((''unix'', Join [dir, ''controller.sock'']), dir), d1)))"

section \<open>Permission bits\<close>

text \<open>
  \<open>os.FileMode\<close> is a 32-bit word: nine permission bits, and the set-user-ID, set-group-ID
  and sticky bits higher up, which \<open>chmod\<close> sets together; the bits of the file type stay.
  A path has a mode or cannot be read, and \<open>chmod\<close> may be refused.
\<close>

unbundle bit_operations_syntax

type_synonym mode = "32 word"

type_synonym modes = "string \<Rightarrow> mode option"

definition chmod_bits :: mode where "chmod_bits = 0xD001FF"

definition chmod :: "(string \<Rightarrow> string option) \<Rightarrow> string \<Rightarrow> mode \<Rightarrow> modes \<Rightarrow> string option \<times> modes" where
  "chmod refuse path m fs = (case fs path of None \<Rightarrow> (Some ''stat'', fs)
     | Some old \<Rightarrow> (case refuse path of Some er \<Rightarrow> (Some er, fs)
         | None \<Rightarrow> (None, fs(path \<mapsto> (old AND NOT chmod_bits) OR (m AND chmod_bits)))))"

definition HardenEndpoint :: "(string \<Rightarrow> string option) \<Rightarrow> string \<Rightarrow> string \<Rightarrow> modes \<Rightarrow> string option \<times> modes" where
  "HardenEndpoint refuse network address fs =
    (if network \<noteq> ''unix'' then (None, fs)
     else case chmod refuse (Dir address) 0x1C0 fs of
       (Some er, fs1) \<Rightarrow> (Some er, fs1)
     | (None, fs1) \<Rightarrow> chmod refuse address 0x180 fs1)"

definition removeGroupAndOtherWrite :: "(string \<Rightarrow> string option) \<Rightarrow> string \<Rightarrow> modes \<Rightarrow> string option \<times> modes" where
  "removeGroupAndOtherWrite refuse path fs =
    (case fs path of None \<Rightarrow> (Some ''stat'', fs)
     | Some m \<Rightarrow> if m AND 0x12 = 0 then (None, fs) else chmod refuse path (m AND NOT 0x12) fs)"

definition SecureBinary :: "(string \<Rightarrow> string option) \<Rightarrow> string \<Rightarrow> bool \<Rightarrow> string \<Rightarrow> modes \<Rightarrow> string option \<times> modes" where
  "SecureBinary refuse skipEnv skipHardening corePath fs =
    (if skipHardening \<or> skipEnv = ''1'' then (None, fs)
     else case removeGroupAndOtherWrite refuse (Dir corePath) fs of
       (Some er, fs1) \<Rightarrow> (Some er, fs1)
     | (None, fs1) \<Rightarrow> removeGroupAndOtherWrite refuse corePath fs1)"

end
