(* ===== verification/StartupNotifyProps.thy ===== *)
theory StartupNotifyProps
  imports StartupNotify LaunchProfileProps
begin

text \<open>
  What the notification transport guarantees: nothing of other services is removed, a hook
  is created completely or not at all, the token that the hook hands to the core comes
  back and only it is accepted, and a hardened binary cannot be written by others.
\<close>

section \<open>Other services' directories\<close>

lemma remove_dir_other: "q \<noteq> p \<Longrightarrow> snd (remove_dir e p d) q = d q"
  by (simp add: remove_dir_def split: option.split)

text \<open>The directories that the service may remove, and can: its own private ones.\<close>

definition removable :: "notify_env \<Rightarrow> string \<Rightarrow> notify_dir \<Rightarrow> bool" where
  "removable e dir n \<longleftrightarrow> Dir dir = Clean (ne_tmp e) \<and> has_prefix (Base dir) startupNotifyDirPrefix
     \<and> (\<exists>i. nd_info n = LInfo i \<and> private_dir (ne_euid e) i)"

lemma removeStartupNotifyDir_cases:
  "snd (removeStartupNotifyDir e p d) =
    (if removable e (Clean p) (d (Clean p)) then snd (remove_dir e (Clean p) d) else d)"
  by (auto simp: removeStartupNotifyDir_def removable_def Let_def split: lstat_result.split prod.split bool.split)

interpretation notify_sweep: careful_sweep "startupNotifyOwnerActive (ne_kill e)"
    "\<lambda>dir d. snd (removeStartupNotifyDir e dir d)" Clean "\<lambda>dir n. \<not> removable e dir n"
  for e
  by unfold_locales (auto simp: removeStartupNotifyDir_cases remove_dir_other)

interpretation notify_removal: thorough_sweep "startupNotifyOwnerActive (ne_kill e)"
    "\<lambda>dir d. snd (removeStartupNotifyDir e dir d)" Clean
    "\<lambda>dir n. removable e dir n \<and> ne_remove e dir = None" no_dir
  for e
  by unfold_locales (auto simp: removeStartupNotifyDir_cases removable_def no_dir_def remove_dir_def)

lemma cleanup_spares:
  assumes "\<not> removable e q (d q) \<or> (\<forall>dirs. ne_glob e = Some dirs \<longrightarrow>
    (\<forall>p\<in>set dirs. Clean p = q \<longrightarrow> startupNotifyOwnerActive (ne_kill e) p))"
  shows "cleanupStaleStartupNotifyDirs e d q = d q"
  using assms notify_sweep.alien_spared [of e q d] notify_sweep.spared [of _ q e d]
  by (auto simp: cleanupStaleStartupNotifyDirs_def split: option.split)

lemma owner_of_dir:
  assumes "Base dir = notify_dir_name pid random" "0 < pid" "pid < 2 ^ 63"
  shows "startupNotifyOwnerActive kill dir \<longleftrightarrow> kill (int pid) = None \<or> kill (int pid) = Some EPERM"
proof -
  let ?rest = "FormatUint pid @ ''-'' @ random"
  have base: "Base dir = startupNotifyDirPrefix @ ?rest" using assms(1) by (simp add: notify_dir_name_def)
  have prefix: "cut_prefix (startupNotifyDirPrefix @ ?rest) startupNotifyDirPrefix = Some ?rest"
    by (simp add: cut_prefix_Some)
  have c: "cut ?rest ''-'' = Some (FormatUint pid, random)"
    using cut_single [OF FormatUint_no_sign(1), of pid random] by simp
  show ?thesis unfolding startupNotifyOwnerActive_def base Let_def prefix option.case c prod.case
    using assms(2,3) by (simp add: ParseInt_FormatUint)
qed

section \<open>Creating a hook\<close>

lemma fresh_not_removable: "d q = no_dir \<Longrightarrow> \<not> removable e q (d q)"
  by (simp add: removable_def no_dir_def)

lemma remove_fresh: "ne_remove e p = None \<Longrightarrow> d p = no_dir \<Longrightarrow> snd (remove_dir e p (d(p := n))) = d"
  by (auto simp: remove_dir_def)

lemma hook_cleanup_fresh: "ne_remove e p = None \<Longrightarrow> d p = no_dir \<Longrightarrow> hook_cleanup e p (d(p := n)) = d"
  by (auto simp: hook_cleanup_def close_listener_def remove_dir_def)


section \<open>The token\<close>

lemma hex_graphic: "c \<in> set (hex_encode bs) \<Longrightarrow> graphic c"
  using hex_encode_chars [of c bs] by (auto simp: hex_char_def graphic_def Let_def)

lemma read_token: "readStartupNotification (hex_encode bs) (hex_encode bs)"
  using TrimSpace_graphic [of "hex_encode bs"] hex_graphic by (simp add: readStartupNotification_def)

lemma read_token_sublist: "readStartupNotification sent token \<Longrightarrow> sublist token sent"
proof -
  assume "readStartupNotification sent token"
  then have "token = TrimSpace (take (length token + 16) sent)" by (simp add: readStartupNotification_def)
  also have "sublist \<dots> (strip_leading space_runes (take (length token + 16) sent))"
    unfolding TrimSpace_def by (rule prefix_imp_sublist) (rule strip_trailing_prefix)
  also have "sublist \<dots> (take (length token + 16) sent)" by (rule suffix_imp_sublist) (rule strip_leading_suffix)
  also have "sublist \<dots> sent" by (rule prefix_imp_sublist) (rule take_is_prefix)
  finally show ?thesis .
qed

text \<open>The environment as the process that the core starts sees it: the first entry of a name counts.\<close>

definition getenv_of :: "string list \<Rightarrow> string \<Rightarrow> string" where
  "getenv_of env k = (case entries env k of [] \<Rightarrow> '''' | v # vs \<Rightarrow> v)"

lemma created_hook:
  assumes "createNativeStartupHook e token d = (Inr (hook, dir), d')"
  obtains executable where "ne_executable e = Inr executable" "hk_postUpCommand hook = shellQuote executable"
    "hk_env hook = startupNotificationEnv ''unix'' (hk_upFile hook) token"
    "nd_sock (d' dir) = Some (hk_upFile hook, 384)" "nd_listening (d' dir)"
  using assms by (auto simp: createNativeStartupHook_def startupNotifyCommand_def Let_def split: sum.splits option.splits)

lemma notification_env:
  assumes "\<forall>k\<in>fst ` set (Env p). CHR ''='' \<notin> set k" and "map_of (startupNotificationEnv network address token) k = Some v"
  shows "getenv_of (buildLaunchEnv w p (startupNotificationEnv network address token)) k = v"
proof -
  let ?m = "startupNotificationEnv network address token"
  have "map_of (rev ?m) = map_of ?m"
    by (rule map_of_rev_distinct) (simp add: startupNotificationEnv_def notify_env_names)
  moreover have "\<forall>k\<in>fst ` set ?m. CHR ''='' \<notin> set k" by (simp add: startupNotificationEnv_def notify_env_names)
  ultimately show ?thesis using assms launch_env_entries [of p ?m w k] by (simp add: getenv_of_def ball_Un)
qed


definition sample_notify :: notify_env where
  "sample_notify = \<lparr>ne_tmp = ''/tmp'', ne_pid = 7, ne_euid = 0, ne_glob = Some [''/tmp/sparkle-core-notify-3-x''],
     ne_kill = (\<lambda>p. if p = 3 then Some 3 else None), ne_mkdtemp = Inr ''r'', ne_chmod_dir = None, ne_listen = Inr 493,
     ne_chmod_sock = None, ne_executable = Inr ''/usr/bin/sparkle'', ne_remove = (\<lambda>p. None)\<rparr>"

definition sample_hook :: coreStartupHook where
  "sample_hook = \<lparr>hk_upFile = ''/tmp/sparkle-core-notify-7-r/6162.sock'', hk_postUpCommand = shellQuote ''/usr/bin/sparkle'',
     hk_postDownCommand = ''true'',
     hk_env = startupNotificationEnv ''unix'' ''/tmp/sparkle-core-notify-7-r/6162.sock'' ''6162''\<rparr>"

definition sample_dirs :: notify_fs where
  "sample_dirs = (\<lambda>p. no_dir)(''/tmp/sparkle-core-notify-3-x'' := no_dir\<lparr>nd_info := private_info 0\<rparr>)"

lemma sample_stale: "\<not> startupNotifyOwnerActive (ne_kill sample_notify) ''/tmp/sparkle-core-notify-3-x''"
proof -
  have "Base ''/tmp/sparkle-core-notify-3-x'' = notify_dir_name 3 ''x''" by code_simp
  from owner_of_dir [OF this, of "ne_kill sample_notify"] show ?thesis by (simp add: sample_notify_def EPERM_def)
qed

lemma sample_swept: "cleanupStaleStartupNotifyDirs sample_notify sample_dirs = (\<lambda>p. no_dir)"
proof -
  have "Clean ''/tmp/sparkle-core-notify-3-x'' = ''/tmp/sparkle-core-notify-3-x''"
    "Dir ''/tmp/sparkle-core-notify-3-x'' = Clean ''/tmp''"
    "has_prefix (Base ''/tmp/sparkle-core-notify-3-x'') startupNotifyDirPrefix" by code_simp+
  then have "snd (removeStartupNotifyDir sample_notify ''/tmp/sparkle-core-notify-3-x'' sample_dirs) = (\<lambda>p. no_dir)"
    unfolding removeStartupNotifyDir_cases
    by (auto simp: removable_def sample_notify_def sample_dirs_def remove_dir_def private_info_def private_dir_def)
  then show ?thesis using sample_stale by (simp add: cleanupStaleStartupNotifyDirs_def sample_notify_def)
qed

lemma sample_path:
  "mkdtemp_path (ne_tmp sample_notify) (notify_dir_name (ne_pid sample_notify) ''r'') = ''/tmp/sparkle-core-notify-7-r''"
  "Join [''/tmp/sparkle-core-notify-7-r'', ''6162.sock''] = ''/tmp/sparkle-core-notify-7-r/6162.sock''"
  by code_simp+

lemma sample_hook_created:
  "fst (createNativeStartupHook sample_notify ''6162'' sample_dirs) = Inr (sample_hook, ''/tmp/sparkle-core-notify-7-r'')"
proof -
  have "ne_mkdtemp sample_notify = Inr ''r''" "ne_chmod_dir sample_notify = None" "ne_listen sample_notify = Inr 493"
    "ne_chmod_sock sample_notify = None" "ne_executable sample_notify = Inr ''/usr/bin/sparkle''"
    by (simp_all add: sample_notify_def)
  then show ?thesis
    by (simp add: createNativeStartupHook_def Let_def sample_path startupNotifyCommand_def sample_hook_def
        noopShellCommand_def del: Join.simps)
qed


definition hook_prepare :: prepare_env where
  "hook_prepare = sample_prepare\<lparr>pe_hook := Inr sample_hook\<rparr>"

lemma hook_prepares:
  "\<exists>s. prepareLaunchSession sample_host sample_codec hook_prepare 1 (Some sample_profile)
         \<lparr>fa_groupID = 0, fa_ok = False\<rparr> d = (Inr s, []) \<and> Env (ls_profile s) = Env sample_normal"
proof -
  have "resolveCoreExecutablePath sample_host (CorePath sample_normal) True = Inr ''/srv/mihomo''"
    by code_simp
  moreover have "resolveLaunchWorkingDir sample_host ''/srv/mihomo''
      ([''-post-up'', hk_postUpCommand sample_hook, ''-post-down'', hk_postDownCommand sample_hook,
        ''-ext-ctl-unix'', ''/tmp/c/controller.sock''] @ stripControllerArgs (Args sample_normal)) = Inr ''/srv''"
    by code_simp
  ultimately show ?thesis
    by (simp add: prepareLaunchSession_def resolveLaunchProfile_def sample_normalizes sample_prepare_def
        hook_prepare_def configureManagedController_def Let_def sample_normal_def)
qed


section \<open>Hardening\<close>

lemma mask_parts: "(m AND NOT b) OR (m AND b) = (m :: mode)"
  by (simp add: bit.conj_disj_distrib [symmetric])

lemma chmod_clears: "(m AND NOT chmod_bits) OR ((m AND NOT 0x12) AND chmod_bits) = m AND NOT 0x12"
proof -
  have "m AND NOT chmod_bits = m AND NOT 0x12 AND NOT chmod_bits" by (simp add: chmod_bits_def and.assoc)
  then show ?thesis using mask_parts [of "m AND NOT 0x12" chmod_bits] by (simp add: and.assoc)
qed

lemma removeGroupAndOtherWrite_ok:
  assumes "removeGroupAndOtherWrite refuse path fs = (None, fs')"
  obtains m where "fs path = Some m" "fs' = fs(path \<mapsto> m AND NOT 0x12)"
proof (cases "fs path")
  case None
  then show thesis using assms by (simp add: removeGroupAndOtherWrite_def)
next
  case (Some m)
  show thesis
  proof (cases "m AND 0x12 = 0")
    case True
    then have "m AND NOT 0x12 = m" using mask_parts [of m "0x12"] by simp
    then show thesis using that [OF Some] True assms Some map_upd_triv [of fs path m] by (auto simp: removeGroupAndOtherWrite_def)
  next
    case False
    then show thesis using that [OF Some] assms Some chmod_clears [of m]
      by (auto simp: removeGroupAndOtherWrite_def chmod_def split: option.splits)
  qed
qed

text \<open>
  Once the core binary is secured, nobody but their owners can write to the file and
  to its directory: if hardening is not switched off and no error is reported, the group
  and other write bits of both are clear, every other bit is as before, and no other file
  has changed.  A permission bit that is already right is not written.
\<close>

theorem secured_binary:
  assumes "SecureBinary refuse skipEnv False corePath fs = (None, fs')" "skipEnv \<noteq> ''1''"
  shows "\<exists>md mf. fs (Dir corePath) = Some md \<and> fs corePath = Some mf \<and>
    fs' = fs(Dir corePath \<mapsto> md AND NOT 0x12, corePath \<mapsto> mf AND NOT 0x12) \<and>
    (\<forall>m \<in> {md AND NOT 0x12, mf AND NOT 0x12}. \<not> bit m 1 \<and> \<not> bit m 4)"
proof -
  obtain fs1 where r: "removeGroupAndOtherWrite refuse (Dir corePath) fs = (None, fs1)"
      "removeGroupAndOtherWrite refuse corePath fs1 = (None, fs')"
    using assms by (auto simp: SecureBinary_def split: prod.splits option.splits)
  obtain md where d: "fs (Dir corePath) = Some md" "fs1 = fs(Dir corePath \<mapsto> md AND NOT 0x12)"
    by (rule removeGroupAndOtherWrite_ok [OF r(1)])
  obtain m1 where f: "fs1 corePath = Some m1" "fs' = fs1(corePath \<mapsto> m1 AND NOT 0x12)"
    by (rule removeGroupAndOtherWrite_ok [OF r(2)])
  have clear: "\<not> bit (m AND NOT 0x12) 1 \<and> \<not> bit (m AND NOT 0x12) 4" for m :: mode
    by (simp add: bit_and_iff bit_not_iff bit_numeral_rec)
  obtain mf where mf: "fs corePath = Some mf" "m1 AND NOT 0x12 = mf AND NOT 0x12"
    using d f(1) by (auto split: if_splits)
  show ?thesis
    using d(1) mf(1) clear unfolding f(2) d(2) mf(2) by auto
qed

theorem secured_binary_witness:
  "fst (SecureBinary (\<lambda>p. None) '''' False ''/opt/core/mihomo''
      [''/opt/core'' \<mapsto> 0x800001FF, ''/opt/core/mihomo'' \<mapsto> 0x1FF]) = None \<and>
   snd (SecureBinary (\<lambda>p. None) '''' False ''/opt/core/mihomo''
      [''/opt/core'' \<mapsto> 0x800001FF, ''/opt/core/mihomo'' \<mapsto> 0x1FF]) =
     [''/opt/core'' \<mapsto> 0x800001ED, ''/opt/core/mihomo'' \<mapsto> 0x1ED]"
proof -
  let ?fs = "[''/opt/core'' \<mapsto> 0x800001FF, ''/opt/core/mihomo'' \<mapsto> 0x1FF] :: modes"
  have dir: "Dir ''/opt/core/mihomo'' = ''/opt/core''" by code_simp
  have ok: "fst (SecureBinary (\<lambda>p. None) '''' False ''/opt/core/mihomo'' ?fs) = None"
    by (simp add: SecureBinary_def removeGroupAndOtherWrite_def chmod_def dir)
  then obtain fs' where r: "SecureBinary (\<lambda>p. None) '''' False ''/opt/core/mihomo'' ?fs = (None, fs')"
    by (metis prod.collapse)
  show ?thesis using secured_binary [OF r] r by (simp add: dir fun_upd_twist)
qed

end
