(* ===== verification/CoreApi.thy ===== *)
theory CoreApi
  imports CoreMachine HttpHelper Interfaces "HOL-Library.Signed_Division"
begin

text \<open>
  The handlers of \<open>route/coreapi/core.go\<close>, which put the profile store and the core manager
  together, and what a status request reports (\<open>core/process_info.go\<close>).  What the outside
  answers during one request is given with it.
\<close>

section \<open>The status of the process\<close>

text \<open>\<open>formatUptime\<close> on the whole hours, minutes and seconds of a duration; Go's
  division and remainder round towards zero.\<close>

definition formatUptime :: "int \<Rightarrow> int \<Rightarrow> int \<Rightarrow> string" where
  "formatUptime totalHours totalMinutes totalSeconds =
    (let days = totalHours sdiv 24; hours = totalHours smod 24;
         minutes = totalMinutes smod 60; seconds = totalSeconds smod 60;
         p1 = (if days > 0 then [FormatInt days @ ''d''] else []);
         p2 = (if hours > 0 \<or> p1 \<noteq> [] then p1 @ [FormatInt hours @ ''h''] else p1);
         p3 = (if minutes > 0 \<or> p2 \<noteq> [] then p2 @ [FormatInt minutes @ ''m''] else p2)
     in join '' '' (p3 @ [FormatInt seconds @ ''s'']))"

text \<open>
  The measurements that the process library makes, each if it succeeds; the memory comes
  with its formatted text.
\<close>

record process_measures =
  pm_memory :: "(nat \<times> string) option"
  pm_cpuPercent :: "string option"
  pm_affinity :: "int list option"

record ProcessInfo =
  in_PID :: int
  in_Memory :: nat
  in_MemoryFormat :: string
  in_CPUPercent :: string
  in_CPUAffinity :: "int list"
  in_StartTime :: "int option"
  in_Uptime :: string
  in_LaunchMode :: string
  in_Executable :: string

definition GetProcessInfo ::
    "(string, process_measures) result \<Rightarrow> string \<Rightarrow> core_world \<Rightarrow> (core_error, ProcessInfo) result" where
  "GetProcessInfo proc uptime s =
    (if \<not> cm_isRunning s \<or> cm_pid s \<le> 0 then Inl NotRunning
     else case proc of Inl er \<Rightarrow> Inl (ProcessQueryFailed er)
     | Inr m \<Rightarrow> Inr
        \<lparr>in_PID = cm_pid s,
         in_Memory = (case pm_memory m of None \<Rightarrow> 0 | Some (n, t) \<Rightarrow> n),
         in_MemoryFormat = (case pm_memory m of None \<Rightarrow> '''' | Some (n, t) \<Rightarrow> t),
         in_CPUPercent = (case pm_cpuPercent m of None \<Rightarrow> ''0'' | Some t \<Rightarrow> t),
         in_CPUAffinity = (case pm_affinity m of None \<Rightarrow> [] | Some l \<Rightarrow> l),
         in_StartTime = cm_startTime s, in_Uptime = uptime,
         in_LaunchMode = (case cm_launch s of None \<Rightarrow> '''' | Some l \<Rightarrow> ''managed''),
         in_Executable = (case cm_launch s of None \<Rightarrow> '''' | Some l \<Rightarrow> ls_sourcePath l)\<rparr>)"

section \<open>Requests\<close>

datatype api_error = BodyError string | ProfileError launch_error | CoreProblem core_error

datatype api_text = ProfileUpdated | CoreStartedText | CoreStoppedText | CoreRestartedText

datatype core_response =
    Problem nat api_error
  | Success api_text
  | SuccessWith api_text ProcessInfo
  | StatusBody ProcessInfo
  | ProfileBody LaunchProfile

definition problem :: "api_error HTTPError \<Rightarrow> core_response" where
  "problem e = (case SendError e of (code, m) \<Rightarrow> Problem code m)"

text \<open>
  The peer of the connection (\<open>pipectx.RequestUnixPeerInfo\<close>), and the answers of the
  outside: writing the profile, removing its file, starting and stopping the process,
  changing its CPUs, and measuring it.
\<close>

record unixPeerInfo =
  peer_PID :: int
  peer_UID :: "32 word"
  peer_GID :: "32 word"

record api_env =
  ae_now :: go_time
  ae_peer :: "unixPeerInfo option"
  ae_write :: write_env
  ae_rm :: "string option"
  ae_start :: start_env
  ae_stop :: stop_env
  ae_affinity :: "string option"
  ae_proc :: "(string, process_measures) result"
  ae_uptime :: string

definition RequestUnixPeerInfo :: "unixPeerInfo option \<Rightarrow> unixPeerInfo option" where
  "RequestUnixPeerInfo peer = (case peer of None \<Rightarrow> None | Some p \<Rightarrow> if peer_PID p > 0 then Some p else None)"

text \<open>\<open>coreLaunchOptions\<close> and \<open>collectLaunchOptions\<close>: log files belong to the group of the peer.\<close>

definition coreLaunchOptions :: "api_env \<Rightarrow> fileAccess" where
  "coreLaunchOptions e = (case RequestUnixPeerInfo (ae_peer e) of
     None \<Rightarrow> \<lparr>fa_groupID = 0, fa_ok = False\<rparr>
   | Some p \<Rightarrow> \<lparr>fa_groupID = uint (peer_GID p), fa_ok = True\<rparr>)"

definition coreStatus :: "api_env \<Rightarrow> core_world \<Rightarrow> core_response" where
  "coreStatus e s = (case GetProcessInfo (ae_proc e) (ae_uptime e) s of
     Inl er \<Rightarrow> problem (PlainError (CoreProblem er)) | Inr info \<Rightarrow> StatusBody info)"

definition coreProfile :: "service \<Rightarrow> core_world \<Rightarrow> core_response" where
  "coreProfile sv s = (case LoadLaunchProfile (sv_host sv) (sv_profile sv) (cw_disk s) of
     Inl er \<Rightarrow> problem (PlainError (ProfileError er)) | Inr p \<Rightarrow> ProfileBody p)"

definition save_profile :: "service \<Rightarrow> api_env \<Rightarrow> LaunchProfile \<Rightarrow> core_world \<Rightarrow> launch_error option \<times> core_world" where
  "save_profile sv e p s =
    (case SaveLaunchProfile (sv_host sv) (sv_profile sv) (ae_write e) (ae_rm e) p (cw_disk s) of
       (er, d) \<Rightarrow> (er, s\<lparr>cw_disk := d\<rparr>))"

text \<open>The end of the two handlers that change the profile; the settings go to the log writer.\<close>

definition apply_profile :: "api_env \<Rightarrow> LaunchProfile \<Rightarrow> core_world \<Rightarrow> core_response \<times> coreLogSettings option \<times> core_world" where
  "apply_profile e p s =
    (case ApplyLaunchProfile (ae_affinity e) p (coreLaunchOptions e) s of
       (Some er, settings, s1) \<Rightarrow> (problem (PlainError (CoreProblem er)), settings, s1)
     | (None, settings, s1) \<Rightarrow> (Success ProfileUpdated, settings, s1))"

definition coreSaveProfile ::
    "service \<Rightarrow> api_env \<Rightarrow> LaunchProfile request_body \<Rightarrow> core_world \<Rightarrow> core_response \<times> coreLogSettings option \<times> core_world" where
  "coreSaveProfile sv e body s =
    (case DecodeRequest zeroProfile body of Inl er \<Rightarrow> (problem (BadRequest (BodyError er)), None, s)
     | Inr profile \<Rightarrow>
    (case save_profile sv e profile s of
       (Some er, s1) \<Rightarrow> (problem (BadRequest (ProfileError er)), None, s1)
     | (None, s1) \<Rightarrow>
    (case LoadLaunchProfile (sv_host sv) (sv_profile sv) (cw_disk s1) of
       Inl er \<Rightarrow> (problem (BadRequest (ProfileError er)), None, s1)
     | Inr normalized \<Rightarrow> apply_profile e normalized s1)))"

definition zeroPatch :: LaunchProfilePatch where
  "zeroPatch = \<lparr>p_CPUAffinity = None, p_Mode = None, p_LogPath = None, p_SaveLogs = None, p_MaxLogFileSizeMB = None\<rparr>"

definition corePatchProfile ::
    "service \<Rightarrow> api_env \<Rightarrow> LaunchProfilePatch request_body \<Rightarrow> core_world \<Rightarrow> core_response \<times> coreLogSettings option \<times> core_world" where
  "corePatchProfile sv e body s =
    (case DecodeRequest zeroPatch body of Inl er \<Rightarrow> (problem (BadRequest (BodyError er)), None, s)
     | Inr patch \<Rightarrow>
    (case PatchLaunchProfile (sv_host sv) (sv_profile sv) (ae_write e) (ae_rm e) patch (cw_disk s) of
       (Inl er, d) \<Rightarrow> (problem (BadRequest (ProfileError er)), None, s\<lparr>cw_disk := d\<rparr>)
     | (Inr profile, d) \<Rightarrow> apply_profile e profile (s\<lparr>cw_disk := d\<rparr>)))"

definition decodeOptionalLaunchProfile :: "LaunchProfile request_body \<Rightarrow> (string, LaunchProfile option) result" where
  "decodeOptionalLaunchProfile body = DecodeOptionalRequest body"

definition sendCoreReady :: "api_env \<Rightarrow> api_text \<Rightarrow> core_world \<Rightarrow> core_response" where
  "sendCoreReady e message s = (case GetProcessInfo (ae_proc e) (ae_uptime e) s of
     Inl er \<Rightarrow> Success message | Inr info \<Rightarrow> SuccessWith message info)"

text \<open>The common beginning of start and restart: a profile in the body is saved first.\<close>

definition accept_profile ::
    "service \<Rightarrow> api_env \<Rightarrow> LaunchProfile request_body \<Rightarrow> core_world \<Rightarrow> (core_response, LaunchProfile option) result \<times> core_world" where
  "accept_profile sv e body s =
    (case decodeOptionalLaunchProfile body of Inl er \<Rightarrow> (Inl (problem (BadRequest (BodyError er))), s)
     | Inr None \<Rightarrow> (Inr None, s)
     | Inr (Some profile) \<Rightarrow>
        (case save_profile sv e profile s of
           (Some er, s1) \<Rightarrow> (Inl (problem (BadRequest (ProfileError er))), s1)
         | (None, s1) \<Rightarrow> (Inr (Some profile), s1)))"

definition coreStart :: "service \<Rightarrow> api_env \<Rightarrow> LaunchProfile request_body \<Rightarrow> core_world \<Rightarrow> core_response \<times> core_world" where
  "coreStart sv e body s =
    (case accept_profile sv e body s of (Inl answer, s1) \<Rightarrow> (answer, s1)
     | (Inr profile, s1) \<Rightarrow>
        (case startCoreLocked sv (ae_now e) (ae_start e) profile (coreLaunchOptions e) s1 of
           (Some er, s2) \<Rightarrow> (problem (PlainError (CoreProblem er)), s2)
         | (None, s2) \<Rightarrow> (sendCoreReady e CoreStartedText s2, s2)))"

definition coreStop :: "service \<Rightarrow> api_env \<Rightarrow> core_world \<Rightarrow> core_response \<times> core_world" where
  "coreStop sv e s =
    (case stopCoreLocked sv (ae_now e) (ae_stop e) s of
       (Some er, s1) \<Rightarrow> (problem (PlainError (CoreProblem er)), s1)
     | (None, s1) \<Rightarrow> (Success CoreStoppedText, s1))"

definition coreRestart :: "service \<Rightarrow> api_env \<Rightarrow> LaunchProfile request_body \<Rightarrow> core_world \<Rightarrow> core_response \<times> core_world" where
  "coreRestart sv e body s =
    (case accept_profile sv e body s of (Inl answer, s1) \<Rightarrow> (answer, s1)
     | (Inr profile, s1) \<Rightarrow>
        (case RestartCoreWithProfile sv (ae_now e) (ae_stop e) (ae_start e) profile (coreLaunchOptions e) s1 of
           (Some er, s2) \<Rightarrow> (problem (PlainError (CoreProblem er)), s2)
         | (None, s2) \<Rightarrow> (sendCoreReady e CoreRestartedText s2, s2)))"

section \<open>The routes\<close>

datatype core_request =
    GetStatus
  | GetProfile
  | PostProfile "LaunchProfile request_body"
  | PatchProfile "LaunchProfilePatch request_body"
  | PostStart "LaunchProfile request_body"
  | PostStop
  | PostRestart "LaunchProfile request_body"

fun core_serve :: "service \<Rightarrow> api_env \<times> core_request \<Rightarrow> core_world \<Rightarrow> core_response \<times> core_world" where
  "core_serve sv (e, GetStatus) s = (coreStatus e s, s)"
| "core_serve sv (e, GetProfile) s = (coreProfile sv s, s)"
| "core_serve sv (e, PostProfile b) s = (case coreSaveProfile sv e b s of (r, _, s1) \<Rightarrow> (r, s1))"
| "core_serve sv (e, PatchProfile b) s = (case corePatchProfile sv e b s of (r, _, s1) \<Rightarrow> (r, s1))"
| "core_serve sv (e, PostStart b) s = coreStart sv e b s"
| "core_serve sv (e, PostStop) s = coreStop sv e s"
| "core_serve sv (e, PostRestart b) s = coreRestart sv e b s"

end
