(* ===== verification/CoreApiProps.thy ===== *)
theory CoreApiProps
  imports CoreApi CoreMachineProps
begin

text \<open>
  What the handlers of the core guarantee: every sequence of requests keeps the invariant
  of the core manager, a refused request does not touch the core, and a core that was
  started with a profile runs with the profile that is on disk.
\<close>

section \<open>Files of the state directory\<close>

lemma state_paths_differ:
  "launchProfilePath w \<noteq> desiredStatePath w" "launchProfilePath w \<noteq> runtimeRecordPath w"
  "desiredStatePath w \<noteq> runtimeRecordPath w"
proof -
  have ne: "serviceConfigDir w \<noteq> []"
    by (cases "Getenv w ''SPARKLE_CONFIG_DIR'' = []") (simp_all add: serviceConfigDir_def IsAbs_def Clean_def Let_def)
  have path: "Join [serviceConfigDir w, ''sparkle'', ''core'', name] =
      Clean ((serviceConfigDir w @ ''/sparkle/core'') @ sep # name)" for name
    using ne by simp
  have plain: "plain_elem ''launch_profile.json''" "plain_elem ''desired_state.json''" "plain_elem ''runtime.json''"
    by (simp_all add: plain_elem_def)
  note inj = Clean_last_inj [of _ _ "serviceConfigDir w @ ''/sparkle/core''"]
  show "launchProfilePath w \<noteq> desiredStatePath w" "launchProfilePath w \<noteq> runtimeRecordPath w"
    "desiredStatePath w \<noteq> runtimeRecordPath w"
    unfolding launchProfilePath_def desiredStatePath_def runtimeRecordPath_def path
    using inj [OF plain(1,2)] inj [OF plain(1,3)] inj [OF plain(2,3)] by blast+
qed

text \<open>Operations that leave the profile file alone.\<close>

lemma written_other:
  assumes "temp_fresh e q" "q \<noteq> path"
  shows "written (atomicWriteFile e path data d) q = d q"
proof -
  have "snd (atomicWriteFile e path data d) \<noteq> []"
    by (auto simp: atomicWriteFile_def removeTmp_def Let_def split: write_splits)
  then show ?thesis
    using atomicWriteFile_other [OF _ assms(2) last_in_set] assms(1) by (simp add: written_def temp_fresh_def)
qed

lemma record_keeps_profile:
  "temp_fresh e (launchProfilePath w) \<Longrightarrow>
    snd (writeRuntimeRecord w c e procs pid x net addr p d) (launchProfilePath w) = d (launchProfilePath w)"
  using state_paths_differ(2)
  by (auto simp: writeRuntimeRecord_def Let_def written_other split: sum.split)

lemma persist_keeps_profile:
  "temp_fresh e (launchProfilePath w) \<Longrightarrow>
    snd (persistDesiredState w c e now b p d) (launchProfilePath w) = d (launchProfilePath w)"
  using state_paths_differ(1)
  by (auto simp: persistDesiredState_def saveDesiredState_def Let_def written_other split: sum.split)

lemma clearDesired_keeps_profile:
  "temp_fresh we (launchProfilePath (sv_host sv)) \<Longrightarrow>
    cw_disk (clearDesired sv now we s) (launchProfilePath (sv_host sv)) = cw_disk s (launchProfilePath (sv_host sv))"
  by (simp add: clearDesired_def clearDesiredState_def persist_keeps_profile)

lemma cleanup_keeps_profile:
  "cw_disk (cleanupLocked sv now e s) (launchProfilePath (sv_host sv)) = cw_disk s (launchProfilePath (sv_host sv))"
  using state_paths_differ(2)
  by (auto simp: cleanupLocked_def removeRuntimeRecord_def Let_def split: option.split file_state.split)

lemma stopCore_keeps_profile:
  assumes "temp_fresh (sp_persist e) (launchProfilePath (sv_host sv))"
  shows "cw_disk (snd (stopCoreLocked sv now e s)) (launchProfilePath (sv_host sv)) = cw_disk s (launchProfilePath (sv_host sv))"
proof -
  let ?s2 = "signalStopLocked ((emit now CoreEventStopping MsgStopping None s)\<lparr>cm_monitoring := False\<rparr>)"
  obtain r s3 where stop: "stopProcessLocked (sp_stop e) ?s2 = (r, s3)" by fastforce
  have "cw_disk s3 = cw_disk s" using stopProcess_frame(9) [of "sp_stop e" ?s2] stop by simp
  then show ?thesis
    using clearDesired_keeps_profile [OF assms] cleanup_keeps_profile
    by (simp add: stopCoreLocked_def Let_def stop split: option.split)
qed

lemma startCore_success:
  assumes "startCoreLocked sv now e p access s = (None, t)"
  obtains launch cl pid where
    "prepareLaunchSession (sv_host sv) (sv_profile sv) (st_prepare e) (cw_next s + 1) p access (cw_disk s) = (Inr launch, cl)"
    "cm_launch t = Some (armed launch)"
    "cw_disk t = snd (persistDesiredState (sv_host sv) (sv_desired sv) (st_persist e) (wall now) True (ls_profile (armed launch))
       (snd (writeRuntimeRecord (sv_host sv) (sv_runtime sv) (st_record e) (st_procs e) pid
              (ls_executablePath (armed launch)) (ls_controllerNet (armed launch))
              (ls_controllerAddr (armed launch)) (ls_profile (armed launch)) (cw_disk s))))"
proof -
  let ?s = "(emit now CoreEventStarting MsgStarting None (s\<lparr>cm_isRunning := True\<rparr>))
      \<lparr>cm_stopChan := Some (cw_next s), cw_next := cw_next s + 1\<rparr>"
  obtain t1 where run: "startProcessLocked sv now e p access ?s = (None, t1)"
    and t: "t = (case cm_launch t1 of None \<Rightarrow> t1 | Some l \<Rightarrow> t1\<lparr>cw_disk := snd (persistDesiredState (sv_host sv) (sv_desired sv)
        (st_persist e) (wall now) True (ls_profile l) (cw_disk t1))\<rparr>)"
    using assms by (auto simp: startCoreLocked_def Let_def split: if_splits prod.splits option.splits)
  obtain launch cl where prep: "prepareLaunchSession (sv_host sv) (sv_profile sv) (st_prepare e) (cw_next s + 1) p access (cw_disk s) =
      (Inr launch, cl)"
    using run by (auto simp: startProcessLocked_def Let_def split: prod.splits sum.splits)
  have prep': "prepareLaunchSession (sv_host sv) (sv_profile sv) (st_prepare e) (cw_next ?s) p access (cw_disk ?s) = (Inr launch, cl)"
    using prep by simp
  obtain pid where t1: "t1 = emit now CoreEventStarted MsgStarted None
         ((attached now launch pid ?s)\<lparr>cm_monitoring := True,
            cw_disk := snd (writeRuntimeRecord (sv_host sv) (sv_runtime sv) (st_record e) (st_procs e) pid
              (ls_executablePath (armed launch)) (ls_controllerNet (armed launch))
              (ls_controllerAddr (armed launch)) (ls_profile (armed launch)) (cw_disk s))\<rparr>)"
    using run unfolding startProcess_prepared [OF prep']
    by (auto simp: fail_early_def fail_late_def Let_def split: option.splits sum.splits)
  have "cm_launch t1 = Some (armed launch)" unfolding t1 by (simp add: attached_def)
  with that [OF prep] t show thesis unfolding t1 by simp
qed

section \<open>The invariant\<close>

lemma core_inv_disk: "core_inv s \<Longrightarrow> core_inv (s\<lparr>cw_disk := d\<rparr>)"
  by (rule core_inv_cong(1)) simp_all

lemma accept_inv: "accept_profile sv e b s = (r, s1) \<Longrightarrow> \<exists>d. s1 = s\<lparr>cw_disk := d\<rparr>"
  by (auto simp: accept_profile_def save_profile_def split: sum.splits option.splits prod.splits
      intro: exI [of _ "cw_disk s"])

definition env_ok :: "api_env \<times> core_request \<Rightarrow> bool" where
  "env_ok q \<longleftrightarrow> spawn_positive (ae_start (fst q))"

lemma apply_profile_inv: "apply_profile e p s = (r, st, s1) \<Longrightarrow> core_inv s \<Longrightarrow> core_inv s1"
  using apply_ok [of s "ae_affinity e" p "coreLaunchOptions e"]
  by (auto simp: apply_profile_def split: prod.splits option.splits)

lemma core_serve_inv:
  assumes "core_inv s" "env_ok q"
  shows "core_inv (snd (core_serve sv q s))"
proof (cases q)
  case (Pair e r)
  have pos: "spawn_positive (ae_start e)" using assms(2) Pair by (simp add: env_ok_def)
  show ?thesis
  proof (cases r)
    case (PostProfile b)
    then show ?thesis using assms(1) Pair core_inv_disk [OF assms(1)] apply_profile_inv
      by (auto simp: coreSaveProfile_def save_profile_def split: sum.splits prod.splits option.splits)
  next
    case (PatchProfile b)
    then show ?thesis using assms(1) Pair core_inv_disk [OF assms(1)] apply_profile_inv
      by (auto simp: corePatchProfile_def split: sum.splits prod.splits option.splits)
  next
    case (PostStart b)
    obtain a s1 where a: "accept_profile sv e b s = (a, s1)" by fastforce
    then have inv: "core_inv s1" using accept_inv core_inv_disk [OF assms(1)] by blast
    have "core_inv (snd (startCoreLocked sv now (ae_start e) p access s1))" for now p access
      using startCore_ok [OF inv pos, of sv now p access] by (metis prod.collapse)
    then show ?thesis using PostStart Pair a inv
      by (auto simp: coreStart_def split: sum.split prod.split option.split) (metis snd_conv)+
  next
    case PostStop
    have "core_inv (snd (stopCoreLocked sv now (ae_stop e) s))" for now
      using stopCore_ok [OF assms(1), of sv now "ae_stop e"] by (metis prod.collapse)
    then show ?thesis using PostStop Pair
      by (auto simp: coreStop_def split: prod.split option.split) (metis snd_conv)+
  next
    case (PostRestart b)
    obtain a s1 where a: "accept_profile sv e b s = (a, s1)" by fastforce
    then have inv: "core_inv s1" using accept_inv core_inv_disk [OF assms(1)] by blast
    have "core_inv (snd (RestartCoreWithProfile sv now e1 (ae_start e) p access s1))" for now e1 p access
      using restartCore_ok [OF inv pos, of sv now e1 p access] by (metis prod.collapse)
    then show ?thesis using PostRestart Pair a inv
      by (auto simp: coreRestart_def split: sum.split prod.split option.split) (metis snd_conv)+
  qed (use assms(1) Pair in simp_all)
qed

interpretation core_requests: machine "\<lambda>q s. snd (core_serve sv q s)" env_ok core_inv
  for sv
  by unfold_locales (rule core_serve_inv)

lemma core_requests_inv: "\<forall>q\<in>set qs. env_ok q \<Longrightarrow> core_inv (fold (\<lambda>q s. snd (core_serve sv q s)) qs (NewCoreManager d))"
  by (rule core_requests.run_inv [OF core_inv_new])

section \<open>Properties\<close>

lemma accepted_profile:
  assumes "accept_profile sv e (Some (Inr p)) s = (Inr profile, s1)"
  shows "profile = Some p"
    "SaveLaunchProfile (sv_host sv) (sv_profile sv) (ae_write e) (ae_rm e) p (cw_disk s) = (None, cw_disk s1)"
    "s1 = s\<lparr>cw_disk := cw_disk s1\<rparr>"
  using assms
  by (auto simp: accept_profile_def decodeOptionalLaunchProfile_def DecodeOptionalRequest_def save_profile_def
      split: prod.splits option.splits)

text \<open>The temporary files of the state directory do not replace the profile.\<close>

definition temps_fresh :: "service \<Rightarrow> api_env \<Rightarrow> bool" where
  "temps_fresh sv e \<longleftrightarrow> (\<forall>we\<in>{ae_write e, st_record (ae_start e), st_persist (ae_start e), sp_persist (ae_stop e)}.
     temp_fresh we (launchProfilePath (sv_host sv)))"

lemma started_with_stored:
  assumes "startCoreLocked sv now (ae_start e) (Some p) access s = (None, t)" "temps_fresh sv e"
    and "normalizeLaunchProfile (sv_host sv) p = Inr q"
    and "LoadLaunchProfile (sv_host sv) (sv_profile sv) (cw_disk s) = Inr q"
  shows "LoadLaunchProfile (sv_host sv) (sv_profile sv) (cw_disk t) = Inr q \<and>
    (\<exists>l. cm_launch t = Some l \<and> ls_profile l = q\<lparr>CorePath := ls_executablePath l\<rparr>)"
  using assms(1)
proof (rule startCore_success)
  fix launch cl pid
  assume prep: "prepareLaunchSession (sv_host sv) (sv_profile sv) (st_prepare (ae_start e)) (cw_next s + 1) (Some p) access (cw_disk s) =
      (Inr launch, cl)" and l: "cm_launch t = Some (armed launch)"
    and d: "cw_disk t = snd (persistDesiredState (sv_host sv) (sv_desired sv) (st_persist (ae_start e)) (wall now) True
       (ls_profile (armed launch)) (snd (writeRuntimeRecord (sv_host sv) (sv_runtime sv) (st_record (ae_start e))
              (st_procs (ae_start e)) pid (ls_executablePath (armed launch)) (ls_controllerNet (armed launch))
              (ls_controllerAddr (armed launch)) (ls_profile (armed launch)) (cw_disk s))))"
  have "cw_disk t (launchProfilePath (sv_host sv)) = cw_disk s (launchProfilePath (sv_host sv))"
    unfolding d using assms(2) by (simp add: temps_fresh_def persist_keeps_profile record_keeps_profile)
  then have load: "LoadLaunchProfile (sv_host sv) (sv_profile sv) (cw_disk t) = Inr q"
    using assms(4) by (simp add: LoadLaunchProfile_def)
  have "ls_profile launch = q\<lparr>CorePath := ls_executablePath launch\<rparr>"
    by (rule prepare_Inr [OF prep]) (use assms(3) in \<open>simp add: resolveLaunchProfile_def\<close>)
  then show ?thesis using load l by (simp add: armed_def addCleanup_def)
qed

lemma problem_Problem: "\<exists>code er. problem x = Problem code er"
  by (cases x) (auto simp: problem_def SendError_def)

lemma launched:
  assumes "r = PostStart b \<or> r = PostRestart b" "core_serve sv (e, r) s = (answer, s')"
    and "\<forall>code er. answer \<noteq> Problem code er"
  obtains profile s1 s2 where "accept_profile sv e b s = (Inr profile, s1)"
    "s2 = s1 \<or> s2 = snd (stopCoreLocked sv (ae_now e) (ae_stop e) (emit (ae_now e) CoreEventRestarting MsgRestarting None s1))"
    "startCoreLocked sv (ae_now e) (ae_start e) profile (coreLaunchOptions e) s2 = (None, s')"
proof -
  have none: "answer \<noteq> problem x" for x using assms(3) problem_Problem [of x] by metis
  obtain a s1 where a: "accept_profile sv e b s = (a, s1)" by fastforce
  have "a \<noteq> Inl x" for x
  proof
    assume "a = Inl x"
    then have "answer = x" "\<exists>y. x = problem y"
      using assms(1,2) a by (auto simp: coreStart_def coreRestart_def accept_profile_def split: sum.splits prod.splits option.splits)
    then show False using none by blast
  qed
  then obtain profile where "a = Inr profile" by (cases a) auto
  note a' = a [unfolded this]
  from assms(1) show thesis
  proof
    assume "r = PostStart b"
    then have "startCoreLocked sv (ae_now e) (ae_start e) profile (coreLaunchOptions e) s1 = (None, s')"
      using assms(2) a' none by (auto simp: coreStart_def split: prod.splits option.splits)
    then show thesis using that [OF a'] by blast
  next
    assume "r = PostRestart b"
    then have "RestartCoreWithProfile sv (ae_now e) (ae_stop e) (ae_start e) profile (coreLaunchOptions e) s1 = (None, s')"
      using assms(2) a' none by (auto simp: coreRestart_def split: prod.splits option.splits)
    then show thesis using that [OF a'] by (auto simp: RestartCoreWithProfile_def)
  qed
qed


lemma SaveLaunchProfile_other:
  assumes "SaveLaunchProfile w c we rm p d = (r, d')" "q \<noteq> launchProfilePath w" "we_create we \<noteq> Inr q"
  shows "d' q = d q"
proof -
  have "written (atomicWriteFile we (launchProfilePath w) data d) q = d q" for data
    using assms(2,3) by (intro written_other) (auto simp: temp_fresh_def)
  then show ?thesis using assms
    by (auto simp: SaveLaunchProfile_def Let_def split: sum.splits if_splits file_state.splits option.splits)
qed

lemma save_profile_other:
  assumes "save_profile sv e p s = (r, s1)"
  shows "s1 = s\<lparr>cw_disk := cw_disk s1\<rparr> \<and>
    (\<forall>q. q \<noteq> launchProfilePath (sv_host sv) \<and> we_create (ae_write e) \<noteq> Inr q \<longrightarrow> cw_disk s1 q = cw_disk s q)"
  using assms SaveLaunchProfile_other [of "sv_host sv" "sv_profile sv" "ae_write e" "ae_rm e" p "cw_disk s"]
  by (auto simp: save_profile_def split: prod.splits)

lemma patch_other:
  assumes "PatchLaunchProfile w c we rm p d = (r, d')" "q \<noteq> launchProfilePath w" "we_create we \<noteq> Inr q"
  shows "d' q = d q"
  using assms SaveLaunchProfile_other [of w c we rm _ d _ _ q]
  by (auto simp: PatchLaunchProfile_def split: sum.splits prod.splits option.splits)

lemma problem_status [simp]: "problem (PlainError x) = Problem 500 x" "problem (BadRequest x) = Problem 400 x"
  by (simp_all add: problem_def SendError_def BadRequest_def)

lemma sendCoreReady_ok: "sendCoreReady e t s \<noteq> Problem code er"
  by (simp add: sendCoreReady_def split: sum.split)

lemma apply_profile_status: "fst (apply_profile e p s) \<noteq> Problem 400 er"
  by (simp add: apply_profile_def split: prod.split option.split)

definition only_profile :: "service \<Rightarrow> api_env \<Rightarrow> api_error \<Rightarrow> core_world \<Rightarrow> core_world \<Rightarrow> bool" where
  "only_profile sv e er s s' \<longleftrightarrow> s' = s\<lparr>cw_disk := cw_disk s'\<rparr> \<and>
    (\<forall>p. p \<noteq> launchProfilePath (sv_host sv) \<and> we_create (ae_write e) \<noteq> Inr p \<longrightarrow> cw_disk s' p = cw_disk s p) \<and>
    (\<forall>t. er = BodyError t \<longrightarrow> s' = s)"

lemma only_profile_refl: "only_profile sv e er s s"
  by (simp add: only_profile_def)

lemma only_profile_saved: "save_profile sv e p s = (r, s') \<Longrightarrow> only_profile sv e (ProfileError er) s s'"
  using save_profile_other [of sv e p s r s'] by (simp add: only_profile_def)

lemma accept_bad:
  assumes "accept_profile sv e b s = (Inl (Problem 400 er), s')"
  shows "only_profile sv e er s s'"
  using assms by (auto simp: accept_profile_def intro: only_profile_refl only_profile_saved
      split: sum.splits option.splits prod.splits)

lemma bad_request_cases:
  assumes "core_serve sv (e, r) s = (Problem 400 er, s')"
  shows "only_profile sv e er s s'"
proof (cases r)
  case (PostProfile b)
  then show ?thesis
    using assms apply_profile_status [of e] 
    by (auto simp: coreSaveProfile_def intro: only_profile_refl only_profile_saved
        split: sum.splits option.splits prod.splits) (metis fst_conv)+
next
  case (PatchProfile b)
  have "only_profile sv e (ProfileError x) s (s\<lparr>cw_disk := d\<rparr>)"
    if "PatchLaunchProfile (sv_host sv) (sv_profile sv) (ae_write e) (ae_rm e) patch (cw_disk s) = (Inl x, d)" for patch x d
    using patch_other [OF that] by (simp add: only_profile_def)
  then show ?thesis
    using assms PatchProfile apply_profile_status [of e]
    by (auto simp: corePatchProfile_def intro: only_profile_refl split: sum.splits prod.splits) (metis fst_conv)+
next
  case (PostStart b)
  then show ?thesis using assms
    by (auto simp: coreStart_def sendCoreReady_ok accept_bad split: sum.splits prod.splits option.splits)
next
  case PostStop
  then show ?thesis using assms by (auto simp: coreStop_def split: prod.splits option.splits)
next
  case (PostRestart b)
  then show ?thesis using assms
    by (auto simp: coreRestart_def sendCoreReady_ok accept_bad split: sum.splits prod.splits option.splits)
qed (use assms in \<open>auto simp: coreStatus_def coreProfile_def split: sum.splits\<close>)

text \<open>
  A request that the core interface refuses as bad leaves the core alone: with an answer of
  status 400 everything of the manager, its process, its session and its events included,
  is as before, and on the disk nothing has changed but the profile file and the temporary
  file of its replacement.  If the body cannot be decoded, nothing has changed at all.
\<close>

theorem bad_request_harmless:
  assumes "core_serve sv (e, r) s = (Problem 400 er, s')"
  shows "s' = s\<lparr>cw_disk := cw_disk s'\<rparr> \<and>
    (\<forall>p. p \<noteq> launchProfilePath (sv_host sv) \<and> we_create (ae_write e) \<noteq> Inr p \<longrightarrow> cw_disk s' p = cw_disk s p) \<and>
    (\<forall>t. er = BodyError t \<longrightarrow> s' = s)"
  using bad_request_cases [OF assms] by (simp add: only_profile_def)

definition sample_api :: api_env where
  "sample_api = \<lparr>ae_now = sample_now, ae_peer = None, ae_write = sample_write, ae_rm = None, ae_start = sample_start,
     ae_stop = sample_stop, ae_affinity = None, ae_proc = Inl ''gone'', ae_uptime = ''0s''\<rparr>"

lemma sample_api_ok: "env_ok (sample_api, r)" "temps_fresh sample_service sample_api"
  using sample_spawn(1) sample_fresh
  by (simp_all add: env_ok_def temps_fresh_def sample_api_def sample_start_def sample_stop_def sample_service_def)


theorem bad_request_harmless_witness:
  "core_serve sample_service (sample_api, PostStart (Some (Inl (DecodeFailed ''syntax'')))) (NewCoreManager (\<lambda>_. Absent)) =
     (Problem 400 (BodyError ''syntax''), NewCoreManager (\<lambda>_. Absent))"
proof -
  obtain s' where served: "core_serve sample_service (sample_api, PostStart (Some (Inl (DecodeFailed ''syntax'')))) (NewCoreManager (\<lambda>_. Absent)) =
      (Problem 400 (BodyError ''syntax''), s')"
    by (simp add: coreStart_def accept_profile_def decodeOptionalLaunchProfile_def DecodeOptionalRequest_def)
  with bad_request_harmless [OF served] show ?thesis by simp
qed

end
