(* ===== verification/Server.thy ===== *)
theory Server
  imports KeyManager CoreTakeover Lantern SysproxyGuard
begin

text \<open>
  Starting and stopping the service (\<open>route/server.go\<close>): the key manager, the state that a
  former instance left, the listener with its permissions, and on the way out the gateway,
  the proxy guard, the core and the servers.  The controller of the operating system's
  service (\<open>service/service.go\<close>) and its two handlers
  (\<open>route/serviceapi/service_control.go\<close>) are at the end.
\<close>

section \<open>Servers\<close>

text \<open>
  Servers are numbered.  \<open>sw_unix\<close> and \<open>sw_pipe\<close> are the package's variables, \<open>sw_serving\<close>
  holds the servers in whose \<open>Serve\<close> a goroutine is, \<open>sw_sockets\<close> the sockets in the file
  system with their owner and permission bits.
\<close>

record socket_file =
  sk_owner :: int
  sk_perm :: nat
  sk_server :: nat

record server_world =
  sw_unix :: "nat option"
  sw_pipe :: "nat option"
  sw_serving :: "nat list"
  sw_sockets :: "string \<Rightarrow> socket_file option"
  sw_next :: nat

definition no_servers :: "(string \<Rightarrow> socket_file option) \<Rightarrow> server_world" where
  "no_servers socks = \<lparr>sw_unix = None, sw_pipe = None, sw_serving = [], sw_sockets = socks, sw_next = 0\<rparr>"

text \<open>What \<open>Shutdown\<close> and \<open>Close\<close> of a server answer.\<close>

datatype close_answer = ClosedOK | AlreadyClosed | DeadlineExceeded | CloseError string

definition close_failed :: "close_answer \<Rightarrow> bool" where
  "close_failed a \<longleftrightarrow> a \<noteq> ClosedOK \<and> a \<noteq> AlreadyClosed"

definition shutdownServer :: "close_answer \<times> close_answer \<Rightarrow> close_answer list" where
  "shutdownServer a =
    (case a of (err, closeErr) \<Rightarrow>
      if close_failed err then
        (if close_failed closeErr then [err, closeErr]
         else if err \<noteq> DeadlineExceeded then [err] else [])
      else [])"

text \<open>
  Both variables are emptied under the lock, then each server is shut down.  A shutdown
  closes the listener first, whatever else it answers, and that removes the socket.
\<close>

definition shut :: "nat \<Rightarrow> server_world \<Rightarrow> server_world" where
  "shut i w = w\<lparr>sw_serving := removeAll i (sw_serving w),
     sw_sockets := (\<lambda>p. case sw_sockets w p of None \<Rightarrow> None | Some k \<Rightarrow> if sk_server k = i then None else Some k)\<rparr>"

definition closeServers :: "(nat \<Rightarrow> close_answer \<times> close_answer) \<Rightarrow> server_world \<Rightarrow> close_answer list list \<times> server_world" where
  "closeServers answers w =
    (let servers = List.map_filter id [sw_unix w, sw_pipe w];
         errs = filter (\<lambda>es. es \<noteq> []) (map (shutdownServer \<circ> answers) servers)
     in (errs, fold shut servers (w\<lparr>sw_unix := None, sw_pipe := None\<rparr>)))"

section \<open>Listening\<close>

datatype server_error =
    CloseFailed "close_answer list list"
  | DirFailed string
  | UnlinkFailed string
  | ListenFailed string
  | ChownFailed string
  | ChmodFailed string

text \<open>
  What the operating system answers: creating the directory, removing an old socket, the
  owner and the permission bits of a new one, and the changes of both.
\<close>

record listen_env =
  li_close :: "nat \<Rightarrow> close_answer \<times> close_answer"
  li_mkdir :: "string option"
  li_unlink :: "string option"
  li_listen :: "(string, int \<times> nat) result"
  li_chown :: "string option"
  li_chmod :: "string option"

text \<open>
  \<open>StartUnix\<close> up to the call of \<open>Serve\<close>: the socket belongs to the authorised user, if one
  is bound, and nobody else may use it before the server is published.  On an error the
  listener is closed.
\<close>

definition StartUnix :: "listen_env \<Rightarrow> 32 word option \<Rightarrow> string \<Rightarrow> server_world \<Rightarrow> server_error option \<times> server_world" where
  "StartUnix e uid addr w =
    (case li_listen e of Inl er \<Rightarrow> (Some (ListenFailed er), w)
     | Inr (owner, perm) \<Rightarrow>
        let i = sw_next w;
            put = (\<lambda>o' p x. x\<lparr>sw_sockets := (sw_sockets x)(addr \<mapsto> \<lparr>sk_owner = o', sk_perm = p, sk_server = i\<rparr>)\<rparr>);
            close = (\<lambda>x. x\<lparr>sw_sockets := (sw_sockets x)(addr := None)\<rparr>);
            publish = (\<lambda>x. x\<lparr>sw_unix := Some i, sw_serving := i # sw_serving x, sw_next := i + 1\<rparr>);
            w1 = put owner perm w
        in case uid of
             Some u \<Rightarrow>
               (case li_chown e of Some er \<Rightarrow> (Some (ChownFailed er), close w1)
                | None \<Rightarrow>
                   let w2 = put (uint u) perm w1
                   in case li_chmod e of Some er \<Rightarrow> (Some (ChmodFailed er), close w2)
                      | None \<Rightarrow> (None, publish (put (uint u) 384 w2)))
           | None \<Rightarrow>
               (case li_chmod e of Some er \<Rightarrow> (Some (ChmodFailed er), close w1)
                | None \<Rightarrow> (None, publish (put owner 384 w1))))"

text \<open>\<open>ensureDirExists\<close>: \<open>li_mkdir\<close> is its error.  An old socket is gone before listening.\<close>

definition startServer :: "listen_env \<Rightarrow> 32 word option \<Rightarrow> string \<Rightarrow> server_world \<Rightarrow> server_error option \<times> server_world" where
  "startServer e uid addr w =
    (case closeServers (li_close e) w of (errs, w1) \<Rightarrow>
      if errs \<noteq> [] then (Some (CloseFailed errs), w1)
      else if addr = [] then (None, w1)
      else case li_mkdir e of Some er \<Rightarrow> (Some (DirFailed er), w1)
      | None \<Rightarrow>
         (case li_unlink e of Some er \<Rightarrow> (Some (UnlinkFailed er), w1)
          | None \<Rightarrow> StartUnix e uid addr (w1\<lparr>sw_sockets := (sw_sockets w1)(addr := None)\<rparr>)))"

section \<open>The service\<close>

record ('x, 'd) service_world =
  wd_keys :: KeyManager
  wd_lantern :: "'x manager"
  wd_guard :: "'d guard_world"
  wd_core :: "core_world option"
  wd_server :: server_world

text \<open>
  The core manager is made on first use.  \<open>Start\<close> goes on when the keys cannot be read or
  the core cannot be reconciled or restored; all that is only logged.
\<close>

record start_answers =
  sa_mkdir :: bool
  sa_disk :: disk
  sa_reconcile :: reconcile_env
  sa_now :: go_time
  sa_stamp :: string
  sa_move :: "string option"
  sa_start :: start_env
  sa_listen :: listen_env

definition GetConfigDir :: "host \<Rightarrow> string" where
  "GetConfigDir w = (let dir = Getenv w ''SPARKLE_CONFIG_DIR'' in if dir \<noteq> [] then dir else Join [''/root'', ''.config''])"

definition core_manager :: "start_answers \<Rightarrow> core_world option \<Rightarrow> core_world" where
  "core_manager a c = (case c of None \<Rightarrow> NewCoreManager (sa_disk a) | Some s \<Rightarrow> s)"

definition Start ::
    "auth_lib \<Rightarrow> service \<Rightarrow> start_answers \<Rightarrow> string \<Rightarrow> ('x, 'd) service_world \<Rightarrow> server_error option \<times> ('x, 'd) service_world" where
  "Start lib sv a addr w =
    (let keyDir = Join [GetConfigDir (sv_host sv), ''sparkle'', ''keys''];
         km = snd (InitKeyManager lib (sa_mkdir a) keyDir (sa_disk a) (wd_keys w));
         c1 = snd (ReconcileRuntimeState sv (sa_reconcile a) (core_manager a (wd_core w)));
         c2 = snd (RestoreDesiredState sv (sa_now a) (sa_stamp a) (sa_move a) (sa_start a) c1);
         (er, srv) = startServer (sa_listen a) (GetAuthorizedUID km) addr (wd_server w)
     in (er, w\<lparr>wd_keys := km, wd_core := Some c2, wd_server := srv\<rparr>))"

datatype service_stop_error = GatewayStop "string list" | CoreStop core_error | ServerStop "close_answer list list"

record stop_answers =
  so_now :: go_time
  so_core :: CoreManager.stop_env
  so_close :: "nat \<Rightarrow> close_answer \<times> close_answer"

definition coreapi_Stop :: "service \<Rightarrow> stop_answers \<Rightarrow> core_world option \<Rightarrow> core_error option \<times> core_world option" where
  "coreapi_Stop sv a c = (case c of None \<Rightarrow> (None, None)
     | Some s \<Rightarrow> (case stopCoreLocked sv (so_now a) (so_core a) s of (er, s') \<Rightarrow> (er, Some s')))"

text \<open>\<open>Stop\<close>: every part is stopped, whatever the others answer, and the errors are joined.\<close>

definition Stop ::
    "service \<Rightarrow> 'x lantern_env \<Rightarrow> stop_answers \<Rightarrow> ('x, 'd) service_world \<Rightarrow> service_stop_error list \<times> ('x, 'd) service_world" where
  "Stop sv le a w =
    (case Shutdown le (wd_lantern w) of (e1, m) \<Rightarrow>
     (let g = guard_stop (so_now a) (wd_guard w) in
      case coreapi_Stop sv a (wd_core w) of (e2, c) \<Rightarrow>
      (case closeServers (so_close a) (wd_server w) of (e3, srv) \<Rightarrow>
        ((if e1 = [] then [] else [GatewayStop e1]) @ (case e2 of None \<Rightarrow> [] | Some er \<Rightarrow> [CoreStop er]) @
         (if e3 = [] then [] else [ServerStop e3]),
         w\<lparr>wd_lantern := m, wd_guard := g, wd_core := c, wd_server := srv\<rparr>))))"

end
