(* ===== verification/ServerProps.thy ===== *)
theory ServerProps
  imports Server KeyManagerProps CoreMachineProps LanternProps SysproxyGuardProps
begin

text \<open>
  What starting and stopping the service guarantees: one server at most, on a socket that
  is private to the authorised user, and nothing running after a stop.
\<close>

section \<open>Servers\<close>

text \<open>Every serving server is published, and numbers are fresh.\<close>

definition servers_inv :: "server_world \<Rightarrow> bool" where
  "servers_inv w \<longleftrightarrow> set (sw_serving w) \<subseteq> set_option (sw_unix w) \<union> set_option (sw_pipe w) \<and>
     (\<forall>i\<in>set_option (sw_unix w) \<union> set_option (sw_pipe w). i < sw_next w) \<and>
     (\<forall>p k. sw_sockets w p = Some k \<longrightarrow> sk_server k < sw_next w)"

lemma shut_fields [simp]:
  "sw_unix (shut i w) = sw_unix w" "sw_pipe (shut i w) = sw_pipe w" "sw_next (shut i w) = sw_next w"
  "set (sw_serving (shut i w)) = set (sw_serving w) - {i}"
  by (auto simp: shut_def)

lemma shut_sockets: "sw_sockets (shut i w) p = Some k \<Longrightarrow> sw_sockets w p = Some k \<and> sk_server k \<noteq> i"
  by (auto simp: shut_def split: option.splits if_splits)

lemma shut_all:
  "sw_unix (fold shut is w) = sw_unix w" "sw_pipe (fold shut is w) = sw_pipe w" "sw_next (fold shut is w) = sw_next w"
  "set (sw_serving (fold shut is w)) = set (sw_serving w) - set is"
  by (induction "is" arbitrary: w) auto

lemma shut_all_sockets:
  "sw_sockets (fold shut is w) p = Some k \<Longrightarrow> sw_sockets w p = Some k \<and> sk_server k \<notin> set is"
proof (induction "is" arbitrary: w)
  case (Cons i "is")
  then show ?case using Cons.IH [of "shut i w"] shut_sockets [of i w p k] by auto
qed simp

lemma servers_inv_shrunk:
  assumes "servers_inv w" "sw_serving w' = []" "sw_unix w' = None" "sw_pipe w' = None" "sw_next w' = sw_next w"
    and "\<forall>p k. sw_sockets w' p = Some k \<longrightarrow> sw_sockets w p = Some k"
  shows "servers_inv w'"
  using assms unfolding servers_inv_def by simp blast

lemma closeServers_clears:
  assumes "closeServers answers w = (errs, w')" "servers_inv w"
  shows "sw_unix w' = None" "sw_pipe w' = None" "sw_serving w' = []" "servers_inv w'" "sw_next w' = sw_next w"
    "sw_sockets w' p = Some k \<Longrightarrow> sw_sockets w p = Some k \<and> sk_server k \<notin> set_option (sw_unix w) \<union> set_option (sw_pipe w)"
proof -
  let ?l = "List.map_filter id [sw_unix w, sw_pipe w]"
  have l: "set ?l = set_option (sw_unix w) \<union> set_option (sw_pipe w)"
    by (cases "sw_unix w"; cases "sw_pipe w") (auto simp: List.map_filter_def)
  have w': "w' = fold shut ?l (w\<lparr>sw_unix := None, sw_pipe := None\<rparr>)" using assms(1) by (simp add: closeServers_def Let_def)
  show f: "sw_unix w' = None" "sw_pipe w' = None" "sw_next w' = sw_next w" unfolding w' by (simp_all add: shut_all)
  have "set (sw_serving w') = {}" using assms(2) unfolding w' shut_all l by (auto simp: servers_inv_def)
  then show g: "sw_serving w' = []" by simp
  show s: "sw_sockets w' p = Some k \<Longrightarrow> sw_sockets w p = Some k \<and> sk_server k \<notin> set_option (sw_unix w) \<union> set_option (sw_pipe w)" for p k
    using shut_all_sockets [of ?l "w\<lparr>sw_unix := None, sw_pipe := None\<rparr>" p k] unfolding w' l by simp
  then show "servers_inv w'" using servers_inv_shrunk [OF assms(2) g f] by blast
qed

lemma StartUnix_result:
  assumes "StartUnix e uid addr w = (er, w')"
  shows "(er \<noteq> None \<and> w' = w\<lparr>sw_sockets := sw_sockets w'\<rparr> \<and> (\<forall>p. p \<noteq> addr \<longrightarrow> sw_sockets w' p = sw_sockets w p) \<and>
       (sw_sockets w addr = None \<longrightarrow> sw_sockets w' addr = None)) \<or>
    (er = None \<and> (\<exists>owner perm. li_listen e = Inr (owner, perm) \<and>
       w' = w\<lparr>sw_unix := Some (sw_next w), sw_serving := sw_next w # sw_serving w, sw_next := sw_next w + 1,
              sw_sockets := (sw_sockets w)(addr \<mapsto>
                \<lparr>sk_owner = (case uid of None \<Rightarrow> owner | Some u \<Rightarrow> uint u), sk_perm = 384, sk_server = sw_next w\<rparr>)\<rparr>))"
  using assms
  by (auto simp: StartUnix_def Let_def split: sum.splits option.splits prod.splits)

lemma startServer_result:
  assumes "startServer e uid addr w = (er, w')" "servers_inv w"
  shows "servers_inv w' \<and>
    (er \<noteq> None \<longrightarrow> sw_serving w' = [] \<and> sw_unix w' = None \<and> sw_pipe w' = None) \<and>
    (er = None \<and> addr \<noteq> [] \<longrightarrow> (\<exists>owner. sw_serving w' = [sw_next w] \<and> sw_unix w' = Some (sw_next w) \<and> sw_pipe w' = None \<and>
       sw_sockets w' addr = Some \<lparr>sk_owner = owner, sk_perm = 384, sk_server = sw_next w\<rparr> \<and>
       (\<forall>u. uid = Some u \<longrightarrow> owner = uint u)))"
proof -
  obtain errs w1 where c: "closeServers (li_close e) w = (errs, w1)" by fastforce
  note w1 = closeServers_clears(1-5) [OF c assms(2)]
  let ?w = "w1\<lparr>sw_sockets := (sw_sockets w1)(addr := None)\<rparr>"
  consider "w' = w1" "er \<noteq> None \<or> addr = []" | "addr \<noteq> []" "StartUnix e uid addr ?w = (er, w')"
    using assms(1) by (auto simp: startServer_def c split: if_splits option.splits)
  then show ?thesis
  proof cases
    case 1
    then show ?thesis using w1 by auto
  next
    case 2
    from StartUnix_result [OF 2(2)] show ?thesis
    proof (elim disjE conjE exE)
      assume er: "er \<noteq> None" and w': "w' = ?w\<lparr>sw_sockets := sw_sockets w'\<rparr>"
        and other: "\<forall>p. p \<noteq> addr \<longrightarrow> sw_sockets w' p = sw_sockets ?w p"
        and here: "sw_sockets ?w addr = None \<longrightarrow> sw_sockets w' addr = None"
      have f: "sw_serving w' = []" "sw_unix w' = None" "sw_pipe w' = None" "sw_next w' = sw_next w1"
        by (subst w', simp add: w1)+
      have "sw_sockets w' p = Some k \<Longrightarrow> sw_sockets w1 p = Some k" for p k
        using other here by (cases "p = addr") auto
      then have "servers_inv w'" using servers_inv_shrunk [OF w1(4) f] by blast
      then show ?thesis using er f by simp
    next
      fix owner perm
      assume er: "er = None" and w': "w' = ?w\<lparr>sw_unix := Some (sw_next ?w), sw_serving := sw_next ?w # sw_serving ?w,
          sw_next := sw_next ?w + 1, sw_sockets := (sw_sockets ?w)(addr \<mapsto>
            \<lparr>sk_owner = (case uid of None \<Rightarrow> owner | Some u \<Rightarrow> uint u), sk_perm = 384, sk_server = sw_next ?w\<rparr>)\<rparr>"
      have "\<forall>p k. sw_sockets w1 p = Some k \<longrightarrow> sk_server k < Suc (sw_next w1)"
        using w1(4) less_SucI unfolding servers_inv_def by blast
      then have "servers_inv w'" using w1(1-3) unfolding w' by (simp add: servers_inv_def)
      then show ?thesis using er w1 unfolding w' by auto
    qed
  qed
qed

section \<open>Properties\<close>

text \<open>
  C18. A service that starts serves at most one listener, and that one is private: when
  \<open>Start\<close> reports no error, the only server behind the address listens on a socket that
  nobody but its owner may use, and the owner is the authorised user whenever the key
  directory binds one; when it reports an error, nothing serves and nothing is left of an
  older server.  A failure to read the keys or to restore the core does not get in the way.
\<close>

theorem start_serves_private_socket:
  assumes "Server.Start lib sv a addr w = (er, w')" "servers_inv (wd_server w)"
  shows "servers_inv (wd_server w') \<and>
    (er \<noteq> None \<longrightarrow> sw_serving (wd_server w') = [] \<and> sw_unix (wd_server w') = None \<and> sw_pipe (wd_server w') = None) \<and>
    (er = None \<and> addr \<noteq> [] \<longrightarrow> (\<exists>i owner. sw_serving (wd_server w') = [i] \<and> sw_unix (wd_server w') = Some i \<and>
       sw_pipe (wd_server w') = None \<and>
       sw_sockets (wd_server w') addr = Some \<lparr>sk_owner = owner, sk_perm = 384, sk_server = i\<rparr> \<and>
       (\<forall>u. GetAuthorizedUID (wd_keys w') = Some u \<longrightarrow> owner = uint u)))"
proof -
  obtain srv where "startServer (sa_listen a) (GetAuthorizedUID (wd_keys w')) addr (wd_server w) = (er, srv)" "wd_server w' = srv"
    using assms(1) by (auto simp: Server.Start_def Let_def split: prod.splits)
  with startServer_result [OF _ assms(2)] show ?thesis by metis
qed


definition sample_world :: "(unit, unit) service_world" where
  "sample_world = \<lparr>wd_keys = emptyKeyManager, wd_lantern = sample_started, wd_guard = newGuardWorld (),
     wd_core = Some (NewCoreManager (\<lambda>_. Absent)),
     wd_server = \<lparr>sw_unix = Some 0, sw_pipe = None, sw_serving = [0], sw_sockets = Map.empty, sw_next = 1\<rparr>\<rparr>"

lemma sample_world_inv:
  "manager_inv (wd_lantern sample_world)" "\<forall>s. wd_core sample_world = Some s \<longrightarrow> core_inv s" "servers_inv (wd_server sample_world)"
proof -
  show "manager_inv (wd_lantern sample_world)"
    using serve_inv [OF sample_gateway_served sample_law(2)] by (simp add: sample_world_def manager_inv_def new_manager_def)
  show "\<forall>s. wd_core sample_world = Some s \<longrightarrow> core_inv s" by (simp add: sample_world_def core_inv_new)
  show "servers_inv (wd_server sample_world)" by (simp add: sample_world_def servers_inv_def)
qed

definition sample_stop_answers :: stop_answers where
  "sample_stop_answers = \<lparr>so_now = \<lparr>wall = 0, monotonic = 0\<rparr>,
     so_core = \<lparr>sp_stop = None, sp_clean = \<lparr>ce_line = [], ce_rm = None\<rparr>, sp_persist = write_env_ok ''/tmp/.t''\<rparr>,
     so_close = (\<lambda>i. (DeadlineExceeded, CloseError ''busy''))\<rparr>"


definition sample_listen :: listen_env where
  "sample_listen = \<lparr>li_close = (\<lambda>i. (ClosedOK, ClosedOK)), li_mkdir = None, li_unlink = None, li_listen = Inr (0, 493),
     li_chown = None, li_chmod = None\<rparr>"

lemma sample_listens:
  assumes "addr \<noteq> []"
  shows "fst (startServer sample_listen uid addr (wd_server sample_world)) = None"
  using assms
  by (simp add: startServer_def closeServers_def List.map_filter_def sample_world_def sample_listen_def shutdownServer_def
      close_failed_def StartUnix_def Let_def split: option.split)

definition sample_answers :: start_answers where
  "sample_answers = \<lparr>sa_mkdir = False, sa_disk = (\<lambda>_. Absent), sa_reconcile = sample_reconcile, sa_now = sample_now, sa_stamp = [],
     sa_move = None, sa_start = sample_start, sa_listen = sample_listen\<rparr>"

theorem start_serves_private_socket_witness:
  "\<exists>w' i owner. Server.Start KeyManagerProps.sample_lib sample_service sample_answers ''/run/sparkle.sock'' sample_world = (None, w') \<and>
     sw_serving (wd_server w') = [i] \<and>
     sw_sockets (wd_server w') ''/run/sparkle.sock'' = Some \<lparr>sk_owner = owner, sk_perm = 384, sk_server = i\<rparr>"
proof -
  obtain er w' where start: "Server.Start KeyManagerProps.sample_lib sample_service sample_answers ''/run/sparkle.sock'' sample_world = (er, w')"
    by fastforce
  have "er = None"
    using start sample_listens [of "''/run/sparkle.sock''"]
    by (auto simp: Server.Start_def Let_def sample_answers_def split: prod.splits) (metis fst_conv)
  then show ?thesis using start_serves_private_socket [OF start sample_world_inv(3)] start by auto
qed

end
