(* ===== verification/Router.thy ===== *)
theory Router
  imports AuthMiddlewareProps
begin

text \<open>
  The routes of the service (\<open>route/route.go\<close>) and the control of the operating system's
  service (\<open>service/service.go\<close>, \<open>route/serviceapi/service_control.go\<close>).  Which pattern a
  path matches is decided by the router library, a parameter here.
\<close>

section \<open>Routes\<close>

datatype endpoint = PingEndpoint | TestEndpoint | ServiceEndpoint | SysproxyEndpoint | CoreEndpoint | SysEndpoint | LanternEndpoint

datatype route_kind = GetRoute | MountRoute

record route =
  ro_kind :: route_kind
  ro_pattern :: string
  ro_endpoint :: endpoint

text \<open>The two groups of \<open>router()\<close>; the second one uses the authentication middleware.\<close>

definition public_routes :: "route list" where
  "public_routes = [\<lparr>ro_kind = GetRoute, ro_pattern = ''/ping'', ro_endpoint = PingEndpoint\<rparr>]"

definition protected_routes :: "route list" where
  "protected_routes =
    [\<lparr>ro_kind = GetRoute, ro_pattern = ''/test'', ro_endpoint = TestEndpoint\<rparr>,
     \<lparr>ro_kind = MountRoute, ro_pattern = ''/service'', ro_endpoint = ServiceEndpoint\<rparr>,
     \<lparr>ro_kind = MountRoute, ro_pattern = ''/sysproxy'', ro_endpoint = SysproxyEndpoint\<rparr>,
     \<lparr>ro_kind = MountRoute, ro_pattern = ''/core'', ro_endpoint = CoreEndpoint\<rparr>,
     \<lparr>ro_kind = MountRoute, ro_pattern = ''/sys'', ro_endpoint = SysEndpoint\<rparr>,
     \<lparr>ro_kind = MountRoute, ro_pattern = ''/lantern'', ro_endpoint = LanternEndpoint\<rparr>]"

datatype routed = NoRoute | Refused nat | Reached endpoint http_request

text \<open>
  \<open>matches\<close> says whether a route of the library takes a request; the first one in the order
  of registration does.  A handler of the second group runs behind the middleware.
\<close>

definition router ::
    "(route \<Rightarrow> http_request \<Rightarrow> bool) \<Rightarrow> auth_lib \<Rightarrow> go_time \<Rightarrow> KeyManager \<Rightarrow> http_request \<Rightarrow> nonceStore \<Rightarrow> routed \<times> nonceStore" where
  "router matches lib now km r st =
    (case find (\<lambda>ro. matches ro r) public_routes of
       Some ro \<Rightarrow> (Reached (ro_endpoint ro) r, st)
     | None \<Rightarrow>
        (case find (\<lambda>ro. matches ro r) protected_routes of
           None \<Rightarrow> (NoRoute, st)
         | Some ro \<Rightarrow>
            (case AuthMiddleware lib now km r st of
               (Served r', st') \<Rightarrow> (Reached (ro_endpoint ro) r', st')
             | (Answered code m, st') \<Rightarrow> (Refused code, st'))))"

section \<open>The service controller\<close>

datatype kservice_status = KRunning | KStopped | KUnknown

datatype service_status = StatusUnknown | StatusRunning | StatusStopped

text \<open>What the service library answers: making the control object, its status, and the two actions.\<close>

record kservice =
  ks_new :: "string option"
  ks_status :: "(string, kservice_status) result"
  ks_stop :: "string option"
  ks_restart :: "string option"

definition newControlService :: "kservice \<Rightarrow> string option" where
  "newControlService k = ks_new k"

definition controller_Status :: "kservice \<Rightarrow> service_status \<times> string option" where
  "controller_Status k =
    (case newControlService k of Some er \<Rightarrow> (StatusUnknown, Some er)
     | None \<Rightarrow>
        (case ks_status k of Inl er \<Rightarrow> (StatusUnknown, Some er)
         | Inr KRunning \<Rightarrow> (StatusRunning, None)
         | Inr KStopped \<Rightarrow> (StatusStopped, None)
         | Inr KUnknown \<Rightarrow> (StatusUnknown, None)))"

definition controller_Stop :: "kservice \<Rightarrow> string option" where
  "controller_Stop k = (case newControlService k of Some er \<Rightarrow> Some er | None \<Rightarrow> ks_stop k)"

definition controller_Restart :: "kservice \<Rightarrow> string option" where
  "controller_Restart k = (case newControlService k of Some er \<Rightarrow> Some er | None \<Rightarrow> ks_restart k)"

record kservice_config =
  kc_name :: string
  kc_executable :: string
  kc_arguments :: "string list"
  kc_dependencies :: "string list"
  kc_sysvScript :: bool
  kc_runAtLoad :: bool

definition newConfig :: "string \<Rightarrow> string \<Rightarrow> kservice_config" where
  "newConfig system executablePath =
    \<lparr>kc_name = ''SparkleService'', kc_executable = executablePath, kc_arguments = [''service'', ''run''],
     kc_dependencies = (if system = ''unix-systemv'' \<or> system = ''windows-service'' then [] else [''After=network-online.target'']),
     kc_sysvScript = (system = ''unix-systemv''), kc_runAtLoad = True\<rparr>"

datatype control_action = StopService | RestartService

datatype control_text = StatusFailed string | AlreadyStopped | NotRunningText | StoppingText | RestartingText

text \<open>
  \<open>controlServiceAsync\<close>: the status and the text of the answer, and the action that runs in
  the background after it, if any.
\<close>

definition controlServiceAsync :: "kservice \<Rightarrow> control_action \<Rightarrow> control_text \<Rightarrow> (nat \<times> control_text) \<times> control_action option" where
  "controlServiceAsync k action message =
    (case controller_Status k of
       (_, Some er) \<Rightarrow> (SendError (PlainError (StatusFailed er)), None)
     | (status, None) \<Rightarrow>
        if action = StopService \<and> status = StatusStopped then ((200, AlreadyStopped), None)
        else if action = RestartService \<and> status = StatusStopped then (SendError (Conflict NotRunningText), None)
        else ((202, message), Some action))"

definition serviceStop :: "kservice \<Rightarrow> (nat \<times> control_text) \<times> control_action option" where
  "serviceStop k = controlServiceAsync k StopService StoppingText"

definition serviceRestart :: "kservice \<Rightarrow> (nat \<times> control_text) \<times> control_action option" where
  "serviceRestart k = controlServiceAsync k RestartService RestartingText"

definition run_control :: "kservice \<Rightarrow> control_action \<Rightarrow> string option" where
  "run_control k action = (case action of StopService \<Rightarrow> controller_Stop k | RestartService \<Rightarrow> controller_Restart k)"

section \<open>Lemmas\<close>

lemma public_ping: "find (\<lambda>ro. matches ro r) public_routes = Some ro \<Longrightarrow> ro_endpoint ro = PingEndpoint"
  by (auto simp: public_routes_def split: if_splits)

text \<open>
  Nothing but the ping is reached without authentication, whichever way the router
  library matches paths: a request that reaches any other part of the service has passed
  the middleware, and a request that is refused or finds no route has changed at most the
  memory of nonces.
\<close>

theorem only_ping_public:
  assumes "router matches lib now km r st = (Reached ep r', st')" "ep \<noteq> PingEndpoint"
  shows "AuthMiddleware lib now km r st = (Served r', st') \<and> IsInitialized km \<and> HasAuthorizedPrincipal km \<and>
    VerifyRequestPrincipal km (Peer r) = None"
proof -
  have served: "AuthMiddleware lib now km r st = (Served r', st')"
    using assms public_ping [of matches r]
    by (auto simp: router_def split: option.splits prod.splits outcome.splits)
  then show ?thesis by (auto simp: AuthMiddleware_def split: if_splits option.splits)
qed

theorem only_ping_public_witness:
  "\<exists>st'. router (\<lambda>ro r. ro_pattern ro = ''/core'') sample_lib \<lparr>wall = - 30000000000, monotonic = 0\<rparr> sample_bound sample_request
       requestNonceStore = (Reached CoreEndpoint sample_request, st') \<and>
     VerifyRequestPrincipal sample_bound (Peer sample_request) = None"
proof -
  obtain st1 where a: "AuthMiddleware sample_lib \<lparr>wall = - 30000000000, monotonic = 0\<rparr> sample_bound sample_request
       requestNonceStore = (Served sample_request, st1)"
    using sample_boundary by blast
  have r: "router (\<lambda>ro r. ro_pattern ro = ''/core'') sample_lib \<lparr>wall = - 30000000000, monotonic = 0\<rparr> sample_bound sample_request
       requestNonceStore = (Reached CoreEndpoint sample_request, st1)"
    by (simp add: router_def public_routes_def protected_routes_def a)
  with only_ping_public [OF r] show ?thesis by simp
qed

end
