(* ===== verification/ServiceRuntime.thy ===== *)
theory ServiceRuntime
  imports StartupNotify
begin

text \<open>
  The copy of its own executable that the service runs from on Linux
  (\<open>cmd/service_runtime_linux.go\<close>): \<open>hashFile\<close>, \<open>stageServiceExecutable\<close>,
  \<open>ensureServiceRuntimeExecutable\<close> and \<open>cleanupServiceRuntimeExecutable\<close>.

  The file system is a map from paths to nodes with owner and permission bits.  The source
  executable is read twice, once for its digest and once for the copy, and each reading is
  an argument of its own, so that the file may change in between.  Each system call may
  fail with an error of the environment \<open>runtime_env\<close>; SHA-256 is the parameter \<open>sha\<close>.
\<close>

section \<open>Files\<close>

datatype rt_node = RtDir "32 word" mode | RtFile "32 word" mode bytes | RtLink bool

type_synonym rt_fs = "string \<rightharpoonup> rt_node"

text \<open>
  One reading of the source: opening it, its kind and permission bits, and the bytes that
  \<open>io.Copy\<close> moved with its error.  \<open>RtLink\<close> is a symbolic link, with whether its target exists.
\<close>

record source_view =
  src_open :: "string option"
  src_stat :: "(string, bool \<times> mode) result"
  src_copy :: "bytes \<times> string option"

record runtime_env =
  re_euid :: "32 word"
  re_umask :: mode
  re_mkdir :: "string \<Rightarrow> string option"
  re_lstat :: "string \<Rightarrow> string option"
  re_statfs :: "string \<Rightarrow> (string, 64 word) result"
  re_stat :: "string \<Rightarrow> string option"
  re_temp :: "(string, string) result"
  re_close_in :: "string option"
  re_chmod :: "string option"
  re_close_tmp :: "string option"
  re_rename :: "string option"
  re_remove :: "string option"
  re_removeAll :: "string option"

datatype runtime_error =
    ExecutableUnknown string
  | SourceOpen string | SourceStat string | SourceIsDir | SourceRead string
  | MkdirError string string | LstatError string string | UntrustedDir string
  | StatfsError string | NoExec | TargetStat string
  | TempError string | CopyError string | CloseInput string | ChmodError string | CloseTemp string
  | PublishError string | ExecError string | CleanupError string

definition serviceRuntimeExecEnv :: string where "serviceRuntimeExecEnv = ''SPARKLE_SERVICE_RUNTIME_EXEC''"

definition serviceRuntimeDir :: string where "serviceRuntimeDir = ''/var/lib/sparkle/service''"

definition ST_NOEXEC :: "64 word" where "ST_NOEXEC = 8"

section \<open>The digest\<close>

definition digest :: "(bytes \<Rightarrow> bytes) \<Rightarrow> bytes \<Rightarrow> string" where
  "digest sha b = take 16 (hex_encode (sha b))"

definition hashFile :: "(bytes \<Rightarrow> bytes) \<Rightarrow> source_view \<Rightarrow> (runtime_error, string \<times> mode) result" where
  "hashFile sha v =
    (case src_open v of Some er \<Rightarrow> Inl (SourceOpen er)
     | None \<Rightarrow>
      (case src_stat v of Inl er \<Rightarrow> Inl (SourceStat er)
       | Inr (isDir, perm) \<Rightarrow>
          if isDir then Inl SourceIsDir
          else case src_copy v of (_, Some er) \<Rightarrow> Inl (SourceRead er)
            | (b, None) \<Rightarrow> Inr (digest sha b, perm AND 0x1FF)))"

section \<open>Staging\<close>

text \<open>\<open>os.Mkdir\<close>: a path that exists is an error the caller ignores.\<close>

definition runtime_mkdir :: "runtime_env \<Rightarrow> string \<Rightarrow> rt_fs \<Rightarrow> runtime_error option \<times> rt_fs" where
  "runtime_mkdir e path fs =
    (if fs path \<noteq> None then (None, fs)
     else case re_mkdir e path of Some er \<Rightarrow> (Some (MkdirError path er), fs)
       | None \<Rightarrow> (None, fs(path \<mapsto> RtDir (re_euid e) (0x1ED AND NOT (re_umask e)))))"

text \<open>A directory of root's that neither its group nor others may write.\<close>

definition root_only :: "rt_fs \<Rightarrow> string \<Rightarrow> bool" where
  "root_only fs path = (case fs path of Some (RtDir uid m) \<Rightarrow> uid = 0 \<and> m AND 0x12 = 0 | _ \<Rightarrow> False)"

definition check_dir :: "runtime_env \<Rightarrow> string \<Rightarrow> rt_fs \<Rightarrow> runtime_error option" where
  "check_dir e path fs =
    (case re_lstat e path of Some er \<Rightarrow> Some (LstatError path er)
     | None \<Rightarrow> if fs path = None then Some (LstatError path ''not exist'')
         else if root_only fs path then None else Some (UntrustedDir path))"

fun runtime_dirs :: "runtime_env \<Rightarrow> string list \<Rightarrow> rt_fs \<Rightarrow> runtime_error option \<times> rt_fs" where
  "runtime_dirs e [] fs = (None, fs)"
| "runtime_dirs e (path # paths) fs =
    (case runtime_mkdir e path fs of (Some er, fs1) \<Rightarrow> (Some er, fs1)
     | (None, fs1) \<Rightarrow>
        (case check_dir e path fs1 of Some er \<Rightarrow> (Some er, fs1)
         | None \<Rightarrow> runtime_dirs e paths fs1))"

text \<open>\<open>os.Stat\<close> follows a symbolic link.\<close>

definition stat_exists :: "rt_fs \<Rightarrow> string \<Rightarrow> bool" where
  "stat_exists fs path = (case fs path of None \<Rightarrow> False | Some (RtLink there) \<Rightarrow> there | Some _ \<Rightarrow> True)"

text \<open>
  \<open>os.CreateTemp\<close> creates a file that was not there, or fails.  The deferred \<open>os.Remove\<close>
  ignores its error.
\<close>

definition tempPattern :: string where "tempPattern = ''.sparkle-service-''"

definition create_temp :: "runtime_env \<Rightarrow> string \<Rightarrow> rt_fs \<Rightarrow> (runtime_error, string \<times> rt_fs) result" where
  "create_temp e dir fs =
    (case re_temp e of Inl er \<Rightarrow> Inl (TempError er)
     | Inr rand \<Rightarrow> (let tmp = dir @ sep # tempPattern @ rand in
         if fs tmp \<noteq> None then Inl (TempError ''exist'')
         else Inr (tmp, fs(tmp \<mapsto> RtFile (re_euid e) (0x180 AND NOT (re_umask e)) []))))"

definition drop_temp :: "runtime_env \<Rightarrow> string \<Rightarrow> rt_fs \<Rightarrow> rt_fs" where
  "drop_temp e tmp fs = (if re_remove e = None then fs(tmp := None) else fs)"

definition fill_temp :: "runtime_env \<Rightarrow> string \<Rightarrow> mode \<Rightarrow> source_view \<Rightarrow> rt_fs \<Rightarrow> runtime_error option \<times> rt_fs" where
  "fill_temp e tmp perm v fs =
    (case src_open v of Some er \<Rightarrow> (Some (SourceOpen er), fs)
     | None \<Rightarrow>
       (let perm' = (if re_chmod e = None then (perm OR 0x140) AND 0x1FF else 0x180 AND NOT (re_umask e));
            fs1 = fs(tmp \<mapsto> RtFile (re_euid e) perm' (fst (src_copy v)))
        in (case (snd (src_copy v), re_close_in e, re_chmod e, re_close_tmp e) of
              (Some er, _, _, _) \<Rightarrow> Some (CopyError er)
            | (None, Some er, _, _) \<Rightarrow> Some (CloseInput er)
            | (None, None, Some er, _) \<Rightarrow> Some (ChmodError er)
            | (None, None, None, Some er) \<Rightarrow> Some (CloseTemp er)
            | (None, None, None, None) \<Rightarrow> None, fs1)))"

definition publish_copy :: "runtime_env \<Rightarrow> string \<Rightarrow> string \<Rightarrow> rt_fs \<Rightarrow> runtime_error option \<times> rt_fs" where
  "publish_copy e tmp target fs =
    (case re_rename e of Some er \<Rightarrow> (Some (PublishError er), fs)
     | None \<Rightarrow> (None, (fs(tmp := None))(target := fs tmp)))"

definition copyServiceExecutable ::
    "runtime_env \<Rightarrow> string \<Rightarrow> string \<Rightarrow> mode \<Rightarrow> source_view \<Rightarrow> rt_fs \<Rightarrow> (runtime_error, string) result \<times> rt_fs" where
  "copyServiceExecutable e dir target perm v fs =
    (case create_temp e dir fs of Inl er \<Rightarrow> (Inl er, fs)
     | Inr (tmp, fs2) \<Rightarrow>
      (case fill_temp e tmp perm v fs2 of
         (Some er, fs3) \<Rightarrow> (Inl er, drop_temp e tmp fs3)
       | (None, fs3) \<Rightarrow>
          (case publish_copy e tmp target fs3 of
             (Some er, fs4) \<Rightarrow> (Inl er, drop_temp e tmp fs4)
           | (None, fs4) \<Rightarrow> (Inr target, drop_temp e tmp fs4))))"

definition stageServiceExecutable ::
    "(bytes \<Rightarrow> bytes) \<Rightarrow> runtime_env \<Rightarrow> source_view \<Rightarrow> source_view \<Rightarrow> string \<Rightarrow> rt_fs \<Rightarrow> (runtime_error, string) result \<times> rt_fs" where
  "stageServiceExecutable sha e v1 v2 source fs =
    (case hashFile sha v1 of Inl er \<Rightarrow> (Inl er, fs)
     | Inr (hash, perm) \<Rightarrow>
      (let dir = Join [serviceRuntimeDir, hash] in
       case runtime_dirs e [Dir serviceRuntimeDir, serviceRuntimeDir, dir] fs of
         (Some er, fs1) \<Rightarrow> (Inl er, fs1)
       | (None, fs1) \<Rightarrow>
        (case re_statfs e dir of Inl er \<Rightarrow> (Inl (StatfsError er), fs1)
         | Inr flags \<Rightarrow>
          if flags AND ST_NOEXEC \<noteq> 0 then (Inl NoExec, fs1)
          else
           (let target = Join [dir, Base source] in
            case re_stat e target of Some er \<Rightarrow> (Inl (TargetStat er), fs1)
            | None \<Rightarrow>
             if stat_exists fs1 target then (Inr target, fs1)
             else copyServiceExecutable e dir target perm v2 fs1))))"

definition cleanupServiceRuntimeExecutable :: "runtime_env \<Rightarrow> rt_fs \<Rightarrow> runtime_error option \<times> rt_fs" where
  "cleanupServiceRuntimeExecutable e fs =
    (case re_removeAll e of Some er \<Rightarrow> (Some (CleanupError er), fs)
     | None \<Rightarrow> (None, \<lambda>p. if p = serviceRuntimeDir \<or> has_prefix p (serviceRuntimeDir @ [sep]) then None else fs p))"

section \<open>Running the copy\<close>

text \<open>
  The environment of a process is the list of texts the kernel hands over.  The runtime of
  the language keeps the first entry of each name and drops the later ones and the empty
  texts; \<open>os.Environ\<close> returns what it kept.
\<close>

definition env_key :: "string \<Rightarrow> string" where
  "env_key s = takeWhile (\<lambda>c. c \<noteq> CHR ''='') s"

definition is_entry :: "string \<Rightarrow> bool" where
  "is_entry s \<longleftrightarrow> CHR ''='' \<in> set s"

fun copyenv :: "string list \<Rightarrow> string list \<Rightarrow> string list" where
  "copyenv seen [] = []"
| "copyenv seen (s # ss) =
    (if is_entry s then
       (if env_key s \<in> set seen then copyenv seen ss else s # copyenv (env_key s # seen) ss)
     else if s = [] then copyenv seen ss else s # copyenv seen ss)"

definition Environ :: "string list \<Rightarrow> string list" where
  "Environ envs = copyenv [] envs"

definition process_getenv :: "string list \<Rightarrow> string \<Rightarrow> string" where
  "process_getenv envs k =
    (case find (\<lambda>s. is_entry s \<and> env_key s = k) envs of None \<Rightarrow> []
     | Some s \<Rightarrow> drop (length k + 1) s)"

text \<open>\<open>syscall.Exec\<close> replaces the process, so that nothing after it runs, or fails.\<close>

datatype run_outcome = RunsHere | Replaced string "string list" "string list" | RunFails runtime_error

definition ensureServiceRuntimeExecutable ::
    "(bytes \<Rightarrow> bytes) \<Rightarrow> runtime_env \<Rightarrow> (string, string) result \<Rightarrow> source_view \<Rightarrow> source_view \<Rightarrow> string option \<Rightarrow>
     string list \<Rightarrow> string list \<Rightarrow> rt_fs \<Rightarrow> run_outcome \<times> rt_fs" where
  "ensureServiceRuntimeExecutable sha e executable v1 v2 exec args envs fs =
    (if process_getenv envs serviceRuntimeExecEnv = ''1'' then (RunsHere, fs)
     else case executable of Inl er \<Rightarrow> (RunFails (ExecutableUnknown er), fs)
       | Inr source \<Rightarrow>
        (case stageServiceExecutable sha e v1 v2 source fs of
           (Inl er, fs1) \<Rightarrow> (RunFails er, fs1)
         | (Inr target, fs1) \<Rightarrow>
            (case exec of Some er \<Rightarrow> (RunFails (ExecError er), fs1)
             | None \<Rightarrow> (Replaced target (target # drop 1 args)
                 (Environ envs @ [serviceRuntimeExecEnv @ ''=1'']), fs1))))"

end
