(* ===== verification/ServiceRuntimeProps.thy ===== *)
theory ServiceRuntimeProps
  imports ServiceRuntime
begin

text \<open>
  What the copy of the service executable is good for: every published copy has the digest
  its directory is named after, the service is replaced by such a copy in directories only
  root can write, and it replaces itself once.
\<close>

section \<open>Paths\<close>

definition runtime_path :: "string \<Rightarrow> string \<Rightarrow> string" where
  "runtime_path h name = serviceRuntimeDir @ sep # h @ sep # name"

abbreviation runtime_hash_dir :: "string \<Rightarrow> string" where
  "runtime_hash_dir h \<equiv> serviceRuntimeDir @ sep # h"

lemma no_sep_split:
  "sep \<notin> set a \<Longrightarrow> sep \<notin> set b \<Longrightarrow> a @ sep # x = b @ sep # y \<longleftrightarrow> a = b \<and> x = y"
proof (induction a arbitrary: b)
  case Nil
  then show ?case by (cases b) auto
next
  case (Cons c a)
  then show ?case using Cons.IH [of "tl b"] by (cases b) auto
qed

lemma runtime_path_inj:
  assumes "plain_elem h" "plain_elem h'"
  shows "runtime_path h n = runtime_path h' n' \<longleftrightarrow> h = h' \<and> n = n'"
  using assms by (simp add: runtime_path_def plain_elem_def no_sep_split)

definition seps :: "string \<Rightarrow> nat" where "seps p = length (filter (\<lambda>c. c = sep) p)"

lemma seps_simps [simp]:
  "seps [] = 0" "seps (c # p) = (if c = sep then 1 else 0) + seps p" "seps (p @ q) = seps p + seps q"
  by (simp_all add: seps_def)

lemma seps_plain: "plain_elem e \<Longrightarrow> seps e = 0"
  by (auto simp: seps_def plain_elem_def filter_empty_conv)

lemma Dir_runtime: "Dir serviceRuntimeDir = ''/var/lib/sparkle''"
  by code_simp

lemma serviceRuntimeDir_path: "IsAbs serviceRuntimeDir" "Clean serviceRuntimeDir = serviceRuntimeDir" "serviceRuntimeDir \<noteq> [sep]"
  by code_simp+

lemma Join_hash_dir: "plain_elem h \<Longrightarrow> Join [serviceRuntimeDir, h] = runtime_hash_dir h"
  by (rule Join_below [OF serviceRuntimeDir_path])

lemma hash_dir_path:
  assumes "plain_elem h"
  shows "IsAbs (runtime_hash_dir h)" "Clean (runtime_hash_dir h) = runtime_hash_dir h" "runtime_hash_dir h \<noteq> [sep]"
proof -
  have c: "runtime_hash_dir h = Clean (join [sep] [serviceRuntimeDir, h])"
    using Join_hash_dir [OF assms] by (simp add: serviceRuntimeDir_def)
  show "IsAbs (runtime_hash_dir h)" by (simp add: IsAbs_def serviceRuntimeDir_def)
  then show "Clean (runtime_hash_dir h) = runtime_hash_dir h"
    using Clean_idem_rooted [of "join [sep] [serviceRuntimeDir, h]"] unfolding c
    by (simp add: IsAbs_def serviceRuntimeDir_def)
  show "runtime_hash_dir h \<noteq> [sep]" by (simp add: serviceRuntimeDir_def)
qed

lemma Join_target: "plain_elem h \<Longrightarrow> plain_elem name \<Longrightarrow> Join [runtime_hash_dir h, name] = runtime_path h name"
  using Join_below [OF hash_dir_path] by (simp add: runtime_path_def)

lemma plain_digest:
  assumes "length (sha b) = 32"
  shows "plain_elem (digest sha b)"
proof -
  have n: "length (digest sha b) = 16" using assms by (simp add: digest_def)
  have "\<forall>c\<in>set (digest sha b). hex_char c"
    using in_set_takeD hex_encode_chars by (fastforce simp: digest_def)
  then have "sep \<notin> set (digest sha b)" by (auto simp: hex_char_def)
  with n show ?thesis by (auto simp: plain_elem_def)
qed

section \<open>The directories\<close>

abbreviation runtime_parents :: "string \<Rightarrow> string list" where
  "runtime_parents h \<equiv> [Dir serviceRuntimeDir, serviceRuntimeDir, runtime_hash_dir h]"

lemma runtime_mkdir_mono: "fs \<subseteq>\<^sub>m snd (runtime_mkdir e path fs)"
  by (auto simp: runtime_mkdir_def map_le_def split: option.splits)

lemma runtime_dirs_mono: "fs \<subseteq>\<^sub>m snd (runtime_dirs e paths fs)"
proof (induction paths arbitrary: fs)
  case (Cons p ps)
  show ?case
    using runtime_mkdir_mono [of fs e p] Cons.IH [of "snd (runtime_mkdir e p fs)"] map_le_trans
    by (auto split: prod.splits option.splits)
qed simp

lemma runtime_dirs_frame: "p \<notin> set paths \<Longrightarrow> snd (runtime_dirs e paths fs) p = fs p"
  by (induction paths arbitrary: fs) (auto simp: runtime_mkdir_def split: prod.splits option.splits if_splits)

lemma root_only_mono: "root_only fs p \<Longrightarrow> fs \<subseteq>\<^sub>m fs' \<Longrightarrow> root_only fs' p"
  by (auto simp: root_only_def map_le_def dom_def split: option.splits rt_node.splits)

lemma runtime_dirs_root_only:
  "runtime_dirs e paths fs = (None, fs') \<Longrightarrow> p \<in> set paths \<Longrightarrow> root_only fs' p"
proof (induction paths arbitrary: fs)
  case (Cons q qs)
  obtain fs1 where mk: "runtime_mkdir e q fs = (None, fs1)" and ok: "check_dir e q fs1 = None"
    and rest: "runtime_dirs e qs fs1 = (None, fs')"
    using Cons.prems(1) by (auto split: prod.splits option.splits)
  have "root_only fs1 q" using ok by (auto simp: check_dir_def split: option.splits if_splits)
  moreover have "fs1 \<subseteq>\<^sub>m fs'" using runtime_dirs_mono [of fs1 e qs] rest by simp
  ultimately show ?case using Cons.IH [OF rest] Cons.prems(2) by (auto intro: root_only_mono)
qed simp

lemma runtime_path_not_parent:
  assumes "plain_elem h'"
  shows "runtime_path h name \<notin> set (runtime_parents h')"
proof -
  have "seps (runtime_path h name) \<ge> 6" by (simp add: runtime_path_def serviceRuntimeDir_def)
  moreover have "seps (Dir serviceRuntimeDir) = 3" unfolding Dir_runtime by simp
  moreover have "seps serviceRuntimeDir = 4" by (simp add: serviceRuntimeDir_def)
  moreover have "seps (runtime_hash_dir h') = 5" using assms by (simp add: serviceRuntimeDir_def seps_plain)
  ultimately have "seps (runtime_path h name) \<notin> seps ` set (runtime_parents h')" by (simp del: seps_simps)
  then show ?thesis by blast
qed

section \<open>Outcomes of the staging\<close>

text \<open>
  Staging an executable whose name is plain: it fails, with nothing changed but the
  directories and perhaps a temporary file; or it finds the copy; or it makes it.
\<close>

definition made_copy :: "runtime_env \<Rightarrow> mode \<Rightarrow> bytes \<Rightarrow> rt_node" where
  "made_copy e perm b = RtFile (re_euid e) ((perm OR 0x140) AND 0x1FF) b"

lemma create_temp_Inr:
  assumes "create_temp e dir fs = Inr (tmp, fs2)"
  obtains rand where "tmp = dir @ sep # tempPattern @ rand" "fs tmp = None"
    "fs2 = fs(tmp \<mapsto> RtFile (re_euid e) (0x180 AND NOT (re_umask e)) [])"
  using assms by (auto simp: create_temp_def Let_def split: sum.splits if_splits)

lemma fill_temp_frame: "p \<noteq> tmp \<Longrightarrow> snd (fill_temp e tmp perm v fs) p = fs p"
  by (simp add: fill_temp_def Let_def split: option.splits)

lemma fill_temp_ok:
  assumes "fill_temp e tmp perm v fs = (None, fs')"
  shows "src_open v = None" "snd (src_copy v) = None" "fs' = fs(tmp \<mapsto> made_copy e perm (fst (src_copy v)))"
  using assms by (auto simp: fill_temp_def made_copy_def Let_def split: option.splits)

lemma drop_temp_other: "p \<noteq> tmp \<Longrightarrow> drop_temp e tmp fs p = fs p"
  by (simp add: drop_temp_def)

lemma copy_frame:
  assumes "\<forall>rand. p \<noteq> dir @ sep # tempPattern @ rand" "copyServiceExecutable e dir target perm v fs = (r, fs')"
    "p \<noteq> target \<or> (\<exists>er. r = Inl er)"
  shows "fs' p = fs p"
proof (cases "create_temp e dir fs")
  case (Inr tf)
  obtain tmp fs2 where t: "create_temp e dir fs = Inr (tmp, fs2)" using Inr by (cases tf) auto
  then obtain rand where r: "tmp = dir @ sep # tempPattern @ rand"
    "fs2 = fs(tmp \<mapsto> RtFile (re_euid e) (0x180 AND NOT (re_umask e)) [])" by (rule create_temp_Inr)
  obtain er fs3 where f: "fill_temp e tmp perm v fs2 = (er, fs3)" by (cases "fill_temp e tmp perm v fs2")
  have p: "p \<noteq> tmp" using assms(1) r(1) by blast
  then have "fs3 p = fs p" using fill_temp_frame [of p tmp e perm v fs2] f r(2) by simp
  then show ?thesis
    using assms(2,3) t f p by (auto simp: copyServiceExecutable_def publish_copy_def drop_temp_other split: option.splits)
qed (use assms(2) in \<open>simp add: copyServiceExecutable_def\<close>)

lemma copy_made:
  assumes "\<forall>rand. target \<noteq> dir @ sep # tempPattern @ rand" "copyServiceExecutable e dir target perm v fs = (Inr t, fs')"
  shows "t = target" "src_open v = None" "snd (src_copy v) = None" "fs' target = Some (made_copy e perm (fst (src_copy v)))"
proof -
  obtain tmp fs2 fs3 where t: "create_temp e dir fs = Inr (tmp, fs2)" "fill_temp e tmp perm v fs2 = (None, fs3)"
    using assms(2) by (auto simp: copyServiceExecutable_def split: sum.splits prod.splits option.splits)
  have "target \<noteq> tmp" using t(1) assms(1) by (blast elim: create_temp_Inr)
  then show "t = target" "src_open v = None" "snd (src_copy v) = None" "fs' target = Some (made_copy e perm (fst (src_copy v)))"
    using assms(2) t fill_temp_ok [OF t(2)]
    by (auto simp: copyServiceExecutable_def publish_copy_def drop_temp_other split: option.splits)
qed

lemma runtime_path_not_temp:
  assumes "plain_elem h" "plain_elem h'" "\<not> prefix tempPattern name"
  shows "\<forall>rand. runtime_path h name \<noteq> runtime_hash_dir h' @ sep # tempPattern @ rand"
proof -
  have "runtime_hash_dir h' @ sep # tempPattern @ rand = runtime_path h' (tempPattern @ rand)" for rand
    by (simp add: runtime_path_def)
  then show ?thesis using runtime_path_inj [OF assms(1,2)] assms(3) by auto
qed

lemma hashFile_Inr:
  assumes "hashFile sha v = Inr (h, perm)"
  obtains b where "src_copy v = (b, None)" "h = digest sha b"
  using assms by (auto simp: hashFile_def split: option.splits sum.splits if_splits prod.splits)

lemma stat_exists_cong: "fs p = fs' p \<Longrightarrow> stat_exists fs p = stat_exists fs' p"
  by (simp add: stat_exists_def)

lemma stage_cases:
  assumes sha: "\<forall>b. length (sha b) = 32" and base: "plain_elem (Base source)" "\<not> prefix tempPattern (Base source)"
  obtains (failed) er fs' where "stageServiceExecutable sha e v1 v2 source fs = (Inl er, fs')"
      "\<forall>h name. plain_elem h \<and> \<not> prefix tempPattern name \<longrightarrow> fs' (runtime_path h name) = fs (runtime_path h name)"
  | (staged) b perm h fs' flags where "stageServiceExecutable sha e v1 v2 source fs = (Inr (runtime_path h (Base source)), fs')"
      "hashFile sha v1 = Inr (h, perm)" "src_copy v1 = (b, None)" "h = digest sha b"
      "\<forall>p\<in>set (runtime_parents h). root_only fs' p"
      "re_statfs e (runtime_hash_dir h) = Inr flags" "flags AND ST_NOEXEC = 0"
      "\<forall>h' name. plain_elem h' \<and> \<not> prefix tempPattern name \<and> (h', name) \<noteq> (h, Base source) \<longrightarrow>
         fs' (runtime_path h' name) = fs (runtime_path h' name)"
      "if stat_exists fs (runtime_path h (Base source))
       then fs' (runtime_path h (Base source)) = fs (runtime_path h (Base source))
       else src_open v2 = None \<and> snd (src_copy v2) = None \<and>
         fs' (runtime_path h (Base source)) = Some (made_copy e perm (fst (src_copy v2)))"
proof (cases "hashFile sha v1")
  case (Inl er)
  then show thesis by (intro failed [of er fs]) (simp_all add: stageServiceExecutable_def)
next
  case (Inr hp)
  then obtain h perm where hash: "hashFile sha v1 = Inr (h, perm)" by (cases hp) auto
  then obtain b where b: "src_copy v1 = (b, None)" "h = digest sha b" by (rule hashFile_Inr)
  then have h: "plain_elem h" using sha plain_digest by blast
  note paths = Join_hash_dir [OF h] Join_target [OF h base(1)]
  let ?t = "runtime_path h (Base source)"
  obtain er fs1 where dirs: "runtime_dirs e (runtime_parents h) fs = (er, fs1)"
    by (cases "runtime_dirs e (runtime_parents h) fs")
  have keep: "fs1 (runtime_path h' name) = fs (runtime_path h' name)" for h' name
    using runtime_dirs_frame [OF runtime_path_not_parent [OF h], of e fs] dirs by (metis snd_conv)
  have ex: "stat_exists fs1 ?t = stat_exists fs ?t" by (rule stat_exists_cong) (rule keep)
  have eq: "stageServiceExecutable sha e v1 v2 source fs =
    (case er of Some er' \<Rightarrow> (Inl er', fs1)
     | None \<Rightarrow> (case re_statfs e (runtime_hash_dir h) of Inl er' \<Rightarrow> (Inl (StatfsError er'), fs1)
         | Inr flags \<Rightarrow> if flags AND ST_NOEXEC \<noteq> 0 then (Inl NoExec, fs1)
             else case re_stat e ?t of Some er' \<Rightarrow> (Inl (TargetStat er'), fs1)
               | None \<Rightarrow> if stat_exists fs1 ?t then (Inr ?t, fs1)
                   else copyServiceExecutable e (runtime_hash_dir h) ?t perm v2 fs1))"
    by (simp only: stageServiceExecutable_def hash sum.case prod.case Let_def paths dirs)
  consider (bad) er' where "stageServiceExecutable sha e v1 v2 source fs = (Inl er', fs1)"
    | (good) flags where "er = None" "re_statfs e (runtime_hash_dir h) = Inr flags" "flags AND ST_NOEXEC = 0"
      "stageServiceExecutable sha e v1 v2 source fs =
         (if stat_exists fs1 ?t then (Inr ?t, fs1) else copyServiceExecutable e (runtime_hash_dir h) ?t perm v2 fs1)"
    by (cases er; cases "re_statfs e (runtime_hash_dir h)"; cases "re_stat e ?t";
        cases "projr (re_statfs e (runtime_hash_dir h)) AND ST_NOEXEC = 0")
      (simp_all add: eq)
  then show thesis
  proof cases
    case bad
    then show thesis using failed keep by blast
  next
    case good
    have root: "\<forall>p\<in>set (runtime_parents h). root_only fs1 p"
      using runtime_dirs_root_only dirs good(1) by blast
    show thesis
    proof (cases "stat_exists fs ?t")
      case True
      then show thesis using staged [of h fs1 perm b flags] hash b root good keep ex by simp
    next
      case False
      obtain r fs' where c: "copyServiceExecutable e (runtime_hash_dir h) ?t perm v2 fs1 = (r, fs')"
        by (cases "copyServiceExecutable e (runtime_hash_dir h) ?t perm v2 fs1")
      note nt = runtime_path_not_temp [OF _ h]
      show thesis
      proof (cases r)
        case (Inl er')
        have "fs' (runtime_path h' name) = fs (runtime_path h' name)"
          if "plain_elem h'" "\<not> prefix tempPattern name" for h' name
          using copy_frame [OF nt [OF that] c] Inl keep by simp
        then show thesis using failed [of er' fs'] good(4) False ex c Inl by simp
      next
        case (Inr t)
        note made = copy_made [OF nt [OF h base(2)] c [unfolded Inr]]
        have frame: "fs' (runtime_path h' name) = fs (runtime_path h' name)"
          if "plain_elem h' \<and> \<not> prefix tempPattern name \<and> (h', name) \<noteq> (h, Base source)" for h' name
          using copy_frame [OF nt c, of h' name] runtime_path_inj [of h' h name "Base source"] that keep h by auto
        have "root_only fs' p" if p: "p \<in> set (runtime_parents h)" for p
        proof -
          have "p \<noteq> ?t" "\<forall>rand. p \<noteq> runtime_hash_dir h @ sep # tempPattern @ rand"
            using p runtime_path_not_parent [OF h, of h "Base source"] runtime_path_not_parent [OF h, of h "tempPattern @ _"]
            unfolding runtime_path_def by (blast, metis append.assoc append_Cons)
          then have "fs' p = fs1 p" using copy_frame [OF _ c, of p] by simp
          moreover have "root_only fs1 p" using root p by blast
          ultimately show ?thesis by (simp add: root_only_def)
        qed
        then show thesis
          using staged [of h fs' perm b flags] hash b good False ex c Inr made frame by simp
      qed
    qed
  qed
qed

section \<open>Published copies\<close>

text \<open>
  Whatever lies in a directory of the runtime under a name that is not that of a temporary
  file is a file with the digest the directory is named after.
\<close>

definition published_ok :: "(bytes \<Rightarrow> bytes) \<Rightarrow> rt_fs \<Rightarrow> bool" where
  "published_ok sha fs \<longleftrightarrow> (\<forall>h name n. plain_elem h \<and> \<not> prefix tempPattern name \<and> fs (runtime_path h name) = Some n \<longrightarrow>
     (\<exists>uid m b. n = RtFile uid m b \<and> digest sha b = h))"

lemma published_okD:
  assumes "published_ok sha fs" "plain_elem h" "\<not> prefix tempPattern name" "fs (runtime_path h name) = Some n"
  obtains uid m b where "n = RtFile uid m b" "digest sha b = h"
  using assms unfolding published_ok_def by blast

lemma stat_exists_published:
  assumes "published_ok sha fs" "plain_elem h" "\<not> prefix tempPattern name"
  shows "stat_exists fs (runtime_path h name) \<longleftrightarrow> fs (runtime_path h name) \<noteq> None"
  using published_okD [OF assms] by (fastforce simp: stat_exists_def split: option.splits)

lemma staged_published:
  assumes "published_ok sha fs" "\<forall>b. length (sha b) = 32"
    "plain_elem (Base source)" "\<not> prefix tempPattern (Base source)" "src_copy v2 = src_copy v1"
    "stageServiceExecutable sha e v1 v2 source fs = (r, fs')"
  shows "published_ok sha fs'"
  using assms(2-4)
proof (cases rule: stage_cases [where e = e and ?v1.0 = v1 and ?v2.0 = v2 and fs = fs])
  case (failed er fs'')
  then show ?thesis using assms(1,6) unfolding published_ok_def by auto
next
  case (staged b perm h fs'' flags)
  have eq: "fs'' = fs'" using staged(1) assms(6) by simp
  have h: "plain_elem h" using staged(4) plain_digest assms(2) by simp
  have "\<exists>uid m c. n = RtFile uid m c \<and> digest sha c = h'"
    if n: "plain_elem h'" "\<not> prefix tempPattern name" "fs' (runtime_path h' name) = Some n" for h' name n
  proof (cases "(h', name) = (h, Base source)")
    case False
    then have "fs (runtime_path h' name) = Some n" using staged(8) n eq by auto
    then show ?thesis using assms(1) n(1,2) unfolding published_ok_def by blast
  next
    case True
    show ?thesis
    proof (cases "stat_exists fs (runtime_path h (Base source))")
      case old: True
      then have "fs (runtime_path h' name) = Some n" using staged(9) n(3) True eq by simp
      then show ?thesis using assms(1) n(1,2) unfolding published_ok_def by blast
    next
      case new: False
      then have "n = made_copy e perm b" using staged(3,9) n(3) True eq assms(5) by simp
      then show ?thesis using staged(4) True by (simp add: made_copy_def)
    qed
  qed
  then show ?thesis unfolding published_ok_def by blast
qed

lemma cleanup_published:
  assumes "published_ok sha fs"
  shows "published_ok sha (snd (cleanupServiceRuntimeExecutable e fs))"
  using assms unfolding published_ok_def cleanupServiceRuntimeExecutable_def
  by (auto split: option.splits if_splits)

lemma cleanup_removes:
  assumes "cleanupServiceRuntimeExecutable e fs = (None, fs')"
  shows "fs' (runtime_path h name) = None"
  using assms
  by (auto simp: cleanupServiceRuntimeExecutable_def runtime_path_def split: option.splits)

text \<open>The bits for the group and for others of a copy are those of the source.\<close>

lemma copy_write_bits: "(((perm AND 0x1FF) OR 0x140) AND 0x1FF) AND 0x12 = (perm :: mode) AND 0x12"
proof -
  have "(((perm AND 0x1FF) OR 0x140) AND 0x1FF) AND (0x12 :: mode) = perm AND (0x1FF AND 0x1FF AND 0x12) OR (0x140 AND 0x1FF AND 0x12)"
    by (simp only: bit.conj_disj_distrib2 and.assoc)
  then show ?thesis by simp
qed

section \<open>The environment of the copy\<close>

lemma is_entry_exec: "is_entry (serviceRuntimeExecEnv @ ''=1'')" "env_key (serviceRuntimeExecEnv @ ''=1'') = serviceRuntimeExecEnv"
  by code_simp+

definition has_var :: "string list \<Rightarrow> string \<Rightarrow> bool" where
  "has_var envs k \<longleftrightarrow> (\<exists>s\<in>set envs. is_entry s \<and> env_key s = k)"

text \<open>The runtime keeps the entry that a search from the front finds.\<close>

lemma find_copyenv:
  "k \<notin> set seen \<Longrightarrow> find (\<lambda>s. is_entry s \<and> env_key s = k) (copyenv seen envs) = find (\<lambda>s. is_entry s \<and> env_key s = k) envs"
  by (induction seen envs rule: copyenv.induct) auto

lemma find_append: "find P (xs @ ys) = (case find P xs of None \<Rightarrow> find P ys | Some x \<Rightarrow> Some x)"
  by (induction xs) auto

lemma find_has_var: "find (\<lambda>s. is_entry s \<and> env_key s = k) envs = None \<longleftrightarrow> \<not> has_var envs k"
  by (auto simp: find_None_iff has_var_def)

lemma copy_getenv:
  "process_getenv (Environ envs @ [serviceRuntimeExecEnv @ ''=1'']) serviceRuntimeExecEnv =
     (if has_var envs serviceRuntimeExecEnv then process_getenv envs serviceRuntimeExecEnv else ''1'')"
proof -
  let ?find = "find (\<lambda>s. is_entry s \<and> env_key s = serviceRuntimeExecEnv)"
  have "?find (Environ envs @ [serviceRuntimeExecEnv @ ''=1'']) =
      (case ?find envs of None \<Rightarrow> Some (serviceRuntimeExecEnv @ ''=1'') | Some s \<Rightarrow> Some s)"
    unfolding find_append Environ_def
    using find_copyenv [of serviceRuntimeExecEnv "[]" envs] is_entry_exec by (simp split: option.splits)
  then show ?thesis
    using find_has_var [of serviceRuntimeExecEnv envs] by (auto simp: process_getenv_def split: option.splits)
qed

section \<open>Properties\<close>

lemma ensure_Replaced:
  assumes "ensureServiceRuntimeExecutable sha e executable v1 v2 exec args envs fs = (Replaced target args' envs', fs')"
  obtains source where "executable = Inr source" "stageServiceExecutable sha e v1 v2 source fs = (Inr target, fs')"
    "process_getenv envs serviceRuntimeExecEnv \<noteq> ''1''" "envs' = Environ envs @ [serviceRuntimeExecEnv @ ''=1'']"
  using assms
  by (auto simp: ensureServiceRuntimeExecutable_def split: if_splits sum.splits prod.splits option.splits)


definition sample_sha :: "bytes \<Rightarrow> bytes" where
  "sample_sha b = take 32 (b @ replicate 32 (CHR ''0''))"

definition sample_runtime_env :: runtime_env where
  "sample_runtime_env = \<lparr>re_euid = 0, re_umask = 0x12, re_mkdir = (\<lambda>_. None), re_lstat = (\<lambda>_. None), re_statfs = (\<lambda>_. Inr 0),
     re_stat = (\<lambda>_. None), re_temp = Inr ''123'', re_close_in = None, re_chmod = None, re_close_tmp = None,
     re_rename = None, re_remove = None, re_removeAll = None\<rparr>"

definition sample_source :: "mode \<Rightarrow> source_view" where
  "sample_source perm = \<lparr>src_open = None, src_stat = Inr (False, perm), src_copy = (''ELF'', None)\<rparr>"

abbreviation sample_ensure :: "mode \<Rightarrow> string list \<Rightarrow> rt_fs \<Rightarrow> run_outcome \<times> rt_fs" where
  "sample_ensure perm \<equiv> ensureServiceRuntimeExecutable sample_sha sample_runtime_env (Inr ''/opt/sparkle-service'')
     (sample_source perm) (sample_source perm) None [''sparkle-service'', ''service'', ''run'']"

lemma sample_sha_length: "\<forall>b. length (sample_sha b) = 32"
  by (simp add: sample_sha_def min_def)

lemma sample_ensure_run:
  obtains target args' envs' fs' where "sample_ensure 0x1ED [''A=b''] Map.empty = (Replaced target args' envs', fs')"
proof -
  have "case fst (sample_ensure 0x1ED [''A=b''] Map.empty) of Replaced _ _ _ \<Rightarrow> True | _ \<Rightarrow> False" by code_simp
  then show thesis using that by (cases "sample_ensure 0x1ED [''A=b''] Map.empty") (auto split: run_outcome.splits)
qed


text \<open>
  The service replaces itself once: the process that takes over runs here, whatever the
  system answers it, exactly when the variable that marks the copy was not set in the
  environment of the first process.  When it was set, to anything but 1, the entry for 1 is
  appended after the old one, which the runtime of the language keeps, and the copy does
  not run either.
\<close>

theorem runtime_exec_once:
  assumes "ensureServiceRuntimeExecutable sha e executable v1 v2 exec args envs fs = (Replaced target args' envs', fs')"
  shows "fst (ensureServiceRuntimeExecutable sha2 e2 executable2 w1 w2 exec2 args2 envs' fs2) = RunsHere \<longleftrightarrow>
    \<not> has_var envs serviceRuntimeExecEnv"
proof -
  have "process_getenv envs serviceRuntimeExecEnv \<noteq> ''1''" "envs' = Environ envs @ [serviceRuntimeExecEnv @ ''=1'']"
    using assms by (auto elim: ensure_Replaced)
  then have "process_getenv envs' serviceRuntimeExecEnv = ''1'' \<longleftrightarrow> \<not> has_var envs serviceRuntimeExecEnv"
    by (simp add: copy_getenv)
  moreover have "fst (ensureServiceRuntimeExecutable sha2 e2 executable2 w1 w2 exec2 args2 envs' fs2) = RunsHere \<longleftrightarrow>
      process_getenv envs' serviceRuntimeExecEnv = ''1''"
    by (auto simp: ensureServiceRuntimeExecutable_def split: sum.splits prod.splits option.splits)
  ultimately show ?thesis by blast
qed

theorem runtime_exec_once_witness:
  "\<exists>target args' envs' fs'. sample_ensure 0x1ED [''A=b''] Map.empty = (Replaced target args' envs', fs') \<and>
     fst (sample_ensure 0x1ED envs' fs') = RunsHere"
proof -
  obtain target args' envs' fs' where r: "sample_ensure 0x1ED [''A=b''] Map.empty = (Replaced target args' envs', fs')"
    by (rule sample_ensure_run)
  have "\<not> has_var [''A=b''] serviceRuntimeExecEnv" by code_simp
  with runtime_exec_once [OF r] r show ?thesis by blast
qed

text \<open>
  A new copy may be written by the group and by others exactly when the source may be: the
  copy keeps the permission bits of the executable it was made from.
\<close>

lemma new_copy_write_bits:
  assumes "\<forall>b. length (sha b) = 32" "plain_elem (Base source)" "\<not> prefix tempPattern (Base source)"
    and "stageServiceExecutable sha e v1 v2 source fs = (Inr target, fs')" "fs target = None" "src_stat v1 = Inr (isDir, perm)"
  shows "\<exists>uid m b. fs' target = Some (RtFile uid m b) \<and> m AND 0x12 = perm AND 0x12"
  using assms(1-3)
proof (cases rule: stage_cases [where e = e and ?v1.0 = v1 and ?v2.0 = v2 and fs = fs])
  case (staged b p h fs'' flags)
  then have t: "target = runtime_path h (Base source)" "fs'' = fs'" using assms(4) by simp_all
  have "p = perm AND 0x1FF"
    using staged(2) assms(6) by (auto simp: hashFile_def split: option.splits if_splits prod.splits)
  moreover have "fs' target = Some (made_copy e p (fst (src_copy v2)))"
    using staged(9) t assms(5) by (simp add: stat_exists_def)
  ultimately show ?thesis using copy_write_bits [of perm] by (simp add: made_copy_def)
qed (use assms(4) in simp)

end
