(* ===== verification/InitKeys.thy ===== *)
theory InitKeys
  imports KeyManagerProps
begin

text \<open>
  What \<open>service init\<close> (\<open>cmd/cmd_service.go\<close>) does to the key manager, and what a service
  that starts afterwards reads back from the files: the bridge between the command, which
  is a process of its own, and the service.
\<close>

section \<open>Setting the key and the principal\<close>

record init_flags =
  if_publicKey :: string
  if_authorizedSID :: string
  if_authorizedUID :: "32 word"
  if_uidChanged :: bool

text \<open>The part that changes the key manager: the key, then the principal.\<close>

definition init_keys ::
    "auth_lib \<Rightarrow> write_outcome \<Rightarrow> write_outcome \<Rightarrow> init_flags \<Rightarrow> KeyManager \<Rightarrow> disk \<Rightarrow> (auth_error, bool) result \<times> KeyManager \<times> disk" where
  "init_keys lib w1 w2 f km d =
    (case SetPublicKey lib w1 (if_publicKey f) km d of
       (Inl er, km1, d1) \<Rightarrow> (Inl er, km1, d1)
     | (Inr keyChanged, km1, d1) \<Rightarrow>
        (case (if if_authorizedSID f \<noteq> [] then SetAuthorizedSID lib w2 (if_authorizedSID f) km1 d1
               else SetAuthorizedUID lib w2 (if_authorizedUID f) km1 d1) of
           (Inl er, km2, d2) \<Rightarrow> (Inl er, km2, d2)
         | (Inr principalChanged, km2, d2) \<Rightarrow> (Inr (keyChanged \<or> principalChanged), km2, d2)))"

section \<open>Reading it back\<close>

text \<open>The manager of a new process, with the paths below the key directory.\<close>

definition fresh_manager :: "string \<Rightarrow> KeyManager" where
  "fresh_manager keyDir = emptyKeyManager\<lparr>keyRingPath := Join [keyDir, ''public_keys.json''],
     legacyKeyPath := Join [keyDir, ''public_key.pem''], principalPath := Join [keyDir, ''authorized_principal.json'']\<rparr>"

lemma key_paths_differ:
  assumes "keyDir \<noteq> []"
  shows "keyRingPath (fresh_manager keyDir) \<noteq> principalPath (fresh_manager keyDir)"
    "keyRingPath (fresh_manager keyDir) \<noteq> legacyKeyPath (fresh_manager keyDir)"
    "legacyKeyPath (fresh_manager keyDir) \<noteq> principalPath (fresh_manager keyDir)"
proof -
  have path: "Join [keyDir, name] = Clean (keyDir @ sep # name)" for name using assms by simp
  have plain: "plain_elem ''public_keys.json''" "plain_elem ''public_key.pem''" "plain_elem ''authorized_principal.json''"
    by (simp_all add: plain_elem_def)
  note inj = Clean_last_inj [of _ _ keyDir]
  show "keyRingPath (fresh_manager keyDir) \<noteq> principalPath (fresh_manager keyDir)"
    "keyRingPath (fresh_manager keyDir) \<noteq> legacyKeyPath (fresh_manager keyDir)"
    "legacyKeyPath (fresh_manager keyDir) \<noteq> principalPath (fresh_manager keyDir)"
    using inj [OF plain(1,3)] inj [OF plain(1,2)] inj [OF plain(2,3)]
    by (auto simp: fresh_manager_def path simp del: Join.simps)
qed

lemma fresh_inv [inv_intros]: "km_inv lib (fresh_manager keyDir)"
  by (simp add: km_inv_def fresh_manager_def emptyKeyManager_def ring_map_def add_key_def)

lemma fresh_empty [simp]:
  "currentKey (fresh_manager keyDir) = None" "previousKey (fresh_manager keyDir) = None"
  "authorizedPrincipal (fresh_manager keyDir) = None"
  by (simp_all add: fresh_manager_def emptyKeyManager_def)

lemma loadPublicKeys_frame [frame_simps]:
  "authorizedPrincipal (snd (loadPublicKeys lib d km)) = authorizedPrincipal km"
  "keyRingPath (snd (loadPublicKeys lib d km)) = keyRingPath km"
  "principalPath (snd (loadPublicKeys lib d km)) = principalPath km"
  by (auto simp: loadPublicKeys_def frame_refresh split: file_state.splits option.splits sum.splits)

lemma loadPublicKeys_cong:
  assumes "d (keyRingPath km) = d' (keyRingPath km)" "d (legacyKeyPath km) = d' (legacyKeyPath km)"
  shows "loadPublicKeys lib d km = loadPublicKeys lib d' km"
proof -
  have l: "loadLegacyPublicKeyLocked lib d km = loadLegacyPublicKeyLocked lib d' km"
    using assms(2) by (simp add: loadLegacyPublicKeyLocked_def)
  show ?thesis unfolding loadPublicKeys_def assms(1) l ..
qed

text \<open>The principal a file holds, if it is in order.\<close>

definition stored_principal :: "auth_lib \<Rightarrow> file_state \<Rightarrow> AuthorizedPrincipal option" where
  "stored_principal lib st = (case st of
     Content data \<Rightarrow> (case unmarshal_principal lib data of None \<Rightarrow> None
       | Some p \<Rightarrow> (case validateAuthorizedPrincipal (Some p) of Inl _ \<Rightarrow> None | Inr q \<Rightarrow> Some q))
   | _ \<Rightarrow> None)"

lemma loadAuthorizedPrincipal_stored:
  assumes "authorizedPrincipal km = None"
  shows "snd (loadAuthorizedPrincipal lib d km) = km\<lparr>authorizedPrincipal := stored_principal lib (d (principalPath km))\<rparr>"
  using assms
  by (auto simp: loadAuthorizedPrincipal_def stored_principal_def split: file_state.splits option.splits sum.splits)

lemma InitKeyManager_fresh:
  "snd (InitKeyManager lib mkdir_ok keyDir d emptyKeyManager) =
    (if mkdir_ok then (snd (loadPublicKeys lib d (fresh_manager keyDir)))
       \<lparr>authorizedPrincipal := stored_principal lib (d (principalPath (fresh_manager keyDir)))\<rparr>
     else fresh_manager keyDir)"
proof -
  have "InitKeyManager lib mkdir_ok keyDir d emptyKeyManager =
    (if \<not> mkdir_ok then (Some MkdirFailed, fresh_manager keyDir)
     else let (e1, km1) = loadPublicKeys lib d (fresh_manager keyDir);
              (e2, km2) = loadAuthorizedPrincipal lib d km1;
              errs = (case e1 of None \<Rightarrow> [] | Some e \<Rightarrow> [e]) @ (case e2 of None \<Rightarrow> [] | Some e \<Rightarrow> [e])
          in (if errs \<noteq> [] then Some (InitErrors errs) else None, km2))"
    unfolding InitKeyManager_def fresh_manager_def Let_def by simp
  then show ?thesis
    using loadAuthorizedPrincipal_stored [of "snd (loadPublicKeys lib d (fresh_manager keyDir))" lib d]
    by (simp add: frame_simps Let_def case_prod_unfold)
qed

text \<open>
  What loading leaves: a manager in order, or a legacy key that is not an Ed25519 key, with
  which no key can be set any more.
\<close>

lemma loaded_cases:
  assumes "km_inv lib km"
  obtains (inv) "km_inv lib (snd (loadPublicKeys lib d km))"
  | (foreign) k where "currentKey (snd (loadPublicKeys lib d km)) = Some k" "\<And>np. parsePublicKey lib (PublicKey k) \<noteq> Inr np"
proof (cases "d (keyRingPath km) = Absent")
  case False
  then show thesis using inv loadPublicKeys_inv [OF assms] by blast
next
  case True
  show thesis
  proof (cases "loadLegacyPublicKeyLocked lib d km")
    case (Inl er)
    then have "snd (loadPublicKeys lib d km) = km" using True by (simp add: loadPublicKeys_def)
    then show thesis using inv assms by simp
  next
    case (Inr k)
    let ?km = "km\<lparr>currentKey := Some k, previousKey := None\<rparr>"
    have load: "loadPublicKeys lib d km = refreshPublicKeysLocked lib ?km" using True Inr by (simp add: loadPublicKeys_def)
    obtain block where block: "PublicKey k = b64_encode block" "computeKeyID lib (PublicKey k) = Inr (KeyID k)"
      using Inr by (rule loadLegacy_stored)
    have trim: "TrimSpace (PublicKey k) = PublicKey k"
      unfolding block(1) by (rule TrimSpace_graphic) (blast dest: b64_encode_graphic)
    show thesis
    proof (cases "parsePublicKey lib (PublicKey k)")
      case (Inr np)
      then obtain pub where "parsePublicKey lib (PublicKey k) = Inr (PublicKey k, pub)"
        using parsePublicKey_normal(1) [of lib "PublicKey k"] trim by (cases np) auto
      then have "stored_ok lib k" using block(2) by (simp add: stored_ok_def)
      then have "pred_option (stored_ok lib) (currentKey ?km)" "pred_option (stored_ok lib) (previousKey ?km)" by simp_all
      then obtain m where "refreshPublicKeysLocked lib ?km = (None, ?km\<lparr>publicKeys := m\<rparr>)" "km_inv lib (?km\<lparr>publicKeys := m\<rparr>)"
        by (rule refresh_ok)
      then show thesis using inv load by simp
    next
      case (Inl er)
      then show thesis using foreign [of k] load by (simp add: frame_refresh)
    qed
  qed
qed

lemma foreign_key_blocks:
  assumes "currentKey km = Some k" "\<And>np. parsePublicKey lib (PublicKey k) \<noteq> Inr np"
  shows "\<exists>er. fst (SetPublicKey lib w pk km d) = Inl er"
proof (cases "parsePublicKey lib pk")
  case (Inr np)
  then obtain n pub where p: "parsePublicKey lib pk = Inr (n, pub)" by (cases np) auto
  obtain er where er: "parsePublicKey lib (PublicKey k) = Inl er"
    using assms(2) by (cases "parsePublicKey lib (PublicKey k)") auto
  obtain i where i: "computeKeyID lib n = Inr i" using parsePublicKey_computeKeyID [OF p] by blast
  have new: "parsePublicKey lib n = Inr (n, pub)" by (rule parsePublicKey_normal(2) [OF p])
  then have "PublicKey k \<noteq> n" using er by auto
  then have ns: "\<not> sameStoredPublicKey (currentKey km) (Some \<lparr>KeyID = i, PublicKey = n\<rparr>)"
    using assms(1) by (simp add: sameStoredPublicKey_def)
  have "refreshPublicKeysLocked lib (km\<lparr>currentKey := Some \<lparr>KeyID = i, PublicKey = n\<rparr>, previousKey := Some k\<rparr>) =
      (Some er, km\<lparr>currentKey := Some \<lparr>KeyID = i, PublicKey = n\<rparr>, previousKey := Some k\<rparr>)"
    by (simp add: refreshPublicKeysLocked_def ring_map_def add_key_def new er)
  then show ?thesis using p i ns assms(1) by (simp add: SetPublicKey_def Let_def)
qed (simp add: SetPublicKey_def)

lemma set_same_key:
  assumes "km_inv lib km" "SetPublicKey lib w pk km d = (Inr False, km', d')"
  shows "\<exists>k. currentKey km = Some k \<and> PublicKey k = TrimSpace pk \<and> stored_ok lib k" "km' = km" "d' = d"
proof -
  obtain n pub where p: "parsePublicKey lib pk = Inr (n, pub)"
    using assms(2) by (cases "parsePublicKey lib pk") (auto simp: SetPublicKey_def)
  obtain i where i: "computeKeyID lib n = Inr i" using parsePublicKey_computeKeyID [OF p] by blast
  have same: "sameStoredPublicKey (currentKey km) (Some \<lparr>KeyID = i, PublicKey = n\<rparr>)"
    using assms(2) p i by (auto simp: SetPublicKey_def Let_def split: if_splits prod.splits option.splits)
  show "\<exists>k. currentKey km = Some k \<and> PublicKey k = TrimSpace pk \<and> stored_ok lib k"
    using same parsed_stored_ok [OF p i] parsePublicKey_normal(1) [OF p] by (auto simp: sameStored_iff)
  show "km' = km" "d' = d" using assms(2) p i same by (auto simp: SetPublicKey_def)
qed

text \<open>After a key was set, a new process that loads the files has it as its current key.\<close>

definition json_ok :: "auth_lib \<Rightarrow> bool" where
  "json_ok lib \<longleftrightarrow> (\<forall>r. unmarshal_ring lib (marshal_ring lib r) = Some r) \<and>
     (\<forall>p. unmarshal_principal lib (marshal_principal lib p) = Some p)"

lemma set_key_loads:
  assumes "sha256_size lib" "json_ok lib" "keyDir \<noteq> []"
    and set: "SetPublicKey lib w pk (snd (InitKeyManager lib mkdir_ok keyDir d emptyKeyManager)) d = (Inr changed, km1, d1)"
  defines "km2 \<equiv> snd (loadPublicKeys lib d1 (fresh_manager keyDir))"
  shows "km_inv lib km2" "\<exists>k. currentKey km2 = Some k \<and> PublicKey k = TrimSpace pk \<and> stored_ok lib k"
    "q \<noteq> keyRingPath (fresh_manager keyDir) \<Longrightarrow> d1 q = d q" "\<not> changed \<Longrightarrow> d1 = d"
    "authorizedPrincipal km1 = authorizedPrincipal (snd (InitKeyManager lib mkdir_ok keyDir d emptyKeyManager))"
    "principalPath km1 = principalPath (fresh_manager keyDir)"
proof -
  let ?f = "fresh_manager keyDir" and ?km0 = "snd (InitKeyManager lib mkdir_ok keyDir d emptyKeyManager)"
  have inv0: "km_inv lib ?km0"
  proof (cases mkdir_ok)
    case True
    have "km_inv lib (snd (loadPublicKeys lib d ?f))"
      using fresh_inv
    proof (cases rule: loaded_cases [of lib ?f d])
      case (foreign k)
      then have "\<exists>er. fst (SetPublicKey lib w pk ?km0 d) = Inl er"
        by (intro foreign_key_blocks [of _ k]) (simp_all add: InitKeyManager_fresh True)
      then show ?thesis using set by simp
    qed
    then show ?thesis by (simp add: InitKeyManager_fresh True km_inv_def)
  qed (simp add: InitKeyManager_fresh fresh_inv)
  have paths: "keyRingPath ?km0 = keyRingPath ?f" "principalPath ?km0 = principalPath ?f"
    by (simp_all add: InitKeyManager_fresh frame_simps)
  have same: "km2 = ?km0\<lparr>authorizedPrincipal := None\<rparr>" "km1 = ?km0" "d1 = d"
    "\<exists>k. currentKey ?km0 = Some k \<and> PublicKey k = TrimSpace pk \<and> stored_ok lib k" if "\<not> changed"
  proof -
    note s = set_same_key [OF inv0, of w pk d km1 d1]
    show eq: "km1 = ?km0" "d1 = d" "\<exists>k. currentKey ?km0 = Some k \<and> PublicKey k = TrimSpace pk \<and> stored_ok lib k"
      using s that set by auto
    then have "mkdir_ok" by (cases mkdir_ok) (auto simp: InitKeyManager_fresh)
    moreover have "authorizedPrincipal (snd (loadPublicKeys lib d ?f)) = None" by (simp add: frame_simps)
    ultimately show "km2 = ?km0\<lparr>authorizedPrincipal := None\<rparr>" using eq(2) by (simp add: km2_def InitKeyManager_fresh)
  qed
  have rot: "\<exists>er km3. loadPublicKeys lib d1 ?f = (er, km3) \<and> currentKey km3 = currentKey km1 \<and> previousKey km3 = previousKey km1 \<and>
      publicKeys km3 = publicKeys km1" if changed
    using restart_recovers_ring [OF inv0 assms(1), of w pk d km1 d1 ?f] set that assms(2) paths
    by (auto simp: json_ok_def)
  note facts = rotation_facts [OF inv0, of w pk d km1 d1]
  show "km_inv lib km2"
  proof (cases changed)
    case True
    then have "km_inv lib km1" using facts set by simp
    then show ?thesis using rot [OF True] by (auto simp: km2_def km_inv_def)
  qed (use same inv0 in \<open>simp add: km_inv_def\<close>)
  show "\<exists>k. currentKey km2 = Some k \<and> PublicKey k = TrimSpace pk \<and> stored_ok lib k"
  proof (cases changed)
    case True
    then show ?thesis using rot [OF True] facts(3) set by (auto simp: km2_def)
  qed (use same in simp)
  show "d1 q = d q" if "q \<noteq> keyRingPath ?f" using that same(3) facts(4) set paths by (cases changed) auto
  show "d1 = d" if "\<not> changed" using same(3) that by simp
  show "authorizedPrincipal km1 = authorizedPrincipal ?km0" using same(2) facts(6) set by (cases changed) auto
  show "principalPath km1 = principalPath ?f" 
    using inv0 by (cases rule: SetPublicKey_cases [of lib ?km0 w pk d]) (use set paths in auto)
qed

text \<open>The principal that the flags name.\<close>

definition init_principal :: "init_flags \<Rightarrow> AuthorizedPrincipal" where
  "init_principal f = (if if_authorizedSID f \<noteq> [] then \<lparr>PType = ''sid'', PValue = TrimSpace (if_authorizedSID f)\<rparr>
     else \<lparr>PType = ''uid'', PValue = FormatUint (unat (if_authorizedUID f))\<rparr>)"

lemma validate_init_principal:
  assumes "validateAuthorizedPrincipal (Some (init_principal f)) = Inr q"
  shows "q = init_principal f"
  using assms validate_uid [of "if_authorizedUID f"]
  by (cases "if_authorizedSID f = []")
    (auto simp: init_principal_def validateAuthorizedPrincipal_def Let_def split: if_splits option.splits)

lemma init_keys_principal:
  "init_keys lib w1 w2 f km d =
    (case SetPublicKey lib w1 (if_publicKey f) km d of
       (Inl er, km1, d1) \<Rightarrow> (Inl er, km1, d1)
     | (Inr keyChanged, km1, d1) \<Rightarrow>
        (case setAuthorizedPrincipal lib w2 (init_principal f) km1 d1 of
           (Inl er, km2, d2) \<Rightarrow> (Inl er, km2, d2)
         | (Inr principalChanged, km2, d2) \<Rightarrow> (Inr (keyChanged \<or> principalChanged), km2, d2)))"
proof -
  have "(if if_authorizedSID f \<noteq> [] then SetAuthorizedSID lib w2 (if_authorizedSID f) km1 d1
      else SetAuthorizedUID lib w2 (if_authorizedUID f) km1 d1) = setAuthorizedPrincipal lib w2 (init_principal f) km1 d1" for km1 d1
    by (simp add: init_principal_def SetAuthorizedSID_def SetAuthorizedUID_def)
  then show ?thesis by (simp only: init_keys_def)
qed

lemma set_principal_stored:
  assumes "json_ok lib" "setAuthorizedPrincipal lib w (init_principal f) km d = (Inr changed, km', d')"
    and "authorizedPrincipal km = None \<or> authorizedPrincipal km = stored_principal lib (d (principalPath km))"
  shows "stored_principal lib (d' (principalPath km)) = Some (init_principal f)"
    "q \<noteq> principalPath km \<Longrightarrow> d' q = d q" "\<not> changed \<Longrightarrow> d' = d"
proof -
  have v: "validateAuthorizedPrincipal (Some (init_principal f)) = Inr (init_principal f)"
    using assms(2) validate_init_principal [of f]
    by (cases "validateAuthorizedPrincipal (Some (init_principal f))") (auto simp: setAuthorizedPrincipal_def)
  have "\<not> changed \<and> authorizedPrincipal km = Some (init_principal f) \<and> d' = d \<or>
      changed \<and> d' = d(principalPath km := Content (marshal_principal lib (init_principal f)))"
    using assms(2) by (auto simp: setAuthorizedPrincipal_def v sameAuthorized_iff WriteFile_def Let_def split: if_splits write_outcome.splits)
  then show "stored_principal lib (d' (principalPath km)) = Some (init_principal f)"
    "q \<noteq> principalPath km \<Longrightarrow> d' q = d q" "\<not> changed \<Longrightarrow> d' = d"
    using assms(1,3) by (auto simp: stored_principal_def json_ok_def v)
qed

lemma init_keys_load:
  assumes "sha256_size lib" "json_ok lib" "keyDir \<noteq> []"
    and init: "init_keys lib w1 w2 f (snd (InitKeyManager lib mkdir_ok keyDir d emptyKeyManager)) d = (Inr changed, km', d')"
  defines "km2 \<equiv> snd (InitKeyManager lib True keyDir d' emptyKeyManager)"
  shows "km_inv lib km2" "\<exists>k. currentKey km2 = Some k \<and> PublicKey k = TrimSpace (if_publicKey f) \<and> stored_ok lib k"
    "authorizedPrincipal km2 = Some (init_principal f)" "\<not> changed \<Longrightarrow> d' = d"
proof -
  let ?f = "fresh_manager keyDir"
  obtain kc km1 d1 pc where set: "SetPublicKey lib w1 (if_publicKey f) (snd (InitKeyManager lib mkdir_ok keyDir d emptyKeyManager)) d = (Inr kc, km1, d1)"
    and pr: "setAuthorizedPrincipal lib w2 (init_principal f) km1 d1 = (Inr pc, km', d')" and ch: "changed = (kc \<or> pc)"
    using init by (auto simp: init_keys_principal split: prod.splits sum.splits)
  note key = set_key_loads [OF assms(1-3) set]
  note diff = key_paths_differ [OF assms(3)]
  have "authorizedPrincipal km1 = None \<or> authorizedPrincipal km1 = stored_principal lib (d1 (principalPath km1))"
    using key(3) [of "principalPath ?f"] diff(1) unfolding key(5,6) by (auto simp: InitKeyManager_fresh)
  note st = set_principal_stored [OF assms(2) pr this, unfolded key(6)]
  have "loadPublicKeys lib d' ?f = loadPublicKeys lib d1 ?f"
    using st(2) diff by (intro loadPublicKeys_cong) auto
  then have km2: "km2 = (snd (loadPublicKeys lib d1 ?f))\<lparr>authorizedPrincipal := Some (init_principal f)\<rparr>"
    using st(1) by (simp add: km2_def InitKeyManager_fresh)
  show "km_inv lib km2" using key(1) by (simp add: km2 km_inv_def)
  show "\<exists>k. currentKey km2 = Some k \<and> PublicKey k = TrimSpace (if_publicKey f) \<and> stored_ok lib k"
    using key(2) by (simp add: km2)
  show "authorizedPrincipal km2 = Some (init_principal f)" by (simp add: km2)
  show "d' = d" if "\<not> changed" using that ch key(4) st(3) by simp
qed

text \<open>Setting the same values again changes nothing.\<close>

lemma init_keys_again:
  assumes "sha256_size lib" "json_ok lib" "keyDir \<noteq> []"
    and init: "init_keys lib w1 w2 f (snd (InitKeyManager lib mkdir_ok keyDir d emptyKeyManager)) d = (Inr changed, km', d')"
  shows "\<exists>km''. init_keys lib v1 v2 f (snd (InitKeyManager lib True keyDir d' emptyKeyManager)) d' = (Inr False, km'', d')"
proof -
  let ?km2 = "snd (InitKeyManager lib True keyDir d' emptyKeyManager)"
  note l = init_keys_load [OF assms]
  obtain k where k: "currentKey ?km2 = Some k" "PublicKey k = TrimSpace (if_publicKey f)" "stored_ok lib k" using l(2) by blast
  have "parsePublicKey lib (if_publicKey f) = parsePublicKey lib (TrimSpace (if_publicKey f))"
    by (simp add: parsePublicKey_def)
  then obtain pub where "parsePublicKey lib (if_publicKey f) = Inr (PublicKey k, pub)" "computeKeyID lib (PublicKey k) = Inr (KeyID k)"
    using k by (auto simp: stored_ok_def)
  then have set: "SetPublicKey lib v1 (if_publicKey f) ?km2 d' = (Inr False, ?km2, d')"
    using k(1) by (simp add: SetPublicKey_def sameStored_iff)
  have v: "validateAuthorizedPrincipal (Some (init_principal f)) = Inr (init_principal f)"
    using init validate_init_principal [of f]
    by (cases "validateAuthorizedPrincipal (Some (init_principal f))")
      (auto simp: init_keys_principal setAuthorizedPrincipal_def split: prod.splits sum.splits)
  have "setAuthorizedPrincipal lib v2 (init_principal f) ?km2 d' = (Inr False, ?km2, d')"
    using l(3) by (simp add: setAuthorizedPrincipal_def v sameAuthorized_iff)
  then show ?thesis using set by (simp add: init_keys_principal)
qed

section \<open>A library to evaluate on\<close>

text \<open>Texts with their length in front, so that reading gives back what was written.\<close>

definition framed :: "string \<Rightarrow> string" where
  "framed s = replicate (length s) (CHR ''1'') @ CHR ''0'' # s"

definition unframe :: "string \<Rightarrow> string \<times> string" where
  "unframe s = (let n = length (takeWhile (\<lambda>c. c = CHR ''1'') s); t = drop (n + 1) s in (take n t, drop n t))"

lemma unframe_framed [simp]: "unframe (framed s @ t) = (s, t)" "unframe (framed s) = (s, [])"
proof -
  have "takeWhile (\<lambda>c. c = CHR ''1'') (replicate n (CHR ''1'') @ CHR ''0'' # u) = replicate n (CHR ''1'')" for n u
    by (induction n) simp_all
  then have "length (takeWhile (\<lambda>c. c = CHR ''1'') (framed s @ u)) = length s" for u
    by (simp add: framed_def)
  then have "unframe (framed s @ u) = (s, u)" for u by (simp add: unframe_def framed_def Let_def)
  from this [of t] this [of "[]"] show "unframe (framed s @ t) = (s, t)" "unframe (framed s) = (s, [])" by simp_all
qed

definition framed_key :: "storedPublicKey option \<Rightarrow> string" where
  "framed_key k = (case k of None \<Rightarrow> ''n'' | Some x \<Rightarrow> CHR ''s'' # framed (KeyID x) @ framed (PublicKey x))"

definition unframe_key :: "string \<Rightarrow> (storedPublicKey option \<times> string) option" where
  "unframe_key s = (case s of [] \<Rightarrow> None
     | c # t \<Rightarrow> if c = CHR ''n'' then Some (None, t)
         else case unframe t of (i, u) \<Rightarrow> (case unframe u of (p, v) \<Rightarrow> Some (Some \<lparr>KeyID = i, PublicKey = p\<rparr>, v)))"

lemma unframe_framed_key [simp]: "unframe_key (framed_key k @ t) = Some (k, t)" "unframe_key (framed_key k) = Some (k, [])"
  by (cases k; simp add: framed_key_def unframe_key_def)+

definition framed_lib :: auth_lib where
  "framed_lib = sample_lib\<lparr>
     marshal_ring := (\<lambda>r. framed_key (Current r) @ framed_key (Previous r)),
     unmarshal_ring := (\<lambda>bs. case unframe_key bs of None \<Rightarrow> None
        | Some (c, t) \<Rightarrow> (case unframe_key t of None \<Rightarrow> None | Some (p, _) \<Rightarrow> Some \<lparr>Current = c, Previous = p\<rparr>)),
     marshal_principal := (\<lambda>p. framed (PType p) @ framed (PValue p)),
     unmarshal_principal := (\<lambda>bs. case unframe bs of (t, u) \<Rightarrow> Some \<lparr>PType = t, PValue = fst (unframe u)\<rparr>)\<rparr>"

lemma framed_lib_json: "json_ok framed_lib"
  by (simp add: json_ok_def framed_lib_def)

lemma framed_lib_size: "sha256_size framed_lib"
  using sample_sha256_size by (simp add: sha256_size_def framed_lib_def)

lemma framed_lib_parse: "parsePublicKey framed_lib = parsePublicKey sample_lib" "computeKeyID framed_lib = computeKeyID sample_lib"
proof -
  have "ParsePKIXPublicKey framed_lib = ParsePKIXPublicKey sample_lib" "sha256_sum framed_lib = sha256_sum sample_lib"
    by (simp_all add: framed_lib_def)
  then show "parsePublicKey framed_lib = parsePublicKey sample_lib" "computeKeyID framed_lib = computeKeyID sample_lib"
    by (intro ext, simp only: parsePublicKey_def computeKeyID_def)+
qed

definition sample_flags :: init_flags where
  "sample_flags = \<lparr>if_publicKey = b64_encode ''ABC'', if_authorizedSID = [], if_authorizedUID = 1000, if_uidChanged = True\<rparr>"

lemma sample_init_set:
  "\<exists>km d'. init_keys framed_lib WriteOK WriteOK sample_flags
     (snd (InitKeyManager framed_lib True keyDir (\<lambda>_. Absent) emptyKeyManager)) (\<lambda>_. Absent) = (Inr True, km, d')"
proof -
  let ?f = "fresh_manager keyDir"
  have km: "snd (InitKeyManager framed_lib True keyDir (\<lambda>_. Absent) emptyKeyManager) = ?f"
    by (simp add: InitKeyManager_fresh loadPublicKeys_def loadLegacyPublicKeyLocked_def stored_principal_def)
  have p: "parsePublicKey framed_lib (b64_encode ''ABC'') = Inr (b64_encode ''ABC'', ''BC'')"
    "computeKeyID framed_lib (b64_encode ''ABC'') = Inr (KeyID (sample_stored ''ABC''))"
    unfolding framed_lib_parse using sample_parse [OF sample_bytes_ABC(1)] sample_id [OF sample_bytes_ABC(1)] by simp_all
  have "\<exists>km d'. SetPublicKey framed_lib WriteOK (b64_encode ''ABC'') ?f (\<lambda>_. Absent) = (Inr True, km, d') \<and> authorizedPrincipal km = None"
    by (simp add: SetPublicKey_def p sameStoredPublicKey_def refreshPublicKeysLocked_def ring_map_def add_key_def
        savePublicKeysLocked_def WriteFile_def Let_def del: b64_encode.simps)
  moreover have "validateAuthorizedPrincipal (Some (init_principal sample_flags)) = Inr (init_principal sample_flags)"
    using validate_uid [of 1000] by (simp add: init_principal_def sample_flags_def)
  ultimately show ?thesis
    unfolding km init_keys_principal
    by (auto simp: sample_flags_def setAuthorizedPrincipal_def sameAuthorizedPrincipal_def WriteFile_def simp del: b64_encode.simps)
qed

end
