(* ===== verification/CommandLine.thy ===== *)
theory CommandLine
  imports Router Server ServiceRuntime InitKeys
begin

text \<open>
  The \<open>service\<close> commands of \<open>cmd/cmd_service.go\<close> and the program they run: each command
  with the calls it makes of the service library, the st lines it writes and the error
  it returns, and \<open>service init\<close> with what it does to the key manager and its files.  The
  service library is the record \<open>command_service\<close> of its answers; the texts of the
  messages are left out.
\<close>

section \<open>The service library\<close>

text \<open>An error: whether it is \<open>ErrNotInstalled\<close> of the library, and its text.\<close>

record service_err =
  se_notInstalled :: bool
  se_text :: string

record command_service =
  cs_new :: "service_err option"
  cs_install :: "service_err option"
  cs_uninstall :: "service_err option"
  cs_start :: "service_err option"
  cs_stop :: "service_err option"
  cs_restart :: "service_err option"
  cs_status :: "(service_err, kservice_status) result"
  cs_run :: "service_err option"

text \<open>The calls, \<open>NewService\<close> with the path of the executable and the listen address.\<close>

datatype service_call =
    NewService string string | InstallCall | UninstallCall | StartCall | StopCall | RestartCall | StatusCall | RunCall | CleanupCall

datatype command_err =
    MissingPublicKey | MissingPrincipal | KeyError auth_error | ServiceError service_err | RuntimeError runtime_error

section \<open>Status lines\<close>

record serviceCommandStatus =
  cs_Action :: string
  cs_State :: string
  cs_Success :: bool
  cs_Changed :: bool
  cs_Error :: "command_err option"

definition command_status :: "string \<Rightarrow> string \<Rightarrow> serviceCommandStatus" where
  "command_status action state = \<lparr>cs_Action = action, cs_State = state, cs_Success = False, cs_Changed = False, cs_Error = None\<rparr>"

datatype command_line = Infow serviceCommandStatus | Errorw serviceCommandStatus

definition outputServiceCommandResult :: "serviceCommandStatus \<Rightarrow> command_line" where
  "outputServiceCommandResult st = Infow (st\<lparr>cs_Success := True\<rparr>)"

definition serviceErrorState :: "command_err \<Rightarrow> string" where
  "serviceErrorState er = (case er of
     ServiceError s \<Rightarrow> if se_notInstalled s \<or> contains (ToLower (se_text s)) ''service is not installed'' then ''not-installed'' else []
   | _ \<Rightarrow> [])"

definition outputServiceCommandError :: "string \<Rightarrow> command_err \<Rightarrow> command_line" where
  "outputServiceCommandError action er = Errorw ((command_status action (serviceErrorState er))\<lparr>cs_Error := Some er\<rparr>)"

definition normalizeServiceStatus :: "kservice_status \<Rightarrow> string" where
  "normalizeServiceStatus st = (case st of KRunning \<Rightarrow> ''running'' | KStopped \<Rightarrow> ''stopped'' | KUnknown \<Rightarrow> ''unknown'')"

datatype status_message = RunningMessage | StoppedMessage | UnknownMessage

definition serviceStatusMessage :: "string \<Rightarrow> status_message" where
  "serviceStatusMessage state =
    (if state = ''running'' then RunningMessage else if state = ''stopped'' then StoppedMessage else UnknownMessage)"

section \<open>The simple commands\<close>

text \<open>
  What a command leaves: the status lines it wrote, the calls it made, and the error it
  returned, which the caller takes as reported already.
\<close>

record command_out =
  co_lines :: "command_line list"
  co_calls :: "service_call list"
  co_error :: "command_err option"

definition defaultAddr :: string where "defaultAddr = ''/tmp/sparkle-service.sock''"

definition listen_addr :: "string \<Rightarrow> string" where
  "listen_addr listen = (if listen = [] then defaultAddr else listen)"

text \<open>The calls of a command in order, the first failure reported and returned.\<close>

fun run_calls :: "string \<Rightarrow> (service_call \<times> command_err option) list \<Rightarrow> serviceCommandStatus \<Rightarrow> service_call list \<Rightarrow> command_out" where
  "run_calls action [] st calls =
    \<lparr>co_lines = [outputServiceCommandResult st], co_calls = calls, co_error = None\<rparr>"
| "run_calls action ((c, Some er) # rest) st calls =
    \<lparr>co_lines = [outputServiceCommandError action er], co_calls = calls @ [c], co_error = Some er\<rparr>"
| "run_calls action ((c, None) # rest) st calls = run_calls action rest st (calls @ [c])"

abbreviation service_answer :: "service_err option \<Rightarrow> command_err option" where
  "service_answer \<equiv> map_option ServiceError"

definition serviceInstall :: "command_service \<Rightarrow> string \<Rightarrow> string \<Rightarrow> command_out" where
  "serviceInstall k arg0 listen = run_calls ''install''
     [(NewService arg0 (listen_addr listen), service_answer (cs_new k)), (InstallCall, service_answer (cs_install k)),
      (StartCall, service_answer (cs_start k))] (command_status ''install'' ''running'') []"

definition serviceUninstall :: "command_service \<Rightarrow> runtime_env \<Rightarrow> string \<Rightarrow> rt_fs \<Rightarrow> command_out \<times> rt_fs" where
  "serviceUninstall k e listen fs =
    (let out = run_calls ''uninstall''
       [(NewService [] (listen_addr listen), service_answer (cs_new k)), (StopCall, service_answer (cs_stop k)),
        (UninstallCall, service_answer (cs_uninstall k)),
        (CleanupCall, map_option RuntimeError (fst (cleanupServiceRuntimeExecutable e fs)))]
       (command_status ''uninstall'' ''not-installed'') []
     in (out, if CleanupCall \<in> set (co_calls out) then snd (cleanupServiceRuntimeExecutable e fs) else fs))"

definition serviceStartCmd :: "command_service \<Rightarrow> string \<Rightarrow> command_out" where
  "serviceStartCmd k listen = run_calls ''start''
     [(NewService [] (listen_addr listen), service_answer (cs_new k)), (StartCall, service_answer (cs_start k))]
     (command_status ''start'' ''running'') []"

definition serviceStopCmd :: "command_service \<Rightarrow> string \<Rightarrow> command_out" where
  "serviceStopCmd k listen = run_calls ''stop''
     [(NewService [] (listen_addr listen), service_answer (cs_new k)), (StopCall, service_answer (cs_stop k))]
     (command_status ''stop'' ''stopped'') []"

definition serviceRestartCmd :: "command_service \<Rightarrow> string \<Rightarrow> command_out" where
  "serviceRestartCmd k listen = run_calls ''restart''
     [(NewService [] (listen_addr listen), service_answer (cs_new k)), (RestartCall, service_answer (cs_restart k))]
     (command_status ''restart'' ''running'') []"

definition serviceStatusCmd :: "command_service \<Rightarrow> string \<Rightarrow> command_out \<times> status_message option" where
  "serviceStatusCmd k listen =
    (case cs_status k of
       Inl er \<Rightarrow> (run_calls ''status'' [(NewService [] (listen_addr listen), service_answer (cs_new k)), (StatusCall, Some (ServiceError er))]
          (command_status ''status'' []) [], None)
     | Inr st \<Rightarrow>
        (let state = normalizeServiceStatus st;
             out = run_calls ''status'' [(NewService [] (listen_addr listen), service_answer (cs_new k)), (StatusCall, None)]
               (command_status ''status'' state) []
         in (out, if co_error out = None then Some (serviceStatusMessage state) else None)))"

section \<open>\<open>service init\<close>\<close>

definition init_keyDir :: "host \<Rightarrow> string" where
  "init_keyDir w = Join [GetConfigDir w, ''sparkle'', ''keys'']"

text \<open>The part that tells the service: nothing when it does not run or nothing changed.\<close>

definition init_notify :: "command_service \<Rightarrow> string \<Rightarrow> bool \<Rightarrow> command_out" where
  "init_notify k listen changed =
    (let first = outputServiceCommandResult ((command_status ''init'' [])\<lparr>cs_Changed := changed\<rparr>);
         new = NewService [] (listen_addr listen);
         fails = (\<lambda>action er lines calls. \<lparr>co_lines = lines @ [outputServiceCommandError action er], co_calls = calls, co_error = Some er\<rparr>)
     in case cs_new k of Some er \<Rightarrow> fails ''init'' (ServiceError er) [first] [new]
      | None \<Rightarrow>
       (case cs_status k of Inl er \<Rightarrow> fails ''status'' (ServiceError er) [first] [new, StatusCall]
        | Inr st \<Rightarrow>
         (let state = normalizeServiceStatus st in
          if st = KRunning then
            (if \<not> changed then
               \<lparr>co_lines = [first, outputServiceCommandResult (command_status ''init'' state)], co_calls = [new, StatusCall], co_error = None\<rparr>
             else
               (let second = Infow ((command_status ''restart'' state)\<lparr>cs_Success := True\<rparr>) in
                case cs_restart k of Some er \<Rightarrow> fails ''restart'' (ServiceError er) [first, second] [new, StatusCall, RestartCall]
                | None \<Rightarrow> \<lparr>co_lines = [first, second, outputServiceCommandResult (command_status ''restart'' ''running'')],
                    co_calls = [new, StatusCall, RestartCall], co_error = None\<rparr>))
          else
            \<lparr>co_lines = [first, outputServiceCommandResult ((command_status ''init'' state)\<lparr>cs_Changed := changed\<rparr>)],
             co_calls = [new, StatusCall], co_error = None\<rparr>)))"

definition refused :: "command_err \<Rightarrow> command_out" where
  "refused er = \<lparr>co_lines = [outputServiceCommandError ''init'' er], co_calls = [], co_error = Some er\<rparr>"

definition serviceInit ::
    "auth_lib \<Rightarrow> command_service \<Rightarrow> host \<Rightarrow> bool \<Rightarrow> write_outcome \<Rightarrow> write_outcome \<Rightarrow> string \<Rightarrow> init_flags \<Rightarrow> disk \<Rightarrow> command_out \<times> disk" where
  "serviceInit lib k w mkdir_ok w1 w2 listen f d =
    (if if_publicKey f = [] then (refused MissingPublicKey, d)
     else if if_authorizedSID f = [] \<and> \<not> if_uidChanged f then (refused MissingPrincipal, d)
     else
       (case init_keys lib w1 w2 f (snd (InitKeyManager lib mkdir_ok (init_keyDir w) d emptyKeyManager)) d of
          (Inl er, _, d') \<Rightarrow> (refused (KeyError er), d')
        | (Inr changed, _, d') \<Rightarrow> (init_notify k listen changed, d')))"

section \<open>The program\<close>

text \<open>
  \<open>service run\<close>: the copy takes over, or this process runs the service under the library,
  which calls \<open>Program.Start\<close> and \<open>Program.Stop\<close>.
\<close>

datatype program_end = TakenOver string | Fatal command_err | Served

definition serviceRun ::
    "(bytes \<Rightarrow> bytes) \<Rightarrow> runtime_env \<Rightarrow> (string, string) result \<Rightarrow> source_view \<Rightarrow> source_view \<Rightarrow> string option \<Rightarrow>
     string list \<Rightarrow> string list \<Rightarrow> command_service \<Rightarrow> string \<Rightarrow> rt_fs \<Rightarrow> program_end \<times> service_call list \<times> rt_fs" where
  "serviceRun sha e executable v1 v2 exec args envs k listen fs =
    (case ensureServiceRuntimeExecutable sha e executable v1 v2 exec args envs fs of
       (RunFails er, fs1) \<Rightarrow> (Fatal (RuntimeError er), [], fs1)
     | (Replaced target _ _, fs1) \<Rightarrow> (TakenOver target, [], fs1)
     | (RunsHere, fs1) \<Rightarrow>
        (case cs_new k of Some er \<Rightarrow> (Fatal (ServiceError er), [NewService [] (listen_addr listen)], fs1)
         | None \<Rightarrow>
          (case cs_run k of Some er \<Rightarrow> (Fatal (ServiceError er), [NewService [] (listen_addr listen), RunCall], fs1)
           | None \<Rightarrow> (Served, [NewService [] (listen_addr listen), RunCall], fs1))))"

definition Program_run ::
    "auth_lib \<Rightarrow> service \<Rightarrow> start_answers \<Rightarrow> string \<Rightarrow> ('x, 'd) service_world \<Rightarrow> server_error option \<times> ('x, 'd) service_world" where
  "Program_run lib sv a listen w = Server.Start lib sv a listen w"

definition Program_Stop ::
    "service \<Rightarrow> 'x lantern_env \<Rightarrow> stop_answers \<Rightarrow> ('x, 'd) service_world \<Rightarrow> service_stop_error list \<times> ('x, 'd) service_world" where
  "Program_Stop sv le a w = Server.Stop sv le a w"

end
