(* ===== verification/CommandLineProps.thy ===== *)
theory CommandLineProps
  imports CommandLine ServerProps
begin

text \<open>
  The commands of \<open>cmd/cmd_service.go\<close> and the service together: what \<open>service init\<close> has
  written is what the service that starts next enforces; what \<open>service uninstall\<close> leaves;
  and a restart that \<open>service init\<close> does not repeat.
\<close>

section \<open>Commands as sequences of calls\<close>

text \<open>
  A command that succeeds has made all its calls in order; one that fails has made them up
  to the first that failed, whose error it reports and returns.
\<close>

lemma run_calls_ok:
  assumes "\<forall>c\<in>set cs. snd c = None"
  shows "run_calls action cs st calls =
    \<lparr>co_lines = [outputServiceCommandResult st], co_calls = calls @ map fst cs, co_error = None\<rparr>"
  using assms
proof (induction cs arbitrary: calls)
  case (Cons c cs)
  then show ?case by (cases c) auto
qed simp

lemma run_calls_failed:
  assumes "\<forall>c\<in>set pre. snd c = None"
  shows "run_calls action (pre @ (c, Some er) # post) st calls =
    \<lparr>co_lines = [outputServiceCommandError action er], co_calls = calls @ map fst pre @ [c], co_error = Some er\<rparr>"
  using assms
proof (induction pre arbitrary: calls)
  case (Cons p pre)
  then show ?case by (cases p) auto
qed simp

lemma run_calls_error_iff: "co_error (run_calls action cs st calls) = None \<longleftrightarrow> (\<forall>c\<in>set cs. snd c = None)"
  by (induction action cs st calls rule: run_calls.induct) auto

text \<open>After a successful uninstall the service was stopped and removed, and no copy is left.\<close>

lemma uninstall_complete:
  assumes "serviceUninstall k e listen fs = (out, fs')" "co_error out = None"
  shows "co_calls out = [NewService [] (listen_addr listen), StopCall, UninstallCall, CleanupCall]"
    "cleanupServiceRuntimeExecutable e fs = (None, fs')"
proof -
  let ?cs = "[(NewService [] (listen_addr listen), service_answer (cs_new k)), (StopCall, service_answer (cs_stop k)),
        (UninstallCall, service_answer (cs_uninstall k)),
        (CleanupCall, map_option RuntimeError (fst (cleanupServiceRuntimeExecutable e fs)))]"
  have out: "out = run_calls ''uninstall'' ?cs (command_status ''uninstall'' ''not-installed'') []"
    using assms(1) by (simp only: serviceUninstall_def Let_def prod.inject)
  then have all: "\<forall>c\<in>set ?cs. snd c = None" using assms(2) run_calls_error_iff by simp
  show calls: "co_calls out = [NewService [] (listen_addr listen), StopCall, UninstallCall, CleanupCall]"
    unfolding out run_calls_ok [OF all] by simp
  have "fst (cleanupServiceRuntimeExecutable e fs) = None" using all by simp
  moreover have "fs' = snd (cleanupServiceRuntimeExecutable e fs)"
    using assms(1) calls by (auto simp: serviceUninstall_def Let_def out)
  ultimately show "cleanupServiceRuntimeExecutable e fs = (None, fs')" by (simp add: prod_eq_iff)
qed

section \<open>\<open>service init\<close>\<close>

lemma Clean_nonempty: "Clean p \<noteq> []"
  by (simp add: Clean_def Let_def)

lemma init_keyDir_nonempty: "init_keyDir w \<noteq> []"
proof -
  have "GetConfigDir w \<noteq> []"
    using Clean_nonempty by (simp add: GetConfigDir_def Let_def)
  then show ?thesis using Clean_nonempty by (simp add: init_keyDir_def)
qed

lemma serviceInit_ok:
  assumes "serviceInit lib k w mkdir_ok w1 w2 listen f d = (out, d')" "co_error out = None"
  obtains changed km' where
    "init_keys lib w1 w2 f (snd (InitKeyManager lib mkdir_ok (init_keyDir w) d emptyKeyManager)) d = (Inr changed, km', d')"
    "out = init_notify k listen changed"
  using assms by (auto simp: serviceInit_def refused_def split: if_splits prod.splits sum.splits)

lemma init_notify_restart:
  assumes "co_error (init_notify k listen True) = None" "cs_status k = Inr KRunning"
  shows "RestartCall \<in> set (co_calls (init_notify k listen True))"
  using assms by (auto simp: init_notify_def Let_def split: option.splits)

lemma init_notify_unchanged:
  assumes "cs_new k = None" "cs_status k = Inr st"
  shows "co_error (init_notify k listen False) = None" "RestartCall \<notin> set (co_calls (init_notify k listen False))"
  using assms by (simp_all add: init_notify_def Let_def)

text \<open>The keys of a service process after its start.\<close>

lemma Program_run_keys:
  "wd_keys (snd (Program_run lib sv a listen sw)) =
     snd (InitKeyManager lib (sa_mkdir a) (init_keyDir (sv_host sv)) (sa_disk a) (wd_keys sw))"
  by (simp add: Program_run_def Server.Start_def init_keyDir_def Let_def case_prod_unfold)

text \<open>
  C11. What \<open>service init\<close> has set is what the service enforces: after the command succeeds,
  a service that starts from the files it left has the given key as its current key, with a
  key ring in order, accepts exactly the peers with the given user identifier when it is
  bound to one, and otherwise is bound to the given security identifier; and a service
  that ran already was restarted if the files changed.  The hypotheses are that the JSON
  package reads back what it wrote and that SHA-256 gives 32 bytes.
\<close>

theorem init_takes_effect:
  assumes "sha256_size lib" "json_ok lib"
    and "serviceInit lib k (sv_host sv) mkdir_ok w1 w2 listen f d = (out, d')" "co_error out = None"
    and "sa_mkdir a" "sa_disk a = d'" "wd_keys sw = emptyKeyManager" "wd_keys (snd (Program_run lib sv a addr sw)) = km"
  shows "km_inv lib km \<and> (\<exists>key. currentKey km = Some key \<and> PublicKey key = TrimSpace (if_publicKey f)) \<and>
    authorizedPrincipal km = Some (init_principal f) \<and>
    (if_authorizedSID f = [] \<longrightarrow> (\<forall>p. VerifyRequestPrincipal km p = None \<longleftrightarrow> p = UnixPeer (if_authorizedUID f))) \<and>
    (cs_status k = Inr KRunning \<and> d' \<noteq> d \<longrightarrow> RestartCall \<in> set (co_calls out))"
proof -
  obtain changed km' where init:
    "init_keys lib w1 w2 f (snd (InitKeyManager lib mkdir_ok (init_keyDir (sv_host sv)) d emptyKeyManager)) d = (Inr changed, km', d')"
    and out: "out = init_notify k listen changed" using assms(3,4) by (rule serviceInit_ok)
  have km: "km = snd (InitKeyManager lib True (init_keyDir (sv_host sv)) d' emptyKeyManager)"
    using assms(5-8) by (simp add: Program_run_keys)
  note l = init_keys_load [OF assms(1,2) init_keyDir_nonempty init, folded km]
  have restart: "cs_status k = Inr KRunning \<and> d' \<noteq> d \<longrightarrow> RestartCall \<in> set (co_calls out)"
  proof
    assume run: "cs_status k = Inr KRunning \<and> d' \<noteq> d"
    have changed: changed by (rule ccontr) (use l(4) run in simp)
    have "RestartCall \<in> set (co_calls (init_notify k listen True))"
      by (rule init_notify_restart) (use assms(4) out changed run in simp_all)
    then show "RestartCall \<in> set (co_calls out)" using out changed by simp
  qed
  have peers: "if_authorizedSID f = [] \<longrightarrow> (\<forall>p. VerifyRequestPrincipal km p = None \<longleftrightarrow> p = UnixPeer (if_authorizedUID f))"
    using l(3) by (intro impI allI bound_uid) (simp add: init_principal_def)
  from l(2) have key: "\<exists>key. currentKey km = Some key \<and> PublicKey key = TrimSpace (if_publicKey f)" by fast
  show ?thesis by (intro conjI l(1) l(3) key peers restart)
qed

definition sample_command :: "service_err option \<Rightarrow> command_service" where
  "sample_command restart = \<lparr>cs_new = None, cs_install = None, cs_uninstall = None, cs_start = None, cs_stop = None,
     cs_restart = restart, cs_status = Inr KRunning, cs_run = None\<rparr>"

abbreviation sample_init :: "service_err option \<Rightarrow> disk \<Rightarrow> command_out \<times> disk" where
  "sample_init restart \<equiv> serviceInit framed_lib (sample_command restart) (sv_host sample_service) True WriteOK WriteOK [] sample_flags"

lemma sample_init_runs:
  obtains d' where "sample_init restart (\<lambda>_. Absent) = (init_notify (sample_command restart) [] True, d')"
proof -
  obtain km d' where "init_keys framed_lib WriteOK WriteOK sample_flags
     (snd (InitKeyManager framed_lib True (init_keyDir (sv_host sample_service)) (\<lambda>_. Absent) emptyKeyManager)) (\<lambda>_. Absent) = (Inr True, km, d')"
    using sample_init_set [of "init_keyDir (sv_host sample_service)"] by blast
  moreover have "if_publicKey sample_flags \<noteq> []" "if_uidChanged sample_flags" by (simp_all add: sample_flags_def)
  ultimately show thesis using that by (simp add: serviceInit_def)
qed

lemma sample_notify:
  "co_error (init_notify (sample_command None) [] True) = None"
  "co_error (init_notify (sample_command (Some er)) [] True) = Some (ServiceError er)"
  by (simp_all add: init_notify_def sample_command_def Let_def)

theorem init_takes_effect_witness:
  "\<exists>out d' key. sample_init None (\<lambda>_. Absent) = (out, d') \<and> RestartCall \<in> set (co_calls out) \<and>
     (let km = wd_keys (snd (Program_run framed_lib sample_service (sample_answers\<lparr>sa_mkdir := True, sa_disk := d'\<rparr>) ''/run/s''
        (sample_world\<lparr>wd_keys := emptyKeyManager\<rparr>)))
      in currentKey km = Some key \<and> VerifyRequestPrincipal km (UnixPeer 1000) = None \<and> VerifyRequestPrincipal km (UnixPeer 0) \<noteq> None)"
proof -
  obtain d' where i: "sample_init None (\<lambda>_. Absent) = (init_notify (sample_command None) [] True, d')" by (rule sample_init_runs)
  let ?a = "sample_answers\<lparr>sa_mkdir := True, sa_disk := d'\<rparr>" and ?w = "sample_world\<lparr>wd_keys := emptyKeyManager\<rparr>"
  define km where "km = wd_keys (snd (Program_run framed_lib sample_service ?a ''/run/s'' ?w))"
  have a: "sa_mkdir ?a" "sa_disk ?a = d'" "wd_keys ?w = emptyKeyManager" by simp_all
  note r = init_takes_effect [OF framed_lib_size framed_lib_json i sample_notify(1) a km_def [symmetric]]
  have uid: "if_authorizedSID sample_flags = []" "if_authorizedUID sample_flags = 1000" by (simp_all add: sample_flags_def)
  then have peers: "\<forall>p. VerifyRequestPrincipal km p = None \<longleftrightarrow> p = UnixPeer 1000" using r by simp
  have "VerifyRequestPrincipal km (UnixPeer 1000) = None" "VerifyRequestPrincipal km (UnixPeer 0) \<noteq> None"
    using peers [rule_format, of "UnixPeer 1000"] peers [rule_format, of "UnixPeer 0"] by simp_all
  moreover obtain key where "currentKey km = Some key" using r by blast
  moreover have "RestartCall \<in> set (co_calls (init_notify (sample_command None) [] True))"
    by (rule init_notify_restart [OF sample_notify(1)]) (simp add: sample_command_def)
  ultimately show ?thesis using i unfolding Let_def km_def
    by - (rule exI [of _ "init_notify (sample_command None) [] True"], rule exI [of _ d'], rule exI [of _ key], intro conjI; assumption)
qed

text \<open>
  A restart that failed is not made up for: when the same command is given again, the files
  already hold the new values, so it reports success without restarting the service, which
  still runs with the values it was started with.
\<close>

theorem init_retry_skips_restart:
  assumes "sha256_size lib" "json_ok lib"
    and "serviceInit lib k w mkdir_ok w1 w2 listen f d = (out, d')" "co_error out = Some (ServiceError er)"
    and "cs_new k2 = None" "cs_status k2 = Inr KRunning"
    and "serviceInit lib k2 w True v1 v2 listen f d' = (out2, d2)"
  shows "co_error out2 = None \<and> RestartCall \<notin> set (co_calls out2) \<and> d2 = d'"
proof -
  obtain changed km' where guards: "if_publicKey f \<noteq> []" "\<not> (if_authorizedSID f = [] \<and> \<not> if_uidChanged f)" and init:
    "init_keys lib w1 w2 f (snd (InitKeyManager lib mkdir_ok (init_keyDir w) d emptyKeyManager)) d = (Inr changed, km', d')"
    using assms(3,4) by (auto simp: serviceInit_def refused_def split: if_splits prod.splits sum.splits)
  obtain km'' where "init_keys lib v1 v2 f (snd (InitKeyManager lib True (init_keyDir w) d' emptyKeyManager)) d' = (Inr False, km'', d')"
    using init_keys_again [OF assms(1,2) init_keyDir_nonempty init] by blast
  then have "out2 = init_notify k2 listen False" "d2 = d'" using assms(7) guards by (auto simp: serviceInit_def)
  then show ?thesis using init_notify_unchanged [OF assms(5,6)] by simp
qed

theorem init_retry_skips_restart_witness:
  "\<exists>out d' out2 d2. sample_init (Some \<lparr>se_notInstalled = False, se_text = ''busy''\<rparr>) (\<lambda>_. Absent) = (out, d') \<and> co_error out \<noteq> None \<and>
     sample_init None d' = (out2, d2) \<and> co_error out2 = None \<and> RestartCall \<notin> set (co_calls out2)"
proof -
  let ?er = "\<lparr>se_notInstalled = False, se_text = ''busy''\<rparr>"
  obtain d' where i: "sample_init (Some ?er) (\<lambda>_. Absent) = (init_notify (sample_command (Some ?er)) [] True, d')"
    by (rule sample_init_runs)
  obtain out2 d2 where j: "sample_init None d' = (out2, d2)" by fastforce
  have "cs_new (sample_command None) = None" "cs_status (sample_command None) = Inr KRunning" by (simp_all add: sample_command_def)
  from init_retry_skips_restart [OF framed_lib_size framed_lib_json i sample_notify(2) this j] i j show ?thesis
    by (auto simp: sample_notify)
qed

end
