(* ===== verification/SandboxReexec.thy ===== *)
theory SandboxReexec
  imports Launcher SandboxRoot CpuSets ServiceRuntime
begin

text \<open>
  The helper between the service and the core (\<open>core/sandbox/reexec_linux.go\<close>,
  \<open>probe_linux.go\<close> and the hand-over in \<open>command_linux.go\<close>): the service starts its own
  executable with a marked environment, a file with the configuration and a pipe for the
  status; the helper prepares the root, enters it and becomes the core, or reports why
  not.  The JSON package and the system calls are parameters.
\<close>

section \<open>The hand-over\<close>

definition reexecModeEnv :: string where "reexecModeEnv = ''SPARKLE_CORE_SANDBOX_REEXEC''"

definition reexecEnvironment :: "string list \<Rightarrow> string list" where
  "reexecEnvironment envs = filter (\<lambda>item. env_key item \<noteq> reexecModeEnv) (Environ envs) @ [reexecModeEnv @ ''=1'']"

record reexecConfig =
  rc_Root :: string
  rc_Config :: Config

text \<open>\<open>None\<close> of \<open>rl_decode\<close> is an error of the decoder, an unknown field included.\<close>

record reexec_lib =
  rl_encode :: "reexecConfig \<Rightarrow> (string, bytes) result"
  rl_decode :: "bytes \<Rightarrow> (string, reexecConfig) result"

record config_file_env =
  ce_temp :: "string option"
  ce_remove :: "string option"
  ce_write :: "string option"
  ce_seek :: "string option"

text \<open>The file is unlinked at once; what is returned is its content, read from the start.\<close>

definition createReexecConfigFile :: "reexec_lib \<Rightarrow> config_file_env \<Rightarrow> reexecConfig \<Rightarrow> (string, bytes) result" where
  "createReexecConfigFile lib e config =
    (case ce_temp e of Some er \<Rightarrow> Inl er
     | None \<Rightarrow>
    (case ce_remove e of Some er \<Rightarrow> Inl er
     | None \<Rightarrow>
    (case rl_encode lib config of Inl er \<Rightarrow> Inl er
     | Inr data \<Rightarrow>
    (case ce_write e of Some er \<Rightarrow> Inl er
     | None \<Rightarrow>
    (case ce_seek e of Some er \<Rightarrow> Inl er | None \<Rightarrow> Inr data)))))"

section \<open>The helper\<close>

datatype reexec_error =
    ConfigUnread string | ConfigUnclosed string | RootUnprepared root_error | ChrootFailed string | ChdirFailed string
  | AffinityFailed affinity_error | ExecFailed string

text \<open>The state of the helper: the mounts of its namespace, its root, directory and CPU mask.\<close>

record 'm helper =
  he_mounts :: mount_state
  he_root :: string
  he_cwd :: string
  he_mask :: 'm

record 'm helper_env =
  hv_close :: "string option"
  hv_chroot :: "string option"
  hv_chdir :: "string option"
  hv_setaffinity :: "'m \<Rightarrow> (nat, 'm) result"
  hv_getaffinity :: "nat option"
  hv_exec :: "string option"

definition applyCPUAffinity :: "'m cpu_lib \<Rightarrow> 'm helper_env \<Rightarrow> int list \<Rightarrow> 'm helper \<Rightarrow> affinity_error option \<times> 'm helper" where
  "applyCPUAffinity cl v cpus s =
    (case find (\<lambda>cpu. cpu < 0 \<or> 1024 \<le> cpu) cpus of Some cpu \<Rightarrow> (Some (CPUOutOfRange cpu), s)
     | None \<Rightarrow>
    (case hv_setaffinity v (mask_of cl cpus) of Inl er \<Rightarrow> (Some (BindFailed 0 er), s)
     | Inr m \<Rightarrow>
       let s1 = s\<lparr>he_mask := m\<rparr> in
      (case hv_getaffinity v of Some er \<Rightarrow> (Some (BindUnread 0 er), s1)
       | None \<Rightarrow> if he_mask s1 \<noteq> mask_of cl cpus then (Some (BindPartial 0), s1) else (None, s1))))"

text \<open>\<open>syscall.Exec\<close> replaces the helper by the core.\<close>

datatype reexec_end = CoreRuns string "string list" "string list" | ReexecFailed reexec_error

definition enter_root ::
    "host \<Rightarrow> (string \<Rightarrow> (string, string) result) \<Rightarrow> root_env \<Rightarrow> kernel \<Rightarrow> 'm helper_env \<Rightarrow> reexecConfig \<Rightarrow> 'm helper
     \<Rightarrow> reexec_error option \<times> 'm helper" where
  "enter_root w resolve e k v rc s =
    (if rc_Root rc = [] then (None, s)
     else case prepareRoot w resolve e k (rc_Config rc) (rc_Root rc) (he_mounts s) of
       (Some er, ms) \<Rightarrow> (Some (RootUnprepared er), s\<lparr>he_mounts := ms\<rparr>)
     | (None, ms) \<Rightarrow>
        (case hv_chroot v of
           Some er \<Rightarrow> (Some (ChrootFailed er),
             s\<lparr>he_mounts := snd (cleanupLinuxSandboxRoot k (en_euid e) (en_lstat e) (rc_Root rc) ms)\<rparr>)
         | None \<Rightarrow> (None, s\<lparr>he_mounts := ms, he_root := rc_Root rc\<rparr>)))"

definition become_core :: "'m cpu_lib \<Rightarrow> 'm helper_env \<Rightarrow> Config \<Rightarrow> 'm helper \<Rightarrow> reexec_end \<times> 'm helper" where
  "become_core cl v c s =
    (case hv_chdir v of Some er \<Rightarrow> (ReexecFailed (ChdirFailed er), s)
     | None \<Rightarrow>
      (let s1 = s\<lparr>he_cwd := cf_WorkingDir c\<rparr>;
           args = cf_ExecutablePath c # cf_Args c;
           (er, s2) = (if cf_CPUAffinity c = [] then (None, s1) else applyCPUAffinity cl v (cf_CPUAffinity c) s1)
       in case er of Some x \<Rightarrow> (ReexecFailed (AffinityFailed x), s2)
          | None \<Rightarrow> (case hv_exec v of Some x \<Rightarrow> (ReexecFailed (ExecFailed x), s2)
              | None \<Rightarrow> (CoreRuns (cf_ExecutablePath c) args (cf_Env c), s2))))"

definition runReexec ::
    "reexec_lib \<Rightarrow> 'm cpu_lib \<Rightarrow> host \<Rightarrow> (string \<Rightarrow> (string, string) result) \<Rightarrow> root_env \<Rightarrow> kernel \<Rightarrow> 'm helper_env
     \<Rightarrow> bytes \<Rightarrow> 'm helper \<Rightarrow> reexec_end \<times> 'm helper" where
  "runReexec lib cl w resolve e k v file s =
    (case rl_decode lib file of Inl er \<Rightarrow> (ReexecFailed (ConfigUnread er), s)
     | Inr rc \<Rightarrow>
    (case hv_close v of Some er \<Rightarrow> (ReexecFailed (ConfigUnclosed er), s)
     | None \<Rightarrow>
    (case enter_root w resolve e k v rc s of
       (Some er, s1) \<Rightarrow> (ReexecFailed er, s1)
     | (None, s1) \<Rightarrow> become_core cl v (rc_Config rc) s1)))"

text \<open>
  What the other end of the status pipe reads: nothing when the core runs, for the pipe is
  closed by \<open>exec\<close>, and otherwise the message; \<open>show\<close> is the text of an error.  The bytes
  in front are the fixed start of the message in UTF-8.
\<close>

definition reexec_message :: "(reexec_error \<Rightarrow> string) \<Rightarrow> reexec_error \<Rightarrow> string" where
  "reexec_message show er =
    [CHR 0xE6, CHR 0xA0, CHR 0xB8, CHR 0xE5, CHR 0xBF, CHR 0x83, CHR 0xE6, CHR 0xB2, CHR 0x99, CHR 0xE7, CHR 0x9B, CHR 0x92] @
    '' re-exec '' @ [CHR 0xE5, CHR 0xA4, CHR 0xB1, CHR 0xE8, CHR 0xB4, CHR 0xA5, CHR 0xEF, CHR 0xBC, CHR 0x9A] @ show er"

definition reportReexecError :: "(reexec_error \<Rightarrow> string) \<Rightarrow> reexec_end \<Rightarrow> string" where
  "reportReexecError show r = (case r of CoreRuns _ _ _ \<Rightarrow> [] | ReexecFailed er \<Rightarrow> reexec_message show er)"

text \<open>
  \<open>init\<close> of the package: a process whose environment is not marked goes on; a marked one
  becomes the core or ends with the code 125 and the message.
\<close>

datatype sandbox_start = GoesOn | BecomesCore string "string list" "string list" | ExitsWith int string

definition sandbox_init ::
    "(reexec_error \<Rightarrow> string) \<Rightarrow> reexec_lib \<Rightarrow> 'm cpu_lib \<Rightarrow> host \<Rightarrow> (string \<Rightarrow> (string, string) result) \<Rightarrow> root_env \<Rightarrow> kernel
     \<Rightarrow> 'm helper_env \<Rightarrow> string list \<Rightarrow> bytes \<Rightarrow> 'm helper \<Rightarrow> sandbox_start \<times> 'm helper" where
  "sandbox_init show lib cl w resolve e k v envs file s =
    (if process_getenv envs reexecModeEnv \<noteq> ''1'' then (GoesOn, s)
     else case runReexec lib cl w resolve e k v file s of
       (CoreRuns path args env, s1) \<Rightarrow> (BecomesCore path args env, s1)
     | (ReexecFailed er, s1) \<Rightarrow> (ExitsWith 125 (reexec_message show er), s1))"

section \<open>The probe\<close>

record probe_env =
  pe_build :: build_env
  pe_start :: "string option"
  pe_await :: await_answer
  pe_wait :: "string option"
  pe_cleanup :: "string option"

definition probe_config :: "string \<Rightarrow> Config" where
  "probe_config executable =
    \<lparr>cf_ExecutablePath = executable, cf_Args = [''--help''], cf_Env = [], cf_WorkingDir = Dir executable, cf_CPUAffinity = [],
     cf_Sandbox = True, cf_ReadOnlyPaths = [], cf_WritablePaths = [], cf_WritableDirs = []\<rparr>"

definition runProbe :: "host \<Rightarrow> probe_env \<Rightarrow> launch_world \<Rightarrow> launch_error option \<times> launch_world" where
  "runProbe w e s =
    (if be_euid (pe_build e) \<noteq> 0 then (Some NeedRoot, s)
     else case be_executable (pe_build e) of Inl er \<Rightarrow> (Some (LaunchText er), s)
     | Inr executable \<Rightarrow>
      (case NewCommand w (pe_build e) (probe_config executable) s of
         (Inl er, s1) \<Rightarrow> (Some er, s1)
       | (Inr i, s1) \<Rightarrow>
          (case pe_start e of Some er \<Rightarrow> (Some (LaunchText er), Cleanup i s1)
           | None \<Rightarrow>
            (let p = xc_id (sc_Cmd (lw_cmds s1 ! i));
                 s2 = s1\<lparr>lw_alive := p # lw_alive s1\<rparr>
             in case AwaitExec (pe_await e) i s2 of
                  (Some er, s3) \<Rightarrow> (Some er, Cleanup i (kill p s3))
                | (None, s3) \<Rightarrow>
                   (let s4 = s3\<lparr>lw_alive := remove1 p (lw_alive s3)\<rparr> in
                    case pe_wait e of Some er \<Rightarrow> (Some (LaunchText er), Cleanup i s4)
                    | None \<Rightarrow> (map_option LaunchText (pe_cleanup e), Cleanup i s4))))))"

text \<open>\<open>Probe\<close> runs once and remembers the answer.\<close>

definition Probe :: "host \<Rightarrow> probe_env \<Rightarrow> launch_error option option \<Rightarrow> launch_world \<Rightarrow> launch_error option \<times> launch_error option option \<times> launch_world" where
  "Probe w e memo s = (case memo of Some r \<Rightarrow> (r, memo, s)
     | None \<Rightarrow> (case runProbe w e s of (r, s') \<Rightarrow> (r, Some r, s')))"

end
