(* ===== verification/SandboxReexecProps.thy ===== *)
theory SandboxReexecProps
  imports SandboxReexec SandboxRootProps ServiceRuntimeProps LauncherProps
begin

text \<open>
  The helper is the core in its root or nothing: what runs after the hand-over, what the
  service is told, and what a probe leaves behind.
\<close>

section \<open>The environment of the helper\<close>

lemma find_filter: "find P (filter Q xs) = find (\<lambda>x. P x \<and> Q x) xs"
  by (induction xs) auto

text \<open>
  The helper always sees the mark, whatever the service inherited, and every other
  variable as the service sees it.
\<close>

theorem reexec_environment_marked:
  "process_getenv (reexecEnvironment envs) reexecModeEnv = ''1'' \<and>
   (k \<noteq> reexecModeEnv \<longrightarrow> process_getenv (reexecEnvironment envs) k = process_getenv envs k)"
proof -
  have e: "is_entry (reexecModeEnv @ ''=1'')" "env_key (reexecModeEnv @ ''=1'') = reexecModeEnv" by code_simp+
  have "find (\<lambda>s. is_entry s \<and> env_key s = reexecModeEnv) (filter (\<lambda>item. env_key item \<noteq> reexecModeEnv) (Environ envs)) = None"
    unfolding find_filter by (simp add: find_None_iff)
  then have "process_getenv (reexecEnvironment envs) reexecModeEnv = ''1''"
    using e by (simp add: process_getenv_def reexecEnvironment_def find_append)
  moreover have "process_getenv (reexecEnvironment envs) k = process_getenv envs k" if k: "k \<noteq> reexecModeEnv"
  proof -
    have "find (\<lambda>s. is_entry s \<and> env_key s = k) (filter (\<lambda>item. env_key item \<noteq> reexecModeEnv) (Environ envs)) =
        find (\<lambda>s. is_entry s \<and> env_key s = k) (Environ envs)"
      unfolding find_filter by (rule arg_cong [where f = "\<lambda>P. find P _"]) (use k in auto)
    also have "\<dots> = find (\<lambda>s. is_entry s \<and> env_key s = k) envs"
      unfolding Environ_def by (rule find_copyenv) simp
    finally have f: "find (\<lambda>s. is_entry s \<and> env_key s = k) (reexecEnvironment envs) = find (\<lambda>s. is_entry s \<and> env_key s = k) envs"
      using e k by (simp add: reexecEnvironment_def find_append split: option.splits)
    show ?thesis unfolding process_getenv_def f ..
  qed
  ultimately show ?thesis by blast
qed

section \<open>The hand-over\<close>

text \<open>What the JSON package does: it reads back the configuration it wrote.\<close>

definition reexec_codec :: "reexec_lib \<Rightarrow> bool" where
  "reexec_codec lib \<longleftrightarrow> (\<forall>rc b. rl_encode lib rc = Inr b \<longrightarrow> rl_decode lib b = Inr rc)"

lemma config_roundtrip:
  assumes "reexec_codec lib" "createReexecConfigFile lib e rc = Inr file"
  shows "rl_decode lib file = Inr rc"
  using assms by (auto simp: createReexecConfigFile_def reexec_codec_def split: option.splits sum.splits)

lemma applyCPUAffinity_frame:
  assumes "applyCPUAffinity cl v cpus s = (er, s')"
  shows "he_mounts s' = he_mounts s" "he_root s' = he_root s" "he_cwd s' = he_cwd s"
  using assms by (auto simp: applyCPUAffinity_def Let_def split: option.splits sum.splits if_splits)

lemma applyCPUAffinity_ok:
  assumes "applyCPUAffinity cl v cpus s = (None, s')"
  shows "he_mask s' = mask_of cl cpus"
  using assms by (auto simp: applyCPUAffinity_def Let_def split: option.splits sum.splits if_splits)

lemma become_core_runs:
  assumes "become_core cl v c s = (CoreRuns path args env, s')"
  shows "he_mounts s' = he_mounts s" "he_root s' = he_root s" "he_cwd s' = cf_WorkingDir c"
    "path = cf_ExecutablePath c" "args = cf_ExecutablePath c # cf_Args c" "env = cf_Env c"
    "cf_CPUAffinity c \<noteq> [] \<Longrightarrow> he_mask s' = mask_of cl (cf_CPUAffinity c)"
  using assms
  by (auto simp: become_core_def Let_def dest: applyCPUAffinity_frame applyCPUAffinity_ok split: option.splits if_splits prod.splits)

lemma enter_root_ok:
  assumes "obedient k" "shows_root k root" "Clean root = root" "root \<noteq> []" "ms_mounted (he_mounts s) = []"
    and "enter_root w resolve e k v \<lparr>rc_Root = root, rc_Config = c\<rparr> s = (None, s')"
  shows "he_root s' = root" "ms_mounted (he_mounts s') = root # map (sandboxTarget root \<circ> sm_target) (projr (sandboxMounts w resolve c))"
proof -
  obtain ms where p: "prepareRoot w resolve e k c root (he_mounts s) = (None, ms)" "s' = s\<lparr>he_mounts := ms, he_root := root\<rparr>"
    using assms(4,6) by (auto simp: enter_root_def split: prod.splits option.splits)
  then show "he_root s' = root" "ms_mounted (he_mounts s') = root # map (sandboxTarget root \<circ> sm_target) (projr (sandboxMounts w resolve c))"
    using prepare_root_outcome [OF assms(1-3,5) p(1)] by simp_all
qed

lemma message_seen: "awaited (AwaitData (reexec_message show er)) \<noteq> None"
proof -
  have "CHR ''r'' \<in> set (TrimSpace (reexec_message show er))"
    by (rule TrimSpace_keeps_graphic) (simp_all add: reexec_message_def graphic_def)
  then show ?thesis by (auto simp: awaited_def)
qed

lemma silence_seen: "awaited (AwaitData []) = None"
proof -
  have "TrimSpace [] = []" by code_simp
  then show ?thesis by (simp add: awaited_def)
qed

text \<open>The service reads an empty status exactly when the core runs.\<close>

theorem reexec_handshake:
  "awaited (AwaitData (reportReexecError show r)) = None \<longleftrightarrow> (\<exists>path args env. r = CoreRuns path args env)"
  using message_seen silence_seen by (cases r) (auto simp: reportReexecError_def)

section \<open>Properties\<close>


definition sample_reexec_lib :: "Config \<Rightarrow> reexec_lib" where
  "sample_reexec_lib c = \<lparr>rl_encode = (\<lambda>rc. if rc_Config rc = c then Inr (rc_Root rc) else Inl ''unsupported''),
     rl_decode = (\<lambda>b. Inr \<lparr>rc_Root = b, rc_Config = c\<rparr>)\<rparr>"

definition roomy_kernel :: kernel where
  "roomy_kernel = full_kernel\<lparr>k_mkdir := (\<lambda>t p. True)\<rparr>"

definition calm_helper_env :: "nat helper_env" where
  "calm_helper_env = \<lparr>hv_close = None, hv_chroot = None, hv_chdir = None, hv_setaffinity = Inr, hv_getaffinity = None, hv_exec = None\<rparr>"

definition sample_helper :: "nat helper" where
  "sample_helper = \<lparr>he_mounts = fresh_mounts, he_root = ''/'', he_cwd = ''/'', he_mask = 3\<rparr>"

definition nat_cpu_lib :: "nat cpu_lib" where
  "nat_cpu_lib = \<lparr>cl_zero = 0, cl_set = (\<lambda>c m. m), cl_isSet = (\<lambda>m c. False), cl_own = Inr 3\<rparr>"

lemma sample_prepare_works:
  "fst (prepareRoot sandbox_host Inr sample_root_env roomy_kernel (sandbox_config ''/opt/core/mihomo'') sample_root fresh_mounts) = None"
proof -
  have v: "validateSandboxRoot (en_tmp sample_root_env) (en_euid sample_root_env) (en_lstat sample_root_env) sample_root = None"
    "en_lock sample_root_env = None" "en_layout sample_root_env = None"
    using sample_root_valid by (simp_all add: sample_root_env_def)
  show ?thesis unfolding prepareRoot_def sandbox_plan v
    by (simp add: roomy_kernel_def full_kernel_def mountSandboxRoot_def sys_mount_def isolate_def makeSandboxMountPrivate_def
        mountIntoSandbox_def mountKernelFilesystem_def make_readonly_def bind_mount_def proc_mount_def Let_def)
qed

abbreviation sample_reexec :: "sandbox_start \<times> nat helper" where
  "sample_reexec \<equiv> sandbox_init (\<lambda>_. []) (sample_reexec_lib (sandbox_config ''/opt/core/mihomo'')) nat_cpu_lib sandbox_host Inr sample_root_env
     roomy_kernel calm_helper_env (reexecEnvironment [''SPARKLE_CORE_SANDBOX_REEXEC=0'']) sample_root sample_helper"

lemma sample_reexec_runs: "\<exists>path args env s'. sample_reexec = (BecomesCore path args env, s')"
proof -
  let ?c = "sandbox_config ''/opt/core/mihomo''"
  have m: "process_getenv (reexecEnvironment [''SPARKLE_CORE_SANDBOX_REEXEC=0'']) reexecModeEnv = ''1''"
    using reexec_environment_marked by blast
  have d: "rl_decode (sample_reexec_lib ?c) sample_root = Inr \<lparr>rc_Root = sample_root, rc_Config = ?c\<rparr>"
    by (simp add: sample_reexec_lib_def)
  have v: "hv_close calm_helper_env = None" "hv_chroot calm_helper_env = None" "hv_chdir calm_helper_env = None" "hv_exec calm_helper_env = None"
    by (simp_all add: calm_helper_env_def)
  obtain ms where p: "prepareRoot sandbox_host Inr sample_root_env roomy_kernel ?c sample_root (he_mounts sample_helper) = (None, ms)"
    using sample_prepare_works by (metis helper.select_convs(1) prod.collapse sample_helper_def)
  have "sample_root \<noteq> []" "cf_CPUAffinity ?c = []" by (simp_all add: sample_root_def sandbox_config_def)
  then show ?thesis by (simp add: sandbox_init_def m runReexec_def d v enter_root_def p become_core_def)
qed


text \<open>
  A probe leaves nothing behind: no process, no open file and no root, whichever of its
  steps fails.
\<close>

theorem probe_leaves_nothing:
  assumes "runProbe w e s = (r, s')" "tidy None s" "fresh_ids s" "\<forall>root. be_root (pe_build e) = Inr root \<longrightarrow> root \<noteq> []"
  shows "tidy None s' \<and> lw_alive s' = lw_alive s"
proof (cases "be_euid (pe_build e) \<noteq> 0 \<or> (\<exists>er. be_executable (pe_build e) = Inl er)")
  case True
  then show ?thesis using assms(1,2) by (auto simp: runProbe_def split: if_splits)
next
  case False
  then obtain exe where exe: "be_executable (pe_build e) = Inr exe" "be_euid (pe_build e) = 0"
    by (cases "be_executable (pe_build e)") auto
  obtain q s1 where new: "NewCommand w (pe_build e) (probe_config exe) s = (q, s1)" by fastforce
  note b = NewCommand_built [OF new assms(2,4)]
  show ?thesis
  proof (cases q)
    case (Inl er)
    then show ?thesis using assms(1) exe new b by (simp add: runProbe_def)
  next
    case (Inr i)
    let ?p = "xc_id (sc_Cmd (lw_cmds s1 ! i))" and ?s2 = "s1\<lparr>lw_alive := xc_id (sc_Cmd (lw_cmds s1 ! i)) # lw_alive s1\<rparr>"
    have t: "tidy (Some i) s1" "lw_alive s1 = lw_alive s" "sc_await (lw_cmds s1 ! i) = None" "?p = lw_next s"
      using b Inr by (auto simp: built_def linuxReexecCoreCommand_def)
    have fresh: "?p \<notin> set (lw_alive s)" using assms(3) t(4) by (auto simp: fresh_ids_def)
    obtain a s3 where aw: "AwaitExec (pe_await e) i ?s2 = (a, s3)" by fastforce
    have "tidy (Some i) ?s2" "sc_await (lw_cmds ?s2 ! i) = None" using t by simp_all
    note eff = AwaitExec_effect [OF aw this]
    have alive: "remove1 ?p (lw_alive s3) = lw_alive s" using eff t(2) fresh by (auto simp: remove1_idem)
    have tidy3: "tidy (Some i) (s3\<lparr>lw_alive := remove1 ?p (lw_alive s3)\<rparr>)" using eff by simp
    show ?thesis
      using assms(1) exe new Inr aw t(1,2) alive Cleanup_tidy [OF tidy3] Cleanup_tidy [OF t(1)]
      by (auto simp: runProbe_def Let_def kill_def split: option.splits)
  qed
qed

theorem probe_leaves_nothing_witness:
  "\<exists>r s'. runProbe sandbox_host \<lparr>pe_build = \<lparr>be_euid = 0, be_executable = Inr ''/opt/s'', be_probe = None, be_root = Inr ''/tmp/r'',
     be_configFile = None, be_pipe = None, be_self = None\<rparr>, pe_start = None, pe_await = AwaitSilent, pe_wait = None, pe_cleanup = None\<rparr>
     \<lparr>lw_next = 1, lw_alive = [], lw_cmds = [], lw_roots = [], lw_removed = []\<rparr> = (r, s') \<and> lw_alive s' = []"
  (is "\<exists>r s'. runProbe _ ?e ?s = (r, s') \<and> _")
proof -
  obtain r s' where run: "runProbe sandbox_host ?e ?s = (r, s')" by fastforce
  have "tidy None ?s" "fresh_ids ?s" by (simp_all add: tidy_def fresh_ids_def)
  moreover have "\<forall>root. be_root (pe_build ?e) = Inr root \<longrightarrow> root \<noteq> []" by simp
  ultimately have "lw_alive s' = []" using probe_leaves_nothing [OF run] by simp
  then show ?thesis using run by blast
qed

end
