(* ===== verification/SandboxLayout.thy ===== *)
theory SandboxLayout
  imports SandboxRootProps StartupNotify
begin

text \<open>
  The directories of a sandbox root that are no mounts, the lock file that the core shares
  with the host, and the creation of the root by the service
  (\<open>core/sandbox/sandbox_linux.go\<close>).  \<open>prepareRoot\<close> takes the outcome of the first two from
  its environment.
\<close>

section \<open>The static layout\<close>

text \<open>What is at a path, with the mode of a directory; the answers of the system calls by path.\<close>

datatype layout_node = DirNode mode | LinkNode string | FileNode

type_synonym layout = "string \<rightharpoonup> layout_node"

record layout_env =
  ly_umask :: mode
  ly_leads :: "string \<Rightarrow> bool"
  ly_mkdir :: "string \<Rightarrow> string option"
  ly_chmod :: "string \<Rightarrow> string option"
  ly_symlink :: "string \<Rightarrow> string option"

text \<open>
  \<open>os.MkdirAll\<close> for a directory whose parent exists; \<open>ly_leads\<close> says whether a link leads to
  a directory.
\<close>

definition mkdir_below :: "layout_env \<Rightarrow> string \<Rightarrow> mode \<Rightarrow> layout \<Rightarrow> string option \<times> layout" where
  "mkdir_below e path m t =
    (case t path of
       Some (DirNode _) \<Rightarrow> (None, t)
     | Some (LinkNode _) \<Rightarrow> (if ly_leads e path then None else Some ''not a directory'', t)
     | Some FileNode \<Rightarrow> (Some ''not a directory'', t)
     | None \<Rightarrow> (case ly_mkdir e path of Some er \<Rightarrow> (Some er, t)
         | None \<Rightarrow> (None, t(path \<mapsto> DirNode (m AND NOT (ly_umask e))))))"

text \<open>\<open>os.Chmod\<close>: of a mode only the permission bits and Go's own bits for the rest count.\<close>

definition chmod_dir :: "layout_env \<Rightarrow> string \<Rightarrow> mode \<Rightarrow> layout \<Rightarrow> string option \<times> layout" where
  "chmod_dir e path m t =
    (case ly_chmod e path of Some er \<Rightarrow> (Some er, t)
     | None \<Rightarrow> (None, (case t path of
           Some (DirNode old) \<Rightarrow> t(path \<mapsto> DirNode ((old AND NOT chmod_bits) OR (m AND chmod_bits)))
         | _ \<Rightarrow> t)))"

text \<open>\<open>os.Symlink\<close>; that something exists at the path is ignored by the caller.\<close>

definition link_new :: "layout_env \<Rightarrow> string \<Rightarrow> string \<Rightarrow> layout \<Rightarrow> string option \<times> layout" where
  "link_new e target path t =
    (if t path \<noteq> None then (None, t)
     else case ly_symlink e path of Some er \<Rightarrow> (Some er, t) | None \<Rightarrow> (None, t(path \<mapsto> LinkNode target)))"

definition prepareLinuxSandboxStaticLayout :: "layout_env \<Rightarrow> string \<Rightarrow> layout \<Rightarrow> string option \<times> layout" where
  "prepareLinuxSandboxStaticLayout e root t =
    (case mkdir_below e (Join [root, ''run'']) 0x1ED t of (Some er, t1) \<Rightarrow> (Some er, t1)
     | (None, t1) \<Rightarrow>
    (let tmpDir = Join [root, ''tmp''] in
     case mkdir_below e tmpDir 0x1ED t1 of (Some er, t2) \<Rightarrow> (Some er, t2)
     | (None, t2) \<Rightarrow>
    (case chmod_dir e tmpDir 0x3FF t2 of (Some er, t3) \<Rightarrow> (Some er, t3)
     | (None, t3) \<Rightarrow>
    (case mkdir_below e (Join [root, ''var'']) 0x1ED t3 of (Some er, t4) \<Rightarrow> (Some er, t4)
     | (None, t4) \<Rightarrow> link_new e ''../run'' (Join [root, ''var'', ''run'']) t4))))"

text \<open>The lock file exists after it was opened, whether or not closing it fails.\<close>

definition ensureXTablesLock :: "string option \<Rightarrow> string option \<Rightarrow> string set \<Rightarrow> string option \<times> string set" where
  "ensureXTablesLock open_er close_er files =
    (case open_er of Some er \<Rightarrow> (Some er, files)
     | None \<Rightarrow> (close_er, insert ''/run/xtables.lock'' files))"

text \<open>The environment of \<open>prepareRoot\<close> with the outcomes of both.\<close>

definition layout_root_env ::
    "root_env \<Rightarrow> string option \<Rightarrow> string option \<Rightarrow> string set \<Rightarrow> layout_env \<Rightarrow> string \<Rightarrow> layout \<Rightarrow> root_env" where
  "layout_root_env e open_er close_er files le root t =
    e\<lparr>en_lock := fst (ensureXTablesLock open_er close_er files), en_layout := fst (prepareLinuxSandboxStaticLayout le root t)\<rparr>"

section \<open>The root of a new sandbox\<close>

text \<open>
  Left-over roots are removed first.  \<open>random\<close> is the text that \<open>os.MkdirTemp\<close> chose, or its
  error; the directory it makes is new, private and owned by the service.
\<close>

definition createSandboxRoot ::
    "kernel \<Rightarrow> int \<Rightarrow> string \<Rightarrow> nat \<Rightarrow> (int \<Rightarrow> (string, bytes) result) \<Rightarrow> string list \<Rightarrow> (string, string) result
     \<Rightarrow> (string \<Rightarrow> lstat_result) \<Rightarrow> (string \<Rightarrow> mount_state)
     \<Rightarrow> (string, string) result \<times> (string \<Rightarrow> lstat_result) \<times> (string \<Rightarrow> mount_state)" where
  "createSandboxRoot k euid tmp pid stat roots random lstat d =
    (let d1 = cleanupStaleLinuxSandboxRoots k euid lstat stat roots d;
         lstat1 = (\<lambda>p. if p \<in> set roots \<and> \<not> ms_exists (d1 p) then LMissing else lstat p) in
     case linuxProcessStartTime stat (int pid) of Inl er \<Rightarrow> (Inl er, lstat1, d1)
     | Inr startTime \<Rightarrow>
        (case random of Inl er \<Rightarrow> (Inl er, lstat1, d1)
         | Inr r \<Rightarrow>
            (let root = mkdtemp_path tmp (sandbox_root_name pid startTime r) in
             (Inr root, lstat1(root := LInfo \<lparr>fi_isDir = True, fi_symlink = False, fi_uid = euid, fi_perm = 448\<rparr>),
              d1(root := \<lparr>ms_clock = 0, ms_mounted = [], ms_readonly = [], ms_exists = True, ms_emptied = []\<rparr>)))))"

section \<open>Properties\<close>

lemma join_two: "root \<noteq> [] \<Longrightarrow> Join [root, ''var'', ''run''] = Clean (root @ sep # ''var'' @ sep # ''run'')"
  by simp

lemma layout_paths:
  assumes "IsAbs root" "Clean root = root" "root \<noteq> [sep]"
  shows "Join [root, ''run''] = root @ sep # ''run''" "Join [root, ''tmp''] = root @ sep # ''tmp''"
    "Join [root, ''var''] = root @ sep # ''var''" "Join [root, ''var'', ''run''] = root @ sep # ''var'' @ sep # ''run''"
proof -
  show "Join [root, ''run''] = root @ sep # ''run''" "Join [root, ''tmp''] = root @ sep # ''tmp''"
    "Join [root, ''var''] = root @ sep # ''var''"
    using assms by (intro Join_below; simp add: plain_elem_def)+
  have elems: "\<exists>es. (\<forall>e\<in>set es. plain_elem e) \<and> es \<noteq> [] \<and> root = sep # join [sep] es"
    using Clean_elems [OF assms(1)] assms(2,3) by (metis join.simps(1))
  then obtain es where es: "\<forall>e\<in>set es. plain_elem e" "es \<noteq> []" "root = sep # join [sep] es" by blast
  have path: "root @ sep # ''var'' @ sep # ''run'' = sep # join [sep] ((es @ [''var'']) @ [''run''])"
  proof -
    have "join [sep] ((es @ [''var'']) @ [''run'']) = join [sep] (es @ [''var'']) @ [sep] @ ''run''" by (rule join_snoc) simp
    moreover have "join [sep] (es @ [''var'']) = join [sep] es @ [sep] @ ''var''" by (rule join_snoc) (rule es(2))
    ultimately show ?thesis unfolding es(3) by (simp only: append_assoc append_Cons append_Nil)
  qed
  have "Clean (root @ sep # ''var'' @ sep # ''run'') = root @ sep # ''var'' @ sep # ''run''"
    unfolding path by (rule Clean_plain_elems) (use es(1) in \<open>auto simp: plain_elem_def\<close>)
  moreover have "root \<noteq> []" using es(3) by simp
  ultimately show "Join [root, ''var'', ''run''] = root @ sep # ''var'' @ sep # ''run''"
    using join_two by (simp only: simp_thms)
qed

lemma mkdir_fresh:
  assumes "mkdir_below e p m t = (None, t1)" "t p = None"
  shows "t1 = t(p \<mapsto> DirNode (m AND NOT (ly_umask e)))"
  using assms by (simp add: mkdir_below_def split: option.splits)

lemma mkdir_again: "t p = Some (DirNode m') \<Longrightarrow> mkdir_below e p m t = (None, t)"
  by (simp add: mkdir_below_def)

lemma chmod_fresh:
  assumes "chmod_dir e p m t = (None, t1)" "t p = Some (DirNode old)"
  shows "t1 = t(p \<mapsto> DirNode ((old AND NOT chmod_bits) OR (m AND chmod_bits))) \<and> ly_chmod e p = None"
  using assms by (simp add: chmod_dir_def split: option.splits)

lemma link_fresh: "link_new e target p t = (None, t1) \<Longrightarrow> t p = None \<Longrightarrow> t1 = t(p \<mapsto> LinkNode target)"
  by (simp add: link_new_def split: option.splits)

lemma layout_steps:
  assumes r: "prepareLinuxSandboxStaticLayout e root t = (None, t')"
    and p: "Join [root, ''run''] = a" "Join [root, ''tmp''] = b" "Join [root, ''var''] = c" "Join [root, ''var'', ''run''] = d"
    and fresh: "t a = None" "t b = None" "t c = None" "t d = None"
    and ne: "a \<noteq> b" "a \<noteq> c" "a \<noteq> d" "b \<noteq> c" "b \<noteq> d" "c \<noteq> d"
    and m: "((0x1ED AND NOT (ly_umask e)) AND NOT chmod_bits) OR (0x3FF AND chmod_bits) = (0x1FF :: mode)"
  shows "t' = t(a \<mapsto> DirNode (0x1ED AND NOT (ly_umask e)), b \<mapsto> DirNode 0x1FF,
      c \<mapsto> DirNode (0x1ED AND NOT (ly_umask e)), d \<mapsto> LinkNode ''../run'') \<and>
    prepareLinuxSandboxStaticLayout e root t' = (None, t')"
proof -
  note run = prepareLinuxSandboxStaticLayout_def Let_def p
  obtain t1 where 1: "mkdir_below e a 0x1ED t = (None, t1)"
    using r unfolding run by (cases "mkdir_below e a 0x1ED t") (auto split: option.splits)
  obtain t2 where 2: "mkdir_below e b 0x1ED t1 = (None, t2)"
    using r 1 unfolding run by (cases "mkdir_below e b 0x1ED t1") (auto split: option.splits)
  obtain t3 where 3: "chmod_dir e b 0x3FF t2 = (None, t3)"
    using r 1 2 unfolding run by (cases "chmod_dir e b 0x3FF t2") (auto split: option.splits)
  obtain t4 where 4: "mkdir_below e c 0x1ED t3 = (None, t4)"
    using r 1 2 3 unfolding run by (cases "mkdir_below e c 0x1ED t3") (auto split: option.splits)
  have 5: "link_new e ''../run'' d t4 = (None, t')" using r 1 2 3 4 unfolding run by simp
  have t1: "t1 = t(a \<mapsto> DirNode (0x1ED AND NOT (ly_umask e)))" by (rule mkdir_fresh [OF 1 fresh(1)])
  have t2: "t2 = t1(b \<mapsto> DirNode (0x1ED AND NOT (ly_umask e)))" by (rule mkdir_fresh [OF 2]) (simp add: t1 fresh ne [symmetric])
  have t3: "t3 = t2(b \<mapsto> DirNode 0x1FF)" and chmod: "ly_chmod e b = None"
    using chmod_fresh [OF 3, of "0x1ED AND NOT (ly_umask e)"] m by (simp_all add: t2)
  have t4: "t4 = t3(c \<mapsto> DirNode (0x1ED AND NOT (ly_umask e)))"
    by (rule mkdir_fresh [OF 4]) (simp add: t3 t2 t1 fresh ne [symmetric])
  have t5: "t' = t4(d \<mapsto> LinkNode ''../run'')" by (rule link_fresh [OF 5]) (simp add: t4 t3 t2 t1 fresh ne [symmetric])
  have eq: "t' = t(a \<mapsto> DirNode (0x1ED AND NOT (ly_umask e)), b \<mapsto> DirNode 0x1FF,
      c \<mapsto> DirNode (0x1ED AND NOT (ly_umask e)), d \<mapsto> LinkNode ''../run'')"
    by (simp add: t5 t4 t3 t2 t1)
  have at: "t' a = Some (DirNode (0x1ED AND NOT (ly_umask e)))" "t' b = Some (DirNode 0x1FF)"
    "t' c = Some (DirNode (0x1ED AND NOT (ly_umask e)))" "t' d = Some (LinkNode ''../run'')"
    using ne by (simp_all add: eq)
  have "(0x1FF AND NOT chmod_bits) OR (0x3FF AND chmod_bits) = (0x1FF :: mode)" by (simp add: chmod_bits_def)
  then have "chmod_dir e b 0x3FF t' = (None, t')" using at(2) chmod by (simp add: chmod_dir_def fun_upd_idem)
  moreover have "link_new e ''../run'' d t' = (None, t')" using at(4) by (simp add: link_new_def)
  ultimately have "prepareLinuxSandboxStaticLayout e root t' = (None, t')"
    unfolding run using at by (simp add: mkdir_again)
  with eq show ?thesis by blast
qed

text \<open>
  In a fresh root the layout is exactly three directories and a link, and laying it out
  again changes nothing; a failure touches no other path.
\<close>

theorem static_layout:
  assumes "IsAbs root" "Clean root = root" "root \<noteq> [sep]"
    and "\<forall>p. has_prefix p (root @ [sep]) \<longrightarrow> t p = None"
    and "prepareLinuxSandboxStaticLayout e root t = (None, t')"
  shows "t' = t(root @ sep # ''run'' \<mapsto> DirNode (0x1ED AND NOT (ly_umask e)), root @ sep # ''tmp'' \<mapsto> DirNode 0x1FF,
      root @ sep # ''var'' \<mapsto> DirNode (0x1ED AND NOT (ly_umask e)), root @ sep # ''var'' @ sep # ''run'' \<mapsto> LinkNode ''../run'') \<and>
    prepareLinuxSandboxStaticLayout e root t' = (None, t')"
proof -
  have fresh: "t (root @ sep # x) = None" for x 
  proof -
    have "has_prefix (root @ sep # x) (root @ [sep])" by simp
    then show ?thesis using assms(4) by blast
  qed
  have tmp: "((0x1ED AND NOT (ly_umask e)) AND NOT chmod_bits) OR (0x3FF AND chmod_bits) = (0x1FF :: mode)"
  proof -
    have "0x1ED AND NOT chmod_bits = (0 :: mode)" by (simp add: chmod_bits_def)
    moreover have "(0x1ED AND NOT (ly_umask e)) AND NOT chmod_bits = (0x1ED AND NOT chmod_bits) AND NOT (ly_umask e)"
      by (simp only: and.assoc and.commute and.left_commute)
    ultimately have "(0x1ED AND NOT (ly_umask e)) AND NOT chmod_bits = 0" by (simp only: and_zero_eq zero_and_eq)
    then show ?thesis by (simp add: chmod_bits_def)
  qed
  let ?a = "root @ sep # ''run''" and ?b = "root @ sep # ''tmp''" and ?c = "root @ sep # ''var''" and ?d = "root @ sep # ''var'' @ sep # ''run''"
  have ne: "?a \<noteq> ?b" "?a \<noteq> ?c" "?a \<noteq> ?d" "?b \<noteq> ?c" "?b \<noteq> ?d" "?c \<noteq> ?d" by simp_all
  show ?thesis
    by (rule layout_steps [OF assms(5) layout_paths [OF assms(1-3)] fresh fresh fresh fresh ne tmp])
qed

text \<open>
  Go's \<open>os.Chmod\<close> does not read the octal 1000 as the sticky bit: the directory for temporary
  files gets the mode 0777.
\<close>

lemma sandbox_tmp_not_sticky:
  assumes "chmod_dir e path 0x3FF t = (None, t')" "t path = Some (DirNode old)" "old AND 0x100000 = 0"
  shows "\<exists>m. t' path = Some (DirNode m) \<and> m AND 0x100000 = 0"
proof -
  have "(0x3FF AND chmod_bits) AND 0x100000 = (0 :: mode)" by (simp add: chmod_bits_def)
  moreover have "(old AND NOT chmod_bits) AND 0x100000 = (old AND 0x100000) AND NOT chmod_bits"
    by (simp only: and.assoc and.commute and.left_commute)
  ultimately have "((old AND NOT chmod_bits) OR (0x3FF AND chmod_bits)) AND 0x100000 = 0"
    using assms(3) by (simp add: bit.conj_disj_distrib2)
  then show ?thesis using assms(1,2) by (auto simp: chmod_dir_def split: option.splits)
qed

text \<open>
  A new root passes the check of the helper, and no later clean-up of a service touches it
  while this service runs.
\<close>

lemma span_until:
  assumes "\<forall>x\<in>set xs. P x" "\<not> P y"
  shows "takeWhile P (xs @ y # ys) = xs" "dropWhile P (xs @ y # ys) = y # ys"
  using assms by (induction xs) auto

lemma clean_elems_skip_end: "clean_elems r acc (es @ [[]]) = clean_elems r acc es"
  by (induction r acc es rule: clean_elems.induct) (auto split: list.splits)

lemma mkdtemp_elem:
  assumes "IsAbs tmp" "Clean tmp = tmp" "tmp \<noteq> [sep]" "plain_elem name"
  shows "mkdtemp_path tmp name = tmp @ sep # name" "Clean (tmp @ sep # name) = tmp @ sep # name"
    "Dir (tmp @ sep # name) = tmp" "Base (tmp @ sep # name) = name"
proof -
  obtain es where es: "\<forall>e\<in>set es. plain_elem e" "es \<noteq> []" "tmp = sep # join [sep] es"
    using Clean_elems [OF assms(1)] assms(2,3) by (metis join.simps(1))
  show "Clean (tmp @ sep # name) = tmp @ sep # name" using Join_below [OF assms] es(3) by simp
  have name: "name \<noteq> []" "sep \<notin> set name" "\<forall>x\<in>set name. x \<noteq> sep" using assms(4) unfolding plain_elem_def by blast+
  have last: "last e \<noteq> sep" "e \<noteq> []" if "plain_elem e" for e
    using that last_in_set [of e] by (fastforce simp: plain_elem_def)+
  have "last tmp \<noteq> sep"
  proof -
    obtain es' e where e: "es = es' @ [e]" using es(2) by (cases es rule: rev_cases) auto
    then have "plain_elem e" using es(1) by simp
    then show ?thesis using es(3) last [of e] by (cases "es' = []") (simp_all add: e join_snoc)
  qed
  then show "mkdtemp_path tmp name = tmp @ sep # name" by (simp add: mkdtemp_path_def)
  have drop_name: "dropWhile (\<lambda>c. c \<noteq> sep) (rev name @ sep # rev tmp) = sep # rev tmp"
    by (rule span_until(2)) (use name(3) in simp_all)
  have "Clean (tmp @ [sep]) = tmp"
  proof -
    have "split_on sep (tmp @ [sep]) = split_on sep tmp @ [[]]" using split_on_last [of sep tmp "[]"] by simp
    then have "clean_elems True [] (split_on sep (tmp @ [sep])) = clean_elems True [] (split_on sep tmp)"
      by (simp add: clean_elems_skip_end)
    then show ?thesis using assms(1,2) by (auto simp: Clean_def IsAbs_def)
  qed
  then show "Dir (tmp @ sep # name) = tmp" by (simp add: Dir_def drop_name)
  have hd: "dropWhile (\<lambda>c. c = sep) (rev name @ sep # rev tmp) = rev name @ sep # rev tmp"
    using name by (cases "rev name") auto
  have "takeWhile (\<lambda>c. c \<noteq> sep) (rev name @ sep # rev tmp) = rev name" by (rule span_until(1)) (use name(3) in simp_all)
  then show "Base (tmp @ sep # name) = name" by (simp add: Base_def hd last_elem_def)
qed

theorem created_root_trusted:
  assumes "createSandboxRoot k euid tmp pid stat roots (Inr r) lstat d = (Inr root, lstat', d')"
    and "IsAbs tmp" "Clean tmp = tmp" "tmp \<noteq> [sep]" "0 < pid" "pid < 2 ^ 63"
    and "\<forall>st. linuxProcessStartTime stat (int pid) = Inr st \<longrightarrow> CHR ''-'' \<notin> set st \<and> sep \<notin> set st" "sep \<notin> set r"
  shows "validateSandboxRoot tmp euid lstat' root = None \<and>
    cleanupStaleLinuxSandboxRoots k2 euid2 lstat2 stat roots2 d' root = d' root"
proof -
  obtain st where st: "linuxProcessStartTime stat (int pid) = Inr st"
    and root: "root = mkdtemp_path tmp (sandbox_root_name pid st r)"
    and info: "lstat' root = LInfo \<lparr>fi_isDir = True, fi_symlink = False, fi_uid = euid, fi_perm = 448\<rparr>"
    using assms(1) by (auto simp: createSandboxRoot_def Let_def split: sum.splits)
  have no: "CHR ''-'' \<notin> set st" "sep \<notin> set st" using assms(7) st by auto
  have "sep \<notin> set (FormatUint pid)" using FormatUint_digits [of sep pid] by (auto simp: digit_val_def)
  then have "plain_elem (sandbox_root_name pid st r)"
    using no assms(8) by (simp add: plain_elem_def sandbox_root_name_def sandboxRootPrefix_def)
  note path = mkdtemp_elem [OF assms(2-4) this]
  have "has_prefix (sandbox_root_name pid st r) sandboxRootPrefix" by (simp add: sandbox_root_name_def)
  then have "validateSandboxRoot tmp euid lstat' root = None"
    using info by (simp add: validateSandboxRoot_def root path assms(3) private_dir_def)
  moreover have "sandboxRootOwnerActive stat root"
    using owner_of_name [of root pid st r stat] st no assms(5,6) by (simp add: root path)
  ultimately show ?thesis using stale_frame by blast
qed

end
