(* ===== verification/EventStream.thy ===== *)
theory EventStream
  imports CoreEvents SysproxyEvents WebSocketProps "HOL-Library.Sublist"
begin

text \<open>
  A client that follows events: \<open>sysproxyEvents\<close> (\<open>route/sysproxyapi/sysproxy_events.go\<close>) and
  \<open>coreEvents\<close> (\<open>route/coreapi/core_events.go\<close>), which are the same program over two hubs.
  Two goroutines share the connection: the handler, which writes the events of its
  subscription as text frames, and a reader, which answers the client's frames; a mutex
  makes the writing of a frame one step.  The steps of both, and of everybody else who uses
  the hub, interleave freely in the relation \<open>stream_step\<close>.
\<close>

section \<open>Steps\<close>

text \<open>
  The handler serves, is on its way out, has unsubscribed, has closed the connection: the
  deferred calls run in the reverse order of the source.
\<close>

datatype stream_phase = Serving | Leaving | Unsubscribed | Closed

text \<open>
  \<open>ss_in\<close> are the bytes the client still sends, \<open>ss_out\<close> the frames it gets.  The last four
  fields record what happened: the operations on the hub, the events whose frames were
  written, the event that was taken but not written, the replies the reader tried to write.
\<close>

record ('a, 'e) stream_state =
  ss_hub :: "'e hub"
  ss_in :: octets
  ss_out :: "(8 word \<times> octets) list"
  ss_reader :: bool
  ss_done :: bool
  ss_ctx :: bool
  ss_phase :: stream_phase
  ss_ops :: "('a, 'e) hub_op list"
  ss_sent :: "'e list"
  ss_lost :: "'e list"
  ss_replied :: "octets list"

definition written_frame :: "bool \<Rightarrow> 8 word \<times> octets \<Rightarrow> (8 word \<times> octets) list" where
  "written_frame ok f = (if ok then [f] else [])"

text \<open>The operations of the others: they do not touch the subscription of this client.\<close>

definition foreign_op :: "nat \<Rightarrow> ('a, 'e) hub_op \<Rightarrow> bool" where
  "foreign_op ch op = (case op of Receive i \<Rightarrow> i \<noteq> ch | Unsubscribe i \<Rightarrow> i \<noteq> ch | Snapshot i e \<Rightarrow> i \<noteq> ch | _ \<Rightarrow> True)"

text \<open>\<open>ok\<close> says whether the writing of a frame succeeded; it fails on a closed connection.\<close>

inductive stream_step ::
    "('a \<Rightarrow> 'e hub \<Rightarrow> 'e hub) \<Rightarrow> ('e \<Rightarrow> (8 word \<times> octets) option) \<Rightarrow> nat \<Rightarrow> ('a, 'e) stream_state \<Rightarrow> ('a, 'e) stream_state \<Rightarrow> bool"
  for pub :: "'a \<Rightarrow> 'e hub \<Rightarrow> 'e hub" and frame_of :: "'e \<Rightarrow> (8 word \<times> octets) option" and ch :: nat where
  others: "foreign_op ch op \<Longrightarrow>
    stream_step pub frame_of ch s (s\<lparr>ss_hub := hub_exec pub op (ss_hub s), ss_ops := ss_ops s @ [op]\<rparr>)"
| context_done: "stream_step pub frame_of ch s (s\<lparr>ss_ctx := True\<rparr>)"
| read_fails: "ss_reader s \<Longrightarrow> ss_phase s = Closed \<or> (\<exists>er. ReadWebSocketFrame (ss_in s) = Inl er) \<Longrightarrow>
    stream_step pub frame_of ch s (s\<lparr>ss_reader := False, ss_done := True\<rparr>)"
| read_close: "ss_reader s \<Longrightarrow> ReadWebSocketFrame (ss_in s) = Inr (WebSocketOpClose, p, rest) \<Longrightarrow> ok \<longrightarrow> ss_phase s \<noteq> Closed \<Longrightarrow>
    stream_step pub frame_of ch s (s\<lparr>ss_in := rest, ss_out := ss_out s @ written_frame ok (WebSocketOpClose, []),
      ss_replied := ss_replied s @ [WriteWebSocketFrame WebSocketOpClose []], ss_reader := False, ss_done := True\<rparr>)"
| read_ping: "ss_reader s \<Longrightarrow> ReadWebSocketFrame (ss_in s) = Inr (WebSocketOpPing, p, rest) \<Longrightarrow> ok \<longrightarrow> ss_phase s \<noteq> Closed \<Longrightarrow>
    stream_step pub frame_of ch s (s\<lparr>ss_in := rest, ss_out := ss_out s @ written_frame ok (WebSocketOpPong, p),
      ss_replied := ss_replied s @ [WriteWebSocketFrame WebSocketOpPong p]\<rparr>)"
| read_other: "ss_reader s \<Longrightarrow> ReadWebSocketFrame (ss_in s) = Inr (opcode, p, rest) \<Longrightarrow>
    opcode \<noteq> WebSocketOpClose \<Longrightarrow> opcode \<noteq> WebSocketOpPing \<Longrightarrow> stream_step pub frame_of ch s (s\<lparr>ss_in := rest\<rparr>)"
| send: "ss_phase s = Serving \<Longrightarrow> hub_recv ch (ss_hub s) = Some (e, h) \<Longrightarrow> frame_of e = Some f \<Longrightarrow>
    stream_step pub frame_of ch s (s\<lparr>ss_hub := h, ss_ops := ss_ops s @ [Receive ch], ss_out := ss_out s @ [f], ss_sent := ss_sent s @ [e]\<rparr>)"
| send_fails: "ss_phase s = Serving \<Longrightarrow> hub_recv ch (ss_hub s) = Some (e, h) \<Longrightarrow>
    stream_step pub frame_of ch s (s\<lparr>ss_hub := h, ss_ops := ss_ops s @ [Receive ch], ss_lost := [e], ss_phase := Leaving\<rparr>)"
| leave: "ss_phase s = Serving \<Longrightarrow> ss_done s \<or> ss_ctx s \<Longrightarrow> stream_step pub frame_of ch s (s\<lparr>ss_phase := Leaving\<rparr>)"
| unsubscribe: "ss_phase s = Leaving \<Longrightarrow>
    stream_step pub frame_of ch s (s\<lparr>ss_hub := hub_unsubscribe ch (ss_hub s), ss_ops := ss_ops s @ [Unsubscribe ch], ss_phase := Unsubscribed\<rparr>)"
| close: "ss_phase s = Unsubscribed \<Longrightarrow> stream_step pub frame_of ch s (s\<lparr>ss_phase := Closed\<rparr>)"

text \<open>The connection after the handshake and the subscription.\<close>

definition stream_start :: "'e hub \<Rightarrow> octets \<Rightarrow> ('a, 'e) stream_state" where
  "stream_start h input = \<lparr>ss_hub = h, ss_in = input, ss_out = [], ss_reader = True, ss_done = False, ss_ctx = False,
     ss_phase = Serving, ss_ops = [], ss_sent = [], ss_lost = [], ss_replied = []\<rparr>"

section \<open>The two handlers\<close>

text \<open>The JSON package is the parameter \<open>marshal\<close>, with \<open>None\<close> for an error.\<close>

definition writeCoreEvent :: "(CoreEvent \<Rightarrow> octets option) \<Rightarrow> CoreEvent \<Rightarrow> (8 word \<times> octets) option" where
  "writeCoreEvent marshal event = map_option (Pair WebSocketOpText) (marshal event)"

definition coreEvents ::
    "(CoreEvent \<Rightarrow> octets option) \<Rightarrow> nat \<Rightarrow> (core_view \<times> CoreEvent, CoreEvent) stream_state \<Rightarrow> (core_view \<times> CoreEvent, CoreEvent) stream_state \<Rightarrow> bool" where
  "coreEvents marshal ch = stream_step pubCore (writeCoreEvent marshal) ch"

definition writeSysproxyEvent :: "(sysproxyEvent \<Rightarrow> octets option) \<Rightarrow> sysproxyEvent \<Rightarrow> (8 word \<times> octets) option" where
  "writeSysproxyEvent marshal event = map_option (Pair WebSocketOpText) (marshal event)"

definition sysproxyEvents ::
    "(sysproxyEvent \<Rightarrow> octets option) \<Rightarrow> nat \<Rightarrow> (guard_report, sysproxyEvent) stream_state \<Rightarrow> (guard_report, sysproxyEvent) stream_state \<Rightarrow> bool" where
  "sysproxyEvents marshal ch = stream_step pubSysproxy (writeSysproxyEvent marshal) ch"

section \<open>The invariant\<close>

abbreviation is_text :: "8 word \<times> octets \<Rightarrow> bool" where
  "is_text f \<equiv> fst f = WebSocketOpText"

lemma control_not_text [simp]: "WebSocketOpClose \<noteq> WebSocketOpText" "WebSocketOpPong \<noteq> WebSocketOpText"
  by (simp_all add: WebSocketOpClose_def WebSocketOpPong_def WebSocketOpText_def)

lemma hub_run_append: "hub_run pub (xs @ ys) h = hub_run pub ys (hub_run pub xs h)"
  by (induction xs arbitrary: h) simp_all

lemma received_append: "received pub i (xs @ ys) h = received pub i xs h @ received pub i ys (hub_run pub xs h)"
  by (induction xs arbitrary: h) simp_all

lemma foreign_out: "foreign_op ch op \<Longrightarrow> hub_out ch op h = []"
  by (auto simp: foreign_op_def split: hub_op.splits)

text \<open>The hub of the state is what the recorded operations make of the first one.\<close>

definition follows_hub :: "('a \<Rightarrow> 'e hub \<Rightarrow> 'e hub) \<Rightarrow> nat \<Rightarrow> 'e hub \<Rightarrow> ('a, 'e) stream_state \<Rightarrow> bool" where
  "follows_hub pub ch h0 s \<longleftrightarrow> ss_hub s = hub_run pub (ss_ops s) h0 \<and>
     received pub ch (ss_ops s) h0 = ss_sent s @ ss_lost s \<and> length (ss_lost s) \<le> 1 \<and> (ss_phase s = Serving \<longrightarrow> ss_lost s = [])"

definition frames_ok :: "('e \<Rightarrow> (8 word \<times> octets) option) \<Rightarrow> ('a, 'e) stream_state \<Rightarrow> bool" where
  "frames_ok frame_of s \<longleftrightarrow> map frame_of (ss_sent s) = map Some (filter is_text (ss_out s)) \<and>
     subseq (map (\<lambda>(opcode, p). WriteWebSocketFrame opcode p) (filter (\<lambda>f. \<not> is_text f) (ss_out s))) (ss_replied s)"

definition replies_ok :: "octets \<Rightarrow> ('a, 'e) stream_state \<Rightarrow> bool" where
  "replies_ok input s \<longleftrightarrow> prefix (ss_replied s) (fst (read_loop input)) \<and>
     (ss_reader s \<longrightarrow> ss_replied s @ fst (read_loop (ss_in s)) = fst (read_loop input))"

definition subscription_ok :: "nat \<Rightarrow> ('a, 'e) stream_state \<Rightarrow> bool" where
  "subscription_ok ch s \<longleftrightarrow> ch < length (hub_chans (ss_hub s)) \<and>
     (ss_phase s \<in> {Unsubscribed, Closed} \<longrightarrow> ch \<notin> set (hub_subscribers (ss_hub s)))"

text \<open>The contract of a stream: a hub, and frames that are text frames.\<close>

locale event_stream = event_hub pub stamp seq replaces
  for pub :: "'a \<Rightarrow> 'e hub \<Rightarrow> 'e hub" and stamp :: "'a \<Rightarrow> 64 word \<Rightarrow> 'e" and seq :: "'e \<Rightarrow> 64 word" and replaces :: "'a \<Rightarrow> bool" +
  fixes frame_of :: "'e \<Rightarrow> (8 word \<times> octets) option"
  assumes frame_text: "frame_of e = Some f \<Longrightarrow> is_text f"
begin

lemma follows_hub_step:
  assumes "stream_step pub frame_of ch s s'" "follows_hub pub ch h0 s"
  shows "follows_hub pub ch h0 s'"
  using assms
  by cases (auto simp: follows_hub_def hub_run_append received_append foreign_out split: option.splits)

lemma frames_ok_step:
  assumes "stream_step pub frame_of ch s s'" "frames_ok frame_of s"
  shows "frames_ok frame_of s'"
  using assms
  by cases (auto simp: frames_ok_def written_frame_def frame_text intro: list_emb_append_mono subseq_rev_drop_many)

lemma replies_ok_step:
  assumes "stream_step pub frame_of ch s s'" "replies_ok input s"
  shows "replies_ok input s'"
  using assms
proof cases
  case (read_close p rest ok)
  then have "read_loop (ss_in s) = ([WriteWebSocketFrame WebSocketOpClose []], True)" by (subst read_loop.simps) simp
  then show ?thesis using read_close assms(2) by (auto simp: replies_ok_def prefix_def)
next
  case (read_ping p rest ok)
  have "WebSocketOpPing \<noteq> WebSocketOpClose" by (simp add: WebSocketOpClose_def WebSocketOpPing_def)
  then have "fst (read_loop (ss_in s)) = WriteWebSocketFrame WebSocketOpPong p # fst (read_loop rest)"
    using read_ping by (subst read_loop.simps) (simp split: prod.split)
  then have "fst (read_loop input) = (ss_replied s @ [WriteWebSocketFrame WebSocketOpPong p]) @ fst (read_loop rest)"
    using read_ping assms(2) by (simp add: replies_ok_def)
  then show ?thesis using read_ping unfolding replies_ok_def by (auto intro: prefixI)
next
  case (read_other opcode p rest)
  then have "read_loop (ss_in s) = read_loop rest" by (subst read_loop.simps) simp
  then show ?thesis using read_other assms(2) by (simp add: replies_ok_def)
qed (simp_all add: replies_ok_def)

lemma foreign_keeps:
  assumes "foreign_op ch op" "ch < length (hub_chans h)"
  shows "ch < length (hub_chans (hub_exec pub op h))"
    "ch \<notin> set (hub_subscribers h) \<Longrightarrow> ch \<notin> set (hub_subscribers (hub_exec pub op h))"
proof -
  have "ch < length (hub_chans (hub_exec pub op h)) \<and>
    (ch \<notin> set (hub_subscribers h) \<longrightarrow> ch \<notin> set (hub_subscribers (hub_exec pub op h)))"
  proof (cases op)
    case (Publish a)
    then show ?thesis using assms(2) by (simp add: pub_frames)
  next
    case (Register n)
    then show ?thesis using assms(2) by (simp add: hub_register_def Let_def)
  next
    case (Snapshot i e)
    then show ?thesis using assms(2) by (simp add: hub_send_def)
  next
    case (Receive i)
    then show ?thesis using assms(2) by (auto simp: length_recv frame_simps split: option.split)
  next
    case (Unsubscribe i)
    then show ?thesis using assms(2) by (simp add: hub_unsubscribe_def)
  qed
  then show "ch < length (hub_chans (hub_exec pub op h))"
    "ch \<notin> set (hub_subscribers h) \<Longrightarrow> ch \<notin> set (hub_subscribers (hub_exec pub op h))" by blast+
qed

lemma subscription_ok_step:
  assumes "stream_step pub frame_of ch s s'" "subscription_ok ch s"
  shows "subscription_ok ch s'"
  using assms
proof cases
  case (others op)
  have "ch < length (hub_chans (ss_hub s))" using assms(2) by (simp add: subscription_ok_def)
  note keep = foreign_keeps [OF others(2) this]
  have "ss_hub s' = hub_exec pub op (ss_hub s)" "ss_phase s' = ss_phase s" using others(1) by simp_all
  then show ?thesis using assms(2) keep unfolding subscription_ok_def by simp
next
  case (send e h f)
  then show ?thesis using assms(2) length_recv [OF send(3)] by (simp add: subscription_ok_def)
next
  case (send_fails e h)
  then show ?thesis using assms(2) length_recv [OF send_fails(3)] by (simp add: subscription_ok_def)
next
  case unsubscribe
  then show ?thesis using assms(2) by (simp add: subscription_ok_def hub_unsubscribe_def)
qed (use assms(2) in \<open>simp_all add: subscription_ok_def\<close>)

lemma stream_invariant:
  assumes "(stream_step pub frame_of ch)\<^sup>*\<^sup>* (stream_start h0 input) s" "ch < length (hub_chans h0)"
  shows "follows_hub pub ch h0 s \<and> frames_ok frame_of s \<and> replies_ok input s \<and> subscription_ok ch s"
  using assms(1)
proof (induction rule: rtranclp_induct)
  case base
  show ?case using assms(2)
    by (simp add: stream_start_def follows_hub_def frames_ok_def replies_ok_def subscription_ok_def)
next
  case (step y z)
  then show ?case using follows_hub_step frames_ok_step replies_ok_step subscription_ok_step by blast
qed

text \<open>What the client gets, whatever the schedule.\<close>

lemma stream_delivers:
  assumes "(stream_step pub frame_of ch)\<^sup>*\<^sup>* (stream_start h0 input) s" "ch < length (hub_chans h0)"
  shows "\<exists>sent lost. map frame_of sent = map Some (filter is_text (ss_out s)) \<and> length lost \<le> 1 \<and>
      (ss_phase s = Serving \<longrightarrow> lost = []) \<and> prefix (sent @ lost) (stream pub ch (ss_ops s) h0)"
    "subseq (map (\<lambda>(opcode, p). WriteWebSocketFrame opcode p) (filter (\<lambda>f. \<not> is_text f) (ss_out s))) (fst (read_loop input))"
    "ss_phase s = Closed \<longrightarrow> ch \<notin> set (hub_subscribers (ss_hub s))"
proof -
  note inv = stream_invariant [OF assms]
  have "prefix (ss_sent s @ ss_lost s) (stream pub ch (ss_ops s) h0)"
    using inv by (simp add: follows_hub_def stream_def)
  then show "\<exists>sent lost. map frame_of sent = map Some (filter is_text (ss_out s)) \<and> length lost \<le> 1 \<and>
      (ss_phase s = Serving \<longrightarrow> lost = []) \<and> prefix (sent @ lost) (stream pub ch (ss_ops s) h0)"
    using inv unfolding follows_hub_def frames_ok_def by blast
  show "subseq (map (\<lambda>(opcode, p). WriteWebSocketFrame opcode p) (filter (\<lambda>f. \<not> is_text f) (ss_out s))) (fst (read_loop input))"
    using inv prefix_imp_subseq subseq_order.trans unfolding frames_ok_def replies_ok_def by blast
  show "ss_phase s = Closed \<longrightarrow> ch \<notin> set (hub_subscribers (ss_hub s))"
    using inv by (simp add: subscription_ok_def)
qed

end

interpretation core_stream: event_stream pubCore stampCore ce_Seq "\<lambda>a. ce_Type (snd a) \<noteq> CoreEventLog" "writeCoreEvent marshal" for marshal
  by unfold_locales (auto simp: writeCoreEvent_def)

interpretation sysproxy_stream: event_stream pubSysproxy stampSysproxy se_Seq "\<lambda>_. True" "writeSysproxyEvent marshal" for marshal
  by unfold_locales (auto simp: writeSysproxyEvent_def)

section \<open>Properties\<close>

text \<open>
  C20. A client of \<open>/core/events\<close> gets an honest stream: whatever the schedule of the two
  goroutines, of the publishers and of the other subscribers, and whichever writes fail,
  the text frames are the events of its subscription in order, from the first on and
  without a gap, but for at most one event that was taken when the writing failed and the
  stream ended; between them, unbroken, come only replies to the client's own frames, in
  their order; and when the connection is closed the subscription is gone.
\<close>

theorem core_client_stream:
  assumes "SubscribeEvents v 16 h = Some (ch, h0)" and "(coreEvents marshal ch)\<^sup>*\<^sup>* (stream_start h0 input) s"
  shows "\<exists>sent lost. map (writeCoreEvent marshal) sent = map Some (filter is_text (ss_out s)) \<and> length lost \<le> 1 \<and>
      (ss_phase s = Serving \<longrightarrow> lost = []) \<and> prefix (sent @ lost) (stream pubCore ch (ss_ops s) h0) \<and>
      subseq (map (\<lambda>(opcode, p). WriteWebSocketFrame opcode p) (filter (\<lambda>f. \<not> is_text f) (ss_out s))) (fst (read_loop input)) \<and>
      (ss_phase s = Closed \<longrightarrow> ch \<notin> set (hub_subscribers (ss_hub s)))"
  using core_stream.stream_delivers [OF assms(2) [unfolded coreEvents_def] SubscribeEvents_Some(4) [OF assms(1)]] by blast

definition sample_view :: core_view where
  "sample_view = \<lparr>cv_now = \<lparr>wall = 0, monotonic = 0\<rparr>, cv_pid = 7, cv_running = True\<rparr>"

lemma sample_core_send:
  assumes "SubscribeEvents sample_view 16 emptyCoreEventHub = Some (0, h0)"
  shows "\<exists>s. coreEvents (\<lambda>_. Some [1]) 0 (stream_start h0 []) s \<and> ss_out s = [(WebSocketOpText, [1])]"
proof -
  let ?e = "subscribeSnapshot sample_view zeroEvent"
    and ?s = "stream_start h0 [] :: (core_view \<times> CoreEvent, CoreEvent) stream_state"
  have "hub_buf 0 h0 = [?e]" "0 < length (hub_chans h0)"
    using SubscribeEvents_Some [OF assms] by (simp_all add: emptyCoreEventHub_def)
  then obtain h1 where "hub_recv 0 h0 = Some (?e, h1)"
    by (auto simp: hub_recv_def hub_buf_def chan_recv_def split: list.splits)
  then have "coreEvents (\<lambda>_. Some [1]) 0 ?s (?s\<lparr>ss_hub := h1, ss_ops := ss_ops ?s @ [Receive 0],
      ss_out := ss_out ?s @ [(WebSocketOpText, [1])], ss_sent := ss_sent ?s @ [?e]\<rparr>)"
    unfolding coreEvents_def by - (rule stream_step.send, simp_all add: stream_start_def writeCoreEvent_def)
  moreover have "ss_out (?s\<lparr>ss_hub := h1, ss_ops := ss_ops ?s @ [Receive 0],
      ss_out := ss_out ?s @ [(WebSocketOpText, [1])], ss_sent := ss_sent ?s @ [?e]\<rparr>) = [(WebSocketOpText, [1])]" by (simp add: stream_start_def)
  ultimately show ?thesis by blast
qed

theorem core_client_stream_witness:
  "\<exists>h0 s sent lost. SubscribeEvents sample_view 16 emptyCoreEventHub = Some (0, h0) \<and>
     (coreEvents (\<lambda>_. Some [1]) 0)\<^sup>*\<^sup>* (stream_start h0 []) s \<and> ss_out s = [(WebSocketOpText, [1])] \<and>
     length sent = 1 \<and> prefix (sent @ lost) (stream pubCore 0 (ss_ops s) h0)"
proof -
  obtain h0 where sub: "SubscribeEvents sample_view 16 emptyCoreEventHub = Some (0, h0)"
    using SubscribeEvents_total [of sample_view 16 emptyCoreEventHub] by (auto simp: emptyCoreEventHub_def)
  obtain s where s: "coreEvents (\<lambda>_. Some [1]) 0 (stream_start h0 []) s" "ss_out s = [(WebSocketOpText, [1])]"
    using sample_core_send [OF sub] by blast
  from s(1) have run: "(coreEvents (\<lambda>_. Some [1]) 0)\<^sup>*\<^sup>* (stream_start h0 []) s" by blast
  from core_client_stream [OF sub run] obtain sent lost where
    "map (writeCoreEvent (\<lambda>_. Some [1])) sent = map Some (filter is_text (ss_out s))"
    "prefix (sent @ lost) (stream pubCore 0 (ss_ops s) h0)" by blast
  moreover from this(1) have "length (map (writeCoreEvent (\<lambda>_. Some [1])) sent) = 1" using s(2) by simp
  then have "length sent = 1" by simp
  ultimately show ?thesis using sub run s(2) by blast
qed

text \<open>The same of \<open>/sysproxy/events\<close>.\<close>

theorem sysproxy_client_stream:
  assumes "subscribeSysproxyEvents now 16 h = Some (ch, h0)" and "(sysproxyEvents marshal ch)\<^sup>*\<^sup>* (stream_start h0 input) s"
  shows "\<exists>sent lost. map (writeSysproxyEvent marshal) sent = map Some (filter is_text (ss_out s)) \<and> length lost \<le> 1 \<and>
      (ss_phase s = Serving \<longrightarrow> lost = []) \<and> prefix (sent @ lost) (stream pubSysproxy ch (ss_ops s) h0) \<and>
      subseq (map (\<lambda>(opcode, p). WriteWebSocketFrame opcode p) (filter (\<lambda>f. \<not> is_text f) (ss_out s))) (fst (read_loop input)) \<and>
      (ss_phase s = Closed \<longrightarrow> ch \<notin> set (hub_subscribers (ss_hub s)))"
  using sysproxy_stream.stream_delivers
    [OF assms(2) [unfolded sysproxyEvents_def] subscribeSysproxyEvents_Some(3) [OF assms(1)]] by blast

text \<open>
  A stream whose client has gone, or whose request has ended, is never stuck: from every
  state in which the reader has ended or the context is done, the handler reaches the
  closed connection by its own steps.
\<close>

lemma stream_can_end:
  assumes "ss_done s \<or> ss_ctx s \<or> ss_phase s \<noteq> Serving"
  shows "\<exists>s'. (stream_step pub frame_of ch)\<^sup>*\<^sup>* s s' \<and> ss_phase s' = Closed"
proof -
  have unsub: "\<exists>s'. (stream_step pub frame_of ch)\<^sup>*\<^sup>* s s' \<and> ss_phase s' = Closed" if "ss_phase s = Unsubscribed" for s
  proof -
    let ?t = "s\<lparr>ss_phase := Closed\<rparr>"
    have "(stream_step pub frame_of ch)\<^sup>*\<^sup>* s ?t" using stream_step.close [OF that] by (rule r_into_rtranclp)
    moreover have "ss_phase ?t = Closed" by simp
    ultimately show ?thesis by blast
  qed
  have leaving: "\<exists>s'. (stream_step pub frame_of ch)\<^sup>*\<^sup>* s s' \<and> ss_phase s' = Closed" if "ss_phase s = Leaving" for s
  proof -
    let ?t = "s\<lparr>ss_hub := hub_unsubscribe ch (ss_hub s), ss_ops := ss_ops s @ [Unsubscribe ch], ss_phase := Unsubscribed\<rparr>"
    have st: "stream_step pub frame_of ch s ?t" by (rule stream_step.unsubscribe [OF that])
    have "ss_phase ?t = Unsubscribed" by simp
    from unsub [OF this] obtain s' where "(stream_step pub frame_of ch)\<^sup>*\<^sup>* ?t s'" "ss_phase s' = Closed" by blast
    then show ?thesis using st by (blast intro: converse_rtranclp_into_rtranclp)
  qed
  show ?thesis
  proof (cases "ss_phase s")
    case Serving
    let ?t = "s\<lparr>ss_phase := Leaving\<rparr>"
    have st: "stream_step pub frame_of ch s ?t" by (rule stream_step.leave [OF Serving]) (use assms Serving in simp)
    have "ss_phase ?t = Leaving" by simp
    from leaving [OF this] obtain s' where "(stream_step pub frame_of ch)\<^sup>*\<^sup>* ?t s'" "ss_phase s' = Closed" by blast
    then show ?thesis using st by (blast intro: converse_rtranclp_into_rtranclp)
  next
    case Closed
    then show ?thesis by blast
  qed (use leaving unsub in blast)+
qed

end
