(* ===== verification/PeerIdentity.thy ===== *)
theory PeerIdentity
  imports CoreApi SysproxyGuard KeyManagerProps StartupNotify
begin

text \<open>
  Who is at the other end of a connection on Linux (\<open>route/pipectx/pipe_context_linux.go\<close>), and
  what is done in that user's name: the principal of the authentication
  (\<open>route/auth/request_principal_linux.go\<close>), the options and the runner of the system proxy,
  the group of the core's log files (\<open>core/file_access.go\<close>, \<open>core/file_access_unix.go\<close>).
\<close>

section \<open>Credentials\<close>

text \<open>
  A connection: whether it has a file descriptor to ask, an error of getting at it, and
  what \<open>SO_PEERCRED\<close> answers.
\<close>

record peer_conn =
  pc_syscallConn :: bool
  pc_rawConn :: "string option"
  pc_ucred :: "(string, unixPeerInfo) result"
  pc_control :: "string option"

definition getUnixPeerInfo :: "peer_conn \<Rightarrow> unixPeerInfo option" where
  "getUnixPeerInfo c =
    (if \<not> pc_syscallConn c then None
     else case pc_rawConn c of Some er \<Rightarrow> None
     | None \<Rightarrow>
        (case pc_control c of Some er \<Rightarrow> None
         | None \<Rightarrow> (case pc_ucred c of Inl er \<Rightarrow> None
             | Inr info \<Rightarrow> if peer_PID info > 0 then Some info else None)))"

text \<open>\<open>ConfigureServer\<close>: the value every request of the connection carries in its context.\<close>

definition connContext :: "peer_conn \<Rightarrow> unixPeerInfo option" where
  "connContext c = getUnixPeerInfo c"

definition request_peer :: "peer_conn \<Rightarrow> peer" where
  "request_peer c = (case RequestUnixPeerInfo (connContext c) of None \<Rightarrow> NoPeer | Some info \<Rightarrow> UnixPeer (peer_UID info))"

definition sysproxy_peer :: "peer_conn \<Rightarrow> (int \<times> int \<times> int) option" where
  "sysproxy_peer c = map_option (\<lambda>info. (peer_PID info, uint (peer_UID info), uint (peer_GID info))) (RequestUnixPeerInfo (connContext c))"

section \<open>Launch options\<close>

text \<open>An option is a function on the collected options, or nil.\<close>

type_synonym launchOption = "(fileAccess \<Rightarrow> fileAccess) option"

definition WithLogFileGroup :: "32 word \<Rightarrow> launchOption" where
  "WithLogFileGroup groupID = Some (\<lambda>_. \<lparr>fa_groupID = uint groupID, fa_ok = True\<rparr>)"

definition withFileAccess :: "fileAccess \<Rightarrow> launchOption" where
  "withFileAccess access = Some (\<lambda>_. access)"

definition collectLaunchOptions :: "launchOption list \<Rightarrow> fileAccess" where
  "collectLaunchOptions options =
    fold (\<lambda>opt c. case opt of None \<Rightarrow> c | Some f \<Rightarrow> f c) options \<lparr>fa_groupID = 0, fa_ok = False\<rparr>"

text \<open>\<open>coreLaunchOptions\<close> (\<open>route/coreapi/core_launch_options_linux.go\<close>).\<close>

definition peer_launch_options :: "peer_conn \<Rightarrow> launchOption list" where
  "peer_launch_options c = (case RequestUnixPeerInfo (connContext c) of None \<Rightarrow> []
     | Some info \<Rightarrow> [WithLogFileGroup (peer_GID info)])"

section \<open>The files\<close>

text \<open>Owner group and mode of a path; the ancestors that \<open>os.MkdirAll\<close> may create are left out.\<close>

record log_node =
  ln_gid :: int
  ln_mode :: mode

type_synonym log_fs = "string \<rightharpoonup> log_node"

record access_env =
  xs_euid :: int
  xs_umask :: mode
  xs_mkdir :: "string option"
  xs_chown :: "string option"
  xs_stat :: "string option"
  xs_chmod :: "string option"

definition ModeDir :: mode where "ModeDir = 0x80000000"
definition ModeSetgid :: mode where "ModeSetgid = 0x400000"

definition change_group :: "access_env \<Rightarrow> fileAccess \<Rightarrow> string \<Rightarrow> log_fs \<Rightarrow> string option \<times> log_fs" where
  "change_group e access path fs =
    (if xs_euid e \<noteq> 0 then (None, fs)
     else case xs_chown e of Some er \<Rightarrow> (Some er, fs)
     | None \<Rightarrow> (case fs path of None \<Rightarrow> (Some ''chown'', fs)
         | Some n \<Rightarrow> (None, fs(path \<mapsto> n\<lparr>ln_gid := fa_groupID access\<rparr>))))"

definition add_mode :: "access_env \<Rightarrow> mode \<Rightarrow> string \<Rightarrow> log_fs \<Rightarrow> string option \<times> log_fs" where
  "add_mode e bits path fs =
    (case xs_stat e of Some er \<Rightarrow> (Some er, fs)
     | None \<Rightarrow> (case fs path of None \<Rightarrow> (Some ''stat'', fs)
         | Some n \<Rightarrow> (case xs_chmod e of Some er \<Rightarrow> (Some er, fs)
             | None \<Rightarrow> (None, fs(path \<mapsto> n\<lparr>ln_mode := (ln_mode n AND NOT chmod_bits) OR ((ln_mode n OR bits) AND chmod_bits)\<rparr>)))))"

definition ensureCoreLogDir :: "access_env \<Rightarrow> fileAccess \<Rightarrow> string \<Rightarrow> log_fs \<Rightarrow> string option \<times> log_fs" where
  "ensureCoreLogDir e access dir fs0 =
    (let fs = (if fs0 dir = None then fs0(dir \<mapsto> \<lparr>ln_gid = 0, ln_mode = ModeDir OR (0x1FD AND NOT (xs_umask e))\<rparr>) else fs0) in
     case xs_mkdir e of Some er \<Rightarrow> (Some er, fs0)
     | None \<Rightarrow> if \<not> fa_ok access then (None, fs)
         else case change_group e access dir fs of (Some er, fs1) \<Rightarrow> (Some er, fs1)
         | (None, fs1) \<Rightarrow> add_mode e (0x38 OR ModeSetgid) dir fs1)"

definition applyCoreLogFileAccess :: "access_env \<Rightarrow> fileAccess \<Rightarrow> string \<Rightarrow> log_fs \<Rightarrow> string option \<times> log_fs" where
  "applyCoreLogFileAccess e access path fs =
    (if \<not> fa_ok access then (None, fs)
     else case change_group e access path fs of (Some er, fs1) \<Rightarrow> (Some er, fs1)
     | (None, fs1) \<Rightarrow> add_mode e 0x30 path fs1)"

section \<open>Lemmas\<close>

lemma RequestUnixPeerInfo_connContext: "RequestUnixPeerInfo (connContext c) = connContext c"
  by (auto simp: RequestUnixPeerInfo_def connContext_def getUnixPeerInfo_def split: option.splits sum.splits)

text \<open>Options are applied in order: the last one that is not nil decides.\<close>

lemma collect_last: "collectLaunchOptions (opts @ [Some (\<lambda>_. a)]) = a"
  by (simp add: collectLaunchOptions_def)

lemma collect_nil: "collectLaunchOptions (filter (\<lambda>opt. opt \<noteq> None) opts) = collectLaunchOptions opts"
proof -
  have "fold (\<lambda>opt c. case opt of None \<Rightarrow> c | Some f \<Rightarrow> f c) (filter (\<lambda>opt. opt \<noteq> None) opts) a =
      fold (\<lambda>opt c. case opt of None \<Rightarrow> c | Some f \<Rightarrow> f c) opts a" for a :: fileAccess
    by (induction opts arbitrary: a) (auto split: option.split)
  then show ?thesis by (simp add: collectLaunchOptions_def)
qed

text \<open>The handlers of the core interface take the group of the same peer.\<close>

lemma coreLaunchOptions_collected:
  "ae_peer e = connContext c \<Longrightarrow> coreLaunchOptions e = collectLaunchOptions (peer_launch_options c)"
  by (simp add: coreLaunchOptions_def peer_launch_options_def collectLaunchOptions_def WithLogFileGroup_def split: option.split)

section \<open>Properties\<close>

text \<open>
  C19. One answer of the kernel decides everything that is done for a connection: when the
  service is bound to a user and a request passes the principal check, the kernel has
  given the credentials of a live process with that user identifier, and the options of
  the system proxy, the runner of the guard and the group of the log files are made from
  the same credentials.  Without credentials no request passes.
\<close>

theorem peer_identity_single:
  assumes "authorizedPrincipal km = Some \<lparr>PType = ''uid'', PValue = FormatUint (unat (uid :: 32 word))\<rparr>"
    and "VerifyRequestPrincipal km (request_peer c) = None"
  shows "\<exists>info. pc_ucred c = Inr info \<and> peer_PID info > 0 \<and> peer_UID info = uid \<and>
    op_PeerUID (prepareSysproxyOptions (sysproxy_peer c) opt) = uint uid \<and>
    op_PeerPID (prepareSysproxyOptions (sysproxy_peer c) opt) = peer_PID info \<and>
    (\<forall>data. \<exists>r. captureSysproxyGuardRunner (sysproxy_peer c) (Inr data) = Inr r \<and> rn_uid r = uint uid \<and> rn_gid r = uint (peer_GID info)) \<and>
    collectLaunchOptions (peer_launch_options c) = \<lparr>fa_groupID = uint (peer_GID info), fa_ok = True\<rparr>"
proof -
  have "request_peer c = UnixPeer uid"
    using bound_uid [OF assms(1)] assms(2) by blast
  then obtain info where req: "RequestUnixPeerInfo (connContext c) = Some info" and uid: "peer_UID info = uid"
    by (auto simp: request_peer_def split: option.splits)
  then have "connContext c = Some info" by (simp add: RequestUnixPeerInfo_connContext)
  then have "pc_ucred c = Inr info" "peer_PID info > 0"
    by (auto simp: connContext_def getUnixPeerInfo_def split: if_splits option.splits sum.splits)
  moreover have "sysproxy_peer c = Some (peer_PID info, uint uid, uint (peer_GID info))"
    using req uid by (simp add: sysproxy_peer_def)
  moreover have "collectLaunchOptions (peer_launch_options c) = \<lparr>fa_groupID = uint (peer_GID info), fa_ok = True\<rparr>"
    using req by (simp add: peer_launch_options_def collectLaunchOptions_def WithLogFileGroup_def)
  ultimately show ?thesis
    using uid by (simp add: prepareSysproxyOptions_def captureSysproxyGuardRunner_def)
qed

definition sample_conn :: peer_conn where
  "sample_conn = \<lparr>pc_syscallConn = True, pc_rawConn = None, pc_ucred = Inr \<lparr>peer_PID = 42, peer_UID = 1000, peer_GID = 100\<rparr>, pc_control = None\<rparr>"

theorem peer_identity_single_witness:
  "VerifyRequestPrincipal (emptyKeyManager\<lparr>authorizedPrincipal := Some \<lparr>PType = ''uid'', PValue = FormatUint (unat (1000 :: 32 word))\<rparr>\<rparr>)
     (request_peer sample_conn) = None \<and>
   collectLaunchOptions (peer_launch_options sample_conn) = \<lparr>fa_groupID = 100, fa_ok = True\<rparr>"
proof -
  let ?km = "emptyKeyManager\<lparr>authorizedPrincipal := Some \<lparr>PType = ''uid'', PValue = FormatUint (unat (1000 :: 32 word))\<rparr>\<rparr>"
  have "request_peer sample_conn = UnixPeer 1000"
    by (simp add: request_peer_def RequestUnixPeerInfo_connContext) (simp add: connContext_def getUnixPeerInfo_def sample_conn_def)
  then have v: "VerifyRequestPrincipal ?km (request_peer sample_conn) = None"
    by (simp add: VerifyRequestPrincipal_def getRequestPrincipal_def)
  obtain info where "pc_ucred sample_conn = Inr info"
    "collectLaunchOptions (peer_launch_options sample_conn) = \<lparr>fa_groupID = uint (peer_GID info), fa_ok = True\<rparr>"
    using peer_identity_single [OF _ v, of 1000] by auto
  then show ?thesis using v by (auto simp: sample_conn_def)
qed

text \<open>
  The log directory is shared with the group of the peer and with nobody else: after
  success it belongs to that group, if the service is root, has the permissions of the
  group and the set-group-ID bit added, and every other bit, those of the others
  included, is as it was; no other path changes.
\<close>

lemma add_mode_bits:
  fixes m :: mode
  assumes "bits AND NOT chmod_bits = 0"
  shows "(m AND NOT chmod_bits) OR ((m OR bits) AND chmod_bits) = m OR bits"
  using assms by (intro bit_eqI) (auto simp: bit_eq_iff bit_simps dest: spec)

lemma log_dir_shared:
  assumes "ensureCoreLogDir e access dir fs = (None, fs')" "fa_ok access" "fs dir = Some n"
  shows "\<exists>n'. fs' dir = Some n' \<and> ln_mode n' = ln_mode n OR (0x38 OR ModeSetgid) \<and>
    ln_gid n' = (if xs_euid e = 0 then fa_groupID access else ln_gid n) \<and> (\<forall>q. q \<noteq> dir \<longrightarrow> fs' q = fs q)"
proof -
  have "(0x38 OR ModeSetgid) AND NOT chmod_bits = 0" by (simp add: ModeSetgid_def chmod_bits_def)
  note bits = add_mode_bits [OF this]
  show ?thesis
    using assms by (auto simp: ensureCoreLogDir_def change_group_def add_mode_def bits split: option.splits if_splits)
qed

end
