(* ===== verification/Logger.thy ===== *)
theory Logger
  imports GoFiles
begin

text \<open>
  The log of the service itself (\<open>log/log.go\<close>): the rotation of its files at the start,
  the opening of the new one, and the encoding of an entry.  The directory for temporary
  files, where the log lives, is writable for every user, so between two system calls of
  the service the paths may change; \<open>race\<close> is what happens there.
\<close>

section \<open>Files\<close>

datatype log_node = LogFile bytes | LogLink string | LogDir

type_synonym log_dir = "string \<rightharpoonup> log_node"

definition currentLogPath :: "string \<Rightarrow> string" where
  "currentLogPath tmp = Join [tmp, ''sparkle-service.log'']"

definition previousLogPath :: "string \<Rightarrow> string" where
  "previousLogPath tmp = Join [tmp, ''sparkle-service.previous.log'']"

record log_env =
  lg_remove :: "string option"
  lg_rename :: "string option"
  lg_open :: "string option"

text \<open>\<open>os.Remove\<close> and \<open>os.Rename\<close> act on a link itself; that a path does not exist is ignored.\<close>

definition rotateLogFiles :: "log_env \<Rightarrow> string \<Rightarrow> log_dir \<Rightarrow> string option \<times> log_dir" where
  "rotateLogFiles e tmp fs =
    (let cur = currentLogPath tmp; prev = previousLogPath tmp in
     if fs prev \<noteq> None \<and> lg_remove e \<noteq> None then (lg_remove e, fs)
     else
      (let fs1 = fs(prev := None) in
       if fs1 cur = None then (None, fs1)
       else if lg_rename e \<noteq> None then (lg_rename e, fs1)
       else (None, (fs1(cur := None))(prev := fs1 cur))))"

text \<open>\<open>os.OpenFile\<close> with creation and truncation follows a link, one step of it here.\<close>

definition open_truncated :: "log_env \<Rightarrow> string \<Rightarrow> log_dir \<Rightarrow> (string, string) result \<times> log_dir" where
  "open_truncated e path fs =
    (let target = (case fs path of Some (LogLink t) \<Rightarrow> t | _ \<Rightarrow> path) in
     case lg_open e of Some er \<Rightarrow> (Inl er, fs)
     | None \<Rightarrow> if fs target = Some LogDir then (Inl ''is a directory'', fs)
         else (Inr target, fs(target \<mapsto> LogFile [])))"

text \<open>\<open>InitLogging\<close>: the file all later output goes to, also that of the standard streams.\<close>

definition InitLogging :: "log_env \<Rightarrow> (log_dir \<Rightarrow> log_dir) \<Rightarrow> string \<Rightarrow> log_dir \<Rightarrow> (string, string) result \<times> log_dir" where
  "InitLogging e race tmp fs =
    (case rotateLogFiles e tmp fs of (Some er, fs1) \<Rightarrow> (Inl er, fs1)
     | (None, fs1) \<Rightarrow> open_truncated e (currentLogPath tmp) (race fs1))"

section \<open>Entries\<close>

text \<open>
  An entry that the library has encoded, and what the JSON package makes of it: \<open>None\<close>
  stands for an error.  Only the stack trace of the object is of interest: a text that is
  split into its lines.
\<close>

datatype stack_value = StackText string | StackLines "string list" | OtherValue

record 'o log_json =
  lj_unmarshal :: "bytes \<Rightarrow> 'o option"
  lj_stack :: "'o \<Rightarrow> stack_value"
  lj_set_stack :: "string list \<Rightarrow> 'o \<Rightarrow> 'o"
  lj_marshal :: "bool \<Rightarrow> 'o \<Rightarrow> bytes option"

definition marshalJSON :: "'o log_json \<Rightarrow> 'o \<Rightarrow> bool \<Rightarrow> bytes option" where
  "marshalJSON j obj pretty = lj_marshal j pretty obj"

definition EncodeEntry :: "'o log_json \<Rightarrow> bool \<Rightarrow> bool \<Rightarrow> (string, bytes) result \<Rightarrow> (string, bytes) result" where
  "EncodeEntry j pretty stackArray encoded =
    (case encoded of Inl er \<Rightarrow> Inl er
     | Inr buf \<Rightarrow>
        if \<not> pretty \<and> \<not> stackArray then Inr buf
        else case lj_unmarshal j buf of None \<Rightarrow> Inr buf
        | Some obj0 \<Rightarrow>
           (let obj = (if stackArray then (case lj_stack j obj0 of
                    StackText t \<Rightarrow> if t \<noteq> [] then lj_set_stack j (split_on LF t) obj0 else obj0
                  | _ \<Rightarrow> obj0) else obj0)
            in case marshalJSON j obj pretty of None \<Rightarrow> Inr buf | Some out \<Rightarrow> Inr out))"

definition encodeCaller :: "string \<Rightarrow> string \<Rightarrow> string" where
  "encodeCaller file line =
    (let marker = ''/sparkle-service/'';
         path = (case index_sub file marker of None \<Rightarrow> file | Some i \<Rightarrow> drop (i + length marker) file)
     in path @ CHR '':'' # line)"

section \<open>Properties\<close>

lemma log_paths_differ: "currentLogPath tmp \<noteq> previousLogPath tmp"
proof (cases "tmp = []")
  case True
  have "currentLogPath [] \<noteq> previousLogPath []" by code_simp
  then show ?thesis using True by simp
next
  case False
  have path: "Join [tmp, name] = Clean (tmp @ sep # name)" for name using False by simp
  have "plain_elem ''sparkle-service.log''" "plain_elem ''sparkle-service.previous.log''" by (simp_all add: plain_elem_def)
  from Clean_last_inj [OF this, of tmp] show ?thesis
    unfolding currentLogPath_def previousLogPath_def path by fastforce
qed

text \<open>
  A start keeps the log of the last run and begins an empty one, if nobody interferes:
  nothing else changes.
\<close>

theorem log_rotation_keeps_last:
  assumes "InitLogging e id tmp fs = (Inr path, fs')" and "fs (currentLogPath tmp) = Some (LogFile b)"
  shows "path = currentLogPath tmp \<and> fs' path = Some (LogFile []) \<and> fs' (previousLogPath tmp) = Some (LogFile b) \<and>
    (\<forall>q. q \<noteq> currentLogPath tmp \<and> q \<noteq> previousLogPath tmp \<longrightarrow> fs' q = fs q)"
  using assms log_paths_differ [of tmp]
  by (auto simp: InitLogging_def rotateLogFiles_def open_truncated_def Let_def split: if_splits option.splits)

theorem log_rotation_keeps_last_witness:
  "\<exists>fs'. InitLogging \<lparr>lg_remove = None, lg_rename = None, lg_open = None\<rparr> id ''/tmp'' [''/tmp/sparkle-service.log'' \<mapsto> LogFile ''old''] =
     (Inr ''/tmp/sparkle-service.log'', fs') \<and> fs' (previousLogPath ''/tmp'') = Some (LogFile ''old'')"
proof -
  let ?e = "\<lparr>lg_remove = None, lg_rename = None, lg_open = None\<rparr>" and ?fs = "[''/tmp/sparkle-service.log'' \<mapsto> LogFile ''old'']"
  have cur: "currentLogPath ''/tmp'' = ''/tmp/sparkle-service.log''" by code_simp
  have "\<exists>path fs'. InitLogging ?e id ''/tmp'' ?fs = (Inr path, fs')"
    using log_paths_differ [of "''/tmp''"]
    by (simp add: InitLogging_def rotateLogFiles_def open_truncated_def Let_def cur)
  then obtain path fs' where init: "InitLogging ?e id ''/tmp'' ?fs = (Inr path, fs')" by blast
  have "?fs (currentLogPath ''/tmp'') = Some (LogFile ''old'')" by (simp add: cur)
  from log_rotation_keeps_last [OF init this] init show ?thesis by (simp add: cur)
qed

text \<open>
  Whoever can put a link to another file at the path of the log, after the old log was
  moved away, gets that file emptied and written by the service.
\<close>

lemma planted_link_followed:
  assumes "rotateLogFiles e tmp fs = (None, fs1)" "race fs1 (currentLogPath tmp) = Some (LogLink victim)"
    "race fs1 victim \<noteq> Some LogDir" "lg_open e = None"
  shows "\<exists>fs'. InitLogging e race tmp fs = (Inr victim, fs') \<and> fs' victim = Some (LogFile [])"
  using assms by (simp add: InitLogging_def open_truncated_def)

text \<open>An entry is never lost to the prettier form: what cannot be read again is written as it was.\<close>

lemma entry_kept: "EncodeEntry j pretty stackArray (Inr buf) \<noteq> Inl er"
  by (auto simp: EncodeEntry_def Let_def split: option.splits)

end
