(* ===== verification/SystemInfo.thy ===== *)
theory SystemInfo
  imports HttpHelper GoFiles CpuSets "HOL-Library.Multiset"
begin

text \<open>
  What a client may ask and set about the host: the processors (\<open>sys/cpu.go\<close>,
  \<open>sys/cpu_core_type_linux.go\<close>, \<open>sys/cpu_affinity_linux.go\<close>), the name servers (\<open>sys/dns.go\<close>) and
  the handlers in front (\<open>route/sysapi/sys.go\<close>).  The processor library, the files below
  \<open>/sys\<close> and the other programs are parameters.
\<close>

section \<open>Processors\<close>

text \<open>A processor as the library reports it; the frequency is of any type.\<close>

record 'f InfoStat =
  is_CPU :: int
  is_CoreID :: string
  is_PhysicalID :: string
  is_ModelName :: string
  is_Mhz :: 'f

record 'f CPUInfo =
  ci_ID :: int
  ci_CoreID :: string
  ci_PhysicalID :: string
  ci_ModelName :: string
  ci_Mhz :: 'f
  ci_CoreClass :: int
  ci_Available :: bool

record 'f CPUInfoResponse =
  cr_CPUs :: "'f CPUInfo list"
  cr_LogicalCPUCount :: nat
  cr_AvailableCPUCount :: nat
  cr_AffinitySupported :: bool

text \<open>The first attribute that can be read and holds a positive number.\<close>

fun core_class :: "(string \<Rightarrow> (string, bytes) result) \<Rightarrow> string \<Rightarrow> string list \<Rightarrow> int option" where
  "core_class read path [] = None"
| "core_class read path (attribute # attributes) =
    (case read (Join [path, attribute]) of Inl er \<Rightarrow> core_class read path attributes
     | Inr data \<Rightarrow> (case ParseInt (TrimSpace data) 64 of
         Some v \<Rightarrow> if v > 0 then Some v else core_class read path attributes
       | None \<Rightarrow> core_class read path attributes))"

definition trim_prefix :: "string \<Rightarrow> string \<Rightarrow> string" where
  "trim_prefix s p = (case cut_prefix s p of None \<Rightarrow> s | Some t \<Rightarrow> t)"

definition note_class :: "(string \<Rightarrow> (string, bytes) result) \<Rightarrow> string \<Rightarrow> (int \<rightharpoonup> int) \<Rightarrow> (int \<rightharpoonup> int)" where
  "note_class read path classes = (case ParseInt (trim_prefix (Base path) ''cpu'') 64 of None \<Rightarrow> classes
     | Some i \<Rightarrow> (case core_class read path [''topology/core_type'', ''cpu_capacity''] of None \<Rightarrow> classes
         | Some v \<Rightarrow> classes(i \<mapsto> v)))"

definition cpuCoreClasses :: "(string \<Rightarrow> (string, bytes) result) \<Rightarrow> string list \<Rightarrow> int \<rightharpoonup> int" where
  "cpuCoreClasses read paths = fold (note_class read) paths Map.empty"

definition currentProcessCPUAffinity :: "'m cpu_lib \<Rightarrow> (nat, int list) result \<times> bool" where
  "currentProcessCPUAffinity lib = (case cl_own lib of Inl er \<Rightarrow> (Inl er, True)
     | Inr own \<Rightarrow> (Inr (filter (cl_isSet lib own) [0..1023]), True))"

datatype cpu_error = InfoUnread string | AffinityUnread nat

text \<open>
  \<open>sort.Slice\<close> sorts by the number; processors of the same number, which the library does
  not report, may come in any order there.
\<close>

definition GetCPUInfo ::
    "(string, 'f InfoStat list) result \<Rightarrow> (nat, int list) result \<times> bool \<Rightarrow> (int \<rightharpoonup> int) \<Rightarrow> (cpu_error, 'f CPUInfoResponse) result" where
  "GetCPUInfo info affinity coreClasses =
    (case info of Inl er \<Rightarrow> Inl (InfoUnread er)
     | Inr stats \<Rightarrow>
    (case affinity of (Inl er, _) \<Rightarrow> Inl (AffinityUnread er)
     | (Inr available, supported) \<Rightarrow>
       (let item = (\<lambda>st. \<lparr>ci_ID = is_CPU st, ci_CoreID = is_CoreID st, ci_PhysicalID = is_PhysicalID st,
              ci_ModelName = is_ModelName st, ci_Mhz = is_Mhz st,
              ci_CoreClass = (case coreClasses (is_CPU st) of None \<Rightarrow> 0 | Some v \<Rightarrow> v),
              ci_Available = (\<not> supported \<or> is_CPU st \<in> set available)\<rparr>);
            cpus = sort_key ci_ID (map item stats)
        in Inr \<lparr>cr_CPUs = cpus, cr_LogicalCPUCount = length cpus, cr_AvailableCPUCount = length (filter ci_Available cpus),
             cr_AffinitySupported = supported\<rparr>)))"

section \<open>Name servers\<close>

datatype dns_error = UnsupportedSystem string | CommandFailed string

text \<open>\<open>run\<close> answers a command line; the second part of the result are the commands that ran.\<close>

definition setDnsDarwin :: "(string list \<Rightarrow> string option) \<Rightarrow> string \<Rightarrow> string list \<Rightarrow> dns_error option \<times> string list list" where
  "setDnsDarwin run device servers =
    (let c1 = ''networksetup'' # [''-setdnsservers'', device] @ servers; c2 = [''dscacheutil'', ''-flushcache''] in
     case run c1 of Some er \<Rightarrow> (Some (CommandFailed er), [c1])
     | None \<Rightarrow> (case run c2 of Some er \<Rightarrow> (Some (CommandFailed er), [c1, c2]) | None \<Rightarrow> (None, [c1, c2])))"

definition SetDns :: "string \<Rightarrow> (string list \<Rightarrow> string option) \<Rightarrow> string \<Rightarrow> string list \<Rightarrow> dns_error option \<times> string list list" where
  "SetDns goos run device servers =
    (if goos = ''darwin'' then setDnsDarwin run device servers else (Some (UnsupportedSystem goos), []))"

section \<open>Handlers\<close>

record dnsRequest =
  dr_Device :: string
  dr_Servers :: "string list"

datatype sys_text = CpuFailed cpu_error | BodyInvalid string | DnsFailed dns_error | DnsSet

datatype 'f sys_answer = CpuAnswer "'f CPUInfoResponse" | TextAnswer nat sys_text

definition cpuInfo ::
    "(string, 'f InfoStat list) result \<Rightarrow> (nat, int list) result \<times> bool \<Rightarrow> (int \<rightharpoonup> int) \<Rightarrow> 'f sys_answer" where
  "cpuInfo info affinity classes =
    (case GetCPUInfo info affinity classes of
       Inl er \<Rightarrow> (case SendError (PlainError (CpuFailed er)) of (code, m) \<Rightarrow> TextAnswer code m)
     | Inr r \<Rightarrow> CpuAnswer r)"

definition sysapi_setDns ::
    "string \<Rightarrow> (string list \<Rightarrow> string option) \<Rightarrow> (string, dnsRequest) result \<Rightarrow> 'f sys_answer \<times> string list list" where
  "sysapi_setDns goos run body =
    (case body of Inl er \<Rightarrow> (case SendError (BadRequest (BodyInvalid er)) of (code, m) \<Rightarrow> (TextAnswer code m, []))
     | Inr req \<Rightarrow>
        (case SetDns goos run (dr_Device req) (dr_Servers req) of
           (Some er, cmds) \<Rightarrow> (case SendError (PlainError (DnsFailed er)) of (code, m) \<Rightarrow> (TextAnswer code m, cmds))
         | (None, cmds) \<Rightarrow> (TextAnswer 200 DnsSet, cmds)))"

section \<open>Properties\<close>

lemma core_class_positive: "core_class read path attrs = Some v \<Longrightarrow> v > 0"
  by (induction attrs) (auto split: sum.splits option.splits if_splits)

lemma note_class_positive:
  assumes "\<forall>i v. m i = Some v \<longrightarrow> v > 0"
  shows "\<forall>i v. note_class read path m i = Some v \<longrightarrow> v > 0"
proof (cases "core_class read path [''topology/core_type'', ''cpu_capacity'']")
  case None
  show ?thesis using assms by (simp only: note_class_def None split: option.split) auto
next
  case (Some v)
  have "v > 0" using core_class_positive [OF Some] .
  then show ?thesis using assms by (simp only: note_class_def Some split: option.split) auto
qed

lemma cpuCoreClasses_positive: "cpuCoreClasses read paths i = Some v \<Longrightarrow> v > 0"
proof -
  have "\<forall>i v. fold (note_class read) paths m i = Some v \<longrightarrow> v > 0" if "\<forall>i v. m i = Some v \<longrightarrow> v > 0" for m
    using that
  proof (induction paths arbitrary: m)
    case Nil
    then show ?case by (simp only: fold.simps id_apply)
  next
    case (Cons p paths)
    show ?case unfolding fold.simps comp_apply
      by (rule Cons.IH) (rule note_class_positive [OF Cons.prems])
  qed
  from this [of Map.empty] show "cpuCoreClasses read paths i = Some v \<Longrightarrow> v > 0"
    by (simp add: cpuCoreClasses_def)
qed

lemma filter_sort_length: "length (filter P (sort_key f xs)) = length (filter P xs)"
  by (metis mset_filter mset_sort size_mset)

text \<open>
  The answer about the processors is a sorted rearrangement of what the library reports,
  with consistent counts: a processor counts as available exactly when it is in the mask
  of the service, and the classes are never negative.
\<close>

theorem cpu_info_consistent:
  assumes "GetCPUInfo (Inr stats) (currentProcessCPUAffinity lib) (cpuCoreClasses read paths) = Inr r"
  shows "sorted (map ci_ID (cr_CPUs r)) \<and> mset (map ci_ID (cr_CPUs r)) = mset (map is_CPU stats) \<and>
    cr_LogicalCPUCount r = length stats \<and> cr_AvailableCPUCount r = length (filter ci_Available (cr_CPUs r)) \<and>
    cr_AvailableCPUCount r \<le> cr_LogicalCPUCount r \<and>
    (\<exists>own. cl_own lib = Inr own \<and>
      (\<forall>c\<in>set (cr_CPUs r). (ci_Available c \<longleftrightarrow> 0 \<le> ci_ID c \<and> ci_ID c < 1024 \<and> cl_isSet lib own (ci_ID c)) \<and> 0 \<le> ci_CoreClass c))"
proof -
  obtain own where own: "cl_own lib = Inr own"
    using assms by (cases "cl_own lib") (auto simp: GetCPUInfo_def currentProcessCPUAffinity_def)
  let ?item = "\<lambda>st. \<lparr>ci_ID = is_CPU st, ci_CoreID = is_CoreID st, ci_PhysicalID = is_PhysicalID st,
              ci_ModelName = is_ModelName st, ci_Mhz = is_Mhz st,
              ci_CoreClass = (case cpuCoreClasses read paths (is_CPU st) of None \<Rightarrow> 0 | Some v \<Rightarrow> v),
              ci_Available = (is_CPU st \<in> set (filter (cl_isSet lib own) [0..1023]))\<rparr>"
  have r: "r = \<lparr>cr_CPUs = sort_key ci_ID (map ?item stats), cr_LogicalCPUCount = length (sort_key ci_ID (map ?item stats)),
      cr_AvailableCPUCount = length (filter ci_Available (sort_key ci_ID (map ?item stats))), cr_AffinitySupported = True\<rparr>"
    using assms own by (simp add: GetCPUInfo_def currentProcessCPUAffinity_def Let_def)
  have "mset (map ci_ID (sort_key ci_ID (map ?item stats))) = mset (map is_CPU stats)"
    by (simp add: image_mset.compositionality comp_def)
  moreover have "length (filter ci_Available (sort_key ci_ID (map ?item stats))) \<le> length stats"
    using length_filter_le [of ci_Available "sort_key ci_ID (map ?item stats)"] by simp
  moreover have "\<forall>c\<in>set (sort_key ci_ID (map ?item stats)).
      (ci_Available c \<longleftrightarrow> 0 \<le> ci_ID c \<and> ci_ID c < 1024 \<and> cl_isSet lib own (ci_ID c)) \<and> 0 \<le> ci_CoreClass c"
    using cpuCoreClasses_positive by (auto split: option.split intro: less_imp_le)
  ultimately show ?thesis using own by (simp add: r)
qed

definition nat_mask_lib :: "nat cpu_lib" where
  "nat_mask_lib = \<lparr>cl_zero = 0, cl_set = (\<lambda>c m. m), cl_isSet = (\<lambda>m c. c = int m), cl_own = Inr 1\<rparr>"

theorem cpu_info_consistent_witness:
  "\<exists>r. GetCPUInfo (Inr [\<lparr>is_CPU = 1, is_CoreID = ''1'', is_PhysicalID = ''0'', is_ModelName = ''m'', is_Mhz = ()\<rparr>,
       \<lparr>is_CPU = 0, is_CoreID = ''0'', is_PhysicalID = ''0'', is_ModelName = ''m'', is_Mhz = ()\<rparr>])
     (currentProcessCPUAffinity nat_mask_lib) (cpuCoreClasses (\<lambda>_. Inl ''none'') []) = Inr r \<and> cr_LogicalCPUCount r = 2"
  (is "\<exists>r. GetCPUInfo (Inr ?stats) _ _ = Inr r \<and> _")
proof -
  obtain r where "GetCPUInfo (Inr ?stats) (currentProcessCPUAffinity nat_mask_lib) (cpuCoreClasses (\<lambda>_. Inl ''none'') []) = Inr r"
    by (simp add: GetCPUInfo_def currentProcessCPUAffinity_def nat_mask_lib_def Let_def)
  with cpu_info_consistent [OF this] show ?thesis by simp
qed

text \<open>Outside macOS the request for other name servers is refused and runs nothing.\<close>

lemma dns_refused_elsewhere:
  "goos \<noteq> ''darwin'' \<Longrightarrow> sysapi_setDns goos run (Inr req) = (TextAnswer 500 (DnsFailed (UnsupportedSystem goos)), [])"
  by (simp add: sysapi_setDns_def SetDns_def SendError_def)

end
