(* ===== verification/WindowsProcess.thy ===== *)
theory WindowsProcess
  imports Prelude "HOL-Library.Word" "HOL-Library.Sublist"
begin

text \<open>
  Processes on Windows: the tree below a process and its termination
  (\<open>core/process/terminate_windows.go\<close>), the look for a process (\<open>exists_windows.go\<close>) and the
  job object that holds the core (\<open>process_control_windows.go\<close>).  The answers of the system
  calls are records; numbers of errors are those of the system.
\<close>

type_synonym pid = "32 word"

section \<open>The tree below a process\<close>

text \<open>The map of the snapshot: the children of each process in the order of the entries.\<close>

definition add_child :: "pid \<times> pid \<Rightarrow> (pid \<Rightarrow> pid list) \<Rightarrow> pid \<Rightarrow> pid list" where
  "add_child entry children = (case entry of (parent, child) \<Rightarrow> children(parent := children parent @ [child]))"

definition children_map :: "(pid \<times> pid) list \<Rightarrow> pid \<Rightarrow> pid list" where
  "children_map entries = fold add_child entries (\<lambda>_. [])"

definition visit_child :: "pid \<Rightarrow> pid list \<times> pid set \<times> pid list \<Rightarrow> pid list \<times> pid set \<times> pid list" where
  "visit_child child s = (case s of (queue, seen, tree) \<Rightarrow>
     if child \<in> seen then s else (queue @ [child], insert child seen, tree @ [child]))"

lemma visit_children:
  "\<exists>new. fold visit_child cs (queue, seen, tree) = (queue @ new, seen \<union> set new, tree @ new) \<and> distinct new \<and>
     set new = set cs - seen"
proof (induction cs arbitrary: queue seen tree)
  case (Cons c cs)
  show ?case
  proof (cases "c \<in> seen")
    case True
    then have "visit_child c (queue, seen, tree) = (queue, seen, tree)" "set (c # cs) - seen = set cs - seen"
      by (auto simp: visit_child_def)
    then show ?thesis using Cons.IH [of queue seen tree] by (simp only: fold.simps comp_apply)
  next
    case False
    obtain new where "fold visit_child cs (queue @ [c], insert c seen, tree @ [c]) =
        ((queue @ [c]) @ new, insert c seen \<union> set new, (tree @ [c]) @ new)" "distinct new" "set new = set cs - insert c seen"
      using Cons.IH [of "queue @ [c]" "insert c seen" "tree @ [c]"] by blast
    note new = this
    have visit: "visit_child c (queue, seen, tree) = (queue @ [c], insert c seen, tree @ [c])" using False by (simp add: visit_child_def)
    have "fold visit_child (c # cs) (queue, seen, tree) = (queue @ c # new, seen \<union> set (c # new), tree @ c # new)"
      unfolding fold.simps comp_apply visit new(1) by simp
    moreover have "distinct (c # new)" using new(2,3) by simp
    moreover have "set (c # new) = set (c # cs) - seen" using new(3) False by auto
    ultimately show ?thesis by blast
  qed
qed simp

function tree_loop :: "(pid \<Rightarrow> pid list) \<Rightarrow> pid list \<times> pid set \<times> pid list \<Rightarrow> pid list" where
  "tree_loop children ([], seen, tree) = tree"
| "tree_loop children (p # queue, seen, tree) = tree_loop children (fold visit_child (children p) (queue, seen, tree))"
  by pat_completeness auto

text \<open>Either a process is seen for the first time or the queue gets shorter.\<close>

termination
proof (relation "measures [\<lambda>(children, queue, seen, tree). card (UNIV - seen), \<lambda>(children, queue, seen, tree). length queue]", goal_cases)
  case (2 children p queue seen tree)
  obtain new where new: "fold visit_child (children p) (queue, seen, tree) = (queue @ new, seen \<union> set new, tree @ new)"
    "set new = set (children p) - seen" using visit_children by blast
  show ?case
  proof (cases "new = []")
    case True
    then show ?thesis by (simp add: new(1))
  next
    case False
    then obtain c where "c \<in> set new" by (cases new) auto
    then have "UNIV - (seen \<union> set new) \<subset> UNIV - seen" using new(2) by blast
    then have "card (UNIV - (seen \<union> set new)) < card (UNIV - seen)" by (intro psubset_card_mono) simp_all
    then show ?thesis by (simp add: new(1))
  qed
qed simp

record snapshot_env =
  se_snapshot :: "nat option"
  se_first :: "nat option"
  se_entries :: "(pid \<times> pid) list"
  se_next :: nat

definition ERROR_NO_MORE_FILES :: nat where "ERROR_NO_MORE_FILES = 18"

datatype tree_error = SnapshotFailed nat | SnapshotUnread nat

text \<open>The entries are pairs of parent and process; \<open>se_next\<close> ends them.\<close>

definition processTree :: "snapshot_env \<Rightarrow> pid \<Rightarrow> (tree_error, pid list) result" where
  "processTree e rootPID =
    (case se_snapshot e of Some er \<Rightarrow> Inl (SnapshotFailed er)
     | None \<Rightarrow>
    (case se_first e of Some er \<Rightarrow> Inl (SnapshotUnread er)
     | None \<Rightarrow> if se_next e \<noteq> ERROR_NO_MORE_FILES then Inl (SnapshotUnread (se_next e))
         else Inr (tree_loop (children_map (se_entries e)) ([rootPID], {rootPID}, []))))"

section \<open>Ending processes\<close>

definition ERROR_INVALID_HANDLE :: nat where "ERROR_INVALID_HANDLE = 6"
definition ERROR_INVALID_PARAMETER :: nat where "ERROR_INVALID_PARAMETER = 87"
definition WAIT_OBJECT_0 :: nat where "WAIT_OBJECT_0 = 0"

record terminate_env =
  te_open :: "pid \<Rightarrow> nat option"
  te_terminate :: "pid \<Rightarrow> nat option"
  te_wait :: "pid \<Rightarrow> (nat, nat) result"
  te_tree :: snapshot_env

datatype terminate_error = OpenFailed pid nat | TerminateFailed pid nat | TreeFailed tree_error | StillThere int | LookFailed nat

text \<open>The last argument and result are the processes that \<open>TerminateProcess\<close> ended, in order.\<close>

definition terminatePID :: "terminate_env \<Rightarrow> pid \<Rightarrow> pid list \<Rightarrow> terminate_error option \<times> pid list" where
  "terminatePID e p log =
    (case te_open e p of
       Some er \<Rightarrow> (if er = ERROR_INVALID_PARAMETER then None else Some (OpenFailed p er), log)
     | None \<Rightarrow>
        (case te_terminate e p of None \<Rightarrow> (None, log @ [p])
         | Some er \<Rightarrow>
            if er = ERROR_INVALID_HANDLE then (None, log)
            else if te_wait e p = Inr WAIT_OBJECT_0 then (None, log)
            else (Some (TerminateFailed p er), log)))"

fun terminate_all :: "terminate_env \<Rightarrow> pid list \<Rightarrow> pid list \<Rightarrow> terminate_error option \<times> pid list" where
  "terminate_all e [] log = (None, log)"
| "terminate_all e (p # ps) log =
    (case terminatePID e p log of (Some er, log1) \<Rightarrow> (Some er, log1) | (None, log1) \<Rightarrow> terminate_all e ps log1)"

definition Terminate :: "terminate_env \<Rightarrow> int \<Rightarrow> terminate_error option \<times> pid list" where
  "Terminate e pid =
    (if pid \<le> 0 then (None, [])
     else case processTree (te_tree e) (word_of_int pid) of
       Inl er \<Rightarrow> (Some (TreeFailed er), [])
     | Inr children \<Rightarrow>
        (case terminate_all e (rev children) [] of
           (Some er, log) \<Rightarrow> (Some er, log)
         | (None, log) \<Rightarrow> terminatePID e (word_of_int pid) log))"

section \<open>Looking for a process\<close>

text \<open>What opening the process and a wait of no time answer.\<close>

record look =
  lk_open :: "nat option"
  lk_wait :: "(nat, nat) result"

definition Exists :: "int \<Rightarrow> look \<Rightarrow> (nat, bool) result" where
  "Exists pid l =
    (if pid \<le> 0 then Inr False
     else case lk_open l of
       Some er \<Rightarrow> if er = ERROR_INVALID_PARAMETER then Inr False else Inl er
     | None \<Rightarrow> (case lk_wait l of Inl er \<Rightarrow> Inl er | Inr state \<Rightarrow> Inr (state \<noteq> WAIT_OBJECT_0)))"

text \<open>The second component is the number of the next look.\<close>

fun waitForProcessExit :: "int \<Rightarrow> nat \<Rightarrow> (nat \<Rightarrow> look) \<Rightarrow> nat \<Rightarrow> (nat, bool) result \<times> nat" where
  "waitForProcessExit pid 0 looks n = (Inr False, n)"
| "waitForProcessExit pid (Suc k) looks n =
    (case Exists pid (looks n) of Inl er \<Rightarrow> (Inl er, Suc n)
     | Inr False \<Rightarrow> (Inr True, Suc n)
     | Inr True \<Rightarrow> waitForProcessExit pid k looks (Suc n))"

section \<open>The job object\<close>

text \<open>
  Open jobs with the processes assigned to them; the job of the controller is a handle, 0
  for none.  Closing the only handle of a job ends its processes.
\<close>

record job_world =
  jw_jobs :: "nat \<rightharpoonup> pid set"
  jw_alive :: "pid set"
  jw_next :: nat

record job_env =
  je_create :: "nat option"
  je_limit :: "nat option"
  je_open :: "nat option"
  je_assign :: "nat option"

definition close_job :: "nat \<Rightarrow> job_world \<Rightarrow> job_world" where
  "close_job h w = (case jw_jobs w h of None \<Rightarrow> w
     | Some ps \<Rightarrow> w\<lparr>jw_jobs := (jw_jobs w)(h := None), jw_alive := jw_alive w - ps\<rparr>)"

datatype attach_error = CreateJob nat | LimitJob nat | OpenCore nat | AssignJob nat

text \<open>\<open>Attach\<close>: the controller's job afterwards is the second component.\<close>

definition Attach :: "job_env \<Rightarrow> int \<Rightarrow> nat \<Rightarrow> job_world \<Rightarrow> attach_error option \<times> nat \<times> job_world" where
  "Attach e pid job0 w =
    (case je_create e of Some er \<Rightarrow> (Some (CreateJob er), job0, w)
     | None \<Rightarrow>
      (let job = jw_next w; w1 = w\<lparr>jw_jobs := (jw_jobs w)(job \<mapsto> {}), jw_next := Suc job\<rparr> in
       case je_limit e of Some er \<Rightarrow> (Some (LimitJob er), job0, close_job job w1)
       | None \<Rightarrow>
      (case je_open e of Some er \<Rightarrow> (Some (OpenCore er), job0, close_job job w1)
       | None \<Rightarrow>
      (case je_assign e of Some er \<Rightarrow> (Some (AssignJob er), job0, close_job job w1)
       | None \<Rightarrow> (None, job, w1\<lparr>jw_jobs := (jw_jobs w1)(job \<mapsto> {word_of_int pid})\<rparr>)))))"

text \<open>One answer of the query: an error, or the number of assigned processes and the list.\<close>

definition ERROR_BAD_LENGTH :: nat where "ERROR_BAD_LENGTH = 24"
definition ERROR_INSUFFICIENT_BUFFER :: nat where "ERROR_INSUFFICIENT_BUFFER = 122"
definition ERROR_MORE_DATA :: nat where "ERROR_MORE_DATA = 234"

datatype pids_error = QueryFailed nat | ListTooLong

fun query_job :: "(nat \<Rightarrow> (nat, nat \<times> 64 word list) result) \<Rightarrow> nat list \<Rightarrow> (pids_error, int list) result" where
  "query_job q [] = Inl ListTooLong"
| "query_job q (n # sizes) =
    (case q n of
       Inl er \<Rightarrow> if er \<in> {ERROR_MORE_DATA, ERROR_BAD_LENGTH, ERROR_INSUFFICIENT_BUFFER} then query_job q sizes
         else Inl (QueryFailed er)
     | Inr (assigned, ids) \<Rightarrow> if assigned > length ids then query_job q sizes
         else Inr (map (\<lambda>i. sint (ucast i :: 32 word)) (filter (\<lambda>i. i > 0) ids)))"

text \<open>The sizes of the buffer: \<open>size := 1024; size <= 64*1024; size *= 2\<close>.\<close>

definition query_sizes :: "nat list" where
  "query_sizes = map (\<lambda>i. 1024 * 2 ^ i) [0..<7]"

definition PIDs :: "(nat \<Rightarrow> (nat, nat \<times> 64 word list) result) \<Rightarrow> nat \<Rightarrow> (pids_error, int list) result" where
  "PIDs q job = (if job = 0 then Inr [] else query_job q query_sizes)"

text \<open>\<open>Stop\<close>; the error of closing the job comes with the job already given up.\<close>

datatype stop_failure = CloseFailed nat | StopFailed terminate_error

definition Stop ::
    "nat option \<Rightarrow> terminate_env \<Rightarrow> (nat \<Rightarrow> look) \<Rightarrow> int \<Rightarrow> nat \<Rightarrow> job_world \<Rightarrow> stop_failure option \<times> pid list \<times> nat \<times> job_world" where
  "Stop close_er e looks pid job w =
    (let w1 = (if job = 0 \<or> close_er \<noteq> None then w else close_job job w);
         closeErr = (if job = 0 then None else map_option CloseFailed close_er)
     in case waitForProcessExit pid 20 looks 0 of
          (Inr True, n) \<Rightarrow> (closeErr, [], 0, w1)
        | (_, n) \<Rightarrow>
           (case Terminate e pid of
              (Some er, log) \<Rightarrow> (Some (StopFailed er), log, 0, w1)
            | (None, log) \<Rightarrow>
               (case waitForProcessExit pid 20 looks n of
                  (Inl er, _) \<Rightarrow> (Some (StopFailed (LookFailed er)), log, 0, w1)
                | (Inr exited, _) \<Rightarrow> (if exited then closeErr else Some (StopFailed (StillThere pid)), log, 0, w1))))"

definition job_Close :: "nat option \<Rightarrow> nat \<Rightarrow> job_world \<Rightarrow> nat option \<times> nat \<times> job_world" where
  "job_Close close_er job w =
    (if job = 0 then (None, 0, w) else (close_er, 0, if close_er = None then close_job job w else w))"

end
