(* ===== verification/WindowsProcessProps.thy ===== *)
theory WindowsProcessProps
  imports WindowsProcess
begin

text \<open>
  The tree that is terminated consists of exactly the descendants that the snapshot knows;
  the core itself is ended last; a job is bound to the core or given up.
\<close>

section \<open>The tree\<close>

definition child_of :: "(pid \<times> pid) list \<Rightarrow> (pid \<times> pid) set" where
  "child_of entries = set entries"

lemma children_map_set: "c \<in> set (children_map entries p) \<longleftrightarrow> (p, c) \<in> child_of entries"
proof -
  have "c \<in> set (fold add_child entries m p) \<longleftrightarrow> c \<in> set (m p) \<or> (p, c) \<in> set entries" for m
    by (induction entries arbitrary: m) (auto simp: add_child_def split: prod.split)
  then show ?thesis by (simp add: children_map_def child_of_def)
qed

text \<open>The invariant of the search: every process found has its finder before it.\<close>

definition found_by :: "(pid \<Rightarrow> pid list) \<Rightarrow> pid \<Rightarrow> pid list \<Rightarrow> bool" where
  "found_by children root tree \<longleftrightarrow> (\<forall>i<length tree. \<exists>p\<in>set (root # take i tree). tree ! i \<in> set (children p))"

definition tree_inv :: "(pid \<Rightarrow> pid list) \<Rightarrow> pid \<Rightarrow> pid list \<times> pid set \<times> pid list \<Rightarrow> bool" where
  "tree_inv children root s = (case s of (queue, seen, tree) \<Rightarrow>
     seen = insert root (set tree) \<and> root \<notin> set tree \<and> distinct tree \<and> set queue \<subseteq> seen \<and>
     (\<forall>p\<in>seen - set queue. set (children p) \<subseteq> seen) \<and> found_by children root tree)"

lemma found_by_append:
  assumes "found_by children root tree" "p \<in> insert root (set tree)" "set new \<subseteq> set (children p)"
  shows "found_by children root (tree @ new)"
  unfolding found_by_def
proof (intro allI impI)
  fix i assume i: "i < length (tree @ new)"
  show "\<exists>p\<in>set (root # take i (tree @ new)). (tree @ new) ! i \<in> set (children p)"
  proof (cases "i < length tree")
    case True
    then show ?thesis using assms(1) by (auto simp: found_by_def nth_append)
  next
    case False
    then have "(tree @ new) ! i \<in> set (children p)" using i assms(3) by (auto simp: nth_append intro: nth_mem)
    moreover have "p \<in> set (root # take i (tree @ new))" using False assms(2) by auto
    ultimately show ?thesis by blast
  qed
qed

lemma tree_inv_step:
  assumes "tree_inv children root (p # queue, seen, tree)"
  shows "tree_inv children root (fold visit_child (children p) (queue, seen, tree))"
proof -
  obtain new where new: "fold visit_child (children p) (queue, seen, tree) = (queue @ new, seen \<union> set new, tree @ new)"
    "distinct new" "set new = set (children p) - seen" using visit_children by blast
  have p: "p \<in> insert root (set tree)" and f: "found_by children root tree" using assms by (auto simp: tree_inv_def)
  have "found_by children root (tree @ new)" by (rule found_by_append [OF f p]) (use new(3) in blast)
  then show ?thesis using assms new(2,3) unfolding new(1) by (auto simp: tree_inv_def)
qed

lemma tree_loop_inv: "tree_inv children root s \<Longrightarrow> tree_inv children root ([], insert root (set (tree_loop children s)), tree_loop children s)"
proof (induction children s rule: tree_loop.induct)
  case (1 children seen tree)
  then have "seen = insert root (set tree)" by (simp add: tree_inv_def)
  with 1 show ?case by simp
next
  case (2 children p queue seen tree)
  show ?case unfolding tree_loop.simps by (rule 2(1) [OF tree_inv_step [OF 2(2)]])
qed

lemma found_reachable:
  assumes "found_by (children_map entries) root tree" "c \<in> set tree"
  shows "(root, c) \<in> (child_of entries)\<^sup>*"
proof -
  have "(root, tree ! i) \<in> (child_of entries)\<^sup>*" if "i < length tree" for i
    using that
  proof (induction i rule: less_induct)
    case (less i)
    then obtain p where p: "p \<in> set (root # take i tree)" "(p, tree ! i) \<in> child_of entries"
      using assms(1) by (auto simp: found_by_def children_map_set)
    have "(root, p) \<in> (child_of entries)\<^sup>*"
    proof (cases "p = root")
      case False
      then have "p \<in> set (take i tree)" using p(1) by simp
      then obtain j where "j < i" "p = tree ! j" "j < length tree" using less.prems by (auto simp: in_set_conv_nth)
      then show ?thesis using less.IH by simp
    qed simp
    then show ?case using p(2) by (rule rtrancl_into_rtrancl)
  qed
  then show ?thesis using assms(2) by (auto simp: in_set_conv_nth)
qed

lemma processTree_exact:
  assumes "processTree e root = Inr tree"
  shows "distinct tree" "set tree = (child_of (se_entries e))\<^sup>* `` {root} - {root}"
    "found_by (children_map (se_entries e)) root tree"
proof -
  let ?ch = "children_map (se_entries e)"
  have t: "tree = tree_loop ?ch ([root], {root}, [])"
    using assms by (simp add: processTree_def split: option.splits if_splits)
  have "tree_inv ?ch root ([root], {root}, [])" by (simp add: tree_inv_def found_by_def)
  then have inv: "tree_inv ?ch root ([], insert root (set tree), tree)" unfolding t by (rule tree_loop_inv)
  then show "distinct tree" and f: "found_by ?ch root tree" by (simp_all add: tree_inv_def)
  have "c \<in> insert root (set tree)" if "(root, c) \<in> (child_of (se_entries e))\<^sup>*" for c
    using that
  proof (induction rule: rtrancl_induct)
    case (step p c)
    then have "c \<in> set (?ch p)" by (simp add: children_map_set)
    then show ?case using inv step.IH by (auto simp: tree_inv_def)
  qed simp
  then show "set tree = (child_of (se_entries e))\<^sup>* `` {root} - {root}"
    using found_reachable [OF f] inv by (auto simp: tree_inv_def)
qed

section \<open>Termination of the tree\<close>

text \<open>What the system says of a process that is not there any more.\<close>

definition says_gone :: "terminate_env \<Rightarrow> pid \<Rightarrow> bool" where
  "says_gone e p \<longleftrightarrow> te_open e p = Some ERROR_INVALID_PARAMETER \<or>
     (te_open e p = None \<and> (te_terminate e p = Some ERROR_INVALID_HANDLE \<or> (te_terminate e p \<noteq> None \<and> te_wait e p = Inr WAIT_OBJECT_0)))"

lemma terminatePID_log:
  assumes "terminatePID e p log = (r, log')"
  shows "(r = None \<and> says_gone e p \<and> log' = log) \<or> (r = None \<and> log' = log @ [p]) \<or> (r \<noteq> None \<and> log' = log)"
  using assms by (auto simp: terminatePID_def says_gone_def split: option.splits if_splits)

lemma terminate_all_log:
  assumes "terminate_all e ps log = (r, log')"
  shows "\<exists>done. log' = log @ done \<and> subseq done ps \<and> (r = None \<longrightarrow> (\<forall>p\<in>set ps. p \<in> set done \<or> says_gone e p))"
  using assms
proof (induction ps arbitrary: log)
  case (Cons p ps)
  obtain r1 log1 where t: "terminatePID e p log = (r1, log1)" by fastforce
  show ?case
  proof (cases r1)
    case None
    then obtain fin where fin: "log' = log1 @ fin" "subseq fin ps" "r = None \<longrightarrow> (\<forall>p\<in>set ps. p \<in> set fin \<or> says_gone e p)"
      using Cons.IH [of log1] Cons.prems t by auto
    from terminatePID_log [OF t] None consider "says_gone e p" "log1 = log" | "log1 = log @ [p]" by auto
    then show ?thesis
    proof cases
      case 1
      then show ?thesis using fin by (intro exI [of _ fin]) (auto intro: list_emb_Cons)
    next
      case 2
      then show ?thesis using fin by (intro exI [of _ "p # fin"]) auto
    qed
  next
    case (Some er)
    then show ?thesis using Cons.prems t terminatePID_log [OF t] by (intro exI [of _ "[]"]) auto
  qed
qed simp

lemma tree_terminated_outcome:
  assumes "Terminate e pid = (r, log)" "0 < pid" "pid < 2 ^ 31" "processTree (te_tree e) (word_of_int pid) = Inr tree"
  shows "set tree = (child_of (se_entries (te_tree e)))\<^sup>* `` {word_of_int pid} - {word_of_int pid} \<and>
    subseq log (rev tree @ [word_of_int pid]) \<and>
    (r = None \<longrightarrow> (\<forall>p\<in>insert (word_of_int pid) (set tree). p \<in> set log \<or> says_gone e p)) \<and>
    (r \<noteq> None \<longrightarrow> word_of_int pid \<notin> set log)"
proof -
  note exact = processTree_exact [OF assms(4)]
  have ext: "subseq xs ys \<Longrightarrow> subseq xs (ys @ [z])" for xs ys :: "pid list" and z by (rule list_emb_prefix)
  obtain r1 log1 where all: "terminate_all e (rev tree) [] = (r1, log1)" by fastforce
  then obtain fin where fin: "log1 = fin" "subseq fin (rev tree)" "r1 = None \<longrightarrow> (\<forall>p\<in>set (rev tree). p \<in> set fin \<or> says_gone e p)"
    using terminate_all_log [OF all] by auto
  have out: "word_of_int pid \<notin> set fin" 
  proof
    assume "word_of_int pid \<in> set fin"
    from list_emb_set [OF fin(2) this] have "(word_of_int pid :: pid) \<in> set tree" by (metis set_rev)
    then show False unfolding exact(2) by blast
  qed
  show ?thesis
  proof (cases r1)
    case (Some er)
    then have "r \<noteq> None" "log = fin" using assms(1,2,4) all fin(1) by (auto simp: Terminate_def)
    then show ?thesis using exact(2) fin(2) out ext by blast
  next
    case None
    then have t: "terminatePID e (word_of_int pid) fin = (r, log)" using assms(1,2,4) all fin(1) by (simp add: Terminate_def)
    have snoc: "subseq (fin @ [word_of_int pid]) (rev tree @ [word_of_int pid])"
      using fin(2) by (rule list_emb_append_mono) simp
    from terminatePID_log [OF t]
    consider "r = None" "says_gone e (word_of_int pid)" "log = fin" | "r = None" "log = fin @ [word_of_int pid]" | "r \<noteq> None" "log = fin"
      by blast
    then show ?thesis
    proof cases
      case 1
      then show ?thesis using exact(2) ext [OF fin(2)] fin(3) None by auto
    next
      case 2
      then show ?thesis using exact(2) snoc fin(3) None by auto
    next
      case 3
      then show ?thesis using exact(2) ext [OF fin(2)] out by auto
    qed
  qed
qed

text \<open>
  The snapshot records numbers only: a process whose parent is long gone counts as a child
  of the core if the core has the parent's old number, and it is ended with it.
\<close>

lemma recorded_child_terminated:
  assumes "Terminate e pid = (None, log)" "0 < pid" "pid < 2 ^ 31" "processTree (te_tree e) (word_of_int pid) = Inr tree"
    and "(word_of_int pid, c) \<in> set (se_entries (te_tree e))" "c \<noteq> word_of_int pid" "te_open e c = None" "te_terminate e c = None"
  shows "c \<in> set log"
proof -
  have "(word_of_int pid, c) \<in> (child_of (se_entries (te_tree e)))\<^sup>*" using assms(5) by (auto simp: child_of_def)
  then have "c \<in> set tree" using processTree_exact(2) [OF assms(4)] assms(6) by blast
  moreover have "\<not> says_gone e c" using assms(7,8) by (simp add: says_gone_def)
  ultimately show ?thesis using tree_terminated_outcome [OF assms(1-4)] by blast
qed

text \<open>
  C27. When \<open>Terminate\<close> reports success on Windows, the process and every descendant of the
  snapshot was ended or the system said it was gone; the processes are ended in the reverse
  of the order in which they were found, the process itself last; and after an error the
  process itself was not ended, so that a later attempt finds the same tree.
\<close>

theorem tree_terminated:
  assumes "Terminate e pid = (r, log)" "0 < pid" "pid < 2 ^ 31" "processTree (te_tree e) (word_of_int pid) = Inr tree"
  shows "set tree = (child_of (se_entries (te_tree e)))\<^sup>* `` {word_of_int pid} - {word_of_int pid} \<and>
    subseq log (rev tree @ [word_of_int pid]) \<and>
    (r = None \<longrightarrow> (\<forall>p\<in>insert (word_of_int pid) (set tree). p \<in> set log \<or> says_gone e p)) \<and>
    (r \<noteq> None \<longrightarrow> word_of_int pid \<notin> set log)"
  by (rule tree_terminated_outcome [OF assms])

definition sample_terminate :: terminate_env where
  "sample_terminate = \<lparr>te_open = (\<lambda>p. if p = 9 then Some ERROR_INVALID_PARAMETER else None), te_terminate = \<lambda>_. None,
     te_wait = \<lambda>_. Inr 258,
     te_tree = \<lparr>se_snapshot = None, se_first = None, se_entries = [(5, 7), (7, 9), (9, 5), (5, 8), (1, 2)], se_next = ERROR_NO_MORE_FILES\<rparr>\<rparr>"

theorem tree_terminated_witness:
  "Terminate sample_terminate 5 = (None, [8, 7, 5]) \<and> set [7, 8, 9] = (child_of [(5, 7), (7, 9), (9, 5), (5, 8), (1, 2)])\<^sup>* `` {5} - {5}"
proof -
  have run: "Terminate sample_terminate 5 = (None, [8, 7, 5])" by code_simp
  have tree: "processTree (te_tree sample_terminate) (word_of_int 5) = Inr [7, 8, 9]" by code_simp
  have "se_entries (te_tree sample_terminate) = [(5, 7), (7, 9), (9, 5), (5, 8), (1, 2)]" by (simp add: sample_terminate_def)
  then show ?thesis using tree_terminated [OF run _ _ tree] run by simp
qed

section \<open>The job\<close>

text \<open>Attaching binds the process to a new job, or leaves no job and ends nothing.\<close>

theorem attach_all_or_nothing:
  assumes "Attach e pid job0 w = (r, job, w')" "jw_jobs w (jw_next w) = None"
  shows "(r = None \<longrightarrow> jw_jobs w' = (jw_jobs w)(job \<mapsto> {word_of_int pid})) \<and>
    (r \<noteq> None \<longrightarrow> job = job0 \<and> jw_jobs w' = jw_jobs w) \<and> jw_alive w' = jw_alive w"
  using assms by (auto simp: Attach_def close_job_def Let_def fun_upd_idem split: option.splits)

lemma wait_sees_exit:
  "waitForProcessExit pid k looks n = (Inr True, m) \<Longrightarrow> \<exists>i. n \<le> i \<and> i < m \<and> m \<le> n + k \<and> Exists pid (looks i) = Inr False"
proof (induction k arbitrary: n)
  case (Suc k)
  consider "Exists pid (looks n) = Inr False" "m = Suc n"
    | "Exists pid (looks n) = Inr True" "waitForProcessExit pid k looks (Suc n) = (Inr True, m)"
    using Suc.prems by (auto split: sum.splits bool.splits)
  then show ?case
  proof cases
    case 1
    then show ?thesis by (intro exI [of _ n]) simp
  next
    case 2
    then show ?thesis using Suc.IH [of "Suc n"] by (metis Suc_leD add_Suc_shift)
  qed
qed simp

lemma wait_count: "waitForProcessExit pid k looks n = (r, m) \<Longrightarrow> m \<le> n + k"
  by (induction k arbitrary: n) (fastforce split: sum.splits bool.splits)+

text \<open>
  The controller of the core on Windows reports success only after the system said that
  the core is gone, within forty looks, and after its job was closed; it never keeps the
  job.
\<close>

theorem stop_sees_exit:
  assumes "Stop close_er e looks pid job w = (r, log, job', w')"
  shows "job' = 0 \<and> (r = None \<longrightarrow> (\<exists>n<40. Exists pid (looks n) = Inr False) \<and> (job \<noteq> 0 \<longrightarrow> jw_jobs w' job = None \<and>
    (\<forall>ps. jw_jobs w job = Some ps \<longrightarrow> jw_alive w' = jw_alive w - ps)))"
proof -
  obtain a n where w1: "waitForProcessExit pid 20 looks 0 = (a, n)" by fastforce
  have n: "n \<le> 20" using wait_count [OF w1] by simp
  have job: "job' = 0" using assms w1 by (auto simp: Stop_def Let_def split: sum.splits bool.splits option.splits prod.splits)
  show ?thesis
  proof (cases "r = None")
    case True
    have closed: "job \<noteq> 0 \<Longrightarrow> close_er = None" and seen: "\<exists>k<40. Exists pid (looks k) = Inr False"
      and w': "w' = (if job = 0 \<or> close_er \<noteq> None then w else close_job job w)"
    proof -
      consider "a = Inr True" "r = (if job = 0 then None else map_option CloseFailed close_er)"
          "w' = (if job = 0 \<or> close_er \<noteq> None then w else close_job job w)"
        | m where "waitForProcessExit pid 20 looks n = (Inr True, m)" "r = (if job = 0 then None else map_option CloseFailed close_er)"
          "w' = (if job = 0 \<or> close_er \<noteq> None then w else close_job job w)"
        using assms w1 True by (auto simp: Stop_def Let_def split: sum.splits bool.splits option.splits prod.splits if_splits)
      then have all: "r = (if job = 0 then None else map_option CloseFailed close_er) \<and>
          w' = (if job = 0 \<or> close_er \<noteq> None then w else close_job job w) \<and> (\<exists>k<40. Exists pid (looks k) = Inr False)"
      proof cases
        case 1
        obtain i where "i < n" "Exists pid (looks i) = Inr False" using wait_sees_exit [OF w1 [unfolded 1(1)]] by blast
        then have "\<exists>k<40. Exists pid (looks k) = Inr False" using n by (intro exI [of _ i]) simp
        with 1(2,3) show ?thesis by blast
      next
        case 2
        obtain i where "i < m" "m \<le> n + 20" "Exists pid (looks i) = Inr False" using wait_sees_exit [OF 2(1)] by blast
        then have "\<exists>k<40. Exists pid (looks k) = Inr False" using n by (intro exI [of _ i]) simp
        with 2(2,3) show ?thesis by blast
      qed
      show "job \<noteq> 0 \<Longrightarrow> close_er = None" using all True by simp
      show "\<exists>k<40. Exists pid (looks k) = Inr False" and "w' = (if job = 0 \<or> close_er \<noteq> None then w else close_job job w)"
        using all by blast+
    qed
    show ?thesis using job seen closed w' by (auto simp: close_job_def split: option.splits)
  next
    case False
    then show ?thesis using job by blast
  qed
qed

definition tired_look :: "nat \<Rightarrow> look" where
  "tired_look n = (if n < 25 then \<lparr>lk_open = None, lk_wait = Inr 258\<rparr> else \<lparr>lk_open = Some ERROR_INVALID_PARAMETER, lk_wait = Inr 0\<rparr>)"

theorem stop_sees_exit_witness:
  "fst (Stop None sample_terminate tired_look 5 1 \<lparr>jw_jobs = [1 \<mapsto> {5}], jw_alive = {5, 6}, jw_next = 2\<rparr>) = None \<and>
   (\<exists>n<40. Exists 5 (tired_look n) = Inr False)"
proof -
  let ?w = "\<lparr>jw_jobs = [1 \<mapsto> {5}], jw_alive = {5, 6}, jw_next = 2\<rparr>"
  obtain r log job' w' where s: "Stop None sample_terminate tired_look 5 1 ?w = (r, log, job', w')" by (metis surj_pair)
  have "waitForProcessExit 5 20 tired_look 0 = (Inr False, 20)" "waitForProcessExit 5 20 tired_look 20 = (Inr True, 26)"
    "Terminate sample_terminate 5 = (None, [8, 7, 5])" by code_simp+
  then have "r = None" using s by (simp add: Stop_def Let_def)
  with stop_sees_exit [OF s] s show ?thesis by simp
qed

text \<open>The list of the job is read with buffers of 1 to 64 KiB until it is complete.\<close>

lemma pids_complete:
  assumes "PIDs q job = Inr pids" "job \<noteq> 0"
  shows "\<exists>k<7. \<exists>assigned ids. q (1024 * 2 ^ k) = Inr (assigned, ids) \<and> assigned \<le> length ids \<and>
    (\<forall>i\<in>set ids. 0 < i \<longrightarrow> sint (ucast i :: 32 word) \<in> set pids)"
proof -
  have "\<exists>n\<in>set ns. \<exists>assigned ids. q n = Inr (assigned, ids) \<and> assigned \<le> length ids \<and>
      (\<forall>i\<in>set ids. 0 < i \<longrightarrow> sint (ucast i :: 32 word) \<in> set pids)" if "query_job q ns = Inr pids" for ns
    using that
  proof (induction ns)
    case (Cons n ns)
    show ?case
    proof (cases "q n")
      case (Inl er)
      then show ?thesis using Cons by (auto split: if_splits)
    next
      case (Inr a)
      then show ?thesis using Cons by (cases a) (auto split: if_splits)
    qed
  qed simp
  from this [of query_sizes] show ?thesis using assms by (auto simp: PIDs_def query_sizes_def)
qed

end
