(* ===== verification/DarwinForwarding.thy ===== *)
theory DarwinForwarding
  imports Prelude "HOL-Library.Word"
begin

text \<open>
  The forwarding switches of the LAN gateway on macOS (\<open>route/lanternapi/forwarding_darwin.go\<close>):
  four kernel variables, set with the program \<open>sysctl\<close> and read back.
\<close>

section \<open>The switches\<close>

type_synonym kernel_vars = "string \<rightharpoonup> 32 word"

text \<open>Errors by variable, and what a successful run of \<open>sysctl -w\<close> makes of the variables.\<close>

record darwin_env =
  da_interface :: "string option"
  da_read :: "string \<Rightarrow> string option"
  da_run :: "string \<Rightarrow> string option"
  da_put :: "string \<Rightarrow> 32 word \<Rightarrow> kernel_vars \<Rightarrow> kernel_vars"

record forwardingSetting =
  ks_key :: string
  ks_before :: "32 word"
  ks_value :: "32 word"

definition SysctlUint32 :: "darwin_env \<Rightarrow> kernel_vars \<Rightarrow> string \<Rightarrow> (string, 32 word) result" where
  "SysctlUint32 e m key = (case da_read e key of Some er \<Rightarrow> Inl er
     | None \<Rightarrow> (case m key of None \<Rightarrow> Inl ''no such variable'' | Some v \<Rightarrow> Inr v))"

definition setForwarding :: "darwin_env \<Rightarrow> string \<Rightarrow> 32 word \<Rightarrow> kernel_vars \<Rightarrow> string option \<times> kernel_vars" where
  "setForwarding e key v m = (case da_run e key of Some er \<Rightarrow> (Some er, m) | None \<Rightarrow> (None, da_put e key v m))"

section \<open>Restoring\<close>

text \<open>One turn of the loop from the last setting to the first: errors, what is left, the variables.\<close>

definition restore_setting ::
    "darwin_env \<Rightarrow> forwardingSetting \<Rightarrow> string list \<times> forwardingSetting list \<times> kernel_vars
     \<Rightarrow> string list \<times> forwardingSetting list \<times> kernel_vars" where
  "restore_setting e s acc = (case acc of (errs, pending, m) \<Rightarrow>
     (case SysctlUint32 e m (ks_key s) of
        Inl er \<Rightarrow> (errs @ [er], s # pending, m)
      | Inr v \<Rightarrow> if v = ks_value s
          then (case setForwarding e (ks_key s) (ks_before s) m of
              (Some er, m1) \<Rightarrow> (errs @ [er], s # pending, m1) | (None, m1) \<Rightarrow> (errs, pending, m1))
          else (errs, pending, m)))"

definition restore :: "darwin_env \<Rightarrow> forwardingSetting list \<Rightarrow> kernel_vars \<Rightarrow> string list \<times> forwardingSetting list \<times> kernel_vars" where
  "restore e settings m = fold (restore_setting e) (rev settings) ([], [], m)"

section \<open>Preparing\<close>

definition wanted :: "bool \<Rightarrow> (string \<times> 32 word) list" where
  "wanted ipv6 = [(''net.inet.ip.forwarding'', 1), (''net.inet.ip.redirect'', 0)] @
     (if ipv6 then [(''net.inet6.ip6.forwarding'', 1), (''net.inet6.ip6.redirect'', 0)] else [])"

fun read_settings :: "darwin_env \<Rightarrow> kernel_vars \<Rightarrow> (string \<times> 32 word) list \<Rightarrow> (string, forwardingSetting list) result" where
  "read_settings e m [] = Inr []"
| "read_settings e m ((key, v) # ws) =
    rbind (SysctlUint32 e m key) (\<lambda>before. rbind (read_settings e m ws)
      (\<lambda>ss. Inr (\<lparr>ks_key = key, ks_before = before, ks_value = v\<rparr> # ss)))"

text \<open>The loop that applies the settings: what was touched, the first error, the variables.\<close>

fun apply_settings ::
    "darwin_env \<Rightarrow> forwardingSetting list \<Rightarrow> forwardingSetting list \<Rightarrow> kernel_vars
     \<Rightarrow> forwardingSetting list \<times> string option \<times> kernel_vars" where
  "apply_settings e f [] m = (f, None, m)"
| "apply_settings e f (s # ss) m =
    (if ks_before s = ks_value s then apply_settings e f ss m
     else case setForwarding e (ks_key s) (ks_value s) m of
       (Some er, m1) \<Rightarrow> (f @ [s], Some er, m1)
     | (None, m1) \<Rightarrow>
        (case SysctlUint32 e m1 (ks_key s) of Inl er \<Rightarrow> (f @ [s], Some er, m1)
         | Inr v \<Rightarrow> if v \<noteq> ks_value s then (f @ [s], Some ''not applied'', m1) else apply_settings e (f @ [s]) ss m1))"

text \<open>
  The state to restore later, if there is one, the errors, and the variables.  The second
  environment is that of the restoration after an error.
\<close>

definition prepareForwarding ::
    "darwin_env \<Rightarrow> darwin_env \<Rightarrow> bool \<Rightarrow> kernel_vars \<Rightarrow> forwardingSetting list option \<times> string list \<times> kernel_vars" where
  "prepareForwarding e e2 ipv6 m =
    (case da_interface e of Some er \<Rightarrow> (None, [er], m)
     | None \<Rightarrow>
    (case read_settings e m (wanted ipv6) of Inl er \<Rightarrow> (None, [er], m)
     | Inr settings \<Rightarrow>
    (case apply_settings e [] settings m of
       (f, None, m1) \<Rightarrow> (Some f, [], m1)
     | (f, Some er, m1) \<Rightarrow> (case restore e2 f m1 of (errs, f', m2) \<Rightarrow> (Some f', er # errs, m2)))))"

section \<open>Properties\<close>

text \<open>Writing a variable sets it and nothing else; nothing fails.\<close>

definition sets_one :: "darwin_env \<Rightarrow> bool" where
  "sets_one e \<longleftrightarrow> (\<forall>key v m. da_put e key v m = m(key \<mapsto> v))"

definition no_failure :: "darwin_env \<Rightarrow> bool" where
  "no_failure e \<longleftrightarrow> (\<forall>key. da_read e key = None \<and> da_run e key = None)"

text \<open>
  The variables \<open>m1\<close> differ from \<open>m\<close> at most in that settings of the list have their new
  value.
\<close>

definition touched :: "forwardingSetting list \<Rightarrow> kernel_vars \<Rightarrow> kernel_vars \<Rightarrow> bool" where
  "touched f m m1 \<longleftrightarrow> distinct (map ks_key f) \<and>
     (\<forall>s\<in>set f. m (ks_key s) = Some (ks_before s) \<and> m1 (ks_key s) \<in> {Some (ks_before s), Some (ks_value s)}) \<and>
     (\<forall>key. key \<notin> ks_key ` set f \<longrightarrow> m1 key = m key)"

lemma touched_last:
  assumes "touched (f @ [s]) m m1" "no_failure e" "sets_one e"
  shows "\<exists>m2. restore_setting e s ([], [], m1) = ([], [], m2) \<and> touched f m m2"
proof -
  have key: "m (ks_key s) = Some (ks_before s)" "m1 (ks_key s) \<in> {Some (ks_before s), Some (ks_value s)}" "ks_key s \<notin> ks_key ` set f"
    using assms(1) by (auto simp: touched_def)
  define m2 where "m2 = m1(ks_key s \<mapsto> ks_before s)"
  have step: "restore_setting e s ([], [], m1) = ([], [], m2)"
  proof (cases "m1 (ks_key s) = Some (ks_value s)")
    case True
    then show ?thesis using assms(2,3)
      by (simp add: restore_setting_def SysctlUint32_def setForwarding_def no_failure_def sets_one_def m2_def)
  next
    case False
    then have before: "m1 (ks_key s) = Some (ks_before s)" "ks_before s \<noteq> ks_value s" using key(2) by auto
    then have "m2 = m1" unfolding m2_def by (intro fun_upd_idem) simp
    then show ?thesis using before assms(2) by (simp add: restore_setting_def SysctlUint32_def no_failure_def)
  qed
  have "touched f m m2"
    unfolding touched_def
  proof (intro conjI ballI allI impI)
    show "distinct (map ks_key f)" using assms(1) by (simp add: touched_def)
    show "m (ks_key t) = Some (ks_before t)" if "t \<in> set f" for t using assms(1) that by (simp add: touched_def)
    show "m2 (ks_key t) \<in> {Some (ks_before t), Some (ks_value t)}" if "t \<in> set f" for t
    proof -
      have "ks_key t \<noteq> ks_key s" using key(3) that by (metis image_eqI)
      then show ?thesis using assms(1) that by (simp add: touched_def m2_def)
    qed
    show "m2 x = m x" if "x \<notin> ks_key ` set f" for x
    proof (cases "x = ks_key s")
      case True
      then show ?thesis using key(1) by (simp add: m2_def)
    next
      case False
      then have "x \<notin> ks_key ` set (f @ [s])" using that by simp
      then have "m1 x = m x" using assms(1) unfolding touched_def by blast
      then show ?thesis using False by (simp add: m2_def)
    qed
  qed
  with step show ?thesis by blast
qed

lemma touched_snoc:
  assumes "touched f m m1" "ks_key s \<notin> ks_key ` set f" "m (ks_key s) = Some (ks_before s)" "v \<in> {ks_before s, ks_value s}"
  shows "touched (f @ [s]) m (m1(ks_key s \<mapsto> v))"
  unfolding touched_def
proof (intro conjI ballI allI impI)
  show "distinct (map ks_key (f @ [s]))" using assms(1,2) by (simp add: touched_def)
  show "m (ks_key t) = Some (ks_before t)" if "t \<in> set (f @ [s])" for t
    using assms(1,3) that by (auto simp: touched_def)
  show "(m1(ks_key s \<mapsto> v)) (ks_key t) \<in> {Some (ks_before t), Some (ks_value t)}" if t: "t \<in> set (f @ [s])" for t
  proof (cases "t = s")
    case False
    then have f: "t \<in> set f" using t by simp
    then have "ks_key t \<noteq> ks_key s" using assms(2) by (metis image_eqI)
    then show ?thesis using assms(1) f by (simp add: touched_def)
  qed (use assms(4) in auto)
  show "(m1(ks_key s \<mapsto> v)) x = m x" if "x \<notin> ks_key ` set (f @ [s])" for x
    using assms(1) that by (simp add: touched_def)
qed

lemma restore_touched:
  assumes "touched f m m1" "no_failure e" "sets_one e"
  shows "restore e f m1 = ([], [], m)"
  using assms(1)
proof (induction f arbitrary: m1 rule: rev_induct)
  case Nil
  then have "m1 = m" by (auto simp: touched_def)
  then show ?case by (simp add: restore_def)
next
  case (snoc s f)
  obtain m2 where m2: "restore_setting e s ([], [], m1) = ([], [], m2)" "touched f m m2"
    using touched_last [OF snoc.prems assms(2,3)] by blast
  have "restore e (f @ [s]) m1 = restore e f m2" by (simp add: restore_def m2(1))
  then show ?case using snoc.IH [OF m2(2)] by simp
qed

lemma read_settings_before:
  "read_settings e m ws = Inr ss \<Longrightarrow> map ks_key ss = map fst ws \<and> (\<forall>s\<in>set ss. m (ks_key s) = Some (ks_before s))"
proof (induction ws arbitrary: ss)
  case (Cons w ws)
  obtain key v where w: "w = (key, v)" by fastforce
  obtain before rest where r: "m key = Some before" "read_settings e m ws = Inr rest"
      "ss = \<lparr>ks_key = key, ks_before = before, ks_value = v\<rparr> # rest"
    using Cons.prems by (auto simp: w SysctlUint32_def split: option.splits)
  then show ?case using Cons.IH [OF r(2)] by (simp add: w)
qed simp

lemma apply_settings_touched:
  assumes "apply_settings e f ss m1 = (f', er, m2)" "sets_one e" "touched f m m1"
    and "distinct (map ks_key (f @ ss))" "\<forall>s\<in>set ss. m (ks_key s) = Some (ks_before s)"
  shows "touched f' m m2"
  using assms(1,3,4,5)
proof (induction ss arbitrary: f m1)
  case (Cons s ss)
  have out: "ks_key s \<notin> ks_key ` set f" and at: "m1 (ks_key s) = Some (ks_before s)"
    using Cons.prems by (auto simp: touched_def)
  have grow: "touched (f @ [s]) m (m1(ks_key s \<mapsto> ks_value s))" "touched (f @ [s]) m m1"
    using touched_snoc [OF Cons.prems(2) out, of "ks_value s"] touched_snoc [OF Cons.prems(2) out, of "ks_before s"]
      Cons.prems(4) at by (simp_all add: fun_upd_idem)
  show ?case
  proof (cases "ks_before s = ks_value s")
    case True
    then show ?thesis using Cons.IH [of f m1] Cons.prems by simp
  next
    case False
    consider "f' = f @ [s]" "m2 = m1" | "f' = f @ [s]" "m2 = m1(ks_key s \<mapsto> ks_value s)"
      | "apply_settings e (f @ [s]) ss (m1(ks_key s \<mapsto> ks_value s)) = (f', er, m2)"
      using Cons.prems(1) False assms(2)
      by (auto simp: setForwarding_def sets_one_def split: option.splits sum.splits if_splits)
    then show ?thesis
    proof cases
      case 3
      show ?thesis by (rule Cons.IH [OF 3 grow(1)]) (use Cons.prems(3,4) in auto)
    next
      case 1
      then show ?thesis using grow(2) by blast
    next
      case 2
      show ?thesis unfolding 2 by (rule grow(1))
    qed
  qed
qed simp

lemma wanted_distinct: "distinct (map fst (wanted ipv6))"
  by (cases ipv6) (simp_all add: wanted_def)

text \<open>
  Restoring undoes preparing: after a success \<open>restore\<close> brings every variable back, and
  when preparing fails at any point, the restoration in it has done so already, provided
  writing sets the variable and the restoration itself does not fail.
\<close>

theorem darwin_forwarding_undone:
  assumes "prepareForwarding e e2 ipv6 m = (fo, errs, m1)" "sets_one e" "sets_one e2" "no_failure e2" "sets_one e3" "no_failure e3"
  shows "(errs = [] \<longrightarrow> (\<exists>f. fo = Some f \<and> restore e3 f m1 = ([], [], m))) \<and>
    (errs \<noteq> [] \<longrightarrow> m1 = m \<and> (fo = None \<or> fo = Some []))"
proof -
  have start: "touched [] m m" by (simp add: touched_def)
  show ?thesis
  proof (cases "da_interface e = None \<and> (\<exists>ss. read_settings e m (wanted ipv6) = Inr ss)")
    case True
    then obtain ss where ss: "da_interface e = None" "read_settings e m (wanted ipv6) = Inr ss" by blast
    obtain f er m2 where a: "apply_settings e [] ss m = (f, er, m2)" by (metis surj_pair)
    have "touched f m m2"
      by (rule apply_settings_touched [OF a assms(2) start]) (use read_settings_before [OF ss(2)] wanted_distinct in simp_all)
    then have undo: "restore e2 f m2 = ([], [], m)" "restore e3 f m2 = ([], [], m)" using restore_touched assms(3-6) by blast+
    show ?thesis
    proof (cases er)
      case None
      then show ?thesis using assms(1) ss a undo(2) by (simp add: prepareForwarding_def) blast
    next
      case (Some x)
      then show ?thesis using assms(1) ss a undo(1) by (auto simp: prepareForwarding_def)
    qed
  next
    case False
    then show ?thesis using assms(1) by (auto simp: prepareForwarding_def split: option.splits sum.splits)
  qed
qed

definition plain_darwin :: darwin_env where
  "plain_darwin = \<lparr>da_interface = None, da_read = \<lambda>_. None, da_run = \<lambda>_. None, da_put = \<lambda>key v m. m(key \<mapsto> v)\<rparr>"

definition stubborn_darwin :: darwin_env where
  "stubborn_darwin = plain_darwin\<lparr>da_run := \<lambda>key. if key = ''net.inet.ip.redirect'' then Some ''refused'' else None\<rparr>"

theorem darwin_forwarding_undone_witness:
  "\<exists>errs m1. prepareForwarding stubborn_darwin plain_darwin False
     [''net.inet.ip.forwarding'' \<mapsto> 0, ''net.inet.ip.redirect'' \<mapsto> 1] = (Some [], errs, m1) \<and>
   m1 = [''net.inet.ip.forwarding'' \<mapsto> 0, ''net.inet.ip.redirect'' \<mapsto> 1]"
proof -
  let ?m = "[''net.inet.ip.forwarding'' \<mapsto> 0, ''net.inet.ip.redirect'' \<mapsto> (1 :: 32 word)]"
  obtain fo errs m1 where p: "prepareForwarding stubborn_darwin plain_darwin False ?m = (fo, errs, m1)" by (metis surj_pair)
  have laws: "sets_one stubborn_darwin" "sets_one plain_darwin" "no_failure plain_darwin"
    by (simp_all add: sets_one_def no_failure_def stubborn_darwin_def plain_darwin_def)
  have "map_option length (fst (prepareForwarding stubborn_darwin plain_darwin False ?m)) = Some 0"
    "fst (snd (prepareForwarding stubborn_darwin plain_darwin False ?m)) \<noteq> []" by code_simp+
  then have "fo \<noteq> None" "errs \<noteq> []" using p by auto
  with darwin_forwarding_undone [OF p laws(1,2,3,2,3)] p show ?thesis by blast
qed

end
