(* ===== verification/PipeFile.thy ===== *)
theory PipeFile
  imports Interfaces
begin

text \<open>
  A handle of Windows used for overlapped input and output (\<open>listen/namedpipe/file.go\<close>): who
  may still use it when it is closed, the deadlines with their timer, and what \<open>Read\<close> and
  \<open>Write\<close> return for each answer of the system.
\<close>

section \<open>Closing\<close>

text \<open>
  The steps are those between which other goroutines may run; each holds the lock \<open>wgLock\<close>
  in the source.  \<open>pf_io\<close> counts operations between \<open>prepareIo\<close> and \<open>wg.Done\<close>, \<open>pf_closer\<close>
  is the goroutine that waits for them, \<open>pf_closed\<close> counts the calls of \<open>CloseHandle\<close>.
\<close>

record file_use =
  pf_closing :: bool
  pf_io :: nat
  pf_closer :: bool
  pf_closed :: nat

datatype file_op = PrepareIo | DoneIo | CloseBegin | CloseEnd

text \<open>A step that cannot happen changes nothing; \<open>prepareIo\<close> fails on a closing file.\<close>

fun file_exec :: "file_op \<Rightarrow> file_use \<Rightarrow> file_use" where
  "file_exec PrepareIo s = (if pf_closing s then s else s\<lparr>pf_io := Suc (pf_io s)\<rparr>)"
| "file_exec DoneIo s = s\<lparr>pf_io := pf_io s - 1\<rparr>"
| "file_exec CloseBegin s = (if pf_closing s then s else s\<lparr>pf_closing := True, pf_closer := True\<rparr>)"
| "file_exec CloseEnd s = (if pf_closer s \<and> pf_io s = 0 then s\<lparr>pf_closer := False, pf_closed := Suc (pf_closed s)\<rparr> else s)"

definition makeFile :: file_use where
  "makeFile = \<lparr>pf_closing = False, pf_io = 0, pf_closer = False, pf_closed = 0\<rparr>"

definition file_inv :: "file_use \<Rightarrow> bool" where
  "file_inv s \<longleftrightarrow> (if pf_closed s = 0 then pf_closing s = pf_closer s else pf_closed s = 1 \<and> pf_closing s \<and> \<not> pf_closer s \<and> pf_io s = 0)"

lemma file_exec_inv: "file_inv s \<Longrightarrow> file_inv (file_exec op s)"
  by (cases op) (auto simp: file_inv_def split: if_splits)

interpretation pipe_files: machine file_exec "\<lambda>_. True" file_inv
  by unfold_locales (rule file_exec_inv)

text \<open>
  However operations and closers interleave, the handle is closed at most once, and never
  while an operation uses it; after that no operation begins.
\<close>

theorem handle_not_used_after_close:
  "pf_closed (fold file_exec ops makeFile) \<le> 1 \<and>
   (pf_io (fold file_exec ops makeFile) > 0 \<longrightarrow> pf_closed (fold file_exec ops makeFile) = 0) \<and>
   (pf_closed (fold file_exec ops makeFile) = 1 \<longrightarrow> pf_io (file_exec PrepareIo (fold file_exec ops makeFile)) = 0)"
proof -
  have "file_inv makeFile" by (simp add: file_inv_def makeFile_def)
  then have "file_inv (fold file_exec ops makeFile)" by (rule pipe_files.run_inv) simp
  then show ?thesis by (auto simp: file_inv_def split: if_splits)
qed

section \<open>Deadlines\<close>

text \<open>
  The timer: stopped or absent, armed, its function started, the flag stored, the channel
  closed.  \<open>Stop\<close> of a timer whose function has started fails.
\<close>

datatype dl_timer = NoTimer | Armed | Fired | Stored | Finished

datatype deadline = NoDeadline | Future | Past

text \<open>
  What \<open>set\<close> is doing: nothing, waiting for the channel of the old timer, or setting; the
  last is one step, for no timer is there then and other goroutines only read.
\<close>

datatype dl_phase = DlIdle | DlWaiting deadline | DlSetting deadline

record deadlineHandler =
  dl_timer :: dl_timer
  dl_closed :: bool
  dl_timedout :: bool
  dl_phase :: dl_phase
  dl_panic :: bool

definition close_channel :: "deadlineHandler \<Rightarrow> deadlineHandler" where
  "close_channel s = s\<lparr>dl_panic := dl_panic s \<or> dl_closed s, dl_closed := True\<rparr>"

datatype dl_op = SetBegin deadline | SetReceive | SetEnd | TimerFires | TimerStores | TimerCloses

fun deadline_exec :: "dl_op \<Rightarrow> deadlineHandler \<Rightarrow> deadlineHandler" where
  "deadline_exec (SetBegin d) s =
    (if dl_phase s \<noteq> DlIdle then s
     else case dl_timer s of
       NoTimer \<Rightarrow> s\<lparr>dl_phase := DlSetting d\<rparr>
     | Armed \<Rightarrow> s\<lparr>dl_timer := NoTimer, dl_phase := DlSetting d\<rparr>
     | _ \<Rightarrow> s\<lparr>dl_phase := DlWaiting d\<rparr>)"
| "deadline_exec SetReceive s =
    (case dl_phase s of DlWaiting d \<Rightarrow> if dl_closed s then s\<lparr>dl_timer := NoTimer, dl_phase := DlSetting d\<rparr> else s | _ \<Rightarrow> s)"
| "deadline_exec SetEnd s =
    (case dl_phase s of
       DlSetting d \<Rightarrow>
        (let s1 = s\<lparr>dl_timedout := False, dl_closed := False, dl_phase := DlIdle\<rparr> in
         case d of NoDeadline \<Rightarrow> s1 | Future \<Rightarrow> s1\<lparr>dl_timer := Armed\<rparr> | Past \<Rightarrow> close_channel (s1\<lparr>dl_timedout := True\<rparr>))
     | _ \<Rightarrow> s)"
| "deadline_exec TimerFires s = (if dl_timer s = Armed then s\<lparr>dl_timer := Fired\<rparr> else s)"
| "deadline_exec TimerStores s = (if dl_timer s = Fired then s\<lparr>dl_timer := Stored, dl_timedout := True\<rparr> else s)"
| "deadline_exec TimerCloses s = (if dl_timer s = Stored then close_channel (s\<lparr>dl_timer := Finished\<rparr>) else s)"

definition newDeadline :: deadlineHandler where
  "newDeadline = \<lparr>dl_timer = NoTimer, dl_closed = False, dl_timedout = False, dl_phase = DlIdle, dl_panic = False\<rparr>"

definition deadline_inv :: "deadlineHandler \<Rightarrow> bool" where
  "deadline_inv s \<longleftrightarrow> \<not> dl_panic s \<and>
     (dl_timer s \<in> {Armed, Fired} \<longrightarrow> \<not> dl_closed s \<and> \<not> dl_timedout s) \<and> (dl_timer s = Stored \<longrightarrow> \<not> dl_closed s \<and> dl_timedout s) \<and>
     (dl_timer s = Finished \<longrightarrow> dl_closed s \<and> dl_timedout s) \<and>
     (dl_timer s = NoTimer \<and> dl_phase s = DlIdle \<longrightarrow> dl_closed s = dl_timedout s) \<and>
     (case dl_phase s of DlIdle \<Rightarrow> True | DlWaiting d \<Rightarrow> dl_timer s \<in> {Fired, Stored, Finished} | DlSetting d \<Rightarrow> dl_timer s = NoTimer)"

lemma deadline_exec_inv: "deadline_inv s \<Longrightarrow> deadline_inv (deadline_exec op s)"
  by (cases op; cases "dl_phase s"; cases "dl_timer s")
    (auto simp: deadline_inv_def close_channel_def Let_def split: deadline.splits)

interpretation deadlines: machine deadline_exec "\<lambda>_. True" deadline_inv
  by unfold_locales (rule deadline_exec_inv)

lemma deadline_reachable: "deadline_inv (fold deadline_exec ops newDeadline)"
  by (rule deadlines.run_inv) (simp_all add: deadline_inv_def newDeadline_def)

text \<open>
  C28. However calls of \<open>set\<close> and the timers of earlier deadlines interleave: no channel is closed
  twice, which would end the process; a call that waits for the channel of an old timer
  gets on as soon as the timer's function ran; and a call that completed leaves exactly the
  deadline it was given, whatever earlier timers did.
\<close>

theorem deadlines_never_panic:
  "\<not> dl_panic (fold deadline_exec ops newDeadline) \<and>
   (\<forall>d. dl_phase (fold deadline_exec ops newDeadline) = DlWaiting d \<longrightarrow>
      dl_phase (fold deadline_exec (ops @ [TimerStores, TimerCloses, SetReceive]) newDeadline) = DlSetting d) \<and>
   (\<forall>d. dl_phase (fold deadline_exec ops newDeadline) = DlSetting d \<longrightarrow>
      (let s = fold deadline_exec (ops @ [SetEnd]) newDeadline in
       dl_phase s = DlIdle \<and> dl_timer s = (if d = Future then Armed else NoTimer) \<and> dl_closed s = (d = Past) \<and> dl_timedout s = (d = Past)))"
proof -
  let ?s = "fold deadline_exec ops newDeadline"
  have inv: "deadline_inv ?s" by (rule deadline_reachable)
  have "\<not> dl_panic ?s" using inv by (simp add: deadline_inv_def)
  moreover have "dl_phase (fold deadline_exec (ops @ [TimerStores, TimerCloses, SetReceive]) newDeadline) = DlSetting d"
    if "dl_phase ?s = DlWaiting d" for d
    using inv that by (cases "dl_timer ?s") (auto simp: deadline_inv_def close_channel_def)
  moreover have "let s = fold deadline_exec (ops @ [SetEnd]) newDeadline in
       dl_phase s = DlIdle \<and> dl_timer s = (if d = Future then Armed else NoTimer) \<and> dl_closed s = (d = Past) \<and> dl_timedout s = (d = Past)"
    if "dl_phase ?s = DlSetting d" for d
    using inv that by (cases d) (auto simp: deadline_inv_def close_channel_def Let_def)
  ultimately show ?thesis by blast
qed

definition late_timer :: "dl_op list" where
  "late_timer = [SetBegin Future, SetEnd, TimerFires, SetBegin NoDeadline]"

theorem deadlines_never_panic_witness:
  "dl_phase (fold deadline_exec late_timer newDeadline) = DlWaiting NoDeadline \<and>
   dl_phase (fold deadline_exec (late_timer @ [TimerStores, TimerCloses, SetReceive]) newDeadline) = DlSetting NoDeadline"
proof -
  have "dl_phase (fold deadline_exec late_timer newDeadline) = DlWaiting NoDeadline" by code_simp
  then show ?thesis using deadlines_never_panic [of late_timer] by blast
qed

section \<open>Input and output\<close>

text \<open>Errors as the callers see them; other errors of the system keep their number.\<close>

datatype io_error = EOF | ErrClosed | ErrDeadlineExceeded | ErrClosedPipe | NetClosed | Win nat

definition ERROR_BROKEN_PIPE :: nat where "ERROR_BROKEN_PIPE = 109"
definition ERROR_OPERATION_ABORTED :: nat where "ERROR_OPERATION_ABORTED = 995"
definition ERROR_IO_PENDING :: nat where "ERROR_IO_PENDING = 997"

text \<open>
  \<open>asyncIo\<close>: the immediate answer; if that is pending, whether the deadline's channel was
  chosen before the completion, whether the file is closing then, and the completion.  The
  files of this package are no sockets.
\<close>

definition asyncIo :: "nat \<Rightarrow> nat option \<Rightarrow> bool \<Rightarrow> bool \<Rightarrow> nat \<times> nat option \<Rightarrow> nat \<times> io_error option" where
  "asyncIo n err timeout closing r =
    (if err \<noteq> Some ERROR_IO_PENDING then (n, map_option Win err)
     else (fst r,
       if snd r = Some ERROR_OPERATION_ABORTED
       then Some (if timeout then ErrDeadlineExceeded else if closing then ErrClosed else Win ERROR_OPERATION_ABORTED)
       else map_option Win (snd r)))"

text \<open>An operation: the flags before it, then the answers of \<open>asyncIo\<close>.\<close>

record io_answer =
  ia_closing :: bool
  ia_timedout :: bool
  ia_n :: nat
  ia_err :: "nat option"
  ia_timeout :: bool
  ia_closing_then :: bool
  ia_result :: "nat \<times> nat option"

definition start_io :: "io_answer \<Rightarrow> nat \<times> io_error option" where
  "start_io a =
    (if ia_closing a then (0, Some ErrClosed)
     else if ia_timedout a then (0, Some ErrDeadlineExceeded)
     else asyncIo (ia_n a) (ia_err a) (ia_timeout a) (ia_closing_then a) (ia_result a))"

definition file_Read :: "nat \<Rightarrow> io_answer \<Rightarrow> nat \<times> io_error option" where
  "file_Read len a =
    (if ia_closing a \<or> ia_timedout a then start_io a
     else case start_io a of (n, err) \<Rightarrow>
       if err = None \<and> n = 0 \<and> len \<noteq> 0 then (0, Some EOF)
       else if err = Some (Win ERROR_BROKEN_PIPE) then (0, Some EOF)
       else (n, err))"

definition file_Write :: "io_answer \<Rightarrow> nat \<times> io_error option" where
  "file_Write a = start_io a"

text \<open>A read never reports an empty success, and no read or write succeeds on a closing file.\<close>

lemma read_progress: "file_Read len a = (n, None) \<Longrightarrow> len \<noteq> 0 \<Longrightarrow> n > 0 \<and> \<not> ia_closing a \<and> \<not> ia_timedout a"
  by (auto simp: file_Read_def start_io_def split: prod.splits if_splits)

lemma write_refused: "ia_closing a \<Longrightarrow> file_Write a = (0, Some ErrClosed)"
  by (simp add: file_Write_def start_io_def)

end
