(* ===== verification/NamedPipe.thy ===== *)
theory NamedPipe
  imports PipeFile
begin

text \<open>
  Named pipes of Windows (\<open>listen/namedpipe/namedpipe.go\<close>) and what the service listens on
  (\<open>listen/listen_windows.go\<close>, \<open>StartPipe\<close> of \<open>route/server.go\<close>): the listener with its
  goroutine, dialling with the check of the owner, and message pipes as byte streams.
\<close>

section \<open>The listener\<close>

text \<open>
  The goroutine waits in its select, waits for a client on behalf of an \<open>Accept\<close>, has
  aborted that by closing the pipe and waits for the answer, hands a result over, leaves
  its loop, has ended.
\<close>

datatype accept_result = Conn | Failed io_error

datatype routine = Select | Connecting nat | Aborting nat | Responding nat accept_result | Leaving | Ended

datatype accepting = NoAccept | Offering | Awaiting | Accepted accept_result

datatype closing = NoClose | CloseOffering | CloseAwaiting | CloseReturned

record pipeListener =
  pl_routine :: routine
  pl_accept :: "nat \<Rightarrow> accepting"
  pl_close :: "nat \<Rightarrow> closing"
  pl_handle :: bool
  pl_done :: bool

text \<open>
  What \<open>makeServerPipe\<close> and \<open>connectPipe\<close> can answer: a client, a client that is gone again
  (\<open>ERROR_NO_DATA\<close>), that the file is closed, another error.
\<close>

datatype connect_answer = Connected | NoData | FileClosed | OtherError nat

datatype listener_op =
    AcceptCall nat | CloseCall nat | TakeAccept nat | TakeClose nat | ConnectAnswer connect_answer | AbortClose nat
  | AbortAnswer connect_answer | Respond | Leave | AcceptDone nat | CloseDone nat

definition answer_result :: "connect_answer \<Rightarrow> accept_result" where
  "answer_result a = (case a of Connected \<Rightarrow> Conn | NoData \<Rightarrow> Failed (Win 232) | FileClosed \<Rightarrow> Failed ErrClosed | OtherError er \<Rightarrow> Failed (Win er))"

text \<open>A step that cannot happen changes nothing.  Accepts and closes are numbered.\<close>

fun listener_exec :: "listener_op \<Rightarrow> pipeListener \<Rightarrow> pipeListener" where
  "listener_exec (AcceptCall i) s =
    (if pl_accept s i = Offering \<or> pl_accept s i = Awaiting then s else s\<lparr>pl_accept := (pl_accept s)(i := Offering)\<rparr>)"
| "listener_exec (CloseCall j) s = (if pl_close s j = NoClose then s\<lparr>pl_close := (pl_close s)(j := CloseOffering)\<rparr> else s)"
| "listener_exec (TakeAccept i) s =
    (if pl_routine s = Select \<and> pl_accept s i = Offering
     then s\<lparr>pl_routine := Connecting i, pl_accept := (pl_accept s)(i := Awaiting)\<rparr> else s)"
| "listener_exec (TakeClose j) s =
    (if pl_routine s = Select \<and> pl_close s j = CloseOffering
     then s\<lparr>pl_routine := Leaving, pl_close := (pl_close s)(j := CloseAwaiting)\<rparr> else s)"
| "listener_exec (ConnectAnswer a) s =
    (case pl_routine s of
       Connecting i \<Rightarrow> if a = NoData then s else s\<lparr>pl_routine := Responding i (answer_result a)\<rparr>
     | _ \<Rightarrow> s)"
| "listener_exec (AbortClose j) s =
    (case pl_routine s of
       Connecting i \<Rightarrow> if pl_close s j = CloseOffering
         then s\<lparr>pl_routine := Aborting i, pl_close := (pl_close s)(j := CloseAwaiting)\<rparr> else s
     | _ \<Rightarrow> s)"
| "listener_exec (AbortAnswer a) s =
    (case pl_routine s of
       Aborting i \<Rightarrow> if a = NoData then s\<lparr>pl_routine := Connecting i\<rparr>
         else s\<lparr>pl_routine := Responding i (if a = Connected \<or> a = FileClosed then Failed NetClosed else answer_result a)\<rparr>
     | _ \<Rightarrow> s)"
| "listener_exec Respond s =
    (case pl_routine s of
       Responding i r \<Rightarrow> s\<lparr>pl_routine := (if r = Failed NetClosed then Leaving else Select), pl_accept := (pl_accept s)(i := Accepted r)\<rparr>
     | _ \<Rightarrow> s)"
| "listener_exec Leave s = (if pl_routine s = Leaving then s\<lparr>pl_routine := Ended, pl_handle := False, pl_done := True\<rparr> else s)"
| "listener_exec (AcceptDone i) s =
    (if pl_done s \<and> pl_accept s i = Offering then s\<lparr>pl_accept := (pl_accept s)(i := Accepted (Failed NetClosed))\<rparr> else s)"
| "listener_exec (CloseDone j) s =
    (if pl_done s \<and> pl_close s j \<in> {CloseOffering, CloseAwaiting} then s\<lparr>pl_close := (pl_close s)(j := CloseReturned)\<rparr> else s)"

definition Listen :: pipeListener where
  "Listen = \<lparr>pl_routine = Select, pl_accept = \<lambda>_. NoAccept, pl_close = \<lambda>_. NoClose, pl_handle = True, pl_done = False\<rparr>"

definition waiting_accept :: "routine \<Rightarrow> nat option" where
  "waiting_accept r = (case r of Connecting i \<Rightarrow> Some i | Aborting i \<Rightarrow> Some i | Responding i _ \<Rightarrow> Some i | _ \<Rightarrow> None)"

definition listener_inv :: "pipeListener \<Rightarrow> bool" where
  "listener_inv s \<longleftrightarrow> (pl_done s \<longleftrightarrow> pl_routine s = Ended) \<and> (pl_handle s \<longleftrightarrow> pl_routine s \<noteq> Ended) \<and>
     (\<forall>j. pl_close s j = CloseReturned \<longrightarrow> pl_done s) \<and> (\<forall>i. pl_accept s i = Awaiting \<longleftrightarrow> waiting_accept (pl_routine s) = Some i)"

lemma listener_exec_inv: "listener_inv s \<Longrightarrow> listener_inv (listener_exec op s)"
  by (cases op; cases "pl_routine s") (auto simp: listener_inv_def waiting_accept_def split: if_splits)

interpretation listeners: machine listener_exec "\<lambda>_. True" listener_inv
  by unfold_locales (rule listener_exec_inv)

lemma listener_reachable: "listener_inv (fold listener_exec ops Listen)"
  by (rule listeners.run_inv) (simp_all add: listener_inv_def Listen_def waiting_accept_def)

text \<open>
  However \<open>Accept\<close>s, \<open>Close\<close>s and clients interleave: when a \<open>Close\<close> has returned, the
  handle of the pipe is closed and the goroutine has ended, no \<open>Accept\<close> is waiting for a client,
  and whatever happens later every \<open>Accept\<close> that is still offered can only end with the error that the
  listener is closed.
\<close>

theorem close_ends_listener:
  assumes "pl_close (fold listener_exec ops Listen) j = CloseReturned"
  shows "\<not> pl_handle (fold listener_exec (ops @ later) Listen) \<and> pl_routine (fold listener_exec (ops @ later) Listen) = Ended \<and>
    (\<forall>i. pl_accept (fold listener_exec (ops @ later) Listen) i \<noteq> Awaiting) \<and>
    (\<forall>i. pl_accept (fold listener_exec (ops @ later) Listen) i = Offering \<longrightarrow>
      pl_accept (fold listener_exec (ops @ later @ [AcceptDone i]) Listen) i = Accepted (Failed NetClosed))"
proof -
  have ended: "pl_routine (fold listener_exec ops Listen) = Ended"
    using assms listener_reachable [of ops] by (auto simp: listener_inv_def)
  have stays: "pl_routine (fold listener_exec xs s) = Ended" if "pl_routine s = Ended" for xs s
    using that
  proof (induction xs arbitrary: s)
    case (Cons op xs)
    then have "pl_routine (listener_exec op s) = Ended" by (cases op) auto
    then show ?case using Cons.IH by simp
  qed simp
  let ?s = "fold listener_exec (ops @ later) Listen"
  have inv: "listener_inv ?s" by (rule listener_reachable)
  have "pl_routine ?s = Ended" using stays [OF ended] by simp
  then show ?thesis using inv by (auto simp: listener_inv_def waiting_accept_def)
qed

definition closed_while_connecting :: "listener_op list" where
  "closed_while_connecting = [AcceptCall 0, TakeAccept 0, CloseCall 0, AbortClose 0, AbortAnswer FileClosed, Respond, Leave, CloseDone 0, AcceptCall 1]"

theorem close_ends_listener_witness:
  "pl_close (fold listener_exec closed_while_connecting Listen) 0 = CloseReturned \<and>
   pl_routine (fold listener_exec (closed_while_connecting @ []) Listen) = Ended"
proof -
  have "pl_close (fold listener_exec closed_while_connecting Listen) 0 = CloseReturned" by code_simp
  with close_ends_listener [OF this, of "[]"] show ?thesis by blast
qed

text \<open>
  A \<open>Close\<close> can get lost: if the client of the pending connection is gone at the moment of the
  \<open>Close\<close>, the goroutine has taken the request but tries again; it then waits for a
  client, serves it, and waits for the next \<open>Accept\<close>, while the \<open>Close\<close> waits for ever.
\<close>

lemma close_lost:
  "pl_routine (fold listener_exec [AcceptCall 0, TakeAccept 0, CloseCall 0, AbortClose 0, AbortAnswer NoData] Listen) = Connecting 0"
  "pl_accept (fold listener_exec [AcceptCall 0, TakeAccept 0, CloseCall 0, AbortClose 0, AbortAnswer NoData, ConnectAnswer Connected, Respond] Listen) 0 =
    Accepted Conn"
  "pl_close (fold listener_exec [AcceptCall 0, TakeAccept 0, CloseCall 0, AbortClose 0, AbortAnswer NoData, ConnectAnswer Connected, Respond] Listen) 0 =
    CloseAwaiting"
  by code_simp+

section \<open>Dialling\<close>

datatype dial_error = DialCancelled string | BadPath string | OpenFailed nat | OwnerUnread nat | AccessDenied | InfoFailed nat | FileFailed nat

text \<open>One turn of \<open>tryDialPipe\<close>: the context is done, the pipe is busy, the open ends the loop.\<close>

datatype dial_turn = CtxDone string | Busy | Opened | NotOpened nat

text \<open>\<open>None\<close> when the turns given are used up.\<close>

fun tryDialPipe :: "dial_turn list \<Rightarrow> (dial_error, unit) result option" where
  "tryDialPipe [] = None"
| "tryDialPipe (t # ts) =
    (case t of CtxDone er \<Rightarrow> Some (Inl (DialCancelled er)) | Busy \<Rightarrow> tryDialPipe ts
     | Opened \<Rightarrow> Some (Inr ()) | NotOpened er \<Rightarrow> Some (Inl (OpenFailed er)))"

record dial_env =
  di_turns :: "dial_turn list"
  di_owner :: "(nat, string) result"
  di_info :: "(nat, bool) result"
  di_file :: "nat option"

text \<open>\<open>DialContext\<close>: the result, with whether the pipe is in message mode, and the handles left open.\<close>

definition DialContext :: "string option \<Rightarrow> dial_env \<Rightarrow> ((dial_error, bool) result \<times> nat) option" where
  "DialContext expected e =
    (case tryDialPipe (di_turns e) of None \<Rightarrow> None
     | Some (Inl er) \<Rightarrow> Some (Inl er, 0)
     | Some (Inr _) \<Rightarrow> Some
        (let owner = (case expected of None \<Rightarrow> None
             | Some sid \<Rightarrow> (case di_owner e of Inl er \<Rightarrow> Some (OwnerUnread er)
                 | Inr real \<Rightarrow> if real \<noteq> sid then Some AccessDenied else None))
         in case owner of Some er \<Rightarrow> (Inl er, 0)
            | None \<Rightarrow> (case di_info e of Inl er \<Rightarrow> (Inl (InfoFailed er), 0)
                | Inr message \<Rightarrow> (case di_file e of Some er \<Rightarrow> (Inl (FileFailed er), 0) | None \<Rightarrow> (Inr message, 1)))))"

text \<open>
  A dial that expects an owner connects to that owner's pipe only; an error leaves no
  handle; and the context ends the loop, whatever the pipe does before.
\<close>

theorem dial_checks_owner:
  assumes "DialContext (Some sid) e = Some (r, n)"
  shows "(\<forall>m. r = Inr m \<longrightarrow> di_owner e = Inr sid \<and> n = 1) \<and> (\<forall>er. r = Inl er \<longrightarrow> n = 0)"
  using assms by (auto simp: DialContext_def Let_def split: option.splits sum.splits if_splits)

lemma dial_ends:
  assumes "CtxDone x \<in> set (di_turns e)"
  shows "DialContext expected e \<noteq> None"
proof -
  have "CtxDone x \<in> set ts \<Longrightarrow> tryDialPipe ts \<noteq> None" for ts by (induction ts) (auto split: dial_turn.split)
  then obtain r where "tryDialPipe (di_turns e) = Some r" using assms by blast
  then show ?thesis by (cases r) (simp_all add: DialContext_def)
qed

section \<open>Message pipes as byte streams\<close>

record messageBytePipe =
  mp_writeClosed :: bool
  mp_readEOF :: bool

definition ERROR_MORE_DATA :: nat where "ERROR_MORE_DATA = 234"

definition mp_Read :: "nat \<Rightarrow> io_answer \<Rightarrow> messageBytePipe \<Rightarrow> (nat \<times> io_error option) \<times> messageBytePipe" where
  "mp_Read len a s =
    (if mp_readEOF s then ((0, Some EOF), s)
     else case file_Read len a of (n, err) \<Rightarrow>
       if err = Some EOF then ((n, err), s\<lparr>mp_readEOF := True\<rparr>)
       else if err = Some (Win ERROR_MORE_DATA) then ((n, None), s)
       else ((n, err), s))"

text \<open>\<open>Write\<close> on a buffer of length \<open>len\<close>.\<close>

definition mp_Write :: "nat \<Rightarrow> io_answer \<Rightarrow> messageBytePipe \<Rightarrow> nat \<times> io_error option" where
  "mp_Write len a s =
    (if mp_writeClosed s then (0, Some ErrClosedPipe) else if len = 0 then (0, None) else file_Write a)"

definition CloseWrite :: "nat option \<Rightarrow> io_answer \<Rightarrow> messageBytePipe \<Rightarrow> io_error option \<times> messageBytePipe" where
  "CloseWrite flush a s =
    (if mp_writeClosed s then (Some ErrClosedPipe, s)
     else case flush of Some er \<Rightarrow> (Some (Win er), s\<lparr>mp_writeClosed := False\<rparr>)
     | None \<Rightarrow> (case snd (file_Write a) of Some er \<Rightarrow> (Some er, s\<lparr>mp_writeClosed := False\<rparr>)
         | None \<Rightarrow> (None, s\<lparr>mp_writeClosed := True\<rparr>)))"

text \<open>The end of the stream is final on both sides, and a failing \<open>CloseWrite\<close> closes nothing.\<close>

theorem message_pipe_ends:
  "(mp_Read len a s = ((n, Some EOF), s') \<longrightarrow> mp_Read len2 a2 s' = ((0, Some EOF), s')) \<and>
   (CloseWrite flush a s = (None, s2) \<longrightarrow> mp_Write len2 a2 s2 = (0, Some ErrClosedPipe) \<and> CloseWrite flush2 a2 s2 = (Some ErrClosedPipe, s2)) \<and>
   (CloseWrite flush a s = (Some er, s3) \<longrightarrow> s3 = s)"
proof (intro conjI impI)
  show "mp_Read len2 a2 s' = ((0, Some EOF), s')" if "mp_Read len a s = ((n, Some EOF), s')"
  proof -
    have "mp_readEOF s'" using that by (auto simp: mp_Read_def split: prod.splits if_splits)
    then show ?thesis by (simp add: mp_Read_def)
  qed
  have "mp_writeClosed s2" if "CloseWrite flush a s = (None, s2)"
    using that by (auto simp: CloseWrite_def split: if_splits option.splits)
  then show "mp_Write len2 a2 s2 = (0, Some ErrClosedPipe)" "CloseWrite flush2 a2 s2 = (Some ErrClosedPipe, s2)"
    if "CloseWrite flush a s = (None, s2)" using that by (simp_all add: mp_Write_def CloseWrite_def)
  show "s3 = s" if "CloseWrite flush a s = (Some er, s3)"
    using that by (cases s) (auto simp: CloseWrite_def split: if_splits option.splits)
qed

section \<open>The descriptor of the service's pipe\<close>

definition DefaultNamedPipeSDDL :: string where
  "DefaultNamedPipeSDDL = ''D:PAI(A;OICI;GWGR;;;BU)(A;OICI;GWGR;;;SY)''"

text \<open>\<open>StartPipe\<close>: the user that the service is bound to, if there is one.\<close>

definition startPipeSDDL :: "string option \<Rightarrow> string" where
  "startPipeSDDL authorizedSID = (case authorizedSID of None \<Rightarrow> []
     | Some sid \<Rightarrow> ''D:PAI(A;OICI;GWGR;;;'' @ sid @ '')(A;OICI;GWGR;;;SY)'')"

text \<open>\<open>ListenNamedPipe\<close>; \<open>override\<close> is the value of the environment variable, empty if unset.\<close>

definition listenSDDL :: "string \<Rightarrow> string \<Rightarrow> string" where
  "listenSDDL override sddl0 =
    (let sddl = (if override \<noteq> [] then override else sddl0) in if sddl = [] then DefaultNamedPipeSDDL else sddl)"

text \<open>
  Bound to a user, and without the variable, the pipe admits that user and the system; not
  bound, all local users.
\<close>

lemma pipe_of_bound_user:
  "listenSDDL [] (startPipeSDDL (Some sid)) = ''D:PAI(A;OICI;GWGR;;;'' @ sid @ '')(A;OICI;GWGR;;;SY)''"
  "listenSDDL [] (startPipeSDDL None) = DefaultNamedPipeSDDL"
  by (simp_all add: listenSDDL_def startPipeSDDL_def)

end
