(* ===== verification/WindowsHost.thy ===== *)
theory WindowsHost
  imports KeyManager NamedPipe StartupNotify "HOL-Library.Word"
begin

unbundle bit_operations_syntax

text \<open>
  The host on Windows and the peers of connections there and on macOS: processor masks
  (\<open>core/process/process_affinity_windows.go\<close>, \<open>sys/cpu_affinity_windows.go\<close>), processor
  classes (\<open>sys/cpu_core_type_windows.go\<close>), access control lists
  (\<open>core/security/binary_windows.go\<close>, \<open>core/controller/endpoint_windows.go\<close>), threads that act
  for a client (\<open>route/auth/request_principal_windows.go\<close>,
  \<open>route/sysproxyapi/sysproxy_guard_runner_windows.go\<close>), the start-up hook's pipe
  (\<open>core/startup_notify_windows.go\<close>) and \<open>route/pipectx\<close>.
\<close>

section \<open>Processor masks\<close>

datatype mask_error = CPUTooLarge int | MaskUnread nat | CoreNotOpened nat | MaskNotSet nat

text \<open>The loop over the processors; \<open>bits.UintSize\<close> is 64.\<close>

fun affinity_mask :: "int list \<Rightarrow> 64 word \<Rightarrow> (mask_error, 64 word) result" where
  "affinity_mask [] mask_acc = Inr mask_acc"
| "affinity_mask (cpu # cpus) mask_acc =
    (if cpu < 0 \<or> 64 \<le> cpu then Inl (CPUTooLarge cpu) else affinity_mask cpus (mask_acc OR push_bit (nat cpu) 1))"

record mask_env =
  mk_service :: "(nat, 64 word) result"
  mk_open :: "nat option"
  mk_set :: "nat option"

text \<open>\<open>SetCPUAffinity\<close>: the mask of the process before and after.\<close>

definition win_SetCPUAffinity :: "mask_env \<Rightarrow> int list \<Rightarrow> 64 word \<Rightarrow> mask_error option \<times> 64 word" where
  "win_SetCPUAffinity e cpus old =
    (case (if cpus = [] then map_sum MaskUnread id (mk_service e) else affinity_mask cpus 0) of
       Inl er \<Rightarrow> (Some er, old)
     | Inr m \<Rightarrow>
        (case mk_open e of Some er \<Rightarrow> (Some (CoreNotOpened er), old)
         | None \<Rightarrow> (case mk_set e of Some er \<Rightarrow> (Some (MaskNotSet er), old) | None \<Rightarrow> (None, m))))"

text \<open>The processors of a mask, in rising order.\<close>

definition win_currentProcessCPUAffinity :: "(nat, 64 word) result \<Rightarrow> (nat, int list) result \<times> bool" where
  "win_currentProcessCPUAffinity r =
    (case r of Inl er \<Rightarrow> (Inl er, False)
     | Inr processMask \<Rightarrow> (Inr (filter (\<lambda>cpu. processMask AND push_bit (nat cpu) 1 \<noteq> 0) [0..63]), True))"

definition darwin_SetCPUAffinity :: "int list \<Rightarrow> int list option" where
  "darwin_SetCPUAffinity cpus = (if cpus = [] then None else Some cpus)"

lemma bit_mask_single: "(m AND push_bit n 1 \<noteq> 0) = bit (m :: 64 word) n" if "n < 64"
proof -
  have "m AND push_bit n 1 = (if bit m n then push_bit n 1 else 0)"
    by (rule bit_word_eqI) (use that in \<open>auto simp: bit_simps\<close>)
  moreover have "push_bit n 1 \<noteq> (0 :: 64 word)"
  proof
    assume "push_bit n 1 = (0 :: 64 word)"
    then have "bit (push_bit n (1 :: 64 word)) n = bit (0 :: 64 word) n" by (simp only:)
    then show False using that by (simp add: bit_simps)
  qed
  ultimately show ?thesis by simp
qed

lemma affinity_mask_bits:
  "affinity_mask cpus m0 = Inr m \<Longrightarrow> n < 64 \<Longrightarrow> bit m n \<longleftrightarrow> bit m0 n \<or> int n \<in> set cpus"
proof (induction cpus arbitrary: m0)
  case (Cons cpu cpus)
  then have r: "0 \<le> cpu" "cpu < 64" "affinity_mask cpus (m0 OR push_bit (nat cpu) 1) = Inr m" by (auto split: if_splits)
  have "bit (m0 OR push_bit (nat cpu) 1) n \<longleftrightarrow> bit m0 n \<or> int n = cpu"
    using r(1,2) Cons.prems(2) by (auto simp: bit_simps)
  then show ?case using Cons.IH [OF r(3) Cons.prems(2)] by auto
qed simp

lemma affinity_mask_range: "affinity_mask cpus m0 = Inr m \<Longrightarrow> \<forall>cpu\<in>set cpus. 0 \<le> cpu \<and> cpu < 64"
  by (induction cpus arbitrary: m0) (auto split: if_splits)

text \<open>
  A process bound to processors has exactly those in its mask, which reads back as the
  sorted list without repetitions.
\<close>

theorem mask_roundtrip:
  assumes "win_SetCPUAffinity e cpus old = (None, m)" "cpus \<noteq> []"
  shows "\<exists>l. win_currentProcessCPUAffinity (Inr m) = (Inr l, True) \<and> set l = set cpus \<and> sorted l \<and> distinct l"
proof -
  have m: "affinity_mask cpus 0 = Inr m"
    using assms by (auto simp: win_SetCPUAffinity_def split: sum.splits option.splits)
  let ?l = "filter (\<lambda>cpu. m AND push_bit (nat cpu) 1 \<noteq> 0) [0..63]"
  have "set ?l = set cpus"
  proof
    show "set ?l \<subseteq> set cpus"
    proof
      fix cpu assume "cpu \<in> set ?l"
      then have c: "0 \<le> cpu" "cpu \<le> 63" "m AND push_bit (nat cpu) 1 \<noteq> 0" by auto
      then have "bit m (nat cpu)" using bit_mask_single [of "nat cpu" m] by simp
      then show "cpu \<in> set cpus" using affinity_mask_bits [OF m, of "nat cpu"] c(1,2) by simp
    qed
    show "set cpus \<subseteq> set ?l"
    proof
      fix cpu assume cpu: "cpu \<in> set cpus"
      then have c: "0 \<le> cpu" "cpu < 64" using affinity_mask_range [OF m] by auto
      then have "bit m (nat cpu)" using affinity_mask_bits [OF m, of "nat cpu"] cpu by simp
      then show "cpu \<in> set ?l" using bit_mask_single [of "nat cpu" m] c by simp
    qed
  qed
  moreover have "sorted ?l" "distinct ?l" by (rule sorted_wrt_filter; simp)+ (simp add: distinct_filter)
  ultimately show ?thesis by (simp add: win_currentProcessCPUAffinity_def)
qed

section \<open>Processor classes\<close>

text \<open>\<open>binary.LittleEndian\<close>.\<close>

fun le_nat :: "8 word list \<Rightarrow> nat" where
  "le_nat [] = 0"
| "le_nat (b # bs) = unat b + 256 * le_nat bs"

definition field :: "8 word list \<Rightarrow> nat \<Rightarrow> nat \<Rightarrow> nat" where
  "field data offset n = le_nat (take n (drop offset data))"

definition note_cpu_set :: "8 word list \<Rightarrow> nat \<Rightarrow> (int \<rightharpoonup> int) \<Rightarrow> (int \<rightharpoonup> int)" where
  "note_cpu_set data offset classes =
    (if field data (offset + 4) 4 = 0
     then classes(int (field data (offset + 12) 2) * 64 + int (field data (offset + 14) 1) \<mapsto> int (field data (offset + 18) 1))
     else classes)"

function cpu_set_loop :: "8 word list \<Rightarrow> nat \<Rightarrow> (int \<rightharpoonup> int) \<Rightarrow> (int \<rightharpoonup> int)" where
  "cpu_set_loop data offset classes =
    (if length data < offset + 20 then classes
     else let recordSize = field data offset 4 in
       if recordSize < 20 \<or> length data < offset + recordSize then classes
       else cpu_set_loop data (offset + recordSize) (note_cpu_set data offset classes))"
  by pat_completeness auto

text \<open>A record has at least twenty bytes, so the offset grows.\<close>

termination by (relation "measure (\<lambda>(data, offset, classes). length data - offset)") (auto simp: Let_def)

declare cpu_set_loop.simps [simp del]

text \<open>\<open>None\<close> for a call that fails; no size means no classes.\<close>

definition win_cpuCoreClasses :: "nat \<Rightarrow> 8 word list option \<Rightarrow> (int \<rightharpoonup> int)" where
  "win_cpuCoreClasses n answer =
    (if n = 0 then Map.empty else case answer of None \<Rightarrow> Map.empty | Some data \<Rightarrow> cpu_set_loop data 0 Map.empty)"

text \<open>The records as the system documents them, to compare with.\<close>

record cpu_set =
  cs_type :: nat
  cs_id :: "8 word list"
  cs_group :: nat
  cs_logical :: "8 word"
  cs_mid :: "8 word list"
  cs_class :: "8 word"
  cs_rest :: "8 word list"

fun le_bytes :: "nat \<Rightarrow> nat \<Rightarrow> 8 word list" where
  "le_bytes 0 n = []"
| "le_bytes (Suc k) n = of_nat n # le_bytes k (n div 256)"

definition cpu_set_bytes :: "cpu_set \<Rightarrow> 8 word list" where
  "cpu_set_bytes c = le_bytes 4 (19 + length (cs_rest c)) @ le_bytes 4 (cs_type c) @ cs_id c @ le_bytes 2 (cs_group c) @
     [cs_logical c] @ cs_mid c @ [cs_class c] @ cs_rest c"

definition good_cpu_set :: "cpu_set \<Rightarrow> bool" where
  "good_cpu_set c \<longleftrightarrow> length (cs_id c) = 4 \<and> length (cs_mid c) = 3 \<and> cs_rest c \<noteq> [] \<and> 19 + length (cs_rest c) < 2 ^ 32 \<and>
     cs_type c < 2 ^ 32 \<and> cs_group c < 2 ^ 16"

definition cpu_set_class :: "cpu_set \<Rightarrow> (int \<rightharpoonup> int) \<Rightarrow> (int \<rightharpoonup> int)" where
  "cpu_set_class c classes =
    (if cs_type c = 0 then classes(int (cs_group c) * 64 + uint (cs_logical c) \<mapsto> uint (cs_class c)) else classes)"

lemma le_roundtrip: "n < 256 ^ k \<Longrightarrow> le_nat (le_bytes k n) = n"
proof (induction k arbitrary: n)
  case (Suc k)
  then have "n div 256 < 256 ^ k" by (simp add: less_mult_imp_div_less mult.commute)
  then show ?case using Suc.IH [of "n div 256"] by (simp add: unat_of_nat)
qed simp

lemma le_length [simp]: "length (le_bytes k n) = k"
  by (induction k arbitrary: n) auto

lemma field_at:
  assumes "length pre = offset" "length x = n"
  shows "field (pre @ x @ post) offset n = le_nat x"
  using assms by (simp add: field_def)

lemma cpu_set_fields:
  fixes pre post :: "8 word list"
  assumes "good_cpu_set c" "length pre = offset"
  defines "data \<equiv> pre @ cpu_set_bytes c @ post"
  shows "field data offset 4 = 19 + length (cs_rest c)" "note_cpu_set data offset classes = cpu_set_class c classes"
    "length (cpu_set_bytes c) = 19 + length (cs_rest c)"
proof -
  have lens: "length (cs_id c) = 4" "length (cs_mid c) = 3" using assms(1) by (simp_all add: good_cpu_set_def)
  let ?s = "le_bytes 4 (19 + length (cs_rest c))" and ?t = "le_bytes 4 (cs_type c)" and ?g = "le_bytes 2 (cs_group c)"
  have d0: "data = pre @ ?s @ (?t @ cs_id c @ ?g @ [cs_logical c] @ cs_mid c @ [cs_class c] @ cs_rest c @ post)"
    and d4: "data = (pre @ ?s) @ ?t @ (cs_id c @ ?g @ [cs_logical c] @ cs_mid c @ [cs_class c] @ cs_rest c @ post)"
    and d12: "data = (pre @ ?s @ ?t @ cs_id c) @ ?g @ ([cs_logical c] @ cs_mid c @ [cs_class c] @ cs_rest c @ post)"
    and d14: "data = (pre @ ?s @ ?t @ cs_id c @ ?g) @ [cs_logical c] @ (cs_mid c @ [cs_class c] @ cs_rest c @ post)"
    and d18: "data = (pre @ ?s @ ?t @ cs_id c @ ?g @ [cs_logical c] @ cs_mid c) @ [cs_class c] @ (cs_rest c @ post)"
    unfolding data_def cpu_set_bytes_def by (simp_all only: append_assoc)
  show "field data offset 4 = 19 + length (cs_rest c)"
    unfolding d0 using assms(1,2) by (subst field_at) (simp_all add: le_roundtrip good_cpu_set_def)
  have "field data (offset + 4) 4 = cs_type c"
    unfolding d4 using assms(1,2) by (subst field_at) (simp_all add: le_roundtrip good_cpu_set_def)
  moreover have "field data (offset + 12) 2 = cs_group c"
    unfolding d12 using assms(1,2) lens by (subst field_at) (simp_all add: le_roundtrip good_cpu_set_def)
  moreover have "field data (offset + 14) 1 = unat (cs_logical c)"
    unfolding d14 using assms(2) lens by (subst field_at) simp_all
  moreover have "field data (offset + 18) 1 = unat (cs_class c)"
    unfolding d18 using assms(2) lens by (subst field_at) simp_all
  ultimately show "note_cpu_set data offset classes = cpu_set_class c classes"
    by (simp add: note_cpu_set_def cpu_set_class_def)
  show "length (cpu_set_bytes c) = 19 + length (cs_rest c)" using lens by (simp add: cpu_set_bytes_def)
qed

lemma cpu_set_loop_records:
  assumes "\<forall>c\<in>set cs. good_cpu_set c" "length post < 20" "length pre = offset"
  shows "cpu_set_loop (pre @ concat (map cpu_set_bytes cs) @ post) offset classes = fold cpu_set_class cs classes"
  using assms(1,3)
proof (induction cs arbitrary: pre offset classes)
  case Nil
  then show ?case using assms(2) by (subst cpu_set_loop.simps) simp
next
  case (Cons c cs)
  then have good: "good_cpu_set c" "cs_rest c \<noteq> []" by (simp_all add: good_cpu_set_def)
  let ?tail = "concat (map cpu_set_bytes cs) @ post"
  let ?data = "pre @ cpu_set_bytes c @ ?tail"
  note f = cpu_set_fields(1,2) [OF good(1) Cons.prems(2), where post = ?tail] cpu_set_fields(3) [OF good(1) Cons.prems(2)]
  have n: "20 \<le> 19 + length (cs_rest c)" using good(2) by (cases "cs_rest c") auto
  have "cpu_set_loop ?data offset classes = cpu_set_loop ?data (offset + (19 + length (cs_rest c))) (cpu_set_class c classes)"
    using n good(2) Cons.prems(2) f(1,3) by (subst cpu_set_loop.simps) (simp add: f(2))
  also have "\<dots> = fold cpu_set_class cs (cpu_set_class c classes)"
    using Cons.IH [of "pre @ cpu_set_bytes c" "offset + (19 + length (cs_rest c))" "cpu_set_class c classes"] Cons.prems f(3) by simp
  finally show ?case by simp
qed

text \<open>
  The classes of the processors are read from the records as the system lays them out:
  each record of the type for processor sets gives its processor its class, the last one
  wins, and other records and a rest of fewer than twenty bytes are passed over.
\<close>

theorem cpu_classes_roundtrip:
  assumes "\<forall>c\<in>set cs. good_cpu_set c" "length post < 20" "n > 0"
  shows "win_cpuCoreClasses n (Some (concat (map cpu_set_bytes cs) @ post)) = fold cpu_set_class cs Map.empty"
  using cpu_set_loop_records [OF assms(1,2), of "[]" 0 Map.empty] assms(3) by (simp add: win_cpuCoreClasses_def)

end
