(* ===== verification/WindowsAccess.thy ===== *)
theory WindowsAccess
  imports KeyManagerProps PeerIdentity NamedPipe
begin

text \<open>
  Who may do what on Windows and macOS: access control lists
  (\<open>core/security/binary_windows.go\<close>, \<open>core/controller/endpoint_windows.go\<close>), threads that act
  for a client (\<open>route/auth/request_principal_windows.go\<close>,
  \<open>route/sysproxyapi/sysproxy_guard_runner_windows.go\<close>), the pipe of the start-up hook
  (\<open>core/startup_notify_windows.go\<close>), and the peers of connections (\<open>route/pipectx\<close>).
\<close>

section \<open>Access control lists\<close>

datatype permissions = GenericAll | ReadExecute

record accessEntry =
  ace_sid :: string
  ace_group :: bool
  ace_inherit :: bool
  ace_permissions :: permissions

text \<open>The answers: the identifiers, the list and its setting by path.\<close>

record acl_env =
  ac_current :: "(string, string) result"
  ac_system :: "(string, string) result"
  ac_admins :: "(string, string) result"
  ac_users :: "(string, string) result"
  ac_list :: "string option"
  ac_set :: "string \<Rightarrow> string option"

text \<open>The protected list of a path: it replaces what the path inherited.\<close>

type_synonym acls = "string \<rightharpoonup> accessEntry list"

definition accessEntry_of :: "string \<Rightarrow> bool \<Rightarrow> bool \<Rightarrow> permissions \<Rightarrow> accessEntry" where
  "accessEntry_of sid is_group inheritance permissions =
    \<lparr>ace_sid = sid, ace_group = is_group, ace_inherit = inheritance, ace_permissions = permissions\<rparr>"

definition RestrictPath :: "acl_env \<Rightarrow> string \<Rightarrow> bool \<Rightarrow> bool \<Rightarrow> acls \<Rightarrow> string option \<times> acls" where
  "RestrictPath e path inheritance allowUsersReadExecute fs =
    (case ac_current e of Inl er \<Rightarrow> (Some er, fs)
     | Inr current \<Rightarrow>
    (case ac_system e of Inl er \<Rightarrow> (Some er, fs)
     | Inr system \<Rightarrow>
    (case ac_admins e of Inl er \<Rightarrow> (Some er, fs)
     | Inr admins \<Rightarrow>
      (let entries = [accessEntry_of current False inheritance GenericAll, accessEntry_of system False inheritance GenericAll,
             accessEntry_of admins True inheritance GenericAll];
           set_list = (\<lambda>l. case ac_list e of Some er \<Rightarrow> (Some er, fs)
             | None \<Rightarrow> (case ac_set e path of Some er \<Rightarrow> (Some er, fs) | None \<Rightarrow> (None, fs(path \<mapsto> l))))
       in if allowUsersReadExecute
          then case ac_users e of Inl er \<Rightarrow> (Some er, fs)
            | Inr users \<Rightarrow> set_list (entries @ [accessEntry_of users True inheritance ReadExecute])
          else set_list entries))))"

text \<open>\<open>skip_env\<close> is the value of \<open>SPARKLE_SKIP_CORE_ACL_HARDENING\<close>.\<close>

definition win_SecureBinary :: "acl_env \<Rightarrow> string \<Rightarrow> string \<Rightarrow> string \<Rightarrow> bool \<Rightarrow> acls \<Rightarrow> string option \<times> acls" where
  "win_SecureBinary e skip_env dir corePath skipHardening fs =
    (if skipHardening \<or> skip_env = ''1'' then (None, fs)
     else case RestrictPath e dir True True fs of (Some er, fs1) \<Rightarrow> (Some er, fs1)
       | (None, fs1) \<Rightarrow> RestrictPath e corePath False True fs1)"

definition win_HardenEndpoint :: "acl_env \<Rightarrow> string \<Rightarrow> string \<Rightarrow> acls \<Rightarrow> string option \<times> acls" where
  "win_HardenEndpoint e network address fs =
    (if network \<noteq> ''pipe'' then (None, fs) else RestrictPath e address False False fs)"

definition may_change :: "acls \<Rightarrow> string \<Rightarrow> string \<Rightarrow> bool" where
  "may_change fs path sid \<longleftrightarrow> (case fs path of None \<Rightarrow> True
     | Some l \<Rightarrow> \<exists>a\<in>set l. ace_sid a = sid \<and> ace_permissions a = GenericAll)"

lemma RestrictPath_ok:
  assumes "RestrictPath e path i u fs = (None, fs')"
  shows "fs' = fs(path \<mapsto> the (fs' path))" "\<forall>a\<in>set (the (fs' path)). ace_permissions a = GenericAll \<longrightarrow>
      Inr (ace_sid a) \<in> {ac_current e, ac_system e, ac_admins e}"
    "\<not> u \<Longrightarrow> \<forall>a\<in>set (the (fs' path)). ace_permissions a = GenericAll"
  using assms
  by (auto simp: RestrictPath_def accessEntry_of_def Let_def split: sum.splits option.splits if_splits)

text \<open>
  After the core was hardened on Windows, its file and its directory can be changed only by
  the user of the service, the system and the administrators, unless hardening is switched
  off.
\<close>

theorem hardened_core_protected:
  assumes "win_SecureBinary e skip_env dir corePath skip fs = (None, fs')" "\<not> skip" "skip_env \<noteq> ''1''"
    and "p \<in> {dir, corePath}" "may_change fs' p sid"
  shows "Inr sid \<in> {ac_current e, ac_system e, ac_admins e}"
proof -
  obtain fs1 where r: "RestrictPath e dir True True fs = (None, fs1)" "RestrictPath e corePath False True fs1 = (None, fs')"
    using assms(1-3) by (auto simp: win_SecureBinary_def split: prod.splits option.splits)
  let ?trusted = "{ac_current e, ac_system e, ac_admins e}"
  define l1 l2 where "l1 = the (fs1 dir)" and "l2 = the (fs' corePath)"
  have l1: "fs1 = fs(dir \<mapsto> l1)" "\<forall>a\<in>set l1. ace_permissions a = GenericAll \<longrightarrow> Inr (ace_sid a) \<in> ?trusted"
    using RestrictPath_ok(1,2) [OF r(1)] unfolding l1_def by blast+
  have l2: "fs' = fs1(corePath \<mapsto> l2)" "\<forall>a\<in>set l2. ace_permissions a = GenericAll \<longrightarrow> Inr (ace_sid a) \<in> ?trusted"
    using RestrictPath_ok(1,2) [OF r(2)] unfolding l2_def by blast+
  obtain l where l: "fs' p = Some l" "l = l1 \<or> l = l2"
    using assms(4) l1(1) l2(1) by (cases "p = corePath") auto
  obtain a where "a \<in> set l" "ace_sid a = sid" "ace_permissions a = GenericAll"
    using assms(5) by (auto simp: may_change_def l(1))
  then show ?thesis using l(2) l1(2) l2(2) by blast
qed

definition sample_acls :: acl_env where
  "sample_acls = \<lparr>ac_current = Inr ''S-1-5-21-7'', ac_system = Inr ''S-1-5-18'', ac_admins = Inr ''S-1-5-32-544'',
     ac_users = Inr ''S-1-5-32-545'', ac_list = None, ac_set = \<lambda>_. None\<rparr>"

theorem hardened_core_protected_witness:
  "fst (win_SecureBinary sample_acls [] ''C:'' ''C:mihomo.exe'' False Map.empty) = None \<and>
   \<not> may_change (snd (win_SecureBinary sample_acls [] ''C:'' ''C:mihomo.exe'' False Map.empty)) ''C:mihomo.exe'' ''S-1-5-32-545''"
proof -
  obtain r fs' where s: "win_SecureBinary sample_acls [] ''C:'' ''C:mihomo.exe'' False Map.empty = (r, fs')" by fastforce
  have "fst (win_SecureBinary sample_acls [] ''C:'' ''C:mihomo.exe'' False Map.empty) = None" by code_simp
  then have "r = None" using s by simp
  then have "may_change fs' ''C:mihomo.exe'' ''S-1-5-32-545'' \<Longrightarrow> Inr ''S-1-5-32-545'' \<in> {ac_current sample_acls, ac_system sample_acls, ac_admins sample_acls}"
    using hardened_core_protected [of sample_acls "[]" "''C:''" "''C:mihomo.exe''" False Map.empty fs' "''C:mihomo.exe''" "''S-1-5-32-545''"] s
    by simp
  then show ?thesis using s \<open>r = None\<close> by (auto simp: sample_acls_def)
qed

section \<open>Threads that act for a client\<close>

text \<open>How often the goroutine is locked to the thread, and whose token the thread has.\<close>

record os_thread =
  th_locked :: nat
  th_token :: "string option"

record client_env =
  ce_impersonate :: "string option"
  ce_open :: "string option"
  ce_user :: "(string, string) result"
  ce_revert :: "string option"

definition lock_thread :: "os_thread \<Rightarrow> os_thread" where
  "lock_thread t = t\<lparr>th_locked := Suc (th_locked t)\<rparr>"

definition unlock_thread :: "os_thread \<Rightarrow> os_thread" where
  "unlock_thread t = t\<lparr>th_locked := th_locked t - 1\<rparr>"

definition RevertToSelf :: "client_env \<Rightarrow> os_thread \<Rightarrow> string option \<times> os_thread" where
  "RevertToSelf e t = (case ce_revert e of Some er \<Rightarrow> (Some er, t) | None \<Rightarrow> (None, t\<lparr>th_token := None\<rparr>))"

text \<open>\<open>client\<close> is the user at the other end of the pipe; the deferred calls run last to first.\<close>

definition getPipeClientSID :: "client_env \<Rightarrow> string option \<Rightarrow> os_thread \<Rightarrow> (string, string) result \<times> os_thread" where
  "getPipeClientSID e client t0 =
    (case client of None \<Rightarrow> (Inl ''invalid handle'', t0)
     | Some user \<Rightarrow>
      (let t = lock_thread t0 in
       case ce_impersonate e of Some er \<Rightarrow> (Inl er, unlock_thread t)
       | None \<Rightarrow>
          (let t1 = t\<lparr>th_token := Some user\<rparr>;
               r = (case ce_open e of Some er \<Rightarrow> Inl er | None \<Rightarrow> ce_user e)
           in (r, unlock_thread (snd (RevertToSelf e t1))))))"

text \<open>
  \<open>run\<close> of the guard's runner: \<open>fn\<close> gets the token of the thread and the settings; an error of
  \<open>fn\<close> goes before one of the return to the service's own token.
\<close>

definition token_run ::
    "client_env \<Rightarrow> string option \<Rightarrow> (string option \<Rightarrow> 's \<Rightarrow> string option \<times> 's) \<Rightarrow> 's \<Rightarrow> os_thread \<Rightarrow> string option \<times> 's \<times> os_thread" where
  "token_run e token fn s t0 =
    (case token of None \<Rightarrow> (Some ''no token'', s, t0)
     | Some user \<Rightarrow>
      (let t = lock_thread t0 in
       case ce_impersonate e of Some er \<Rightarrow> (Some er, s, unlock_thread t)
       | None \<Rightarrow>
          (case fn (Some user) s of (err, s') \<Rightarrow>
           (case RevertToSelf e (t\<lparr>th_token := Some user\<rparr>) of (revertErr, t1) \<Rightarrow>
             (if err = None then revertErr else err, s', unlock_thread t1)))))"

text \<open>
  A thread that acted for a client has the service's own token again afterwards and is as
  free as before, and the settings were touched with the client's token only; whenever the
  system can give the token back.
\<close>

theorem client_token_given_back:
  assumes "th_token t = None" "ce_revert e = None"
  shows "(getPipeClientSID e client t = (r, t') \<longrightarrow> t' = t) \<and>
    (token_run e token fn s t = (err, s', t'') \<longrightarrow> t'' = t \<and> (s' = s \<or> (\<exists>user. token = Some user \<and> s' = snd (fn (Some user) s))))"
  using assms
  by (cases t) (auto simp: getPipeClientSID_def token_run_def RevertToSelf_def lock_thread_def unlock_thread_def Let_def
      split: option.splits prod.splits)

text \<open>
  If it cannot, the thread is unlocked all the same and goes on to serve other goroutines
  with the client's token; \<open>getPipeClientSID\<close> does not even report it.
\<close>

lemma client_token_kept:
  assumes "ce_revert e = Some er" "ce_impersonate e = None" "ce_open e = None" "ce_user e = Inr user" "th_locked t = 0"
  shows "getPipeClientSID e (Some user) t = (Inr user, \<lparr>th_locked = 0, th_token = Some user\<rparr>)"
  using assms by (cases t) (simp add: getPipeClientSID_def RevertToSelf_def lock_thread_def unlock_thread_def)

section \<open>Peers\<close>

text \<open>Windows: the connection's handle, if it is a pipe's; 0 is no handle.\<close>

definition RequestPipeHandle :: "nat option \<Rightarrow> nat option" where
  "RequestPipeHandle ctx = (case ctx of None \<Rightarrow> None | Some h \<Rightarrow> if h = 0 then None else Some h)"

definition win_request_peer :: "client_env \<Rightarrow> (nat \<Rightarrow> string option) \<Rightarrow> nat option \<Rightarrow> os_thread \<Rightarrow> peer" where
  "win_request_peer e client_of ctx t =
    (case RequestPipeHandle ctx of None \<Rightarrow> NoPeer | Some h \<Rightarrow> PipePeer (fst (getPipeClientSID e (client_of h) t)))"

text \<open>macOS: the credentials of the socket; the group may be missing.\<close>

record DarwinPeerInfo =
  dp_UID :: "32 word"
  dp_GID :: "32 word option"

record xucred =
  xu_uid :: "32 word"
  xu_groups :: "32 word list"

definition getDarwinPeerInfo :: "bool \<Rightarrow> string option \<Rightarrow> string option \<Rightarrow> (string, xucred) result \<Rightarrow> DarwinPeerInfo option" where
  "getDarwinPeerInfo syscallConn rawConn control cred =
    (if \<not> syscallConn \<or> rawConn \<noteq> None \<or> control \<noteq> None then None
     else case cred of Inl er \<Rightarrow> None
     | Inr c \<Rightarrow> Some \<lparr>dp_UID = xu_uid c, dp_GID = (case xu_groups c of [] \<Rightarrow> None | g # _ \<Rightarrow> Some g)\<rparr>)"

definition darwin_request_peer :: "DarwinPeerInfo option \<Rightarrow> peer" where
  "darwin_request_peer info = (case info of None \<Rightarrow> NoPeer | Some i \<Rightarrow> UnixPeer (dp_UID i))"

definition darwin_launch_options :: "DarwinPeerInfo option \<Rightarrow> launchOption list" where
  "darwin_launch_options info = (case info of None \<Rightarrow> [] | Some i \<Rightarrow> (case dp_GID i of None \<Rightarrow> [] | Some g \<Rightarrow> [WithLogFileGroup g]))"

text \<open>
  A request that passes the check of the principal on Windows comes from a pipe whose client
  the system named with the bound identifier, on macOS from a socket with the bound user;
  a binding to one kind of principal never admits the other.
\<close>

theorem principal_of_other_systems:
  assumes "authorizedPrincipal km = Some pr"
  shows "(VerifyRequestPrincipal km (win_request_peer e client_of ctx t) = None \<longrightarrow>
      PType pr = ''sid'' \<and> (\<exists>h user. ctx = Some h \<and> h \<noteq> 0 \<and> client_of h = Some user \<and> ce_impersonate e = None \<and> ce_user e = Inr (PValue pr))) \<and>
    (VerifyRequestPrincipal km (darwin_request_peer info) = None \<longrightarrow>
      PType pr = ''uid'' \<and> (\<exists>i. info = Some i \<and> PValue pr = FormatUint (unat (dp_UID i))))"
  using assms
  by (auto simp: VerifyRequestPrincipal_def win_request_peer_def darwin_request_peer_def RequestPipeHandle_def getRequestPrincipal_def
      getPipeClientSID_def Let_def split: option.splits sum.splits if_splits)

section \<open>The start-up hook and the controller's pipe\<close>

definition currentProcessPipeSDDL :: "(string, string) result \<Rightarrow> string" where
  "currentProcessPipeSDDL sid = (case sid of Inl er \<Rightarrow> ''D:P(A;;GA;;;SY)(A;;GA;;;BA)''
     | Inr s \<Rightarrow> ''D:P(A;;GA;;;'' @ s @ '')(A;;GA;;;SY)(A;;GA;;;BA)'')"

definition startupNotifyExecutableEnv :: string where
  "startupNotifyExecutableEnv = ''SPARKLE_CORE_STARTUP_NOTIFY_EXECUTABLE''"

text \<open>\<open>startupNotifyCommand\<close>: the command names a variable, whose value is the quoted path.\<close>

definition win_startupNotifyCommand :: "(string, string) result \<Rightarrow> (notify_error, string \<times> string) result" where
  "win_startupNotifyCommand executable = (case executable of Inl er \<Rightarrow> Inl (NoExecutable er)
     | Inr path \<Rightarrow> Inr (''%'' @ startupNotifyExecutableEnv @ ''%'', [CHR 0x22] @ path @ [CHR 0x22]))"

definition pipe_prefix :: string where
  "pipe_prefix = [CHR 0x5C, CHR 0x5C] @ ''.'' @ [CHR 0x5C] @ ''pipe'' @ [CHR 0x5C] @ ''sparkle'' @ [CHR 0x5C]"

text \<open>
  The pipes that are listened on, with their descriptors; \<open>override\<close> is the variable that
  replaces the descriptor of every pipe of the service.
\<close>

type_synonym pipes = "string \<rightharpoonup> string"

definition win_createNativeStartupHook ::
    "string \<Rightarrow> (string, string) result \<Rightarrow> string option \<Rightarrow> (string, string) result \<Rightarrow> string \<Rightarrow> pipes \<Rightarrow> (notify_error, coreStartupHook) result \<times> pipes" where
  "win_createNativeStartupHook override sid listen_er executable token ps =
    (let pipePath = pipe_prefix @ ''core-notify-'' @ token in
     case listen_er of Some er \<Rightarrow> (Inl (ListenNotify er), ps)
     | None \<Rightarrow>
        (let ps1 = ps(pipePath \<mapsto> listenSDDL override (currentProcessPipeSDDL sid)) in
         case win_startupNotifyCommand executable of Inl er \<Rightarrow> (Inl er, ps1(pipePath := None))
         | Inr (command, exe) \<Rightarrow>
            (Inr \<lparr>hk_upFile = pipePath, hk_postUpCommand = command, hk_postDownCommand = noopShellCommand,
               hk_env = startupNotificationEnv ''pipe'' pipePath token @ [(startupNotifyExecutableEnv, exe)]\<rparr>, ps1)))"

definition win_sendNativeStartupNotification ::
    "(string \<Rightarrow> string option) \<Rightarrow> string option \<Rightarrow> string \<Rightarrow> string \<Rightarrow> string \<Rightarrow> (string, string \<times> bytes) result" where
  "win_sendNativeStartupNotification dial write network address token =
    (if network \<noteq> ''pipe'' then Inl ''network''
     else case dial address of Some er \<Rightarrow> Inl er
     | None \<Rightarrow> (case write of Some er \<Rightarrow> Inl er | None \<Rightarrow> Inr (address, token)))"

definition win_CreatePrivateEndpoint :: "(string, bytes) result \<Rightarrow> (string, string \<times> string) result" where
  "win_CreatePrivateEndpoint source = (case source of Inl er \<Rightarrow> Inl er
     | Inr data \<Rightarrow> Inr (''pipe'', pipe_prefix @ ''mihomo-core-'' @ hex_encode data))"

definition win_EndpointReachable :: "(string \<Rightarrow> bool) \<Rightarrow> string \<Rightarrow> string \<Rightarrow> bool" where
  "win_EndpointReachable dial network address \<longleftrightarrow> network = ''pipe'' \<and> dial address"

text \<open>
  Creating the hook leaves its pipe, which only the service's user, the system and the
  administrators may open (if no variable replaces its descriptor), or nothing; and the notification of a core that got the hook's
  environment arrives at that pipe with the token.
\<close>

theorem pipe_hook_roundtrip:
  assumes "win_createNativeStartupHook [] sid listen_er executable token ps = (r, ps')" "ps (pipe_prefix @ ''core-notify-'' @ token) = None"
  shows "(\<forall>er. r = Inl er \<longrightarrow> ps' = ps) \<and>
    (\<forall>hook. r = Inr hook \<longrightarrow> ps' = ps(hk_upFile hook \<mapsto> currentProcessPipeSDDL sid) \<and>
      win_sendNativeStartupNotification (\<lambda>a. if ps' a = None then Some ''no pipe'' else None) None
        (the (map_of (hk_env hook) startupNotifyNetworkEnv)) (the (map_of (hk_env hook) startupNotifyAddressEnv))
        (the (map_of (hk_env hook) startupNotifyTokenEnv)) = Inr (hk_upFile hook, token))"
proof -
  have sddl: "listenSDDL [] (currentProcessPipeSDDL sid) = currentProcessPipeSDDL sid"
    by (auto simp: listenSDDL_def currentProcessPipeSDDL_def Let_def split: sum.split)
  show ?thesis
    using assms unfolding sddl win_createNativeStartupHook_def Let_def
    by (auto simp: fun_upd_idem win_sendNativeStartupNotification_def startupNotificationEnv_def startupNotifyModeEnv_def
        startupNotifyNetworkEnv_def startupNotifyAddressEnv_def startupNotifyTokenEnv_def sddl split: option.splits sum.splits)
qed

section \<open>The guard's runner on Windows\<close>

definition ERROR_NO_TOKEN :: nat where "ERROR_NO_TOKEN = 1008"

text \<open>
  The runner is the duplicated token of the request's thread, or nothing if the thread has
  none; the number counts the open handles of tokens.
\<close>

definition win_captureSysproxyGuardRunner ::
    "nat option \<Rightarrow> string option \<Rightarrow> string \<Rightarrow> nat \<Rightarrow> (string, string option) result \<times> nat" where
  "win_captureSysproxyGuardRunner open_er dup_er user handles =
    (case open_er of
       Some er \<Rightarrow> (if er = ERROR_NO_TOKEN then Inr None else Inl ''open'', handles)
     | None \<Rightarrow> (case dup_er of Some er \<Rightarrow> (Inl er, handles + 1 - 1) | None \<Rightarrow> (Inr (Some user), handles + 1 + 1 - 1)))"

definition windowsSysproxyGuardQueryOptions :: "Options option \<Rightarrow> Options" where
  "windowsSysproxyGuardQueryOptions opts =
    (let q = cloneSysproxyOptions opts in if op_Device q = [] then q\<lparr>op_UseRegistry := True\<rparr> else q)"

definition token_Close :: "string option \<Rightarrow> string option \<Rightarrow> nat \<Rightarrow> string option \<times> string option \<times> nat" where
  "token_Close close_er token handles =
    (if token = None then (None, None, handles) else (close_er, None, if close_er = None then handles - 1 else handles))"

lemma runner_handles:
  assumes "win_captureSysproxyGuardRunner open_er dup_er user n = (r, m)"
  shows "(\<forall>er. r = Inl er \<longrightarrow> m = n) \<and> (\<forall>token. r = Inr token \<longrightarrow> token_Close None token m = (None, None, n))"
  using assms by (auto simp: win_captureSysproxyGuardRunner_def token_Close_def split: option.splits if_splits)

section \<open>The pipe for TrafficMonitor\<close>

text \<open>
  The proxy runs for a core with a pipe controller; a request is answered with 404 or goes to
  the controller, always to the same address.
\<close>

definition startTrafficMonitorProxy :: "(string \<times> string) option \<Rightarrow> string option \<Rightarrow> (string, string option) result" where
  "startTrafficMonitorProxy launch listen_er =
    (case launch of None \<Rightarrow> Inr None
     | Some (net, addr) \<Rightarrow> if net \<noteq> ''pipe'' \<or> addr = [] then Inr None
         else case listen_er of Some er \<Rightarrow> Inl er | None \<Rightarrow> Inr (Some addr))"

datatype monitor_answer = NotFound | Forward string string string string

text \<open>Scheme, host, path and query of the forwarded request.\<close>

definition trafficMonitorHandler :: "string \<Rightarrow> string \<Rightarrow> string \<Rightarrow> monitor_answer" where
  "trafficMonitorHandler verb path query =
    (if verb \<noteq> ''GET'' \<or> path \<noteq> ''/traffic'' then NotFound else Forward ''http'' ''mihomo.local'' ''/traffic'' [])"

lemma monitor_forwards_traffic_only:
  "trafficMonitorHandler verb path query \<noteq> NotFound \<Longrightarrow>
   verb = ''GET'' \<and> path = ''/traffic'' \<and> trafficMonitorHandler verb path query = Forward ''http'' ''mihomo.local'' ''/traffic'' []"
  by (simp add: trafficMonitorHandler_def split: if_splits)

end
