(* ===== verification/Spec2Isabelle.thy ===== *)
theory Spec2Isabelle
  imports AuthMiddlewareProps LogWatchProps LogWriterProps DesiredState SysproxyEvents CoreMachineProps SysproxyGuardProps
    WebSocketProps SandboxRootProps LanternProps LauncherProps
    ProcessControlProps ControllerProxy CpuSetsProps StartupNotifyProps CoreApiProps ServerProps Router
    ServiceRuntimeProps CommandLineProps SandboxReexecProps SandboxLayout EventStream PeerIdentity Logger SystemInfo
    WindowsProcessProps DarwinForwarding WindowsHost WindowsAccess
begin

text \<open>
  Verification of \<open>sparkle-service\<close>, the privileged helper of the Sparkle desktop client: a
  daemon that runs a proxy core (mihomo) on behalf of one user, keeps the desktop's proxy
  settings in place and can turn the host into a LAN gateway.  Clients talk to it over a
  Unix socket (a named pipe on Windows) with signed HTTP requests.

  \<^bold>\<open>Parts and their theories.\<close>

  \<^item> Foundations.  \<open>Prelude\<close> holds results (a sum of error and value), Go's time values with
    saturating durations, channels, and generic lemmas.  \<open>GoStrings\<close>, \<open>GoCodec\<close> and \<open>GoFiles\<close>
    model what the sources use of Go's \<open>strings\<close>, \<open>strconv\<close>, \<open>encoding/base64\<close>,
    \<open>encoding/hex\<close> and \<open>path/filepath\<close>, on lists of bytes; \<open>GoFiles\<close> also holds the disk, a
    map from paths to contents.

  \<^item> Authentication (\<open>route/auth\<close>).  \<open>KeyManager\<close> models the key ring, the binding to one
    principal and their files; \<open>NonceStore\<close> the memory against replays; \<open>CanonicalQuery\<close> and
    \<open>AuthMiddleware\<close> the canonical request and the middleware.  The cryptography, PEM and JSON
    are the record \<open>auth_lib\<close> of functions.  \<open>KeyManagerProps\<close> and \<open>AuthMiddlewareProps\<close> show
    that only requests signed by a current or previous key and sent by the bound principal
    are served, that none is served twice (but for one instant, a finding), that the
    signature covers every part of a request, and that a failing change of keys leaves
    everything as it was.

  \<^item> Answers and streams (\<open>route/httphelper\<close>).  \<open>HttpHelper\<close> models errors, bodies and the
    request log, \<open>WebSocket\<close> the handshake, the frames at byte level with Go's widths, and the
    reader goroutine of both event streams.  \<open>WebSocketProps\<close> shows the round trip of frames,
    their bounds and that the reader refines a function on the list of frames.
    \<open>PeerIdentity\<close> reads the credentials of a connection (\<open>route/pipectx\<close>) and follows them to
    everything that is done in the peer's name.

  \<^item> Events (\<open>core/events.go\<close>, \<open>route/sysproxyapi/sysproxy_events.go\<close>).  \<open>EventHub\<close> is the
    shared hub of bounded channels, \<open>CoreEvents\<close> and \<open>SysproxyEvents\<close> its two uses, with
    subscription cut where the lock is released.  \<open>EventStream\<close> is the handler of a client
    that follows events: two goroutines over one connection (\<open>stream_step\<close>), proved once in a
    locale for both hubs.

  \<^item> The core's configuration (\<open>core/launch.go\<close>, \<open>core/state_file.go\<close>, \<open>core/desired_state.go\<close>).
    \<open>LaunchProfile\<close> normalises profiles and builds arguments and environment, \<open>LaunchStore\<close>
    and \<open>DesiredState\<close> keep them on disk, \<open>StateFiles\<close> is the atomic replacement of a file
    with the outcome of each system call.

  \<^item> The core's output (\<open>core/log_writer.go\<close>, \<open>core/manager_logs.go\<close>).  \<open>LogWriter\<close> is the
    bounded log file, \<open>LogWatch\<close> the watchers that turn lines into events and start-up
    failures.

  \<^item> The core manager (\<open>core/manager*.go\<close>, \<open>core/runtime_state.go\<close>).  \<open>LaunchSession\<close> prepares a
    launch, \<open>CoreManager\<close> holds the state (\<open>core_world\<close>) and one function for each section
    under the manager's mutex, \<open>CoreTakeover\<close> the sections of takeover, notification and
    adoption.  \<open>CoreInvariant\<close> proves the invariant for each section, \<open>CoreMachine\<close> gives the
    step relation in which sections of different goroutines interleave, and
    \<open>CoreMachineProps\<close> the properties of every reachable state.  The operating system's
    answers are arguments of the sections.  \<open>StartupNotify\<close> is the transport of the start-up
    hook (\<open>core/startup_notify*.go\<close>) with the private endpoint of the controller;
    \<open>StartupNotifyProps\<close> shows that its token makes the round trip through the core and that
    creating a hook is all or nothing.

  \<^item> The core's process (\<open>core/process\<close>).  \<open>ProcessControl\<close> ends a process by polling it, sets
    priorities and quotes for the shell; \<open>CpuSets\<close> confines a process to CPUs by a control
    group or by the masks of its threads while threads start and end.  \<open>ProcessControlProps\<close>
    and \<open>CpuSetsProps\<close> show the round trip of CPU lists and that a change takes effect.

  \<^item> Launching (\<open>core/launcher*.go\<close>).  \<open>Launcher\<close> chooses between direct, sandboxed and automatic
    start, with the fallback and every clean-up; \<open>LauncherProps\<close> shows that a launch leaves one
    process with its resources or nothing.

  \<^item> The interface of the core (\<open>route/coreapi\<close>).  \<open>CoreApi\<close> composes the handlers with manager
    and store, \<open>ControllerProxy\<close> is the cache of transports that concurrent requests to the
    core's controller share, \<open>CoreApiProps\<close> shows that a core runs with the stored profile.

  \<^item> The service as a whole (\<open>route/server.go\<close>, \<open>route/route.go\<close>, \<open>service\<close>).  \<open>Interfaces\<close> holds
    contracts that several parts share, as locales that they interpret, \<open>Server\<close> starts and stops the
    service with all its parts, \<open>Router\<close> has the routes and the control of the platform's
    service.  \<open>ServerProps\<close> shows that a start ends with one private socket or none and that a
    stop stops everything.

  \<^item> Installation (\<open>cmd\<close>).  \<open>ServiceRuntime\<close> is the trusted copy that the service runs from,
    \<open>InitKeys\<close> and \<open>CommandLine\<close> the service commands.  \<open>ServiceRuntimeProps\<close> shows that only a
    copy with the right digest in directories of root is run, \<open>CommandLineProps\<close> that after a
    successful \<open>service init\<close> a started service has the given key and user.

  \<^item> The host.  \<open>Logger\<close> models the service's own log files and entries (\<open>log\<close>), \<open>SystemInfo\<close>
    what clients may ask about processors and set as name servers (\<open>sys\<close>, \<open>route/sysapi\<close>).

  \<^item> Windows and macOS.  Where the builds for other systems have logic of their own:
    \<open>WindowsProcess\<close> with the search for the tree below a process and the job of the core
    (\<open>WindowsProcessProps\<close>: exactly the descendants are ended), \<open>PipeFile\<close> and \<open>NamedPipe\<close> with
    closing, deadlines, listener and dialling of named pipes (\<open>listen\<close>), \<open>WindowsHost\<close> with
    processor masks and classes, \<open>WindowsAccess\<close> with access control lists, threads that act
    for a client and the peers of connections, \<open>DarwinForwarding\<close> with the switches of the
    gateway on macOS.

  \<^item> The sandbox of the core (\<open>core/sandbox\<close>).  \<open>SandboxPlan\<close> computes which paths are mounted
    and how, \<open>SandboxRoot\<close> mounts them, rolls back and removes what an earlier service left,
    \<open>SandboxLayout\<close> creates the root and its own directories.
    An error is possible at every system call: the functions of the record \<open>kernel\<close> get the
    number of the call.  \<open>SandboxPlanProps\<close> shows what can be written and that compaction
    refines a map from targets to modes, \<open>SandboxRootProps\<close> that preparing a root is all or
    nothing and that the roots of running services are spared.  \<open>SandboxReexec\<close> is the helper
    between service and core, from the hand-over of the configuration to \<open>exec\<close>, and the probe;
    \<open>SandboxReexecProps\<close> shows that the helper becomes the core in the prepared root or that the
    service reads why not.

  \<^item> The system proxy (\<open>route/sysproxyapi\<close>).  \<open>SysproxyGuard\<close> models the handlers, the guard's
    generations and rounds and the Linux runner; handlers and guards interleave at the
    mutation lock (\<open>guard_step\<close>).  \<open>SysproxyGuardProps\<close> shows that at most one guard is live
    and that a stopped guard changes nothing.

  \<^item> The LAN gateway (\<open>route/lanternapi\<close>).  \<open>Forwarding\<close> models the switches under \<open>/proc/sys\<close>
    and \<open>Lantern\<close> every handler of the manager; the answers of the \<open>lantern\<close> library come
    with each request.  \<open>ForwardingProps\<close> and \<open>LanternProps\<close> show that restoring undoes
    preparing, that a gateway needs a clean probe of its interface, and that after any
    sequence of requests a stop leaves the switches as they were.

  \<^bold>\<open>Time, fuel and bounds.\<close>  Loops are structural recursions or functions with a
  termination measure; no function takes fuel.
  Loops that wait (the polling of a process,
  the goroutine of the start-up hook, the rounds of a guard) run over the list of what the
  environment answers, one element a round.  Machine integers are words or integers with
  the wrap-around written out where the sources can overflow (the guard's generation, the
  log limit, the lengths of frames); elsewhere the values are bounded by the sizes of files
  and lists.

  \<^bold>\<open>Findings\<close> are lemmas next to the properties they limit: a replay at the boundary
  (\<open>replay_at_the_boundary\<close>), a legacy key that is half installed
  (\<open>legacy_key_half_installed\<close>), a smuggled environment variable (\<open>launch_env_smuggled\<close>), an
  event that overtakes the snapshot (\<open>core_snapshot_race\<close>), a stop that is lost during a
  restart (\<open>stop_lost_during_restart\<close>), a guard that undoes a disable
  (\<open>disable_undone_by_new_guard\<close>), repeated failures that are published
  (\<open>repeated_failures_published\<close>), a removal that descends into a mount
  (\<open>refused_unmount_emptied\<close>), a mount point cut at a blank (\<open>ideographic_space_cut\<close>), a core
  in the root directory (\<open>core_in_root_unconfined\<close>), an adopted core that stays confined
  (\<open>adopted_core_stays_confined\<close>), a retry of \<open>service init\<close> that skips the restart
  (\<open>init_retry_skips_restart\<close>), a copy of the service that others may write
  (\<open>new_copy_write_bits\<close>), a directory that is not sticky (\<open>sandbox_tmp_not_sticky\<close>), a link planted for the log (\<open>planted_link_followed\<close>), a
  close of a listener that gets lost (\<open>close_lost\<close>), a stranger that is ended with the core
  (\<open>recorded_child_terminated\<close>) and a thread that keeps a client's token
  (\<open>client_token_kept\<close>).

  \<^bold>\<open>Not modelled.\<close>  Of the builds for Windows and macOS the calls that are decided by those
  systems alone: the creation of pipe handles and the completion port (\<open>listen/namedpipe\<close>),
  process creation flags and priority classes, and the duplication of tokens beyond what is
  kept open; a model of them would be a made-up one.  Of the command line
  the argument tables of the command library, the texts of messages, and the commands
  \<open>sysproxy\<close> and \<open>server\<close>, which are calls of a library or of the service.  Of the logger the
  library that writes the lines, and log lines in general.  JSON encoding, cryptography, the
  reverse proxy, DHCP discovery, the proxy settings of desktops and HTTP routing belong to
  libraries and are parameters where a component depends on them.
\<close>

section \<open>Properties that span components\<close>

text \<open>What the configuration of a sandboxed launch allows to be written.\<close>

definition launch_writes :: "host \<Rightarrow> (string \<Rightarrow> (string, string) result) \<Rightarrow> launchSession \<Rightarrow> string \<Rightarrow> bool" where
  "launch_writes w resolve launch t \<longleftrightarrow>
     t \<in> {''/run/xtables.lock'', ''/proc''} \<union> set device_files \<or>
     (\<exists>exe. (exe = ls_executablePath launch \<or> resolve (ls_executablePath launch) = Inr exe) \<and>
        sandboxDirForPath w exe = Inr t \<and> \<not> pathWithin t ''/nix/store'') \<or>
     (\<exists>p\<in>set (SafePaths (ls_profile launch)). normalizeSandboxPath w p = Inr t) \<or>
     (\<exists>p\<in>set (writableDirsFromCoreArgs (ls_args launch)) \<union> {Dir (ls_hookUpFile launch)}. writableSandboxDir w p = Inr t)"

lemma sandbox_config_writes:
  assumes "may_write w resolve (sandbox_Config exe launch) t"
  shows "launch_writes w resolve launch t"
proof -
  have c: "cf_ExecutablePath (sandbox_Config exe launch) = ls_executablePath launch"
    "cf_WritablePaths (sandbox_Config exe launch) = SafePaths (ls_profile launch)"
    "set (cf_WritableDirs (sandbox_Config exe launch)) \<subseteq> set (writableDirsFromCoreArgs (ls_args launch)) \<union> {Dir (ls_hookUpFile launch)}"
    by (auto simp: sandbox_Config_def base_config_def)
  show ?thesis using assms c(3) unfolding may_write_def launch_writes_def c(1,2) by blast
qed


definition forced_session :: launchSession where
  "forced_session = LauncherProps.sample_session\<lparr>ls_profile := zeroProfile\<lparr>Mode := CoreRunModeSandbox\<rparr>\<rparr>"


end
